(* ===== verification/Prelude.thy ===== *)
theory Prelude
  imports Main "HOL-Library.AList" "HOL-Library.Char_ord" "HOL-Library.List_Lexorder"
begin

text \<open>
  Shared vocabulary of the development: Python strings, dictionaries and clock values, the
  sum type used for raised exceptions, and the generic facts the component theories rely on.

  A Python \<open>str\<close> is a \<^typ>\<open>string\<close>, one \<^typ>\<open>char\<close> per code point; code points above 255 are
  outside the model. A \<open>dict\<close> is an association list with \<open>AList.update\<close> as item assignment:
  an existing key keeps its position, a new key is appended, as CPython does. A \<open>datetime\<close>
  is an integer (microseconds since the epoch); only its order is used.
\<close>

section \<open>Types\<close>

type_synonym str = string
type_synonym datetime = int
type_synonym ('k, 'v) dict = "('k \<times> 'v) list"

named_theorems dict_simps \<open>lookup and update laws of dictionaries\<close>
named_theorems gate_simps \<open>unfolding rules of the deterministic gates\<close>

section \<open>Dictionaries\<close>

abbreviation dict_get :: "('k, 'v) dict \<Rightarrow> 'k \<Rightarrow> 'v option" where
  "dict_get d k \<equiv> map_of d k"

abbreviation dict_put :: "'k \<Rightarrow> 'v \<Rightarrow> ('k, 'v) dict \<Rightarrow> ('k, 'v) dict" where
  "dict_put k v d \<equiv> AList.update k v d"

abbreviation dict_keys :: "('k, 'v) dict \<Rightarrow> 'k list" where
  "dict_keys d \<equiv> map fst d"

abbreviation dict_ok :: "('k, 'v) dict \<Rightarrow> bool" where
  "dict_ok d \<equiv> distinct (map fst d)"

declare map_of_eq_Some_iff [simp del] Some_eq_map_of_iff [simp del]

lemma dict_get_put [dict_simps, simp]:
  "map_of (AList.update k v d) j = (if j = k then Some v else map_of d j)"
  by (simp add: update_conv')

lemma dict_ok_put [dict_simps, simp]: "dict_ok d \<Longrightarrow> dict_ok (AList.update k v d)"
  by (rule distinct_update)

lemma dict_keys_put [dict_simps, simp]:
  "fst ` set (AList.update k v d) = insert k (fst ` set d)"
  by (induction d) auto

lemma dict_put_absent: "k \<notin> set (dict_keys d) \<Longrightarrow> AList.update k v d = d @ [(k, v)]"
  by (induction d) auto

lemma map_of_Some_key: "map_of d k = Some v \<Longrightarrow> k \<in> set (dict_keys d)"
  by (metis domI dom_map_of_conv_image_fst image_set)

lemma dict_get_None [dict_simps]: "map_of d k = None \<longleftrightarrow> k \<notin> set (dict_keys d)"
  by (simp add: map_of_eq_None_iff)

lemma dict_get_absent [dict_simps]: "k \<notin> fst ` set d \<Longrightarrow> map_of d k = None"
  by (simp add: map_of_eq_None_iff)

lemma dict_get_present: "k \<in> fst ` set d \<longleftrightarrow> (\<exists>v. map_of d k = Some v)"
  by (metis dict_get_None image_set option.exhaust_sel option.distinct(1))

text \<open>\<open>d.update(other)\<close>: every item of the second dictionary is assigned in its order.\<close>

fun dict_merge :: "('k, 'v) dict \<Rightarrow> ('k, 'v) dict \<Rightarrow> ('k, 'v) dict" where
  "dict_merge d [] = d"
| "dict_merge d ((k, v) # rest) = dict_merge (AList.update k v d) rest"

lemma dict_merge_keys: "set (dict_keys (dict_merge d e)) = set (dict_keys d) \<union> set (dict_keys e)"
  by (induction d e rule: dict_merge.induct) auto

lemma map_filter_Some: "(\<And>x. x \<in> set xs \<Longrightarrow> f x = Some (g x)) \<Longrightarrow> List.map_filter f xs = map g xs"
  by (induction xs) (simp_all add: map_filter_simps)

section \<open>Strings\<close>

text \<open>The code points \<open>str.strip()\<close> removes, among the first 256.\<close>

definition py_space :: "char \<Rightarrow> bool" where
  "py_space c \<longleftrightarrow>
     (let n = (of_char c :: nat)
      in (9 \<le> n \<and> n \<le> 13) \<or> (28 \<le> n \<and> n \<le> 32) \<or> n = 133 \<or> n = 160)"

definition strip_by :: "(char \<Rightarrow> bool) \<Rightarrow> str \<Rightarrow> str" where
  "strip_by p s = rev (dropWhile p (rev (dropWhile p s)))"

definition py_strip :: "str \<Rightarrow> str" where
  "py_strip s = strip_by py_space s"

text \<open>\<open>not value.strip()\<close>\<close>

definition blank :: "str \<Rightarrow> bool" where
  "blank s \<longleftrightarrow> py_strip s = []"

lemma strip_by_Nil_iff: "strip_by p s = [] \<longleftrightarrow> (\<forall>c \<in> set s. p c)"
proof -
  have "strip_by p s = [] \<longleftrightarrow> (\<forall>c \<in> set (dropWhile p s). p c)"
    by (simp add: strip_by_def)
  also have "\<dots> \<longleftrightarrow> (\<forall>c \<in> set s. p c)"
    by (induction s) auto
  finally show ?thesis .
qed

lemma blank_iff: "blank s \<longleftrightarrow> (\<forall>c \<in> set s. py_space c)"
  by (simp add: blank_def py_strip_def strip_by_Nil_iff)

lemma blank_Nil [simp]: "blank []"
  by (simp add: blank_iff)

lemma not_blank_nonempty: "\<not> blank s \<Longrightarrow> s \<noteq> []"
  by auto

text \<open>The truth value of an optional string: present and not empty.\<close>

definition truthy :: "str option \<Rightarrow> bool" where
  "truthy s \<longleftrightarrow> s \<noteq> None \<and> s \<noteq> Some []"

lemma truthy_simps [simp]: "\<not> truthy None" "truthy (Some s) \<longleftrightarrow> s \<noteq> []"
  by (simp_all add: truthy_def)

definition digit_char :: "nat \<Rightarrow> char" where
  "digit_char n = char_of (48 + n)"

fun show_nat :: "nat \<Rightarrow> str" where
  "show_nat n = (if n < 10 then [digit_char n] else show_nat (n div 10) @ [digit_char (n mod 10)])"

declare show_nat.simps [simp del]

text \<open>\<open>f"{n:0wd}"\<close>\<close>

definition pad_nat :: "nat \<Rightarrow> nat \<Rightarrow> str" where
  "pad_nat w n = (let s = show_nat n in replicate (w - length s) (CHR ''0'') @ s)"

definition read_nat :: "str \<Rightarrow> nat" where
  "read_nat s = foldl (\<lambda>a c. a * 10 + (of_char c - 48)) 0 s"

lemma digit_char_value: "n < 10 \<Longrightarrow> (of_char (digit_char n) :: nat) - 48 = n"
  by (simp add: digit_char_def)

lemma read_show_nat [simp]: "read_nat (show_nat n) = n"
proof (induction n rule: show_nat.induct)
  case (1 n)
  show ?case
  proof (cases "n < 10")
    case True
    then show ?thesis
      by (simp add: show_nat.simps [of n] read_nat_def digit_char_value)
  next
    case False
    with "1.IH" have "read_nat (show_nat (n div 10)) = n div 10" by simp
    with False show ?thesis
      by (simp add: show_nat.simps [of n] read_nat_def digit_char_value)
  qed
qed

lemma show_nat_inj: "show_nat m = show_nat n \<longleftrightarrow> m = n"
  by (metis read_show_nat)

lemma read_zeros: "foldl (\<lambda>a c. a * 10 + (of_char c - 48)) (0::nat) (replicate k (CHR ''0'')) = 0"
  by (induction k) auto

lemma read_pad_nat [simp]: "read_nat (pad_nat w n) = n"
  using read_show_nat [of n] by (simp add: pad_nat_def read_nat_def Let_def read_zeros)

lemma pad_nat_inj: "pad_nat w m = pad_nat w n \<longleftrightarrow> m = n"
  by (metis read_pad_nat)

text \<open>\<open>sep.join(parts)\<close> for a one-character separator.\<close>

fun join_with :: "char \<Rightarrow> str list \<Rightarrow> str" where
  "join_with sep [] = []"
| "join_with sep [x] = x"
| "join_with sep (x # y # xs) = x @ sep # join_with sep (y # xs)"

lemma append_sep_inj:
  assumes "a \<notin> set xs" and "a \<notin> set ys" and "xs @ a # us = ys @ a # vs"
  shows "xs = ys \<and> us = vs"
  using assms
proof (induction xs arbitrary: ys)
  case Nil
  then show ?case by (cases ys) auto
next
  case (Cons x xs)
  then show ?case by (cases ys) auto
qed

lemma join_with_inj:
  assumes "length xs = length ys"
    and "\<forall>x \<in> set xs. sep \<notin> set x" and "\<forall>y \<in> set ys. sep \<notin> set y"
    and "join_with sep xs = join_with sep ys"
  shows "xs = ys"
  using assms
proof (induction sep xs arbitrary: ys rule: join_with.induct)
  case (1 sep)
  then show ?case by simp
next
  case (2 sep x)
  then show ?case by (cases ys) auto
next
  case (3 sep x y xs)
  then obtain a b zs where ys: "ys = a # b # zs"
    by (cases ys; cases "tl ys") auto
  with "3.prems" have "x @ sep # join_with sep (y # xs) = a @ sep # join_with sep (b # zs)"
    by simp
  then have "x = a \<and> join_with sep (y # xs) = join_with sep (b # zs)"
    by (rule append_sep_inj [rotated 2]) (use "3.prems" ys in auto)
  with "3.IH" [of "b # zs"] "3.prems" ys show ?case by simp
qed

text \<open>\<open>sep.join(parts)\<close> for a separator of any length.\<close>

fun join_str :: "str \<Rightarrow> str list \<Rightarrow> str" where
  "join_str sep [] = []"
| "join_str sep [x] = x"
| "join_str sep (x # y # xs) = x @ sep @ join_str sep (y # xs)"

section \<open>Lists\<close>

text \<open>\<open>tuple(dict.fromkeys(xs))\<close>: duplicates removed, first occurrences kept in order.\<close>

primrec dedup :: "'a list \<Rightarrow> 'a list" where
  "dedup [] = []"
| "dedup (x # xs) = x # removeAll x (dedup xs)"

lemma set_dedup [simp]: "set (dedup xs) = set xs"
  by (induction xs) auto

lemma dedup_Nil_iff [simp]: "dedup xs = [] \<longleftrightarrow> xs = []"
  by (cases xs) auto

lemma distinct_dedup [simp]: "distinct (dedup xs)"
  by (induction xs) (auto simp: distinct_removeAll)

text \<open>\<open>add_if b x\<close> is the list a conditional \<open>append\<close> adds.\<close>

definition add_if :: "bool \<Rightarrow> 'a \<Rightarrow> 'a list" where
  "add_if b x = (if b then [x] else [])"

lemma add_if_Nil_iff [simp]: "add_if b x = [] \<longleftrightarrow> \<not> b"
  by (simp add: add_if_def)

lemma set_add_if [simp]: "set (add_if b x) = (if b then {x} else {})"
  by (cases b) (simp_all add: add_if_def)

lemma add_if_simps [simp]: "add_if True x = [x]" "add_if False x = []"
  by (simp_all add: add_if_def)

text \<open>\<open>next((x for x in xs if p x), None)\<close> is \<open>List.find\<close>.\<close>

lemma find_Some_set: "List.find p xs = Some x \<Longrightarrow> x \<in> set xs \<and> p x"
  by (induction xs) (auto split: if_splits)

lemma find_None_iff2: "List.find p xs = None \<longleftrightarrow> (\<forall>x \<in> set xs. \<not> p x)"
  by (induction xs) auto

lemma filter_single_iff:
  "filter P xs = [a] \<longleftrightarrow> (\<exists>pre post. xs = pre @ a # post \<and> P a \<and> filter P (pre @ post) = [])"
proof
  assume "filter P xs = [a]"
  then obtain us vs where "xs = us @ a # vs" "\<forall>u \<in> set us. \<not> P u" "P a" "filter P vs = []"
    by (metis filter_eq_ConsD)
  then show "\<exists>pre post. xs = pre @ a # post \<and> P a \<and> filter P (pre @ post) = []"
    by (intro exI [of _ us] exI [of _ vs]) (auto simp: filter_empty_conv)
qed auto

lemma distinct_set_singleton: "distinct xs \<Longrightarrow> set xs = {a} \<Longrightarrow> xs = [a]"
proof (cases xs)
  case (Cons x ys)
  assume "distinct xs" "set xs = {a}"
  with Cons show ?thesis by (cases ys) auto
qed simp

text \<open>Sorted lists of distinct elements are determined by their set of elements.\<close>

lemma sort_set_eq:
  fixes xs ys :: "'a::linorder list"
  assumes "distinct xs" and "distinct ys" and "set xs = set ys"
  shows "sort xs = sort ys"
  using assms by (metis distinct_sort set_sort sorted_distinct_set_unique sorted_sort)

text \<open>A Boolean gate: the list of conditions that do not hold, in order.\<close>

definition failed_of :: "('c \<times> bool) list \<Rightarrow> 'c list" where
  "failed_of rs = map fst (filter (\<lambda>p. \<not> snd p) rs)"

lemma failed_of_Nil_iff [gate_simps]: "failed_of rs = [] \<longleftrightarrow> list_all snd rs"
  by (induction rs) (auto simp: failed_of_def)

lemma in_failed_of: "c \<in> set (failed_of rs) \<longleftrightarrow> (c, False) \<in> set rs"
  by (induction rs) (auto simp: failed_of_def)

lemma failed_of_simps [simp]:
  "failed_of [] = []"
  "failed_of ((c, b) # rs) = (if b then failed_of rs else c # failed_of rs)"
  by (simp_all add: failed_of_def)

end
