(* ===== verification/Models.thy ===== *)
theory Models
  imports Prelude
begin

text \<open>
  The typed domain models of \<open>src/driftzero/models/\<close>. Every Pydantic class is a record, every
  \<open>StrEnum\<close> a datatype with one constructor per member, and the declared \<open>Field\<close> constraints and
  field validators are the executable predicates \<open>valid_\<dots>\<close>. Constructing a model from data that
  fails them raises \<open>pydantic.ValidationError\<close>, which is \<open>validated\<close> returning
  \<open>Inl ValidationError\<close>; \<open>model_copy(update=\<dots>)\<close> is a plain record update, as Pydantic does not
  validate copies.
\<close>

section \<open>Classification and lineage (models/classification.py)\<close>

datatype classification_label = REAL | SYNTHETIC | DERIVED | SIMULATED

record lineage_entry =
  le_source_ref :: str
  le_source_classification :: "classification_label list"
  le_relationship :: str

record data_classification =
  dc_labels :: "classification_label list"
  dc_lineage :: "lineage_entry list"

definition valid_lineage_entry :: "lineage_entry \<Rightarrow> bool" where
  "valid_lineage_entry e \<longleftrightarrow> le_source_ref e \<noteq> [] \<and> le_relationship e \<noteq> []"

definition valid_classification :: "data_classification \<Rightarrow> bool" where
  "valid_classification c \<longleftrightarrow>
     dc_labels c \<noteq> [] \<and> distinct (dc_labels c) \<and> list_all valid_lineage_entry (dc_lineage c)"

definition has_label :: "data_classification \<Rightarrow> classification_label \<Rightarrow> bool" where
  "has_label c l \<longleftrightarrow> l \<in> set (dc_labels c)"

section \<open>Artifacts and changes (models/artifact.py, models/change.py)\<close>

record downstream_artifact =
  da_artifact_id :: str
  da_artifact_type :: str
  da_operation_id :: str
  da_requirement_id :: str
  da_current_value :: str
  da_content_ref :: str
  da_authorized_for_remediation :: bool
  da_requirements :: "(str, str) dict"
  da_data_classification :: data_classification

definition valid_artifact :: "downstream_artifact \<Rightarrow> bool" where
  "valid_artifact a \<longleftrightarrow>
     da_artifact_id a \<noteq> [] \<and> da_artifact_type a \<noteq> [] \<and> da_operation_id a \<noteq> [] \<and>
     da_requirement_id a \<noteq> [] \<and> da_current_value a \<noteq> [] \<and> da_content_ref a \<noteq> [] \<and>
     dict_ok (da_requirements a) \<and> valid_classification (da_data_classification a)"

record approved_change =
  ac_change_id :: str
  ac_source_procedure_id :: str
  ac_source_version :: str
  ac_previous_version :: str
  ac_operation_id :: str
  ac_requirement_id :: str
  ac_previous_value :: str
  ac_current_value :: str
  ac_authorized_scope :: "str list"
  ac_approved_status :: str
  ac_source_evidence_ref :: str
  ac_received_at :: datetime
  ac_data_classification :: data_classification

definition valid_change :: "approved_change \<Rightarrow> bool" where
  "valid_change c \<longleftrightarrow>
     ac_change_id c \<noteq> [] \<and> ac_source_procedure_id c \<noteq> [] \<and> ac_source_version c \<noteq> [] \<and>
     ac_previous_version c \<noteq> [] \<and> ac_operation_id c \<noteq> [] \<and> ac_requirement_id c \<noteq> [] \<and>
     ac_previous_value c \<noteq> [] \<and> ac_current_value c \<noteq> [] \<and> ac_approved_status c \<noteq> [] \<and>
     ac_source_evidence_ref c \<noteq> [] \<and> valid_classification (ac_data_classification c)"

record affected_artifact_candidate =
  cand_artifact_id :: str
  cand_impact_reason :: str
  cand_operation_match :: bool
  cand_instruction_correspondence :: bool
  cand_value_conflict :: bool
  cand_in_authorized_scope :: bool
  cand_is_affected :: bool

record change_set =
  cs_change_id :: str
  cs_source_procedure_id :: str
  cs_source_version :: str
  cs_operation_id :: str
  cs_requirement_id :: str
  cs_previous_value :: str
  cs_current_value :: str
  cs_authorized_scope :: "str list"
  cs_candidate_affected_artifacts :: "affected_artifact_candidate list"

definition valid_candidate :: "affected_artifact_candidate \<Rightarrow> bool" where
  "valid_candidate c \<longleftrightarrow> cand_artifact_id c \<noteq> [] \<and> cand_impact_reason c \<noteq> []"

definition valid_change_set :: "change_set \<Rightarrow> bool" where
  "valid_change_set c \<longleftrightarrow>
     cs_change_id c \<noteq> [] \<and> cs_source_procedure_id c \<noteq> [] \<and> cs_source_version c \<noteq> [] \<and>
     cs_operation_id c \<noteq> [] \<and> cs_requirement_id c \<noteq> [] \<and> cs_previous_value c \<noteq> [] \<and>
     cs_current_value c \<noteq> [] \<and> list_all valid_candidate (cs_candidate_affected_artifacts c)"

section \<open>Remediation evidence (models/remediation.py)\<close>

record mutation_evidence =
  me_artifact_id :: str
  me_before_ref :: str
  me_after_ref :: str
  me_before_hash :: str
  me_after_hash :: str
  me_before_value :: str
  me_after_value :: str
  me_patch_description :: str
  me_reconciled :: bool
  me_action_id :: str
  me_data_classification :: data_classification

record no_op_evidence =
  ne_artifact_id :: str
  ne_evaluated_artifact_ref :: str
  ne_evaluated_artifact_hash :: str
  ne_observed_value :: str
  ne_expected_value :: str
  ne_no_op_reason :: str
  ne_compliance_basis :: str
  ne_data_classification :: data_classification

text \<open>The union discriminated on \<open>remediation_type\<close>.\<close>

datatype remediation_evidence =
    MutationEvidence mutation_evidence
  | NoOpEvidence no_op_evidence

primrec re_artifact_id :: "remediation_evidence \<Rightarrow> str" where
  "re_artifact_id (MutationEvidence e) = me_artifact_id e"
| "re_artifact_id (NoOpEvidence e) = ne_artifact_id e"

definition valid_mutation_evidence :: "mutation_evidence \<Rightarrow> bool" where
  "valid_mutation_evidence e \<longleftrightarrow>
     me_artifact_id e \<noteq> [] \<and> me_before_ref e \<noteq> [] \<and> me_after_ref e \<noteq> [] \<and> me_before_hash e \<noteq> [] \<and>
     me_after_hash e \<noteq> [] \<and> me_before_value e \<noteq> [] \<and> me_after_value e \<noteq> [] \<and>
     me_patch_description e \<noteq> [] \<and> me_action_id e \<noteq> [] \<and>
     valid_classification (me_data_classification e)"

definition valid_no_op_evidence :: "no_op_evidence \<Rightarrow> bool" where
  "valid_no_op_evidence e \<longleftrightarrow>
     ne_artifact_id e \<noteq> [] \<and> ne_evaluated_artifact_ref e \<noteq> [] \<and> ne_evaluated_artifact_hash e \<noteq> [] \<and>
     ne_observed_value e \<noteq> [] \<and> ne_expected_value e \<noteq> [] \<and> ne_no_op_reason e \<noteq> [] \<and>
     ne_compliance_basis e \<noteq> [] \<and> valid_classification (ne_data_classification e)"

section \<open>Delivery (models/delivery.py)\<close>

record delivery_result =
  dr_worker_id :: str
  dr_delivery_mechanism :: str
  dr_delta_content :: str
  dr_delivered :: bool
  dr_delivery_evidence_ref :: str
  dr_training_video_ref :: "str option"

section \<open>Field verification (models/verification.py)\<close>

datatype observed_position = OBS_LEFT | OBS_TOP_RIGHT | OBS_INCONCLUSIVE

datatype verification_result = VR_PASS | VR_FAIL | VR_INCONCLUSIVE

text \<open>The \<open>StrEnum\<close> values and the lookup \<open>ObservedPosition(value)\<close>.\<close>

primrec position_value :: "observed_position \<Rightarrow> str" where
  "position_value OBS_LEFT = ''LEFT''"
| "position_value OBS_TOP_RIGHT = ''TOP_RIGHT''"
| "position_value OBS_INCONCLUSIVE = ''INCONCLUSIVE''"

definition position_of_value :: "str \<Rightarrow> observed_position option" where
  "position_of_value s =
     (if s = ''LEFT'' then Some OBS_LEFT
      else if s = ''TOP_RIGHT'' then Some OBS_TOP_RIGHT
      else if s = ''INCONCLUSIVE'' then Some OBS_INCONCLUSIVE
      else None)"

lemma position_of_value_iff: "position_of_value s = Some p \<longleftrightarrow> s = position_value p"
  by (cases p) (auto simp: position_of_value_def)

record field_observation =
  fo_submission_id :: str
  fo_raw_evidence_ref :: str
  fo_observed_label_position :: observed_position
  fo_confidence_note :: str

record verification_event =
  ve_event_id :: str
  ve_submission_id :: str
  ve_workflow_id :: str
  ve_event_sequence :: int
  ve_raw_evidence_ref :: str
  ve_derived_observation :: observed_position
  ve_expected_value :: str
  ve_verification_result :: verification_result
  ve_timestamp :: datetime
  ve_data_classification :: data_classification

definition valid_observation :: "field_observation \<Rightarrow> bool" where
  "valid_observation o' \<longleftrightarrow> fo_submission_id o' \<noteq> [] \<and> fo_raw_evidence_ref o' \<noteq> []"

definition valid_event :: "verification_event \<Rightarrow> bool" where
  "valid_event e \<longleftrightarrow>
     ve_event_id e \<noteq> [] \<and> ve_submission_id e \<noteq> [] \<and> ve_workflow_id e \<noteq> [] \<and>
     0 \<le> ve_event_sequence e \<and> ve_raw_evidence_ref e \<noteq> [] \<and> ve_expected_value e \<noteq> [] \<and>
     valid_classification (ve_data_classification e)"

section \<open>Workflow (models/workflow.py)\<close>

datatype workflow_state =
    CHANGE_RECEIVED | IMPACT_DETERMINED | REMEDIATION_PENDING | REVIEW_REQUIRED
  | REMEDIATION_COMPLETED | FRONTLINE_DELIVERY_COMPLETED | AWAITING_FIELD_VERIFICATION
  | VERIFICATION_INCONCLUSIVE | VERIFICATION_FAILED | VERIFICATION_PASSED
  | PROOF_COMPLETE | SUPERSEDED | FAILED

datatype state_category =
    PROGRESSIVE | BLOCKING_RECOVERABLE | BLOCKING_GATE | TERMINAL_SUCCESS | TERMINAL_NON_SUCCESS

primrec STATE_CATEGORY :: "workflow_state \<Rightarrow> state_category" where
  "STATE_CATEGORY CHANGE_RECEIVED = PROGRESSIVE"
| "STATE_CATEGORY IMPACT_DETERMINED = PROGRESSIVE"
| "STATE_CATEGORY REMEDIATION_PENDING = PROGRESSIVE"
| "STATE_CATEGORY REMEDIATION_COMPLETED = PROGRESSIVE"
| "STATE_CATEGORY FRONTLINE_DELIVERY_COMPLETED = PROGRESSIVE"
| "STATE_CATEGORY AWAITING_FIELD_VERIFICATION = PROGRESSIVE"
| "STATE_CATEGORY VERIFICATION_PASSED = PROGRESSIVE"
| "STATE_CATEGORY VERIFICATION_FAILED = BLOCKING_RECOVERABLE"
| "STATE_CATEGORY VERIFICATION_INCONCLUSIVE = BLOCKING_RECOVERABLE"
| "STATE_CATEGORY REVIEW_REQUIRED = BLOCKING_GATE"
| "STATE_CATEGORY PROOF_COMPLETE = TERMINAL_SUCCESS"
| "STATE_CATEGORY SUPERSEDED = TERMINAL_NON_SUCCESS"
| "STATE_CATEGORY FAILED = TERMINAL_NON_SUCCESS"

record workflow =
  wf_workflow_id :: str
  wf_change_id :: str
  wf_source_version :: str
  wf_state :: workflow_state
  wf_affected_artifact_id :: "str option"
  wf_impact_reason :: "str option"
  wf_candidate_artifact_refs :: "str list"
  wf_remediation_evidence :: "remediation_evidence option"
  wf_delivery_status :: "str option"
  wf_delivery_ref :: "str option"
  wf_worker_id :: str
  wf_verification_events :: "verification_event list"
  wf_latest_verification_status :: "verification_result option"
  wf_proof_id :: "str option"
  wf_created_at :: datetime
  wf_updated_at :: datetime
  wf_event_sequence :: int
  wf_data_classification :: data_classification

definition valid_workflow :: "workflow \<Rightarrow> bool" where
  "valid_workflow w \<longleftrightarrow>
     wf_workflow_id w \<noteq> [] \<and> wf_change_id w \<noteq> [] \<and> wf_source_version w \<noteq> [] \<and>
     wf_worker_id w \<noteq> [] \<and> 0 \<le> wf_event_sequence w \<and> valid_classification (wf_data_classification w)"

definition workflow_category :: "workflow \<Rightarrow> state_category" where
  "workflow_category w = STATE_CATEGORY (wf_state w)"

section \<open>Action ledger records (models/action.py)\<close>

datatype action_type =
  REMEDIATE_ARTIFACT | DELIVER_DELTA | PROCESS_FIELD_EVIDENCE | GENERATE_PROOF

datatype action_status = AS_PLANNED | AS_ATTEMPTED | AS_COMPLETED | AS_FAILED_OR_UNCERTAIN

record action_execution =
  ax_action_id :: str
  ax_workflow_id :: str
  ax_action_type :: action_type
  ax_status :: action_status
  ax_target_ref :: str
  ax_intent :: "(str, str) dict"
  ax_receipt_ref :: "str option"
  ax_outcome_evidence_ref :: "str option"
  ax_attempt_count :: int
  ax_reconciled :: bool
  ax_created_at :: datetime
  ax_updated_at :: datetime

definition valid_action :: "action_execution \<Rightarrow> bool" where
  "valid_action a \<longleftrightarrow>
     ax_action_id a \<noteq> [] \<and> ax_workflow_id a \<noteq> [] \<and> ax_target_ref a \<noteq> [] \<and> 0 \<le> ax_attempt_count a"

section \<open>Manifest and proof (models/proof.py)\<close>

record evidence_manifest =
  em_source_change_ref :: str
  em_affected_artifact_ref :: str
  em_remediation_evidence_refs :: "str list"
  em_rejected_result_refs :: "str list"
  em_delivery_ref :: str
  em_verification_refs :: "str list"
  em_state_transition_refs :: "str list"
  em_content_hashes :: "(str, str) dict"

definition valid_manifest :: "evidence_manifest \<Rightarrow> bool" where
  "valid_manifest m \<longleftrightarrow>
     em_source_change_ref m \<noteq> [] \<and> em_affected_artifact_ref m \<noteq> [] \<and> em_delivery_ref m \<noteq> []"

record change_proof =
  cp_proof_id :: str
  cp_workflow_id :: str
  cp_change_id :: str
  cp_source_procedure_id :: str
  cp_source_version :: str
  cp_previous_value :: str
  cp_current_value :: str
  cp_affected_artifact_id :: str
  cp_remediation_evidence :: remediation_evidence
  cp_delivery_status :: str
  cp_delivery_ref :: str
  cp_verification_result :: verification_result
  cp_verification_event_id :: str
  cp_worker_id :: str
  cp_evidence_manifest :: evidence_manifest
  cp_completion_timestamp :: datetime
  cp_content_hash :: str
  cp_data_classification :: data_classification

definition valid_proof :: "change_proof \<Rightarrow> bool" where
  "valid_proof p \<longleftrightarrow>
     cp_proof_id p \<noteq> [] \<and> cp_workflow_id p \<noteq> [] \<and> cp_change_id p \<noteq> [] \<and>
     cp_source_procedure_id p \<noteq> [] \<and> cp_source_version p \<noteq> [] \<and> cp_previous_value p \<noteq> [] \<and>
     cp_current_value p \<noteq> [] \<and> cp_affected_artifact_id p \<noteq> [] \<and> cp_delivery_status p \<noteq> [] \<and>
     cp_delivery_ref p \<noteq> [] \<and> cp_verification_event_id p \<noteq> [] \<and> cp_worker_id p \<noteq> [] \<and>
     cp_content_hash p \<noteq> [] \<and> valid_classification (cp_data_classification p)"

section \<open>Raised exceptions\<close>

datatype proof_condition =
    C1_SOURCE_CHANGE_APPLICABLE | C2_IMPACT_DETERMINED | C3_REMEDIATED_OR_NO_OP
  | C4_DELTA_DELIVERED | C5_LATEST_VERIFICATION_PASS | C6_EVIDENCE_TRACEABLE
  | C7_STATE_COMPATIBLE

text \<open>The exceptions the modelled code raises, with the data they carry.\<close>

datatype exn =
    ValidationError
  | AssertionError
  | KeyError
  | StopIteration
  | ValueError str
  | IllegalTransitionError workflow_state workflow_state
  | DuplicateActionError str
  | UnknownActionError str
  | AmbiguousChronologyError str int
  | UnnormalizedObservationError str
  | ProofGenerationError "proof_condition list"
  | ProofStorageError str
  | SourceIngestionError
  | CapabilityDenied str
  | DeliveryNotAuthorized
  | DeliveryDispatchError
  | ConfigurationError
  | AttributeError
  | IndexError

type_synonym 'a res = "exn + 'a"

definition validated :: "('a \<Rightarrow> bool) \<Rightarrow> 'a \<Rightarrow> 'a res" where
  "validated P x = (if P x then Inr x else Inl ValidationError)"

lemma validated_Inr_iff [simp]: "validated P x = Inr y \<longleftrightarrow> P x \<and> y = x"
  by (auto simp: validated_def)

fun res_bind :: "'a res \<Rightarrow> ('a \<Rightarrow> 'b res) \<Rightarrow> 'b res" where
  "res_bind (Inl e) f = Inl e"
| "res_bind (Inr x) f = f x"

lemma res_bind_Inr_iff: "res_bind r f = Inr y \<longleftrightarrow> (\<exists>x. r = Inr x \<and> f x = Inr y)"
  by (cases r) auto

end
