(* ===== verification/Samples.thy ===== *)
theory Samples
  imports Models
begin

text \<open>
  Concrete records the witnesses evaluate: one approved change (the hero change of the
  repository's fixtures, a label moved from LEFT to TOP_RIGHT), one artifact, one workflow.
\<close>

definition sample_artifact :: "str \<Rightarrow> str \<Rightarrow> downstream_artifact" where
  "sample_artifact i v =
     \<lparr>da_artifact_id = i, da_artifact_type = ''sop'', da_operation_id = ''op-1'',
      da_requirement_id = ''req-1'', da_current_value = v, da_content_ref = ''mem://a'',
      da_authorized_for_remediation = True, da_requirements = [(''req-1'', v), (''req-2'', ''42'')],
      da_data_classification = \<lparr>dc_labels = [SYNTHETIC], dc_lineage = []\<rparr>\<rparr>"

definition sample_change :: "str list \<Rightarrow> approved_change" where
  "sample_change scope =
     \<lparr>ac_change_id = ''chg-1'', ac_source_procedure_id = ''proc-1'', ac_source_version = ''v8'',
      ac_previous_version = ''v7'', ac_operation_id = ''op-1'', ac_requirement_id = ''req-1'',
      ac_previous_value = ''LEFT'', ac_current_value = ''TOP_RIGHT'', ac_authorized_scope = scope,
      ac_approved_status = ''APPROVED'', ac_source_evidence_ref = ''ev-1'', ac_received_at = 0,
      ac_data_classification = \<lparr>dc_labels = [SYNTHETIC], dc_lineage = []\<rparr>\<rparr>"

definition sample_candidate :: "str \<Rightarrow> bool \<Rightarrow> affected_artifact_candidate" where
  "sample_candidate i b =
     \<lparr>cand_artifact_id = i, cand_impact_reason = ''r'', cand_operation_match = b,
      cand_instruction_correspondence = b, cand_value_conflict = b, cand_in_authorized_scope = b,
      cand_is_affected = b\<rparr>"

definition sample_workflow :: "workflow_state \<Rightarrow> workflow" where
  "sample_workflow s =
     \<lparr>wf_workflow_id = ''wf-1'', wf_change_id = ''chg-1'', wf_source_version = ''v8'',
      wf_state = s, wf_affected_artifact_id = None, wf_impact_reason = None,
      wf_candidate_artifact_refs = [], wf_remediation_evidence = None,
      wf_delivery_status = None, wf_delivery_ref = None, wf_worker_id = ''worker-1'',
      wf_verification_events = [], wf_latest_verification_status = None, wf_proof_id = None,
      wf_created_at = 0, wf_updated_at = 0, wf_event_sequence = 0,
      wf_data_classification = \<lparr>dc_labels = [SYNTHETIC], dc_lineage = []\<rparr>\<rparr>"

end
