(* ===== verification/State_Machine.thy ===== *)
theory State_Machine
  imports Samples
begin

text \<open>
  The canonical transition matrix and its enforcement (\<open>truth_engine/state_machine.py\<close>) and the
  supersession rule built on it (\<open>truth_engine/supersession.py\<close>). \<open>transition\<close> is the only
  operation that changes a workflow's state; a run is a list of requested states with their
  times, and the lemmas characterise which runs can end in \<open>PROOF_COMPLETE\<close>.
\<close>

section \<open>The transition matrix\<close>

definition TERMINAL_STATES :: "workflow_state set" where
  "TERMINAL_STATES = {PROOF_COMPLETE, SUPERSEDED, FAILED}"

primrec LEGAL_TRANSITIONS :: "workflow_state \<Rightarrow> workflow_state set" where
  "LEGAL_TRANSITIONS CHANGE_RECEIVED = {IMPACT_DETERMINED, SUPERSEDED, FAILED}"
| "LEGAL_TRANSITIONS IMPACT_DETERMINED =
     {REMEDIATION_PENDING, REVIEW_REQUIRED, SUPERSEDED, FAILED}"
| "LEGAL_TRANSITIONS REMEDIATION_PENDING =
     {REMEDIATION_COMPLETED, REVIEW_REQUIRED, SUPERSEDED, FAILED}"
| "LEGAL_TRANSITIONS REMEDIATION_COMPLETED = {FRONTLINE_DELIVERY_COMPLETED, SUPERSEDED, FAILED}"
| "LEGAL_TRANSITIONS FRONTLINE_DELIVERY_COMPLETED =
     {AWAITING_FIELD_VERIFICATION, SUPERSEDED, FAILED}"
| "LEGAL_TRANSITIONS AWAITING_FIELD_VERIFICATION =
     {VERIFICATION_PASSED, VERIFICATION_FAILED, VERIFICATION_INCONCLUSIVE, SUPERSEDED, FAILED}"
| "LEGAL_TRANSITIONS VERIFICATION_PASSED = {PROOF_COMPLETE, SUPERSEDED, FAILED}"
| "LEGAL_TRANSITIONS VERIFICATION_FAILED = {AWAITING_FIELD_VERIFICATION, SUPERSEDED, FAILED}"
| "LEGAL_TRANSITIONS VERIFICATION_INCONCLUSIVE =
     {AWAITING_FIELD_VERIFICATION, SUPERSEDED, FAILED}"
| "LEGAL_TRANSITIONS REVIEW_REQUIRED = {SUPERSEDED, FAILED}"
| "LEGAL_TRANSITIONS PROOF_COMPLETE = {}"
| "LEGAL_TRANSITIONS SUPERSEDED = {}"
| "LEGAL_TRANSITIONS FAILED = {}"

definition REVIEW_REQUIRED_FORBIDDEN_EXITS :: "workflow_state set" where
  "REVIEW_REQUIRED_FORBIDDEN_EXITS =
     {REMEDIATION_PENDING, REMEDIATION_COMPLETED, FRONTLINE_DELIVERY_COMPLETED,
      AWAITING_FIELD_VERIFICATION, VERIFICATION_PASSED, PROOF_COMPLETE}"

text \<open>The three explanations \<open>IllegalTransitionError\<close> can carry.\<close>

datatype transition_reason = TerminalHasNoExits | ReviewHasNoAutonomousExit | NotALegalTarget

definition illegal_transition_reason :: "workflow_state \<Rightarrow> workflow_state \<Rightarrow> transition_reason"
where
  "illegal_transition_reason current requested =
     (if current \<in> TERMINAL_STATES then TerminalHasNoExits
      else if current = REVIEW_REQUIRED \<and> requested \<in> REVIEW_REQUIRED_FORBIDDEN_EXITS
      then ReviewHasNoAutonomousExit
      else NotALegalTarget)"

definition legal_targets :: "workflow_state \<Rightarrow> workflow_state set" where
  "legal_targets s = LEGAL_TRANSITIONS s"

definition is_terminal :: "workflow_state \<Rightarrow> bool" where
  "is_terminal s \<longleftrightarrow> s \<in> TERMINAL_STATES"

definition can_transition :: "workflow_state \<Rightarrow> workflow_state \<Rightarrow> bool" where
  "can_transition s t \<longleftrightarrow> t \<in> LEGAL_TRANSITIONS s"

definition assert_transition_allowed :: "workflow_state \<Rightarrow> workflow_state \<Rightarrow> unit res" where
  "assert_transition_allowed s t =
     (if can_transition s t then Inr () else Inl (IllegalTransitionError s t))"

definition transition :: "workflow \<Rightarrow> workflow_state \<Rightarrow> datetime \<Rightarrow> workflow res" where
  "transition w s t =
     (case assert_transition_allowed (wf_state w) s of
        Inl e \<Rightarrow> Inl e
      | Inr _ \<Rightarrow> Inr (w\<lparr>wf_state := s, wf_updated_at := t\<rparr>))"

section \<open>Supersession\<close>

definition is_applicable_successor :: "approved_change \<Rightarrow> approved_change \<Rightarrow> bool" where
  "is_applicable_successor current incoming \<longleftrightarrow>
     ac_source_procedure_id current = ac_source_procedure_id incoming \<and>
     ac_operation_id current = ac_operation_id incoming \<and>
     ac_requirement_id current = ac_requirement_id incoming \<and>
     ac_previous_version incoming = ac_source_version current \<and>
     ac_source_version incoming \<noteq> ac_source_version current"

definition is_supersedable :: "workflow \<Rightarrow> bool" where
  "is_supersedable w \<longleftrightarrow> \<not> is_terminal (wf_state w)"

definition should_supersede :: "workflow \<Rightarrow> approved_change \<Rightarrow> approved_change \<Rightarrow> bool" where
  "should_supersede w current incoming \<longleftrightarrow>
     is_supersedable w \<and> is_applicable_successor current incoming"

definition supersede :: "workflow \<Rightarrow> datetime \<Rightarrow> workflow res" where
  "supersede w t = transition w SUPERSEDED t"

section \<open>One transition\<close>

lemma can_transition_irrefl [simp]: "\<not> can_transition s s"
  by (cases s) (simp_all add: can_transition_def)

lemma terminal_iff_no_targets: "is_terminal s \<longleftrightarrow> legal_targets s = {}"
  by (cases s) (simp_all add: is_terminal_def TERMINAL_STATES_def legal_targets_def)

lemma transition_Inr_iff:
  "transition w s t = Inr w' \<longleftrightarrow>
     can_transition (wf_state w) s \<and> w' = w\<lparr>wf_state := s, wf_updated_at := t\<rparr>"
  by (auto simp: transition_def assert_transition_allowed_def)

lemma transition_Inl_iff:
  "transition w s t = Inl e \<longleftrightarrow>
     \<not> can_transition (wf_state w) s \<and> e = IllegalTransitionError (wf_state w) s"
  by (auto simp: transition_def assert_transition_allowed_def)

lemma review_forbidden_exits_illegal:
  "s \<in> REVIEW_REQUIRED_FORBIDDEN_EXITS \<Longrightarrow> \<not> can_transition REVIEW_REQUIRED s"
  by (auto simp: REVIEW_REQUIRED_FORBIDDEN_EXITS_def can_transition_def)

lemma can_always_stop:
  "\<not> is_terminal s \<Longrightarrow> can_transition s SUPERSEDED \<and> can_transition s FAILED"
  by (cases s) (simp_all add: is_terminal_def TERMINAL_STATES_def can_transition_def)

lemma terminal_stuck: "is_terminal s \<Longrightarrow> \<not> can_transition s t"
  by (auto simp: terminal_iff_no_targets legal_targets_def can_transition_def)

text \<open>Which steps enter a given state.\<close>

lemma into_proof_complete: "can_transition s PROOF_COMPLETE \<longleftrightarrow> s = VERIFICATION_PASSED"
  by (cases s) (simp_all add: can_transition_def)

lemma into_passed: "can_transition s VERIFICATION_PASSED \<longleftrightarrow> s = AWAITING_FIELD_VERIFICATION"
  by (cases s) (simp_all add: can_transition_def)

section \<open>Runs\<close>

text \<open>A run applies a list of requested transitions and stops at the first refusal.\<close>

fun run_transitions :: "workflow \<Rightarrow> (workflow_state \<times> datetime) list \<Rightarrow> workflow res" where
  "run_transitions w [] = Inr w"
| "run_transitions w ((s, t) # rest) =
     (case transition w s t of Inl e \<Rightarrow> Inl e | Inr w' \<Rightarrow> run_transitions w' rest)"

fun legal_path :: "workflow_state \<Rightarrow> workflow_state list \<Rightarrow> bool" where
  "legal_path s [] = True"
| "legal_path s (t # ts) = (can_transition s t \<and> legal_path t ts)"

lemma run_transitions_path:
  "run_transitions w rs = Inr w' \<Longrightarrow>
     legal_path (wf_state w) (map fst rs) \<and> wf_state w' = last (wf_state w # map fst rs)"
proof (induction w rs rule: run_transitions.induct)
  case (1 w)
  then show ?case by simp
next
  case (2 w s t rest)
  then show ?case
    by (auto simp: transition_Inr_iff transition_Inl_iff split: sum.splits)
qed

lemma run_transitions_frame:
  "run_transitions w rs = Inr w' \<Longrightarrow>
     \<exists>t. w' = w\<lparr>wf_state := wf_state w', wf_updated_at := t\<rparr>"
proof (induction w rs rule: run_transitions.induct)
  case (1 w)
  then have "w' = w\<lparr>wf_state := wf_state w', wf_updated_at := wf_updated_at w\<rparr>" by simp
  then show ?case ..
next
  case (2 w s t rest)
  then obtain w1 where w1: "transition w s t = Inr w1" and run: "run_transitions w1 rest = Inr w'"
    by (auto split: sum.splits)
  from "2.IH" [OF w1 run] obtain t' where
    "w' = w1\<lparr>wf_state := wf_state w', wf_updated_at := t'\<rparr>" by blast
  moreover from w1 have "w1 = w\<lparr>wf_state := s, wf_updated_at := t\<rparr>"
    by (simp add: transition_Inr_iff)
  ultimately have "w' = w\<lparr>wf_state := wf_state w', wf_updated_at := t'\<rparr>"
    by simp
  then show ?case ..
qed

text \<open>
  A retry is one recoverable non-pass verdict followed by a return to
  \<open>AWAITING_FIELD_VERIFICATION\<close>.
\<close>

definition retries :: "workflow_state list \<Rightarrow> workflow_state list" where
  "retries vs = concat (map (\<lambda>v. [v, AWAITING_FIELD_VERIFICATION]) vs)"

lemma retries_simps [simp]:
  "retries [] = []"
  "retries (v # vs) = v # AWAITING_FIELD_VERIFICATION # retries vs"
  by (simp_all add: retries_def)

lemma path_to_proof_from_passed:
  assumes "legal_path VERIFICATION_PASSED ss" and "last (VERIFICATION_PASSED # ss) = PROOF_COMPLETE"
  shows "ss = [PROOF_COMPLETE]"
  using assms by (cases ss; cases "tl ss") (auto simp: can_transition_def)

lemma path_to_proof_from_stopped:
  assumes "s \<in> {REVIEW_REQUIRED, SUPERSEDED, FAILED}" and "legal_path s ss"
  shows "last (s # ss) \<noteq> PROOF_COMPLETE"
  using assms by (cases ss; cases "tl ss") (auto simp: can_transition_def)

lemma path_to_proof_from_awaiting:
  assumes "legal_path AWAITING_FIELD_VERIFICATION ss"
    and "last (AWAITING_FIELD_VERIFICATION # ss) = PROOF_COMPLETE"
  shows "\<exists>vs. ss = retries vs @ [VERIFICATION_PASSED, PROOF_COMPLETE] \<and>
    set vs \<subseteq> {VERIFICATION_FAILED, VERIFICATION_INCONCLUSIVE}"
  using assms
proof (induction ss rule: induct_list012)
  case 1
  then show ?case by simp
next
  case (2 x)
  then show ?case by (auto simp: can_transition_def)
next
  case (3 x y zs)
  have x: "can_transition AWAITING_FIELD_VERIFICATION x" and path: "legal_path x (y # zs)"
    and end_proof: "last (x # y # zs) = PROOF_COMPLETE"
    using "3.prems" by simp_all
  consider "x = VERIFICATION_PASSED" | "x \<in> {VERIFICATION_FAILED, VERIFICATION_INCONCLUSIVE}"
    | "x \<in> {REVIEW_REQUIRED, SUPERSEDED, FAILED}"
    using x by (auto simp: can_transition_def)
  then show ?case
  proof cases
    case 1
    have "y # zs = [PROOF_COMPLETE]"
      by (rule path_to_proof_from_passed) (use path end_proof 1 in \<open>simp_all only:\<close>)
    with 1 show ?thesis by (intro exI [of _ "[]"]) simp
  next
    case 2
    show ?thesis
    proof (cases "y = AWAITING_FIELD_VERIFICATION")
      case True
      have "legal_path AWAITING_FIELD_VERIFICATION zs"
        and "last (AWAITING_FIELD_VERIFICATION # zs) = PROOF_COMPLETE"
        using path end_proof True by simp_all
      from "3.IH"(1) [OF this] obtain vs where
        "zs = retries vs @ [VERIFICATION_PASSED, PROOF_COMPLETE]"
        "set vs \<subseteq> {VERIFICATION_FAILED, VERIFICATION_INCONCLUSIVE}" by blast
      with True 2 show ?thesis by (intro exI [of _ "x # vs"]) auto
    next
      case False
      with 2 path have "y \<in> {REVIEW_REQUIRED, SUPERSEDED, FAILED}"
        by (auto simp: can_transition_def)
      moreover have "legal_path y zs" and "last (y # zs) = PROOF_COMPLETE"
        using path end_proof by simp_all
      ultimately show ?thesis using path_to_proof_from_stopped by blast
    qed
  next
    case 3
    moreover have "last (x # y # zs) = PROOF_COMPLETE" using end_proof .
    ultimately show ?thesis using path_to_proof_from_stopped [OF _ path] by blast
  qed
qed

text \<open>One step of the progressive prefix: the only exit that can still reach the proof.\<close>

lemma path_to_proof_step:
  assumes "legal_path s ss" and "last (s # ss) = PROOF_COMPLETE"
    and "LEGAL_TRANSITIONS s \<subseteq> {n, REVIEW_REQUIRED, SUPERSEDED, FAILED}"
    and "s \<noteq> PROOF_COMPLETE"
  obtains rest where "ss = n # rest" and "legal_path n rest" and "last (n # rest) = PROOF_COMPLETE"
proof (cases ss)
  case Nil
  with assms(2,4) have False by simp
  then show ?thesis ..
next
  case (Cons x rest)
  from assms(1) Cons have step: "can_transition s x" and path: "legal_path x rest" by simp_all
  from assms(2) Cons have goal: "last (x # rest) = PROOF_COMPLETE" by simp
  from step assms(3) have "x \<in> {n, REVIEW_REQUIRED, SUPERSEDED, FAILED}"
    unfolding can_transition_def by blast
  moreover have "x \<notin> {REVIEW_REQUIRED, SUPERSEDED, FAILED}"
    using path_to_proof_from_stopped [OF _ path] goal by blast
  ultimately have "x = n" by blast
  with Cons path goal that [of rest] show ?thesis by simp
qed

lemma path_to_proof:
  assumes "legal_path CHANGE_RECEIVED ss" and "last (CHANGE_RECEIVED # ss) = PROOF_COMPLETE"
  shows "\<exists>vs. ss = [IMPACT_DETERMINED, REMEDIATION_PENDING, REMEDIATION_COMPLETED,
                     FRONTLINE_DELIVERY_COMPLETED, AWAITING_FIELD_VERIFICATION]
                    @ retries vs @ [VERIFICATION_PASSED, PROOF_COMPLETE]
    \<and> set vs \<subseteq> {VERIFICATION_FAILED, VERIFICATION_INCONCLUSIVE}"
proof -
  obtain s1 where 1: "ss = IMPACT_DETERMINED # s1" "legal_path IMPACT_DETERMINED s1"
    "last (IMPACT_DETERMINED # s1) = PROOF_COMPLETE"
    by (rule path_to_proof_step [OF assms, of IMPACT_DETERMINED]) simp_all
  obtain s2 where 2: "s1 = REMEDIATION_PENDING # s2" "legal_path REMEDIATION_PENDING s2"
    "last (REMEDIATION_PENDING # s2) = PROOF_COMPLETE"
    by (rule path_to_proof_step [OF 1(2,3), of REMEDIATION_PENDING]) simp_all
  obtain s3 where 3: "s2 = REMEDIATION_COMPLETED # s3" "legal_path REMEDIATION_COMPLETED s3"
    "last (REMEDIATION_COMPLETED # s3) = PROOF_COMPLETE"
    by (rule path_to_proof_step [OF 2(2,3), of REMEDIATION_COMPLETED]) simp_all
  obtain s4 where 4: "s3 = FRONTLINE_DELIVERY_COMPLETED # s4"
    "legal_path FRONTLINE_DELIVERY_COMPLETED s4"
    "last (FRONTLINE_DELIVERY_COMPLETED # s4) = PROOF_COMPLETE"
    by (rule path_to_proof_step [OF 3(2,3), of FRONTLINE_DELIVERY_COMPLETED]) simp_all
  obtain s5 where 5: "s4 = AWAITING_FIELD_VERIFICATION # s5"
    "legal_path AWAITING_FIELD_VERIFICATION s5"
    "last (AWAITING_FIELD_VERIFICATION # s5) = PROOF_COMPLETE"
    by (rule path_to_proof_step [OF 4(2,3), of AWAITING_FIELD_VERIFICATION]) simp_all
  from path_to_proof_from_awaiting [OF 5(2,3)] obtain vs where
    "s5 = retries vs @ [VERIFICATION_PASSED, PROOF_COMPLETE]"
    "set vs \<subseteq> {VERIFICATION_FAILED, VERIFICATION_INCONCLUSIVE}" by blast
  with 1(1) 2(1) 3(1) 4(1) 5(1) show ?thesis by (intro exI [of _ vs]) simp
qed

section \<open>The step relation and its invariants\<close>

inductive wf_step :: "workflow \<Rightarrow> workflow \<Rightarrow> bool" where
  moved: "transition w s t = Inr w' \<Longrightarrow> wf_step w w'"

inductive_cases wf_stepE: "wf_step w w'"

inductive_simps wf_step_iff: "wf_step w w'"

inductive wf_reach :: "workflow \<Rightarrow> workflow \<Rightarrow> bool" where
  unchanged: "wf_reach w w"
| later: "wf_reach w v \<Longrightarrow> wf_step v u \<Longrightarrow> wf_reach w u"

lemma wf_step_states: "wf_step w w' \<Longrightarrow> can_transition (wf_state w) (wf_state w')"
  by (auto elim!: wf_stepE simp: transition_Inr_iff)

text \<open>The states no run leaves: once entered, the workflow can never be completed.\<close>

definition dead_end :: "workflow_state \<Rightarrow> bool" where
  "dead_end s \<longleftrightarrow> s \<in> {REVIEW_REQUIRED, SUPERSEDED, FAILED}"

lemma dead_end_step: "wf_step w w' \<Longrightarrow> dead_end (wf_state w) \<Longrightarrow> dead_end (wf_state w')"
  by (drule wf_step_states) (auto simp: dead_end_def can_transition_def)

lemma dead_end_reach: "wf_reach w w' \<Longrightarrow> dead_end (wf_state w) \<Longrightarrow> dead_end (wf_state w')"
  by (induction rule: wf_reach.induct) (auto intro: dead_end_step)

text \<open>
  Progress measure: every legal step either moves strictly down or is the retry edge back to
  \<open>AWAITING_FIELD_VERIFICATION\<close>.
\<close>

primrec distance :: "workflow_state \<Rightarrow> nat" where
  "distance CHANGE_RECEIVED = 8"
| "distance IMPACT_DETERMINED = 7"
| "distance REMEDIATION_PENDING = 6"
| "distance REMEDIATION_COMPLETED = 5"
| "distance FRONTLINE_DELIVERY_COMPLETED = 4"
| "distance AWAITING_FIELD_VERIFICATION = 3"
| "distance VERIFICATION_FAILED = 2"
| "distance VERIFICATION_INCONCLUSIVE = 2"
| "distance VERIFICATION_PASSED = 2"
| "distance REVIEW_REQUIRED = 1"
| "distance PROOF_COMPLETE = 0"
| "distance SUPERSEDED = 0"
| "distance FAILED = 0"

lemma distance_step:
  "can_transition s t \<Longrightarrow> distance t < distance s \<or>
     (t = AWAITING_FIELD_VERIFICATION \<and> s \<in> {VERIFICATION_FAILED, VERIFICATION_INCONCLUSIVE})"
  by (cases s) (auto simp: can_transition_def)

lemma path_length_bound:
  "legal_path s ss \<Longrightarrow>
     length ss \<le> distance s +
       2 * count_list (s # ss) VERIFICATION_FAILED + 2 * count_list (s # ss) VERIFICATION_INCONCLUSIVE"
proof (induction ss arbitrary: s)
  case Nil
  then show ?case by simp
next
  case (Cons t ts)
  then have st: "can_transition s t" and path: "legal_path t ts" by simp_all
  from Cons.IH [OF path] distance_step [OF st] show ?case
    by (cases s) (auto split: if_splits)
qed

section \<open>Properties\<close>

text \<open>C18. There is one way to a Change Proof. A sequence of requested transitions that the state
  machine accepts and that leads from \<open>CHANGE_RECEIVED\<close> to \<open>PROOF_COMPLETE\<close> visits the five
  progressive states in order, then any number of failed or inconclusive verdicts each followed by
  a return to \<open>AWAITING_FIELD_VERIFICATION\<close>, then the pass and the proof; nothing is skipped. The
  run changes no field of the workflow other than its state and its update time.\<close>

theorem only_path_to_proof:
  assumes "run_transitions w rs = Inr w'"
    and "wf_state w = CHANGE_RECEIVED" and "wf_state w' = PROOF_COMPLETE"
  shows "\<exists>vs t. map fst rs =
      [IMPACT_DETERMINED, REMEDIATION_PENDING, REMEDIATION_COMPLETED,
       FRONTLINE_DELIVERY_COMPLETED, AWAITING_FIELD_VERIFICATION] @
      retries vs @ [VERIFICATION_PASSED, PROOF_COMPLETE] \<and>
    set vs \<subseteq> {VERIFICATION_FAILED, VERIFICATION_INCONCLUSIVE} \<and>
    w' = w\<lparr>wf_state := PROOF_COMPLETE, wf_updated_at := t\<rparr>"
  using path_to_proof [of "map fst rs"] run_transitions_path [OF assms(1)]
    run_transitions_frame [OF assms(1)] assms(2,3) by (simp only: conj_ac) metis

theorem only_path_to_proof_witness:
  "\<exists>vs t. map fst [(IMPACT_DETERMINED, 1), (REMEDIATION_PENDING, 2), (REMEDIATION_COMPLETED, 3),
      (FRONTLINE_DELIVERY_COMPLETED, 4), (AWAITING_FIELD_VERIFICATION, 5),
      (VERIFICATION_FAILED, 6), (AWAITING_FIELD_VERIFICATION, 7), (VERIFICATION_PASSED, 8),
      (PROOF_COMPLETE, 9::datetime)] =
      [IMPACT_DETERMINED, REMEDIATION_PENDING, REMEDIATION_COMPLETED,
       FRONTLINE_DELIVERY_COMPLETED, AWAITING_FIELD_VERIFICATION] @
      retries vs @ [VERIFICATION_PASSED, PROOF_COMPLETE] \<and>
    set vs \<subseteq> {VERIFICATION_FAILED, VERIFICATION_INCONCLUSIVE} \<and>
    (sample_workflow CHANGE_RECEIVED)\<lparr>wf_state := PROOF_COMPLETE, wf_updated_at := 9\<rparr> =
    (sample_workflow CHANGE_RECEIVED)\<lparr>wf_state := PROOF_COMPLETE, wf_updated_at := t\<rparr>"
  by (rule only_path_to_proof)
    (simp_all add: sample_workflow_def transition_def assert_transition_allowed_def
      can_transition_def)

text \<open>Review, supersession and failure are final for the proof: from a workflow in one of these
  states no sequence of accepted transitions, of any length, reaches \<open>PROOF_COMPLETE\<close>, nor any of
  the states the review gate forbids.\<close>

theorem dead_ends_never_complete:
  assumes "wf_reach w w'" and "dead_end (wf_state w)"
  shows "wf_state w' \<noteq> PROOF_COMPLETE \<and> wf_state w' \<notin> REVIEW_REQUIRED_FORBIDDEN_EXITS"
  using dead_end_reach [OF assms] by (auto simp: dead_end_def REVIEW_REQUIRED_FORBIDDEN_EXITS_def)

theorem dead_ends_never_complete_witness:
  "let w' = (sample_workflow REVIEW_REQUIRED)\<lparr>wf_state := SUPERSEDED, wf_updated_at := 4\<rparr> in
     wf_state w' \<noteq> PROOF_COMPLETE \<and> wf_state w' \<notin> REVIEW_REQUIRED_FORBIDDEN_EXITS"
  unfolding Let_def
proof (rule dead_ends_never_complete)
  have "wf_step (sample_workflow REVIEW_REQUIRED)
    ((sample_workflow REVIEW_REQUIRED)\<lparr>wf_state := SUPERSEDED, wf_updated_at := 4\<rparr>)"
    by (rule wf_step.moved [of _ SUPERSEDED 4])
      (simp add: transition_Inr_iff can_transition_def sample_workflow_def)
  then show "wf_reach (sample_workflow REVIEW_REQUIRED)
    ((sample_workflow REVIEW_REQUIRED)\<lparr>wf_state := SUPERSEDED, wf_updated_at := 4\<rparr>)"
    by (rule wf_reach.later [OF wf_reach.unchanged])
  show "dead_end (wf_state (sample_workflow REVIEW_REQUIRED))"
    by (simp add: dead_end_def sample_workflow_def)
qed

text \<open>C40. Only retries can make a run long: a run the state machine accepts has at most as many
  steps as its first state's distance to the end (8 from \<open>CHANGE_RECEIVED\<close>) plus two for every
  failed or inconclusive verdict on it. A workflow without failed verdicts always stops.\<close>

theorem runs_bounded_by_failed_verdicts:
  assumes "run_transitions w rs = Inr w'"
  shows "length rs \<le> distance (wf_state w) +
    2 * count_list (wf_state w # map fst rs) VERIFICATION_FAILED +
    2 * count_list (wf_state w # map fst rs) VERIFICATION_INCONCLUSIVE"
  using path_length_bound run_transitions_path [OF assms] by fastforce

theorem runs_bounded_by_failed_verdicts_witness:
  "length [(VERIFICATION_FAILED, 6::datetime), (AWAITING_FIELD_VERIFICATION, 7)] \<le>
     distance (wf_state (sample_workflow AWAITING_FIELD_VERIFICATION)) +
    2 * count_list (wf_state (sample_workflow AWAITING_FIELD_VERIFICATION) #
      map fst [(VERIFICATION_FAILED, 6::datetime), (AWAITING_FIELD_VERIFICATION, 7)])
      VERIFICATION_FAILED +
    2 * count_list (wf_state (sample_workflow AWAITING_FIELD_VERIFICATION) #
      map fst [(VERIFICATION_FAILED, 6::datetime), (AWAITING_FIELD_VERIFICATION, 7)])
      VERIFICATION_INCONCLUSIVE"
  by (rule runs_bounded_by_failed_verdicts
      [of _ _ "(sample_workflow AWAITING_FIELD_VERIFICATION)\<lparr>wf_updated_at := 7\<rparr>"])
    (simp add: sample_workflow_def transition_def assert_transition_allowed_def can_transition_def)

text \<open>Supersession is possible exactly while the workflow is not terminal: it then changes only
  the state and the update time, and the superseded workflow refuses every later transition, so
  a stale workflow can never continue beside its successor. On a terminal workflow it raises the
  illegal-transition error and nothing changes.\<close>

theorem supersession_exact:
  "(\<exists>w'. supersede w t = Inr w' \<and> w' = w\<lparr>wf_state := SUPERSEDED, wf_updated_at := t\<rparr> \<and>
      (\<forall>s u. transition w' s u = Inl (IllegalTransitionError SUPERSEDED s))) \<longleftrightarrow> is_supersedable w"
  (is "?l \<longleftrightarrow> ?r")
proof
  assume ?l
  then have "can_transition (wf_state w) SUPERSEDED"
    by (auto simp: supersede_def transition_Inr_iff)
  then show ?r using terminal_stuck by (auto simp: is_supersedable_def)
next
  assume ?r
  then have "can_transition (wf_state w) SUPERSEDED"
    using can_always_stop by (simp add: is_supersedable_def)
  moreover have "transition (w\<lparr>wf_state := SUPERSEDED, wf_updated_at := t\<rparr>) s u =
      Inl (IllegalTransitionError SUPERSEDED s)" for s u
    by (simp add: transition_Inl_iff can_transition_def)
  ultimately show ?l by (simp add: supersede_def transition_Inr_iff)
qed

end
