(* ===== verification/Canonical.thy ===== *)
theory Canonical
  imports Samples "HOL-Library.Multiset"
begin

text \<open>
  Canonical JSON, content hashing and classification (\<open>truth_engine/evidence.py\<close>, T039 and
  T040). \<open>json.dumps(payload, sort_keys=True, separators=(",", ":"), ensure_ascii=False)\<close> is
  written out: keys are sorted at every level, strings are quoted and escaped as CPython does,
  and the text is encoded as UTF-8. SHA-256 is the parameter \<open>H\<close>, a function from bytes to the
  hexadecimal digest. Floats do not occur in the payloads the program hashes and are left out.
\<close>

section \<open>JSON values and their text\<close>

datatype json =
    JNull
  | JBool bool
  | JInt int
  | JStr str
  | JArr "json list"
  | JObj "(str \<times> json) list"

definition hex_digit :: "nat \<Rightarrow> char" where
  "hex_digit n = (if n < 10 then char_of (48 + n) else char_of (87 + n))"

abbreviation quote_char :: char where
  "quote_char \<equiv> CHR 0x22"

abbreviation backslash :: char where
  "backslash \<equiv> CHR 0x5C"

definition json_escape :: "char \<Rightarrow> str" where
  "json_escape c =
     (if c = quote_char then [backslash, quote_char]
      else if c = backslash then [backslash, backslash]
      else if c = CHR 0x08 then backslash # ''b''
      else if c = CHR 0x09 then backslash # ''t''
      else if c = CHR 0x0A then backslash # ''n''
      else if c = CHR 0x0C then backslash # ''f''
      else if c = CHR 0x0D then backslash # ''r''
      else let n = (of_char c :: nat)
           in if n < 32 then backslash # ''u00'' @ [hex_digit (n div 16), hex_digit (n mod 16)]
              else [c])"

text \<open>The same function with the common case decided on the bits of the character, for evaluation.\<close>

lemma low_bits:
  fixes x0 :: nat
  assumes "x0 \<le> 1" "x1 \<le> 1" "x2 \<le> 1" "x3 \<le> 1" "x4 \<le> 1" "x5 \<le> 1" "x6 \<le> 1" "x7 \<le> 1"
  shows "x0 + 2 * (x1 + 2 * (x2 + 2 * (x3 + 2 * (x4 + 2 * (x5 + 2 * (x6 + 2 * x7)))))) < 32 \<longleftrightarrow>
    x5 + x6 + x7 = 0"
  using assms unfolding distrib_left mult.assoc [symmetric] by (intro iffI; linarith)

lemma high_bit:
  fixes x0 :: nat
  assumes "x0 \<le> 1" "x1 \<le> 1" "x2 \<le> 1" "x3 \<le> 1" "x4 \<le> 1" "x5 \<le> 1" "x6 \<le> 1" "x7 \<le> 1"
  shows "x0 + 2 * (x1 + 2 * (x2 + 2 * (x3 + 2 * (x4 + 2 * (x5 + 2 * (x6 + 2 * x7)))))) < 128 \<longleftrightarrow> x7 = 0"
  using assms unfolding distrib_left mult.assoc [symmetric] by (intro iffI; linarith)

lemma char_bits:
  "(of_char (Char b0 b1 b2 b3 b4 b5 b6 b7) :: nat) < 32 \<longleftrightarrow> \<not> b5 \<and> \<not> b6 \<and> \<not> b7"
  "(of_char (Char b0 b1 b2 b3 b4 b5 b6 b7) :: nat) < 128 \<longleftrightarrow> \<not> b7"
  using low_bits [of "of_bool b0" "of_bool b1" "of_bool b2" "of_bool b3" "of_bool b4" "of_bool b5" "of_bool b6" "of_bool b7"]
    high_bit [of "of_bool b0" "of_bool b1" "of_bool b2" "of_bool b3" "of_bool b4" "of_bool b5" "of_bool b6" "of_bool b7"]
  by (simp_all only: of_char_Char horner_sum_simps mult_zero_right add_0_right of_bool_less_eq_one
      of_bool_eq_0_iff add_is_0 conj_assoc)

definition control_char :: "char \<Rightarrow> bool" where
  "control_char c \<longleftrightarrow> (of_char c :: nat) < 32"

lemma control_char_code [code]:
  "control_char (Char b0 b1 b2 b3 b4 b5 b6 b7) \<longleftrightarrow> \<not> b5 \<and> \<not> b6 \<and> \<not> b7"
  by (simp only: control_char_def char_bits)

lemma json_escape_code [code]:
  "json_escape c =
     (if c = quote_char then [backslash, quote_char]
      else if c = backslash then [backslash, backslash]
      else if \<not> control_char c then [c]
      else if c = CHR 0x08 then backslash # ''b''
      else if c = CHR 0x09 then backslash # ''t''
      else if c = CHR 0x0A then backslash # ''n''
      else if c = CHR 0x0C then backslash # ''f''
      else if c = CHR 0x0D then backslash # ''r''
      else let n = of_char c in backslash # ''u00'' @ [hex_digit (n div 16), hex_digit (n mod 16)])"
  by (auto simp: json_escape_def Let_def control_char_def)

definition json_quote :: "str \<Rightarrow> str" where
  "json_quote s = quote_char # concat (map json_escape s) @ [quote_char]"

definition show_int :: "int \<Rightarrow> str" where
  "show_int i = (if i < 0 then CHR ''-'' # show_nat (nat (- i)) else show_nat (nat i))"

fun json_text :: "json \<Rightarrow> str" where
  "json_text JNull = ''null''"
| "json_text (JBool b) = (if b then ''true'' else ''false'')"
| "json_text (JInt i) = show_int i"
| "json_text (JStr s) = json_quote s"
| "json_text (JArr xs) = CHR ''['' # join_with (CHR '','') (map json_text xs) @ '']''"
| "json_text (JObj kvs) =
     CHR ''{'' # join_with (CHR '','') (map (\<lambda>(k, v). json_quote k @ CHR '':'' # json_text v) kvs)
       @ ''}''"

text \<open>\<open>sort_keys\<close>: every object's items in ascending key order.\<close>

fun sort_keys :: "json \<Rightarrow> json" where
  "sort_keys (JArr xs) = JArr (map sort_keys xs)"
| "sort_keys (JObj kvs) = JObj (sort_key fst (map (\<lambda>(k, v). (k, sort_keys v)) kvs))"
| "sort_keys j = j"

definition canonical_json :: "json \<Rightarrow> str" where
  "canonical_json payload = json_text (sort_keys payload)"

section \<open>Hashing\<close>

definition utf8_char :: "char \<Rightarrow> str" where
  "utf8_char c =
     (let n = (of_char c :: nat)
      in if n < 128 then [c] else [char_of (192 + n div 64), char_of (128 + n mod 64)])"

lemma utf8_char_code [code]:
  "utf8_char (Char b0 b1 b2 b3 b4 b5 b6 b7) =
     (if b7 then
        let n = (of_char (Char b0 b1 b2 b3 b4 b5 b6 b7) :: nat)
        in [char_of (192 + n div 64), char_of (128 + n mod 64)]
      else [Char b0 b1 b2 b3 b4 b5 b6 b7])"
  unfolding utf8_char_def Let_def char_bits by simp

definition utf8 :: "str \<Rightarrow> str" where
  "utf8 s = concat (map utf8_char s)"

definition content_hash :: "(str \<Rightarrow> str) \<Rightarrow> str \<Rightarrow> str" where
  "content_hash H content = H (utf8 content)"

definition content_hash_bytes :: "(str \<Rightarrow> str) \<Rightarrow> str \<Rightarrow> str" where
  "content_hash_bytes H content = H content"

definition canonical_hash :: "(str \<Rightarrow> str) \<Rightarrow> json \<Rightarrow> str" where
  "canonical_hash H payload = content_hash H (canonical_json payload)"

definition hashes_match :: "(str \<Rightarrow> str) \<Rightarrow> str \<Rightarrow> str \<Rightarrow> bool" where
  "hashes_match H expected actual_content \<longleftrightarrow> content_hash H actual_content = expected"

text \<open>A dictionary of strings, as it is handed to \<open>canonical_hash\<close>.\<close>

definition dump_string_dict :: "(str, str) dict \<Rightarrow> json" where
  "dump_string_dict d = JObj (map (\<lambda>(k, v). (k, JStr v)) d)"

section \<open>Classification and lineage\<close>

definition build_lineage_entry ::
  "str \<Rightarrow> classification_label list \<Rightarrow> str \<Rightarrow> lineage_entry res" where
  "build_lineage_entry source_ref source_classification relationship =
     validated valid_lineage_entry
       \<lparr>le_source_ref = source_ref, le_source_classification = source_classification,
        le_relationship = relationship\<rparr>"

definition classify ::
  "classification_label list \<Rightarrow> lineage_entry list \<Rightarrow> data_classification res" where
  "classify labels lineage =
     validated valid_classification \<lparr>dc_labels = labels, dc_lineage = lineage\<rparr>"

definition derive_classification ::
  "classification_label list \<Rightarrow> str \<Rightarrow> classification_label list \<Rightarrow> str \<Rightarrow>
     data_classification res" where
  "derive_classification labels source_ref source_classification relationship =
     res_bind (build_lineage_entry source_ref source_classification relationship)
       (\<lambda>entry. classify labels [entry])"

section \<open>Strings and numbers can be read back\<close>

definition hex_value :: "char \<Rightarrow> nat" where
  "hex_value c = (let n = (of_char c :: nat) in if n < 58 then n - 48 else n - 87)"

text \<open>One escaped character, read from the front of a text.\<close>

definition unescape :: "str \<Rightarrow> char \<times> str" where
  "unescape t =
     (case t of
        x # y # u \<Rightarrow>
          (if x \<noteq> backslash then (x, y # u)
           else if y = CHR ''b'' then (CHR 0x08, u)
           else if y = CHR ''t'' then (CHR 0x09, u)
           else if y = CHR ''n'' then (CHR 0x0A, u)
           else if y = CHR ''f'' then (CHR 0x0C, u)
           else if y = CHR ''r'' then (CHR 0x0D, u)
           else if y = CHR ''u''
           then (char_of (16 * hex_value (u ! 2) + hex_value (u ! 3)), drop 4 u)
           else (y, u))
      | x # u \<Rightarrow> (x, u))"

lemma hex_value_digit: "n < 16 \<Longrightarrow> hex_value (hex_digit n) = n"
  by (auto simp: hex_value_def hex_digit_def Let_def)

lemma unescape_escape: "unescape (json_escape c @ u) = (c, u)"
proof -
  let ?n = "of_char c :: nat"
  have whole: "16 * (?n div 16) + ?n mod 16 = ?n" by simp
  show ?thesis
    by (cases u) (auto simp: json_escape_def unescape_def Let_def hex_value_digit whole)
qed

lemma escape_not_quote: "\<exists>x xs. json_escape c = x # xs \<and> x \<noteq> quote_char"
  by (auto simp: json_escape_def Let_def)

lemma escaped_inj:
  "concat (map json_escape s) @ quote_char # r = concat (map json_escape s') @ quote_char # r' \<Longrightarrow>
     s = s' \<and> r = r'"
proof (induction s arbitrary: s')
  case Nil
  show ?case
  proof (cases s')
    case Nil
    with \<open>concat (map json_escape []) @ quote_char # r =
      concat (map json_escape s') @ quote_char # r'\<close> show ?thesis by simp
  next
    case (Cons d t)
    with escape_not_quote [of d] Nil.prems show ?thesis by auto
  qed
next
  case (Cons c s)
  then obtain d t where s': "s' = d # t"
    using escape_not_quote [of c] by (cases s') auto
  have "json_escape c @ (concat (map json_escape s) @ quote_char # r) =
      json_escape d @ (concat (map json_escape t) @ quote_char # r')"
    using Cons.prems s' by simp
  then have "c = d \<and> concat (map json_escape s) @ quote_char # r =
      concat (map json_escape t) @ quote_char # r'"
    using unescape_escape by (metis prod.inject)
  with Cons.IH s' show ?case by blast
qed

lemma json_quote_inj: "json_quote s @ r = json_quote s' @ r' \<Longrightarrow> s = s' \<and> r = r'"
  using escaped_inj [of s r s' r'] by (simp add: json_quote_def)

definition is_digit :: "char \<Rightarrow> bool" where
  "is_digit c \<longleftrightarrow> 48 \<le> (of_char c :: nat) \<and> (of_char c :: nat) \<le> 57"

lemma show_nat_digits: "\<forall>c \<in> set (show_nat n). is_digit c"
proof (induction n rule: show_nat.induct)
  case (1 n)
  then show ?case
    by (subst show_nat.simps) (auto simp: is_digit_def digit_char_def)
qed

lemma show_nat_nonempty: "show_nat n \<noteq> []"
  by (subst show_nat.simps) simp

definition delimited :: "str \<Rightarrow> bool" where
  "delimited r \<longleftrightarrow> r = [] \<or> hd r \<in> {CHR '','', CHR '']'', CHR ''}''}"

lemma delimited_not_digit: "delimited r \<Longrightarrow> takeWhile is_digit r = []"
  by (cases r) (auto simp: delimited_def is_digit_def)

lemma show_nat_append_inj:
  assumes "show_nat m @ r = show_nat n @ r'" and "delimited r" and "delimited r'"
  shows "m = n \<and> r = r'"
proof -
  have "takeWhile is_digit (show_nat m @ r) = show_nat m"
    and "takeWhile is_digit (show_nat n @ r') = show_nat n"
    using assms(2,3) show_nat_digits by (simp_all add: takeWhile_append2 delimited_not_digit)
  with assms(1) have "show_nat m = show_nat n" by metis
  with assms(1) show ?thesis by (simp add: show_nat_inj)
qed

lemma show_nat_hd: "is_digit (hd (show_nat n @ r))"
  using show_nat_digits [of n] show_nat_nonempty [of n] by (simp add: hd_append)

lemma not_digit_minus [simp]: "\<not> is_digit (CHR ''-'')"
  by (simp add: is_digit_def)

lemma show_int_append_inj:
  assumes "show_int i @ r = show_int j @ r'" and "delimited r" and "delimited r'"
  shows "i = j \<and> r = r'"
proof (cases "i < 0"; cases "j < 0")
  assume "i < 0" "j < 0"
  with assms show_nat_append_inj [of "nat (- i)" r "nat (- j)" r'] show ?thesis
    by (simp add: show_int_def eq_nat_nat_iff)
next
  assume "i < 0" "\<not> j < 0"
  with assms(1) have "CHR ''-'' = hd (show_nat (nat j) @ r')"
    by (metis append_Cons list.sel(1) show_int_def)
  with show_nat_hd show ?thesis by (metis not_digit_minus)
next
  assume "\<not> i < 0" "j < 0"
  with assms(1) have "CHR ''-'' = hd (show_nat (nat i) @ r)"
    by (metis append_Cons list.sel(1) show_int_def)
  with show_nat_hd show ?thesis by (metis not_digit_minus)
next
  assume "\<not> i < 0" "\<not> j < 0"
  with assms show_nat_append_inj [of "nat i" r "nat j" r'] show ?thesis
    by (simp add: show_int_def eq_nat_nat_iff)
qed

section \<open>JSON text is uniquely readable\<close>

text \<open>The first character tells the constructor.\<close>

definition first_kind :: "char \<Rightarrow> nat" where
  "first_kind c =
     (if c = CHR ''n'' then 0 else if c = CHR ''t'' \<or> c = CHR ''f'' then 1
      else if c = CHR ''-'' \<or> is_digit c then 2 else if c = quote_char then 3
      else if c = CHR ''['' then 4 else if c = CHR ''{'' then 5 else 6)"

primrec json_kind :: "json \<Rightarrow> nat" where
  "json_kind JNull = 0"
| "json_kind (JBool b) = 1"
| "json_kind (JInt i) = 2"
| "json_kind (JStr s) = 3"
| "json_kind (JArr xs) = 4"
| "json_kind (JObj kvs) = 5"

lemma show_int_hd: "hd (show_int i @ r) = CHR ''-'' \<or> is_digit (hd (show_int i @ r))"
  using show_nat_hd by (simp add: show_int_def)

lemma first_kind_digit: "c = CHR ''-'' \<or> is_digit c \<Longrightarrow> first_kind c = 2"
  by (auto simp: first_kind_def is_digit_def)

lemma json_text_kind: "first_kind (hd (json_text j @ r)) = json_kind j"
proof (cases j)
  case (JInt i)
  then show ?thesis using first_kind_digit [OF show_int_hd] by simp
qed (auto simp: first_kind_def json_quote_def is_digit_def)

lemma json_text_nonempty: "json_text j \<noteq> []"
  by (cases j) (auto simp: show_int_def json_quote_def show_nat_nonempty)

lemma json_text_hd: "hd (json_text j) \<notin> {CHR '']'', CHR ''}'', CHR '',''}"
proof -
  have "first_kind (hd (json_text j)) \<le> 5"
    using json_text_kind [of j "[]"] by (cases j) simp_all
  then show ?thesis by (auto simp: first_kind_def is_digit_def split: if_splits)
qed

lemma join_with_Cons:
  "join_with sep (x # xs) = x @ (if xs = [] then [] else sep # join_with sep xs)"
  by (cases xs) simp_all

lemma joined_inj:
  assumes "\<And>x y r r'. x \<in> set xs \<Longrightarrow> P x @ r = P y @ r' \<Longrightarrow> delimited r \<Longrightarrow> delimited r' \<Longrightarrow>
      x = y \<and> r = r'"
    and "\<And>x. P x \<noteq> [] \<and> hd (P x) \<noteq> close"
    and "close \<in> {CHR '']'', CHR ''}''}"
    and "join_with (CHR '','') (map P xs) @ close # r = join_with (CHR '','') (map P ys) @ close # r'"
  shows "xs = ys \<and> r = r'"
  using assms
proof (induction xs arbitrary: ys)
  case Nil
  show ?case
  proof (cases ys)
    case Nil
    with \<open>join_with (CHR '','') (map P []) @ close # r = _\<close> show ?thesis by simp
  next
    case (Cons y zs)
    with Nil.prems(2,4) have "hd (P y) = close"
      by (simp add: join_with_Cons) (metis append_is_Nil_conv hd_append2 list.sel(1))
    with Nil.prems(2) show ?thesis by blast
  qed
next
  case (Cons x xs)
  show ?case
  proof (cases ys)
    case Nil
    with Cons.prems(2,4) have "hd (P x) = close"
      by (simp add: join_with_Cons) (metis append_is_Nil_conv hd_append2 list.sel(1))
    with Cons.prems(2) show ?thesis by blast
  next
    case (Cons y zs)
    let ?rest = "\<lambda>us r. (if us = [] then [] else CHR '','' # join_with (CHR '','') (map P us)) @ close # r"
    have eq: "P x @ ?rest xs r = P y @ ?rest zs r'"
      using Cons.prems(4) \<open>ys = y # zs\<close> by (simp add: join_with_Cons)
    have "delimited (?rest us v)" for us v
      using Cons.prems(3) by (auto simp: delimited_def)
    with Cons.prems(1) [OF _ eq] have "x = y" and rest: "?rest xs r = ?rest zs r'"
      by simp_all
    show ?thesis
    proof (cases "xs = [] \<or> zs = []")
      case True
      with rest Cons.prems(3) have "xs = [] \<and> zs = [] \<and> r = r'" by (auto split: if_splits)
      with \<open>x = y\<close> \<open>ys = y # zs\<close> show ?thesis by simp
    next
      case False
      with rest have "join_with (CHR '','') (map P xs) @ close # r =
          join_with (CHR '','') (map P zs) @ close # r'" by simp
      with Cons.IH [of zs] Cons.prems(1,2,3) have "xs = zs \<and> r = r'" by (meson list.set_intros(2))
      with \<open>x = y\<close> \<open>ys = y # zs\<close> show ?thesis by simp
    qed
  qed
qed

lemma same_text_kind: "json_text j @ r = json_text j' @ r' \<Longrightarrow> json_kind j = json_kind j'"
  using json_text_kind by metis

lemma json_text_append_inj:
  "json_text j @ r = json_text j' @ r' \<Longrightarrow> delimited r \<Longrightarrow> delimited r' \<Longrightarrow> j = j' \<and> r = r'"
proof (induction j arbitrary: j' r r')
  case JNull
  with same_text_kind [OF JNull.prems(1)] show ?case by (cases j') auto
next
  case (JBool b)
  with same_text_kind [OF JBool.prems(1)] obtain b' where "j' = JBool b'"
    by (cases j') auto
  with JBool show ?case by (cases b; cases b') auto
next
  case (JInt i)
  with same_text_kind [OF JInt.prems(1)] obtain i' where "j' = JInt i'"
    by (cases j') auto
  with JInt.prems show_int_append_inj [of i r i' r'] show ?case by simp
next
  case (JStr t)
  with same_text_kind [OF JStr.prems(1)] obtain t' where "j' = JStr t'"
    by (cases j') auto
  with JStr.prems json_quote_inj [of t r t' r'] show ?case by simp
next
  case (JArr xs)
  with same_text_kind [OF JArr.prems(1)] obtain ys where j': "j' = JArr ys"
    by (cases j') auto
  have "xs = ys \<and> r = r'"
  proof (rule joined_inj [where P = json_text and close = "CHR '']''"])
    show "x = y \<and> u = u'" if "x \<in> set xs" "json_text x @ u = json_text y @ u'" "delimited u"
        "delimited u'" for x y u u'
      using JArr.IH that by blast
    show "json_text x \<noteq> [] \<and> hd (json_text x) \<noteq> CHR '']''" for x
      using json_text_nonempty json_text_hd by simp
  qed (use JArr.prems j' in simp_all)
  with j' show ?case by simp
next
  case (JObj kvs)
  with same_text_kind [OF JObj.prems(1)] obtain lvs where
    j': "j' = JObj lvs" by (cases j') auto
  let ?P = "\<lambda>(k, v). json_quote k @ CHR '':'' # json_text v"
  have "kvs = lvs \<and> r = r'"
  proof (rule joined_inj [where P = ?P and close = "CHR ''}''"])
    fix x y :: "str \<times> json" and u u' :: str
    assume x: "x \<in> set kvs" and eq: "?P x @ u = ?P y @ u'" and u: "delimited u" "delimited u'"
    obtain k v l w where xy: "x = (k, v)" "y = (l, w)" by (cases x, cases y) auto
    with eq have "json_quote k @ (CHR '':'' # json_text v @ u) =
        json_quote l @ (CHR '':'' # json_text w @ u')" by simp
    then have "k = l" and "json_text v @ u = json_text w @ u'"
      by (auto dest: json_quote_inj)
    moreover have "v = w \<and> u = u'"
      by (rule JObj.IH [OF x]) (use u \<open>json_text v @ u = _\<close> in \<open>simp_all add: xy\<close>)
    ultimately show "x = y \<and> u = u'" using xy by simp
  qed (use JObj.prems j' in \<open>auto simp: json_quote_def\<close>)
  with j' show ?case by simp
qed

lemma json_text_inj: "json_text j = json_text j' \<longleftrightarrow> j = j'"
  using json_text_append_inj [of j "[]" j' "[]"] by (auto simp: delimited_def)

lemma canonical_json_inj: "canonical_json j = canonical_json j' \<longleftrightarrow> sort_keys j = sort_keys j'"
  by (simp add: canonical_json_def json_text_inj)

section \<open>Key order is not observable\<close>

lemma sort_items_eq_iff:
  fixes kvs lvs :: "('k::linorder \<times> 'v) list"
  assumes "distinct (map fst kvs)" and "distinct (map fst lvs)"
  shows "sort_key fst kvs = sort_key fst lvs \<longleftrightarrow> map_of kvs = map_of lvs"
proof
  assume "sort_key fst kvs = sort_key fst lvs"
  then have "set kvs = set lvs" by (metis set_sort)
  with assms show "map_of kvs = map_of lvs" by (simp add: map_of_inject_set)
next
  assume "map_of kvs = map_of lvs"
  with assms have "set kvs = set lvs" by (simp add: map_of_inject_set)
  with assms have "mset kvs = mset lvs"
    by (simp add: distinct_map set_eq_iff_mset_eq_distinct)
  moreover have "inj_on fst (set kvs)" using assms(1) by (simp add: distinct_map)
  ultimately show "sort_key fst kvs = sort_key fst lvs"
    by (intro sort_key_inj_key_eq) simp_all
qed

lemma map_of_map_values: "map_of (map (\<lambda>(k, v). (k, f v)) kvs) = map_option f \<circ> map_of kvs"
  by (induction kvs) auto

lemma dict_keys_map_values [simp]: "map (fst \<circ> (\<lambda>(k, v). (k, f v))) kvs = map fst kvs"
  by (induction kvs) auto

lemma map_option_canonical_iff:
  "map_option canonical_json a = map_option canonical_json b \<longleftrightarrow>
     map_option sort_keys a = map_option sort_keys b"
  by (cases a; cases b) (simp_all add: canonical_json_inj)

lemma canonical_object_iff:
  assumes "dict_ok kvs" and "dict_ok lvs"
  shows "canonical_json (JObj kvs) = canonical_json (JObj lvs) \<longleftrightarrow>
    (\<forall>k. map_option canonical_json (dict_get kvs k) = map_option canonical_json (dict_get lvs k))"
proof -
  have "canonical_json (JObj kvs) = canonical_json (JObj lvs) \<longleftrightarrow>
      map_option sort_keys \<circ> map_of kvs = map_option sort_keys \<circ> map_of lvs"
    using assms by (simp add: canonical_json_inj sort_items_eq_iff map_of_map_values)
  also have "\<dots> \<longleftrightarrow> (\<forall>k. map_option sort_keys (dict_get kvs k) = map_option sort_keys (dict_get lvs k))"
    by (simp add: fun_eq_iff)
  also have "\<dots> \<longleftrightarrow> (\<forall>k. map_option canonical_json (dict_get kvs k) =
      map_option canonical_json (dict_get lvs k))"
    by (simp only: map_option_canonical_iff)
  finally show ?thesis .
qed

lemma char_of_mod_eq:
  "m < 256 \<Longrightarrow> n < 256 \<Longrightarrow> (char_of m :: char) = char_of (n::nat) \<longleftrightarrow> m = n"
  by (metis mod_less of_char_of)

text \<open>Objects written with the same key list are compared field by field.\<close>

lemma dict_values_iff:
  "map fst kvs = map fst lvs \<Longrightarrow> distinct (map fst kvs) \<Longrightarrow>
     (\<forall>k. map_option f (map_of kvs k) = map_option f (map_of lvs k)) \<longleftrightarrow>
       map (f \<circ> snd) kvs = map (f \<circ> snd) lvs"
proof (induction kvs arbitrary: lvs)
  case Nil
  then show ?case by simp
next
  case (Cons p kvs)
  then obtain q lvs' where lvs: "lvs = q # lvs'" by (cases lvs) auto
  obtain k v u where pq: "p = (k, v)" "q = (k, u)"
    using Cons.prems(1) lvs by (cases p, cases q) auto
  have fresh: "map_of kvs k = None" "map_of lvs' k = None"
    using Cons.prems lvs pq by (auto simp: dict_get_None image_iff)
  have "(\<forall>j. map_option f (map_of (p # kvs) j) = map_option f (map_of lvs j)) \<longleftrightarrow>
      f v = f u \<and> (\<forall>j. map_option f (map_of kvs j) = map_option f (map_of lvs' j))"
    (is "?all \<longleftrightarrow> ?split")
  proof
    assume all: ?all
    have "f v = f u" using all [rule_format, of k] by (simp add: lvs pq)
    moreover have "map_option f (map_of kvs j) = map_option f (map_of lvs' j)" for j
      using all [rule_format, of j] fresh by (cases "j = k") (simp_all add: lvs pq)
    ultimately show ?split by blast
  next
    assume ?split
    then show ?all by (simp add: lvs pq)
  qed
  also have "\<dots> \<longleftrightarrow> f v = f u \<and> map (f \<circ> snd) kvs = map (f \<circ> snd) lvs'"
    using Cons.IH [of lvs'] Cons.prems lvs by (simp add: comp_def)
  finally show ?case by (simp add: lvs pq comp_def)
qed

lemma canonical_fields_iff:
  assumes "map fst kvs = map fst lvs" and "distinct (map fst kvs)"
  shows "canonical_json (JObj kvs) = canonical_json (JObj lvs) \<longleftrightarrow>
    map (canonical_json \<circ> snd) kvs = map (canonical_json \<circ> snd) lvs"
  using assms canonical_object_iff [of kvs lvs] dict_values_iff [OF assms, of canonical_json]
  by metis

lemma canonical_array_iff:
  "canonical_json (JArr xs) = canonical_json (JArr ys) \<longleftrightarrow>
     map canonical_json xs = map canonical_json ys"
proof -
  have "map sort_keys xs = map sort_keys ys \<longleftrightarrow> map canonical_json xs = map canonical_json ys"
  proof (induction xs arbitrary: ys)
    case (Cons x xs)
    then show ?case by (cases ys) (auto simp: canonical_json_inj)
  qed simp
  then show ?thesis by (simp add: canonical_json_inj)
qed

lemma canonical_str_eq [simp]: "canonical_json (JStr a) = canonical_json (JStr b) \<longleftrightarrow> a = b"
  by (simp add: canonical_json_inj)

lemma canonical_bool_eq [simp]: "canonical_json (JBool a) = canonical_json (JBool b) \<longleftrightarrow> a = b"
  by (simp add: canonical_json_inj)

lemma dump_dict_inj:
  assumes "dict_ok d" and "dict_ok d'"
  shows "canonical_json (dump_string_dict d) = canonical_json (dump_string_dict d') \<longleftrightarrow>
    map_of d = map_of d'"
proof -
  have "canonical_json (dump_string_dict d) = canonical_json (dump_string_dict d') \<longleftrightarrow>
      (\<forall>k. map_option (canonical_json \<circ> JStr) (map_of d k) =
           map_option (canonical_json \<circ> JStr) (map_of d' k))"
    unfolding dump_string_dict_def
    by (subst canonical_object_iff) (simp_all add: assms map_of_map_values option.map_comp)
  moreover have "inj (map_option (canonical_json \<circ> JStr))"
    by (intro option.inj_map) (simp add: inj_def)
  ultimately show ?thesis by (auto simp: fun_eq_iff dest: injD)
qed

lemma of_char_div_64: "(of_char c :: nat) div 64 < 4"
  by (rule less_mult_imp_div_less) simp

lemma utf8_char_append_inj:
  "utf8_char c @ u = utf8_char d @ v \<Longrightarrow> c = d \<and> u = v"
proof -
  assume eq: "utf8_char c @ u = utf8_char d @ v"
  have c: "(of_char c :: nat) < 256" and d: "(of_char d :: nat) < 256"
    by (rule nat_of_char_less_256)+
  show ?thesis
  proof (cases "(of_char c :: nat) < 128"; cases "(of_char d :: nat) < 128")
    assume "(of_char c :: nat) < 128" "(of_char d :: nat) < 128"
    with eq show ?thesis by (simp add: utf8_char_def)
  next
    assume cd: "(of_char c :: nat) < 128" "\<not> (of_char d :: nat) < 128"
    with eq have "c = char_of (192 + of_char d div (64::nat))" by (simp add: utf8_char_def Let_def)
    moreover have "of_char d div (64::nat) < 4" by (rule of_char_div_64)
    ultimately have "(of_char c :: nat) = 192 + of_char d div 64" by simp
    with cd show ?thesis by simp
  next
    assume cd: "\<not> (of_char c :: nat) < 128" "(of_char d :: nat) < 128"
    with eq have "d = char_of (192 + of_char c div (64::nat))" by (simp add: utf8_char_def Let_def)
    moreover have "of_char c div (64::nat) < 4" by (rule of_char_div_64)
    ultimately have "(of_char d :: nat) = 192 + of_char c div 64" by simp
    with cd show ?thesis by simp
  next
    assume "\<not> (of_char c :: nat) < 128" "\<not> (of_char d :: nat) < 128"
    with eq have "char_of (192 + of_char c div (64::nat)) = (char_of (192 + of_char d div (64::nat)) :: char)"
      and "char_of (128 + of_char c mod (64::nat)) = (char_of (128 + of_char d mod (64::nat)) :: char)"
      and "u = v" by (simp_all add: utf8_char_def Let_def)
    moreover have "of_char c div (64::nat) < 4" and "of_char d div (64::nat) < 4"
      by (rule of_char_div_64)+
    moreover have "of_char c mod (64::nat) < 64" and "of_char d mod (64::nat) < 64" by simp_all
    ultimately have "of_char c div (64::nat) = of_char d div 64"
      and "of_char c mod (64::nat) = of_char d mod 64"
      by (simp_all add: char_of_mod_eq)
    then have "(of_char c :: nat) = of_char d" by (metis div_mult_mod_eq)
    with \<open>u = v\<close> show ?thesis by simp
  qed
qed

lemma utf8_char_nonempty: "utf8_char c \<noteq> []"
  by (simp add: utf8_char_def Let_def)

lemma utf8_inj: "utf8 s = utf8 t \<longleftrightarrow> s = t"
proof
  show "utf8 s = utf8 t \<Longrightarrow> s = t"
  proof (induction s arbitrary: t)
    case Nil
    then show ?case by (cases t) (auto simp: utf8_def utf8_char_nonempty)
  next
    case (Cons c s)
    then obtain d u where t: "t = d # u"
      by (cases t) (auto simp: utf8_def utf8_char_nonempty)
    with Cons.prems have "utf8_char c @ utf8 s = utf8_char d @ utf8 u" by (simp add: utf8_def)
    with utf8_char_append_inj have "c = d" and "utf8 s = utf8 u" by blast+
    with Cons.IH t show ?case by simp
  qed
qed simp

text \<open>C38. Canonical JSON is canonical: two dictionaries have the same encoding if and only if they
  have the same keys and, key by key, values with the same encoding. Insertion order never shows
  in a digest, at any nesting depth, and no two different payloads share an encoding (quoting,
  escapes and separators are unambiguous), nor the bytes that are hashed.\<close>

theorem canonical_encoding_exact:
  assumes "dict_ok kvs" and "dict_ok lvs"
  shows "utf8 (canonical_json (JObj kvs)) = utf8 (canonical_json (JObj lvs)) \<longleftrightarrow>
    (\<forall>k. map_option canonical_json (dict_get kvs k) = map_option canonical_json (dict_get lvs k))"
  using canonical_object_iff [OF assms] by (simp add: utf8_inj)

theorem canonical_encoding_exact_witness:
  "utf8 (canonical_json (JObj [(''b'', JInt 1), (''a'', JStr ''x'')])) =
   utf8 (canonical_json (JObj [(''a'', JStr ''x''), (''b'', JInt 1)]))"
  by (subst canonical_encoding_exact) simp_all

end
