(* ===== verification/Idempotency.thy ===== *)
theory Idempotency
  imports Canonical
begin

text \<open>
  Deterministic identities (\<open>truth_engine/idempotency.py\<close>): duplicate change events, the stable
  \<open>action_id\<close> derived from a canonical JSON payload, and duplicate field submissions. The digest
  is the parameter \<open>H\<close> of \<open>Canonical\<close>; that two payloads do not collide on their first 32 hex
  characters is a named hypothesis where a lemma needs it.
\<close>

section \<open>Duplicate change events\<close>

datatype change_event_outcome = NEW_LOGICAL_CHANGE | CHANGE_TRANSPORT_DUPLICATE

record change_event_decision =
  ced_outcome :: change_event_outcome
  ced_change_id :: str
  ced_existing_workflow_id :: "str option"

definition classify_change_event ::
  "approved_change \<Rightarrow> (str, str) dict \<Rightarrow> change_event_decision" where
  "classify_change_event change known_changes =
     (case dict_get known_changes (ac_change_id change) of
        Some existing \<Rightarrow>
          \<lparr>ced_outcome = CHANGE_TRANSPORT_DUPLICATE, ced_change_id = ac_change_id change,
           ced_existing_workflow_id = Some existing\<rparr>
      | None \<Rightarrow>
          \<lparr>ced_outcome = NEW_LOGICAL_CHANGE, ced_change_id = ac_change_id change,
           ced_existing_workflow_id = None\<rparr>)"

section \<open>Action identity\<close>

primrec action_type_value :: "action_type \<Rightarrow> str" where
  "action_type_value REMEDIATE_ARTIFACT = ''REMEDIATE_ARTIFACT''"
| "action_type_value DELIVER_DELTA = ''DELIVER_DELTA''"
| "action_type_value PROCESS_FIELD_EVIDENCE = ''PROCESS_FIELD_EVIDENCE''"
| "action_type_value GENERATE_PROOF = ''GENERATE_PROOF''"

definition lower_char :: "char \<Rightarrow> char" where
  "lower_char c =
     (let n = (of_char c :: nat) in if 65 \<le> n \<and> n \<le> 90 then char_of (n + 32) else c)"

definition action_payload :: "str \<Rightarrow> action_type \<Rightarrow> str \<Rightarrow> str \<Rightarrow> str \<Rightarrow> json" where
  "action_payload workflow_id action_type target_ref change_id source_version =
     JObj [(''workflow_id'', JStr workflow_id),
           (''action_type'', JStr (action_type_value action_type)),
           (''target_ref'', JStr target_ref),
           (''change_id'', JStr change_id),
           (''source_version'', JStr source_version)]"

definition derive_action_id ::
  "(str \<Rightarrow> str) \<Rightarrow> str \<Rightarrow> action_type \<Rightarrow> str \<Rightarrow> str \<Rightarrow> str \<Rightarrow> str" where
  "derive_action_id H workflow_id action_type target_ref change_id source_version =
     (let digest = H (utf8 (canonical_json
            (action_payload workflow_id action_type target_ref change_id source_version)))
      in ''act-'' @ map lower_char (action_type_value action_type) @ ''-'' @ take 32 digest)"

definition derive_remediation_action_id ::
  "(str \<Rightarrow> str) \<Rightarrow> str \<Rightarrow> approved_change \<Rightarrow> str \<Rightarrow> str" where
  "derive_remediation_action_id H workflow_id change artifact_id =
     derive_action_id H workflow_id REMEDIATE_ARTIFACT artifact_id (ac_change_id change)
       (ac_source_version change)"

definition derive_delivery_action_id ::
  "(str \<Rightarrow> str) \<Rightarrow> str \<Rightarrow> approved_change \<Rightarrow> str \<Rightarrow> str" where
  "derive_delivery_action_id H workflow_id change worker_id =
     derive_action_id H workflow_id DELIVER_DELTA worker_id (ac_change_id change)
       (ac_source_version change)"

definition derive_field_evidence_action_id :: "(str \<Rightarrow> str) \<Rightarrow> str \<Rightarrow> str \<Rightarrow> str" where
  "derive_field_evidence_action_id H workflow_id submission_id =
     derive_action_id H workflow_id PROCESS_FIELD_EVIDENCE submission_id [] []"

definition derive_proof_action_id :: "(str \<Rightarrow> str) \<Rightarrow> str \<Rightarrow> str" where
  "derive_proof_action_id H workflow_id =
     derive_action_id H workflow_id GENERATE_PROOF workflow_id [] []"

section \<open>Duplicate submissions\<close>

datatype submission_outcome = NEW_EVIDENCE_ATTEMPT | SUBMISSION_TRANSPORT_DUPLICATE

record submission_decision =
  sd_outcome :: submission_outcome
  sd_submission_id :: str
  sd_existing_event_id :: "str option"
  sd_allocates_event_sequence :: bool

definition classify_submission :: "str \<Rightarrow> verification_event list \<Rightarrow> submission_decision" where
  "classify_submission submission_id existing_events =
     (case List.find (\<lambda>e. ve_submission_id e = submission_id) existing_events of
        Some e \<Rightarrow>
          \<lparr>sd_outcome = SUBMISSION_TRANSPORT_DUPLICATE, sd_submission_id = submission_id,
           sd_existing_event_id = Some (ve_event_id e), sd_allocates_event_sequence = False\<rparr>
      | None \<Rightarrow>
          \<lparr>sd_outcome = NEW_EVIDENCE_ATTEMPT, sd_submission_id = submission_id,
           sd_existing_event_id = None, sd_allocates_event_sequence = True\<rparr>)"

section \<open>What the identities guarantee\<close>

lemma classify_submission_new:
  "sd_outcome (classify_submission s es) = NEW_EVIDENCE_ATTEMPT \<longleftrightarrow>
     s \<notin> ve_submission_id ` set es"
  by (auto simp: classify_submission_def find_None_iff2 dest!: find_Some_set split: option.splits)

lemma classify_submission_duplicate:
  "sd_existing_event_id (classify_submission s es) = Some i \<Longrightarrow>
     \<exists>e \<in> set es. ve_submission_id e = s \<and> ve_event_id e = i"
  by (auto simp: classify_submission_def dest: find_Some_set split: option.splits)

lemma action_type_value_inj [simp]: "action_type_value t = action_type_value u \<longleftrightarrow> t = u"
  by (cases t; cases u) simp_all

lemma action_payload_inj:
  "utf8 (canonical_json (action_payload w t r c v)) = utf8 (canonical_json (action_payload w' t' r' c' v'))
     \<longleftrightarrow> w = w' \<and> t = t' \<and> r = r' \<and> c = c' \<and> v = v'"
  unfolding utf8_inj action_payload_def by (subst canonical_fields_iff) auto

text \<open>The four derivations never produce each other's identities, whatever the digest is.\<close>

lemma action_id_type:
  "derive_action_id H w t r c v = derive_action_id H w' t' r' c' v' \<Longrightarrow> t = t'"
  by (cases t; cases t') (simp_all add: derive_action_id_def Let_def lower_char_def)

text \<open>An action id identifies one logical side effect: when the digest does not collide on the
  two encoded payloads, two derived ids are equal exactly when workflow, action type, target,
  change and source version are all equal. Ids of different action types differ whatever the
  digest does.\<close>

theorem action_id_identifies:
  assumes no_collision:
    "take 32 (H (utf8 (canonical_json (action_payload w t r c v)))) =
       take 32 (H (utf8 (canonical_json (action_payload w' t' r' c' v')))) \<Longrightarrow>
     utf8 (canonical_json (action_payload w t r c v)) =
       utf8 (canonical_json (action_payload w' t' r' c' v'))"
  shows "derive_action_id H w t r c v = derive_action_id H w' t' r' c' v' \<longleftrightarrow>
    w = w' \<and> t = t' \<and> r = r' \<and> c = c' \<and> v = v'"
proof
  assume eq: "derive_action_id H w t r c v = derive_action_id H w' t' r' c' v'"
  then have "t = t'" by (rule action_id_type)
  with eq have "take 32 (H (utf8 (canonical_json (action_payload w t r c v)))) =
      take 32 (H (utf8 (canonical_json (action_payload w' t' r' c' v'))))"
    by (simp add: derive_action_id_def Let_def)
  from no_collision [OF this] show "w = w' \<and> t = t' \<and> r = r' \<and> c = c' \<and> v = v'"
    by (simp only: action_payload_inj)
qed simp

theorem action_id_identifies_witness:
  "derive_action_id (\<lambda>b. show_nat (length b)) ''wf-1'' DELIVER_DELTA ''worker-1'' ''chg-1'' ''v8'' \<noteq>
   derive_action_id (\<lambda>b. show_nat (length b)) ''wf-1'' DELIVER_DELTA ''worker-12'' ''chg-1'' ''v8''"
proof -
  have "length (utf8 (canonical_json
            (action_payload ''wf-1'' DELIVER_DELTA ''worker-1'' ''chg-1'' ''v8''))) = 118"
    and "length (utf8 (canonical_json
            (action_payload ''wf-1'' DELIVER_DELTA ''worker-12'' ''chg-1'' ''v8''))) = 119"
    by code_simp+
  moreover have "take 32 (show_nat 118) \<noteq> take 32 (show_nat 119)" by code_simp
  ultimately show ?thesis
    by (subst action_id_identifies) simp_all
qed

end
