(* ===== verification/Verification.thy ===== *)
theory Verification
  imports Idempotency
begin

text \<open>
  Verification chronology and the deterministic comparator (\<open>truth_engine/verification.py\<close>). The
  only order among a workflow's events is \<open>event_sequence\<close>; the lemmas show that neither the order
  of the list nor any timestamp matters, and that ingestion keeps the history consistent.
\<close>

section \<open>The comparator (T038)\<close>

text \<open>What may reach \<open>normalize_observation(raw: object)\<close>.\<close>

datatype raw_observation = RawPosition observed_position | RawStr str | RawOther

fun normalize_observation :: "raw_observation \<Rightarrow> observed_position res" where
  "normalize_observation (RawPosition p) = Inr p"
| "normalize_observation (RawStr s) =
     (case position_of_value s of
        Some p \<Rightarrow> Inr p
      | None \<Rightarrow> Inl (UnnormalizedObservationError s))"
| "normalize_observation RawOther = Inl (UnnormalizedObservationError [])"

definition compare_observation :: "str \<Rightarrow> raw_observation \<Rightarrow> verification_result res" where
  "compare_observation expected_value observed =
     res_bind (normalize_observation observed)
       (\<lambda>normalized.
          Inr (if normalized = OBS_INCONCLUSIVE then VR_INCONCLUSIVE
               else if position_value normalized = expected_value then VR_PASS
               else VR_FAIL))"

section \<open>Chronology (T037)\<close>

definition events_for_workflow :: "verification_event list \<Rightarrow> str \<Rightarrow> verification_event list" where
  "events_for_workflow events workflow_id = filter (\<lambda>e. ve_workflow_id e = workflow_id) events"

text \<open>\<open>max(\<dots>, default=0)\<close> over the sequence numbers.\<close>

fun max_sequence :: "verification_event list \<Rightarrow> int" where
  "max_sequence [] = 0"
| "max_sequence [e] = ve_event_sequence e"
| "max_sequence (e # f # es) = max (ve_event_sequence e) (max_sequence (f # es))"

definition next_event_sequence :: "verification_event list \<Rightarrow> str \<Rightarrow> int" where
  "next_event_sequence events workflow_id =
     max_sequence (events_for_workflow events workflow_id) + 1"

text \<open>The loop over \<open>seen\<close>: the first sequence number met twice.\<close>

fun first_repeated :: "int set \<Rightarrow> verification_event list \<Rightarrow> int option" where
  "first_repeated seen [] = None"
| "first_repeated seen (e # es) =
     (if ve_event_sequence e \<in> seen then Some (ve_event_sequence e)
      else first_repeated (insert (ve_event_sequence e) seen) es)"

text \<open>\<open>max(scoped, key=\<dots>)\<close>: the first event with the greatest sequence.\<close>

fun latest_of :: "verification_event \<Rightarrow> verification_event list \<Rightarrow> verification_event" where
  "latest_of b [] = b"
| "latest_of b (e # es) =
     latest_of (if ve_event_sequence b < ve_event_sequence e then e else b) es"

definition latest_authoritative_event ::
  "verification_event list \<Rightarrow> str \<Rightarrow> verification_event option res" where
  "latest_authoritative_event events workflow_id =
     (case events_for_workflow events workflow_id of
        [] \<Rightarrow> Inr None
      | e # es \<Rightarrow>
          (case first_repeated {} (e # es) of
             Some n \<Rightarrow> Inl (AmbiguousChronologyError workflow_id n)
           | None \<Rightarrow> Inr (Some (latest_of e es))))"

definition latest_verification_status ::
  "verification_event list \<Rightarrow> str \<Rightarrow> verification_result option res" where
  "latest_verification_status events workflow_id =
     res_bind (latest_authoritative_event events workflow_id)
       (\<lambda>latest. Inr (map_option ve_verification_result latest))"

definition would_override_authoritative ::
  "verification_event list \<Rightarrow> str \<Rightarrow> int \<Rightarrow> bool res" where
  "would_override_authoritative events workflow_id candidate_sequence =
     res_bind (latest_authoritative_event events workflow_id)
       (\<lambda>latest. Inr (case latest of
          None \<Rightarrow> True
        | Some e \<Rightarrow> ve_event_sequence e < candidate_sequence))"

section \<open>Ingestion\<close>

datatype ingest_outcome = RECORDED_NEW_ATTEMPT | INGEST_TRANSPORT_DUPLICATE

record verification_ingest_result =
  vi_outcome :: ingest_outcome
  vi_event :: verification_event
  vi_allocated_sequence :: "int option"

definition new_verification_event ::
  "field_observation \<Rightarrow> str \<Rightarrow> str \<Rightarrow> int \<Rightarrow> str \<Rightarrow> datetime \<Rightarrow> data_classification \<Rightarrow>
     verification_result \<Rightarrow> verification_event" where
  "new_verification_event observation workflow_id expected_value sequence event_id timestamp
       classification result =
     \<lparr>ve_event_id = event_id, ve_submission_id = fo_submission_id observation,
      ve_workflow_id = workflow_id, ve_event_sequence = sequence,
      ve_raw_evidence_ref = fo_raw_evidence_ref observation,
      ve_derived_observation = fo_observed_label_position observation,
      ve_expected_value = expected_value, ve_verification_result = result,
      ve_timestamp = timestamp, ve_data_classification = classification\<rparr>"

definition ingest_observation ::
  "field_observation \<Rightarrow> str \<Rightarrow> str \<Rightarrow> verification_event list \<Rightarrow> str \<Rightarrow> datetime \<Rightarrow>
     data_classification \<Rightarrow> verification_ingest_result res" where
  "ingest_observation observation workflow_id expected_value existing_events event_id timestamp
       classification =
     (let scoped = events_for_workflow existing_events workflow_id;
          decision = classify_submission (fo_submission_id observation) scoped
      in if sd_outcome decision = SUBMISSION_TRANSPORT_DUPLICATE then
           (case List.find (\<lambda>e. Some (ve_event_id e) = sd_existing_event_id decision) scoped of
              None \<Rightarrow> Inl StopIteration
            | Some existing \<Rightarrow>
                Inr \<lparr>vi_outcome = INGEST_TRANSPORT_DUPLICATE, vi_event = existing,
                     vi_allocated_sequence = None\<rparr>)
         else
           let sequence = next_event_sequence scoped workflow_id
           in res_bind
                (compare_observation expected_value
                  (RawPosition (fo_observed_label_position observation)))
                (\<lambda>result. res_bind
                   (validated valid_event
                     (new_verification_event observation workflow_id expected_value sequence
                       event_id timestamp classification result))
                   (\<lambda>event. Inr
                      \<lparr>vi_outcome = RECORDED_NEW_ATTEMPT, vi_event = event,
                       vi_allocated_sequence = Some sequence\<rparr>)))"

section \<open>The latest event\<close>

lemma events_for_workflow_idem [simp]:
  "events_for_workflow (events_for_workflow es w) w = events_for_workflow es w"
  by (simp add: events_for_workflow_def)

lemma first_repeated_None_iff:
  "first_repeated seen es = None \<longleftrightarrow>
     distinct (map ve_event_sequence es) \<and> seen \<inter> ve_event_sequence ` set es = {}"
  by (induction seen es rule: first_repeated.induct) auto

lemma latest_of_max:
  "latest_of b es \<in> set (b # es) \<and>
   (\<forall>e \<in> set (b # es). ve_event_sequence e \<le> ve_event_sequence (latest_of b es))"
proof (induction b es rule: latest_of.induct)
  case (1 b)
  then show ?case by simp
next
  case (2 b e es)
  then show ?case by (cases "ve_event_sequence b < ve_event_sequence e") auto
qed

lemma latest_Cons:
  assumes "events_for_workflow es w = b # bs"
  shows "latest_authoritative_event es w =
    (if distinct (map ve_event_sequence (b # bs)) then Inr (Some (latest_of b bs))
     else Inl (AmbiguousChronologyError w (the (first_repeated {} (b # bs)))))"
proof -
  have d: "first_repeated {} (b # bs) = None \<longleftrightarrow> distinct (map ve_event_sequence (b # bs))"
    using first_repeated_None_iff [of "{}" "b # bs"] by simp
  show ?thesis
    unfolding latest_authoritative_event_def assms list.case
    by (cases "first_repeated {} (b # bs)") (use d in \<open>simp_all del: first_repeated.simps\<close>)
qed

lemma latest_Nil:
  "events_for_workflow es w = [] \<Longrightarrow> latest_authoritative_event es w = Inr None"
  by (simp add: latest_authoritative_event_def)

lemma greatest_unique:
  assumes "distinct (map ve_event_sequence es)" and "f \<in> set es" and "g \<in> set es"
    and "\<forall>e \<in> set es. ve_event_sequence e \<le> ve_event_sequence f"
    and "\<forall>e \<in> set es. ve_event_sequence e \<le> ve_event_sequence g"
  shows "f = g"
proof -
  have "ve_event_sequence f = ve_event_sequence g" using assms(2-5) by (meson antisym)
  with assms(1-3) show ?thesis by (metis distinct_map inj_onD)
qed

lemma latest_Inr_iff:
  "latest_authoritative_event es w = Inr (Some e) \<longleftrightarrow>
     distinct (map ve_event_sequence (events_for_workflow es w)) \<and>
     e \<in> set (events_for_workflow es w) \<and>
     (\<forall>f \<in> set (events_for_workflow es w). ve_event_sequence f \<le> ve_event_sequence e)"
  (is "?l \<longleftrightarrow> ?r")
proof (cases "events_for_workflow es w")
  case Nil
  then show ?thesis by (simp add: latest_Nil)
next
  case (Cons b bs)
  show ?thesis
  proof
    assume ?l
    then have d: "distinct (map ve_event_sequence (b # bs))" and "e = latest_of b bs"
      unfolding latest_Cons [OF Cons] by (simp_all split: if_splits)
    with latest_of_max [of b bs] show ?r unfolding Cons by blast
  next
    assume r: ?r
    then have d: "distinct (map ve_event_sequence (b # bs))" by (simp add: Cons)
    have "e = latest_of b bs"
      by (rule greatest_unique [OF d]) (use r latest_of_max [of b bs] Cons in auto)
    with d show ?l unfolding latest_Cons [OF Cons] by simp
  qed
qed

lemma latest_None_iff:
  "latest_authoritative_event es w = Inr None \<longleftrightarrow> events_for_workflow es w = []"
proof (cases "events_for_workflow es w")
  case (Cons b bs)
  then show ?thesis unfolding latest_Cons [OF Cons] by simp
qed (simp add: latest_Nil)

lemma latest_raises_iff:
  "(\<exists>x. latest_authoritative_event es w = Inl x) \<longleftrightarrow>
     \<not> distinct (map ve_event_sequence (events_for_workflow es w))"
proof (cases "events_for_workflow es w")
  case (Cons b bs)
  then show ?thesis unfolding latest_Cons [OF Cons] by simp
qed (simp add: latest_Nil)

lemma max_sequence_bound: "e \<in> set es \<Longrightarrow> ve_event_sequence e \<le> max_sequence es"
  by (induction es rule: max_sequence.induct) auto

lemma max_sequence_in: "es \<noteq> [] \<Longrightarrow> max_sequence es \<in> ve_event_sequence ` set es"
  by (induction es rule: max_sequence.induct) (auto simp: max_def)

lemma next_sequence_greater:
  "e \<in> set (events_for_workflow es w) \<Longrightarrow> ve_event_sequence e < next_event_sequence es w"
  using max_sequence_bound by (fastforce simp: next_event_sequence_def)

section \<open>One ingestion\<close>

lemma compare_position [simp]:
  "compare_observation x (RawPosition p) =
     Inr (if p = OBS_INCONCLUSIVE then VR_INCONCLUSIVE
          else if position_value p = x then VR_PASS else VR_FAIL)"
  by (simp add: compare_observation_def)

lemma ingest_cases:
  assumes "ingest_observation ob w x es i t c = Inr r"
  obtains (dup) "vi_outcome r = INGEST_TRANSPORT_DUPLICATE"
      "fo_submission_id ob \<in> ve_submission_id ` set (events_for_workflow es w)"
      "vi_event r \<in> set (events_for_workflow es w)"
  | (fresh) "vi_outcome r = RECORDED_NEW_ATTEMPT"
      "fo_submission_id ob \<notin> ve_submission_id ` set (events_for_workflow es w)"
      "vi_event r = new_verification_event ob w x (next_event_sequence es w) i t c
         (if fo_observed_label_position ob = OBS_INCONCLUSIVE then VR_INCONCLUSIVE
          else if position_value (fo_observed_label_position ob) = x then VR_PASS else VR_FAIL)"
      "valid_event (vi_event r)"
proof (cases "sd_outcome (classify_submission (fo_submission_id ob) (events_for_workflow es w)) =
    SUBMISSION_TRANSPORT_DUPLICATE")
  case True
  then have "\<not> sd_outcome (classify_submission (fo_submission_id ob) (events_for_workflow es w)) =
      NEW_EVIDENCE_ATTEMPT" by simp
  then have "fo_submission_id ob \<in> ve_submission_id ` set (events_for_workflow es w)"
    by (simp add: classify_submission_new)
  moreover have "vi_outcome r = INGEST_TRANSPORT_DUPLICATE"
    and "vi_event r \<in> set (events_for_workflow es w)"
    using assms True
    by (auto simp: ingest_observation_def Let_def dest: find_Some_set split: option.splits)
  ultimately show ?thesis by (intro dup)
next
  case False
  then have "sd_outcome (classify_submission (fo_submission_id ob) (events_for_workflow es w)) =
      NEW_EVIDENCE_ATTEMPT"
    by (auto simp: classify_submission_def split: option.splits)
  then have "fo_submission_id ob \<notin> ve_submission_id ` set (events_for_workflow es w)"
    by (simp add: classify_submission_new)
  moreover have "next_event_sequence (events_for_workflow es w) w = next_event_sequence es w"
    by (simp add: next_event_sequence_def)
  ultimately show ?thesis
    using assms False
    by (intro fresh) (auto simp: ingest_observation_def Let_def res_bind_Inr_iff)
qed

section \<open>A history of submissions\<close>

type_synonym submission = "field_observation \<times> str \<times> datetime \<times> data_classification"

text \<open>The caller appends the event of every new attempt and nothing for a duplicate.\<close>

fun ingest_run ::
  "str \<Rightarrow> str \<Rightarrow> verification_event list \<Rightarrow> submission list \<Rightarrow> verification_event list res" where
  "ingest_run w x es [] = Inr es"
| "ingest_run w x es ((ob, i, t, c) # rest) =
     (case ingest_observation ob w x es i t c of
        Inl e \<Rightarrow> Inl e
      | Inr r \<Rightarrow>
          ingest_run w x
            (if vi_outcome r = RECORDED_NEW_ATTEMPT then es @ [vi_event r] else es) rest)"

definition history_ok :: "str \<Rightarrow> verification_event list \<Rightarrow> bool" where
  "history_ok w es \<longleftrightarrow>
     sorted_wrt (<) (map ve_event_sequence (events_for_workflow es w)) \<and>
     distinct (map ve_submission_id (events_for_workflow es w))"

lemma new_event_fields [simp]:
  "ve_workflow_id (new_verification_event ob w x n i t c v) = w"
  "ve_event_sequence (new_verification_event ob w x n i t c v) = n"
  "ve_submission_id (new_verification_event ob w x n i t c v) = fo_submission_id ob"
  "ve_verification_result (new_verification_event ob w x n i t c v) = v"
  by (simp_all add: new_verification_event_def)

lemma events_for_append [simp]:
  "events_for_workflow (es @ fs) w = events_for_workflow es w @ events_for_workflow fs w"
  by (simp add: events_for_workflow_def)

lemma history_ok_append:
  assumes "history_ok w es" and "ve_workflow_id e = w"
    and "ve_event_sequence e = next_event_sequence es w"
    and "ve_submission_id e \<notin> ve_submission_id ` set (events_for_workflow es w)"
  shows "history_ok w (es @ [e])"
  using assms next_sequence_greater [of _ es w]
  by (auto simp: history_ok_def sorted_wrt_append events_for_workflow_def)

lemma history_ok_ingest:
  assumes "history_ok w es" and "ingest_observation ob w x es i t c = Inr r"
  shows "history_ok w (if vi_outcome r = RECORDED_NEW_ATTEMPT then es @ [vi_event r] else es)"
  using assms(2)
proof (cases rule: ingest_cases)
  case dup
  with assms(1) show ?thesis by simp
next
  case fresh
  with history_ok_append [OF assms(1)] show ?thesis by simp
qed

lemma last_greatest:
  fixes f :: "'a \<Rightarrow> int"
  shows "sorted_wrt (<) (map f xs) \<Longrightarrow> x \<in> set xs \<Longrightarrow> f x \<le> f (last xs)"
  by (induction xs rule: rev_induct) (auto simp: sorted_wrt_append less_imp_le)

lemma history_latest:
  assumes "history_ok w es" and "events_for_workflow es w \<noteq> []"
  shows "latest_authoritative_event es w = Inr (Some (last (events_for_workflow es w)))"
proof -
  let ?ev = "events_for_workflow es w"
  from assms(1) have s: "sorted_wrt (<) (map ve_event_sequence ?ev)" by (simp add: history_ok_def)
  then have "distinct (map ve_event_sequence ?ev)"
    by (simp add: strict_sorted_iff)
  moreover have "ve_event_sequence e \<le> ve_event_sequence (last ?ev)" if "e \<in> set ?ev" for e
    by (rule last_greatest [OF s that])
  ultimately show ?thesis
    using assms(2) by (simp add: latest_Inr_iff)
qed

lemma ingest_run_history:
  "ingest_run w x es subs = Inr es' \<Longrightarrow> history_ok w es \<Longrightarrow>
     history_ok w es' \<and> (\<exists>ns. es' = es @ ns) \<and>
     ve_submission_id ` set (events_for_workflow es' w) =
       ve_submission_id ` set (events_for_workflow es w) \<union> (fo_submission_id \<circ> fst) ` set subs"
proof (induction w x es subs rule: ingest_run.induct)
  case (1 w x es)
  then show ?case by simp
next
  case (2 w x es ob i t c rest)
  then obtain r where r: "ingest_observation ob w x es i t c = Inr r"
    by (auto split: sum.splits)
  let ?es = "if vi_outcome r = RECORDED_NEW_ATTEMPT then es @ [vi_event r] else es"
  have run: "ingest_run w x ?es rest = Inr es'" using "2.prems"(1) r by simp
  have ok: "history_ok w ?es" by (rule history_ok_ingest [OF "2.prems"(2) r])
  from "2.IH" [OF r run ok] have
    1: "history_ok w es'" "\<exists>ns. es' = ?es @ ns"
      "ve_submission_id ` set (events_for_workflow es' w) =
       ve_submission_id ` set (events_for_workflow ?es w) \<union> (fo_submission_id \<circ> fst) ` set rest"
    by simp_all
  have "ve_submission_id ` set (events_for_workflow ?es w) =
      insert (fo_submission_id ob) (ve_submission_id ` set (events_for_workflow es w))"
    using r by (cases rule: ingest_cases) (auto simp: events_for_workflow_def)
  with 1 show ?case by (auto split: if_splits)
qed

lemma events_mset:
  "mset es = mset es' \<Longrightarrow> mset (events_for_workflow es w) = mset (events_for_workflow es' w)"
  by (simp add: events_for_workflow_def)

lemma latest_mset_cong:
  assumes "mset es = mset es'"
  shows "latest_authoritative_event es w = Inr oe \<longleftrightarrow> latest_authoritative_event es' w = Inr oe"
proof -
  note m = events_mset [OF assms, of w]
  then have s: "set (events_for_workflow es w) = set (events_for_workflow es' w)"
    by (metis set_mset_mset)
  from m have "mset (map ve_event_sequence (events_for_workflow es w)) =
      mset (map ve_event_sequence (events_for_workflow es' w))" by simp
  then have d: "distinct (map ve_event_sequence (events_for_workflow es w)) \<longleftrightarrow>
      distinct (map ve_event_sequence (events_for_workflow es' w))"
    by (metis mset_eq_imp_distinct_iff)
  show ?thesis
  proof (cases oe)
    case None
    then show ?thesis by (metis latest_None_iff m mset_zero_iff)
  next
    case (Some f)
    then show ?thesis using s d by (simp add: latest_Inr_iff)
  qed
qed

text \<open>C33. The authoritative verification is chosen by sequence number alone: for any rearrangement of
  the recorded events (whatever their arrival order and whatever their timestamps) the same event,
  or the same absence of one, is authoritative; it is the workflow's event of greatest sequence,
  and selection raises \<open>AmbiguousChronologyError\<close> exactly when two of the workflow's events share
  a sequence number.\<close>

theorem latest_by_sequence_only:
  assumes "mset es = mset es'"
  shows "(latest_authoritative_event es w = Inr oe \<longleftrightarrow> latest_authoritative_event es' w = Inr oe) \<and>
    (oe = Some e \<and> latest_authoritative_event es w = Inr oe \<longrightarrow>
       e \<in> set es \<and> ve_workflow_id e = w \<and>
       (\<forall>f \<in> set es. ve_workflow_id f = w \<and> f \<noteq> e \<longrightarrow> ve_event_sequence f < ve_event_sequence e)) \<and>
    ((\<exists>x. latest_authoritative_event es w = Inl x) \<longleftrightarrow>
       \<not> distinct (map ve_event_sequence (events_for_workflow es w)))"
proof -
  have greatest: "ve_event_sequence f < ve_event_sequence e"
    if "latest_authoritative_event es w = Inr (Some e)" "f \<in> set es" "ve_workflow_id f = w" "f \<noteq> e"
    for f
  proof -
    from that(2,3) have f: "f \<in> set (events_for_workflow es w)" by (simp add: events_for_workflow_def)
    with that(1) have "ve_event_sequence f \<le> ve_event_sequence e"
      and "ve_event_sequence f \<noteq> ve_event_sequence e"
      using that(4) by (auto simp: latest_Inr_iff distinct_map dest: inj_onD)
    then show ?thesis by simp
  qed
  have member: "e \<in> set es \<and> ve_workflow_id e = w"
    if "latest_authoritative_event es w = Inr (Some e)"
    using that by (auto simp: latest_Inr_iff events_for_workflow_def)
  show ?thesis using latest_mset_cong [OF assms] greatest member latest_raises_iff by blast
qed

definition sample_event :: "str \<Rightarrow> int \<Rightarrow> verification_result \<Rightarrow> verification_event" where
  "sample_event i n v =
     \<lparr>ve_event_id = i, ve_submission_id = i, ve_workflow_id = ''wf-1'', ve_event_sequence = n,
      ve_raw_evidence_ref = ''img'', ve_derived_observation = OBS_LEFT,
      ve_expected_value = ''TOP_RIGHT'', ve_verification_result = v, ve_timestamp = 0,
      ve_data_classification = \<lparr>dc_labels = [REAL], dc_lineage = []\<rparr>\<rparr>"

theorem latest_by_sequence_only_witness:
  "latest_authoritative_event [sample_event ''e2'' 2 VR_PASS, sample_event ''e1'' 1 VR_FAIL] ''wf-1'' =
     Inr (Some (sample_event ''e2'' 2 VR_PASS)) \<longleftrightarrow>
   latest_authoritative_event [sample_event ''e1'' 1 VR_FAIL, sample_event ''e2'' 2 VR_PASS] ''wf-1'' =
     Inr (Some (sample_event ''e2'' 2 VR_PASS))"
  by (rule latest_by_sequence_only [THEN conjunct1]) simp

text \<open>Ingesting field submissions builds a consistent history: from a consistent history any
  sequence of accepted submissions only appends events, sequence numbers stay strictly
  increasing, each submission id has exactly one event however often it is re-delivered, and the
  authoritative event is always the last one recorded. An earlier failure therefore never blocks
  a later pass, and a re-delivered old submission never displaces a newer verdict.\<close>

theorem ingestion_history:
  assumes "ingest_run w x es subs = Inr es'" and "history_ok w es"
  shows "history_ok w es' \<and> (\<exists>ns. es' = es @ ns) \<and>
    ve_submission_id ` set (events_for_workflow es' w) =
      ve_submission_id ` set (events_for_workflow es w) \<union> (fo_submission_id \<circ> fst) ` set subs \<and>
    (events_for_workflow es' w \<noteq> [] \<longrightarrow>
      latest_authoritative_event es' w = Inr (Some (last (events_for_workflow es' w))))"
  using ingest_run_history [OF assms] history_latest by blast

definition sample_observation :: "str \<Rightarrow> observed_position \<Rightarrow> field_observation" where
  "sample_observation i p =
     \<lparr>fo_submission_id = i, fo_raw_evidence_ref = ''img'', fo_observed_label_position = p,
      fo_confidence_note = []\<rparr>"

theorem ingestion_history_witness:
  "let c = \<lparr>dc_labels = [DERIVED, REAL], dc_lineage = []\<rparr>;
       es' = [new_verification_event (sample_observation ''s1'' OBS_LEFT) ''wf-1'' ''TOP_RIGHT'' 1
                ''e1'' 5 c VR_FAIL,
              new_verification_event (sample_observation ''s2'' OBS_TOP_RIGHT) ''wf-1'' ''TOP_RIGHT'' 2
                ''e3'' 7 c VR_PASS]
   in ingest_run ''wf-1'' ''TOP_RIGHT'' []
        [(sample_observation ''s1'' OBS_LEFT, ''e1'', 5, c),
         (sample_observation ''s1'' OBS_LEFT, ''e2'', 6, c),
         (sample_observation ''s2'' OBS_TOP_RIGHT, ''e3'', 7, c)] = Inr es' \<and>
      latest_authoritative_event es' ''wf-1'' = Inr (Some (last (events_for_workflow es' ''wf-1'')))"
proof -
  let ?c = "\<lparr>dc_labels = [DERIVED, REAL], dc_lineage = []\<rparr>"
  let ?es = "[new_verification_event (sample_observation ''s1'' OBS_LEFT) ''wf-1'' ''TOP_RIGHT'' 1
                ''e1'' 5 ?c VR_FAIL,
              new_verification_event (sample_observation ''s2'' OBS_TOP_RIGHT) ''wf-1'' ''TOP_RIGHT'' 2
                ''e3'' 7 ?c VR_PASS]"
  have r: "ingest_run ''wf-1'' ''TOP_RIGHT'' []
        [(sample_observation ''s1'' OBS_LEFT, ''e1'', 5, ?c),
         (sample_observation ''s1'' OBS_LEFT, ''e2'', 6, ?c),
         (sample_observation ''s2'' OBS_TOP_RIGHT, ''e3'', 7, ?c)] = Inr ?es"
    by code_simp
  have "history_ok ''wf-1'' []" by (simp add: history_ok_def events_for_workflow_def)
  from ingestion_history [OF r this] have
    "latest_authoritative_event ?es ''wf-1'' = Inr (Some (last (events_for_workflow ?es ''wf-1'')))"
    by (simp add: events_for_workflow_def)
  with r show ?thesis by (simp add: Let_def)
qed

text \<open>The comparator passes an observation exactly when it is conclusive and its normalised
  value is the approved one, never passes an inconclusive one whatever is expected, and refuses
  every value outside the three normalised positions instead of guessing.\<close>

theorem comparator_exact:
  "(compare_observation x raw = Inr VR_PASS \<longleftrightarrow>
      (\<exists>p. normalize_observation raw = Inr p \<and> p \<noteq> OBS_INCONCLUSIVE \<and> position_value p = x)) \<and>
   (compare_observation x raw = Inr VR_INCONCLUSIVE \<longleftrightarrow>
      normalize_observation raw = Inr OBS_INCONCLUSIVE) \<and>
   ((\<exists>e. compare_observation x raw = Inl e) \<longleftrightarrow>
      (\<forall>p. raw \<noteq> RawPosition p \<and> raw \<noteq> RawStr (position_value p)))"
proof (cases raw)
  case (RawStr s)
  then show ?thesis
    by (cases "position_of_value s")
      (auto simp: compare_observation_def position_of_value_iff [symmetric])
qed (auto simp: compare_observation_def)

end
