(* ===== verification/Evidence.thy ===== *)
theory Evidence
  imports Verification
begin

text \<open>
  Evidence manifest assembly (\<open>truth_engine/evidence.py\<close>, T041): the references and digests of the
  two remediation variants, every verification attempt in sequence order, and the shape checks
  the proof conditions use.
\<close>

section \<open>Manifest assembly\<close>

primrec remediation_evidence_refs :: "remediation_evidence \<Rightarrow> str list" where
  "remediation_evidence_refs (MutationEvidence e) = [me_before_ref e, me_after_ref e]"
| "remediation_evidence_refs (NoOpEvidence e) = [ne_evaluated_artifact_ref e]"

primrec remediation_content_hashes :: "remediation_evidence \<Rightarrow> (str, str) dict" where
  "remediation_content_hashes (MutationEvidence e) =
     dict_put (me_after_ref e) (me_after_hash e) [(me_before_ref e, me_before_hash e)]"
| "remediation_content_hashes (NoOpEvidence e) =
     [(ne_evaluated_artifact_ref e, ne_evaluated_artifact_hash e)]"

definition assemble_evidence_manifest ::
  "str \<Rightarrow> str \<Rightarrow> remediation_evidence \<Rightarrow> str \<Rightarrow> verification_event list \<Rightarrow> str list \<Rightarrow> str list \<Rightarrow>
     (str, str) dict \<Rightarrow> evidence_manifest res" where
  "assemble_evidence_manifest source_change_ref affected_artifact_ref evidence delivery_ref
       verification_events state_transition_refs rejected_result_refs extra_content_hashes =
     (let ordered_events = sort_key ve_event_sequence verification_events;
          hashes = dict_merge (remediation_content_hashes evidence) extra_content_hashes
      in validated valid_manifest
           \<lparr>em_source_change_ref = source_change_ref,
            em_affected_artifact_ref = affected_artifact_ref,
            em_remediation_evidence_refs = remediation_evidence_refs evidence,
            em_rejected_result_refs = rejected_result_refs,
            em_delivery_ref = delivery_ref,
            em_verification_refs = map ve_event_id ordered_events,
            em_state_transition_refs = state_transition_refs,
            em_content_hashes = hashes\<rparr>)"

definition manifest_covers_all_events ::
  "evidence_manifest \<Rightarrow> verification_event list \<Rightarrow> bool" where
  "manifest_covers_all_events manifest events \<longleftrightarrow>
     list_all (\<lambda>e. ve_event_id e \<in> set (em_verification_refs manifest)) events"

definition is_no_op_manifest_shape :: "evidence_manifest \<Rightarrow> bool" where
  "is_no_op_manifest_shape manifest \<longleftrightarrow> length (em_remediation_evidence_refs manifest) = 1"

definition has_fabricated_before_after_pair ::
  "evidence_manifest \<Rightarrow> remediation_evidence \<Rightarrow> bool" where
  "has_fabricated_before_after_pair manifest evidence =
     (let refs = em_remediation_evidence_refs manifest
      in case evidence of
           NoOpEvidence _ \<Rightarrow> length refs \<noteq> 1
         | MutationEvidence _ \<Rightarrow> length refs \<noteq> 2 \<or> refs ! 0 = refs ! 1)"

section \<open>What an assembled manifest contains\<close>

lemma assembled_Inr_iff:
  "assemble_evidence_manifest s a e d evs st rj ex = Inr m \<longleftrightarrow>
     s \<noteq> [] \<and> a \<noteq> [] \<and> d \<noteq> [] \<and>
     m = \<lparr>em_source_change_ref = s, em_affected_artifact_ref = a,
          em_remediation_evidence_refs = remediation_evidence_refs e,
          em_rejected_result_refs = rj, em_delivery_ref = d,
          em_verification_refs = map ve_event_id (sort_key ve_event_sequence evs),
          em_state_transition_refs = st,
          em_content_hashes = dict_merge (remediation_content_hashes e) ex\<rparr>"
  by (auto simp: assemble_evidence_manifest_def Let_def valid_manifest_def)

lemma remediation_hash_keys:
  "set (dict_keys (remediation_content_hashes e)) = set (remediation_evidence_refs e)"
  by (cases e) auto

lemma sort_sequences_unique:
  assumes "mset evs = mset evs'" and "distinct (map ve_event_sequence evs)"
  shows "sort_key ve_event_sequence evs = sort_key ve_event_sequence evs'"
proof (rule sort_key_inj_key_eq)
  show "inj_on ve_event_sequence (set evs)" using assms(2) by (simp add: distinct_map)
qed (simp_all add: assms(1))

text \<open>An assembled manifest hides nothing: it references every verification attempt, passed or not,
  in sequence order and whatever order the events were supplied in; every remediation reference
  has a recorded digest; and it shows a fabricated before/after pair exactly when a mutation's
  before and after references are the same object. Assembly fails only on an empty source,
  artifact or delivery reference.\<close>

theorem manifest_complete:
  assumes "assemble_evidence_manifest s a e d evs st rj ex = Inr m"
    and "mset evs' = mset evs" and "distinct (map ve_event_sequence evs)"
  shows "manifest_covers_all_events m evs \<and>
    assemble_evidence_manifest s a e d evs' st rj ex = Inr m \<and>
    sorted (map ve_event_sequence (sort_key ve_event_sequence evs)) \<and>
    (\<forall>r \<in> set (em_remediation_evidence_refs m). \<exists>h. dict_get (em_content_hashes m) r = Some h) \<and>
    (has_fabricated_before_after_pair m e \<longleftrightarrow>
       (\<exists>x. e = MutationEvidence x \<and> me_before_ref x = me_after_ref x))"
proof -
  from assms(1) have m: "em_verification_refs m = map ve_event_id (sort_key ve_event_sequence evs)"
    "em_remediation_evidence_refs m = remediation_evidence_refs e"
    "em_content_hashes m = dict_merge (remediation_content_hashes e) ex"
    by (auto simp: assembled_Inr_iff)
  have "assemble_evidence_manifest s a e d evs' st rj ex = Inr m"
    using assms(1) sort_sequences_unique [OF assms(2) [symmetric] assms(3)]
    by (simp add: assembled_Inr_iff)
  moreover have "\<exists>h. dict_get (em_content_hashes m) r = Some h"
    if "r \<in> set (em_remediation_evidence_refs m)" for r
    using that remediation_hash_keys [of e] dict_merge_keys [of "remediation_content_hashes e" ex]
    unfolding m by (simp add: dict_get_present [symmetric])
  moreover have "has_fabricated_before_after_pair m e \<longleftrightarrow>
      (\<exists>x. e = MutationEvidence x \<and> me_before_ref x = me_after_ref x)"
    by (cases e) (auto simp: has_fabricated_before_after_pair_def m)
  ultimately show ?thesis
    by (simp add: manifest_covers_all_events_def m list_all_iff)
qed

definition sample_mutation :: mutation_evidence where
  "sample_mutation =
     \<lparr>me_artifact_id = ''a'', me_before_ref = ''a#v1'', me_after_ref = ''a#v2'',
      me_before_hash = ''h1'', me_after_hash = ''h2'', me_before_value = ''LEFT'',
      me_after_value = ''TOP_RIGHT'', me_patch_description = ''p'', me_reconciled = False,
      me_action_id = ''act-1'', me_data_classification = \<lparr>dc_labels = [SYNTHETIC], dc_lineage = []\<rparr>\<rparr>"

theorem manifest_complete_witness:
  "let evs = [sample_event ''e2'' 2 VR_PASS, sample_event ''e1'' 1 VR_FAIL];
       m = \<lparr>em_source_change_ref = ''chg-1'', em_affected_artifact_ref = ''a'',
          em_remediation_evidence_refs = [''a#v1'', ''a#v2''], em_rejected_result_refs = [],
          em_delivery_ref = ''rcpt'', em_verification_refs = [''e1'', ''e2''],
          em_state_transition_refs = [], em_content_hashes = [(''a#v1'', ''h1''), (''a#v2'', ''h2'')]\<rparr>
   in manifest_covers_all_events m evs \<and>
      \<not> has_fabricated_before_after_pair m (MutationEvidence sample_mutation)"
proof -
  let ?evs = "[sample_event ''e2'' 2 VR_PASS, sample_event ''e1'' 1 VR_FAIL]"
  let ?m = "\<lparr>em_source_change_ref = ''chg-1'', em_affected_artifact_ref = ''a'',
          em_remediation_evidence_refs = [''a#v1'', ''a#v2''], em_rejected_result_refs = [],
          em_delivery_ref = ''rcpt'', em_verification_refs = [''e1'', ''e2''],
          em_state_transition_refs = [], em_content_hashes = [(''a#v1'', ''h1''), (''a#v2'', ''h2'')]\<rparr>"
  have "assemble_evidence_manifest ''chg-1'' ''a'' (MutationEvidence sample_mutation) ''rcpt'' ?evs
      [] [] [] = Inr ?m"
    by (simp add: assembled_Inr_iff sample_mutation_def sample_event_def)
  from manifest_complete [OF this refl] show ?thesis
    by (simp add: sample_event_def sample_mutation_def)
qed

end
