(* ===== verification/Impact.thy ===== *)
theory Impact
  imports Samples
begin

text \<open>
  Affected-artifact qualification and cardinality (\<open>truth_engine/impact.py\<close>). A candidate is
  paired with the artifact record it names; the four conditions are read from the artifact and
  the approved change only, and the agent's \<open>is_affected\<close> is recorded and never consulted.
\<close>

section \<open>Qualification of one candidate\<close>

datatype qualification_condition =
  OPERATION_MATCH | INSTRUCTION_CORRESPONDENCE | VALUE_CONFLICT | AUTHORIZED_SCOPE

record candidate_qualification =
  q_artifact_id :: str
  q_qualified :: bool
  q_conditions :: "(qualification_condition, bool) dict"
  q_failed_conditions :: "qualification_condition list"
  q_agent_proposed_is_affected :: bool
  q_agent_proposal_disagreed :: bool

definition qualification_results ::
  "downstream_artifact \<Rightarrow> approved_change \<Rightarrow> (qualification_condition, bool) dict" where
  "qualification_results artifact change =
     [(OPERATION_MATCH, da_operation_id artifact = ac_operation_id change),
      (INSTRUCTION_CORRESPONDENCE, da_requirement_id artifact = ac_requirement_id change),
      (VALUE_CONFLICT, da_current_value artifact \<noteq> ac_current_value change),
      (AUTHORIZED_SCOPE, da_authorized_for_remediation artifact \<and>
         da_artifact_id artifact \<in> set (ac_authorized_scope change))]"

definition qualify_candidate ::
  "affected_artifact_candidate \<Rightarrow> downstream_artifact \<Rightarrow> approved_change \<Rightarrow> candidate_qualification"
where
  "qualify_candidate candidate artifact change =
     (let results = qualification_results artifact change;
          failed = failed_of results;
          qualified = (failed = [])
      in \<lparr>q_artifact_id = da_artifact_id artifact,
          q_qualified = qualified,
          q_conditions = results,
          q_failed_conditions = failed,
          q_agent_proposed_is_affected = cand_is_affected candidate,
          q_agent_proposal_disagreed = (cand_is_affected candidate \<noteq> qualified)\<rparr>)"

definition qualify_candidates ::
  "(affected_artifact_candidate \<times> downstream_artifact) list \<Rightarrow> approved_change \<Rightarrow>
     candidate_qualification list" where
  "qualify_candidates pairs change = map (\<lambda>(c, a). qualify_candidate c a change) pairs"

section \<open>Cardinality\<close>

datatype impact_outcome =
  NO_QUALIFIED_TARGET | SINGLE_QUALIFIED_TARGET | MULTIPLE_QUALIFIED_TARGETS

record impact_resolution =
  ir_outcome :: impact_outcome
  ir_affected_artifact_id :: "str option"
  ir_qualified_artifact_ids :: "str list"
  ir_candidate_artifact_refs :: "str list"
  ir_qualifications :: "candidate_qualification list"
  ir_impact_reason :: str
  ir_requires_review :: bool

definition reason_single :: "str \<Rightarrow> str" where
  "reason_single a =
     ''exactly one candidate qualified against all four FR-002 conditions: '' @ a"

definition reason_none :: "nat \<Rightarrow> str" where
  "reason_none n =
     ''zero of '' @ show_nat n @ '' evaluated candidate(s) qualified against all four '' @
     ''FR-002 conditions; no unique S1 target exists''"

definition reason_many :: "nat \<Rightarrow> nat \<Rightarrow> str list \<Rightarrow> str" where
  "reason_many k n ids =
     show_nat k @ '' of '' @ show_nat n @ '' evaluated candidate(s) independently qualified ('' @
     join_str '', '' ids @ ''); S1 remains a single-artifact workflow and no '' @
     ''candidate may be selected automatically''"

definition resolve_cardinality :: "candidate_qualification list \<Rightarrow> impact_resolution" where
  "resolve_cardinality evaluated =
     (let all_refs = map q_artifact_id evaluated;
          qualified_ids = map q_artifact_id (filter q_qualified evaluated);
          count = length qualified_ids
      in if count = 1 then
           \<lparr>ir_outcome = SINGLE_QUALIFIED_TARGET,
            ir_affected_artifact_id = Some (hd qualified_ids),
            ir_qualified_artifact_ids = qualified_ids,
            ir_candidate_artifact_refs = all_refs,
            ir_qualifications = evaluated,
            ir_impact_reason = reason_single (hd qualified_ids),
            ir_requires_review = False\<rparr>
         else
           \<lparr>ir_outcome = (if count = 0 then NO_QUALIFIED_TARGET else MULTIPLE_QUALIFIED_TARGETS),
            ir_affected_artifact_id = None,
            ir_qualified_artifact_ids = qualified_ids,
            ir_candidate_artifact_refs = all_refs,
            ir_qualifications = evaluated,
            ir_impact_reason =
              (if count = 0 then reason_none (length evaluated)
               else reason_many count (length evaluated) qualified_ids),
            ir_requires_review = True\<rparr>)"

section \<open>The contract: four conditions and exactly one target\<close>

text \<open>The specification of a qualifying artifact, independent of any agent record.\<close>

definition qualifies :: "approved_change \<Rightarrow> downstream_artifact \<Rightarrow> bool" where
  "qualifies change a \<longleftrightarrow>
     da_operation_id a = ac_operation_id change \<and>
     da_requirement_id a = ac_requirement_id change \<and>
     da_current_value a \<noteq> ac_current_value change \<and>
     da_authorized_for_remediation a \<and>
     da_artifact_id a \<in> set (ac_authorized_scope change)"

lemma q_qualified_iff [gate_simps, simp]:
  "q_qualified (qualify_candidate c a change) \<longleftrightarrow> qualifies change a"
  by (auto simp: qualify_candidate_def qualification_results_def qualifies_def Let_def)

lemma q_artifact_id_simp [simp]: "q_artifact_id (qualify_candidate c a change) = da_artifact_id a"
  by (simp add: qualify_candidate_def Let_def)

lemma qualified_ids_of:
  "map q_artifact_id (filter q_qualified (qualify_candidates pairs change)) =
     map da_artifact_id (filter (qualifies change) (map snd pairs))"
  by (induction pairs) (auto simp: qualify_candidates_def)

lemma all_refs_of:
  "map q_artifact_id (qualify_candidates pairs change) = map da_artifact_id (map snd pairs)"
  by (induction pairs) (auto simp: qualify_candidates_def)

lemma length_qualify [simp]: "length (qualify_candidates pairs change) = length pairs"
  by (simp add: qualify_candidates_def)

lemma resolve_fields:
  fixes qs :: "candidate_qualification list"
  defines "ids \<equiv> map q_artifact_id (filter q_qualified qs)"
  shows "ir_affected_artifact_id (resolve_cardinality qs) =
           (if length ids = 1 then Some (hd ids) else None)"
    and "ir_requires_review (resolve_cardinality qs) \<longleftrightarrow> length ids \<noteq> 1"
    and "ir_qualified_artifact_ids (resolve_cardinality qs) = ids"
    and "ir_candidate_artifact_refs (resolve_cardinality qs) = map q_artifact_id qs"
    and "ir_outcome (resolve_cardinality qs) =
           (if length ids = 1 then SINGLE_QUALIFIED_TARGET
            else if ids = [] then NO_QUALIFIED_TARGET else MULTIPLE_QUALIFIED_TARGETS)"
    and "ir_impact_reason (resolve_cardinality qs) =
           (if length ids = 1 then reason_single (hd ids)
            else if ids = [] then reason_none (length qs)
            else reason_many (length ids) (length qs) ids)"
  unfolding ids_def by (auto simp: resolve_cardinality_def Let_def)

lemma the_only_Some_iff:
  "(if length (map f xs) = 1 then Some (hd (map f xs)) else None) = Some i \<longleftrightarrow>
     (\<exists>a. xs = [a] \<and> f a = i)"
  by (cases xs; cases "tl xs") auto

text \<open>C37. Exactly-one cardinality: an affected artifact is named when and only when exactly one
  of the evaluated artifacts meets all four conditions (operation, requirement, stale value,
  authorised by both records); it is then that artifact. In every other case review is required
  and no identity is fabricated, and every evaluated artifact is retained as a reference.\<close>

theorem impact_single_target_iff:
  "let r = resolve_cardinality (qualify_candidates pairs change) in
     (ir_affected_artifact_id r = Some i \<longleftrightarrow>
        (\<exists>pre a post. map snd pairs = pre @ a # post \<and> da_artifact_id a = i \<and>
           qualifies change a \<and> filter (qualifies change) (pre @ post) = [])) \<and>
     (ir_requires_review r \<longleftrightarrow> ir_affected_artifact_id r = None) \<and>
     ir_candidate_artifact_refs r = map (da_artifact_id \<circ> snd) pairs"
  unfolding Let_def resolve_fields qualified_ids_of all_refs_of the_only_Some_iff
  by (auto simp: filter_single_iff)

text \<open>The agent decides nothing: the whole resolution, apart from the recorded proposals, is a
  function of the artifacts and the change. Replacing every candidate record by any other, with
  any \<open>is_affected\<close>, changes neither the outcome, the selected artifact, the references nor the
  stated reason.\<close>

theorem impact_independent_of_agent:
  assumes "map snd pairs = map snd pairs'"
  shows "ir_outcome (resolve_cardinality (qualify_candidates pairs change)) =
           ir_outcome (resolve_cardinality (qualify_candidates pairs' change))
    \<and> ir_affected_artifact_id (resolve_cardinality (qualify_candidates pairs change)) =
           ir_affected_artifact_id (resolve_cardinality (qualify_candidates pairs' change))
    \<and> ir_candidate_artifact_refs (resolve_cardinality (qualify_candidates pairs change)) =
           ir_candidate_artifact_refs (resolve_cardinality (qualify_candidates pairs' change))
    \<and> ir_impact_reason (resolve_cardinality (qualify_candidates pairs change)) =
           ir_impact_reason (resolve_cardinality (qualify_candidates pairs' change))"
  using map_eq_imp_length_eq [OF assms]
  by (simp add: resolve_fields qualified_ids_of all_refs_of assms)

theorem impact_independent_of_agent_witness:
  "ir_affected_artifact_id (resolve_cardinality (qualify_candidates
       [(sample_candidate ''a'' False, sample_artifact ''a'' ''LEFT'')] (sample_change [''a'']))) =
     Some ''a'' \<and>
   ir_affected_artifact_id (resolve_cardinality (qualify_candidates
       [(sample_candidate ''a'' True, sample_artifact ''a'' ''LEFT'')] (sample_change [''a'']))) =
     Some ''a''"
proof -
  have *: "ir_affected_artifact_id (resolve_cardinality (qualify_candidates
       [(sample_candidate ''a'' True, sample_artifact ''a'' ''LEFT'')] (sample_change [''a'']))) =
     Some ''a''"
    by (simp add: resolve_fields qualify_candidates_def qualifies_def sample_artifact_def
        sample_change_def)
  then show ?thesis
    using impact_independent_of_agent
      [of "[(sample_candidate ''a'' False, sample_artifact ''a'' ''LEFT'')]"
        "[(sample_candidate ''a'' True, sample_artifact ''a'' ''LEFT'')]" "sample_change [''a'']"]
    by simp
qed

end
