(* ===== verification/Change_Proof.thy ===== *)
theory Change_Proof
  imports Evidence Impact
begin

text \<open>
  The seven completion conditions, canonical Change Proof generation, and revalidation
  (\<open>truth_engine/proof_generator.py\<close>). SHA-256 is the parameter \<open>H\<close>; the ISO-8601 rendering of the
  completion time inside the hashed document is the parameter \<open>isoformat\<close>.
\<close>

section \<open>Context and conditions (T043)\<close>

definition PERMANENTLY_BLOCKING_STATES :: "workflow_state set" where
  "PERMANENTLY_BLOCKING_STATES = {SUPERSEDED, FAILED}"

definition CURRENTLY_BLOCKING_STATES :: "workflow_state set" where
  "CURRENTLY_BLOCKING_STATES = {VERIFICATION_FAILED, VERIFICATION_INCONCLUSIVE}"

record proof_context =
  pc_workflow :: workflow
  pc_change :: approved_change
  pc_impact :: impact_resolution
  pc_remediation_evidence :: "remediation_evidence option"
  pc_manifest :: evidence_manifest
  pc_verification_events :: "verification_event list"
  pc_state_history :: "workflow_state list"
  pc_source_version_applicable :: bool
  pc_delivery_receipt_ref :: "str option"

record proof_invariant_result =
  pi_eligible :: bool
  pi_conditions :: "(proof_condition, bool) dict"
  pi_failed_conditions :: "proof_condition list"

definition satisfied_count :: "proof_invariant_result \<Rightarrow> nat" where
  "satisfied_count r = length (filter snd (pi_conditions r))"

definition condition_7 :: "proof_context \<Rightarrow> bool" where
  "condition_7 c =
     (let current = wf_state (pc_workflow c);
          history = insert current (set (pc_state_history c))
      in if current \<in> PERMANENTLY_BLOCKING_STATES then False
         else if history \<inter> PERMANENTLY_BLOCKING_STATES \<noteq> {} then False
         else if REVIEW_REQUIRED \<in> history then False
         else if current \<in> CURRENTLY_BLOCKING_STATES then False
         else True)"

definition condition_1 :: "proof_context \<Rightarrow> bool" where
  "condition_1 c \<longleftrightarrow>
     wf_change_id (pc_workflow c) = ac_change_id (pc_change c) \<and>
     wf_source_version (pc_workflow c) = ac_source_version (pc_change c) \<and>
     pc_source_version_applicable c"

definition condition_2 :: "proof_context \<Rightarrow> bool" where
  "condition_2 c \<longleftrightarrow>
     ir_outcome (pc_impact c) = SINGLE_QUALIFIED_TARGET \<and>
     ir_affected_artifact_id (pc_impact c) \<noteq> None \<and>
     ir_affected_artifact_id (pc_impact c) = wf_affected_artifact_id (pc_workflow c)"

definition condition_3 :: "proof_context \<Rightarrow> bool" where
  "condition_3 c =
     (case (pc_remediation_evidence c, wf_affected_artifact_id (pc_workflow c)) of
        (Some evidence, Some artifact_id) \<Rightarrow>
          re_artifact_id evidence = artifact_id \<and>
          \<not> has_fabricated_before_after_pair (pc_manifest c) evidence
      | _ \<Rightarrow> False)"

definition condition_4 :: "proof_context \<Rightarrow> bool" where
  "condition_4 c \<longleftrightarrow>
     wf_delivery_status (pc_workflow c) = Some ''DELIVERED'' \<and>
     truthy (pc_delivery_receipt_ref c) \<and>
     Some (em_delivery_ref (pc_manifest c)) = pc_delivery_receipt_ref c"

definition condition_6 :: "proof_context \<Rightarrow> bool" where
  "condition_6 c \<longleftrightarrow>
     (let m = pc_manifest c
      in em_source_change_ref m \<noteq> [] \<and> em_affected_artifact_ref m \<noteq> [] \<and>
         em_remediation_evidence_refs m \<noteq> [] \<and> em_delivery_ref m \<noteq> [] \<and>
         em_verification_refs m \<noteq> [] \<and>
         manifest_covers_all_events m (pc_verification_events c) \<and>
         list_all (\<lambda>r. r \<in> set (dict_keys (em_content_hashes m)))
           (em_remediation_evidence_refs m))"

definition evaluate_proof_invariants :: "proof_context \<Rightarrow> proof_invariant_result res" where
  "evaluate_proof_invariants c =
     res_bind
       (latest_authoritative_event (pc_verification_events c) (wf_workflow_id (pc_workflow c)))
       (\<lambda>latest.
          let c5 = (case latest of None \<Rightarrow> False | Some e \<Rightarrow> ve_verification_result e = VR_PASS);
              results =
                [(C1_SOURCE_CHANGE_APPLICABLE, condition_1 c),
                 (C2_IMPACT_DETERMINED, condition_2 c),
                 (C3_REMEDIATED_OR_NO_OP, condition_3 c),
                 (C4_DELTA_DELIVERED, condition_4 c),
                 (C5_LATEST_VERIFICATION_PASS, c5),
                 (C6_EVIDENCE_TRACEABLE, condition_6 c),
                 (C7_STATE_COMPATIBLE, condition_7 c)]
          in Inr \<lparr>pi_eligible = list_all snd results, pi_conditions = results,
                  pi_failed_conditions = failed_of results\<rparr>)"

section \<open>Identity and canonical material (T044, T046)\<close>

definition derive_proof_id :: "(str \<Rightarrow> str) \<Rightarrow> str \<Rightarrow> str" where
  "derive_proof_id H workflow_id = derive_proof_action_id H workflow_id"

primrec label_value :: "classification_label \<Rightarrow> str" where
  "label_value REAL = ''REAL''"
| "label_value SYNTHETIC = ''SYNTHETIC''"
| "label_value DERIVED = ''DERIVED''"
| "label_value SIMULATED = ''SIMULATED''"

primrec result_value :: "verification_result \<Rightarrow> str" where
  "result_value VR_PASS = ''PASS''"
| "result_value VR_FAIL = ''FAIL''"
| "result_value VR_INCONCLUSIVE = ''INCONCLUSIVE''"

text \<open>\<open>model_dump(mode="json")\<close> of the models a proof contains.\<close>

definition dump_labels :: "classification_label list \<Rightarrow> json" where
  "dump_labels ls = JArr (map (\<lambda>l. JStr (label_value l)) ls)"

definition dump_lineage_entry :: "lineage_entry \<Rightarrow> json" where
  "dump_lineage_entry e =
     JObj [(''source_ref'', JStr (le_source_ref e)),
           (''source_classification'', dump_labels (le_source_classification e)),
           (''relationship'', JStr (le_relationship e))]"

definition dump_classification :: "data_classification \<Rightarrow> json" where
  "dump_classification c =
     JObj [(''labels'', dump_labels (dc_labels c)),
           (''lineage'', JArr (map dump_lineage_entry (dc_lineage c)))]"

primrec dump_evidence :: "remediation_evidence \<Rightarrow> json" where
  "dump_evidence (MutationEvidence e) =
     JObj [(''remediation_type'', JStr ''MUTATION''),
           (''artifact_id'', JStr (me_artifact_id e)),
           (''before_ref'', JStr (me_before_ref e)),
           (''after_ref'', JStr (me_after_ref e)),
           (''before_hash'', JStr (me_before_hash e)),
           (''after_hash'', JStr (me_after_hash e)),
           (''before_value'', JStr (me_before_value e)),
           (''after_value'', JStr (me_after_value e)),
           (''patch_description'', JStr (me_patch_description e)),
           (''reconciled'', JBool (me_reconciled e)),
           (''action_id'', JStr (me_action_id e)),
           (''data_classification'', dump_classification (me_data_classification e))]"
| "dump_evidence (NoOpEvidence e) =
     JObj [(''remediation_type'', JStr ''NO_OP''),
           (''artifact_id'', JStr (ne_artifact_id e)),
           (''evaluated_artifact_ref'', JStr (ne_evaluated_artifact_ref e)),
           (''evaluated_artifact_hash'', JStr (ne_evaluated_artifact_hash e)),
           (''observed_value'', JStr (ne_observed_value e)),
           (''expected_value'', JStr (ne_expected_value e)),
           (''no_op_reason'', JStr (ne_no_op_reason e)),
           (''compliance_basis'', JStr (ne_compliance_basis e)),
           (''data_classification'', dump_classification (ne_data_classification e))]"

definition dump_strings :: "str list \<Rightarrow> json" where
  "dump_strings ss = JArr (map JStr ss)"

definition dump_manifest :: "evidence_manifest \<Rightarrow> json" where
  "dump_manifest m =
     JObj [(''source_change_ref'', JStr (em_source_change_ref m)),
           (''affected_artifact_ref'', JStr (em_affected_artifact_ref m)),
           (''remediation_evidence_refs'', dump_strings (em_remediation_evidence_refs m)),
           (''rejected_result_refs'', dump_strings (em_rejected_result_refs m)),
           (''delivery_ref'', JStr (em_delivery_ref m)),
           (''verification_refs'', dump_strings (em_verification_refs m)),
           (''state_transition_refs'', dump_strings (em_state_transition_refs m)),
           (''content_hashes'', dump_string_dict (em_content_hashes m))]"

definition canonical_proof_material :: "(datetime \<Rightarrow> str) \<Rightarrow> change_proof \<Rightarrow> json" where
  "canonical_proof_material isoformat p =
     JObj [(''proof_id'', JStr (cp_proof_id p)),
           (''workflow_id'', JStr (cp_workflow_id p)),
           (''change_id'', JStr (cp_change_id p)),
           (''source_procedure_id'', JStr (cp_source_procedure_id p)),
           (''source_version'', JStr (cp_source_version p)),
           (''previous_value'', JStr (cp_previous_value p)),
           (''current_value'', JStr (cp_current_value p)),
           (''affected_artifact_id'', JStr (cp_affected_artifact_id p)),
           (''remediation_evidence'', dump_evidence (cp_remediation_evidence p)),
           (''delivery_status'', JStr (cp_delivery_status p)),
           (''delivery_ref'', JStr (cp_delivery_ref p)),
           (''verification_result'', JStr (result_value (cp_verification_result p))),
           (''verification_event_id'', JStr (cp_verification_event_id p)),
           (''worker_id'', JStr (cp_worker_id p)),
           (''evidence_manifest'', dump_manifest (cp_evidence_manifest p)),
           (''completion_timestamp'', JStr (isoformat (cp_completion_timestamp p))),
           (''data_classification'', dump_classification (cp_data_classification p))]"

definition compute_proof_hash :: "(datetime \<Rightarrow> str) \<Rightarrow> (str \<Rightarrow> str) \<Rightarrow> change_proof \<Rightarrow> str" where
  "compute_proof_hash isoformat H p = canonical_hash H (canonical_proof_material isoformat p)"

definition derive_completion_timestamp :: "proof_context \<Rightarrow> datetime res" where
  "derive_completion_timestamp c =
     res_bind
       (latest_authoritative_event (pc_verification_events c) (wf_workflow_id (pc_workflow c)))
       (\<lambda>latest. case latest of
          None \<Rightarrow> Inl (ProofGenerationError [C5_LATEST_VERIFICATION_PASS])
        | Some e \<Rightarrow> Inr (ve_timestamp e))"

definition draft_proof ::
  "(str \<Rightarrow> str) \<Rightarrow> proof_context \<Rightarrow> verification_event \<Rightarrow> remediation_evidence \<Rightarrow> str \<Rightarrow> str \<Rightarrow>
     datetime \<Rightarrow> change_proof" where
  "draft_proof H c latest evidence artifact_id receipt completion =
     \<lparr>cp_proof_id = derive_proof_id H (wf_workflow_id (pc_workflow c)),
      cp_workflow_id = wf_workflow_id (pc_workflow c),
      cp_change_id = ac_change_id (pc_change c),
      cp_source_procedure_id = ac_source_procedure_id (pc_change c),
      cp_source_version = ac_source_version (pc_change c),
      cp_previous_value = ac_previous_value (pc_change c),
      cp_current_value = ac_current_value (pc_change c),
      cp_affected_artifact_id = artifact_id,
      cp_remediation_evidence = evidence,
      cp_delivery_status = ''DELIVERED'',
      cp_delivery_ref = receipt,
      cp_verification_result = VR_PASS,
      cp_verification_event_id = ve_event_id latest,
      cp_worker_id = wf_worker_id (pc_workflow c),
      cp_evidence_manifest = pc_manifest c,
      cp_completion_timestamp = completion,
      cp_content_hash = replicate 64 (CHR ''0''),
      cp_data_classification = \<lparr>dc_labels = [DERIVED], dc_lineage = []\<rparr>\<rparr>"

definition generate_change_proof ::
  "(datetime \<Rightarrow> str) \<Rightarrow> (str \<Rightarrow> str) \<Rightarrow> proof_context \<Rightarrow> change_proof option \<Rightarrow> change_proof res"
where
  "generate_change_proof isoformat H c existing_proof =
     (case existing_proof of
        Some p \<Rightarrow> Inr p
      | None \<Rightarrow>
          res_bind (evaluate_proof_invariants c) (\<lambda>invariants.
            if \<not> pi_eligible invariants then
              Inl (ProofGenerationError (pi_failed_conditions invariants))
            else res_bind
              (latest_authoritative_event (pc_verification_events c)
                (wf_workflow_id (pc_workflow c))) (\<lambda>latest.
              case (latest, pc_remediation_evidence c, wf_affected_artifact_id (pc_workflow c),
                    pc_delivery_receipt_ref c) of
                (Some e, Some evidence, Some artifact_id, Some receipt) \<Rightarrow>
                  res_bind (derive_completion_timestamp c) (\<lambda>completion.
                    res_bind
                      (validated valid_proof
                        (draft_proof H c e evidence artifact_id receipt completion))
                      (\<lambda>draft. Inr (draft\<lparr>cp_content_hash := compute_proof_hash isoformat H draft\<rparr>)))
              | _ \<Rightarrow> Inl AssertionError)))"

section \<open>Validation (T045)\<close>

datatype proof_validation_failure =
  UNMET_COMPLETION_CONDITION | PROOF_HASH_MISMATCH | CONTENT_HASH_MISMATCH | PROOF_IDENTITY_MISMATCH

record proof_validation_result =
  pv_valid :: bool
  pv_failures :: "proof_validation_failure list"
  pv_failed_conditions :: "proof_condition list"
  pv_mismatched_refs :: "str list"

definition mismatched_refs ::
  "(str \<Rightarrow> str) \<Rightarrow> (str, str) dict \<Rightarrow> (str, str) dict \<Rightarrow> str list" where
  "mismatched_refs H content_hashes resolved =
     map fst (filter (\<lambda>(ref, expected).
       case dict_get resolved ref of
         None \<Rightarrow> False
       | Some actual \<Rightarrow> \<not> hashes_match H expected actual) content_hashes)"

definition validate_proof ::
  "(datetime \<Rightarrow> str) \<Rightarrow> (str \<Rightarrow> str) \<Rightarrow> change_proof \<Rightarrow> proof_context \<Rightarrow> (str, str) dict \<Rightarrow>
     proof_validation_result res" where
  "validate_proof isoformat H p c resolved_contents =
     res_bind (evaluate_proof_invariants c) (\<lambda>invariants.
       let mismatched =
             mismatched_refs H (em_content_hashes (cp_evidence_manifest p)) resolved_contents;
           failures =
             add_if (\<not> pi_eligible invariants) UNMET_COMPLETION_CONDITION @
             add_if (cp_proof_id p \<noteq> derive_proof_id H (cp_workflow_id p)) PROOF_IDENTITY_MISMATCH @
             add_if (cp_content_hash p \<noteq> compute_proof_hash isoformat H p) PROOF_HASH_MISMATCH @
             add_if (mismatched \<noteq> []) CONTENT_HASH_MISMATCH
       in Inr \<lparr>pv_valid = (failures = []), pv_failures = dedup failures,
               pv_failed_conditions = pi_failed_conditions invariants,
               pv_mismatched_refs = sort mismatched\<rparr>)"

section \<open>The conditions as one predicate\<close>

definition completion_holds :: "proof_context \<Rightarrow> bool" where
  "completion_holds c \<longleftrightarrow>
     condition_1 c \<and> condition_2 c \<and> condition_3 c \<and> condition_4 c \<and>
     latest_verification_status (pc_verification_events c) (wf_workflow_id (pc_workflow c)) =
       Inr (Some VR_PASS) \<and>
     condition_6 c \<and> condition_7 c"

lemma eligible_iff [gate_simps]:
  assumes "evaluate_proof_invariants c = Inr r"
  shows "pi_eligible r \<longleftrightarrow> completion_holds c" and "pi_failed_conditions r = [] \<longleftrightarrow> completion_holds c"
proof -
  obtain oe where l: "latest_authoritative_event (pc_verification_events c)
      (wf_workflow_id (pc_workflow c)) = Inr oe"
    using assms unfolding evaluate_proof_invariants_def res_bind_Inr_iff by blast
  then have status: "latest_verification_status (pc_verification_events c)
      (wf_workflow_id (pc_workflow c)) = Inr (map_option ve_verification_result oe)"
    by (simp add: latest_verification_status_def)
  have r: "r = \<lparr>pi_eligible = list_all snd (pi_conditions r), pi_conditions = pi_conditions r,
      pi_failed_conditions = failed_of (pi_conditions r)\<rparr>"
    using assms l by (simp add: evaluate_proof_invariants_def Let_def del: failed_of_simps) auto
  have "list_all snd (pi_conditions r) \<longleftrightarrow> completion_holds c"
    using assms l
    by (cases oe) (auto simp: evaluate_proof_invariants_def Let_def completion_holds_def status
        simp del: failed_of_simps)
  then show "pi_eligible r \<longleftrightarrow> completion_holds c" and "pi_failed_conditions r = [] \<longleftrightarrow> completion_holds c"
    by (subst r, simp add: failed_of_Nil_iff)+
qed

lemma completion_evaluates:
  assumes "completion_holds c"
  shows "\<exists>r. evaluate_proof_invariants c = Inr r \<and> pi_eligible r \<and> pi_failed_conditions r = []"
proof -
  from assms obtain oe where
    "latest_authoritative_event (pc_verification_events c) (wf_workflow_id (pc_workflow c)) = Inr oe"
    by (auto simp: completion_holds_def latest_verification_status_def res_bind_Inr_iff)
  then obtain r where "evaluate_proof_invariants c = Inr r"
    by (simp add: evaluate_proof_invariants_def Let_def)
  with eligible_iff [OF this] assms show ?thesis by simp
qed

lemma completion_latest:
  assumes "completion_holds c"
  obtains e where
    "latest_authoritative_event (pc_verification_events c) (wf_workflow_id (pc_workflow c)) = Inr (Some e)"
    and "ve_verification_result e = VR_PASS"
  using assms
  by (auto simp: completion_holds_def latest_verification_status_def res_bind_Inr_iff)

lemma completion_parts:
  assumes "completion_holds c"
  obtains e evidence a receipt where
    "latest_authoritative_event (pc_verification_events c) (wf_workflow_id (pc_workflow c)) = Inr (Some e)"
    and "ve_verification_result e = VR_PASS" and "e \<in> set (pc_verification_events c)"
    and "pc_remediation_evidence c = Some evidence"
    and "wf_affected_artifact_id (pc_workflow c) = Some a"
    and "re_artifact_id evidence = a"
    and "pc_delivery_receipt_ref c = Some receipt" and "receipt \<noteq> []"
proof -
  from assms obtain evidence a where "pc_remediation_evidence c = Some evidence"
    "wf_affected_artifact_id (pc_workflow c) = Some a" "re_artifact_id evidence = a"
    by (auto simp: completion_holds_def condition_3_def split: option.splits)
  moreover from assms obtain receipt where "pc_delivery_receipt_ref c = Some receipt" "receipt \<noteq> []"
    by (auto simp: completion_holds_def condition_4_def truthy_def)
  moreover obtain e where
    e: "latest_authoritative_event (pc_verification_events c) (wf_workflow_id (pc_workflow c)) = Inr (Some e)"
    "ve_verification_result e = VR_PASS"
    using assms by (rule completion_latest)
  moreover from e(1) have "e \<in> set (pc_verification_events c)"
    by (auto simp: latest_Inr_iff events_for_workflow_def)
  ultimately show thesis using that by blast
qed

lemma generate_Inr_cases:
  assumes "generate_change_proof isoformat H c None = Inr p"
  obtains e evidence a receipt where "completion_holds c"
    and "latest_authoritative_event (pc_verification_events c) (wf_workflow_id (pc_workflow c)) = Inr (Some e)"
    and "pc_remediation_evidence c = Some evidence"
    and "wf_affected_artifact_id (pc_workflow c) = Some a"
    and "pc_delivery_receipt_ref c = Some receipt"
    and "valid_proof (draft_proof H c e evidence a receipt (ve_timestamp e))"
    and "p = (draft_proof H c e evidence a receipt (ve_timestamp e))
      \<lparr>cp_content_hash := compute_proof_hash isoformat H
         (draft_proof H c e evidence a receipt (ve_timestamp e))\<rparr>"
proof -
  from assms obtain r where r: "evaluate_proof_invariants c = Inr r" and el: "pi_eligible r"
    by (auto simp: generate_change_proof_def res_bind_Inr_iff split: if_splits)
  then have holds: "completion_holds c" by (simp add: eligible_iff)
  then obtain e evidence a receipt where parts:
    "latest_authoritative_event (pc_verification_events c) (wf_workflow_id (pc_workflow c)) = Inr (Some e)"
    "pc_remediation_evidence c = Some evidence"
    "wf_affected_artifact_id (pc_workflow c) = Some a"
    "pc_delivery_receipt_ref c = Some receipt"
    by (rule completion_parts)
  let ?draft = "draft_proof H c e evidence a receipt (ve_timestamp e)"
  have "generate_change_proof isoformat H c None =
      res_bind (validated valid_proof ?draft)
        (\<lambda>d. Inr (d\<lparr>cp_content_hash := compute_proof_hash isoformat H d\<rparr>))"
    by (simp add: generate_change_proof_def derive_completion_timestamp_def r el parts)
  with assms have "valid_proof ?draft"
    and "p = ?draft\<lparr>cp_content_hash := compute_proof_hash isoformat H ?draft\<rparr>"
    by (cases "valid_proof ?draft"; simp add: validated_def)+
  then show thesis by (rule that [OF holds parts])
qed

lemma draft_fields [simp]:
  "cp_proof_id (draft_proof H c e ev a rc t) = derive_proof_id H (wf_workflow_id (pc_workflow c))"
  "cp_workflow_id (draft_proof H c e ev a rc t) = wf_workflow_id (pc_workflow c)"
  "cp_affected_artifact_id (draft_proof H c e ev a rc t) = a"
  "cp_remediation_evidence (draft_proof H c e ev a rc t) = ev"
  "cp_delivery_ref (draft_proof H c e ev a rc t) = rc"
  "cp_verification_event_id (draft_proof H c e ev a rc t) = ve_event_id e"
  "cp_worker_id (draft_proof H c e ev a rc t) = wf_worker_id (pc_workflow c)"
  "cp_evidence_manifest (draft_proof H c e ev a rc t) = pc_manifest c"
  "cp_completion_timestamp (draft_proof H c e ev a rc t) = t"
  by (simp_all add: draft_proof_def)

lemma proof_hash_ignores_hash [simp]:
  "compute_proof_hash isoformat H (p\<lparr>cp_content_hash := h\<rparr>) = compute_proof_hash isoformat H p"
  by (simp add: compute_proof_hash_def canonical_proof_material_def)

lemma derive_proof_id_nonempty: "derive_proof_id H w \<noteq> []"
  by (simp add: derive_proof_id_def derive_proof_action_id_def derive_action_id_def Let_def)

lemma generate_complete:
  assumes "completion_holds c" and "valid_workflow (pc_workflow c)" and "valid_change (pc_change c)"
    and "list_all valid_event (pc_verification_events c)"
    and "\<forall>ev. pc_remediation_evidence c = Some ev \<longrightarrow> re_artifact_id ev \<noteq> []"
  shows "\<exists>p. generate_change_proof isoformat H c None = Inr p"
proof -
  obtain e evidence a receipt where parts:
    "latest_authoritative_event (pc_verification_events c) (wf_workflow_id (pc_workflow c)) = Inr (Some e)"
    "ve_verification_result e = VR_PASS" "e \<in> set (pc_verification_events c)"
    "pc_remediation_evidence c = Some evidence"
    "wf_affected_artifact_id (pc_workflow c) = Some a" "re_artifact_id evidence = a"
    "pc_delivery_receipt_ref c = Some receipt" "receipt \<noteq> []"
    using assms(1) by (rule completion_parts)
  obtain r where r: "evaluate_proof_invariants c = Inr r" "pi_eligible r"
    using completion_evaluates [OF assms(1)] by blast
  have "ve_event_id e \<noteq> []" using assms(4) parts(3) by (auto simp: list_all_iff valid_event_def)
  moreover have "a \<noteq> []" using assms(5) parts(4,6) by blast
  ultimately have "valid_proof (draft_proof H c e evidence a receipt (ve_timestamp e))"
    using assms(2,3) parts(8) derive_proof_id_nonempty
    by (simp add: valid_proof_def draft_proof_def valid_workflow_def valid_change_def
        valid_classification_def)
  with r parts show ?thesis
    by (simp add: generate_change_proof_def derive_completion_timestamp_def validated_def)
qed

lemma generate_Inl:
  assumes "\<not> completion_holds c" and "evaluate_proof_invariants c = Inr r"
  shows "generate_change_proof isoformat H c None =
    Inl (ProofGenerationError (pi_failed_conditions r)) \<and> pi_failed_conditions r \<noteq> []"
  using assms by (simp add: generate_change_proof_def eligible_iff)

section \<open>Order of the events, and what the digest covers\<close>

lemma evaluate_mset_cong:
  assumes "mset es = mset (pc_verification_events c)" and "evaluate_proof_invariants c = Inr r"
  shows "evaluate_proof_invariants (c\<lparr>pc_verification_events := es\<rparr>) = Inr r"
proof -
  obtain oe where l: "latest_authoritative_event (pc_verification_events c)
      (wf_workflow_id (pc_workflow c)) = Inr oe"
    using assms(2) unfolding evaluate_proof_invariants_def res_bind_Inr_iff by blast
  then have l': "latest_authoritative_event es (wf_workflow_id (pc_workflow c)) = Inr oe"
    using latest_mset_cong [OF assms(1)] by blast
  have "set es = set (pc_verification_events c)" using assms(1) by (metis set_mset_mset)
  then have c6: "condition_6 (c\<lparr>pc_verification_events := es\<rparr>) = condition_6 c"
    by (simp add: condition_6_def manifest_covers_all_events_def list_all_iff)
  have "condition_1 (c\<lparr>pc_verification_events := es\<rparr>) = condition_1 c"
    "condition_2 (c\<lparr>pc_verification_events := es\<rparr>) = condition_2 c"
    "condition_3 (c\<lparr>pc_verification_events := es\<rparr>) = condition_3 c"
    "condition_4 (c\<lparr>pc_verification_events := es\<rparr>) = condition_4 c"
    "condition_7 (c\<lparr>pc_verification_events := es\<rparr>) = condition_7 c"
    by (simp_all add: condition_1_def condition_2_def condition_3_def condition_4_def
        condition_7_def cong: option.case_cong)
  with c6 show ?thesis
    using assms(2) l l' by (simp add: evaluate_proof_invariants_def Let_def del: failed_of_simps)
qed

lemma generate_mset_cong:
  assumes "mset es = mset (pc_verification_events c)"
    and "generate_change_proof isoformat H c None = Inr p"
  shows "generate_change_proof isoformat H (c\<lparr>pc_verification_events := es\<rparr>) None = Inr p"
  using assms(2)
proof (cases rule: generate_Inr_cases)
  case (1 e evidence a receipt)
  obtain r where r: "evaluate_proof_invariants c = Inr r" "pi_eligible r"
    using completion_evaluates [OF 1(1)] by blast
  have "latest_authoritative_event es (wf_workflow_id (pc_workflow c)) = Inr (Some e)"
    using latest_mset_cong [OF assms(1)] 1(2) by blast
  moreover have "draft_proof H (c\<lparr>pc_verification_events := es\<rparr>) e evidence a receipt (ve_timestamp e)
      = draft_proof H c e evidence a receipt (ve_timestamp e)"
    by (simp add: draft_proof_def)
  ultimately show ?thesis
    using r evaluate_mset_cong [OF assms(1) r(1)] 1
    by (simp add: generate_change_proof_def derive_completion_timestamp_def validated_def)
qed

lemma label_value_inj [simp]: "label_value l = label_value m \<longleftrightarrow> l = m"
  by (cases l; cases m) simp_all

lemma result_value_inj [simp]: "result_value l = result_value m \<longleftrightarrow> l = m"
  by (cases l; cases m) simp_all

lemma canonical_map_inj:
  assumes "\<And>x y. canonical_json (f x) = canonical_json (f y) \<longleftrightarrow> x = y"
  shows "canonical_json (JArr (map f xs)) = canonical_json (JArr (map f ys)) \<longleftrightarrow> xs = ys"
proof -
  have "inj (canonical_json \<circ> f)" using assms by (auto simp: inj_def)
  then show ?thesis by (simp add: canonical_array_iff inj_map_eq_map)
qed

lemma dump_labels_inj [simp]:
  "canonical_json (dump_labels ls) = canonical_json (dump_labels ms) \<longleftrightarrow> ls = ms"
  unfolding dump_labels_def by (rule canonical_map_inj) simp

lemma dump_strings_inj [simp]:
  "canonical_json (dump_strings ls) = canonical_json (dump_strings ms) \<longleftrightarrow> ls = ms"
  unfolding dump_strings_def by (rule canonical_map_inj) simp

lemma dump_lineage_inj [simp]:
  "canonical_json (dump_lineage_entry e) = canonical_json (dump_lineage_entry f) \<longleftrightarrow> e = f"
  unfolding dump_lineage_entry_def by (subst canonical_fields_iff) auto

lemma dump_classification_inj [simp]:
  "canonical_json (dump_classification c) = canonical_json (dump_classification d) \<longleftrightarrow> c = d"
  unfolding dump_classification_def
  by (subst canonical_fields_iff) (auto simp: canonical_map_inj)

lemma canonical_object_differ:
  assumes "map_option canonical_json (dict_get kvs k) \<noteq> map_option canonical_json (dict_get lvs k)"
    and "dict_ok kvs" and "dict_ok lvs"
  shows "canonical_json (JObj kvs) \<noteq> canonical_json (JObj lvs)"
  using assms canonical_object_iff by blast

lemma dump_evidence_inj [simp]:
  "canonical_json (dump_evidence e) = canonical_json (dump_evidence f) \<longleftrightarrow> e = f"
proof (cases e; cases f)
  fix m n
  assume "e = MutationEvidence m" "f = MutationEvidence n"
  then show ?thesis by (simp, subst canonical_fields_iff) auto
next
  fix m n
  assume "e = NoOpEvidence m" "f = NoOpEvidence n"
  then show ?thesis by (simp, subst canonical_fields_iff) auto
next
  fix m n
  assume ef: "e = MutationEvidence m" "f = NoOpEvidence n"
  have "canonical_json (dump_evidence e) \<noteq> canonical_json (dump_evidence f)"
    unfolding ef dump_evidence.simps
    by (rule canonical_object_differ [where k = "''remediation_type''"]) simp_all
  then show ?thesis by (simp add: ef)
next
  fix m n
  assume ef: "e = NoOpEvidence n" "f = MutationEvidence m"
  have "canonical_json (dump_evidence e) \<noteq> canonical_json (dump_evidence f)"
    unfolding ef dump_evidence.simps
    by (rule canonical_object_differ [where k = "''remediation_type''"]) simp_all
  then show ?thesis by (simp add: ef)
qed

text \<open>Equality of manifests up to the order in which digests were recorded.\<close>

definition same_manifest :: "evidence_manifest \<Rightarrow> evidence_manifest \<Rightarrow> bool" where
  "same_manifest m n \<longleftrightarrow>
     m\<lparr>em_content_hashes := []\<rparr> = n\<lparr>em_content_hashes := []\<rparr> \<and>
     map_of (em_content_hashes m) = map_of (em_content_hashes n)"

lemma dump_manifest_inj:
  assumes "dict_ok (em_content_hashes m)" and "dict_ok (em_content_hashes n)"
  shows "canonical_json (dump_manifest m) = canonical_json (dump_manifest n) \<longleftrightarrow> same_manifest m n"
  using assms unfolding dump_manifest_def same_manifest_def
  by (cases m; cases n; subst canonical_fields_iff) (auto simp: dump_dict_inj)

definition same_proof :: "change_proof \<Rightarrow> change_proof \<Rightarrow> bool" where
  "same_proof p q \<longleftrightarrow>
     p\<lparr>cp_content_hash := [], cp_evidence_manifest := cp_evidence_manifest q\<rparr> =
       q\<lparr>cp_content_hash := []\<rparr> \<and>
     same_manifest (cp_evidence_manifest p) (cp_evidence_manifest q)"

lemma material_inj:
  assumes "dict_ok (em_content_hashes (cp_evidence_manifest p))"
    and "dict_ok (em_content_hashes (cp_evidence_manifest q))" and "inj isoformat"
  shows "canonical_json (canonical_proof_material isoformat p) =
      canonical_json (canonical_proof_material isoformat q) \<longleftrightarrow> same_proof p q"
  using assms(1,2) unfolding canonical_proof_material_def same_proof_def
  by (cases p; cases q; subst canonical_fields_iff)
    (auto simp: dump_manifest_inj inj_eq [OF assms(3)])

section \<open>Properties\<close>

definition sample_manifest :: evidence_manifest where
  "sample_manifest =
     \<lparr>em_source_change_ref = ''chg-1'', em_affected_artifact_ref = ''a'',
      em_remediation_evidence_refs = [''a#v1'', ''a#v2''], em_rejected_result_refs = [],
      em_delivery_ref = ''rcpt-1'', em_verification_refs = [''e1'', ''e2''],
      em_state_transition_refs = [],
      em_content_hashes = [(''a#v1'', ''h1''), (''a#v2'', ''h2'')]\<rparr>"

definition sample_context :: proof_context where
  "sample_context =
     \<lparr>pc_workflow = (sample_workflow VERIFICATION_PASSED)
        \<lparr>wf_affected_artifact_id := Some ''a'', wf_delivery_status := Some ''DELIVERED''\<rparr>,
      pc_change = sample_change [''a''],
      pc_impact = resolve_cardinality (qualify_candidates
        [(sample_candidate ''a'' True, sample_artifact ''a'' ''LEFT'')] (sample_change [''a''])),
      pc_remediation_evidence = Some (MutationEvidence sample_mutation),
      pc_manifest = sample_manifest,
      pc_verification_events = [sample_event ''e1'' 1 VR_FAIL, sample_event ''e2'' 2 VR_PASS],
      pc_state_history = [VERIFICATION_FAILED, AWAITING_FIELD_VERIFICATION],
      pc_source_version_applicable = True, pc_delivery_receipt_ref = Some ''rcpt-1''\<rparr>"

lemma sample_context_holds: "completion_holds sample_context"
  by code_simp

lemma sample_context_valid:
  "valid_workflow (pc_workflow sample_context)" "valid_change (pc_change sample_context)"
  "list_all valid_event (pc_verification_events sample_context)"
  "\<forall>ev. pc_remediation_evidence sample_context = Some ev \<longrightarrow> re_artifact_id ev \<noteq> []"
  by (simp_all add: sample_context_def sample_workflow_def sample_change_def sample_event_def
      sample_mutation_def valid_workflow_def valid_change_def valid_event_def valid_classification_def)

lemma sample_context_generates: "\<exists>p. generate_change_proof isoformat H sample_context None = Inr p"
  by (rule generate_complete [OF sample_context_holds sample_context_valid])

text \<open>C27. Seven of seven or nothing: on well-formed records a Change Proof is issued exactly when all
  seven completion conditions hold; otherwise, unless the chronology itself is ambiguous, the
  generator raises with the non-empty list of exactly the conditions that fail.\<close>

theorem proof_issued_iff:
  assumes "valid_workflow (pc_workflow c)" and "valid_change (pc_change c)"
    and "list_all valid_event (pc_verification_events c)"
    and "\<forall>ev. pc_remediation_evidence c = Some ev \<longrightarrow> re_artifact_id ev \<noteq> []"
  shows "((\<exists>p. generate_change_proof isoformat H c None = Inr p) \<longleftrightarrow> completion_holds c) \<and>
    (evaluate_proof_invariants c = Inr r \<and> \<not> completion_holds c \<longrightarrow>
      generate_change_proof isoformat H c None = Inl (ProofGenerationError (pi_failed_conditions r)) \<and>
      pi_failed_conditions r \<noteq> [])"
proof -
  have "completion_holds c" if "generate_change_proof isoformat H c None = Inr p" for p
    using that by (rule generate_Inr_cases)
  then show ?thesis
    using generate_complete [OF _ assms] generate_Inl by blast
qed

theorem proof_issued_iff_witness:
  "\<exists>p. generate_change_proof show_int id sample_context None = Inr p"
  using proof_issued_iff [OF sample_context_valid, THEN conjunct1] sample_context_holds by blast

text \<open>C28. What an issued proof certifies: impact had a single qualified target and it is the proof's
  artifact and its evidence's; delivery has a non-empty receipt which the manifest also carries; the
  named verification event is a pass of this workflow that outranks every other event of it, and
  its time is the completion time; every recorded attempt is in the manifest; the workflow is not
  and never was superseded, failed or in review; and id and hash are the derived ones.\<close>

theorem issued_proof_sound:
  assumes "generate_change_proof isoformat H c None = Inr p"
  shows "ir_outcome (pc_impact c) = SINGLE_QUALIFIED_TARGET \<and>
    ir_affected_artifact_id (pc_impact c) = Some (cp_affected_artifact_id p) \<and>
    re_artifact_id (cp_remediation_evidence p) = cp_affected_artifact_id p \<and>
    cp_delivery_ref p \<noteq> [] \<and> em_delivery_ref (cp_evidence_manifest p) = cp_delivery_ref p \<and>
    (\<exists>e \<in> set (pc_verification_events c).
       ve_event_id e = cp_verification_event_id p \<and> ve_workflow_id e = cp_workflow_id p \<and>
       ve_verification_result e = VR_PASS \<and> ve_timestamp e = cp_completion_timestamp p \<and>
       (\<forall>f \<in> set (pc_verification_events c).
          ve_workflow_id f = cp_workflow_id p \<longrightarrow> ve_event_sequence f \<le> ve_event_sequence e)) \<and>
    (\<forall>f \<in> set (pc_verification_events c).
       ve_event_id f \<in> set (em_verification_refs (cp_evidence_manifest p))) \<and>
    insert (wf_state (pc_workflow c)) (set (pc_state_history c)) \<inter>
       {SUPERSEDED, FAILED, REVIEW_REQUIRED} = {} \<and>
    cp_proof_id p = derive_proof_id H (cp_workflow_id p) \<and>
    cp_content_hash p = compute_proof_hash isoformat H p"
  using assms
proof (cases rule: generate_Inr_cases)
  case (1 e evidence a receipt)
  note p = 1(7)
  have c: "condition_2 c" "condition_3 c" "condition_4 c" "condition_6 c" "condition_7 c"
    using 1(1) by (simp_all add: completion_holds_def)
  have latest: "e \<in> set (pc_verification_events c)" "ve_workflow_id e = wf_workflow_id (pc_workflow c)"
    "\<forall>f \<in> set (pc_verification_events c). ve_workflow_id f = wf_workflow_id (pc_workflow c) \<longrightarrow>
       ve_event_sequence f \<le> ve_event_sequence e"
    using 1(2) by (auto simp: latest_Inr_iff events_for_workflow_def)
  have pass: "ve_verification_result e = VR_PASS"
    using 1(1,2) by (auto simp: completion_holds_def latest_verification_status_def)
  have history: "insert (wf_state (pc_workflow c)) (set (pc_state_history c)) \<inter>
      {SUPERSEDED, FAILED, REVIEW_REQUIRED} = {}"
    using c(5) by (auto simp: condition_7_def PERMANENTLY_BLOCKING_STATES_def Let_def
        split: if_splits)
  have covered: "\<forall>f \<in> set (pc_verification_events c).
      ve_event_id f \<in> set (em_verification_refs (pc_manifest c))"
    using c(4) by (simp add: condition_6_def manifest_covers_all_events_def list_all_iff Let_def)
  show ?thesis
    using c(1-3) latest pass history covered 1(3,4,5)
    by (auto simp: p condition_2_def condition_3_def condition_4_def)
qed

theorem issued_proof_sound_witness:
  "\<exists>p. generate_change_proof show_int id sample_context None = Inr p \<and>
     cp_proof_id p = derive_proof_id id (cp_workflow_id p) \<and>
     cp_content_hash p = compute_proof_hash show_int id p"
  using sample_context_generates issued_proof_sound by blast

text \<open>C30. A proof survives a crash and revalidates: regenerating from the same authoritative records, with
  the events supplied in any order, gives the identical proof and hash, a stored proof is returned
  unchanged, and the issued proof passes the validator for every supply of resolved contents whose
  recorded digests match.\<close>

theorem proof_reproducible_and_valid:
  assumes "generate_change_proof isoformat H c None = Inr p"
    and "mset es = mset (pc_verification_events c)"
    and "mismatched_refs H (em_content_hashes (pc_manifest c)) resolved = []"
  shows "generate_change_proof isoformat H (c\<lparr>pc_verification_events := es\<rparr>) None = Inr p \<and>
    generate_change_proof isoformat H c (Some p) = Inr p \<and>
    (\<exists>v. validate_proof isoformat H p c resolved = Inr v \<and> pv_valid v \<and> pv_failures v = [])"
proof -
  from assms(1) have "completion_holds c" and m: "cp_evidence_manifest p = pc_manifest c"
    and i: "cp_proof_id p = derive_proof_id H (cp_workflow_id p)"
    and h: "cp_content_hash p = compute_proof_hash isoformat H p"
    by (auto elim!: generate_Inr_cases)
  from completion_evaluates [OF this(1)] obtain r where
    "evaluate_proof_invariants c = Inr r" "pi_eligible r" by blast
  with m i h assms(3) have "\<exists>v. validate_proof isoformat H p c resolved = Inr v \<and> pv_valid v \<and>
      pv_failures v = []"
    by (simp add: validate_proof_def Let_def)
  with generate_mset_cong [OF assms(2,1)] show ?thesis
    by (simp add: generate_change_proof_def)
qed

theorem proof_reproducible_and_valid_witness:
  "\<exists>p. generate_change_proof show_int id (sample_context\<lparr>pc_verification_events :=
     [sample_event ''e2'' 2 VR_PASS, sample_event ''e1'' 1 VR_FAIL]\<rparr>) None = Inr p"
proof -
  obtain p where "generate_change_proof show_int id sample_context None = Inr p"
    using sample_context_generates by blast
  moreover have "mset [sample_event ''e2'' 2 VR_PASS, sample_event ''e1'' 1 VR_FAIL] =
      mset (pc_verification_events sample_context)"
    by (simp add: sample_context_def)
  moreover have "mismatched_refs id (em_content_hashes (pc_manifest sample_context)) [] = []"
    by (simp add: mismatched_refs_def)
  ultimately show ?thesis using proof_reproducible_and_valid by blast
qed

text \<open>C32. The digest covers the whole document: take a proof whose stored hash is its own, and any
  other document with that hash which differs from it in any field (a nested one included; only the
  order in which digests were recorded is immaterial). Unless the two encodings collide under the
  digest, every validation of the altered document, in whatever context, reports the mismatch.\<close>

theorem altered_proof_detected:
  assumes "cp_content_hash p = compute_proof_hash isoformat H p"
    and "cp_content_hash q = cp_content_hash p" and "\<not> same_proof p q"
    and "dict_ok (em_content_hashes (cp_evidence_manifest p))"
    and "dict_ok (em_content_hashes (cp_evidence_manifest q))"
    and "inj isoformat"
    and no_collision: "H (utf8 (canonical_json (canonical_proof_material isoformat p))) =
        H (utf8 (canonical_json (canonical_proof_material isoformat q))) \<Longrightarrow>
      utf8 (canonical_json (canonical_proof_material isoformat p)) =
        utf8 (canonical_json (canonical_proof_material isoformat q))"
    and "validate_proof isoformat H q c resolved = Inr v"
  shows "PROOF_HASH_MISMATCH \<in> set (pv_failures v) \<and> \<not> pv_valid v"
proof -
  have "cp_content_hash q \<noteq> compute_proof_hash isoformat H q"
    using assms(1-3) no_collision material_inj [OF assms(4-6)]
    by (auto simp: compute_proof_hash_def canonical_hash_def content_hash_def utf8_inj)
  with assms(8) show ?thesis
    by (auto simp: validate_proof_def res_bind_Inr_iff Let_def)
qed

lemma inj_show_int: "inj show_int"
  using show_int_append_inj [of _ "[]" _ "[]"] by (auto simp: inj_def delimited_def)

theorem altered_proof_detected_witness:
  "\<exists>p v. validate_proof show_int id (p\<lparr>cp_worker_id := ''mallory''\<rparr>) sample_context [] = Inr v \<and>
     PROOF_HASH_MISMATCH \<in> set (pv_failures v)"
proof -
  obtain p where p: "generate_change_proof show_int id sample_context None = Inr p"
    using sample_context_generates by blast
  then have h: "cp_content_hash p = compute_proof_hash show_int id p"
    and w: "cp_worker_id p = ''worker-1''" and m: "cp_evidence_manifest p = sample_manifest"
    by (auto elim!: generate_Inr_cases simp: sample_context_def sample_workflow_def)
  let ?q = "p\<lparr>cp_worker_id := ''mallory''\<rparr>"
  obtain r where "evaluate_proof_invariants sample_context = Inr r"
    using completion_evaluates [OF sample_context_holds] by blast
  then obtain v where v: "validate_proof show_int id ?q sample_context [] = Inr v"
    by (simp add: validate_proof_def Let_def)
  have "PROOF_HASH_MISMATCH \<in> set (pv_failures v) \<and> \<not> pv_valid v"
  proof (rule altered_proof_detected [OF h _ _ _ _ inj_show_int _ v])
    show "\<not> same_proof p ?q"
    proof
      assume "same_proof p ?q"
      then have "cp_worker_id (p\<lparr>cp_content_hash := [], cp_evidence_manifest := cp_evidence_manifest ?q\<rparr>)
          = cp_worker_id (?q\<lparr>cp_content_hash := []\<rparr>)"
        unfolding same_proof_def by (rule conjunct1 [THEN arg_cong])
      then have "cp_worker_id p = ''mallory''" by simp
      with w show False by simp
    qed
  qed (simp_all add: m sample_manifest_def)
  with v show ?thesis by blast
qed

end
