(* ===== verification/Actions.thy ===== *)
theory Actions
  imports Idempotency
begin

text \<open>
  The action ledger, retry deduplication and crash reconciliation (\<open>truth_engine/actions.py\<close>).
  \<open>ActionLedger._records\<close> is a dictionary from action id to \<^typ>\<open>action_execution\<close>; every method is
  a function from the ledger to the new ledger and its result. A method that raises leaves the
  ledger as it was, so \<open>Inl\<close> carries no ledger. Intent values are strings, as every caller passes.
\<close>

type_synonym ledger = "(str, action_execution) dict"

section \<open>The ledger (T032)\<close>

definition ledger_get :: "ledger \<Rightarrow> str \<Rightarrow> action_execution option" where
  "ledger_get l action_id = dict_get l action_id"

definition ledger_require :: "ledger \<Rightarrow> str \<Rightarrow> action_execution res" where
  "ledger_require l action_id =
     (case dict_get l action_id of
        None \<Rightarrow> Inl (UnknownActionError action_id)
      | Some r \<Rightarrow> Inr r)"

definition all_records :: "ledger \<Rightarrow> action_execution list" where
  "all_records l = map snd l"

definition plan ::
  "str \<Rightarrow> str \<Rightarrow> action_type \<Rightarrow> str \<Rightarrow> (str, str) dict \<Rightarrow> datetime \<Rightarrow> ledger \<Rightarrow>
     (ledger \<times> action_execution) res" where
  "plan action_id workflow_id action_type target_ref intent occurred_at l =
     (if dict_get l action_id \<noteq> None then Inl (DuplicateActionError action_id)
      else res_bind
        (validated valid_action
          \<lparr>ax_action_id = action_id, ax_workflow_id = workflow_id, ax_action_type = action_type,
           ax_status = AS_PLANNED, ax_target_ref = target_ref, ax_intent = intent,
           ax_receipt_ref = None, ax_outcome_evidence_ref = None, ax_attempt_count = 0,
           ax_reconciled = False, ax_created_at = occurred_at, ax_updated_at = occurred_at\<rparr>)
        (\<lambda>r. Inr (dict_put action_id r l, r)))"

definition mark_attempted :: "str \<Rightarrow> datetime \<Rightarrow> ledger \<Rightarrow> (ledger \<times> action_execution) res" where
  "mark_attempted action_id occurred_at l =
     res_bind (ledger_require l action_id)
       (\<lambda>r. let u = r\<lparr>ax_status := AS_ATTEMPTED, ax_attempt_count := ax_attempt_count r + 1,
                       ax_updated_at := occurred_at\<rparr>
            in Inr (dict_put action_id u l, u))"

definition mark_completed ::
  "str \<Rightarrow> datetime \<Rightarrow> str option \<Rightarrow> str option \<Rightarrow> bool \<Rightarrow> ledger \<Rightarrow>
     (ledger \<times> action_execution) res" where
  "mark_completed action_id occurred_at receipt_ref outcome_evidence_ref reconciled l =
     res_bind (ledger_require l action_id)
       (\<lambda>r. let u = r\<lparr>ax_status := AS_COMPLETED,
                       ax_receipt_ref :=
                         (if receipt_ref \<noteq> None then receipt_ref else ax_receipt_ref r),
                       ax_outcome_evidence_ref :=
                         (if outcome_evidence_ref \<noteq> None then outcome_evidence_ref
                          else ax_outcome_evidence_ref r),
                       ax_reconciled := reconciled,
                       ax_updated_at := occurred_at\<rparr>
            in Inr (dict_put action_id u l, u))"

definition mark_failed_or_uncertain ::
  "str \<Rightarrow> datetime \<Rightarrow> ledger \<Rightarrow> (ledger \<times> action_execution) res" where
  "mark_failed_or_uncertain action_id occurred_at l =
     res_bind (ledger_require l action_id)
       (\<lambda>r. let u = r\<lparr>ax_status := AS_FAILED_OR_UNCERTAIN, ax_updated_at := occurred_at\<rparr>
            in Inr (dict_put action_id u l, u))"

section \<open>Retry deduplication (T033)\<close>

datatype retry_decision =
  SAFE_TO_EXECUTE | RETRY_ALREADY_COMPLETED | RECONCILIATION_REQUIRED

definition decide_retry :: "ledger \<Rightarrow> str \<Rightarrow> retry_decision" where
  "decide_retry l action_id =
     (case ledger_get l action_id of
        None \<Rightarrow> SAFE_TO_EXECUTE
      | Some r \<Rightarrow>
          (case ax_status r of
             AS_COMPLETED \<Rightarrow> RETRY_ALREADY_COMPLETED
           | AS_PLANNED \<Rightarrow> SAFE_TO_EXECUTE
           | AS_ATTEMPTED \<Rightarrow> RECONCILIATION_REQUIRED
           | AS_FAILED_OR_UNCERTAIN \<Rightarrow> RECONCILIATION_REQUIRED))"

section \<open>Mutation reconciliation (T034, T035)\<close>

datatype reconciliation_outcome =
  RECONCILED_MUTATION | RECONCILIATION_ALREADY_COMPLETED | FAIL_CLOSED

datatype reconciliation_blocker =
    MISSING_PRE_ACTION_INTENT | ACTION_IDENTITY_MISMATCH | TARGET_NOT_IN_INTENDED_AFTER_STATE
  | SOURCE_VERSION_NOT_APPLICABLE | AUTHORIZATION_NO_LONGER_VALID | INTENT_TARGET_MISMATCH
  | NEVER_DISPATCHED

record reconciliation_result =
  rr_outcome :: reconciliation_outcome
  rr_action_id :: str
  rr_evidence :: "mutation_evidence option"
  rr_blockers :: "reconciliation_blocker list"
  rr_requires_review :: bool

definition REQUIRED_INTENT_KEYS :: "str list" where
  "REQUIRED_INTENT_KEYS =
     [''artifact_id'', ''expected_before_ref'', ''expected_before_hash'',
      ''expected_before_value'', ''expected_after_value'', ''change_id'', ''source_version'']"

definition build_remediation_intent ::
  "approved_change \<Rightarrow> downstream_artifact \<Rightarrow> str \<Rightarrow> (str, str) dict" where
  "build_remediation_intent change artifact expected_before_hash =
     [(''artifact_id'', da_artifact_id artifact),
      (''expected_before_ref'', da_content_ref artifact),
      (''expected_before_hash'', expected_before_hash),
      (''expected_before_value'', ac_previous_value change),
      (''expected_after_value'', ac_current_value change),
      (''change_id'', ac_change_id change),
      (''source_version'', ac_source_version change)]"

text \<open>\<open>intent.get(key)\<close> where a missing key and an empty value are both falsy.\<close>

definition intent_value :: "(str, str) dict \<Rightarrow> str \<Rightarrow> str" where
  "intent_value intent k = (case dict_get intent k of None \<Rightarrow> [] | Some v \<Rightarrow> v)"

definition intent_complete :: "(str, str) dict \<Rightarrow> bool" where
  "intent_complete intent \<longleftrightarrow> list_all (\<lambda>k. intent_value intent k \<noteq> []) REQUIRED_INTENT_KEYS"

definition reconcile_blockers ::
  "action_execution \<Rightarrow> downstream_artifact \<Rightarrow> approved_change \<Rightarrow> bool \<Rightarrow>
     reconciliation_blocker list" where
  "reconcile_blockers r observed change source_version_applicable =
     (let intent = ax_intent r; iv = intent_value intent
      in add_if (ax_status r = AS_PLANNED) NEVER_DISPATCHED @
         (if \<not> intent_complete intent then [MISSING_PRE_ACTION_INTENT]
          else
            add_if (ax_action_type r \<noteq> REMEDIATE_ARTIFACT) ACTION_IDENTITY_MISMATCH @
            add_if (iv ''artifact_id'' \<noteq> da_artifact_id observed \<or>
                    ax_target_ref r \<noteq> da_artifact_id observed) INTENT_TARGET_MISMATCH @
            add_if (iv ''change_id'' \<noteq> ac_change_id change \<or>
                    iv ''source_version'' \<noteq> ac_source_version change) ACTION_IDENTITY_MISMATCH @
            add_if (da_current_value observed \<noteq> iv ''expected_after_value'')
              TARGET_NOT_IN_INTENDED_AFTER_STATE) @
         add_if (\<not> source_version_applicable) SOURCE_VERSION_NOT_APPLICABLE @
         add_if (\<not> (da_authorized_for_remediation observed \<and>
                     da_artifact_id observed \<in> set (ac_authorized_scope change)))
           AUTHORIZATION_NO_LONGER_VALID)"

definition reconciled_evidence ::
  "str \<Rightarrow> (str, str) dict \<Rightarrow> downstream_artifact \<Rightarrow> str \<Rightarrow> str \<Rightarrow> data_classification \<Rightarrow>
     mutation_evidence" where
  "reconciled_evidence action_id intent observed observed_after_hash after_ref classification =
     \<lparr>me_artifact_id = da_artifact_id observed,
      me_before_ref = intent_value intent ''expected_before_ref'',
      me_after_ref = after_ref,
      me_before_hash = intent_value intent ''expected_before_hash'',
      me_after_hash = observed_after_hash,
      me_before_value = intent_value intent ''expected_before_value'',
      me_after_value = intent_value intent ''expected_after_value'',
      me_patch_description =
        ''reconciled post-crash: '' @ intent_value intent ''expected_before_value'' @ '' -> '' @
        intent_value intent ''expected_after_value'' @ '' on '' @ da_artifact_id observed,
      me_reconciled = True,
      me_action_id = action_id,
      me_data_classification = classification\<rparr>"

definition fail_closed :: "str \<Rightarrow> reconciliation_blocker list \<Rightarrow> reconciliation_result" where
  "fail_closed action_id blockers =
     \<lparr>rr_outcome = FAIL_CLOSED, rr_action_id = action_id, rr_evidence = None,
      rr_blockers = blockers, rr_requires_review = True\<rparr>"

definition reconcile_mutation ::
  "str \<Rightarrow> downstream_artifact \<Rightarrow> str \<Rightarrow> str \<Rightarrow> approved_change \<Rightarrow> bool \<Rightarrow> datetime \<Rightarrow>
     data_classification \<Rightarrow> ledger \<Rightarrow> (ledger \<times> reconciliation_result) res" where
  "reconcile_mutation action_id observed observed_after_hash after_ref change
       source_version_applicable occurred_at classification l =
     (case ledger_get l action_id of
        None \<Rightarrow> Inr (l, fail_closed action_id [MISSING_PRE_ACTION_INTENT])
      | Some r \<Rightarrow>
          if ax_status r = AS_COMPLETED then
            Inr (l, \<lparr>rr_outcome = RECONCILIATION_ALREADY_COMPLETED, rr_action_id = action_id,
                     rr_evidence = None, rr_blockers = [], rr_requires_review = False\<rparr>)
          else
            let blockers = reconcile_blockers r observed change source_version_applicable
            in if blockers \<noteq> [] then Inr (l, fail_closed action_id (dedup blockers))
               else res_bind
                 (validated valid_mutation_evidence
                   (reconciled_evidence action_id (ax_intent r) observed observed_after_hash
                     after_ref classification))
                 (\<lambda>evidence. res_bind
                   (mark_completed action_id occurred_at None (Some after_ref) True l)
                   (\<lambda>(l', _). Inr (l',
                      \<lparr>rr_outcome = RECONCILED_MUTATION, rr_action_id = action_id,
                       rr_evidence = Some evidence, rr_blockers = [],
                       rr_requires_review = False\<rparr>))))"

definition was_ever_dispatched :: "ledger \<Rightarrow> str \<Rightarrow> bool" where
  "was_ever_dispatched l action_id \<longleftrightarrow>
     (case ledger_get l action_id of None \<Rightarrow> False | Some r \<Rightarrow> ax_status r \<noteq> AS_PLANNED)"

definition no_op_admissible :: "ledger \<Rightarrow> str \<Rightarrow> bool" where
  "no_op_admissible l action_id \<longleftrightarrow> \<not> was_ever_dispatched l action_id"

section \<open>Delivery reconciliation (T036)\<close>

datatype delivery_outcome = DELIVERED | ALREADY_DELIVERED | UNCERTAIN_NO_RECEIPT

record delivery_reconciliation_result =
  drr_outcome :: delivery_outcome
  drr_action_id :: str
  drr_receipt_ref :: "str option"
  drr_delivered :: bool

definition reconcile_delivery ::
  "str \<Rightarrow> str option \<Rightarrow> datetime \<Rightarrow> ledger \<Rightarrow> (ledger \<times> delivery_reconciliation_result) res" where
  "reconcile_delivery action_id recoverable_receipt_ref occurred_at l =
     res_bind (ledger_require l action_id)
       (\<lambda>r. if ax_status r = AS_COMPLETED \<and> truthy (ax_receipt_ref r) then
              Inr (l, \<lparr>drr_outcome = ALREADY_DELIVERED, drr_action_id = action_id,
                       drr_receipt_ref = ax_receipt_ref r, drr_delivered = True\<rparr>)
            else if truthy recoverable_receipt_ref then
              res_bind (mark_completed action_id occurred_at recoverable_receipt_ref None True l)
                (\<lambda>(l', _). Inr (l',
                   \<lparr>drr_outcome = DELIVERED, drr_action_id = action_id,
                    drr_receipt_ref = recoverable_receipt_ref, drr_delivered = True\<rparr>))
            else
              res_bind (mark_failed_or_uncertain action_id occurred_at l)
                (\<lambda>(l', _). Inr (l',
                   \<lparr>drr_outcome = UNCERTAIN_NO_RECEIPT, drr_action_id = action_id,
                    drr_receipt_ref = None, drr_delivered = False\<rparr>)))"

section \<open>Ledger invariant and history\<close>

definition ledger_ok :: "ledger \<Rightarrow> bool" where
  "ledger_ok l \<longleftrightarrow> dict_ok l \<and>
     (\<forall>k r. dict_get l k = Some r \<longrightarrow> ax_action_id r = k \<and> valid_action r)"

text \<open>How one record may evolve: identity and intent are write-once, a dispatched action never
  becomes undispatched, and attempts are only added.\<close>

definition evolves :: "action_execution \<Rightarrow> action_execution \<Rightarrow> bool" where
  "evolves r r' \<longleftrightarrow>
     ax_action_id r' = ax_action_id r \<and> ax_workflow_id r' = ax_workflow_id r \<and>
     ax_action_type r' = ax_action_type r \<and> ax_target_ref r' = ax_target_ref r \<and>
     ax_intent r' = ax_intent r \<and> ax_created_at r' = ax_created_at r \<and>
     ax_attempt_count r \<le> ax_attempt_count r' \<and>
     (ax_status r \<noteq> AS_PLANNED \<longrightarrow> ax_status r' \<noteq> AS_PLANNED)"

lemma evolves_refl [simp, intro]: "evolves r r"
  by (simp add: evolves_def)

lemma evolves_trans [trans]: "evolves r s \<Longrightarrow> evolves s t \<Longrightarrow> evolves r t"
  by (auto simp: evolves_def)

lemma evolves_valid: "evolves r r' \<Longrightarrow> valid_action r \<Longrightarrow> valid_action r'"
  by (auto simp: evolves_def valid_action_def)

lemma ledger_require_Inr [simp]: "ledger_require l k = Inr r \<longleftrightarrow> dict_get l k = Some r"
  by (auto simp: ledger_require_def split: option.splits)

lemma plan_Inr_iff:
  "plan k w t tr i at l = Inr (l', r) \<longleftrightarrow>
     dict_get l k = None \<and> valid_action r \<and> l' = dict_put k r l \<and>
     r = \<lparr>ax_action_id = k, ax_workflow_id = w, ax_action_type = t, ax_status = AS_PLANNED,
          ax_target_ref = tr, ax_intent = i, ax_receipt_ref = None,
          ax_outcome_evidence_ref = None, ax_attempt_count = 0, ax_reconciled = False,
          ax_created_at = at, ax_updated_at = at\<rparr>"
  by (auto simp: plan_def res_bind_Inr_iff)

lemma mark_attempted_Inr_iff:
  "mark_attempted k at l = Inr (l', r') \<longleftrightarrow>
     (\<exists>r. dict_get l k = Some r \<and> l' = dict_put k r' l \<and>
        r' = r\<lparr>ax_status := AS_ATTEMPTED, ax_attempt_count := ax_attempt_count r + 1,
               ax_updated_at := at\<rparr>)"
  by (auto simp: mark_attempted_def res_bind_Inr_iff Let_def)

lemma mark_completed_Inr_iff:
  "mark_completed k at rc ev b l = Inr (l', r') \<longleftrightarrow>
     (\<exists>r. dict_get l k = Some r \<and> l' = dict_put k r' l \<and>
        r' = r\<lparr>ax_status := AS_COMPLETED,
               ax_receipt_ref := (if rc \<noteq> None then rc else ax_receipt_ref r),
               ax_outcome_evidence_ref := (if ev \<noteq> None then ev else ax_outcome_evidence_ref r),
               ax_reconciled := b, ax_updated_at := at\<rparr>)"
  unfolding mark_completed_def res_bind_Inr_iff Let_def ledger_require_Inr sum.inject prod.inject
  by blast

lemma mark_failed_Inr_iff:
  "mark_failed_or_uncertain k at l = Inr (l', r') \<longleftrightarrow>
     (\<exists>r. dict_get l k = Some r \<and> l' = dict_put k r' l \<and>
        r' = r\<lparr>ax_status := AS_FAILED_OR_UNCERTAIN, ax_updated_at := at\<rparr>)"
  by (auto simp: mark_failed_or_uncertain_def res_bind_Inr_iff Let_def)

lemmas ledger_op_iffs =
  plan_Inr_iff mark_attempted_Inr_iff mark_completed_Inr_iff mark_failed_Inr_iff

inductive ledger_step :: "ledger \<Rightarrow> ledger \<Rightarrow> bool" where
  planned: "plan k w t tr i at l = Inr (l', r) \<Longrightarrow> ledger_step l l'"
| attempted: "mark_attempted k at l = Inr (l', r) \<Longrightarrow> ledger_step l l'"
| completed: "mark_completed k at rc ev b l = Inr (l', r) \<Longrightarrow> ledger_step l l'"
| failed: "mark_failed_or_uncertain k at l = Inr (l', r) \<Longrightarrow> ledger_step l l'"

inductive_cases ledger_stepE: "ledger_step l l'"

inductive ledger_reach :: "ledger \<Rightarrow> ledger \<Rightarrow> bool" where
  none: "ledger_reach l l"
| more: "ledger_reach l m \<Longrightarrow> ledger_step m n \<Longrightarrow> ledger_reach l n"

lemma ledger_reach_step_left: "ledger_reach m n \<Longrightarrow> ledger_step l m \<Longrightarrow> ledger_reach l n"
  by (induction rule: ledger_reach.induct) (auto intro: ledger_reach.intros)

lemma ledger_reach_trans: "ledger_reach m n \<Longrightarrow> ledger_reach l m \<Longrightarrow> ledger_reach l n"
  by (induction rule: ledger_reach.induct) (auto intro: ledger_reach.intros)

lemma ledger_step_put:
  assumes "ledger_step l l'"
  obtains k r where "l' = dict_put k r l" and "dict_get l k = None" and "ax_action_id r = k"
      and "valid_action r"
  | k r0 r where "l' = dict_put k r l" and "dict_get l k = Some r0" and "evolves r0 r"
  using assms
proof (cases rule: ledger_step.cases)
  case (planned k w t tr i at r)
  then have "l' = dict_put k r l" and "dict_get l k = None" and "ax_action_id r = k"
    and "valid_action r" by (auto simp: plan_Inr_iff)
  then show ?thesis by (rule that(1))
next
  case (attempted k at r)
  then obtain r0 where "dict_get l k = Some r0" and "l' = dict_put k r l" and "evolves r0 r"
    by (auto simp: mark_attempted_Inr_iff evolves_def)
  with that(2) show ?thesis by blast
next
  case (completed k at rc ev b r)
  then obtain r0 where "dict_get l k = Some r0" and "l' = dict_put k r l" and "evolves r0 r"
    by (auto simp: mark_completed_Inr_iff evolves_def)
  with that(2) show ?thesis by blast
next
  case (failed k at r)
  then obtain r0 where "dict_get l k = Some r0" and "l' = dict_put k r l" and "evolves r0 r"
    by (auto simp: mark_failed_Inr_iff evolves_def)
  with that(2) show ?thesis by blast
qed

lemma ledger_ok_put:
  "ledger_ok l \<Longrightarrow> ax_action_id r = k \<Longrightarrow> valid_action r \<Longrightarrow> ledger_ok (dict_put k r l)"
  by (simp add: ledger_ok_def)

lemma ledger_ok_get:
  "ledger_ok l \<Longrightarrow> dict_get l k = Some r \<Longrightarrow> ax_action_id r = k \<and> valid_action r"
  by (simp add: ledger_ok_def)

lemma ledger_ok_step:
  assumes "ledger_step l l'" and "ledger_ok l"
  shows "ledger_ok l'"
  using assms(1)
proof (cases rule: ledger_step_put)
  case (1 k r)
  with assms(2) show ?thesis by (simp add: ledger_ok_put)
next
  case (2 k r0 r)
  from ledger_ok_get [OF assms(2) 2(2)] have "ax_action_id r0 = k" and "valid_action r0"
    by simp_all
  with 2(3) have "ax_action_id r = k" and "valid_action r"
    by (simp_all add: evolves_valid) (simp add: evolves_def)
  with 2(1) assms(2) show ?thesis by (simp add: ledger_ok_put)
qed

lemma ledger_record_step:
  "ledger_step l l' \<Longrightarrow> dict_get l k = Some r \<Longrightarrow> \<exists>r'. dict_get l' k = Some r' \<and> evolves r r'"
  by (erule ledger_step_put) auto

lemma ledger_reach_record:
  "ledger_reach l l' \<Longrightarrow> dict_get l k = Some r \<Longrightarrow> \<exists>r'. dict_get l' k = Some r' \<and> evolves r r'"
proof (induction rule: ledger_reach.induct)
  case (none l)
  then show ?case by auto
next
  case (more l m n)
  then show ?case by (meson evolves_trans ledger_record_step)
qed

lemma ledger_reach_ok: "ledger_reach l l' \<Longrightarrow> ledger_ok l \<Longrightarrow> ledger_ok l'"
  by (induction rule: ledger_reach.induct) (auto intro: ledger_ok_step)

lemma dispatched_reach:
  assumes "ledger_reach l l'" and "was_ever_dispatched l k"
  shows "was_ever_dispatched l' k"
proof -
  from assms(2) obtain r where "dict_get l k = Some r" and "ax_status r \<noteq> AS_PLANNED"
    by (auto simp: was_ever_dispatched_def ledger_get_def split: option.splits)
  with ledger_reach_record [OF assms(1)] show ?thesis
    by (fastforce simp: was_ever_dispatched_def ledger_get_def evolves_def)
qed

section \<open>Reconciliation\<close>

lemma reconcile_blockers_Nil_iff:
  "reconcile_blockers r a c ok = [] \<longleftrightarrow>
     ax_status r \<noteq> AS_PLANNED \<and> intent_complete (ax_intent r) \<and>
     ax_action_type r = REMEDIATE_ARTIFACT \<and>
     intent_value (ax_intent r) ''artifact_id'' = da_artifact_id a \<and>
     ax_target_ref r = da_artifact_id a \<and>
     intent_value (ax_intent r) ''change_id'' = ac_change_id c \<and>
     intent_value (ax_intent r) ''source_version'' = ac_source_version c \<and>
     da_current_value a = intent_value (ax_intent r) ''expected_after_value'' \<and>
     ok \<and> da_authorized_for_remediation a \<and> da_artifact_id a \<in> set (ac_authorized_scope c)"
  by (auto simp: reconcile_blockers_def Let_def)

lemma reconcile_mutation_cases:
  assumes "reconcile_mutation k a h after c ok t cl l = Inr (l', res)"
  obtains (unknown) "dict_get l k = None" "l' = l" "res = fail_closed k [MISSING_PRE_ACTION_INTENT]"
  | (finished) r where "dict_get l k = Some r" "ax_status r = AS_COMPLETED" "l' = l"
      "rr_outcome res = RECONCILIATION_ALREADY_COMPLETED" "rr_evidence res = None"
  | (refused) r where "dict_get l k = Some r" "ax_status r \<noteq> AS_COMPLETED"
      "reconcile_blockers r a c ok \<noteq> []" "l' = l"
      "res = fail_closed k (dedup (reconcile_blockers r a c ok))"
  | (reconciled) r r' where "dict_get l k = Some r" "ax_status r \<noteq> AS_COMPLETED"
      "reconcile_blockers r a c ok = []" "rr_outcome res = RECONCILED_MUTATION"
      "rr_evidence res = Some (reconciled_evidence k (ax_intent r) a h after cl)"
      "valid_mutation_evidence (reconciled_evidence k (ax_intent r) a h after cl)"
      "mark_completed k t None (Some after) True l = Inr (l', r')"
  using assms
  by (auto simp: reconcile_mutation_def ledger_get_def Let_def res_bind_Inr_iff
      split: option.splits if_splits)

text \<open>The ledger is a history, not a variable: over any sequence of plan and mark operations the
  one-record-per-id invariant is kept, a recorded action keeps its workflow, type, target, intent
  and creation time, its attempts never decrease, and once it was dispatched it counts as dispatched
  for ever, so \<open>no_op_admissible\<close> can never become true again.\<close>

theorem ledger_history:
  assumes "ledger_reach l l'" and "ledger_ok l" and "dict_get l k = Some r"
  shows "ledger_ok l' \<and> (\<exists>r'. dict_get l' k = Some r' \<and> evolves r r') \<and>
    (no_op_admissible l' k \<longrightarrow> no_op_admissible l k)"
  using ledger_reach_ok [OF assms(1,2)] ledger_reach_record [OF assms(1,3)]
    dispatched_reach [OF assms(1), of k] by (auto simp: no_op_admissible_def)

definition sample_action :: "action_status \<Rightarrow> action_execution" where
  "sample_action s =
     \<lparr>ax_action_id = ''act-1'', ax_workflow_id = ''wf-1'', ax_action_type = REMEDIATE_ARTIFACT,
      ax_status = s, ax_target_ref = ''a'',
      ax_intent = build_remediation_intent (sample_change [''a'']) (sample_artifact ''a'' ''LEFT'') ''h0'',
      ax_receipt_ref = None, ax_outcome_evidence_ref = None, ax_attempt_count = 0,
      ax_reconciled = False, ax_created_at = 0, ax_updated_at = 0\<rparr>"

theorem ledger_history_witness:
  "let l = [(''act-1'', sample_action AS_PLANNED)];
       l' = [(''act-1'', (sample_action AS_PLANNED)
          \<lparr>ax_status := AS_ATTEMPTED, ax_attempt_count := 1, ax_updated_at := 5\<rparr>)]
   in ledger_ok l' \<and> (\<exists>r'. dict_get l' ''act-1'' = Some r' \<and> evolves (sample_action AS_PLANNED) r')
      \<and> (no_op_admissible l' ''act-1'' \<longrightarrow> no_op_admissible l ''act-1'')"
  unfolding Let_def
proof (rule ledger_history)
  show "ledger_reach [(''act-1'', sample_action AS_PLANNED)]
    [(''act-1'', (sample_action AS_PLANNED)
      \<lparr>ax_status := AS_ATTEMPTED, ax_attempt_count := 1, ax_updated_at := 5\<rparr>)]"
    by (rule ledger_reach.more [OF ledger_reach.none], rule ledger_step.attempted [of "''act-1''" 5])
      (simp add: mark_attempted_Inr_iff sample_action_def)
  show "ledger_ok [(''act-1'', sample_action AS_PLANNED)]"
    by (simp add: ledger_ok_def sample_action_def valid_action_def)
qed simp

text \<open>Crash reconciliation attributes a mutation to this workflow exactly when the recorded
  action was dispatched, is not completed, carries complete intent for this artifact, change and
  version, the artifact already holds the intended value, and version and authorisation still
  hold. It then yields mutation evidence with \<open>reconciled\<close> set and the values of the stored intent,
  and completes that one record; in every other case it changes nothing and fabricates no
  evidence.\<close>

theorem reconcile_mutation_exact:
  assumes "reconcile_mutation k a h after c ok t cl l = Inr (l', res)"
  shows "(rr_outcome res = RECONCILED_MUTATION \<longleftrightarrow>
      (\<exists>r. dict_get l k = Some r \<and> ax_status r \<in> {AS_ATTEMPTED, AS_FAILED_OR_UNCERTAIN} \<and>
         intent_complete (ax_intent r) \<and> ax_action_type r = REMEDIATE_ARTIFACT \<and>
         intent_value (ax_intent r) ''artifact_id'' = da_artifact_id a \<and>
         ax_target_ref r = da_artifact_id a \<and>
         intent_value (ax_intent r) ''change_id'' = ac_change_id c \<and>
         intent_value (ax_intent r) ''source_version'' = ac_source_version c \<and>
         da_current_value a = intent_value (ax_intent r) ''expected_after_value'' \<and>
         ok \<and> da_authorized_for_remediation a \<and> da_artifact_id a \<in> set (ac_authorized_scope c)))
    \<and> (if rr_outcome res = RECONCILED_MUTATION then
         (\<exists>e r'. rr_evidence res = Some e \<and> me_reconciled e \<and> me_action_id e = k \<and>
            me_after_value e = da_current_value a \<and> valid_mutation_evidence e \<and>
            l' = dict_put k r' l \<and> ax_status r' = AS_COMPLETED \<and> ax_reconciled r')
       else l' = l \<and> rr_evidence res = None)"
  using assms
proof (cases rule: reconcile_mutation_cases)
  case unknown
  then show ?thesis by (simp add: fail_closed_def)
next
  case (finished r)
  then show ?thesis by auto
next
  case (refused r)
  then show ?thesis
    by (cases "ax_status r") (auto simp: fail_closed_def reconcile_blockers_Nil_iff)
next
  case (reconciled r r')
  then have "da_current_value a = intent_value (ax_intent r) ''expected_after_value''"
    and "ax_status r \<in> {AS_ATTEMPTED, AS_FAILED_OR_UNCERTAIN}"
    by (cases "ax_status r"; simp add: reconcile_blockers_Nil_iff)+
  with reconciled show ?thesis
    by (auto simp: reconcile_blockers_Nil_iff mark_completed_Inr_iff reconciled_evidence_def)
qed

theorem reconcile_mutation_exact_witness:
  "\<exists>l' res. reconcile_mutation ''act-1'' (sample_artifact ''a'' ''TOP_RIGHT'') ''h1'' ''ref#v2''
      (sample_change [''a'']) True 9 \<lparr>dc_labels = [SYNTHETIC], dc_lineage = []\<rparr>
      [(''act-1'', sample_action AS_ATTEMPTED)] = Inr (l', res) \<and>
    rr_outcome res = RECONCILED_MUTATION"
proof -
  let ?r = "reconcile_mutation ''act-1'' (sample_artifact ''a'' ''TOP_RIGHT'') ''h1'' ''ref#v2''
      (sample_change [''a'']) True 9 \<lparr>dc_labels = [SYNTHETIC], dc_lineage = []\<rparr>
      [(''act-1'', sample_action AS_ATTEMPTED)]"
  have "\<not> isl ?r" by code_simp
  then obtain l' res where r: "?r = Inr (l', res)" by (cases ?r) auto
  have "rr_outcome res = RECONCILED_MUTATION"
    unfolding reconcile_mutation_exact [OF r, THEN conjunct1]
    by (simp add: sample_action_def sample_artifact_def sample_change_def intent_complete_def
        REQUIRED_INTENT_KEYS_def intent_value_def build_remediation_intent_def)
  with r show ?thesis by blast
qed

end
