(* ===== verification/Autonomy.thy ===== *)
theory Autonomy
  imports Samples
begin

text \<open>
  The divergence comparator (\<open>truth_engine/divergence.py\<close>) and the nine-condition autonomous
  remediation gate built on it (\<open>truth_engine/autonomy_gate.py\<close>). The lemmas give the exact
  Boolean content of both, and what an authorised change means for the artifact: writing the one
  approved value makes its requirement set equal to the approved source's.
\<close>

section \<open>Divergence\<close>

datatype target_status =
    AT_PREVIOUS_VALUE | ALREADY_CURRENT | UNEXPECTED_VALUE | MISSING_IN_ARTIFACT
  | MISSING_IN_SOURCE | DUPLICATE_REPRESENTATION

datatype divergence_reason =
    ADDITIONAL_DIVERGENCE | SCOPE_REQUIREMENT_MISSING | TARGET_UNEXPECTED_VALUE
  | TARGET_MISSING_IN_ARTIFACT | TARGET_MISSING_IN_SOURCE | TARGET_DUPLICATE_REPRESENTATION
  | SOURCE_TARGET_NOT_APPROVED_VALUE

record divergence_result =
  dv_has_additional_divergence :: bool
  dv_target_status :: target_status
  dv_divergent_requirement_ids :: "str list"
  dv_reason_codes :: "divergence_reason list"
  dv_is_conflict_free :: bool

text \<open>The \<open>if\<close>/\<open>elif\<close> chain over the target requirement: its status and the reason it appends.\<close>

definition target_verdict ::
  "downstream_artifact \<Rightarrow> (str, str) dict \<Rightarrow> approved_change \<Rightarrow>
     target_status \<times> divergence_reason list" where
  "target_verdict artifact source_requirements change =
     (let target = ac_requirement_id change;
          artifact_target = dict_get (da_requirements artifact) target;
          source_target = dict_get source_requirements target
      in if source_target = None then (MISSING_IN_SOURCE, [TARGET_MISSING_IN_SOURCE])
         else if source_target \<noteq> Some (ac_current_value change)
         then (UNEXPECTED_VALUE, [SOURCE_TARGET_NOT_APPROVED_VALUE])
         else if artifact_target = None then (MISSING_IN_ARTIFACT, [TARGET_MISSING_IN_ARTIFACT])
         else if da_requirement_id artifact = target \<and>
                 Some (da_current_value artifact) \<noteq> artifact_target
         then (DUPLICATE_REPRESENTATION, [TARGET_DUPLICATE_REPRESENTATION])
         else if artifact_target = Some (ac_previous_value change) then (AT_PREVIOUS_VALUE, [])
         else if artifact_target = Some (ac_current_value change) then (ALREADY_CURRENT, [])
         else (UNEXPECTED_VALUE, [TARGET_UNEXPECTED_VALUE]))"

text \<open>
  The loop over the other requirements of both sides. Python iterates a set and sorts the
  collected ids; the iteration order is not observable.
\<close>

definition scope_ids :: "downstream_artifact \<Rightarrow> (str, str) dict \<Rightarrow> approved_change \<Rightarrow> str list"
where
  "scope_ids artifact source_requirements change =
     filter (\<lambda>r. r \<noteq> ac_requirement_id change)
       (dedup (dict_keys source_requirements @ dict_keys (da_requirements artifact)))"

definition missing_id :: "downstream_artifact \<Rightarrow> (str, str) dict \<Rightarrow> str \<Rightarrow> bool" where
  "missing_id artifact source_requirements r \<longleftrightarrow>
     dict_get source_requirements r = None \<or> dict_get (da_requirements artifact) r = None"

definition divergent_id :: "downstream_artifact \<Rightarrow> (str, str) dict \<Rightarrow> str \<Rightarrow> bool" where
  "divergent_id artifact source_requirements r \<longleftrightarrow>
     missing_id artifact source_requirements r \<or>
     dict_get source_requirements r \<noteq> dict_get (da_requirements artifact) r"

definition evaluate_divergence ::
  "downstream_artifact \<Rightarrow> (str, str) dict \<Rightarrow> approved_change \<Rightarrow> divergence_result" where
  "evaluate_divergence artifact source_requirements change =
     (let (status, reasons) = target_verdict artifact source_requirements change;
          ids = scope_ids artifact source_requirements change;
          divergent = filter (divergent_id artifact source_requirements) ids;
          missing = list_ex (missing_id artifact source_requirements) ids;
          additional = (divergent \<noteq> []);
          target_ok = (status = AT_PREVIOUS_VALUE \<or> status = ALREADY_CURRENT)
      in \<lparr>dv_has_additional_divergence = additional,
          dv_target_status = status,
          dv_divergent_requirement_ids = sort divergent,
          dv_reason_codes =
            reasons @ add_if additional ADDITIONAL_DIVERGENCE @
            add_if missing SCOPE_REQUIREMENT_MISSING,
          dv_is_conflict_free = (target_ok \<and> \<not> additional)\<rparr>)"

section \<open>The nine-condition gate\<close>

datatype autonomy_condition =
    C1_SOURCE_VERSION_KNOWN | C2_REQUIREMENT_KNOWN | C3_PREVIOUS_VALUE_KNOWN
  | C4_NEW_VALUE_KNOWN | C5_SINGLE_ATOMIC_CHANGE | C6_TARGET_AUTHORIZED
  | C7_TARGET_UNIQUELY_IDENTIFIABLE | C8_NO_CONFLICTING_DIVERGENCE | C9_EVIDENCE_PRESERVABLE

record autonomy_decision =
  ad_authorized :: bool
  ad_conditions :: "(autonomy_condition, bool) dict"
  ad_failed_conditions :: "autonomy_condition list"
  ad_divergence :: divergence_result
  ad_requires_review :: bool

definition autonomy_results ::
  "downstream_artifact \<Rightarrow> divergence_result \<Rightarrow> approved_change \<Rightarrow>
     (autonomy_condition, bool) dict" where
  "autonomy_results artifact divergence change =
     [(C1_SOURCE_VERSION_KNOWN, ac_source_version change \<noteq> []),
      (C2_REQUIREMENT_KNOWN, ac_requirement_id change \<noteq> []),
      (C3_PREVIOUS_VALUE_KNOWN, ac_previous_value change \<noteq> []),
      (C4_NEW_VALUE_KNOWN, ac_current_value change \<noteq> []),
      (C5_SINGLE_ATOMIC_CHANGE,
         ac_requirement_id change \<noteq> [] \<and> ac_previous_value change \<noteq> ac_current_value change),
      (C6_TARGET_AUTHORIZED, da_authorized_for_remediation artifact \<and>
         da_artifact_id artifact \<in> set (ac_authorized_scope change)),
      (C7_TARGET_UNIQUELY_IDENTIFIABLE,
         dv_target_status divergence \<notin>
           {MISSING_IN_ARTIFACT, MISSING_IN_SOURCE, DUPLICATE_REPRESENTATION}),
      (C8_NO_CONFLICTING_DIVERGENCE, dv_is_conflict_free divergence),
      (C9_EVIDENCE_PRESERVABLE, da_content_ref artifact \<noteq> [])]"

definition evaluate_autonomy ::
  "downstream_artifact \<Rightarrow> (str, str) dict \<Rightarrow> approved_change \<Rightarrow> autonomy_decision" where
  "evaluate_autonomy artifact source_requirements change =
     (let divergence = evaluate_divergence artifact source_requirements change;
          results = autonomy_results artifact divergence change;
          authorized = list_all snd results
      in \<lparr>ad_authorized = authorized,
          ad_conditions = results,
          ad_failed_conditions = failed_of results,
          ad_divergence = divergence,
          ad_requires_review = (\<not> authorized)\<rparr>)"

section \<open>What the comparator decides\<close>

text \<open>The specification: the target agrees on both sides of the one approved change, and every
  other requirement is literally equal.\<close>

definition conflict_free ::
  "downstream_artifact \<Rightarrow> (str, str) dict \<Rightarrow> approved_change \<Rightarrow> bool" where
  "conflict_free a src c \<longleftrightarrow>
     dict_get src (ac_requirement_id c) = Some (ac_current_value c) \<and>
     dict_get (da_requirements a) (ac_requirement_id c) \<in>
       {Some (ac_previous_value c), Some (ac_current_value c)} \<and>
     (da_requirement_id a = ac_requirement_id c \<longrightarrow>
        dict_get (da_requirements a) (ac_requirement_id c) = Some (da_current_value a)) \<and>
     (\<forall>r. r \<noteq> ac_requirement_id c \<longrightarrow> dict_get src r = dict_get (da_requirements a) r)"

lemma no_divergent_iff:
  "filter (divergent_id a src) (scope_ids a src c) = [] \<longleftrightarrow>
     (\<forall>r. r \<noteq> ac_requirement_id c \<longrightarrow> dict_get src r = dict_get (da_requirements a) r)"
  (is "?l \<longleftrightarrow> ?r")
proof
  assume l: ?l
  show ?r
  proof (intro allI impI)
    fix r
    assume "r \<noteq> ac_requirement_id c"
    with l have "r \<in> set (dict_keys src @ dict_keys (da_requirements a)) \<Longrightarrow> \<not> divergent_id a src r"
      by (auto simp: filter_empty_conv scope_ids_def)
    then show "dict_get src r = dict_get (da_requirements a) r"
      by (cases "r \<in> set (dict_keys src @ dict_keys (da_requirements a))")
        (auto simp: divergent_id_def dict_get_absent)
  qed
next
  assume r: ?r
  have "\<not> divergent_id a src x" if "x \<in> set (scope_ids a src c)" for x
  proof -
    from that have x: "x \<noteq> ac_requirement_id c"
      and "x \<in> fst ` set src \<or> x \<in> fst ` set (da_requirements a)"
      by (simp_all add: scope_ids_def)
    then consider v where "dict_get src x = Some v" | v where "dict_get (da_requirements a) x = Some v"
      unfolding dict_get_present by blast
    moreover from r x have "dict_get src x = dict_get (da_requirements a) x" by blast
    ultimately obtain v where "dict_get src x = Some v" and "dict_get (da_requirements a) x = Some v"
      by cases metis+
    then show ?thesis by (simp add: divergent_id_def missing_id_def)
  qed
  then show ?l by (simp add: filter_empty_conv)
qed

lemma target_status_ok:
  "fst (target_verdict a src c) \<in> {AT_PREVIOUS_VALUE, ALREADY_CURRENT} \<longleftrightarrow>
     dict_get src (ac_requirement_id c) = Some (ac_current_value c) \<and>
     dict_get (da_requirements a) (ac_requirement_id c) \<in>
       {Some (ac_previous_value c), Some (ac_current_value c)} \<and>
     (da_requirement_id a = ac_requirement_id c \<longrightarrow>
        dict_get (da_requirements a) (ac_requirement_id c) = Some (da_current_value a))"
  by (auto simp: target_verdict_def Let_def)

lemma target_reasons_Nil:
  "snd (target_verdict a src c) = [] \<longleftrightarrow>
     fst (target_verdict a src c) \<in> {AT_PREVIOUS_VALUE, ALREADY_CURRENT}"
  by (auto simp: target_verdict_def Let_def)

lemma missing_is_divergent: "missing_id a src r \<Longrightarrow> divergent_id a src r"
  by (simp add: divergent_id_def)

lemma evaluate_divergence_simps [simp]:
  "dv_target_status (evaluate_divergence a src c) = fst (target_verdict a src c)"
  "dv_has_additional_divergence (evaluate_divergence a src c) \<longleftrightarrow>
     filter (divergent_id a src) (scope_ids a src c) \<noteq> []"
  "dv_divergent_requirement_ids (evaluate_divergence a src c) =
     sort (filter (divergent_id a src) (scope_ids a src c))"
  by (simp_all add: evaluate_divergence_def split_beta Let_def)

lemma conflict_free_iff [gate_simps]:
  "dv_is_conflict_free (evaluate_divergence a src c) \<longleftrightarrow> conflict_free a src c"
proof -
  have "dv_is_conflict_free (evaluate_divergence a src c) \<longleftrightarrow>
      fst (target_verdict a src c) \<in> {AT_PREVIOUS_VALUE, ALREADY_CURRENT} \<and>
      filter (divergent_id a src) (scope_ids a src c) = []"
    by (auto simp: evaluate_divergence_def split_beta Let_def)
  then show ?thesis
    by (simp only: target_status_ok no_divergent_iff conflict_free_def conj_assoc)
qed

lemma reason_codes_Nil_iff:
  "dv_reason_codes (evaluate_divergence a src c) = [] \<longleftrightarrow>
     dv_is_conflict_free (evaluate_divergence a src c)"
proof -
  have "list_ex (missing_id a src) ids \<Longrightarrow> filter (divergent_id a src) ids \<noteq> []" for ids
    by (auto simp: list_ex_iff filter_empty_conv dest: missing_is_divergent)
  then show ?thesis
    using target_reasons_Nil [of a src c]
    by (auto simp: evaluate_divergence_def split_beta Let_def)
qed

lemma divergent_ids_sorted_distinct:
  "sorted (dv_divergent_requirement_ids (evaluate_divergence a src c)) \<and>
   distinct (dv_divergent_requirement_ids (evaluate_divergence a src c))"
  by (simp add: scope_ids_def)

section \<open>What an authorised decision means\<close>

lemma authorized_iff [gate_simps]:
  "ad_authorized (evaluate_autonomy a src c) \<longleftrightarrow>
     ac_source_version c \<noteq> [] \<and> ac_requirement_id c \<noteq> [] \<and> ac_previous_value c \<noteq> [] \<and>
     ac_current_value c \<noteq> [] \<and> ac_previous_value c \<noteq> ac_current_value c \<and>
     da_authorized_for_remediation a \<and> da_artifact_id a \<in> set (ac_authorized_scope c) \<and>
     conflict_free a src c \<and> da_content_ref a \<noteq> []"
proof -
  have "conflict_free a src c \<Longrightarrow>
      fst (target_verdict a src c) \<notin>
        {MISSING_IN_ARTIFACT, MISSING_IN_SOURCE, DUPLICATE_REPRESENTATION}"
    using target_status_ok [of a src c] by (auto simp: conflict_free_def)
  then show ?thesis
    by (auto simp: evaluate_autonomy_def autonomy_results_def Let_def conflict_free_iff)
qed

lemma authorized_failed_Nil:
  "ad_authorized (evaluate_autonomy a src c) \<longleftrightarrow> ad_failed_conditions (evaluate_autonomy a src c) = []"
  by (simp add: evaluate_autonomy_def Let_def failed_of_Nil_iff)

lemma conflict_free_patch:
  assumes "conflict_free a src c"
  shows "map_of (dict_put (ac_requirement_id c) (ac_current_value c) (da_requirements a)) = map_of src"
  using assms by (intro ext) (auto simp: conflict_free_def)

lemma compliant_after_put:
  assumes "conflict_free a src c" and "ac_previous_value c \<noteq> ac_current_value c"
    and "map_of (da_requirements w) =
      map_of (dict_put (ac_requirement_id c) (ac_current_value c) (da_requirements a))"
    and "da_requirement_id w = ac_requirement_id c \<longrightarrow> da_current_value w = ac_current_value c"
  shows "map_of (da_requirements w) = map_of src \<and> conflict_free w src c \<and>
    dv_target_status (evaluate_divergence w src c) = ALREADY_CURRENT"
proof -
  have same: "map_of (da_requirements w) = map_of src"
    using assms(3) conflict_free_patch [OF assms(1)] by simp
  moreover have src: "dict_get src (ac_requirement_id c) = Some (ac_current_value c)"
    using assms(1) by (simp add: conflict_free_def)
  ultimately have "conflict_free w src c" using assms(4) by (auto simp: conflict_free_def)
  moreover have "fst (target_verdict w src c) = ALREADY_CURRENT"
    using same src assms(2,4) by (auto simp: target_verdict_def Let_def)
  ultimately show ?thesis using same by simp
qed

text \<open>The gate is an exact conjunction: autonomy is authorised if and only if the version,
  requirement and both values are known, the change moves the value, both authorisation records
  agree, a content reference exists, and the artifact is conflict-free (the source carries the
  approved value, the artifact holds the previous or the approved one and states it once, and every
  other requirement is equal on both sides); the list of failed conditions is empty exactly then.\<close>

theorem autonomy_exact:
  "(ad_authorized (evaluate_autonomy a src c) \<longleftrightarrow>
     ac_source_version c \<noteq> [] \<and> ac_requirement_id c \<noteq> [] \<and> ac_previous_value c \<noteq> [] \<and>
     ac_current_value c \<noteq> [] \<and> ac_previous_value c \<noteq> ac_current_value c \<and>
     da_authorized_for_remediation a \<and> da_artifact_id a \<in> set (ac_authorized_scope c) \<and>
     conflict_free a src c \<and> da_content_ref a \<noteq> []) \<and>
   (ad_authorized (evaluate_autonomy a src c) \<longleftrightarrow>
     ad_failed_conditions (evaluate_autonomy a src c) = []) \<and>
   (ad_requires_review (evaluate_autonomy a src c) \<longleftrightarrow> \<not> ad_authorized (evaluate_autonomy a src c))"
  using authorized_iff authorized_failed_Nil by (simp add: evaluate_autonomy_def Let_def)

lemma divergent_set:
  "set (filter (divergent_id a src) (scope_ids a src c)) =
     {r. r \<noteq> ac_requirement_id c \<and> dict_get src r \<noteq> dict_get (da_requirements a) r}"
proof (rule set_eqI)
  fix r
  show "r \<in> set (filter (divergent_id a src) (scope_ids a src c)) \<longleftrightarrow>
      r \<in> {r. r \<noteq> ac_requirement_id c \<and> dict_get src r \<noteq> dict_get (da_requirements a) r}"
    by (cases "dict_get src r"; cases "dict_get (da_requirements a) r")
      (auto simp: divergent_id_def missing_id_def scope_ids_def dict_get_present
        map_of_eq_None_iff [symmetric])
qed

text \<open>The comparator explains itself: it reports a conflict-free artifact exactly when it lists
  no reason code, and the divergent requirement ids it lists are sorted, free of duplicates and
  are precisely the non-target requirements whose values differ between the two sides.\<close>

theorem divergence_report_exact:
  "(dv_is_conflict_free (evaluate_divergence a src c) \<longleftrightarrow>
      dv_reason_codes (evaluate_divergence a src c) = []) \<and>
   sorted (dv_divergent_requirement_ids (evaluate_divergence a src c)) \<and>
   distinct (dv_divergent_requirement_ids (evaluate_divergence a src c)) \<and>
   set (dv_divergent_requirement_ids (evaluate_divergence a src c)) =
     {r. r \<noteq> ac_requirement_id c \<and> dict_get src r \<noteq> dict_get (da_requirements a) r}"
  using reason_codes_Nil_iff [of a src c] divergent_ids_sorted_distinct [of a src c]
    divergent_set [of a src c]
  by simp

end
