(* ===== verification/Validation.thy ===== *)
theory Validation
  imports Evidence
begin

text \<open>
  The five trust-boundary crossings (\<open>truth_engine/validation.py\<close>). A validator returns the list of
  layers that fail; a result is accepted exactly when that list is empty, and a rejected one keeps
  a reference for the audit. A \<^typ>\<open>field_observation\<close> is typed, so its position is always a
  member of the normalised domain and the \<open>OBSERVATION_DOMAIN\<close> layer cannot fail here.
\<close>

section \<open>Outcomes\<close>

datatype crossing = CHANGE_SET | REMEDIATION_EVIDENCE | DELIVERY_RESULT | FIELD_OBSERVATION | MEDIA_OUTPUT

datatype validation_layer =
    SCHEMA | PROVENANCE | EXPECTED_SOURCE_IDENTITY | EXPECTED_ARTIFACT_IDENTITY
  | EXPECTED_TOOL_IDENTITY | AUTHORIZATION_SCOPE | SOURCE_VERSION_APPLICABILITY
  | BEFORE_STATE_CONSISTENCY | SEMANTIC_INVARIANT | POSITIVE_RECEIPT | OBSERVATION_DOMAIN
  | EVIDENCE_REFERENCE | CLASSIFICATION_REQUIRED

record validation_outcome =
  vo_crossing :: crossing
  vo_accepted :: bool
  vo_failed_layers :: "validation_layer list"
  vo_rejection_ref :: "str option"

definition outcome_of :: "crossing \<Rightarrow> validation_layer list \<Rightarrow> str \<Rightarrow> validation_outcome" where
  "outcome_of crossing failed rejection_ref =
     (if failed = [] then
        \<lparr>vo_crossing = crossing, vo_accepted = True, vo_failed_layers = [], vo_rejection_ref = None\<rparr>
      else
        \<lparr>vo_crossing = crossing, vo_accepted = False, vo_failed_layers = dedup failed,
         vo_rejection_ref = Some rejection_ref\<rparr>)"

section \<open>The five validators\<close>

definition validate_change_set ::
  "change_set \<Rightarrow> approved_change \<Rightarrow> str list \<Rightarrow> bool \<Rightarrow> str \<Rightarrow> validation_outcome" where
  "validate_change_set cs change known_artifact_ids source_version_applicable rejection_ref =
     outcome_of CHANGE_SET
       (add_if (cs_change_id cs \<noteq> ac_change_id change) PROVENANCE @
        add_if (cs_source_procedure_id cs \<noteq> ac_source_procedure_id change)
          EXPECTED_SOURCE_IDENTITY @
        add_if (cs_source_version cs \<noteq> ac_source_version change \<or> \<not> source_version_applicable)
          SOURCE_VERSION_APPLICABILITY @
        add_if (list_ex (\<lambda>c. cand_artifact_id c \<notin> set known_artifact_ids)
                  (cs_candidate_affected_artifacts cs)) EXPECTED_ARTIFACT_IDENTITY @
        add_if (cs_previous_value cs \<noteq> ac_previous_value change \<or>
                cs_current_value cs \<noteq> ac_current_value change \<or>
                cs_operation_id cs \<noteq> ac_operation_id change \<or>
                cs_requirement_id cs \<noteq> ac_requirement_id change) SEMANTIC_INVARIANT)
       rejection_ref"

definition validate_remediation_evidence ::
  "remediation_evidence \<Rightarrow> approved_change \<Rightarrow> str \<Rightarrow> str \<Rightarrow> str \<Rightarrow> bool \<Rightarrow> str \<Rightarrow> validation_outcome"
where
  "validate_remediation_evidence evidence change expected_artifact_id expected_before_hash
       expected_action_id source_version_applicable rejection_ref =
     outcome_of REMEDIATION_EVIDENCE
       (add_if (re_artifact_id evidence \<noteq> expected_artifact_id) EXPECTED_ARTIFACT_IDENTITY @
        add_if (expected_artifact_id \<notin> set (ac_authorized_scope change)) AUTHORIZATION_SCOPE @
        add_if (\<not> source_version_applicable) SOURCE_VERSION_APPLICABILITY @
        (case evidence of
           MutationEvidence e \<Rightarrow>
             add_if (me_action_id e \<noteq> expected_action_id) EXPECTED_TOOL_IDENTITY @
             add_if (me_before_hash e \<noteq> expected_before_hash) BEFORE_STATE_CONSISTENCY @
             add_if (me_after_value e \<noteq> ac_current_value change) SEMANTIC_INVARIANT @
             add_if (me_before_value e \<noteq> ac_previous_value change) SEMANTIC_INVARIANT @
             add_if (me_before_ref e = me_after_ref e) SEMANTIC_INVARIANT
         | NoOpEvidence e \<Rightarrow>
             add_if (ne_observed_value e \<noteq> ne_expected_value e) SEMANTIC_INVARIANT @
             add_if (ne_expected_value e \<noteq> ac_current_value change) SEMANTIC_INVARIANT))
       rejection_ref"

definition validate_delivery_result ::
  "delivery_result \<Rightarrow> str \<Rightarrow> str \<Rightarrow> str list \<Rightarrow> str \<Rightarrow> validation_outcome" where
  "validate_delivery_result result expected_worker_id expected_mechanism resolvable_receipt_refs
       rejection_ref =
     outcome_of DELIVERY_RESULT
       (add_if (dr_worker_id result \<noteq> expected_worker_id) PROVENANCE @
        add_if (dr_delivery_mechanism result \<noteq> expected_mechanism) SEMANTIC_INVARIANT @
        add_if (dr_delivery_evidence_ref result = [] \<or>
                dr_delivery_evidence_ref result \<notin> set resolvable_receipt_refs) POSITIVE_RECEIPT)
       rejection_ref"

definition validate_field_observation ::
  "field_observation \<Rightarrow> str list \<Rightarrow> str list \<Rightarrow> str \<Rightarrow> validation_outcome" where
  "validate_field_observation observation resolvable_evidence_refs known_submission_ids
       rejection_ref =
     outcome_of FIELD_OBSERVATION
       (add_if (fo_raw_evidence_ref observation \<notin> set resolvable_evidence_refs)
          EVIDENCE_REFERENCE @
        add_if (fo_submission_id observation \<in> set known_submission_ids) PROVENANCE)
       rejection_ref"

definition validate_media_output ::
  "str option \<Rightarrow> str list \<Rightarrow> bool \<Rightarrow> str \<Rightarrow> validation_outcome" where
  "validate_media_output asset_ref resolvable_asset_refs classification_recorded rejection_ref =
     outcome_of MEDIA_OUTPUT
       (add_if (\<not> truthy asset_ref \<or> asset_ref \<notin> Some ` set resolvable_asset_refs)
          EVIDENCE_REFERENCE @
        add_if (\<not> classification_recorded) CLASSIFICATION_REQUIRED)
       rejection_ref"

definition rejection_of :: "validation_outcome \<Rightarrow> str list" where
  "rejection_of o' =
     (if \<not> vo_accepted o' \<and> truthy (vo_rejection_ref o') then [the (vo_rejection_ref o')] else [])"

definition collect_rejections :: "(str, validation_outcome) dict \<Rightarrow> str list" where
  "collect_rejections outcomes = concat (map (rejection_of \<circ> snd) outcomes)"

section \<open>Verdicts\<close>

lemma outcome_fields [simp]:
  "vo_accepted (outcome_of c fs r) \<longleftrightarrow> fs = []"
  "vo_failed_layers (outcome_of c fs r) = dedup fs"
  "vo_rejection_ref (outcome_of c fs r) = (if fs = [] then None else Some r)"
  "vo_crossing (outcome_of c fs r) = c"
  by (simp_all add: outcome_of_def)

lemma change_set_accepted_iff [gate_simps]:
  "vo_accepted (validate_change_set cs c known ok ref) \<longleftrightarrow>
     cs_change_id cs = ac_change_id c \<and> cs_source_procedure_id cs = ac_source_procedure_id c \<and>
     cs_source_version cs = ac_source_version c \<and> ok \<and>
     cand_artifact_id ` set (cs_candidate_affected_artifacts cs) \<subseteq> set known \<and>
     cs_previous_value cs = ac_previous_value c \<and> cs_current_value cs = ac_current_value c \<and>
     cs_operation_id cs = ac_operation_id c \<and> cs_requirement_id cs = ac_requirement_id c"
  by (auto simp: validate_change_set_def list_ex_iff)

lemma remediation_accepted_iff [gate_simps]:
  "vo_accepted (validate_remediation_evidence e c art h act ok ref) \<longleftrightarrow>
     re_artifact_id e = art \<and> art \<in> set (ac_authorized_scope c) \<and> ok \<and>
     (case e of
        MutationEvidence m \<Rightarrow>
          me_action_id m = act \<and> me_before_hash m = h \<and> me_after_value m = ac_current_value c \<and>
          me_before_value m = ac_previous_value c \<and> me_before_ref m \<noteq> me_after_ref m
      | NoOpEvidence n \<Rightarrow>
          ne_observed_value n = ac_current_value c \<and> ne_expected_value n = ac_current_value c)"
  by (cases e) (auto simp: validate_remediation_evidence_def)

lemma delivery_accepted_iff [gate_simps]:
  "vo_accepted (validate_delivery_result d w m rs ref) \<longleftrightarrow>
     dr_worker_id d = w \<and> dr_delivery_mechanism d = m \<and> dr_delivery_evidence_ref d \<noteq> [] \<and>
     dr_delivery_evidence_ref d \<in> set rs"
  by (auto simp: validate_delivery_result_def)

lemma observation_accepted_iff [gate_simps]:
  "vo_accepted (validate_field_observation ob refs known ref) \<longleftrightarrow>
     fo_raw_evidence_ref ob \<in> set refs \<and> fo_submission_id ob \<notin> set known"
  by (auto simp: validate_field_observation_def)

lemma in_rejection_of:
  "r \<in> set (rejection_of o') \<longleftrightarrow> \<not> vo_accepted o' \<and> vo_rejection_ref o' = Some r \<and> r \<noteq> []"
  by (auto simp: rejection_of_def truthy_def)

lemma in_collect_rejections:
  "r \<in> set (collect_rejections os) \<longleftrightarrow>
     (\<exists>o' \<in> snd ` set os. \<not> vo_accepted o' \<and> vo_rejection_ref o' = Some r \<and> r \<noteq> [])"
  by (simp add: collect_rejections_def in_rejection_of)

text \<open>Nothing an agent asserts crosses on its own word: a change set is accepted only if every
  identity, version and value equals the approved change and every candidate is a known artifact;
  remediation evidence only for the targeted, authorised artifact with the expected action,
  before-state and values (a no-op only at the approved value); a delivery only with a resolvable
  receipt, whatever its \<open>delivered\<close> flag says. The verdicts are unchanged when the agent flips its
  own \<open>delivered\<close> flag, and the collected rejection references are exactly those of rejected results.\<close>

theorem crossings_exact:
  "(vo_accepted (validate_change_set cs c known ok ref) \<longleftrightarrow>
      cs_change_id cs = ac_change_id c \<and> cs_source_procedure_id cs = ac_source_procedure_id c \<and>
      cs_source_version cs = ac_source_version c \<and> ok \<and>
      cand_artifact_id ` set (cs_candidate_affected_artifacts cs) \<subseteq> set known \<and>
      cs_previous_value cs = ac_previous_value c \<and> cs_current_value cs = ac_current_value c \<and>
      cs_operation_id cs = ac_operation_id c \<and> cs_requirement_id cs = ac_requirement_id c) \<and>
   (vo_accepted (validate_remediation_evidence e c art h act ok ref) \<longleftrightarrow>
      re_artifact_id e = art \<and> art \<in> set (ac_authorized_scope c) \<and> ok \<and>
      (case e of
         MutationEvidence m \<Rightarrow>
           me_action_id m = act \<and> me_before_hash m = h \<and> me_after_value m = ac_current_value c \<and>
           me_before_value m = ac_previous_value c \<and> me_before_ref m \<noteq> me_after_ref m
       | NoOpEvidence n \<Rightarrow>
           ne_observed_value n = ac_current_value c \<and> ne_expected_value n = ac_current_value c)) \<and>
   (vo_accepted (validate_delivery_result d w m rs ref) \<longleftrightarrow>
      dr_worker_id d = w \<and> dr_delivery_mechanism d = m \<and> dr_delivery_evidence_ref d \<noteq> [] \<and>
      dr_delivery_evidence_ref d \<in> set rs) \<and>
   validate_delivery_result (d\<lparr>dr_delivered := b\<rparr>) w m rs ref = validate_delivery_result d w m rs ref \<and>
   (r \<in> set (collect_rejections os) \<longleftrightarrow>
      (\<exists>o' \<in> snd ` set os. \<not> vo_accepted o' \<and> vo_rejection_ref o' = Some r \<and> r \<noteq> []))"
  using change_set_accepted_iff [of cs c known ok ref] remediation_accepted_iff [of e c art h act ok ref]
    delivery_accepted_iff [of d w m rs ref] in_collect_rejections [of r os]
  by (simp only: simp_thms) (simp add: validate_delivery_result_def)

end
