(* ===== verification/Capabilities.thy ===== *)
theory Capabilities
  imports Models
begin

text \<open>
  Logical identities, the authorization policy and the capability broker
  (\<open>src/driftzero/capabilities.py\<close>, with \<open>MutationCapability\<close> of \<open>tools/artifact_mutation.py\<close>).
  HMAC-SHA256 is the parameter \<open>mac\<close> (secret, message), \<open>secrets.token_hex(4)\<close> and the reading of
  the optional clock are arguments. A refused request raises after recording its denial, so the
  minting operations return the new broker with a result.
\<close>

section \<open>Identities, tools and the policy\<close>

datatype agent_identity = CHANGE_INTELLIGENCE | REMEDIATION | ENABLEMENT | FIELD_VERIFICATION | ORCHESTRATOR

primrec identity_value :: "agent_identity \<Rightarrow> str" where
  "identity_value CHANGE_INTELLIGENCE = ''driftzero-change-intel''"
| "identity_value REMEDIATION = ''driftzero-remediation''"
| "identity_value ENABLEMENT = ''driftzero-enablement''"
| "identity_value FIELD_VERIFICATION = ''driftzero-field-verify''"
| "identity_value ORCHESTRATOR = ''driftzero-orchestrator''"

datatype tool_capability = ARTIFACT_MUTATION | FRONTLINE_DELIVERY | FIELD_OBSERVATION_TOOL

primrec tool_value :: "tool_capability \<Rightarrow> str" where
  "tool_value ARTIFACT_MUTATION = ''ARTIFACT_MUTATION''"
| "tool_value FRONTLINE_DELIVERY = ''FRONTLINE_DELIVERY''"
| "tool_value FIELD_OBSERVATION_TOOL = ''FIELD_OBSERVATION''"

text \<open>\<open>AgentIdentity(value)\<close> and \<open>ToolCapability(value)\<close>.\<close>

definition identity_of :: "str \<Rightarrow> agent_identity option" where
  "identity_of s =
     List.find (\<lambda>i. identity_value i = s)
       [CHANGE_INTELLIGENCE, REMEDIATION, ENABLEMENT, FIELD_VERIFICATION, ORCHESTRATOR]"

definition tool_of :: "str \<Rightarrow> tool_capability option" where
  "tool_of s =
     List.find (\<lambda>t. tool_value t = s) [ARTIFACT_MUTATION, FRONTLINE_DELIVERY, FIELD_OBSERVATION_TOOL]"

definition AUTHORIZATION_POLICY :: "(agent_identity \<times> tool_capability) set" where
  "AUTHORIZATION_POLICY =
     {(REMEDIATION, ARTIFACT_MUTATION), (ENABLEMENT, FRONTLINE_DELIVERY),
      (FIELD_VERIFICATION, FIELD_OBSERVATION_TOOL)}"

definition is_authorized :: "str \<Rightarrow> str \<Rightarrow> bool" where
  "is_authorized identity tool =
     (case (identity_of identity, tool_of tool) of
        (Some i, Some t) \<Rightarrow> (i, t) \<in> AUTHORIZATION_POLICY
      | _ \<Rightarrow> False)"

definition authorized_identities_for :: "tool_capability \<Rightarrow> agent_identity set" where
  "authorized_identities_for tool = fst ` {p \<in> AUTHORIZATION_POLICY. snd p = tool}"

section \<open>Grants and denials\<close>

datatype denial_reason =
  IDENTITY_NOT_AUTHORIZED_FOR_TOOL | UNKNOWN_IDENTITY | UNKNOWN_TOOL | MALFORMED_CAPABILITY_REQUEST

primrec denial_reason_value :: "denial_reason \<Rightarrow> str" where
  "denial_reason_value IDENTITY_NOT_AUTHORIZED_FOR_TOOL = ''IDENTITY_NOT_AUTHORIZED_FOR_TOOL''"
| "denial_reason_value UNKNOWN_IDENTITY = ''UNKNOWN_IDENTITY''"
| "denial_reason_value UNKNOWN_TOOL = ''UNKNOWN_TOOL''"
| "denial_reason_value MALFORMED_CAPABILITY_REQUEST = ''MALFORMED_REQUEST''"

record denial_evidence =
  dn_denial_id :: str
  dn_requested_by :: str
  dn_requested_tool :: str
  dn_reason_code :: denial_reason
  dn_policy_basis :: str
  dn_scope_ref :: "str option"
  dn_change_id :: "str option"
  dn_source_version :: "str option"
  dn_occurred_at :: "datetime option"

definition as_evidence_ref :: "denial_evidence \<Rightarrow> str" where
  "as_evidence_ref d =
     ''authorization-denial:'' @ dn_denial_id d @ '':'' @ dn_requested_by d @ '':'' @
     dn_requested_tool d @ '':'' @ denial_reason_value (dn_reason_code d)"

record capability_grant =
  cg_capability_id :: str
  cg_holder :: str
  cg_tool :: tool_capability
  cg_scope_ref :: str
  cg_change_id :: str
  cg_source_version :: str
  cg_revoked :: bool

record mutation_capability =
  mc_capability_id :: str
  mc_holder :: str
  mc_tool :: str
  mc_authorized_artifact_ids :: "str set"
  mc_change_id :: str
  mc_source_version :: str
  mc_grant_token :: str

record tool_grant =
  tg_capability_id :: str
  tg_holder :: str
  tg_tool :: str
  tg_scope_refs :: "str set"
  tg_change_id :: str
  tg_source_version :: str
  tg_grant_token :: str

definition covers :: "tool_grant \<Rightarrow> str \<Rightarrow> bool" where
  "covers g scope_ref \<longleftrightarrow> scope_ref \<in> tg_scope_refs g"

record broker =
  br_secret :: str
  br_grants :: "(str, capability_grant) dict"
  br_issued_count :: nat
  br_denied_count :: nat
  br_denials :: "denial_evidence list"

definition new_broker :: "str \<Rightarrow> broker" where
  "new_broker secret =
     \<lparr>br_secret = secret, br_grants = [], br_issued_count = 0, br_denied_count = 0, br_denials = []\<rparr>"

section \<open>The broker\<close>

definition sign ::
  "(str \<Rightarrow> str \<Rightarrow> str) \<Rightarrow> broker \<Rightarrow> str \<Rightarrow> str \<Rightarrow> tool_capability \<Rightarrow> str \<Rightarrow> str \<Rightarrow> str \<Rightarrow> str" where
  "sign mac b capability_id holder tool artifact_id change_id source_version =
     mac (br_secret b)
       (join_with (CHR 0x1F)
         [capability_id, holder, tool_value tool, artifact_id, change_id, source_version])"

text \<open>\<open>artifact_id or scope_ref or None\<close> on one scope argument.\<close>

definition or_None :: "str \<Rightarrow> str option" where
  "or_None s = (if s = [] then None else Some s)"

definition deny ::
  "str \<Rightarrow> denial_reason \<Rightarrow> str \<Rightarrow> str \<Rightarrow> str \<Rightarrow> str \<Rightarrow> str \<Rightarrow> str \<Rightarrow> datetime option \<Rightarrow> broker \<Rightarrow>
     broker" where
  "deny holder reason detail tool scope_ref change_id source_version rnd now b =
     (let n = br_denied_count b + 1
      in b\<lparr>br_denied_count := n,
           br_denials := br_denials b @
             [\<lparr>dn_denial_id = ''deny-'' @ pad_nat 4 n @ ''-'' @ rnd,
               dn_requested_by = holder, dn_requested_tool = tool, dn_reason_code = reason,
               dn_policy_basis = detail, dn_scope_ref = or_None scope_ref,
               dn_change_id = or_None change_id, dn_source_version = or_None source_version,
               dn_occurred_at = now\<rparr>]\<rparr>)"

text \<open>\<open>repr\<close> of a string without quotes or escapes, and of a list of such strings.\<close>

definition quoted :: "str \<Rightarrow> str" where
  "quoted s = CHR 0x27 # s @ [CHR 0x27]"

definition list_repr :: "str list \<Rightarrow> str" where
  "list_repr xs = ''['' @ join_str '', '' (map quoted xs) @ '']''"

definition no_entry :: "agent_identity \<Rightarrow> tool_capability \<Rightarrow> str" where
  "no_entry i t =
     ''AUTHORIZATION_POLICY has no ('' @ identity_value i @ '', '' @ tool_value t @ '') entry; only '' @
     list_repr (sorted_list_of_set (identity_value ` authorized_identities_for t)) @
     '' may hold it''"

text \<open>The first blank field of the request, in the order the code checks them.\<close>

definition first_blank :: "(str \<times> str) list \<Rightarrow> str option" where
  "first_blank named = map_option fst (List.find (\<lambda>(_, v). blank v) named)"

text \<open>
  The checks \<open>issue\<close> and \<open>issue_grant\<close> share, in their order: \<open>Inl\<close> the reason, its text and the
  tool the denial is recorded for, or \<open>Inr\<close> the capability. \<open>issue\<close> calls it with the broker's own
  tool.
\<close>

definition mint_check ::
  "str \<Rightarrow> str \<Rightarrow> str \<Rightarrow> str \<Rightarrow> str \<Rightarrow> str \<Rightarrow> (denial_reason \<times> str \<times> str) + tool_capability" where
  "mint_check holder tool scope_name scope_ref change_id source_version =
     (case identity_of holder of
        None \<Rightarrow> Inl (UNKNOWN_IDENTITY, ''identity is not a known logical agent identity'', tool)
      | Some identity \<Rightarrow>
          (case tool_of tool of
             None \<Rightarrow> Inl (UNKNOWN_TOOL, quoted tool @ '' is not a known tool capability'',
                          tool_value ARTIFACT_MUTATION)
           | Some capability \<Rightarrow>
               if \<not> is_authorized (identity_value identity) (tool_value capability) then
                 Inl (IDENTITY_NOT_AUTHORIZED_FOR_TOOL, no_entry identity capability,
                      tool_value capability)
               else
                 (case first_blank [(scope_name, scope_ref), (''change_id'', change_id),
                                    (''source_version'', source_version)] of
                    Some name \<Rightarrow> Inl (MALFORMED_CAPABILITY_REQUEST, name @ '' must not be blank'',
                                      tool_value capability)
                  | None \<Rightarrow> Inr capability)))"

definition register_grant ::
  "str \<Rightarrow> tool_capability \<Rightarrow> str \<Rightarrow> str \<Rightarrow> str \<Rightarrow> str \<Rightarrow> broker \<Rightarrow> broker \<times> str" where
  "register_grant holder tool scope_ref change_id source_version rnd b =
     (let n = br_issued_count b + 1;
          capability_id = ''cap-'' @ pad_nat 4 n @ ''-'' @ rnd
      in (b\<lparr>br_issued_count := n,
            br_grants := dict_put capability_id
              \<lparr>cg_capability_id = capability_id, cg_holder = holder, cg_tool = tool,
               cg_scope_ref = scope_ref, cg_change_id = change_id,
               cg_source_version = source_version, cg_revoked = False\<rparr>
              (br_grants b)\<rparr>,
          capability_id))"

definition issue_grant ::
  "(str \<Rightarrow> str \<Rightarrow> str) \<Rightarrow> str \<Rightarrow> str \<Rightarrow> str \<Rightarrow> str \<Rightarrow> str \<Rightarrow> str \<Rightarrow> datetime option \<Rightarrow> broker \<Rightarrow>
     broker \<times> tool_grant res" where
  "issue_grant mac holder tool scope_ref change_id source_version rnd now b =
     (case mint_check holder tool ''scope_ref'' scope_ref change_id source_version of
        Inl (reason, detail, denied_tool) \<Rightarrow>
          (deny holder reason detail denied_tool scope_ref change_id source_version rnd now b,
           Inl (CapabilityDenied detail))
      | Inr capability \<Rightarrow>
          (let (b', capability_id) =
                 register_grant holder capability scope_ref change_id source_version rnd b
           in (b', Inr \<lparr>tg_capability_id = capability_id, tg_holder = holder,
                        tg_tool = tool_value capability, tg_scope_refs = {scope_ref},
                        tg_change_id = change_id, tg_source_version = source_version,
                        tg_grant_token = sign mac b capability_id holder capability scope_ref
                          change_id source_version\<rparr>)))"

definition issue ::
  "(str \<Rightarrow> str \<Rightarrow> str) \<Rightarrow> str \<Rightarrow> str \<Rightarrow> str \<Rightarrow> str \<Rightarrow> str \<Rightarrow> datetime option \<Rightarrow> broker \<Rightarrow>
     broker \<times> mutation_capability res" where
  "issue mac holder artifact_id change_id source_version rnd now b =
     (case mint_check holder (tool_value ARTIFACT_MUTATION) ''artifact_id'' artifact_id change_id
             source_version of
        Inl (reason, detail, denied_tool) \<Rightarrow>
          (deny holder reason detail denied_tool artifact_id change_id source_version rnd now b,
           Inl (CapabilityDenied detail))
      | Inr capability \<Rightarrow>
          (let (b', capability_id) =
                 register_grant holder capability artifact_id change_id source_version rnd b
           in (b', Inr \<lparr>mc_capability_id = capability_id, mc_holder = holder,
                        mc_tool = tool_value capability,
                        mc_authorized_artifact_ids = {artifact_id},
                        mc_change_id = change_id, mc_source_version = source_version,
                        mc_grant_token = sign mac b capability_id holder capability artifact_id
                          change_id source_version\<rparr>)))"

definition verify_grant ::
  "(str \<Rightarrow> str \<Rightarrow> str) \<Rightarrow> broker \<Rightarrow> tool_grant \<Rightarrow> str \<Rightarrow> bool" where
  "verify_grant mac b grant tool =
     (if tg_tool grant \<noteq> tool then False
      else case dict_get (br_grants b) (tg_capability_id grant) of
        None \<Rightarrow> False
      | Some r \<Rightarrow>
          if cg_revoked r then False
          else if cg_holder r \<noteq> tg_holder grant \<or> tool_value (cg_tool r) \<noteq> tg_tool grant \<or>
                  cg_change_id r \<noteq> tg_change_id grant \<or>
                  cg_source_version r \<noteq> tg_source_version grant \<or>
                  cg_scope_ref r \<notin> tg_scope_refs grant then False
          else if \<not> is_authorized (cg_holder r) (tool_value (cg_tool r)) then False
          else sign mac b (tg_capability_id grant) (tg_holder grant) (cg_tool r) (cg_scope_ref r)
                 (tg_change_id grant) (tg_source_version grant) = tg_grant_token grant)"

definition verify :: "(str \<Rightarrow> str \<Rightarrow> str) \<Rightarrow> broker \<Rightarrow> mutation_capability \<Rightarrow> bool" where
  "verify mac b capability =
     (case dict_get (br_grants b) (mc_capability_id capability) of
        None \<Rightarrow> False
      | Some r \<Rightarrow>
          if cg_revoked r then False
          else if cg_holder r \<noteq> mc_holder capability \<or> tool_value (cg_tool r) \<noteq> mc_tool capability \<or>
                  cg_change_id r \<noteq> mc_change_id capability \<or>
                  cg_source_version r \<noteq> mc_source_version capability \<or>
                  cg_scope_ref r \<notin> mc_authorized_artifact_ids capability then False
          else if \<not> is_authorized (cg_holder r) (tool_value (cg_tool r)) then False
          else sign mac b (mc_capability_id capability) (mc_holder capability) (cg_tool r)
                 (cg_scope_ref r) (mc_change_id capability) (mc_source_version capability) =
               mc_grant_token capability)"

definition verify_for_tool ::
  "(str \<Rightarrow> str \<Rightarrow> str) \<Rightarrow> broker \<Rightarrow> mutation_capability \<Rightarrow> str \<Rightarrow> bool" where
  "verify_for_tool mac b capability tool \<longleftrightarrow> mc_tool capability = tool \<and> verify mac b capability"

definition revoke :: "str \<Rightarrow> broker \<Rightarrow> broker" where
  "revoke capability_id b =
     (case dict_get (br_grants b) capability_id of
        None \<Rightarrow> b
      | Some g \<Rightarrow> b\<lparr>br_grants := dict_put capability_id (g\<lparr>cg_revoked := True\<rparr>) (br_grants b)\<rparr>)"

definition denial_evidence_refs :: "broker \<Rightarrow> str list" where
  "denial_evidence_refs b = map as_evidence_ref (br_denials b)"

section \<open>The policy is exactly three pairs\<close>

lemma identity_of_iff: "identity_of s = Some i \<longleftrightarrow> s = identity_value i"
  by (cases i) (auto simp: identity_of_def)

lemma tool_of_iff: "tool_of s = Some t \<longleftrightarrow> s = tool_value t"
  by (cases t) (auto simp: tool_of_def)

lemma identity_value_inj [simp]: "identity_value i = identity_value j \<longleftrightarrow> i = j"
  by (cases i; cases j) simp_all

lemma tool_value_inj [simp]: "tool_value t = tool_value u \<longleftrightarrow> t = u"
  by (cases t; cases u) simp_all

lemma is_authorized_iff:
  "is_authorized s u \<longleftrightarrow> (\<exists>i t. s = identity_value i \<and> u = tool_value t \<and> (i, t) \<in> AUTHORIZATION_POLICY)"
  by (auto simp: is_authorized_def identity_of_iff tool_of_iff split: option.splits)
    (metis identity_of_iff option.distinct(1) tool_of_iff)+

lemma is_authorized_values [simp]:
  "is_authorized (identity_value i) (tool_value t) \<longleftrightarrow> (i, t) \<in> AUTHORIZATION_POLICY"
  by (auto simp: is_authorized_iff)

lemma first_blank_None: "first_blank xs = None \<longleftrightarrow> (\<forall>p \<in> set xs. \<not> blank (snd p))"
  by (auto simp: first_blank_def find_None_iff2)

lemma mint_check_Inr_iff:
  "mint_check h t n s c v = Inr u \<longleftrightarrow>
     t = tool_value u \<and> is_authorized h t \<and> \<not> blank s \<and> \<not> blank c \<and> \<not> blank v"
proof (cases "identity_of h")
  case None
  then have "h \<noteq> identity_value i" for i by (metis identity_of_iff option.distinct(1))
  with None show ?thesis by (auto simp: mint_check_def is_authorized_iff)
next
  case (Some i)
  show ?thesis
  proof (cases "tool_of t")
    case None
    then have "t \<noteq> tool_value w" for w by (metis tool_of_iff option.distinct(1))
    with None Some show ?thesis by (auto simp: mint_check_def)
  next
    case t: (Some w)
    with Some have "h = identity_value i" "t = tool_value w"
      by (simp_all add: identity_of_iff tool_of_iff)
    with Some t show ?thesis
      using first_blank_None [of "[(n, s), (''change_id'', c), (''source_version'', v)]"]
      by (auto simp: mint_check_def split: option.splits)
  qed
qed

section \<open>The broker's registry\<close>

text \<open>An id's number can be read back, so ids of different numbers differ.\<close>

definition capability_id_of :: "nat \<Rightarrow> str \<Rightarrow> str" where
  "capability_id_of n rnd = ''cap-'' @ pad_nat 4 n @ ''-'' @ rnd"

lemma digits_no_minus: "c \<in> set (show_nat n) \<Longrightarrow> 48 \<le> (of_char c :: nat) \<and> (of_char c :: nat) \<le> 57"
proof (induction n rule: show_nat.induct)
  case (1 n)
  then show ?case
    by (subst (asm) (2) show_nat.simps) (auto simp: digit_char_def split: if_splits)
qed

lemma pad_no_minus: "CHR ''-'' \<notin> set (pad_nat w n)"
proof
  assume "CHR ''-'' \<in> set (pad_nat w n)"
  then have "CHR ''-'' \<in> set (show_nat n)" by (auto simp: pad_nat_def Let_def)
  from digits_no_minus [OF this] show False by simp
qed

lemma capability_id_inj: "capability_id_of m r = capability_id_of n q \<Longrightarrow> m = n \<and> r = q"
  using append_sep_inj [OF pad_no_minus [of 4 m] pad_no_minus [of 4 n], of r q]
  by (simp add: capability_id_of_def pad_nat_inj)

definition grant_ok :: "nat \<Rightarrow> str \<Rightarrow> capability_grant \<Rightarrow> bool" where
  "grant_ok n k g \<longleftrightarrow>
     cg_capability_id g = k \<and> is_authorized (cg_holder g) (tool_value (cg_tool g)) \<and>
     \<not> blank (cg_scope_ref g) \<and> \<not> blank (cg_change_id g) \<and> \<not> blank (cg_source_version g) \<and>
     (\<exists>m rnd. k = capability_id_of m rnd \<and> m \<le> n)"

definition broker_ok :: "broker \<Rightarrow> bool" where
  "broker_ok b \<longleftrightarrow>
     (\<forall>k g. dict_get (br_grants b) k = Some g \<longrightarrow> grant_ok (br_issued_count b) k g) \<and>
     length (br_denials b) = br_denied_count b"

lemma broker_okD: "broker_ok b \<Longrightarrow> dict_get (br_grants b) k = Some g \<Longrightarrow> grant_ok (br_issued_count b) k g"
  by (simp add: broker_ok_def)

lemma grant_ok_mono: "grant_ok m k g \<Longrightarrow> m \<le> n \<Longrightarrow> grant_ok n k g"
  unfolding grant_ok_def by (meson le_trans)

lemma grant_ok_revoke [simp]: "grant_ok n k (g\<lparr>cg_revoked := r\<rparr>) = grant_ok n k g"
  by (simp add: grant_ok_def)

lemma new_broker_ok: "broker_ok (new_broker s)"
  by (simp add: broker_ok_def new_broker_def)

text \<open>Everything that can happen to a broker: grants minted, requests denied, grants revoked.\<close>

inductive broker_step :: "broker \<Rightarrow> broker \<Rightarrow> bool" where
  minted: "mint_check h t n s c v = Inr u \<Longrightarrow> broker_step b (fst (register_grant h u s c v rnd b))"
| denied: "broker_step b (deny h reason detail t s c v rnd now b)"
| revoked: "broker_step b (revoke k b)"

inductive broker_reach :: "broker \<Rightarrow> broker \<Rightarrow> bool" where
  unchanged: "broker_reach b b"
| later: "broker_reach a b \<Longrightarrow> broker_step b c \<Longrightarrow> broker_reach a c"

lemma issue_is_step: "broker_step b (fst (issue mac h a c v rnd now b))"
proof (cases "mint_check h (tool_value ARTIFACT_MUTATION) ''artifact_id'' a c v")
  case (Inl r)
  then show ?thesis
    by (cases r) (auto simp: issue_def intro: broker_step.denied)
next
  case (Inr u)
  from broker_step.minted [OF this] show ?thesis
    unfolding issue_def Inr by (simp add: split_beta Let_def)
qed

lemma issue_grant_is_step: "broker_step b (fst (issue_grant mac h t s c v rnd now b))"
proof (cases "mint_check h t ''scope_ref'' s c v")
  case (Inl r)
  then show ?thesis
    by (cases r) (auto simp: issue_grant_def intro: broker_step.denied)
next
  case (Inr u)
  from broker_step.minted [OF this] show ?thesis
    unfolding issue_grant_def Inr by (simp add: split_beta Let_def)
qed

lemma register_fresh:
  assumes "broker_ok b"
  shows "dict_get (br_grants b) (snd (register_grant h u s c v rnd b)) = None"
proof (rule ccontr)
  let ?k = "snd (register_grant h u s c v rnd b)"
  assume "dict_get (br_grants b) ?k \<noteq> None"
  then obtain g where "dict_get (br_grants b) ?k = Some g" by blast
  from broker_okD [OF assms this] obtain n r where
    "?k = capability_id_of n r" and "n \<le> br_issued_count b"
    unfolding grant_ok_def by blast
  moreover have "?k = capability_id_of (br_issued_count b + 1) rnd"
    by (simp add: register_grant_def Let_def capability_id_of_def)
  ultimately show False using capability_id_inj by fastforce
qed

lemma register_grants:
  "br_grants (fst (register_grant h u s c v rnd b)) =
     dict_put (snd (register_grant h u s c v rnd b))
       \<lparr>cg_capability_id = snd (register_grant h u s c v rnd b), cg_holder = h, cg_tool = u,
        cg_scope_ref = s, cg_change_id = c, cg_source_version = v, cg_revoked = False\<rparr> (br_grants b)"
  "br_secret (fst (register_grant h u s c v rnd b)) = br_secret b"
  "br_issued_count (fst (register_grant h u s c v rnd b)) = br_issued_count b + 1"
  "br_denials (fst (register_grant h u s c v rnd b)) = br_denials b"
  "br_denied_count (fst (register_grant h u s c v rnd b)) = br_denied_count b"
  by (simp_all add: register_grant_def Let_def)

lemma broker_ok_step: "broker_step b b' \<Longrightarrow> broker_ok b \<Longrightarrow> broker_ok b'"
proof (induction rule: broker_step.induct)
  case (minted h t n s c v u b rnd)
  let ?b = "fst (register_grant h u s c v rnd b)"
  let ?k = "snd (register_grant h u s c v rnd b)"
  have k: "?k = capability_id_of (br_issued_count b + 1) rnd"
    by (simp add: register_grant_def Let_def capability_id_of_def)
  from minted(1) have new: "is_authorized h (tool_value u) \<and> \<not> blank s \<and> \<not> blank c \<and> \<not> blank v"
    by (auto simp: mint_check_Inr_iff)
  have "grant_ok (br_issued_count ?b) j g" if "dict_get (br_grants ?b) j = Some g" for j g
  proof (cases "j = ?k")
    case True
    with that new k show ?thesis by (auto simp: register_grants grant_ok_def)
  next
    case False
    with that broker_okD [OF minted(2)] grant_ok_mono show ?thesis
      by (fastforce simp: register_grants)
  qed
  with minted(2) show ?case by (simp add: broker_ok_def register_grants)
next
  case (denied b h reason detail t s c v rnd now)
  then show ?case by (simp add: broker_ok_def deny_def Let_def)
next
  case (revoked b k)
  then show ?case
    by (cases "dict_get (br_grants b) k") (auto simp: broker_ok_def revoke_def)
qed

text \<open>Later operations change nothing about an existing grant except to revoke it.\<close>

lemma grant_step:
  assumes "broker_step b b'" and "broker_ok b" and "dict_get (br_grants b) k = Some g"
  shows "\<exists>g'. dict_get (br_grants b') k = Some g' \<and> g' = g\<lparr>cg_revoked := cg_revoked g'\<rparr> \<and>
    (cg_revoked g \<longrightarrow> cg_revoked g') \<and> br_secret b' = br_secret b"
  using assms
proof (induction rule: broker_step.induct)
  case (minted h t n s c v u b rnd)
  with register_fresh [OF minted(2), of h u s c v rnd] have
    "k \<noteq> snd (register_grant h u s c v rnd b)" by auto
  with minted(3) show ?case by (simp add: register_grants)
next
  case (denied b h reason detail t s c v rnd now)
  then show ?case by (simp add: deny_def Let_def)
next
  case (revoked b j)
  then show ?case by (auto simp: revoke_def split: option.splits)
qed

lemma broker_reach_ok: "broker_reach b b' \<Longrightarrow> broker_ok b \<Longrightarrow> broker_ok b'"
  by (induction rule: broker_reach.induct) (auto intro: broker_ok_step)

lemma grant_reach:
  "broker_reach b b' \<Longrightarrow> broker_ok b \<Longrightarrow> dict_get (br_grants b) k = Some g \<Longrightarrow>
    \<exists>g'. dict_get (br_grants b') k = Some g' \<and> g' = g\<lparr>cg_revoked := cg_revoked g'\<rparr> \<and>
    (cg_revoked g \<longrightarrow> cg_revoked g') \<and> br_secret b' = br_secret b"
proof (induction rule: broker_reach.induct)
  case (unchanged b)
  then show ?case by simp
next
  case (later a b c)
  then obtain g' where g': "dict_get (br_grants b) k = Some g'" "g' = g\<lparr>cg_revoked := cg_revoked g'\<rparr>"
    "cg_revoked g \<longrightarrow> cg_revoked g'" "br_secret b = br_secret a" by blast
  from grant_step [OF later(2) broker_reach_ok [OF later(1) later(4)] g'(1)] obtain g'' where
    g'': "dict_get (br_grants c) k = Some g''" "g'' = g'\<lparr>cg_revoked := cg_revoked g''\<rparr>"
    "cg_revoked g' \<longrightarrow> cg_revoked g''" "br_secret c = br_secret b" by blast
  have "g'' = g\<lparr>cg_revoked := cg_revoked g''\<rparr>"
    using g'(2) g''(2) by (cases g; cases g'; cases g'') simp
  with g' g'' show ?case by auto
qed

section \<open>Properties\<close>

lemma issue_Inr:
  assumes "issue mac h a c v rnd now b = (b', Inr cap)"
  shows "h = identity_value REMEDIATION \<and> \<not> blank a \<and> \<not> blank c \<and> \<not> blank v \<and>
    b' = fst (register_grant h ARTIFACT_MUTATION a c v rnd b) \<and>
    cap = \<lparr>mc_capability_id = snd (register_grant h ARTIFACT_MUTATION a c v rnd b), mc_holder = h,
      mc_tool = tool_value ARTIFACT_MUTATION, mc_authorized_artifact_ids = {a}, mc_change_id = c,
      mc_source_version = v,
      mc_grant_token = sign mac b (snd (register_grant h ARTIFACT_MUTATION a c v rnd b)) h
        ARTIFACT_MUTATION a c v\<rparr>"
proof (cases "mint_check h (tool_value ARTIFACT_MUTATION) ''artifact_id'' a c v")
  case (Inl r)
  with assms show ?thesis unfolding issue_def Inl by (cases r) simp
next
  case (Inr u)
  then have u: "u = ARTIFACT_MUTATION" and "is_authorized h (tool_value ARTIFACT_MUTATION)"
    and nb: "\<not> blank a \<and> \<not> blank c \<and> \<not> blank v"
    unfolding mint_check_Inr_iff tool_value_inj by auto
  then have "h = identity_value REMEDIATION"
    by (auto simp: is_authorized_iff AUTHORIZATION_POLICY_def simp del: tool_value.simps)
  with assms nb show ?thesis unfolding issue_def Inr u by (simp add: split_beta Let_def)
qed

lemma sign_secret: "br_secret b = br_secret b' \<Longrightarrow> sign mac b = sign mac b'"
  by (simp add: sign_def fun_eq_iff)

text \<open>Only the policy mints authority: a mutation capability is issued exactly to the remediation
  identity with no blank binding; a tool grant exactly to a pair of the policy with no blank
  binding. Every refusal raises, records one more denial, and leaves the registry of grants and the
  count of issued grants as they were.\<close>

theorem minting_exact:
  "((\<exists>b' cap. issue mac h a c v rnd now b = (b', Inr cap)) \<longleftrightarrow>
      h = identity_value REMEDIATION \<and> \<not> blank a \<and> \<not> blank c \<and> \<not> blank v) \<and>
   ((\<exists>b' g. issue_grant mac h t s c v rnd now b = (b', Inr g)) \<longleftrightarrow>
      is_authorized h t \<and> \<not> blank s \<and> \<not> blank c \<and> \<not> blank v) \<and>
   (case issue_grant mac h t s c v rnd now b of
      (b', Inl e) \<Rightarrow>
        br_grants b' = br_grants b \<and> br_issued_count b' = br_issued_count b \<and>
        (\<exists>d. br_denials b' = br_denials b @ [d] \<and> dn_requested_by d = h)
    | (b', Inr g) \<Rightarrow> br_denials b' = br_denials b)"
proof (intro conjI)
  have "\<exists>b' cap. issue mac h a c v rnd now b = (b', Inr cap)"
    if "h = identity_value REMEDIATION" "\<not> blank a" "\<not> blank c" "\<not> blank v"
  proof -
    have "mint_check h (tool_value ARTIFACT_MUTATION) ''artifact_id'' a c v = Inr ARTIFACT_MUTATION"
      using that by (simp only: mint_check_Inr_iff is_authorized_values) (simp add: AUTHORIZATION_POLICY_def)
    then show ?thesis unfolding issue_def by (simp add: split_beta Let_def)
  qed
  then show "(\<exists>b' cap. issue mac h a c v rnd now b = (b', Inr cap)) \<longleftrightarrow>
      h = identity_value REMEDIATION \<and> \<not> blank a \<and> \<not> blank c \<and> \<not> blank v"
    using issue_Inr by metis
next
  show "(\<exists>b' g. issue_grant mac h t s c v rnd now b = (b', Inr g)) \<longleftrightarrow>
      is_authorized h t \<and> \<not> blank s \<and> \<not> blank c \<and> \<not> blank v"
  proof (cases "mint_check h t ''scope_ref'' s c v")
    case (Inl r)
    then have "mint_check h t ''scope_ref'' s c v \<noteq> Inr u" for u by simp
    then have "\<not> (is_authorized h t \<and> \<not> blank s \<and> \<not> blank c \<and> \<not> blank v)"
      unfolding mint_check_Inr_iff by (auto simp: is_authorized_iff)
    with Inl show ?thesis unfolding issue_grant_def by (cases r) simp
  next
    case (Inr u)
    then have "is_authorized h t \<and> \<not> blank s \<and> \<not> blank c \<and> \<not> blank v"
      unfolding mint_check_Inr_iff by blast
    with Inr show ?thesis unfolding issue_grant_def by (simp add: split_beta Let_def)
  qed
next
  show "case issue_grant mac h t s c v rnd now b of
      (b', Inl e) \<Rightarrow>
        br_grants b' = br_grants b \<and> br_issued_count b' = br_issued_count b \<and>
        (\<exists>d. br_denials b' = br_denials b @ [d] \<and> dn_requested_by d = h)
    | (b', Inr g) \<Rightarrow> br_denials b' = br_denials b"
    by (cases "mint_check h t ''scope_ref'' s c v")
      (auto simp: issue_grant_def deny_def register_grant_def Let_def split: prod.splits)
qed

text \<open>C35. The life of a capability: the one that \<open>issue\<close> returns verifies, for the mutation tool and for
  no other, through any later sequence of minting, denials and revocations, for as long as it is
  not itself revoked; once revoked it never verifies again.\<close>

theorem capability_lifecycle:
  assumes "broker_ok b" and "issue mac h a c v rnd now b = (b1, Inr cap)"
    and "broker_reach b1 b2" and "broker_reach (revoke (mc_capability_id cap) b2) b3"
  shows "(verify_for_tool mac b2 cap t \<longleftrightarrow> t = tool_value ARTIFACT_MUTATION \<and>
      (\<exists>g. dict_get (br_grants b2) (mc_capability_id cap) = Some g \<and> \<not> cg_revoked g)) \<and>
    verify_for_tool mac b1 cap (tool_value ARTIFACT_MUTATION) \<and>
    \<not> verify_for_tool mac b3 cap t"
proof -
  let ?k = "snd (register_grant h ARTIFACT_MUTATION a c v rnd b)"
  let ?g = "\<lparr>cg_capability_id = ?k, cg_holder = h, cg_tool = ARTIFACT_MUTATION, cg_scope_ref = a,
      cg_change_id = c, cg_source_version = v, cg_revoked = False\<rparr>"
  note i = issue_Inr [OF assms(2)]
  have g1: "dict_get (br_grants b1) ?k = Some ?g" and s1: "br_secret b1 = br_secret b"
    using i by (simp_all add: register_grants)
  have ok1: "broker_ok b1"
    using broker_ok_step [OF issue_is_step assms(1), of mac h a c v rnd now] assms(2) by simp
  have ok2: "broker_ok b2" by (rule broker_reach_ok [OF assms(3) ok1])
  obtain g2 where g2: "dict_get (br_grants b2) ?k = Some g2" "g2 = ?g\<lparr>cg_revoked := cg_revoked g2\<rparr>"
    and s2: "br_secret b2 = br_secret b1"
    using grant_reach [OF assms(3) ok1 g1] by blast
  have auth: "is_authorized h (tool_value ARTIFACT_MUTATION)"
    using i by (simp add: AUTHORIZATION_POLICY_def del: identity_value.simps tool_value.simps)
  have verify_at: "verify_for_tool mac bx cap t \<longleftrightarrow> t = tool_value ARTIFACT_MUTATION \<and> \<not> cg_revoked gx"
    if "dict_get (br_grants bx) ?k = Some gx" "gx = ?g\<lparr>cg_revoked := cg_revoked gx\<rparr>"
      "br_secret bx = br_secret b" for bx gx t
  proof -
    from that(2) have f: "cg_holder gx = h" "cg_tool gx = ARTIFACT_MUTATION" "cg_scope_ref gx = a"
      "cg_change_id gx = c" "cg_source_version gx = v"
      by (metis capability_grant.select_convs capability_grant.update_convs)+
    show ?thesis
      using i that(1) f auth sign_secret [OF that(3)]
      by (auto simp: verify_for_tool_def verify_def simp del: tool_value.simps)
  qed
  have b1: "verify_for_tool mac b1 cap (tool_value ARTIFACT_MUTATION)"
    using verify_at [OF g1 _ s1] by simp
  have b2: "verify_for_tool mac b2 cap t \<longleftrightarrow> t = tool_value ARTIFACT_MUTATION \<and> \<not> cg_revoked g2" for t
    using verify_at [OF g2] s1 s2 by simp
  have k: "mc_capability_id cap = ?k" using i by simp
  let ?b2 = "revoke (mc_capability_id cap) b2"
  have "dict_get (br_grants ?b2) ?k = Some (g2\<lparr>cg_revoked := True\<rparr>)" and "br_secret ?b2 = br_secret b2"
    using g2(1) k by (simp_all add: revoke_def)
  moreover have "broker_ok ?b2" by (rule broker_ok_step [OF broker_step.revoked ok2])
  ultimately obtain g3 where "dict_get (br_grants b3) ?k = Some g3" and "cg_revoked g3"
    using grant_reach [OF assms(4), of ?k "g2\<lparr>cg_revoked := True\<rparr>"] by auto
  then have "\<not> verify_for_tool mac b3 cap t"
    using k by (simp add: verify_for_tool_def verify_def)
  with b1 b2 k g2(1) show ?thesis by simp
qed

theorem capability_lifecycle_witness:
  "\<exists>b1 cap. issue (\<lambda>s m. s @ m) ''driftzero-remediation'' ''a'' ''chg-1'' ''v8'' ''00'' None
      (new_broker ''key'') = (b1, Inr cap) \<and>
    verify_for_tool (\<lambda>s m. s @ m) b1 cap ''ARTIFACT_MUTATION'' \<and>
    \<not> verify_for_tool (\<lambda>s m. s @ m) (revoke (mc_capability_id cap) b1) cap ''ARTIFACT_MUTATION''"
proof -
  let ?i = "issue (\<lambda>s m. s @ m) ''driftzero-remediation'' ''a'' ''chg-1'' ''v8'' ''00'' None
      (new_broker ''key'')"
  have "\<not> isl (snd ?i)" by code_simp
  then obtain b1 cap where i: "?i = (b1, Inr cap)" by (cases ?i; cases "snd ?i") auto
  from capability_lifecycle [OF new_broker_ok i broker_reach.unchanged broker_reach.unchanged,
      of "tool_value ARTIFACT_MUTATION"]
  have "verify_for_tool (\<lambda>s m. s @ m) b1 cap (tool_value ARTIFACT_MUTATION) \<and>
    \<not> verify_for_tool (\<lambda>s m. s @ m) (revoke (mc_capability_id cap) b1) cap (tool_value ARTIFACT_MUTATION)"
    by blast
  with i show ?thesis by auto
qed

text \<open>A capability's scope is not covered by its token: widening \<open>authorized_artifact_ids\<close> of an
  issued capability (or \<open>scope_refs\<close> of a grant) to any superset leaves verification unchanged, so
  the altered capability still verifies and now names artifacts it was never issued for.\<close>

theorem scope_not_bound:
  assumes "broker_ok b" and "issue mac h a c v rnd now b = (b1, Inr cap)"
  shows "verify_for_tool mac b1 (cap\<lparr>mc_authorized_artifact_ids := insert x {a}\<rparr>) (tool_value ARTIFACT_MUTATION)"
proof -
  note i = issue_Inr [OF assms(2)]
  have "sign mac b1 = sign mac b" by (rule sign_secret) (simp add: i register_grants)
  then show ?thesis
    using i by (simp add: verify_for_tool_def verify_def register_grants AUTHORIZATION_POLICY_def
        del: identity_value.simps tool_value.simps)
qed

theorem scope_not_bound_witness:
  "\<exists>b1 cap. issue (\<lambda>s m. s @ m) ''driftzero-remediation'' ''a'' ''chg-1'' ''v8'' ''00'' None
      (new_broker ''key'') = (b1, Inr cap) \<and>
    verify_for_tool (\<lambda>s m. s @ m) b1
      (cap\<lparr>mc_authorized_artifact_ids := insert ''other'' {''a''}\<rparr>) (tool_value ARTIFACT_MUTATION)"
proof -
  let ?i = "issue (\<lambda>s m. s @ m) ''driftzero-remediation'' ''a'' ''chg-1'' ''v8'' ''00'' None
      (new_broker ''key'')"
  have "\<not> isl (snd ?i)" by code_simp
  then obtain b1 cap where i: "?i = (b1, Inr cap)" by (cases ?i; cases "snd ?i") auto
  from scope_not_bound [OF new_broker_ok i] i show ?thesis by blast
qed

end
