(* ===== verification/Repository.thy ===== *)
theory Repository
  imports Canonical
begin

text \<open>
  The artifact store (\<open>ArtifactRepository\<close> and \<open>InMemoryArtifactRepository\<close> in
  \<open>tools/artifact_mutation.py\<close>). The protocol the mutation tool relies on is a locale over its
  three operations; the in-memory store is modelled with its revision counters and append-only
  snapshots, shown to keep its invariant, and is an instance of the locale.
\<close>

section \<open>Outcomes of a read and a write\<close>

text \<open>A read may raise \<open>RepositoryReadError\<close>; a write may raise \<open>RepositoryWriteError\<close>,
  \<open>UncertainWriteError\<close> when it was sent and its fate is unknown, or any other exception, which no
  caller catches.\<close>

datatype read_outcome = ReadArtifact "downstream_artifact option" | ReadError

datatype write_outcome = Written downstream_artifact | WriteError | UncertainWrite | WriteRaised exn

section \<open>The in-memory store\<close>

record repository =
  rp_artifacts :: "(str, downstream_artifact) dict"
  rp_revision :: "(str, nat) dict"
  rp_snapshots :: "(str, downstream_artifact) dict"
  rp_dispatch_count :: nat
  rp_read_count :: nat

definition new_repository :: "(str, downstream_artifact) dict \<Rightarrow> repository" where
  "new_repository artifacts =
     \<lparr>rp_artifacts = artifacts, rp_revision = [],
      rp_snapshots = dict_merge [] (map (\<lambda>(_, a). (da_content_ref a, a)) artifacts),
      rp_dispatch_count = 0, rp_read_count = 0\<rparr>"

definition repo_read :: "str \<Rightarrow> repository \<Rightarrow> repository \<times> read_outcome" where
  "repo_read artifact_id r =
     (r\<lparr>rp_read_count := rp_read_count r + 1\<rparr>, ReadArtifact (dict_get (rp_artifacts r) artifact_id))"

definition repo_resolve :: "str \<Rightarrow> repository \<Rightarrow> downstream_artifact option" where
  "repo_resolve content_ref r = dict_get (rp_snapshots r) content_ref"

definition snapshot_refs :: "repository \<Rightarrow> str list" where
  "snapshot_refs r = dict_keys (rp_snapshots r)"

text \<open>\<open>content_ref.split("#v")[0]\<close>\<close>

fun base_ref :: "str \<Rightarrow> str" where
  "base_ref [] = []"
| "base_ref [c] = [c]"
| "base_ref (c # d # s) = (if c = CHR ''#'' \<and> d = CHR ''v'' then [] else c # base_ref (d # s))"

definition revision_of :: "repository \<Rightarrow> str \<Rightarrow> nat" where
  "revision_of r artifact_id =
     (case dict_get (rp_revision r) artifact_id of None \<Rightarrow> 1 | Some n \<Rightarrow> n)"

definition mutated_artifact :: "downstream_artifact \<Rightarrow> str \<Rightarrow> str \<Rightarrow> nat \<Rightarrow> downstream_artifact" where
  "mutated_artifact artifact requirement_id new_value revision =
     artifact\<lparr>da_requirements := dict_put requirement_id new_value (da_requirements artifact),
              da_content_ref := base_ref (da_content_ref artifact) @ ''#v'' @ show_nat revision,
              da_current_value :=
                (if requirement_id = da_requirement_id artifact then new_value
                 else da_current_value artifact)\<rparr>"

text \<open>Compare-and-set. The revision counter is advanced before the snapshot check, so a refused
  overwrite leaves the counter advanced and everything else as it was.\<close>

definition apply_requirement ::
  "str \<Rightarrow> str \<Rightarrow> str \<Rightarrow> str \<Rightarrow> repository \<Rightarrow> repository \<times> write_outcome" where
  "apply_requirement artifact_id requirement_id expected_before new_value r =
     (case dict_get (rp_artifacts r) artifact_id of
        None \<Rightarrow> (r, WriteError)
      | Some artifact \<Rightarrow>
          if dict_get (da_requirements artifact) requirement_id \<noteq> Some expected_before then
            (r, WriteError)
          else
            let revision = revision_of r artifact_id + 1;
                r1 = r\<lparr>rp_revision := dict_put artifact_id revision (rp_revision r)\<rparr>;
                mutated = mutated_artifact artifact requirement_id new_value revision
            in if dict_get (rp_snapshots r) (da_content_ref mutated) \<noteq> None then (r1, WriteError)
               else (r1\<lparr>rp_artifacts := dict_put artifact_id mutated (rp_artifacts r1),
                        rp_snapshots := dict_put (da_content_ref mutated) mutated (rp_snapshots r1),
                        rp_dispatch_count := rp_dispatch_count r1 + 1\<rparr>,
                     Written mutated))"

definition artifact_content_hash :: "(str \<Rightarrow> str) \<Rightarrow> downstream_artifact \<Rightarrow> str" where
  "artifact_content_hash H artifact = canonical_hash H (dump_string_dict (da_requirements artifact))"

section \<open>The protocol\<close>

text \<open>
  What the mutation tool relies on: \<open>look\<close> is the artifact a read would return and \<open>resolve\<close> the
  snapshot stored under a reference. A read changes neither. A write that reports success
  changed exactly the one requirement of the one artifact, conditionally on its previous value,
  and kept every earlier snapshot; a write that reports failure changed nothing; of an uncertain
  one, or one that ends in another exception, only the invariant is known.
\<close>

definition one_requirement_changed ::
  "downstream_artifact \<Rightarrow> str \<Rightarrow> str \<Rightarrow> str \<Rightarrow> downstream_artifact \<Rightarrow> bool" where
  "one_requirement_changed a q old new m \<longleftrightarrow>
     dict_get (da_requirements a) q = Some old \<and>
     da_requirements m = dict_put q new (da_requirements a) \<and>
     da_current_value m = (if q = da_requirement_id a then new else da_current_value a) \<and>
     da_content_ref m \<noteq> da_content_ref a \<and> da_content_ref m \<noteq> [] \<and>
     a\<lparr>da_requirements := [], da_current_value := [], da_content_ref := []\<rparr> =
       m\<lparr>da_requirements := [], da_current_value := [], da_content_ref := []\<rparr>"

lemma changed_requirement_id:
  "one_requirement_changed a q old new m \<Longrightarrow> da_requirement_id m = da_requirement_id a"
  unfolding one_requirement_changed_def
  by (metis downstream_artifact.select_convs(4) downstream_artifact.surjective
      downstream_artifact.update_convs(5,6,8))

locale artifact_repository =
  fixes inv :: "'r \<Rightarrow> bool"
    and look :: "str \<Rightarrow> 'r \<Rightarrow> downstream_artifact option"
    and resolve :: "str \<Rightarrow> 'r \<Rightarrow> downstream_artifact option"
    and read :: "str \<Rightarrow> 'r \<Rightarrow> 'r \<times> read_outcome"
    and apply_req :: "str \<Rightarrow> str \<Rightarrow> str \<Rightarrow> str \<Rightarrow> 'r \<Rightarrow> 'r \<times> write_outcome"
  assumes read_frame: "inv r \<Longrightarrow> read i r = (r', out) \<Longrightarrow>
      inv r' \<and> (\<forall>j. look j r' = look j r) \<and> (\<forall>c. resolve c r' = resolve c r) \<and>
      (\<forall>oa. out = ReadArtifact oa \<longrightarrow> oa = look i r)"
    and look_resolves: "inv r \<Longrightarrow> look i r = Some a \<Longrightarrow>
      resolve (da_content_ref a) r = Some a \<and> da_artifact_id a = i"
    and apply_inv: "inv r \<Longrightarrow> apply_req i q old new r = (r', wo) \<Longrightarrow> inv r'"
    and apply_written: "inv r \<Longrightarrow> apply_req i q old new r = (r', Written m) \<Longrightarrow>
      \<exists>a. look i r = Some a \<and> one_requirement_changed a q old new m \<and> look i r' = Some m \<and>
        (\<forall>j. j \<noteq> i \<longrightarrow> look j r' = look j r) \<and>
        (\<forall>c b. resolve c r = Some b \<longrightarrow> resolve c r' = Some b)"
    and apply_failed: "inv r \<Longrightarrow> apply_req i q old new r = (r', WriteError) \<Longrightarrow>
      (\<forall>j. look j r' = look j r) \<and> (\<forall>c. resolve c r' = resolve c r)"
begin

text \<open>After a successful write both states can be fetched, and the new one is the artifact's.\<close>

lemma written_both_states:
  assumes "inv r" and "apply_req i q old new r = (r', Written m)" and "look i r = Some a"
  shows "resolve (da_content_ref a) r' = Some a" and "resolve (da_content_ref m) r' = Some m"
    and "da_content_ref a \<noteq> da_content_ref m" and "one_requirement_changed a q old new m"
proof -
  from apply_written [OF assms(1,2)] assms(3) have
    ch: "one_requirement_changed a q old new m" and l: "look i r' = Some m" and
    keep: "\<forall>c b. resolve c r = Some b \<longrightarrow> resolve c r' = Some b" by auto
  show "resolve (da_content_ref a) r' = Some a"
    using keep look_resolves [OF assms(1,3)] by blast
  show "resolve (da_content_ref m) r' = Some m"
    using look_resolves [OF apply_inv [OF assms(1,2)] l] by blast
  show "da_content_ref a \<noteq> da_content_ref m" and "one_requirement_changed a q old new m"
    using ch by (auto simp: one_requirement_changed_def)
qed

end

section \<open>The in-memory store keeps its invariant and is such a repository\<close>

text \<open>Every artifact is stored under its own id with its snapshot present and a non-empty
  reference, and no artifact's snapshot slot belongs to two artifacts.\<close>

definition repo_ok :: "repository \<Rightarrow> bool" where
  "repo_ok r \<longleftrightarrow>
     (\<forall>i a. dict_get (rp_artifacts r) i = Some a \<longrightarrow>
        da_artifact_id a = i \<and> dict_get (rp_snapshots r) (da_content_ref a) = Some a)"

lemma mutated_changes:
  assumes "dict_get (da_requirements a) q = Some old"
    and "da_content_ref (mutated_artifact a q new n) \<noteq> da_content_ref a"
  shows "one_requirement_changed a q old new (mutated_artifact a q new n)"
  using assms by (simp add: one_requirement_changed_def mutated_artifact_def)

lemma apply_requirement_Written:
  assumes "apply_requirement i q old new r = (r', Written m)"
  shows "\<exists>a. dict_get (rp_artifacts r) i = Some a \<and> dict_get (da_requirements a) q = Some old \<and>
    m = mutated_artifact a q new (revision_of r i + 1) \<and>
    dict_get (rp_snapshots r) (da_content_ref m) = None \<and>
    rp_artifacts r' = dict_put i m (rp_artifacts r) \<and>
    rp_snapshots r' = dict_put (da_content_ref m) m (rp_snapshots r) \<and>
    rp_dispatch_count r' = rp_dispatch_count r + 1"
  using assms by (auto simp: apply_requirement_def Let_def split: option.splits if_splits)

lemma apply_requirement_failed:
  assumes "apply_requirement i q old new r = (r', out)" and "\<forall>m. out \<noteq> Written m"
  shows "out = WriteError \<and> rp_artifacts r' = rp_artifacts r \<and> rp_snapshots r' = rp_snapshots r \<and>
    rp_dispatch_count r' = rp_dispatch_count r"
  using assms by (auto simp: apply_requirement_def Let_def split: option.splits if_splits)

lemma apply_requirement_ok:
  assumes "repo_ok r" and "apply_requirement i q old new r = (r', out)"
  shows "repo_ok r'"
proof (cases "\<exists>m. out = Written m")
  case True
  then obtain m where "apply_requirement i q old new r = (r', Written m)" using assms(2) by blast
  from apply_requirement_Written [OF this] obtain a where a: "dict_get (rp_artifacts r) i = Some a"
    "m = mutated_artifact a q new (revision_of r i + 1)"
    "dict_get (rp_snapshots r) (da_content_ref m) = None"
    "rp_artifacts r' = dict_put i m (rp_artifacts r)"
    "rp_snapshots r' = dict_put (da_content_ref m) m (rp_snapshots r)" by blast
  have "da_artifact_id m = i" using assms(1) a(1,2) by (simp add: repo_ok_def mutated_artifact_def)
  with assms(1) a(3) show ?thesis
    unfolding repo_ok_def a(4,5) dict_get_put by (metis option.distinct(1) option.inject)
next
  case False
  with apply_requirement_failed [OF assms(2)] assms(1) show ?thesis by (simp add: repo_ok_def)
qed

interpretation mem: artifact_repository repo_ok "\<lambda>i r. dict_get (rp_artifacts r) i" repo_resolve
  repo_read apply_requirement
proof unfold_locales
  fix r r' :: repository and i out
  assume "repo_ok r" and "repo_read i r = (r', out)"
  then show "repo_ok r' \<and> (\<forall>j. dict_get (rp_artifacts r') j = dict_get (rp_artifacts r) j) \<and>
      (\<forall>c. repo_resolve c r' = repo_resolve c r) \<and>
      (\<forall>oa. out = ReadArtifact oa \<longrightarrow> oa = dict_get (rp_artifacts r) i)"
    by (auto simp: repo_read_def repo_ok_def repo_resolve_def)
next
  fix r i a
  assume "repo_ok r" and "dict_get (rp_artifacts r) i = Some a"
  then show "repo_resolve (da_content_ref a) r = Some a \<and> da_artifact_id a = i"
    by (simp add: repo_ok_def repo_resolve_def)
next
  fix r i q old new r' out
  assume "repo_ok r" and "apply_requirement i q old new r = (r', out)"
  then show "repo_ok r'" by (rule apply_requirement_ok)
next
  fix r i q old new r' m
  assume ok: "repo_ok r" and ap: "apply_requirement i q old new r = (r', Written m)"
  from apply_requirement_Written [OF ap] obtain a where a: "dict_get (rp_artifacts r) i = Some a"
    "dict_get (da_requirements a) q = Some old"
    "m = mutated_artifact a q new (revision_of r i + 1)"
    "dict_get (rp_snapshots r) (da_content_ref m) = None"
    "rp_artifacts r' = dict_put i m (rp_artifacts r)"
    "rp_snapshots r' = dict_put (da_content_ref m) m (rp_snapshots r)" by blast
  have "da_content_ref m \<noteq> da_content_ref a" using ok a(1,4) by (auto simp: repo_ok_def)
  with mutated_changes [OF a(2)] a(3) have "one_requirement_changed a q old new m" by blast
  with a(1,4,5,6) show "\<exists>a. dict_get (rp_artifacts r) i = Some a \<and> one_requirement_changed a q old new m \<and>
      dict_get (rp_artifacts r') i = Some m \<and>
      (\<forall>j. j \<noteq> i \<longrightarrow> dict_get (rp_artifacts r') j = dict_get (rp_artifacts r) j) \<and>
      (\<forall>c b. repo_resolve c r = Some b \<longrightarrow> repo_resolve c r' = Some b)"
    by (auto simp: repo_resolve_def)
next
  fix r i q old new r'
  assume "repo_ok r" and "apply_requirement i q old new r = (r', WriteError)"
  with apply_requirement_failed [of i q old new r r' WriteError] show
    "(\<forall>j. dict_get (rp_artifacts r') j = dict_get (rp_artifacts r) j) \<and>
     (\<forall>c. repo_resolve c r' = repo_resolve c r)"
    by (simp add: repo_resolve_def)
qed

end
