(* ===== verification/Mutation_Tool.thy ===== *)
theory Mutation_Tool
  imports Actions Autonomy Validation Capabilities Repository
begin

text \<open>
  The artifact mutation tool (\<open>apply_authorized_artifact_patch\<close> and its helpers in
  \<open>tools/artifact_mutation.py\<close>), the program's only write. The repository is whatever implements
  the protocol: its \<open>read\<close> and \<open>apply_requirement\<close> are arguments of the definitions, and the
  lemmas are proved in the locale \<open>artifact_repository\<close> and transferred to the in-memory store.
  The numbered sections of the function are one definition each. \<open>clk n\<close> is the clock's \<open>n\<close>-th
  reading within one invocation. The free-text \<open>detail\<close> of a result is not modelled.
\<close>

section \<open>Requests, context and results\<close>

definition TOOL_IDENTITY :: str where
  "TOOL_IDENTITY = ''driftzero.tools.artifact_mutation''"

definition TOOL_CAPABILITY :: str where
  "TOOL_CAPABILITY = ''ARTIFACT_MUTATION''"

datatype mutation_outcome =
    MUTATED | NO_OP | MUTATION_ALREADY_COMPLETED | MUTATION_RECONCILED | REJECTED

datatype mutation_rejection =
    CAPABILITY_MISSING | CAPABILITY_NOT_ISSUED | CAPABILITY_WRONG_TOOL
  | CAPABILITY_SCOPE_VIOLATION | CAPABILITY_CONTEXT_MISMATCH | MALFORMED_REQUEST
  | ARTIFACT_NOT_FOUND | ARTIFACT_NOT_AUTHORIZED | REQUIREMENT_NOT_FOUND
  | REQUIREMENT_AMBIGUOUS | BEFORE_STATE_MISMATCH | BEFORE_HASH_MISMATCH
  | REPOSITORY_READ_FAILURE | DISPATCH_FAILURE | POST_DISPATCH_UNCERTAIN
  | ACTION_PAYLOAD_CONFLICT | RECONCILIATION_FAILED

record patch_request =
  rq_action_id :: str
  rq_artifact_id :: str
  rq_requirement_id :: str
  rq_expected_before_value :: str
  rq_expected_before_hash :: str
  rq_new_value :: str
  rq_source_procedure_id :: str
  rq_source_version :: str
  rq_change_id :: str
  rq_correlation_id :: str

record tool_context =
  tc_capability :: "mutation_capability option"
  tc_verifier :: "mutation_capability \<Rightarrow> bool"
  tc_workflow_id :: str
  tc_change :: approved_change
  tc_source_version_applicable :: bool
  tc_data_classification :: data_classification

record mutation_result =
  mr_outcome :: mutation_outcome
  mr_evidence :: "remediation_evidence option"
  mr_rejection :: "mutation_rejection option"
  mr_action_status :: "action_status option"
  mr_dispatched :: bool
  mr_blockers :: "reconciliation_blocker list"
  mr_receipt_ref :: "str option"

definition tool_reject ::
  "mutation_rejection \<Rightarrow> action_status option \<Rightarrow> bool \<Rightarrow> reconciliation_blocker list \<Rightarrow>
     mutation_result" where
  "tool_reject reason status dispatched blockers =
     \<lparr>mr_outcome = REJECTED, mr_evidence = None, mr_rejection = Some reason,
      mr_action_status = status, mr_dispatched = dispatched, mr_blockers = blockers,
      mr_receipt_ref = None\<rparr>"

section \<open>Authentication and request structure (1, 2)\<close>

definition request_fields :: "patch_request \<Rightarrow> str list" where
  "request_fields rq =
     [rq_action_id rq, rq_artifact_id rq, rq_requirement_id rq, rq_expected_before_value rq,
      rq_expected_before_hash rq, rq_new_value rq, rq_source_procedure_id rq,
      rq_source_version rq, rq_change_id rq, rq_correlation_id rq]"

definition precheck :: "tool_context \<Rightarrow> patch_request \<Rightarrow> mutation_rejection option" where
  "precheck ctx rq =
     (case tc_capability ctx of
        None \<Rightarrow> Some CAPABILITY_MISSING
      | Some cap \<Rightarrow>
          if mc_tool cap \<noteq> TOOL_CAPABILITY then Some CAPABILITY_WRONG_TOOL
          else if \<not> tc_verifier ctx cap then Some CAPABILITY_NOT_ISSUED
          else if rq_artifact_id rq \<notin> mc_authorized_artifact_ids cap
          then Some CAPABILITY_SCOPE_VIOLATION
          else if mc_change_id cap \<noteq> rq_change_id rq \<or> mc_source_version cap \<noteq> rq_source_version rq
          then Some CAPABILITY_CONTEXT_MISMATCH
          else if list_ex blank (request_fields rq) then Some MALFORMED_REQUEST
          else if rq_expected_before_value rq = rq_new_value rq then Some MALFORMED_REQUEST
          else if rq_change_id rq \<noteq> ac_change_id (tc_change ctx) \<or>
                  rq_source_version rq \<noteq> ac_source_version (tc_change ctx)
          then Some CAPABILITY_CONTEXT_MISMATCH
          else None)"

section \<open>Helpers (3, 4, 5, 8)\<close>

definition intent_conflict :: "(str, str) dict \<Rightarrow> str \<Rightarrow> str \<Rightarrow> str \<Rightarrow> bool" where
  "intent_conflict intent artifact_id expected_before new_value \<longleftrightarrow>
     list_ex (\<lambda>(k, v). dict_get intent k \<noteq> None \<and> dict_get intent k \<noteq> Some v)
       [(''artifact_id'', artifact_id), (''expected_before_value'', expected_before),
        (''expected_after_value'', new_value)]"

definition replay_completed :: "str \<Rightarrow> ledger \<Rightarrow> mutation_result res" where
  "replay_completed action_id l =
     res_bind (ledger_require l action_id)
       (\<lambda>r. Inr \<lparr>mr_outcome = MUTATION_ALREADY_COMPLETED, mr_evidence = None, mr_rejection = None,
                 mr_action_status = Some (ax_status r), mr_dispatched = False, mr_blockers = [],
                 mr_receipt_ref = ax_receipt_ref r\<rparr>)"

definition no_op_result ::
  "downstream_artifact \<Rightarrow> str \<Rightarrow> str \<Rightarrow> str \<Rightarrow> str \<Rightarrow> data_classification \<Rightarrow> mutation_result res"
where
  "no_op_result artifact requirement_id observed expected evaluated_hash classification =
     (let e = \<lparr>ne_artifact_id = da_artifact_id artifact,
               ne_evaluated_artifact_ref = da_content_ref artifact,
               ne_evaluated_artifact_hash = evaluated_hash,
               ne_observed_value = observed, ne_expected_value = expected,
               ne_no_op_reason =
                 ''artifact already represented the approved value before any mutation'',
               ne_compliance_basis = ''requirements['' @ requirement_id @ '']'',
               ne_data_classification = classification\<rparr>
      in res_bind (validated valid_no_op_evidence e)
           (\<lambda>e. Inr \<lparr>mr_outcome = NO_OP, mr_evidence = Some (NoOpEvidence e), mr_rejection = None,
                     mr_action_status = None, mr_dispatched = False, mr_blockers = [],
                     mr_receipt_ref = None\<rparr>))"

text \<open>The ledger part of \<open>_reconcile\<close>, after the artifact has been read.\<close>

definition tool_reconcile ::
  "(str \<Rightarrow> str) \<Rightarrow> tool_context \<Rightarrow> (nat \<Rightarrow> datetime) \<Rightarrow> str \<Rightarrow> downstream_artifact \<Rightarrow> ledger \<Rightarrow>
     ledger \<times> mutation_result res" where
  "tool_reconcile H ctx clk action_id artifact l =
     (case reconcile_mutation action_id artifact (artifact_content_hash H artifact)
             (da_content_ref artifact) (tc_change ctx) (tc_source_version_applicable ctx) (clk 0)
             (tc_data_classification ctx) l of
        Inl e \<Rightarrow> (l, Inl e)
      | Inr (l', result) \<Rightarrow>
          (case rr_outcome result of
             RECONCILED_MUTATION \<Rightarrow>
               (l', Inr \<lparr>mr_outcome = MUTATION_RECONCILED,
                         mr_evidence = map_option MutationEvidence (rr_evidence result),
                         mr_rejection = None, mr_action_status = Some AS_COMPLETED,
                         mr_dispatched = False, mr_blockers = [], mr_receipt_ref = None\<rparr>)
           | RECONCILIATION_ALREADY_COMPLETED \<Rightarrow> (l', replay_completed action_id l')
           | FAIL_CLOSED \<Rightarrow>
               (case mark_failed_or_uncertain action_id (clk 1) l' of
                  Inl e \<Rightarrow> (l', Inl e)
                | Inr (l'', _) \<Rightarrow>
                    (l'', Inr (tool_reject RECONCILIATION_FAILED (Some AS_FAILED_OR_UNCERTAIN) False
                       (rr_blockers result))))))"

section \<open>Resolving the requirement (7, 8, 9)\<close>

text \<open>\<open>Inl\<close> a final result, \<open>Inr\<close> the before-hash when a dispatch is due.\<close>

definition resolve_requirement ::
  "(str \<Rightarrow> str) \<Rightarrow> tool_context \<Rightarrow> patch_request \<Rightarrow> downstream_artifact \<Rightarrow> ledger \<Rightarrow>
     mutation_result res + str" where
  "resolve_requirement H ctx rq artifact l =
     (let record_status = map_option ax_status (ledger_get l (rq_action_id rq))
      in if \<not> da_authorized_for_remediation artifact then
           Inl (Inr (tool_reject ARTIFACT_NOT_AUTHORIZED None False []))
         else (case dict_get (da_requirements artifact) (rq_requirement_id rq) of
           None \<Rightarrow> Inl (Inr (tool_reject REQUIREMENT_NOT_FOUND None False []))
         | Some observed \<Rightarrow>
             if rq_requirement_id rq = da_requirement_id artifact \<and>
                da_current_value artifact \<noteq> observed then
               Inl (Inr (tool_reject REQUIREMENT_AMBIGUOUS None False []))
             else
               let before_hash = artifact_content_hash H artifact
               in if observed = rq_new_value rq then
                    (if no_op_admissible l (rq_action_id rq) then
                       Inl (no_op_result artifact (rq_requirement_id rq) observed (rq_new_value rq)
                              before_hash (tc_data_classification ctx))
                     else Inl (Inr (tool_reject ACTION_PAYLOAD_CONFLICT record_status False [])))
                  else if observed \<noteq> rq_expected_before_value rq then
                    Inl (Inr (tool_reject BEFORE_STATE_MISMATCH None False []))
                  else if before_hash \<noteq> rq_expected_before_hash rq then
                    Inl (Inr (tool_reject BEFORE_HASH_MISMATCH None False []))
                  else Inr before_hash))"

section \<open>Dispatch (10)\<close>

definition mutation_evidence_of ::
  "(str \<Rightarrow> str) \<Rightarrow> tool_context \<Rightarrow> patch_request \<Rightarrow> downstream_artifact \<Rightarrow> str \<Rightarrow>
     downstream_artifact \<Rightarrow> mutation_evidence" where
  "mutation_evidence_of H ctx rq artifact before_hash mutated =
     \<lparr>me_artifact_id = rq_artifact_id rq, me_before_ref = da_content_ref artifact,
      me_after_ref = da_content_ref mutated, me_before_hash = before_hash,
      me_after_hash = artifact_content_hash H mutated,
      me_before_value = rq_expected_before_value rq, me_after_value = rq_new_value rq,
      me_patch_description =
        rq_requirement_id rq @ '': '' @ rq_expected_before_value rq @ '' -> '' @
        rq_new_value rq @ '' on '' @ rq_artifact_id rq,
      me_reconciled = False, me_action_id = rq_action_id rq,
      me_data_classification = tc_data_classification ctx\<rparr>"

definition plan_and_attempt ::
  "tool_context \<Rightarrow> datetime \<Rightarrow> patch_request \<Rightarrow> downstream_artifact \<Rightarrow> str \<Rightarrow> ledger \<Rightarrow> ledger \<times> unit res"
where
  "plan_and_attempt ctx now rq artifact before_hash l =
     (let planned =
        (case ledger_get l (rq_action_id rq) of
           Some _ \<Rightarrow> Inr l
         | None \<Rightarrow> res_bind
             (plan (rq_action_id rq) (tc_workflow_id ctx) REMEDIATE_ARTIFACT (rq_artifact_id rq)
                (build_remediation_intent (tc_change ctx) artifact before_hash) now l)
             (\<lambda>(l', _). Inr l'))
      in case planned of
           Inl e \<Rightarrow> (l, Inl e)
         | Inr l1 \<Rightarrow>
             (case mark_attempted (rq_action_id rq) now l1 of
                Inl e \<Rightarrow> (l1, Inl e)
              | Inr (l2, _) \<Rightarrow> (l2, Inr ())))"

definition mark_failure ::
  "mutation_rejection \<Rightarrow> bool \<Rightarrow> datetime \<Rightarrow> str \<Rightarrow> ledger \<Rightarrow> ledger \<times> mutation_result res" where
  "mark_failure reason dispatched now action_id l =
     (case mark_failed_or_uncertain action_id now l of
        Inl e \<Rightarrow> (l, Inl e)
      | Inr (l', _) \<Rightarrow>
          (l', Inr (tool_reject reason (Some AS_FAILED_OR_UNCERTAIN) dispatched [])))"

definition record_success ::
  "(str \<Rightarrow> str) \<Rightarrow> tool_context \<Rightarrow> datetime \<Rightarrow> patch_request \<Rightarrow> downstream_artifact \<Rightarrow> str \<Rightarrow>
     downstream_artifact \<Rightarrow> ledger \<Rightarrow> ledger \<times> mutation_result res" where
  "record_success H ctx now rq artifact before_hash mutated l =
     (let receipt = TOOL_IDENTITY @ '':'' @ rq_action_id rq @ '':'' @ rq_correlation_id rq
      in case validated valid_mutation_evidence
                (mutation_evidence_of H ctx rq artifact before_hash mutated) of
           Inl e \<Rightarrow> (l, Inl e)
         | Inr evidence \<Rightarrow>
             (case mark_completed (rq_action_id rq) now (Some receipt)
                     (Some (da_content_ref mutated)) False l of
                Inl e \<Rightarrow> (l, Inl e)
              | Inr (l', completed) \<Rightarrow>
                  (l', Inr \<lparr>mr_outcome = MUTATED, mr_evidence = Some (MutationEvidence evidence),
                            mr_rejection = None, mr_action_status = Some (ax_status completed),
                            mr_dispatched = True, mr_blockers = [],
                            mr_receipt_ref = Some receipt\<rparr>)))"

type_synonym 'r writer = "str \<Rightarrow> str \<Rightarrow> str \<Rightarrow> str \<Rightarrow> 'r \<Rightarrow> 'r \<times> write_outcome"
type_synonym 'r reader = "str \<Rightarrow> 'r \<Rightarrow> 'r \<times> read_outcome"

definition dispatch ::
  "(str \<Rightarrow> str) \<Rightarrow> 'r writer \<Rightarrow> tool_context \<Rightarrow> (nat \<Rightarrow> datetime) \<Rightarrow> patch_request \<Rightarrow>
     downstream_artifact \<Rightarrow> str \<Rightarrow> ledger \<times> 'r \<Rightarrow> (ledger \<times> 'r) \<times> mutation_result res" where
  "dispatch H apply_req ctx clk rq artifact before_hash s =
     (let (l, r) = s
      in case plan_and_attempt ctx (clk 0) rq artifact before_hash l of
           (l1, Inl e) \<Rightarrow> ((l1, r), Inl e)
         | (l1, Inr _) \<Rightarrow>
             (let (r', out) = apply_req (rq_artifact_id rq) (rq_requirement_id rq)
                    (rq_expected_before_value rq) (rq_new_value rq) r;
                  (l2, result) =
                    (case out of
                       UncertainWrite \<Rightarrow>
                         mark_failure POST_DISPATCH_UNCERTAIN True (clk 1) (rq_action_id rq) l1
                     | WriteError \<Rightarrow>
                         mark_failure DISPATCH_FAILURE False (clk 1) (rq_action_id rq) l1
                     | WriteRaised e \<Rightarrow> (l1, Inl e)
                     | Written mutated \<Rightarrow>
                         record_success H ctx (clk 1) rq artifact before_hash mutated l1)
              in ((l2, r'), result)))"

section \<open>The tool\<close>

definition apply_authorized_artifact_patch ::
  "(str \<Rightarrow> str) \<Rightarrow> 'r reader \<Rightarrow> 'r writer \<Rightarrow> tool_context \<Rightarrow> (nat \<Rightarrow> datetime) \<Rightarrow> patch_request \<Rightarrow>
     ledger \<times> 'r \<Rightarrow> (ledger \<times> 'r) \<times> mutation_result res" where
  "apply_authorized_artifact_patch H read apply_req ctx clk rq s =
     (let (l, r) = s
      in case precheck ctx rq of
           Some reason \<Rightarrow> (s, Inr (tool_reject reason None False []))
         | None \<Rightarrow>
             if (case ledger_get l (rq_action_id rq) of
                   None \<Rightarrow> False
                 | Some rec \<Rightarrow> intent_conflict (ax_intent rec) (rq_artifact_id rq)
                                (rq_expected_before_value rq) (rq_new_value rq)) then
               (s, Inr (tool_reject ACTION_PAYLOAD_CONFLICT
                          (map_option ax_status (ledger_get l (rq_action_id rq))) False []))
             else
               (case decide_retry l (rq_action_id rq) of
                  RETRY_ALREADY_COMPLETED \<Rightarrow> (s, replay_completed (rq_action_id rq) l)
                | RECONCILIATION_REQUIRED \<Rightarrow>
                    (case read (rq_artifact_id rq) r of
                       (r', ReadError) \<Rightarrow>
                         ((l, r'), Inr (tool_reject REPOSITORY_READ_FAILURE
                                          (Some AS_FAILED_OR_UNCERTAIN) False []))
                     | (r', ReadArtifact None) \<Rightarrow>
                         ((l, r'), Inr (tool_reject ARTIFACT_NOT_FOUND
                                          (Some AS_FAILED_OR_UNCERTAIN) False []))
                     | (r', ReadArtifact (Some artifact)) \<Rightarrow>
                         (let (l', result) = tool_reconcile H ctx clk (rq_action_id rq) artifact l
                          in ((l', r'), result)))
                | SAFE_TO_EXECUTE \<Rightarrow>
                    (case read (rq_artifact_id rq) r of
                       (r', ReadError) \<Rightarrow>
                         ((l, r'), Inr (tool_reject REPOSITORY_READ_FAILURE None False []))
                     | (r', ReadArtifact None) \<Rightarrow>
                         ((l, r'), Inr (tool_reject ARTIFACT_NOT_FOUND None False []))
                     | (r', ReadArtifact (Some artifact)) \<Rightarrow>
                         (case resolve_requirement H ctx rq artifact l of
                            Inl result \<Rightarrow> ((l, r'), result)
                          | Inr before_hash \<Rightarrow>
                              dispatch H apply_req ctx clk rq artifact before_hash (l, r')))))"

section \<open>Case analysis of one invocation\<close>

lemma tool_cases:
  assumes "apply_authorized_artifact_patch H read apply_req ctx clk rq (l, r) = ((l', r'), res)"
  obtains (refused) reason st where "l' = l" "r' = r" "res = Inr (tool_reject reason st False [])"
  | (replayed) "precheck ctx rq = None" "decide_retry l (rq_action_id rq) = RETRY_ALREADY_COMPLETED"
      "l' = l" "r' = r" "res = replay_completed (rq_action_id rq) l"
  | (unread) out reason st where "read (rq_artifact_id rq) r = (r', out)" "l' = l"
      "res = Inr (tool_reject reason st False [])"
  | (reconciled) artifact where "precheck ctx rq = None"
      "decide_retry l (rq_action_id rq) = RECONCILIATION_REQUIRED"
      "read (rq_artifact_id rq) r = (r', ReadArtifact (Some artifact))"
      "tool_reconcile H ctx clk (rq_action_id rq) artifact l = (l', res)"
  | (resolved) artifact where "precheck ctx rq = None"
      "decide_retry l (rq_action_id rq) = SAFE_TO_EXECUTE"
      "read (rq_artifact_id rq) r = (r', ReadArtifact (Some artifact))"
      "resolve_requirement H ctx rq artifact l = Inl res" "l' = l"
  | (dispatched) artifact before_hash r1 where "precheck ctx rq = None"
      "decide_retry l (rq_action_id rq) = SAFE_TO_EXECUTE"
      "read (rq_artifact_id rq) r = (r1, ReadArtifact (Some artifact))"
      "resolve_requirement H ctx rq artifact l = Inr before_hash"
      "dispatch H apply_req ctx clk rq artifact before_hash (l, r1) = ((l', r'), res)"
proof (cases "precheck ctx rq")
  case (Some reason)
  with assms show ?thesis by (intro refused) (auto simp: apply_authorized_artifact_patch_def)
next
  case pre: None
  show ?thesis
  proof (cases "case ledger_get l (rq_action_id rq) of None \<Rightarrow> False
      | Some rec \<Rightarrow> intent_conflict (ax_intent rec) (rq_artifact_id rq)
          (rq_expected_before_value rq) (rq_new_value rq)")
    case True
    with assms pre show ?thesis by (intro refused) (auto simp: apply_authorized_artifact_patch_def)
  next
    case False
    note run = assms [unfolded apply_authorized_artifact_patch_def Let_def prod.case pre option.case
        if_not_P [OF False]]
    show ?thesis
    proof (cases "decide_retry l (rq_action_id rq)")
      case RETRY_ALREADY_COMPLETED
      with run pre show ?thesis by (intro replayed) auto
    next
      case RECONCILIATION_REQUIRED
      obtain r1 out where rd: "read (rq_artifact_id rq) r = (r1, out)" by (cases "read (rq_artifact_id rq) r")
      show ?thesis
      proof (cases out)
        case ReadError
        with run rd RECONCILIATION_REQUIRED show ?thesis by (intro unread) auto
      next
        case (ReadArtifact oa)
        show ?thesis
        proof (cases oa)
          case None
          with run rd RECONCILIATION_REQUIRED ReadArtifact show ?thesis by (intro unread) auto
        next
          case (Some artifact)
          obtain l1 res1 where "tool_reconcile H ctx clk (rq_action_id rq) artifact l = (l1, res1)"
            by (cases "tool_reconcile H ctx clk (rq_action_id rq) artifact l")
          with run rd RECONCILIATION_REQUIRED ReadArtifact Some pre show ?thesis
            by (intro reconciled [of artifact]) auto
        qed
      qed
    next
      case SAFE_TO_EXECUTE
      obtain r1 out where rd: "read (rq_artifact_id rq) r = (r1, out)" by (cases "read (rq_artifact_id rq) r")
      show ?thesis
      proof (cases out)
        case ReadError
        with run rd SAFE_TO_EXECUTE show ?thesis by (intro unread) auto
      next
        case (ReadArtifact oa)
        show ?thesis
        proof (cases oa)
          case None
          with run rd SAFE_TO_EXECUTE ReadArtifact show ?thesis by (intro unread) auto
        next
          case (Some artifact)
          show ?thesis
          proof (cases "resolve_requirement H ctx rq artifact l")
            case (Inl res1)
            with run rd SAFE_TO_EXECUTE ReadArtifact Some pre show ?thesis
              by (intro resolved [of artifact]) auto
          next
            case (Inr before_hash)
            with run rd SAFE_TO_EXECUTE ReadArtifact Some pre show ?thesis
              by (intro dispatched [of r1 artifact before_hash]) auto
          qed
        qed
      qed
    qed
  qed
qed

lemma plan_and_attempt_ledger:
  assumes "plan_and_attempt ctx now rq artifact h l = (l1, out)"
  shows "ledger_reach l l1"
    and "out = Inr () \<Longrightarrow> \<exists>rec. dict_get l1 (rq_action_id rq) = Some rec \<and> ax_status rec = AS_ATTEMPTED"
proof -
  have attempt: "ledger_reach l0 l1"
    if "(case mark_attempted (rq_action_id rq) now l0 of Inl e \<Rightarrow> (l0, Inl e)
         | Inr (l2, _) \<Rightarrow> (l2, Inr ())) = (l1, out)" for l0
    using that by (auto split: sum.splits intro: ledger_reach.intros ledger_step.attempted)
  show "ledger_reach l l1"
  proof (cases "ledger_get l (rq_action_id rq)")
    case (Some rec)
    with assms attempt show ?thesis by (simp add: plan_and_attempt_def)
  next
    case None
    let ?p = "plan (rq_action_id rq) (tc_workflow_id ctx) REMEDIATE_ARTIFACT (rq_artifact_id rq)
        (build_remediation_intent (tc_change ctx) artifact h) now l"
    show ?thesis
    proof (cases ?p)
      case (Inl e)
      with None assms show ?thesis by (auto simp: plan_and_attempt_def intro: ledger_reach.none)
    next
      case (Inr q)
      then obtain l0 rec where p: "?p = Inr (l0, rec)" by (cases q) auto
      with None assms have "ledger_reach l0 l1"
        by (intro attempt) (simp add: plan_and_attempt_def)
      moreover have "ledger_step l l0" by (rule ledger_step.planned [OF p])
      ultimately show ?thesis by (rule ledger_reach_step_left)
    qed
  qed
  show "out = Inr () \<Longrightarrow> \<exists>rec. dict_get l1 (rq_action_id rq) = Some rec \<and> ax_status rec = AS_ATTEMPTED"
    using assms
    by (auto simp: plan_and_attempt_def Let_def mark_attempted_Inr_iff split: option.splits sum.splits)
qed

lemma mark_failure_ledger:
  assumes "mark_failure reason d now k l = (l', res)"
  shows "ledger_reach l l'"
    and "res = Inr m \<Longrightarrow> mr_outcome m = REJECTED \<and> mr_dispatched m = d"
  using assms
  by (auto simp: mark_failure_def tool_reject_def split: sum.splits
      intro: ledger_reach.intros ledger_step.failed)

lemma record_success_ledger:
  assumes "record_success H ctx now rq artifact h mutated l = (l', res)"
  shows "ledger_reach l l'"
  using assms
  by (auto simp: record_success_def Let_def split: sum.splits
      intro: ledger_reach.intros ledger_step.completed)

lemma record_success_Inr:
  assumes "record_success H ctx now rq artifact h mutated l = (l', Inr m)"
  shows "mr_outcome m = MUTATED \<and> mr_dispatched m \<and>
    mr_evidence m = Some (MutationEvidence (mutation_evidence_of H ctx rq artifact h mutated)) \<and>
    valid_mutation_evidence (mutation_evidence_of H ctx rq artifact h mutated) \<and>
    (\<exists>rec. dict_get l' (rq_action_id rq) = Some rec \<and> ax_status rec = AS_COMPLETED)"
  using assms
  by (auto simp: record_success_def Let_def mark_completed_Inr_iff split: sum.splits)

lemma dispatch_cases:
  assumes "dispatch H apply_req ctx clk rq artifact h (l, r) = ((l', r'), res)"
  obtains (unplanned) e where "r' = r" "res = Inl e" "ledger_reach l l'"
  | (uncertain) l1 where "plan_and_attempt ctx (clk 0) rq artifact h l = (l1, Inr ())"
      "apply_req (rq_artifact_id rq) (rq_requirement_id rq) (rq_expected_before_value rq)
         (rq_new_value rq) r = (r', UncertainWrite)"
      "mark_failure POST_DISPATCH_UNCERTAIN True (clk 1) (rq_action_id rq) l1 = (l', res)"
  | (failed) l1 where "plan_and_attempt ctx (clk 0) rq artifact h l = (l1, Inr ())"
      "apply_req (rq_artifact_id rq) (rq_requirement_id rq) (rq_expected_before_value rq)
         (rq_new_value rq) r = (r', WriteError)"
      "mark_failure DISPATCH_FAILURE False (clk 1) (rq_action_id rq) l1 = (l', res)"
  | (raised) e where "plan_and_attempt ctx (clk 0) rq artifact h l = (l', Inr ())"
      "apply_req (rq_artifact_id rq) (rq_requirement_id rq) (rq_expected_before_value rq)
         (rq_new_value rq) r = (r', WriteRaised e)" "res = Inl e"
  | (written) l1 m where "plan_and_attempt ctx (clk 0) rq artifact h l = (l1, Inr ())"
      "apply_req (rq_artifact_id rq) (rq_requirement_id rq) (rq_expected_before_value rq)
         (rq_new_value rq) r = (r', Written m)"
      "record_success H ctx (clk 1) rq artifact h m l1 = (l', res)"
proof -
  obtain l1 out1 where p: "plan_and_attempt ctx (clk 0) rq artifact h l = (l1, out1)"
    by (cases "plan_and_attempt ctx (clk 0) rq artifact h l")
  show ?thesis
  proof (cases out1)
    case (Inl e)
    with p assms plan_and_attempt_ledger(1) [OF p] show ?thesis
      by (intro unplanned [of e]) (auto simp: dispatch_def)
  next
    case (Inr u)
    obtain r1 out where a: "apply_req (rq_artifact_id rq) (rq_requirement_id rq)
        (rq_expected_before_value rq) (rq_new_value rq) r = (r1, out)"
      by (cases "apply_req (rq_artifact_id rq) (rq_requirement_id rq)
        (rq_expected_before_value rq) (rq_new_value rq) r")
    show ?thesis
    proof (cases out)
      case (Written m)
      with p Inr a assms show ?thesis
        by (intro written) (auto simp: dispatch_def split: prod.splits)
    next
      case WriteError
      with p Inr a assms show ?thesis
        by (intro failed) (auto simp: dispatch_def split: prod.splits)
    next
      case UncertainWrite
      with p Inr a assms show ?thesis
        by (intro uncertain) (auto simp: dispatch_def split: prod.splits)
    next
      case (WriteRaised e)
      with p Inr a assms show ?thesis
        by (intro raised [of e]) (auto simp: dispatch_def split: prod.splits)
    qed
  qed
qed

section \<open>Effects on the ledger\<close>

lemma reconcile_mutation_reach:
  assumes "reconcile_mutation k a h after c ok t cl l = Inr (l', res)"
  shows "ledger_reach l l'"
  using assms
proof (cases rule: reconcile_mutation_cases)
  case (reconciled r r')
  from ledger_step.completed [OF reconciled(7)] show ?thesis
    by (rule ledger_reach.more [OF ledger_reach.none])
qed (simp_all add: ledger_reach.none)

lemma replay_result:
  "replay_completed k l = Inr m \<Longrightarrow> mr_outcome m = MUTATION_ALREADY_COMPLETED \<and> \<not> mr_dispatched m"
  by (auto simp: replay_completed_def res_bind_Inr_iff)

lemma tool_reconcile_effect:
  assumes "tool_reconcile H ctx clk k artifact l = (l', res)"
  shows "ledger_reach l l'"
    and "res = Inr m \<Longrightarrow> \<not> mr_dispatched m \<and>
      mr_outcome m \<in> {MUTATION_RECONCILED, MUTATION_ALREADY_COMPLETED, REJECTED}"
proof -
  let ?r = "reconcile_mutation k artifact (artifact_content_hash H artifact)
      (da_content_ref artifact) (tc_change ctx) (tc_source_version_applicable ctx) (clk 0)
      (tc_data_classification ctx) l"
  have "ledger_reach l l' \<and> (\<forall>m. res = Inr m \<longrightarrow> \<not> mr_dispatched m \<and>
      mr_outcome m \<in> {MUTATION_RECONCILED, MUTATION_ALREADY_COMPLETED, REJECTED})"
  proof (cases ?r)
    case (Inl e)
    with assms show ?thesis by (auto simp: tool_reconcile_def intro: ledger_reach.none)
  next
    case (Inr q)
    then obtain l1 rr where r: "?r = Inr (l1, rr)" by (cases q) auto
    note reach = reconcile_mutation_reach [OF r]
    show ?thesis
    proof (cases "rr_outcome rr")
      case RECONCILED_MUTATION
      with assms r reach show ?thesis by (auto simp: tool_reconcile_def)
    next
      case RECONCILIATION_ALREADY_COMPLETED
      with assms r reach show ?thesis by (auto simp: tool_reconcile_def dest: replay_result)
    next
      case FAIL_CLOSED
      show ?thesis
      proof (cases "mark_failed_or_uncertain k (clk 1) l1")
        case (Inl e)
        with FAIL_CLOSED assms r reach show ?thesis by (auto simp: tool_reconcile_def)
      next
        case (Inr p)
        then obtain l2 rec where m: "mark_failed_or_uncertain k (clk 1) l1 = Inr (l2, rec)"
          by (cases p) auto
        with FAIL_CLOSED assms r have "l' = l2"
          and "res = Inr (tool_reject RECONCILIATION_FAILED (Some AS_FAILED_OR_UNCERTAIN) False
            (rr_blockers rr))" by (simp_all add: tool_reconcile_def)
        with ledger_reach.more [OF reach ledger_step.failed [OF m]] show ?thesis
          by (simp add: tool_reject_def)
      qed
    qed
  qed
  then show "ledger_reach l l'" and "res = Inr m \<Longrightarrow> \<not> mr_dispatched m \<and>
      mr_outcome m \<in> {MUTATION_RECONCILED, MUTATION_ALREADY_COMPLETED, REJECTED}" by blast+
qed

lemma resolve_final:
  assumes "resolve_requirement H ctx rq a l = Inl (Inr m)"
  shows "\<not> mr_dispatched m \<and> (mr_outcome m = REJECTED \<or>
    mr_outcome m = NO_OP \<and> no_op_admissible l (rq_action_id rq) \<and>
    dict_get (da_requirements a) (rq_requirement_id rq) = Some (rq_new_value rq) \<and>
    (\<exists>e. mr_evidence m = Some (NoOpEvidence e) \<and> ne_artifact_id e = da_artifact_id a \<and>
       ne_evaluated_artifact_ref e = da_content_ref a \<and>
       ne_evaluated_artifact_hash e = artifact_content_hash H a \<and>
       ne_observed_value e = rq_new_value rq \<and> ne_expected_value e = rq_new_value rq))"
  using assms
  by (auto simp: resolve_requirement_def Let_def tool_reject_def no_op_result_def res_bind_Inr_iff
      split: option.splits if_splits)

lemma resolve_due:
  assumes "resolve_requirement H ctx rq a l = Inr h"
  shows "da_authorized_for_remediation a \<and>
    dict_get (da_requirements a) (rq_requirement_id rq) = Some (rq_expected_before_value rq) \<and>
    (rq_requirement_id rq = da_requirement_id a \<longrightarrow>
       da_current_value a = rq_expected_before_value rq) \<and>
    rq_expected_before_value rq \<noteq> rq_new_value rq \<and>
    h = artifact_content_hash H a \<and> h = rq_expected_before_hash rq"
  using assms
  by (auto simp: resolve_requirement_def Let_def split: option.splits if_splits)

lemma safe_not_dispatched:
  "decide_retry l k = SAFE_TO_EXECUTE \<longleftrightarrow> \<not> was_ever_dispatched l k"
  by (auto simp: decide_retry_def was_ever_dispatched_def split: option.splits action_status.splits)

lemma tool_ledger:
  assumes "apply_authorized_artifact_patch H read apply_req ctx clk rq (l, r) = ((l', r'), res)"
  shows "ledger_reach l l'"
  using assms
proof (cases rule: tool_cases)
  case (reconciled artifact)
  then show ?thesis by (auto dest: tool_reconcile_effect)
next
  case (dispatched artifact before_hash r1)
  from dispatched(5) show ?thesis
  proof (cases rule: dispatch_cases)
    case (unplanned e)
    then show ?thesis by blast
  next
    case (raised e)
    then show ?thesis using plan_and_attempt_ledger(1) by blast
  next
    case (uncertain l1)
    then show ?thesis
      by (meson ledger_reach_trans mark_failure_ledger(1) plan_and_attempt_ledger(1))
  next
    case (failed l1)
    then show ?thesis
      by (meson ledger_reach_trans mark_failure_ledger(1) plan_and_attempt_ledger(1))
  next
    case (written l1 m)
    then show ?thesis
      by (meson ledger_reach_trans record_success_ledger plan_and_attempt_ledger(1))
  qed
qed (simp_all add: ledger_reach.none)

lemma attempted_is_dispatched:
  "dict_get l k = Some rec \<Longrightarrow> ax_status rec = AS_ATTEMPTED \<Longrightarrow> was_ever_dispatched l k"
  by (simp add: was_ever_dispatched_def ledger_get_def)

text \<open>An invocation that sends a write found the action undispatched and leaves it dispatched.\<close>

lemma tool_dispatch_once:
  assumes "apply_authorized_artifact_patch H read apply_req ctx clk rq (l, r) = ((l', r'), Inr m)"
    and "mr_dispatched m"
  shows "\<not> was_ever_dispatched l (rq_action_id rq) \<and> was_ever_dispatched l' (rq_action_id rq)"
  using assms(1)
proof (cases rule: tool_cases)
  case (dispatched artifact before_hash r1)
  have safe: "\<not> was_ever_dispatched l (rq_action_id rq)"
    using dispatched(2) by (simp add: safe_not_dispatched)
  have after: "was_ever_dispatched l' (rq_action_id rq)"
    if "plan_and_attempt ctx (clk 0) rq artifact before_hash l = (l1, Inr ())" "ledger_reach l1 l'" for l1
    using plan_and_attempt_ledger(2) [OF that(1) refl] attempted_is_dispatched dispatched_reach [OF that(2)]
    by blast
  from dispatched(5) have "was_ever_dispatched l' (rq_action_id rq)"
  proof (cases rule: dispatch_cases)
    case (uncertain l1)
    with after mark_failure_ledger(1) show ?thesis by blast
  next
    case (failed l1)
    with after mark_failure_ledger(1) show ?thesis by blast
  next
    case (written l1 w)
    with after record_success_ledger show ?thesis by blast
  qed simp_all
  with safe show ?thesis by blast
next
  case (reconciled artifact)
  with assms(2) show ?thesis by (auto dest: tool_reconcile_effect)
next
  case (resolved artifact)
  with assms(2) show ?thesis by (auto dest: resolve_final)
qed (use assms(2) in \<open>auto simp: tool_reject_def dest: replay_result [OF sym]\<close>)

section \<open>Effects on any repository that keeps the protocol\<close>

context artifact_repository
begin

lemma tool_inv:
  assumes "inv r" and "apply_authorized_artifact_patch H read apply_req ctx clk rq (l, r) = ((l', r'), res)"
  shows "inv r'"
  using assms(2)
proof (cases rule: tool_cases)
  case (dispatched artifact before_hash r1)
  from read_frame [OF assms(1) dispatched(3)] have "inv r1" by blast
  from dispatched(5) show ?thesis
    by (cases rule: dispatch_cases) (use \<open>inv r1\<close> apply_inv in blast)+
qed (use assms(1) read_frame in blast)+

text \<open>Unless the result says a write was sent, no artifact and no snapshot changed.\<close>

lemma tool_frame:
  assumes "inv r" and "apply_authorized_artifact_patch H read apply_req ctx clk rq (l, r) = ((l', r'), Inr m)"
    and "\<not> mr_dispatched m"
  shows "look j r' = look j r \<and> resolve c r' = resolve c r"
  using assms(2)
proof (cases rule: tool_cases)
  case (dispatched artifact before_hash r1)
  from read_frame [OF assms(1) dispatched(3)] have r1: "inv r1" "look j r1 = look j r"
    "resolve c r1 = resolve c r" by blast+
  from dispatched(5) show ?thesis
  proof (cases rule: dispatch_cases)
    case (uncertain l1)
    with mark_failure_ledger(2) [OF uncertain(3) refl] assms(3) show ?thesis by simp
  next
    case (failed l1)
    with apply_failed [OF r1(1) failed(2)] r1 show ?thesis by simp
  next
    case (written l1 w)
    with record_success_Inr assms(3) show ?thesis by blast
  qed simp_all
next
  case (unread out reason st)
  with read_frame [OF assms(1)] show ?thesis by blast
next
  case (reconciled artifact)
  with read_frame [OF assms(1)] show ?thesis by blast
next
  case (resolved artifact)
  with read_frame [OF assms(1)] show ?thesis by blast
qed simp_all

lemma tool_mutated:
  assumes "inv r" and "apply_authorized_artifact_patch H read apply_req ctx clk rq (l, r) = ((l', r'), Inr m)"
    and "mr_outcome m = MUTATED"
  shows "precheck ctx rq = None \<and> mr_dispatched m \<and>
    (\<exists>a w. look (rq_artifact_id rq) r = Some a \<and> look (rq_artifact_id rq) r' = Some w \<and>
       da_authorized_for_remediation a \<and>
       one_requirement_changed a (rq_requirement_id rq) (rq_expected_before_value rq) (rq_new_value rq) w \<and>
       (\<forall>j. j \<noteq> rq_artifact_id rq \<longrightarrow> look j r' = look j r) \<and>
       resolve (da_content_ref a) r' = Some a \<and> resolve (da_content_ref w) r' = Some w \<and>
       artifact_content_hash H a = rq_expected_before_hash rq \<and>
       mr_evidence m = Some (MutationEvidence
         (mutation_evidence_of H ctx rq a (rq_expected_before_hash rq) w))) \<and>
    (\<exists>rec. dict_get l' (rq_action_id rq) = Some rec \<and> ax_status rec = AS_COMPLETED)"
  using assms(2)
proof (cases rule: tool_cases)
  case (dispatched a before_hash r1)
  from read_frame [OF assms(1) dispatched(3)] have r1: "inv r1" "\<forall>j. look j r1 = look j r"
    and a: "look (rq_artifact_id rq) r = Some a" by auto
  note due = resolve_due [OF dispatched(4)]
  from dispatched(5) show ?thesis
  proof (cases rule: dispatch_cases)
    case (uncertain l1)
    with mark_failure_ledger(2) assms(3) show ?thesis by fastforce
  next
    case (failed l1)
    with mark_failure_ledger(2) assms(3) show ?thesis by fastforce
  next
    case (written l1 w)
    have a1: "look (rq_artifact_id rq) r1 = Some a" using r1(2) a by simp
    from apply_written [OF r1(1) written(2)] r1(2) have
      after: "look (rq_artifact_id rq) r' = Some w"
        "\<forall>j. j \<noteq> rq_artifact_id rq \<longrightarrow> look j r' = look j r" by auto
    note both = written_both_states [OF r1(1) written(2) a1]
    note success = record_success_Inr [OF written(3)]
    have h: "before_hash = rq_expected_before_hash rq"
      and ha: "artifact_content_hash H a = rq_expected_before_hash rq"
      and auth: "da_authorized_for_remediation a" using due by auto
    show ?thesis
      by (intro conjI exI [of _ a] exI [of _ w])
        (use a after both success dispatched(1) h ha auth in \<open>simp_all (no_asm_simp)\<close>)
  qed simp_all
next
  case (reconciled artifact)
  with tool_reconcile_effect(2) [OF reconciled(4) refl] assms(3) show ?thesis by auto
next
  case (resolved artifact)
  with resolve_final [of H ctx rq artifact l m] assms(3) show ?thesis by auto
qed (use assms(3) in \<open>auto simp: tool_reject_def dest: replay_result [OF sym]\<close>)

end

end
