(* ===== verification/Tool_Properties.thy ===== *)
theory Tool_Properties
  imports Mutation_Tool
begin

text \<open>
  The properties of the mutation tool on the in-memory repository: what a mutation guarantees,
  what every other outcome leaves alone, at most one write per action, agreement with the autonomy
  gate and with Crossing 2, and three behaviours the code has that its documentation excludes.
\<close>

abbreviation mem_tool ::
  "(str \<Rightarrow> str) \<Rightarrow> tool_context \<Rightarrow> (nat \<Rightarrow> datetime) \<Rightarrow> patch_request \<Rightarrow> ledger \<times> repository \<Rightarrow>
     (ledger \<times> repository) \<times> mutation_result res" where
  "mem_tool H \<equiv> apply_authorized_artifact_patch H repo_read apply_requirement"

section \<open>The in-memory write\<close>

lemma mem_never_uncertain:
  "apply_requirement i q old new r \<noteq> (r', UncertainWrite)"
  "apply_requirement i q old new r \<noteq> (r', WriteRaised e)"
  using apply_requirement_failed by fastforce+

lemma mem_dispatched_iff:
  assumes "mem_tool H ctx clk rq (l, r) = ((l', r'), Inr m)"
  shows "mr_dispatched m \<longleftrightarrow> mr_outcome m = MUTATED"
    and "rp_dispatch_count r' = rp_dispatch_count r + (if mr_outcome m = MUTATED then 1 else 0)"
proof -
  have count: "rp_dispatch_count (fst (repo_read i r)) = rp_dispatch_count r" for i
    by (simp add: repo_read_def)
  have "(mr_dispatched m \<longleftrightarrow> mr_outcome m = MUTATED) \<and>
      rp_dispatch_count r' = rp_dispatch_count r + (if mr_outcome m = MUTATED then 1 else 0)"
    using assms
  proof (cases rule: tool_cases)
    case (refused reason st)
    then show ?thesis by (simp add: tool_reject_def)
  next
    case replayed
    then show ?thesis by (auto dest: replay_result [OF sym])
  next
    case (unread out reason st)
    with count [of "rq_artifact_id rq"] show ?thesis by (simp add: tool_reject_def)
  next
    case (reconciled artifact)
    with count [of "rq_artifact_id rq"] tool_reconcile_effect(2) [OF reconciled(4) refl]
    show ?thesis by auto
  next
    case (resolved artifact)
    with count [of "rq_artifact_id rq"] resolve_final [of H ctx rq artifact l m] show ?thesis by auto
  next
    case (dispatched artifact h r1)
    with count [of "rq_artifact_id rq"] have r1: "rp_dispatch_count r1 = rp_dispatch_count r" by simp
    from dispatched(5) show ?thesis
    proof (cases rule: dispatch_cases)
      case (uncertain l1)
      with mem_never_uncertain show ?thesis by blast
    next
      case (failed l1)
      with apply_requirement_failed [OF failed(2)] mark_failure_ledger(2) [OF failed(3) refl] r1
      show ?thesis by simp
    next
      case (written l1 w)
      with apply_requirement_Written [OF written(2)] record_success_Inr [OF written(3)] r1
      show ?thesis by auto
    qed simp_all
  qed
  then show "mr_dispatched m \<longleftrightarrow> mr_outcome m = MUTATED"
    and "rp_dispatch_count r' = rp_dispatch_count r + (if mr_outcome m = MUTATED then 1 else 0)"
    by blast+
qed

section \<open>Runs of the tool\<close>

text \<open>A repository whose writes are counted: a call counts when it is made, however it ends.\<close>

definition counted_read :: "'r reader \<Rightarrow> ('r \<times> nat) reader" where
  "counted_read read i rn = (case read i (fst rn) of (r', out) \<Rightarrow> ((r', snd rn), out))"

definition counted_write :: "'r writer \<Rightarrow> ('r \<times> nat) writer" where
  "counted_write apply_req i q old new rn =
     (case apply_req i q old new (fst rn) of (r', out) \<Rightarrow> ((r', snd rn + 1), out))"

abbreviation counted_tool where
  "counted_tool H read apply_req \<equiv>
     apply_authorized_artifact_patch H (counted_read read) (counted_write apply_req)"

lemma counted_read_count: "counted_read read i (r, n) = ((r', n'), out) \<Longrightarrow> n' = n"
  by (auto simp: counted_read_def split: prod.splits)

lemma counted_write_count: "counted_write apply_req i q old new (r, n) = ((r', n'), out) \<Longrightarrow> n' = n + 1"
  by (auto simp: counted_write_def split: prod.splits)

text \<open>An invocation calls the write at most once, only for an action the ledger has as undispatched, and
  leaves it dispatched, whether the write returned, was refused or raised.\<close>

lemma tool_calls:
  assumes "counted_tool H read apply_req ctx clk rq (l, r, n) = ((l', r', n'), res)"
  shows "if n' = n then \<not> (\<exists>m. res = Inr m \<and> mr_dispatched m)
    else n' = n + 1 \<and> \<not> was_ever_dispatched l (rq_action_id rq) \<and> was_ever_dispatched l' (rq_action_id rq)"
  using assms
proof (cases rule: tool_cases)
  case (dispatched artifact before_hash rn1)
  obtain r1 n1 where rn1: "rn1 = (r1, n1)" by fastforce
  have n1: "n1 = n" using counted_read_count [OF dispatched(3) [unfolded rn1]] .
  have safe: "\<not> was_ever_dispatched l (rq_action_id rq)"
    using dispatched(2) by (simp add: safe_not_dispatched)
  have after: "was_ever_dispatched l' (rq_action_id rq)"
    if "plan_and_attempt ctx (clk 0) rq artifact before_hash l = (l1, Inr ())" "ledger_reach l1 l'" for l1
    using plan_and_attempt_ledger(2) [OF that(1) refl] attempted_is_dispatched dispatched_reach [OF that(2)]
    by blast
  have called: ?thesis if "n' = n1 + 1" "was_ever_dispatched l' (rq_action_id rq)"
    using that n1 safe by simp
  from dispatched(5) [unfolded rn1] show ?thesis
  proof (cases rule: dispatch_cases)
    case (unplanned e)
    with n1 show ?thesis by simp
  next
    case (uncertain l1)
    show ?thesis
      by (rule called [OF counted_write_count [OF uncertain(2)] after [OF uncertain(1) mark_failure_ledger(1) [OF uncertain(3)]]])
  next
    case (failed l1)
    show ?thesis
      by (rule called [OF counted_write_count [OF failed(2)] after [OF failed(1) mark_failure_ledger(1) [OF failed(3)]]])
  next
    case (raised e)
    show ?thesis
      by (rule called [OF counted_write_count [OF raised(2)] after [OF raised(1) ledger_reach.none]])
  next
    case (written l1 w)
    show ?thesis
      by (rule called [OF counted_write_count [OF written(2)] after [OF written(1) record_success_ledger [OF written(3)]]])
  qed
next
  case (unread out reason st)
  with counted_read_count [of read "rq_artifact_id rq" r n r' n'] show ?thesis by (auto simp: tool_reject_def)
next
  case (reconciled artifact)
  with counted_read_count [of read "rq_artifact_id rq" r n r' n'] tool_reconcile_effect(2) [OF reconciled(4)]
  show ?thesis by auto
next
  case (resolved artifact)
  with counted_read_count [of read "rq_artifact_id rq" r n r' n'] resolve_final [of H ctx rq artifact l]
  show ?thesis by auto
qed (use replay_result in \<open>auto simp: tool_reject_def\<close>)

type_synonym invocation = "tool_context \<times> (nat \<Rightarrow> datetime) \<times> patch_request"

text \<open>Any sequence of invocations, each with its own context, clock and request; the trace lists the
  action id of each, the calls of the repository's write it made, and its result.\<close>

fun tool_run ::
  "(str \<Rightarrow> str) \<Rightarrow> 'r reader \<Rightarrow> 'r writer \<Rightarrow> invocation list \<Rightarrow> ledger \<times> 'r \<Rightarrow>
     (ledger \<times> 'r) \<times> (str \<times> nat \<times> mutation_result res) list" where
  "tool_run H read apply_req [] s = (s, [])"
| "tool_run H read apply_req ((ctx, clk, rq) # rest) (l, r) =
     (let ((l', r', n), res) = counted_tool H read apply_req ctx clk rq (l, r, 0);
          (s, trace) = tool_run H read apply_req rest (l', r')
      in (s, (rq_action_id rq, n, res) # trace))"

definition writes_of :: "str \<Rightarrow> (str \<times> nat \<times> mutation_result res) list \<Rightarrow> nat" where
  "writes_of k trace = sum_list (map (\<lambda>(k', n, _). if k' = k then n else 0) trace)"

fun reported_sent :: "mutation_result res \<Rightarrow> bool" where
  "reported_sent (Inl e) = False"
| "reported_sent (Inr m) = mr_dispatched m"

lemma writes_of_Cons [simp]:
  "writes_of k ((k', n, res) # trace) = (if k' = k then n else 0) + writes_of k trace"
  by (simp add: writes_of_def)

lemma run_writes:
  "tool_run H read apply_req invs (l, r) = (s', trace) \<Longrightarrow>
     writes_of k trace \<le> (if was_ever_dispatched l k then 0 else 1) \<and>
     list_all (\<lambda>(_, n, res). if reported_sent res then n = 1 else n \<le> 1) trace"
proof (induction invs arbitrary: l r s' trace)
  case Nil
  then show ?case by (simp add: writes_of_def)
next
  case (Cons inv rest)
  obtain ctx clk rq where inv: "inv = (ctx, clk, rq)" by (cases inv) auto
  obtain l1 r1 n res where one: "counted_tool H read apply_req ctx clk rq (l, r, 0) = ((l1, r1, n), res)"
    by (metis surj_pair)
  obtain s2 tr where rest: "tool_run H read apply_req rest (l1, r1) = (s2, tr)" by (metis surj_pair)
  have trace: "trace = (rq_action_id rq, n, res) # tr"
    using Cons.prems by (simp add: inv one rest)
  have kept: "was_ever_dispatched l k \<Longrightarrow> was_ever_dispatched l1 k"
    using dispatched_reach [OF tool_ledger [OF one]] .
  have sent: "reported_sent res \<longleftrightarrow> (\<exists>m. res = Inr m \<and> mr_dispatched m)" by (cases res) simp_all
  from Cons.IH [OF rest] tool_calls [OF one] kept sent show ?case
    by (auto simp: trace split: if_splits)
qed

text \<open>C22. At most one write per action id, ever: over any sequence of invocations (any contexts,
  capabilities, clocks and requests, any interleaving of actions, and any repository, even one whose
  reads and writes fail, end uncertain or raise out of the tool at will), the write of the repository is
  called at most once for an action id, and not at all if the action was dispatched before the sequence
  began. What counts is the call, not what the tool reports of it: a result that says a write was sent
  belongs to exactly one call, but a call that was refused or raised counts as well.\<close>

theorem at_most_one_write_per_action:
  "case tool_run H read apply_req invs (l, r) of (_, trace) \<Rightarrow>
     writes_of k trace \<le> (if was_ever_dispatched l k then 0 else 1) \<and>
     list_all (\<lambda>(_, n, res). if reported_sent res then n = 1 else n \<le> 1) trace"
proof -
  obtain s' trace where "tool_run H read apply_req invs (l, r) = (s', trace)" by (metis surj_pair)
  with run_writes [OF this, of k] show ?thesis by simp
qed

text \<open>Counting changes nothing: without the counter, a run of the tool is the same.\<close>

lemma counted_tool_same:
  "(case counted_tool H read apply_req ctx clk rq (l, r, n) of ((l', r', _), res) \<Rightarrow> ((l', r'), res)) =
     apply_authorized_artifact_patch H read apply_req ctx clk rq (l, r)"
  by (simp add: apply_authorized_artifact_patch_def counted_read_def counted_write_def dispatch_def Let_def
      split: option.splits retry_decision.splits prod.splits read_outcome.splits sum.splits
        write_outcome.splits)

section \<open>A concrete invocation\<close>

definition sample_token :: mutation_capability where
  "sample_token =
     \<lparr>mc_capability_id = ''cap-0001-00'', mc_holder = ''driftzero-remediation'',
      mc_tool = ''ARTIFACT_MUTATION'', mc_authorized_artifact_ids = {''a''},
      mc_change_id = ''chg-1'', mc_source_version = ''v8'', mc_grant_token = ''tok''\<rparr>"

definition sample_tool_context :: tool_context where
  "sample_tool_context =
     \<lparr>tc_capability = Some sample_token, tc_verifier = (\<lambda>c. mc_grant_token c = ''tok''),
      tc_workflow_id = ''wf-1'', tc_change = sample_change [''a''],
      tc_source_version_applicable = True,
      tc_data_classification = \<lparr>dc_labels = [SYNTHETIC], dc_lineage = []\<rparr>\<rparr>"

definition sample_hash :: "str \<Rightarrow> str" where
  "sample_hash b = CHR ''h'' # b"

definition sample_request :: "str \<Rightarrow> str \<Rightarrow> str \<Rightarrow> patch_request" where
  "sample_request q old new =
     \<lparr>rq_action_id = ''act-1'', rq_artifact_id = ''a'', rq_requirement_id = q,
      rq_expected_before_value = old,
      rq_expected_before_hash = artifact_content_hash sample_hash (sample_artifact ''a'' ''LEFT''),
      rq_new_value = new, rq_source_procedure_id = ''proc-1'', rq_source_version = ''v8'',
      rq_change_id = ''chg-1'', rq_correlation_id = ''corr-1''\<rparr>"

definition sample_repository :: "str \<Rightarrow> repository" where
  "sample_repository v = new_repository [(''a'', sample_artifact ''a'' v)]"

lemma sample_repository_ok: "repo_ok (sample_repository v)"
  by (simp add: repo_ok_def sample_repository_def new_repository_def sample_artifact_def)

lemma sample_mutates:
  "\<exists>l' r' m. mem_tool sample_hash sample_tool_context int (sample_request ''req-1'' ''LEFT'' ''TOP_RIGHT'')
     ([], sample_repository ''LEFT'') = ((l', r'), Inr m) \<and> mr_outcome m = MUTATED"
proof -
  let ?t = "mem_tool sample_hash sample_tool_context int
      (sample_request ''req-1'' ''LEFT'' ''TOP_RIGHT'') ([], sample_repository ''LEFT'')"
  have "(case snd ?t of Inl e \<Rightarrow> False | Inr m \<Rightarrow> mr_outcome m = MUTATED)" by code_simp
  then show ?thesis by (cases ?t; cases "snd ?t") auto
qed

section \<open>What one invocation does\<close>

text \<open>C20. The tool's write contract, on the in-memory repository: if the outcome is \<open>MUTATED\<close> then the
  capability was present, verified, for this tool, artifact, change and version; exactly the one
  requirement of the one artifact changed, from the expected to the new value, with every other
  artifact untouched; the evidence's before and after references are different and still resolve to
  the states whose hashes it records; and the action is completed. With any other outcome no
  artifact and no snapshot changed and no write was counted.\<close>

theorem tool_write_contract:
  assumes "repo_ok r" and "mem_tool H ctx clk rq (l, r) = ((l', r'), Inr m)"
  shows "if mr_outcome m = MUTATED then
      (\<exists>cap. tc_capability ctx = Some cap \<and> mc_tool cap = TOOL_CAPABILITY \<and> tc_verifier ctx cap \<and>
         rq_artifact_id rq \<in> mc_authorized_artifact_ids cap \<and>
         mc_change_id cap = ac_change_id (tc_change ctx) \<and>
         mc_source_version cap = ac_source_version (tc_change ctx)) \<and>
      rp_dispatch_count r' = rp_dispatch_count r + 1 \<and>
      (\<exists>a w e. dict_get (rp_artifacts r) (rq_artifact_id rq) = Some a \<and>
         dict_get (rp_artifacts r') (rq_artifact_id rq) = Some w \<and>
         one_requirement_changed a (rq_requirement_id rq) (rq_expected_before_value rq)
           (rq_new_value rq) w \<and>
         (\<forall>j. j \<noteq> rq_artifact_id rq \<longrightarrow> dict_get (rp_artifacts r') j = dict_get (rp_artifacts r) j) \<and>
         mr_evidence m = Some (MutationEvidence e) \<and> me_before_ref e \<noteq> me_after_ref e \<and>
         repo_resolve (me_before_ref e) r' = Some a \<and> me_before_hash e = artifact_content_hash H a \<and>
         repo_resolve (me_after_ref e) r' = Some w \<and> me_after_hash e = artifact_content_hash H w) \<and>
      (\<exists>rec. dict_get l' (rq_action_id rq) = Some rec \<and> ax_status rec = AS_COMPLETED)
    else rp_dispatch_count r' = rp_dispatch_count r \<and>
      (\<forall>j. dict_get (rp_artifacts r') j = dict_get (rp_artifacts r) j) \<and>
      (\<forall>c. repo_resolve c r' = repo_resolve c r)"
proof (cases "mr_outcome m = MUTATED")
  case False
  with mem_dispatched_iff [OF assms(2)] have "\<not> mr_dispatched m" by simp
  with mem.tool_frame [OF assms this] mem_dispatched_iff(2) [OF assms(2)] False show ?thesis by simp
next
  case True
  note mut = mem.tool_mutated [OF assms True]
  have cap: "\<exists>cap. tc_capability ctx = Some cap \<and> mc_tool cap = TOOL_CAPABILITY \<and> tc_verifier ctx cap \<and>
         rq_artifact_id rq \<in> mc_authorized_artifact_ids cap \<and>
         mc_change_id cap = ac_change_id (tc_change ctx) \<and>
         mc_source_version cap = ac_source_version (tc_change ctx)"
    using mut by (auto simp: precheck_def split: option.splits if_splits)
  obtain a w where aw: "dict_get (rp_artifacts r) (rq_artifact_id rq) = Some a"
    "dict_get (rp_artifacts r') (rq_artifact_id rq) = Some w"
    "one_requirement_changed a (rq_requirement_id rq) (rq_expected_before_value rq) (rq_new_value rq) w"
    "\<forall>j. j \<noteq> rq_artifact_id rq \<longrightarrow> dict_get (rp_artifacts r') j = dict_get (rp_artifacts r) j"
    "repo_resolve (da_content_ref a) r' = Some a" "repo_resolve (da_content_ref w) r' = Some w"
    "artifact_content_hash H a = rq_expected_before_hash rq"
    "mr_evidence m = Some (MutationEvidence (mutation_evidence_of H ctx rq a (rq_expected_before_hash rq) w))"
    using mut by blast
  have "da_content_ref a \<noteq> da_content_ref w"
    using aw(3) by (auto simp: one_requirement_changed_def)
  then have "\<exists>a w e. dict_get (rp_artifacts r) (rq_artifact_id rq) = Some a \<and>
         dict_get (rp_artifacts r') (rq_artifact_id rq) = Some w \<and>
         one_requirement_changed a (rq_requirement_id rq) (rq_expected_before_value rq)
           (rq_new_value rq) w \<and>
         (\<forall>j. j \<noteq> rq_artifact_id rq \<longrightarrow> dict_get (rp_artifacts r') j = dict_get (rp_artifacts r) j) \<and>
         mr_evidence m = Some (MutationEvidence e) \<and> me_before_ref e \<noteq> me_after_ref e \<and>
         repo_resolve (me_before_ref e) r' = Some a \<and> me_before_hash e = artifact_content_hash H a \<and>
         repo_resolve (me_after_ref e) r' = Some w \<and> me_after_hash e = artifact_content_hash H w"
    using aw by (intro exI [of _ a] exI [of _ w]
        exI [of _ "mutation_evidence_of H ctx rq a (rq_expected_before_hash rq) w"])
      (simp add: mutation_evidence_of_def)
  with cap mut True mem_dispatched_iff(2) [OF assms(2)] show ?thesis by simp
qed

theorem tool_write_contract_witness:
  "\<exists>l' r' m. mem_tool sample_hash sample_tool_context int (sample_request ''req-1'' ''LEFT'' ''TOP_RIGHT'')
     ([], sample_repository ''LEFT'') = ((l', r'), Inr m) \<and>
     rp_dispatch_count r' = rp_dispatch_count (sample_repository ''LEFT'') + 1"
proof -
  obtain l' r' m where t: "mem_tool sample_hash sample_tool_context int
      (sample_request ''req-1'' ''LEFT'' ''TOP_RIGHT'') ([], sample_repository ''LEFT'') =
      ((l', r'), Inr m)" and "mr_outcome m = MUTATED" using sample_mutates by blast
  with tool_write_contract [OF sample_repository_ok t] show ?thesis by auto
qed

section \<open>Agreement with the gates around it\<close>

lemma mem_no_op:
  assumes "repo_ok r" and "mem_tool H ctx clk rq (l, r) = ((l', r'), Inr m)" and "mr_outcome m = NO_OP"
    and "dict_get (rp_artifacts r) (rq_artifact_id rq) = Some a"
  shows "dict_get (rp_artifacts r') (rq_artifact_id rq) = Some a \<and>
    \<not> was_ever_dispatched l (rq_action_id rq) \<and>
    dict_get (da_requirements a) (rq_requirement_id rq) = Some (rq_new_value rq) \<and>
    (\<exists>e. mr_evidence m = Some (NoOpEvidence e) \<and> ne_evaluated_artifact_ref e = da_content_ref a)"
  using assms(2)
proof (cases rule: tool_cases)
  case (resolved artifact)
  from mem.read_frame [OF assms(1) resolved(3)] assms(4) have
    "artifact = a" "dict_get (rp_artifacts r') (rq_artifact_id rq) = Some a" by auto
  with resolve_final [of H ctx rq artifact l m] resolved(4) assms(3) show ?thesis
    by (auto simp: no_op_admissible_def)
next
  case (reconciled artifact)
  with tool_reconcile_effect(2) [OF reconciled(4) refl] assms(3) show ?thesis by auto
next
  case (dispatched artifact h r1)
  from dispatched(5) show ?thesis
    by (cases rule: dispatch_cases)
      (use assms(3) mark_failure_ledger(2) record_success_Inr in fastforce)+
qed (use assms(3) in \<open>auto simp: tool_reject_def dest: replay_result [OF sym]\<close>)

text \<open>C23. From authorisation to compliance: if the autonomy gate authorised the artifact against the
  approved source, the request is the approved change, and the tool reports \<open>MUTATED\<close>, then the
  stored artifact's requirements are exactly the approved source's, requirement by requirement, and
  the comparator now finds it conflict-free and already current. If the tool instead reports
  \<open>NO_OP\<close>, the artifact already was so, nothing was ever dispatched for the action, and the evidence
  is of that single state.\<close>

theorem remediation_reaches_source:
  assumes "repo_ok r" and "mem_tool H ctx clk rq (l, r) = ((l', r'), Inr m)"
    and "rq_requirement_id rq = ac_requirement_id (tc_change ctx)"
    and "rq_new_value rq = ac_current_value (tc_change ctx)"
    and "dict_get (rp_artifacts r) (rq_artifact_id rq) = Some a"
    and "ad_authorized (evaluate_autonomy a src (tc_change ctx))"
    and "mr_outcome m = MUTATED \<or> mr_outcome m = NO_OP"
  shows "\<exists>w. dict_get (rp_artifacts r') (rq_artifact_id rq) = Some w \<and>
    map_of (da_requirements w) = map_of src \<and>
    conflict_free w src (tc_change ctx) \<and>
    dv_target_status (evaluate_divergence w src (tc_change ctx)) = ALREADY_CURRENT \<and>
    (mr_outcome m = NO_OP \<longrightarrow> w = a \<and> \<not> was_ever_dispatched l (rq_action_id rq) \<and>
      (\<exists>e. mr_evidence m = Some (NoOpEvidence e) \<and> ne_evaluated_artifact_ref e = da_content_ref a))"
proof -
  let ?c = "tc_change ctx"
  let ?q = "ac_requirement_id ?c"
  have cf: "conflict_free a src ?c" and diff: "ac_previous_value ?c \<noteq> ac_current_value ?c"
    using assms(6) by (simp_all add: authorized_iff)
  show ?thesis
  proof (cases "mr_outcome m = MUTATED")
    case True
    with mem.tool_mutated [OF assms(1,2)] assms(5) obtain w where
      w: "dict_get (rp_artifacts r') (rq_artifact_id rq) = Some w"
      "one_requirement_changed a (rq_requirement_id rq) (rq_expected_before_value rq) (rq_new_value rq) w"
      by auto
    with assms(3,4) changed_requirement_id [OF w(2)] have
      "map_of (da_requirements w) = map_of (dict_put ?q (ac_current_value ?c) (da_requirements a))"
      and "da_requirement_id w = ?q \<longrightarrow> da_current_value w = ac_current_value ?c"
      by (simp_all add: one_requirement_changed_def)
    from compliant_after_put [OF cf diff this] w(1) True show ?thesis by auto
  next
    case False
    then have no: "mr_outcome m = NO_OP" using assms(7) by blast
    note facts = mem_no_op [OF assms(1,2) no assms(5)]
    have now: "dict_get (da_requirements a) ?q = Some (ac_current_value ?c)"
      using facts assms(3,4) by simp
    then have "map_of (da_requirements a) =
        map_of (dict_put ?q (ac_current_value ?c) (da_requirements a))" by (auto simp: fun_eq_iff)
    moreover have "da_requirement_id a = ?q \<longrightarrow> da_current_value a = ac_current_value ?c"
      using cf now by (simp add: conflict_free_def)
    ultimately show ?thesis using compliant_after_put [OF cf diff] facts by auto
  qed
qed

theorem remediation_reaches_source_witness:
  "\<exists>l' r' m w. mem_tool sample_hash sample_tool_context int (sample_request ''req-1'' ''LEFT'' ''TOP_RIGHT'')
     ([], sample_repository ''LEFT'') = ((l', r'), Inr m) \<and>
     dict_get (rp_artifacts r') ''a'' = Some w \<and>
     map_of (da_requirements w) = map_of [(''req-2'', ''42''), (''req-1'', ''TOP_RIGHT'')]"
proof -
  obtain l' r' m where t: "mem_tool sample_hash sample_tool_context int
      (sample_request ''req-1'' ''LEFT'' ''TOP_RIGHT'') ([], sample_repository ''LEFT'') =
      ((l', r'), Inr m)" and m: "mr_outcome m = MUTATED" using sample_mutates by blast
  have "ad_authorized (evaluate_autonomy (sample_artifact ''a'' ''LEFT'')
      [(''req-2'', ''42''), (''req-1'', ''TOP_RIGHT'')] (tc_change sample_tool_context))"
    by code_simp
  from remediation_reaches_source [OF sample_repository_ok t _ _ _ this] m t show ?thesis
    by (auto simp: sample_request_def sample_tool_context_def sample_change_def
        sample_repository_def new_repository_def)
qed

text \<open>The tool and the trust boundary agree: evidence of a \<open>MUTATED\<close> outcome whose request carried the
  approved values always passes Crossing 2 for the artifact, action and before-hash of the request,
  whenever the artifact is in the approved scope and the version still applies.\<close>

theorem tool_evidence_crosses:
  assumes "repo_ok r" and "mem_tool H ctx clk rq (l, r) = ((l', r'), Inr m)" and "mr_outcome m = MUTATED"
    and "rq_expected_before_value rq = ac_previous_value (tc_change ctx)"
    and "rq_new_value rq = ac_current_value (tc_change ctx)"
    and "rq_artifact_id rq \<in> set (ac_authorized_scope (tc_change ctx))"
  shows "\<exists>e. mr_evidence m = Some e \<and>
    vo_accepted (validate_remediation_evidence e (tc_change ctx) (rq_artifact_id rq)
      (rq_expected_before_hash rq) (rq_action_id rq) True ref)"
proof -
  from mem.tool_mutated [OF assms(1-3)] obtain a w where
    ch: "one_requirement_changed a (rq_requirement_id rq) (rq_expected_before_value rq) (rq_new_value rq) w"
    and e: "mr_evidence m = Some (MutationEvidence
      (mutation_evidence_of H ctx rq a (rq_expected_before_hash rq) w))" by blast
  then have "da_content_ref a \<noteq> da_content_ref w" by (auto simp: one_requirement_changed_def)
  with e assms(4-6) show ?thesis
    by (simp add: remediation_accepted_iff mutation_evidence_of_def)
qed

theorem tool_evidence_crosses_witness:
  "\<exists>l' r' m e. mem_tool sample_hash sample_tool_context int (sample_request ''req-1'' ''LEFT'' ''TOP_RIGHT'')
     ([], sample_repository ''LEFT'') = ((l', r'), Inr m) \<and> mr_evidence m = Some e \<and>
     vo_accepted (validate_remediation_evidence e (sample_change [''a'']) ''a''
       (artifact_content_hash sample_hash (sample_artifact ''a'' ''LEFT'')) ''act-1'' True ''rej-1'')"
proof -
  obtain l' r' m where t: "mem_tool sample_hash sample_tool_context int
      (sample_request ''req-1'' ''LEFT'' ''TOP_RIGHT'') ([], sample_repository ''LEFT'') =
      ((l', r'), Inr m)" and m: "mr_outcome m = MUTATED" using sample_mutates by blast
  from tool_evidence_crosses [OF sample_repository_ok t m, of "''rej-1''"] t show ?thesis
    by (auto simp: sample_request_def sample_tool_context_def sample_change_def)
qed

section \<open>What the tool does not check\<close>

text \<open>The approved change does not bind the requirement or the value: with a capability and change
  for requirement \<open>req-1\<close> (LEFT to TOP_RIGHT), a request naming \<open>req-2\<close> and an arbitrary new value is
  carried out, and the artifact then holds a value no approved change contains, although the tool's
  documentation says it mutates one authorised requirement.\<close>

theorem unapproved_requirement_mutated:
  "\<exists>l' r' m w. mem_tool sample_hash sample_tool_context int (sample_request ''req-2'' ''42'' ''99'')
     ([], sample_repository ''LEFT'') = ((l', r'), Inr m) \<and> mr_outcome m = MUTATED \<and>
     dict_get (rp_artifacts r') ''a'' = Some w \<and>
     dict_get (da_requirements w) ''req-2'' = Some ''99'' \<and>
     ac_requirement_id (tc_change sample_tool_context) = ''req-1'' \<and>
     ac_current_value (tc_change sample_tool_context) = ''TOP_RIGHT''"
proof -
  let ?t = "mem_tool sample_hash sample_tool_context int (sample_request ''req-2'' ''42'' ''99'')
      ([], sample_repository ''LEFT'')"
  have "(case snd ?t of Inl e \<Rightarrow> False | Inr m \<Rightarrow> mr_outcome m = MUTATED)" by code_simp
  moreover have "map_option (\<lambda>w. dict_get (da_requirements w) ''req-2'')
      (dict_get (rp_artifacts (snd (fst ?t))) ''a'') = Some (Some ''99'')" by code_simp
  ultimately show ?thesis
    by (cases ?t; cases "snd ?t") (auto simp: sample_tool_context_def sample_change_def)
qed

text \<open>A write known to have failed can later be claimed as this workflow's own: when the repository
  refuses the write (nothing was written, and the result says no write was sent) and somebody else
  then sets the approved value, the next invocation of the same action returns
  \<open>MUTATION_RECONCILED\<close> with mutation evidence for this action.\<close>

theorem refused_write_claimed_later:
  "\<exists>l' r' m l'' r'' m' e.
     apply_authorized_artifact_patch sample_hash repo_read (\<lambda>_ _ _ _ r. (r, WriteError))
       sample_tool_context int (sample_request ''req-1'' ''LEFT'' ''TOP_RIGHT'')
       ([], sample_repository ''LEFT'') = ((l', r'), Inr m) \<and>
     mr_rejection m = Some DISPATCH_FAILURE \<and> \<not> mr_dispatched m \<and>
     mem_tool sample_hash sample_tool_context int (sample_request ''req-1'' ''LEFT'' ''TOP_RIGHT'')
       (l', sample_repository ''TOP_RIGHT'') = ((l'', r''), Inr m') \<and>
     mr_outcome m' = MUTATION_RECONCILED \<and>
     mr_evidence m' = Some (MutationEvidence e) \<and> me_action_id e = ''act-1''"
proof -
  let ?t = "apply_authorized_artifact_patch sample_hash repo_read (\<lambda>_ _ _ _ r. (r, WriteError))
       sample_tool_context int (sample_request ''req-1'' ''LEFT'' ''TOP_RIGHT'')
       ([], sample_repository ''LEFT'')"
  let ?u = "mem_tool sample_hash sample_tool_context int (sample_request ''req-1'' ''LEFT'' ''TOP_RIGHT'')
       (fst (fst ?t), sample_repository ''TOP_RIGHT'')"
  have 1: "(case snd ?t of Inl e \<Rightarrow> False | Inr m \<Rightarrow>
      mr_rejection m = Some DISPATCH_FAILURE \<and> \<not> mr_dispatched m)" by code_simp
  have 2: "(case snd ?u of Inl e \<Rightarrow> False | Inr m \<Rightarrow>
      mr_outcome m = MUTATION_RECONCILED \<and>
      (case mr_evidence m of Some (MutationEvidence e) \<Rightarrow> me_action_id e = ''act-1'' | _ \<Rightarrow> False))"
    by code_simp
  obtain l' r' m where t: "?t = ((l', r'), Inr m)" using 1 by (cases ?t; cases "snd ?t") auto
  obtain l'' r'' m' where u: "?u = ((l'', r''), Inr m')" using 2 by (cases ?u; cases "snd ?u") auto
  have l: "fst (fst ?t) = l'" by (simp add: t)
  have m: "mr_rejection m = Some DISPATCH_FAILURE \<and> \<not> mr_dispatched m"
    using 1 unfolding t by simp
  obtain e where "mr_outcome m' = MUTATION_RECONCILED" "mr_evidence m' = Some (MutationEvidence e)"
    "me_action_id e = ''act-1''"
    using 2 unfolding u by (auto split: option.splits remediation_evidence.splits)
  with m t u [unfolded l] show ?thesis by blast
qed

section \<open>Restored repositories\<close>

lemma base_ref_hd: "base_ref (d # s) = x # xs \<Longrightarrow> x = d"
  by (cases s) (auto split: if_splits)

lemma base_ref_base: "base_ref (base_ref s @ ''#v'' @ t) = base_ref s"
proof (induction s rule: base_ref.induct)
  case (3 c d s)
  then show ?case
    by (cases "base_ref (d # s)"; cases "d = CHR ''v''") (auto dest: base_ref_hd)
qed auto

text \<open>A repository rebuilt from its stored artifacts refuses the next write: after a first write to an
  artifact, a store constructed from the resulting artifacts (as a resumed session constructs it)
  restarts the revision counter, so the next valid write to that artifact would reuse the reference
  that is already stored and is refused; and the state before the first write, which its evidence
  names, can no longer be resolved.\<close>

theorem rebuilt_repository_refuses_write:
  assumes "repo_ok r" and "dict_get (rp_artifacts r) i = Some a" and "rp_artifacts r = [(i, a)]"
    and "rp_revision r = []" and "apply_requirement i q old new r = (r', Written m)"
  shows "snd (apply_requirement i q' old' new' (new_repository (rp_artifacts r'))) = WriteError \<and>
    repo_resolve (da_content_ref a) (new_repository (rp_artifacts r')) = None"
proof -
  from apply_requirement_Written [OF assms(5)] assms(2) have
    m: "m = mutated_artifact a q new (revision_of r i + 1)" and
    fresh: "dict_get (rp_snapshots r) (da_content_ref m) = None" and
    arts: "rp_artifacts r' = dict_put i m (rp_artifacts r)" by auto
  have rev: "revision_of r i = 1" using assms(4) by (simp add: revision_of_def)
  have r': "rp_artifacts r' = [(i, m)]" using arts assms(3) by simp
  have ref: "da_content_ref m = base_ref (da_content_ref a) @ ''#v'' @ show_nat 2"
    by (simp add: m mutated_artifact_def rev numeral_2_eq_2)
  have again: "da_content_ref (mutated_artifact m q' new' 2) = da_content_ref m"
    using base_ref_base [of "da_content_ref a" "show_nat 2"] by (simp add: mutated_artifact_def ref)
  have "da_content_ref m \<noteq> da_content_ref a"
    using fresh assms(1,2) by (auto simp: repo_ok_def)
  then have "repo_resolve (da_content_ref a) (new_repository [(i, m)]) = None"
    by (simp add: repo_resolve_def new_repository_def)
  moreover have "snd (apply_requirement i q' old' new' (new_repository [(i, m)])) = WriteError"
    using again
    by (simp add: apply_requirement_def new_repository_def revision_of_def Let_def numeral_2_eq_2)
  ultimately show ?thesis by (simp add: r')
qed

theorem rebuilt_repository_refuses_write_witness:
  "snd (apply_requirement ''a'' ''req-2'' ''42'' ''43''
     (new_repository (rp_artifacts (fst (apply_requirement ''a'' ''req-1'' ''LEFT'' ''TOP_RIGHT''
       (sample_repository ''LEFT'')))))) = WriteError"
proof -
  let ?w = "apply_requirement ''a'' ''req-1'' ''LEFT'' ''TOP_RIGHT'' (sample_repository ''LEFT'')"
  have "(case snd ?w of Written m \<Rightarrow> True | _ \<Rightarrow> False)" by code_simp
  then obtain r' m where w: "?w = (r', Written m)"
    by (cases ?w; cases "snd ?w") auto
  have "dict_get (rp_artifacts (sample_repository ''LEFT'')) ''a'' = Some (sample_artifact ''a'' ''LEFT'')"
    and "rp_artifacts (sample_repository ''LEFT'') = [(''a'', sample_artifact ''a'' ''LEFT'')]"
    and "rp_revision (sample_repository ''LEFT'') = []"
    by (simp_all add: sample_repository_def new_repository_def)
  from rebuilt_repository_refuses_write [OF sample_repository_ok this w] w show ?thesis by simp
qed

end
