(* ===== verification/Config.thy ===== *)
theory Config
  imports Complex_Main Models
begin

text \<open>
  The runtime configuration boundary (\<open>config.py\<close>): the frozen configuration dataclasses with
  the checks of their \<open>__post_init__\<close>, the provider, screening and persistence configurations, and
  \<open>DriftZeroConfig.from_env\<close>, which builds all of them from a string mapping.

  A Python \<open>float\<close> is \<open>pyfloat\<close>: a rational, an infinity or NaN, ordered as Python orders them
  (every comparison with NaN is false). The text-to-number conversion \<open>float(raw)\<close> is the parameter
  \<open>to_float\<close> of the definitions (\<open>None\<close> is its \<open>ValueError\<close>); \<open>int(raw)\<close> is written out.
  A dataclass whose \<open>__post_init__\<close> raises is \<open>Inl\<close> of the reason.
\<close>

section \<open>Numbers\<close>

datatype pyfloat = NaN | NegInf | PosInf | Fin rat

fun fl_less :: "pyfloat \<Rightarrow> pyfloat \<Rightarrow> bool" where
  "fl_less (Fin x) (Fin y) \<longleftrightarrow> x < y"
| "fl_less NegInf (Fin _) \<longleftrightarrow> True"
| "fl_less NegInf PosInf \<longleftrightarrow> True"
| "fl_less (Fin _) PosInf \<longleftrightarrow> True"
| "fl_less _ _ \<longleftrightarrow> False"

definition fl_le :: "pyfloat \<Rightarrow> pyfloat \<Rightarrow> bool" where
  "fl_le x y \<longleftrightarrow> x \<noteq> NaN \<and> (x = y \<or> fl_less x y)"

text \<open>
  \<open>int(raw)\<close>: surrounding whitespace is ignored, an optional sign, then decimal digits with single
  underscores between them.
\<close>

definition is_digit :: "char \<Rightarrow> bool" where
  "is_digit c \<longleftrightarrow> (let n = (of_char c :: nat) in 48 \<le> n \<and> n \<le> 57)"

fun digits_value :: "nat \<Rightarrow> str \<Rightarrow> nat option" where
  "digits_value acc [] = Some acc"
| "digits_value acc (c # cs) =
     (if is_digit c then digits_value (acc * 10 + (of_char c - 48)) cs
      else if c = CHR ''_'' then
        (case cs of
           [] \<Rightarrow> None
         | d # ds \<Rightarrow>
             if is_digit d then digits_value (acc * 10 + (of_char d - 48)) ds else None)
      else None)"

definition unsigned_value :: "str \<Rightarrow> nat option" where
  "unsigned_value s =
     (case s of [] \<Rightarrow> None | c # _ \<Rightarrow> if is_digit c then digits_value 0 s else None)"

definition py_int :: "str \<Rightarrow> int option" where
  "py_int raw =
     (case py_strip raw of
        [] \<Rightarrow> None
      | c # cs \<Rightarrow>
          if c = CHR ''-'' then map_option (\<lambda>n. - int n) (unsigned_value cs)
          else if c = CHR ''+'' then map_option int (unsigned_value cs)
          else map_option int (unsigned_value (c # cs)))"

section \<open>Bounds of the semantic and side-effect calls\<close>

datatype config_error =
    EmptyModelId
  | NonPositiveTimeout
  | NegativeRetries
  | RetriesAboveCap int
  | SideEffectAutoRetry
  | NotANumber str str
  | NotAnInteger str str
  | MissingSettings "str list"

type_synonym 'a cfg = "config_error + 'a"

fun cfg_bind :: "'a cfg \<Rightarrow> ('a \<Rightarrow> 'b cfg) \<Rightarrow> 'b cfg" where
  "cfg_bind (Inl e) f = Inl e"
| "cfg_bind (Inr x) f = f x"

definition DEFAULT_SEMANTIC_MODEL_ID :: str where
  "DEFAULT_SEMANTIC_MODEL_ID = ''gemini-3.5-flash''"

definition DEFAULT_SEMANTIC_TIMEOUT_SECONDS :: pyfloat where
  "DEFAULT_SEMANTIC_TIMEOUT_SECONDS = Fin 60"

definition DEFAULT_SEMANTIC_MAX_RETRIES :: int where
  "DEFAULT_SEMANTIC_MAX_RETRIES = 2"

definition DEFAULT_SIDE_EFFECT_TIMEOUT_SECONDS :: pyfloat where
  "DEFAULT_SIDE_EFFECT_TIMEOUT_SECONDS = Fin 30"

definition DEFAULT_GEMMA_TIMEOUT_SECONDS :: pyfloat where
  "DEFAULT_GEMMA_TIMEOUT_SECONDS = Fin 60"

definition MAX_ALLOWED_SEMANTIC_RETRIES :: int where
  "MAX_ALLOWED_SEMANTIC_RETRIES = 2"

definition ENV_PREFIX :: str where
  "ENV_PREFIX = ''DRIFTZERO_''"

record semantic_config =
  sm_model_id :: str
  sm_timeout_seconds :: pyfloat
  sm_max_retries :: int
  sm_allow_structured_repair :: bool

definition check_semantic :: "semantic_config \<Rightarrow> semantic_config cfg" where
  "check_semantic c =
     (if blank (sm_model_id c) then Inl EmptyModelId
      else if fl_le (sm_timeout_seconds c) (Fin 0) then Inl NonPositiveTimeout
      else if sm_max_retries c < 0 then Inl NegativeRetries
      else if sm_max_retries c > MAX_ALLOWED_SEMANTIC_RETRIES
      then Inl (RetriesAboveCap (sm_max_retries c))
      else Inr c)"

definition max_attempts :: "semantic_config \<Rightarrow> int" where
  "max_attempts c = sm_max_retries c + 1"

record side_effect_config =
  se_timeout_seconds :: pyfloat
  se_auto_retry :: bool

definition check_side_effect :: "side_effect_config \<Rightarrow> side_effect_config cfg" where
  "check_side_effect c =
     (if fl_le (se_timeout_seconds c) (Fin 0) then Inl NonPositiveTimeout
      else if se_auto_retry c then Inl SideEffectAutoRetry
      else Inr c)"

record gemma_config =
  gm_timeout_seconds :: pyfloat

definition check_gemma :: "gemma_config \<Rightarrow> gemma_config cfg" where
  "check_gemma c =
     (if fl_le (gm_timeout_seconds c) (Fin 0) then Inl NonPositiveTimeout else Inr c)"

section \<open>Providers, screening, persistence\<close>

definition SEMANTIC_PROVIDER_GOOGLE_ADK :: str where
  "SEMANTIC_PROVIDER_GOOGLE_ADK = ''google_adk''"

definition SEMANTIC_PROVIDER_DISABLED :: str where
  "SEMANTIC_PROVIDER_DISABLED = ''disabled''"

definition FIELD_PROVIDER_VERTEX_MAAS :: str where
  "FIELD_PROVIDER_VERTEX_MAAS = ''vertex_maas''"

definition FIELD_PROVIDER_DISABLED :: str where
  "FIELD_PROVIDER_DISABLED = ''disabled''"

definition DEFAULT_GEMMA_MODEL :: str where
  "DEFAULT_GEMMA_MODEL = ''google/gemma-4-26b-a4b-it-maas''"

text \<open>One record for the two provider configurations, which have the same fields.\<close>

record provider_config =
  pv_provider :: str
  pv_project :: str
  pv_location :: str
  pv_model :: str
  pv_semantic :: semantic_config

definition semantic_enabled :: "provider_config \<Rightarrow> bool" where
  "semantic_enabled c \<longleftrightarrow> pv_provider c \<notin> {'''', SEMANTIC_PROVIDER_DISABLED}"

definition semantic_is_live :: "provider_config \<Rightarrow> bool" where
  "semantic_is_live c \<longleftrightarrow> pv_provider c = SEMANTIC_PROVIDER_GOOGLE_ADK"

definition semantic_missing :: "provider_config \<Rightarrow> str list" where
  "semantic_missing c =
     (if \<not> semantic_is_live c then []
      else add_if (blank (pv_project c)) (ENV_PREFIX @ ''GCP_PROJECT'') @
           add_if (blank (pv_location c)) (ENV_PREFIX @ ''GEMINI_LOCATION'') @
           add_if (blank (pv_model c)) (ENV_PREFIX @ ''GEMINI_MODEL''))"

definition semantic_validated :: "provider_config \<Rightarrow> provider_config cfg" where
  "semantic_validated c =
     (if semantic_missing c \<noteq> [] then Inl (MissingSettings (semantic_missing c)) else Inr c)"

definition field_enabled :: "provider_config \<Rightarrow> bool" where
  "field_enabled c \<longleftrightarrow> pv_provider c \<notin> {'''', FIELD_PROVIDER_DISABLED}"

definition field_is_live :: "provider_config \<Rightarrow> bool" where
  "field_is_live c \<longleftrightarrow> pv_provider c = FIELD_PROVIDER_VERTEX_MAAS"

definition field_missing :: "provider_config \<Rightarrow> str list" where
  "field_missing c =
     (if \<not> field_is_live c then []
      else add_if (blank (pv_project c)) (ENV_PREFIX @ ''GCP_PROJECT'') @
           add_if (blank (pv_location c)) (ENV_PREFIX @ ''GCP_LOCATION'') @
           add_if (blank (pv_model c)) (ENV_PREFIX @ ''GEMMA_MODEL''))"

definition field_validated :: "provider_config \<Rightarrow> provider_config cfg" where
  "field_validated c =
     (if field_missing c \<noteq> [] then Inl (MissingSettings (field_missing c)) else Inr c)"

definition endpoint :: "provider_config \<Rightarrow> str" where
  "endpoint c =
     (if pv_project c = [] then ''''
      else ''https://aiplatform.googleapis.com/v1/projects/'' @ pv_project c @ ''/locations/'' @
           (if pv_location c = [] then ''global'' else pv_location c) @
           ''/endpoints/openapi/chat/completions'')"

record screening_config =
  sc_provider :: str
  sc_project :: str
  sc_location :: str
  sc_template :: str

definition screening_enabled :: "screening_config \<Rightarrow> bool" where
  "screening_enabled c \<longleftrightarrow> sc_provider c = ''model_armor''"

definition template_path :: "screening_config \<Rightarrow> str" where
  "template_path c =
     (if \<not> screening_enabled c \<or> blank (sc_project c) then ''''
      else ''projects/'' @ sc_project c @ ''/locations/'' @ sc_location c @ ''/templates/'' @
           sc_template c)"

definition screening_missing :: "screening_config \<Rightarrow> str list" where
  "screening_missing c =
     (if \<not> screening_enabled c then []
      else add_if (blank (sc_project c)) (ENV_PREFIX @ ''GCP_PROJECT'') @
           add_if (blank (sc_template c)) (ENV_PREFIX @ ''ARMOR_TEMPLATE''))"

definition screening_validated :: "screening_config \<Rightarrow> screening_config cfg" where
  "screening_validated c =
     (if screening_missing c \<noteq> [] then Inl (MissingSettings (screening_missing c)) else Inr c)"

record persistence_config =
  ps_backend :: str
  ps_project :: str
  ps_database :: str
  ps_evidence_bucket :: str
  ps_region :: str

definition is_durable :: "persistence_config \<Rightarrow> bool" where
  "is_durable c \<longleftrightarrow> ps_backend c = ''firestore''"

definition persistence_missing :: "persistence_config \<Rightarrow> str list" where
  "persistence_missing c =
     (if \<not> is_durable c then []
      else add_if (blank (ps_project c)) (ENV_PREFIX @ ''GCP_PROJECT'') @
           add_if (blank (ps_database c)) (ENV_PREFIX @ ''FIRESTORE_DATABASE'') @
           add_if (blank (ps_evidence_bucket c)) (ENV_PREFIX @ ''EVIDENCE_BUCKET''))"

definition persistence_validated :: "persistence_config \<Rightarrow> persistence_config cfg" where
  "persistence_validated c =
     (if persistence_missing c \<noteq> [] then Inl (MissingSettings (persistence_missing c)) else Inr c)"

section \<open>The application configuration\<close>

record driftzero_config =
  dz_semantic :: semantic_config
  dz_side_effect :: side_effect_config
  dz_gemma :: gemma_config
  dz_field_provider :: provider_config
  dz_semantic_provider :: provider_config
  dz_persistence :: persistence_config
  dz_screening :: screening_config

type_synonym env = "(str, str) dict"

definition env_raw :: "env \<Rightarrow> str \<Rightarrow> str option" where
  "env_raw env name = dict_get env (ENV_PREFIX @ name)"

definition env_float :: "(str \<Rightarrow> pyfloat option) \<Rightarrow> env \<Rightarrow> str \<Rightarrow> pyfloat \<Rightarrow> pyfloat cfg" where
  "env_float to_float env name fallback =
     (case env_raw env name of
        None \<Rightarrow> Inr fallback
      | Some raw \<Rightarrow>
          if blank raw then Inr fallback
          else case to_float raw of
                 None \<Rightarrow> Inl (NotANumber (ENV_PREFIX @ name) raw)
               | Some x \<Rightarrow> Inr x)"

definition env_int :: "env \<Rightarrow> str \<Rightarrow> int \<Rightarrow> int cfg" where
  "env_int env name fallback =
     (case env_raw env name of
        None \<Rightarrow> Inr fallback
      | Some raw \<Rightarrow>
          if blank raw then Inr fallback
          else case py_int raw of
                 None \<Rightarrow> Inl (NotAnInteger (ENV_PREFIX @ name) raw)
               | Some x \<Rightarrow> Inr x)"

definition env_text :: "env \<Rightarrow> str \<Rightarrow> str \<Rightarrow> str" where
  "env_text env name fallback =
     (case env_raw env name of
        None \<Rightarrow> fallback
      | Some raw \<Rightarrow> if raw = [] \<or> blank raw then fallback else py_strip raw)"

text \<open>
  \<open>from_env\<close>, in the order the source evaluates it: the Gemma timeout first, then the dataclasses
  in the order of the keyword arguments, each number read just before its dataclass is checked.
\<close>

definition model_id_of :: "env \<Rightarrow> str" where
  "model_id_of env =
     (case env_raw env ''SEMANTIC_MODEL_ID'' of
        None \<Rightarrow> DEFAULT_SEMANTIC_MODEL_ID
      | Some raw \<Rightarrow> if raw = [] then DEFAULT_SEMANTIC_MODEL_ID else raw)"

definition semantic_from ::
  "(str \<Rightarrow> pyfloat option) \<Rightarrow> env \<Rightarrow> str \<Rightarrow> semantic_config cfg" where
  "semantic_from to_float env model =
     cfg_bind (env_float to_float env ''SEMANTIC_TIMEOUT_SECONDS'' DEFAULT_SEMANTIC_TIMEOUT_SECONDS)
       (\<lambda>timeout. cfg_bind (env_int env ''SEMANTIC_MAX_RETRIES'' DEFAULT_SEMANTIC_MAX_RETRIES)
         (\<lambda>retries. check_semantic
            \<lparr>sm_model_id = model, sm_timeout_seconds = timeout, sm_max_retries = retries,
             sm_allow_structured_repair = True\<rparr>))"

definition field_semantic_from :: "env \<Rightarrow> str \<Rightarrow> pyfloat \<Rightarrow> semantic_config cfg" where
  "field_semantic_from env model timeout =
     cfg_bind (env_int env ''SEMANTIC_MAX_RETRIES'' DEFAULT_SEMANTIC_MAX_RETRIES)
       (\<lambda>retries. check_semantic
          \<lparr>sm_model_id = model, sm_timeout_seconds = timeout, sm_max_retries = retries,
           sm_allow_structured_repair = False\<rparr>)"

definition from_env :: "(str \<Rightarrow> pyfloat option) \<Rightarrow> env \<Rightarrow> driftzero_config cfg" where
  "from_env to_float env =
     (let model_id = model_id_of env;
          gemini = env_text env ''GEMINI_MODEL'' model_id;
          gemma_model = env_text env ''GEMMA_MODEL'' DEFAULT_GEMMA_MODEL
      in cfg_bind (env_float to_float env ''GEMMA_TIMEOUT_SECONDS'' DEFAULT_GEMMA_TIMEOUT_SECONDS)
        (\<lambda>gemma_timeout. cfg_bind (semantic_from to_float env model_id)
        (\<lambda>semantic. cfg_bind
           (cfg_bind (env_float to_float env ''SIDE_EFFECT_TIMEOUT_SECONDS''
                        DEFAULT_SIDE_EFFECT_TIMEOUT_SECONDS)
              (\<lambda>t. check_side_effect \<lparr>se_timeout_seconds = t, se_auto_retry = False\<rparr>))
        (\<lambda>side_effect. cfg_bind (check_gemma \<lparr>gm_timeout_seconds = gemma_timeout\<rparr>)
        (\<lambda>gemma. cfg_bind (semantic_from to_float env gemini)
        (\<lambda>provider_semantic. cfg_bind (field_semantic_from env gemma_model gemma_timeout)
        (\<lambda>field_semantic. Inr
          \<lparr>dz_semantic = semantic,
           dz_side_effect = side_effect,
           dz_gemma = gemma,
           dz_field_provider =
             \<lparr>pv_provider = env_text env ''FIELD_PROVIDER'' FIELD_PROVIDER_DISABLED,
              pv_project = env_text env ''GCP_PROJECT'' '''',
              pv_location = env_text env ''GCP_LOCATION'' ''global'',
              pv_model = gemma_model, pv_semantic = field_semantic\<rparr>,
           dz_semantic_provider =
             \<lparr>pv_provider = env_text env ''SEMANTIC_PROVIDER'' SEMANTIC_PROVIDER_DISABLED,
              pv_project = env_text env ''GCP_PROJECT'' '''',
              pv_location = env_text env ''GEMINI_LOCATION'' ''global'',
              pv_model = gemini, pv_semantic = provider_semantic\<rparr>,
           dz_persistence =
             \<lparr>ps_backend = env_text env ''PERSISTENCE'' ''memory'',
              ps_project = env_text env ''GCP_PROJECT'' '''',
              ps_database = env_text env ''FIRESTORE_DATABASE'' ''(default)'',
              ps_evidence_bucket = env_text env ''EVIDENCE_BUCKET'' '''',
              ps_region = env_text env ''GCP_REGION'' ''''\<rparr>,
           dz_screening =
             \<lparr>sc_provider = env_text env ''SCREENING'' ''disabled'',
              sc_project = env_text env ''GCP_PROJECT'' '''',
              sc_location = env_text env ''ARMOR_LOCATION'' ''us-central1'',
              sc_template = env_text env ''ARMOR_TEMPLATE'' ''driftzero-untrusted-artifact-text''\<rparr>\<rparr>)))))))"

section \<open>Bounds\<close>

definition semantic_ok :: "semantic_config \<Rightarrow> bool" where
  "semantic_ok c \<longleftrightarrow>
     \<not> blank (sm_model_id c) \<and> \<not> fl_le (sm_timeout_seconds c) (Fin 0) \<and>
     0 \<le> sm_max_retries c \<and> sm_max_retries c \<le> MAX_ALLOWED_SEMANTIC_RETRIES"

lemma cfg_bind_Inr_iff: "cfg_bind r f = Inr y \<longleftrightarrow> (\<exists>x. r = Inr x \<and> f x = Inr y)"
  by (cases r) auto

lemma check_semantic_Inr_iff: "check_semantic c = Inr d \<longleftrightarrow> semantic_ok c \<and> d = c"
  by (auto simp: check_semantic_def semantic_ok_def)

lemma max_attempts_bounds: "semantic_ok c \<Longrightarrow> 1 \<le> max_attempts c \<and> max_attempts c \<le> 3"
  by (simp add: semantic_ok_def max_attempts_def MAX_ALLOWED_SEMANTIC_RETRIES_def)

lemma semantic_from_ok: "semantic_from to_float env m = Inr c \<Longrightarrow> semantic_ok c"
  by (auto simp: semantic_from_def cfg_bind_Inr_iff check_semantic_Inr_iff)

lemma field_semantic_from_ok:
  "field_semantic_from env m t = Inr c \<Longrightarrow> semantic_ok c \<and> \<not> sm_allow_structured_repair c"
  by (auto simp: field_semantic_from_def cfg_bind_Inr_iff check_semantic_Inr_iff)

lemma from_env_parts:
  assumes "from_env to_float env = Inr c"
  shows "semantic_ok (dz_semantic c)" "semantic_ok (pv_semantic (dz_semantic_provider c))"
    "semantic_ok (pv_semantic (dz_field_provider c))"
    "\<not> sm_allow_structured_repair (pv_semantic (dz_field_provider c))"
    "\<not> se_auto_retry (dz_side_effect c)"
  using assms
  by (auto simp: from_env_def Let_def cfg_bind_Inr_iff check_side_effect_def
      split: if_splits dest: semantic_from_ok field_semantic_from_ok)

lemma blank_text_default: "\<not> blank d \<Longrightarrow> \<not> blank (env_text env k d)"
proof -
  assume d: "\<not> blank d"
  have "\<not> blank raw \<Longrightarrow> \<not> blank (py_strip raw)" for raw
    unfolding blank_def by (metis blank_def blank_iff dropWhile_eq_Nil_conv py_strip_def
        rev_is_Nil_conv strip_by_def strip_by_Nil_iff)
  with d show ?thesis by (simp add: env_text_def split: option.split)
qed

lemmas loading = from_env_def env_float_def env_int_def env_text_def model_id_of_def
  semantic_from_def field_semantic_from_def check_semantic_def check_side_effect_def check_gemma_def
  fl_le_def blank_def MAX_ALLOWED_SEMANTIC_RETRIES_def

lemmas defaults = DEFAULT_SEMANTIC_MODEL_ID_def DEFAULT_SEMANTIC_TIMEOUT_SECONDS_def
  DEFAULT_GEMMA_TIMEOUT_SECONDS_def DEFAULT_SIDE_EFFECT_TIMEOUT_SECONDS_def
  DEFAULT_SEMANTIC_MAX_RETRIES_def DEFAULT_GEMMA_MODEL_def SEMANTIC_PROVIDER_DISABLED_def
  SEMANTIC_PROVIDER_GOOGLE_ADK_def FIELD_PROVIDER_DISABLED_def FIELD_PROVIDER_VERTEX_MAAS_def

text \<open>C39. No environment loosens the bounds: whatever the environment holds, and however floats are
  read, loading the configuration either fails with an error or yields semantic settings that allow
  between one and three attempts with a deadline that is not zero or negative, a field provider
  without the structured repair, and side effects that are never repeated automatically; and an
  environment with no setting loads with providers, screening and durable persistence all off.\<close>

theorem config_bounds:
  "(case from_env to_float env of
      Inl e \<Rightarrow> True
    | Inr c \<Rightarrow>
        list_all (\<lambda>s. 1 \<le> max_attempts s \<and> max_attempts s \<le> 3 \<and>
            \<not> fl_le (sm_timeout_seconds s) (Fin 0) \<and> \<not> blank (sm_model_id s))
          [dz_semantic c, pv_semantic (dz_semantic_provider c), pv_semantic (dz_field_provider c)] \<and>
        \<not> sm_allow_structured_repair (pv_semantic (dz_field_provider c)) \<and>
        \<not> se_auto_retry (dz_side_effect c)) \<and>
   (\<exists>c. from_env to_float [] = Inr c \<and> \<not> semantic_is_live (dz_semantic_provider c) \<and>
      \<not> field_is_live (dz_field_provider c) \<and> \<not> screening_enabled (dz_screening c) \<and>
      \<not> is_durable (dz_persistence c))"
proof (rule conjI)
  show "case from_env to_float env of
      Inl e \<Rightarrow> True
    | Inr c \<Rightarrow>
        list_all (\<lambda>s. 1 \<le> max_attempts s \<and> max_attempts s \<le> 3 \<and>
            \<not> fl_le (sm_timeout_seconds s) (Fin 0) \<and> \<not> blank (sm_model_id s))
          [dz_semantic c, pv_semantic (dz_semantic_provider c), pv_semantic (dz_field_provider c)] \<and>
        \<not> sm_allow_structured_repair (pv_semantic (dz_field_provider c)) \<and>
        \<not> se_auto_retry (dz_side_effect c)"
  proof (cases "from_env to_float env")
    case (Inr c)
    note ok = from_env_parts [OF Inr]
    show ?thesis
      using ok max_attempts_bounds [OF ok(1)] max_attempts_bounds [OF ok(2)] max_attempts_bounds [OF ok(3)]
      by (simp add: Inr semantic_ok_def)
  qed simp
  have raw: "env_raw [] n = None" for n by (simp add: env_raw_def)
  show "\<exists>c. from_env to_float [] = Inr c \<and> \<not> semantic_is_live (dz_semantic_provider c) \<and>
      \<not> field_is_live (dz_field_provider c) \<and> \<not> screening_enabled (dz_screening c) \<and>
      \<not> is_durable (dz_persistence c)"
    by (simp add: loading defaults Let_def raw py_strip_def strip_by_def py_space_def
        semantic_is_live_def field_is_live_def screening_enabled_def is_durable_def)
qed

text \<open>The one value the checks let through that bounds nothing: a timeout that is not a number is
  neither zero nor negative, and no elapsed time exceeds it.\<close>

lemma nan_timeout_unbounded:
  assumes "to_float ''nan'' = Some NaN"
  shows "\<exists>c. from_env to_float [(''DRIFTZERO_SEMANTIC_TIMEOUT_SECONDS'', ''nan'')] = Inr c \<and>
    sm_timeout_seconds (dz_semantic c) = NaN" "\<not> fl_less NaN elapsed"
proof -
  show "\<not> fl_less NaN elapsed" by simp
  show "\<exists>c. from_env to_float [(''DRIFTZERO_SEMANTIC_TIMEOUT_SECONDS'', ''nan'')] = Inr c \<and>
    sm_timeout_seconds (dz_semantic c) = NaN"
    by (simp add: loading defaults Let_def env_raw_def ENV_PREFIX_def assms py_strip_def strip_by_def py_space_def)
qed

end
