(* ===== verification/Retry.thy ===== *)
theory Retry
  imports Config
begin

text \<open>
  The bounded retry and timeout policy of semantic calls (\<open>retry.py\<close>).

  The callable and the injectable clock act on a world of any type \<open>'w\<close>: \<open>call deadline w\<close> is the
  returned value or the raised exception, with the next world, and \<open>clock w\<close> reads the time. The
  subtraction of two clock readings is the parameter \<open>minus_fl\<close> (IEEE subtraction of the platform).
  The \<open>for\<close> loop over \<open>range(1, config.max_attempts + 1)\<close> recurses on the list of attempt numbers.
\<close>

section \<open>Outcomes and failures\<close>

datatype retry_outcome = RO_SUCCEEDED | RO_EXHAUSTED | RO_NON_TRANSIENT

datatype failure_class = FC_TRANSIENT | FC_MALFORMED_OUTPUT | FC_NON_TRANSIENT | FC_TIMEOUT

text \<open>A raised exception: the class the classification looks at, its name and its message.\<close>

datatype exn_class = MalformedStructuredOutput | TransientModelError | TimeoutError | OtherException

record call_exn =
  xn_class :: exn_class
  xn_type_name :: str
  xn_message :: str

definition classify_failure :: "call_exn \<Rightarrow> failure_class" where
  "classify_failure e =
     (case xn_class e of
        MalformedStructuredOutput \<Rightarrow> FC_MALFORMED_OUTPUT
      | TransientModelError \<Rightarrow> FC_TRANSIENT
      | TimeoutError \<Rightarrow> FC_TIMEOUT
      | OtherException \<Rightarrow> FC_NON_TRANSIENT)"

datatype attempt_error = Raised str str | DeadlineExceeded pyfloat

record attempt_record =
  at_attempt :: int
  at_succeeded :: bool
  at_elapsed_seconds :: pyfloat
  at_deadline_seconds :: pyfloat
  at_failure_class :: "failure_class option"
  at_error :: "attempt_error option"
  at_was_repair_attempt :: bool

datatype final_error = AttemptError attempt_error | NoAttemptMade

record 'v retry_result =
  rt_outcome :: retry_outcome
  rt_value :: "'v option"
  rt_attempts :: "attempt_record list"
  rt_final_error :: "final_error option"

definition retry_succeeded :: "'v retry_result \<Rightarrow> bool" where
  "retry_succeeded r \<longleftrightarrow> rt_outcome r = RO_SUCCEEDED"

definition attempt_count :: "'v retry_result \<Rightarrow> nat" where
  "attempt_count r = length (rt_attempts r)"

definition repair_attempts_used :: "'v retry_result \<Rightarrow> nat" where
  "repair_attempts_used r = length (filter at_was_repair_attempt (rt_attempts r))"

section \<open>The call loop\<close>

definition is_repair :: "attempt_record list \<Rightarrow> bool" where
  "is_repair attempts \<longleftrightarrow>
     attempts \<noteq> [] \<and> at_failure_class (last attempts) = Some FC_MALFORMED_OUTPUT"

definition failed_attempt ::
  "int \<Rightarrow> pyfloat \<Rightarrow> pyfloat \<Rightarrow> failure_class \<Rightarrow> attempt_error \<Rightarrow> bool \<Rightarrow> attempt_record" where
  "failed_attempt n elapsed deadline failure err repair =
     \<lparr>at_attempt = n, at_succeeded = False, at_elapsed_seconds = elapsed,
      at_deadline_seconds = deadline, at_failure_class = Some failure, at_error = Some err,
      at_was_repair_attempt = repair\<rparr>"

definition good_attempt :: "int \<Rightarrow> pyfloat \<Rightarrow> pyfloat \<Rightarrow> bool \<Rightarrow> attempt_record" where
  "good_attempt n elapsed deadline repair =
     \<lparr>at_attempt = n, at_succeeded = True, at_elapsed_seconds = elapsed,
      at_deadline_seconds = deadline, at_failure_class = None, at_error = None,
      at_was_repair_attempt = repair\<rparr>"

definition stopped :: "retry_outcome \<Rightarrow> attempt_record list \<Rightarrow> 'v retry_result" where
  "stopped outcome attempts =
     \<lparr>rt_outcome = outcome, rt_value = None, rt_attempts = attempts,
      rt_final_error =
        (if attempts = [] then Some NoAttemptMade
         else map_option AttemptError (at_error (last attempts)))\<rparr>"

primrec attempt_loop ::
  "(pyfloat \<Rightarrow> pyfloat \<Rightarrow> pyfloat) \<Rightarrow> (pyfloat \<Rightarrow> 'w \<Rightarrow> (call_exn + 'v) \<times> 'w) \<Rightarrow> ('w \<Rightarrow> pyfloat \<times> 'w) \<Rightarrow>
     semantic_config \<Rightarrow> int list \<Rightarrow> attempt_record list \<Rightarrow> bool \<Rightarrow> 'w \<Rightarrow> 'v retry_result \<times> 'w" where
  "attempt_loop minus_fl call clock config [] attempts repair_used w =
     (stopped RO_EXHAUSTED attempts, w)"
| "attempt_loop minus_fl call clock config (n # ns) attempts repair_used w =
     (let deadline = sm_timeout_seconds config;
          repair = is_repair attempts;
          (started, w1) = clock w;
          (result, w2) = call deadline w1;
          (now, w3) = clock w2;
          elapsed = minus_fl now started
      in case result of
           Inl e \<Rightarrow>
             let failure = classify_failure e;
                 attempts' = attempts @
                   [failed_attempt n elapsed deadline failure
                      (Raised (xn_type_name e) (xn_message e)) repair]
             in if failure = FC_NON_TRANSIENT then (stopped RO_NON_TRANSIENT attempts', w3)
                else if failure = FC_MALFORMED_OUTPUT then
                  (if repair_used \<or> \<not> sm_allow_structured_repair config
                   then (stopped RO_EXHAUSTED attempts', w3)
                   else attempt_loop minus_fl call clock config ns attempts' True w3)
                else attempt_loop minus_fl call clock config ns attempts' repair_used w3
         | Inr v \<Rightarrow>
             if fl_less deadline elapsed then
               attempt_loop minus_fl call clock config ns
                 (attempts @ [failed_attempt n elapsed deadline FC_TIMEOUT
                                (DeadlineExceeded deadline) repair]) repair_used w3
             else
               (\<lparr>rt_outcome = RO_SUCCEEDED, rt_value = Some v,
                 rt_attempts = attempts @ [good_attempt n elapsed deadline repair],
                 rt_final_error = None\<rparr>, w3))"

definition run_semantic_call ::
  "(pyfloat \<Rightarrow> pyfloat \<Rightarrow> pyfloat) \<Rightarrow> (pyfloat \<Rightarrow> 'w \<Rightarrow> (call_exn + 'v) \<times> 'w) \<Rightarrow> ('w \<Rightarrow> pyfloat \<times> 'w) \<Rightarrow>
     semantic_config \<Rightarrow> 'w \<Rightarrow> 'v retry_result \<times> 'w" where
  "run_semantic_call minus_fl call clock config w =
     attempt_loop minus_fl call clock config [1..max_attempts config] [] False w"

definition side_effect_is_retryable :: "bool \<Rightarrow> bool" where
  "side_effect_is_retryable reconciliation_proved_safe = reconciliation_proved_safe"

section \<open>What a run can look like\<close>

text \<open>
  \<open>retried\<close>: a list of attempts after which the loop goes on. All failed in a way that may be
  retried, at most one of them with malformed output, and an attempt is a repair exactly when the
  one before it was malformed.
\<close>

definition malformed :: "attempt_record \<Rightarrow> bool" where
  "malformed a \<longleftrightarrow> at_failure_class a = Some FC_MALFORMED_OUTPUT"

primrec repair_flags :: "bool \<Rightarrow> attempt_record list \<Rightarrow> bool" where
  "repair_flags b [] \<longleftrightarrow> True"
| "repair_flags b (a # as) \<longleftrightarrow> at_was_repair_attempt a = b \<and> repair_flags (malformed a) as"

lemma repair_flags_append:
  "repair_flags b (xs @ [a]) \<longleftrightarrow>
     repair_flags b xs \<and> at_was_repair_attempt a = (if xs = [] then b else malformed (last xs))"
  by (induction xs arbitrary: b) auto

lemma repairs_are_malformed:
  "repair_flags b as \<Longrightarrow>
   length (filter at_was_repair_attempt as) =
     (if as = [] then 0 else (if b then 1 else 0) + length (filter malformed (butlast as)))"
  by (induction as arbitrary: b) auto

definition retried :: "semantic_config \<Rightarrow> bool \<Rightarrow> attempt_record list \<Rightarrow> bool" where
  "retried config repair_used as \<longleftrightarrow>
     (\<forall>a \<in> set as. \<not> at_succeeded a \<and> at_failure_class a \<noteq> None \<and>
        at_failure_class a \<noteq> Some FC_NON_TRANSIENT \<and> at_error a \<noteq> None \<and>
        at_deadline_seconds a = sm_timeout_seconds config) \<and>
     length (filter malformed as) = (if repair_used then 1 else 0) \<and>
     (repair_used \<longrightarrow> sm_allow_structured_repair config) \<and>
     repair_flags False as"

text \<open>The contract of a finished run.\<close>

definition run_ok :: "semantic_config \<Rightarrow> 'v retry_result \<Rightarrow> bool" where
  "run_ok config r \<longleftrightarrow>
     int (attempt_count r) \<le> max_attempts config \<and>
     map at_attempt (rt_attempts r) = [1..int (attempt_count r)] \<and>
     repair_attempts_used r \<le> (if sm_allow_structured_repair config then 1 else 0) \<and>
     (\<forall>a \<in> set (butlast (rt_attempts r)). \<not> at_succeeded a \<and>
        at_failure_class a \<noteq> Some FC_NON_TRANSIENT) \<and>
     (retry_succeeded r \<longleftrightarrow> rt_value r \<noteq> None) \<and>
     (retry_succeeded r \<longleftrightarrow> rt_final_error r = None) \<and>
     (case rt_outcome r of
        RO_SUCCEEDED \<Rightarrow> rt_attempts r \<noteq> [] \<and> at_succeeded (last (rt_attempts r)) \<and>
          \<not> fl_less (at_deadline_seconds (last (rt_attempts r)))
               (at_elapsed_seconds (last (rt_attempts r)))
      | RO_NON_TRANSIENT \<Rightarrow> rt_attempts r \<noteq> [] \<and>
          at_failure_class (last (rt_attempts r)) = Some FC_NON_TRANSIENT
      | RO_EXHAUSTED \<Rightarrow>
          int (attempt_count r) = max_attempts config \<or>
          rt_attempts r \<noteq> [] \<and> malformed (last (rt_attempts r)))"

lemma is_repair_last: "is_repair as \<longleftrightarrow> as \<noteq> [] \<and> malformed (last as)"
  by (simp add: is_repair_def malformed_def)

lemma retried_snoc:
  assumes "retried config used as" and "f \<noteq> FC_NON_TRANSIENT"
    and "f = FC_MALFORMED_OUTPUT \<longrightarrow> \<not> used \<and> sm_allow_structured_repair config"
  shows "retried config (used \<or> f = FC_MALFORMED_OUTPUT)
    (as @ [failed_attempt n el (sm_timeout_seconds config) f e (is_repair as)])"
  using assms
  by (auto simp: retried_def failed_attempt_def malformed_def [abs_def] repair_flags_append
      is_repair_def)

lemma repairs_of_retried:
  assumes "retried config used as" and "at_was_repair_attempt a = is_repair as"
  shows "length (filter at_was_repair_attempt (as @ [a])) = (if used then 1 else 0)"
    "length (filter at_was_repair_attempt as) \<le> (if used then 1 else 0)"
proof -
  from assms have "repair_flags False (as @ [a])"
    by (simp add: repair_flags_append retried_def is_repair_last)
  from repairs_are_malformed [OF this] assms(1)
  show "length (filter at_was_repair_attempt (as @ [a])) = (if used then 1 else 0)"
    by (simp add: retried_def)
  then show "length (filter at_was_repair_attempt as) \<le> (if used then 1 else 0)" by simp
qed

lemma upto_snoc: "[1..int (Suc k)] = [1..int k] @ [int k + 1]"
proof -
  have "[1..int k + 1] = [1..int k] @ [int k + 1]" by (subst upto_rec2) auto
  then show ?thesis by (simp add: add.commute)
qed

definition pending :: "semantic_config \<Rightarrow> bool \<Rightarrow> attempt_record list \<Rightarrow> int list \<Rightarrow> bool" where
  "pending config used as ns \<longleftrightarrow>
     retried config used as \<and> map at_attempt as = [1..int (length as)] \<and>
     ns = [int (length as) + 1..max_attempts config] \<and> int (length as) \<le> max_attempts config"

lemma pending_Cons:
  assumes "pending config used as (n # ns)"
  shows "n = int (length as) + 1" "ns = [int (length as) + 2..max_attempts config]"
    "int (length as) < max_attempts config"
proof -
  from assms have l: "n # ns = [int (length as) + 1..max_attempts config]"
    by (simp add: pending_def)
  then show lt: "int (length as) < max_attempts config" by (cases "int (length as) < max_attempts config") simp_all
  from l upto_rec1 [of "int (length as) + 1" "max_attempts config"] lt
  have c: "n # ns = (int (length as) + 1) # [int (length as) + 1 + 1..max_attempts config]" by simp
  then show "n = int (length as) + 1" by simp
  from c show "ns = [int (length as) + 2..max_attempts config]" by (simp add: algebra_simps)
qed

lemma pending_snoc:
  assumes "pending config used as (n # ns)" and "f \<noteq> FC_NON_TRANSIENT"
    and "f = FC_MALFORMED_OUTPUT \<longrightarrow> \<not> used \<and> sm_allow_structured_repair config"
  shows "pending config (used \<or> f = FC_MALFORMED_OUTPUT)
    (as @ [failed_attempt n el (sm_timeout_seconds config) f e (is_repair as)]) ns"
  using assms(1) pending_Cons [OF assms(1)] retried_snoc [OF _ assms(2,3), of as n el e] upto_snoc [of "length as"]
  by (simp add: pending_def failed_attempt_def algebra_simps)

text \<open>A run that stops with one more attempt satisfies the contract.\<close>

lemma run_ok_last:
  assumes "pending config used as (n # ns)" and "rt_attempts r = as @ [a]"
    and "at_attempt a = n" and "at_was_repair_attempt a = is_repair as"
    and "retry_succeeded r \<longleftrightarrow> rt_value r \<noteq> None" and "retry_succeeded r \<longleftrightarrow> rt_final_error r = None"
    and "case rt_outcome r of
        RO_SUCCEEDED \<Rightarrow> at_succeeded a \<and> \<not> fl_less (at_deadline_seconds a) (at_elapsed_seconds a)
      | RO_NON_TRANSIENT \<Rightarrow> at_failure_class a = Some FC_NON_TRANSIENT
      | RO_EXHAUSTED \<Rightarrow> malformed a"
  shows "run_ok config r"
proof -
  from assms(1) have r: "retried config used as" and m: "map at_attempt as = [1..int (length as)]"
    by (simp_all add: pending_def)
  note c = pending_Cons [OF assms(1)]
  from r have u: "used \<Longrightarrow> sm_allow_structured_repair config" by (simp add: retried_def)
  have n: "map at_attempt (as @ [a]) = [1..int (Suc (length as))]"
    using upto_snoc [of "length as"] m assms(3) c(1) by simp
  have rep: "repair_attempts_used r \<le> (if sm_allow_structured_repair config then 1 else 0)"
    using repairs_of_retried(1) [OF r assms(4)] u assms(2) by (auto simp: repair_attempts_used_def)
  show ?thesis
    unfolding run_ok_def
    using n rep c(3) r assms(2,5,6,7)
    by (auto simp: attempt_count_def retried_def split: retry_outcome.splits)
qed

lemma run_ok_exhausted:
  assumes "pending config used as []"
  shows "run_ok config (stopped RO_EXHAUSTED as)"
proof -
  from assms have r: "retried config used as" and m: "map at_attempt as = [1..int (length as)]"
    and l: "int (length as) = max_attempts config"
    by (auto simp: pending_def)
  have rep: "length (filter at_was_repair_attempt as) \<le> (if sm_allow_structured_repair config then 1 else 0)"
    using repairs_of_retried(2) [OF r, of "good_attempt 0 NaN NaN (is_repair as)"] r
    by (auto simp: good_attempt_def retried_def split: if_splits)
  have "\<forall>a \<in> set (butlast as). \<not> at_succeeded a \<and> at_failure_class a \<noteq> Some FC_NON_TRANSIENT"
    using r by (auto simp: retried_def dest: in_set_butlastD)
  moreover have "as \<noteq> [] \<Longrightarrow> at_error (last as) \<noteq> None" using r by (simp add: retried_def)
  ultimately show ?thesis
    using m l rep
    by (auto simp: run_ok_def stopped_def attempt_count_def repair_attempts_used_def retry_succeeded_def)
qed

lemma attempt_loop_ok:
  "pending config used as ns \<Longrightarrow>
   run_ok config (fst (attempt_loop minus_fl call clock config ns as used w))"
proof (induction ns arbitrary: as used w)
  case Nil
  then show ?case by (simp add: run_ok_exhausted)
next
  case (Cons n ns)
  obtain t w1 where c1: "clock w = (t, w1)" by fastforce
  obtain res w2 where c2: "call (sm_timeout_seconds config) w1 = (res, w2)" by fastforce
  obtain t' w3 where c3: "clock w2 = (t', w3)" by fastforce
  note step = pending_snoc [OF Cons.prems] Cons.IH
  note fin = run_ok_last [OF Cons.prems]
  show ?case
  proof (cases res)
    case (Inl e)
    then show ?thesis
      using step(1) [of "classify_failure e" "minus_fl t' t" "Raised (xn_type_name e) (xn_message e)"]
      by (auto simp: c1 c2 c3 Let_def stopped_def retry_succeeded_def failed_attempt_def malformed_def
          intro!: Cons.IH fin)
  next
    case (Inr v)
    then show ?thesis
      using step(1) [of FC_TIMEOUT "minus_fl t' t" "DeadlineExceeded (sm_timeout_seconds config)"]
      by (auto simp: c1 c2 c3 Let_def retry_succeeded_def good_attempt_def intro!: Cons.IH fin)
  qed
qed

section \<open>Every run is bounded\<close>

text \<open>A callable and a clock that also count the invocations of the callable.\<close>

definition counted_call ::
  "(pyfloat \<Rightarrow> 'w \<Rightarrow> (call_exn + 'v) \<times> 'w) \<Rightarrow> pyfloat \<Rightarrow> 'w \<times> nat \<Rightarrow> (call_exn + 'v) \<times> 'w \<times> nat" where
  "counted_call call d s = (let (r, w) = call d (fst s) in (r, w, Suc (snd s)))"

definition counted_clock :: "('w \<Rightarrow> pyfloat \<times> 'w) \<Rightarrow> 'w \<times> nat \<Rightarrow> pyfloat \<times> 'w \<times> nat" where
  "counted_clock clock s = (let (t, w) = clock (fst s) in (t, w, snd s))"

lemma counted_call_eq: "call d w = (r, w') \<Longrightarrow> counted_call call d (w, k) = (r, w', Suc k)"
  by (simp add: counted_call_def)

lemma counted_clock_eq: "clock w = (t, w') \<Longrightarrow> counted_clock clock (w, k) = (t, w', k)"
  by (simp add: counted_clock_def)

lemma attempt_loop_counts:
  "\<exists>r w' m. attempt_loop minus_fl (counted_call call) (counted_clock clock) config ns as used (w, k) =
     (r, w', m) \<and> attempt_loop minus_fl call clock config ns as used w = (r, w') \<and>
     m + length as = k + attempt_count r"
proof (induction ns arbitrary: as used w k)
  case Nil
  then show ?case by (simp add: stopped_def attempt_count_def)
next
  case (Cons n ns)
  obtain t w1 where c1: "clock w = (t, w1)" by fastforce
  obtain res w2 where c2: "call (sm_timeout_seconds config) w1 = (res, w2)" by fastforce
  obtain t' w3 where c3: "clock w2 = (t', w3)" by fastforce
  note sims = c1 c2 c3 counted_clock_eq [of clock, OF c1] counted_call_eq [of call, OF c2]
    counted_clock_eq [of clock, OF c3] Let_def
  have more: "\<exists>r w' m. attempt_loop minus_fl (counted_call call) (counted_clock clock) config ns
        (as @ [a]) u (w3, Suc k) = (r, w', m) \<and>
      attempt_loop minus_fl call clock config ns (as @ [a]) u w3 = (r, w') \<and>
      m + length as = k + attempt_count r" for a u
    using Cons.IH [of "as @ [a]" u w3 "Suc k"] by auto
  show ?case
  proof (cases res)
    case (Inl e)
    then show ?thesis by (simp add: sims more) (simp add: stopped_def attempt_count_def)
  next
    case (Inr v)
    then show ?thesis by (simp add: sims more) (simp add: attempt_count_def)
  qed
qed

lemma run_pending: "semantic_ok config \<Longrightarrow> pending config False [] [1..max_attempts config]"
  using max_attempts_bounds by (fastforce simp: pending_def retried_def)

text \<open>C36. A semantic call under a configuration that passed its checks is bounded, whatever the model
  and the clock do: the call is invoked once per recorded attempt, at least once and at most
  three times, at most one of the attempts is a structured repair and none is when the configuration forbids it;
  every attempt but the last failed retryably; a value is returned exactly when the outcome is success, and then
  the last attempt returned within its deadline.\<close>

theorem semantic_call_bounded:
  assumes "check_semantic config = Inr c"
  shows "case run_semantic_call minus_fl (counted_call call) (counted_clock clock) c (w, 0) of
    (r, w', calls) \<Rightarrow> run_semantic_call minus_fl call clock c w = (r, w') \<and> run_ok c r \<and>
      calls = attempt_count r \<and> 1 \<le> calls \<and> calls \<le> 3"
proof -
  from assms have ok: "semantic_ok c" by (simp add: check_semantic_Inr_iff)
  from attempt_loop_counts [of minus_fl call clock c "[1..max_attempts c]" "[]" False w 0]
  obtain r w' m where l: "attempt_loop minus_fl (counted_call call) (counted_clock clock) c
      [1..max_attempts c] [] False (w, 0) = (r, w', m)"
    and r: "attempt_loop minus_fl call clock c [1..max_attempts c] [] False w = (r, w')"
    and m: "m = attempt_count r" by auto
  have "run_ok c r"
    using attempt_loop_ok [OF run_pending [OF ok], of minus_fl call clock w] r by simp
  moreover from this max_attempts_bounds [OF ok] have "1 \<le> m \<and> m \<le> 3"
    unfolding m run_ok_def
    by (cases "rt_outcome r"; cases "rt_attempts r") (auto simp: attempt_count_def)
  ultimately show ?thesis by (simp add: run_semantic_call_def l r m)
qed

definition sample_semantic :: semantic_config where
  "sample_semantic =
     \<lparr>sm_model_id = ''m'', sm_timeout_seconds = Fin 60, sm_max_retries = 2,
      sm_allow_structured_repair = True\<rparr>"

text \<open>A model that answers malformed output twice and a good value the third time.\<close>

definition sample_call :: "pyfloat \<Rightarrow> nat \<Rightarrow> (call_exn + str) \<times> nat" where
  "sample_call d n =
     (if n < 2 then (Inl \<lparr>xn_class = MalformedStructuredOutput, xn_type_name = ''M'', xn_message = ''x''\<rparr>, n + 1)
      else (Inr ''ok'', n + 1))"

theorem semantic_call_bounded_witness:
  "case run_semantic_call (\<lambda>x y. Fin 1) (counted_call sample_call) (counted_clock (\<lambda>n. (Fin 0, n)))
      sample_semantic (0, 0) of
    (r, w', calls) \<Rightarrow> run_ok sample_semantic r \<and> calls = 2 \<and> rt_outcome r = RO_EXHAUSTED"
proof -
  have "check_semantic sample_semantic = Inr sample_semantic" by code_simp
  from semantic_call_bounded [OF this, of "\<lambda>x y. Fin 1" sample_call "\<lambda>n. (Fin 0, n)" 0]
  have "case run_semantic_call (\<lambda>x y. Fin 1) (counted_call sample_call) (counted_clock (\<lambda>n. (Fin 0, n)))
      sample_semantic (0, 0) of (r, w', calls) \<Rightarrow> run_ok sample_semantic r" by (auto split: prod.splits)
  moreover have "case run_semantic_call (\<lambda>x y. Fin 1) (counted_call sample_call)
      (counted_clock (\<lambda>n. (Fin 0, n))) sample_semantic (0, 0) of
    (r, w', calls) \<Rightarrow> calls = 2 \<and> rt_outcome r = RO_EXHAUSTED" by code_simp
  ultimately show ?thesis by (auto split: prod.splits)
qed

end
