(* ===== verification/Write_Once.thy ===== *)
theory Write_Once
  imports Models
begin

text \<open>
  The interface of the append-only stores: source versions, field evidence and change proofs are
  all kept under references that are written once and resolve for ever. \<open>content v\<close> is what a
  reference written with \<open>v\<close> resolves to, and \<open>agrees u v\<close> whether writing \<open>v\<close> where \<open>u\<close> is stored is
  accepted. The laws are stated per operation in \<open>write_once\<close>, for states that satisfy the store's invariant; what a client may rely
  on across any later history of the store is proved from them, and \<open>write_once_idem\<close> adds what
  holds when a repeated write is accepted.
\<close>

locale write_once =
  fixes put :: "'v \<Rightarrow> 's \<Rightarrow> 's \<times> (exn + str)"
    and get :: "str \<Rightarrow> 's \<Rightarrow> 'w option"
    and ref_of :: "'v \<Rightarrow> str"
    and content :: "'v \<Rightarrow> 'w"
    and agrees :: "'w \<Rightarrow> 'v \<Rightarrow> bool"
    and invar :: "'s \<Rightarrow> bool"
  assumes put_invar: "invar s \<Longrightarrow> invar (fst (put v s))"
    and put_fresh: "invar s \<Longrightarrow> get (ref_of v) s = None \<Longrightarrow> put v s = (s', r) \<Longrightarrow>
      r = Inr (ref_of v) \<and> get (ref_of v) s' = Some (content v)"
    and put_frame: "invar s \<Longrightarrow> k \<noteq> ref_of v \<Longrightarrow> put v s = (s', r) \<Longrightarrow> get k s' = get k s"
    and put_present: "invar s \<Longrightarrow> get (ref_of v) s = Some u \<Longrightarrow> put v s = (s', r) \<Longrightarrow>
      s' = s \<and> (if agrees u v then r = Inr (ref_of v) else isl r)"
begin

lemma put_ref: "invar s \<Longrightarrow> put v s = (s', Inr k) \<Longrightarrow> k = ref_of v"
  using put_fresh [of s v s'] put_present [of s v _ s']
  by (cases "get (ref_of v) s") (fastforce split: if_splits)+

lemma put_keeps: "invar s \<Longrightarrow> get k s = Some u \<Longrightarrow> get k (fst (put v s)) = Some u"
  using put_frame [of s k v] put_present [of s v u]
  by (cases "k = ref_of v"; cases "put v s") auto

text \<open>Any later sequence of writes leaves what a reference resolves to as it is.\<close>

lemma history_invar: "invar s \<Longrightarrow> invar (foldl (\<lambda>s v. fst (put v s)) s vs)"
  by (induction vs arbitrary: s) (auto intro: put_invar)

lemma permanent:
  "invar s \<Longrightarrow> get k s = Some u \<Longrightarrow> get k (foldl (\<lambda>s v. fst (put v s)) s vs) = Some u"
  by (induction vs arbitrary: s) (auto intro: put_keeps put_invar)

lemma put_resolves:
  assumes "invar s" and "put v s = (s', Inr k)"
  shows "\<exists>u. get k (foldl (\<lambda>s v. fst (put v s)) s' vs) = Some u \<and> (u = content v \<or> agrees u v)"
proof -
  note k = put_ref [OF assms]
  have "\<exists>u. get k s' = Some u \<and> (u = content v \<or> agrees u v)"
  proof (cases "get (ref_of v) s")
    case None
    with put_fresh [OF assms(1) this assms(2)] k show ?thesis by simp
  next
    case (Some u)
    with put_present [OF assms(1) this assms(2)] k show ?thesis by (auto split: if_splits)
  qed
  moreover have "invar s'" using put_invar [OF assms(1), of v] assms(2) by simp
  ultimately show ?thesis using permanent by blast
qed

lemma put_refused:
  assumes "invar s" and "get (ref_of v) s = Some u" and "\<not> agrees u v"
  shows "fst (put v s) = s \<and> isl (snd (put v s))"
  using put_present [OF assms(1,2), of "fst (put v s)" "snd (put v s)"] assms(3) by simp

lemma put_accepted_iff:
  assumes "invar s"
  shows "(\<exists>s'. put v s = (s', Inr (ref_of v))) \<longleftrightarrow>
     (case get (ref_of v) s of None \<Rightarrow> True | Some u \<Rightarrow> agrees u v)"
proof (cases "put v s")
  case (Pair s' r)
  then show ?thesis
    using put_fresh [OF assms, of v s' r] put_present [OF assms, of v _ s' r]
    by (cases "get (ref_of v) s") (auto split: if_splits)
qed

end

text \<open>Stores that accept a repeated write of the same content, and do nothing.\<close>

locale write_once_idem = write_once +
  assumes agrees_refl: "agrees (content v) v"
begin

lemma put_twice:
  assumes "invar s" and "put v s = (s', Inr k)" and "get (ref_of v) s = None"
  shows "put v (foldl (\<lambda>s v. fst (put v s)) s' vs) =
    (foldl (\<lambda>s v. fst (put v s)) s' vs, Inr k)"
proof -
  let ?t = "foldl (\<lambda>s v. fst (put v s)) s' vs"
  have "invar s'" using put_invar [OF assms(1), of v] assms(2) by simp
  then have "invar ?t" and "get (ref_of v) ?t = Some (content v)"
    using put_fresh [OF assms(1,3,2)] by (blast intro: permanent history_invar)+
  from put_present [OF this, of "fst (put v ?t)" "snd (put v ?t)"] put_ref [OF assms(1,2)]
  show ?thesis by (simp add: agrees_refl prod_eq_iff)
qed

end

end
