(* ===== verification/Sources.thy ===== *)
theory Sources
  imports Canonical Write_Once
begin

text \<open>
  The source-change boundary (\<open>sources/registry.py\<close>): immutable source versions with canonical
  hashes, the append-only store they are kept in, the requirement diff, and the derivation of an
  approved change from two retrieved versions. The store is threaded explicitly: a registration
  made before a later step raises stays in the store, as in the source.
\<close>

section \<open>Versions\<close>

record source_version =
  sv_source_procedure_id :: str
  sv_version :: str
  sv_operation_id :: str
  sv_title :: str
  sv_requirements :: "(str, str) dict"
  sv_notes :: "str list"
  sv_effective_from :: "str option"

definition source_content_ref :: "source_version \<Rightarrow> str" where
  "source_content_ref v = ''source:'' @ sv_source_procedure_id v @ '':'' @ sv_version v"

definition source_material :: "source_version \<Rightarrow> json" where
  "source_material v =
     JObj [(''source_procedure_id'', JStr (sv_source_procedure_id v)),
           (''version'', JStr (sv_version v)),
           (''operation_id'', JStr (sv_operation_id v)),
           (''title'', JStr (sv_title v)),
           (''requirements'', dump_string_dict (sv_requirements v)),
           (''notes'', JArr (map JStr (sv_notes v)))]"

definition source_content_hash :: "(str \<Rightarrow> str) \<Rightarrow> source_version \<Rightarrow> str" where
  "source_content_hash H v = canonical_hash H (source_material v)"

definition newline :: char where
  "newline = char_of (10 :: nat)"

definition sorted_items :: "(str, str) dict \<Rightarrow> (str \<times> str) list" where
  "sorted_items d = sort_key fst d"

definition source_untrusted_text :: "source_version \<Rightarrow> str" where
  "source_untrusted_text v = join_with newline
     ([''source_procedure_id: '' @ sv_source_procedure_id v, ''version: '' @ sv_version v,
       ''operation_id: '' @ sv_operation_id v, ''title: '' @ sv_title v, ''requirements:''] @
      map (\<lambda>(k, x). ''  '' @ k @ '': '' @ x) (sorted_items (sv_requirements v)) @
      (if sv_notes v = [] then [] else ''notes:'' # map (\<lambda>n. ''  - '' @ n) (sv_notes v)))"

section \<open>The store\<close>

record source_store =
  ss_versions :: "(str, source_version) dict"
  ss_order :: "str list"

definition empty_source_store :: source_store where
  "empty_source_store = \<lparr>ss_versions = [], ss_order = []\<rparr>"

definition source_resolve :: "str \<Rightarrow> source_store \<Rightarrow> source_version option" where
  "source_resolve ref s = dict_get (ss_versions s) ref"

definition register :: "(str \<Rightarrow> str) \<Rightarrow> source_version \<Rightarrow> source_store \<Rightarrow> source_store \<times> str res" where
  "register H v s =
     (let ref = source_content_ref v
      in case dict_get (ss_versions s) ref of
           Some existing \<Rightarrow>
             if source_content_hash H existing \<noteq> source_content_hash H v
             then (s, Inl SourceIngestionError)
             else (s, Inr ref)
         | None \<Rightarrow>
             (\<lparr>ss_versions = dict_put ref v (ss_versions s), ss_order = ss_order s @ [ref]\<rparr>,
              Inr ref))"

definition versions_of :: "str \<Rightarrow> source_store \<Rightarrow> source_version list" where
  "versions_of pid s =
     filter (\<lambda>v. sv_source_procedure_id v = pid)
       (List.map_filter (\<lambda>ref. dict_get (ss_versions s) ref) (ss_order s))"

section \<open>Diff and ingestion\<close>

record requirement_delta =
  rd_requirement_id :: str
  rd_previous_value :: str
  rd_current_value :: str

text \<open>\<open>d.get(key, "")\<close>\<close>

definition get_or_empty :: "(str, str) dict \<Rightarrow> str \<Rightarrow> str" where
  "get_or_empty d k = (case dict_get d k of None \<Rightarrow> '''' | Some x \<Rightarrow> x)"

definition diff_requirements :: "source_version \<Rightarrow> source_version \<Rightarrow> requirement_delta list" where
  "diff_requirements previous current =
     (let p = sv_requirements previous; c = sv_requirements current
      in map (\<lambda>k. \<lparr>rd_requirement_id = k, rd_previous_value = get_or_empty p k,
                   rd_current_value = get_or_empty c k\<rparr>)
           (filter (\<lambda>k. dict_get p k \<noteq> dict_get c k) (sort (dedup (dict_keys p @ dict_keys c)))))"

record source_ingestion =
  si_change :: approved_change
  si_previous :: source_version
  si_current :: source_version
  si_delta :: requirement_delta
  si_all_deltas :: "requirement_delta list"

definition derived_change ::
  "str \<Rightarrow> source_version \<Rightarrow> source_version \<Rightarrow> requirement_delta \<Rightarrow> str list \<Rightarrow> str \<Rightarrow> str \<Rightarrow> datetime \<Rightarrow>
     data_classification \<Rightarrow> approved_change" where
  "derived_change change_id previous current delta authorized_scope approved_status ref received_at
       classification =
     \<lparr>ac_change_id = change_id,
      ac_source_procedure_id = sv_source_procedure_id current,
      ac_source_version = sv_version current,
      ac_previous_version = sv_version previous,
      ac_operation_id = sv_operation_id current,
      ac_requirement_id = rd_requirement_id delta,
      ac_previous_value = rd_previous_value delta,
      ac_current_value = rd_current_value delta,
      ac_authorized_scope = authorized_scope,
      ac_approved_status = approved_status,
      ac_source_evidence_ref = ref,
      ac_received_at = received_at,
      ac_data_classification = classification\<rparr>"

definition ingest_source_change ::
  "(str \<Rightarrow> str) \<Rightarrow> str \<Rightarrow> source_version \<Rightarrow> source_version \<Rightarrow> str list \<Rightarrow> str \<Rightarrow> datetime \<Rightarrow>
     data_classification \<Rightarrow> source_store \<Rightarrow> source_store \<times> source_ingestion res" where
  "ingest_source_change H change_id previous current authorized_scope approved_status received_at
       classification s =
     (if sv_source_procedure_id previous \<noteq> sv_source_procedure_id current then
        (s, Inl SourceIngestionError)
      else if sv_operation_id previous \<noteq> sv_operation_id current then (s, Inl SourceIngestionError)
      else if sv_version previous = sv_version current then (s, Inl SourceIngestionError)
      else case diff_requirements previous current of
        [] \<Rightarrow> (s, Inl SourceIngestionError)
      | _ # _ # _ \<Rightarrow> (s, Inl SourceIngestionError)
      | [delta] \<Rightarrow>
          if rd_previous_value delta = [] \<or> rd_current_value delta = [] then
            (s, Inl SourceIngestionError)
          else case register H previous s of
            (s1, Inl e) \<Rightarrow> (s1, Inl e)
          | (s1, Inr _) \<Rightarrow>
              (case register H current s1 of
                 (s2, Inl e) \<Rightarrow> (s2, Inl e)
               | (s2, Inr ref) \<Rightarrow>
                   (s2, res_bind
                      (validated valid_change
                        (derived_change change_id previous current delta authorized_scope
                          approved_status ref received_at classification))
                      (\<lambda>change. Inr
                         \<lparr>si_change = change, si_previous = previous, si_current = current,
                          si_delta = delta, si_all_deltas = [delta]\<rparr>))))"

section \<open>The catalog\<close>

record artifact_catalog =
  ct_catalog_id :: str
  ct_artifacts :: "downstream_artifact list"

definition catalog_material :: "artifact_catalog \<Rightarrow> json" where
  "catalog_material c =
     JObj [(''catalog_id'', JStr (ct_catalog_id c)),
           (''artifacts'', JArr (map (\<lambda>a. JObj
              [(''artifact_id'', JStr (da_artifact_id a)),
               (''operation_id'', JStr (da_operation_id a)),
               (''requirement_id'', JStr (da_requirement_id a)),
               (''current_value'', JStr (da_current_value a)),
               (''requirements'', dump_string_dict (da_requirements a))]) (ct_artifacts c)))]"

definition catalog_hash :: "(str \<Rightarrow> str) \<Rightarrow> artifact_catalog \<Rightarrow> str" where
  "catalog_hash H c = canonical_hash H (catalog_material c)"

definition catalog_artifact_ids :: "artifact_catalog \<Rightarrow> str set" where
  "catalog_artifact_ids c = da_artifact_id ` set (ct_artifacts c)"

definition catalog_get :: "artifact_catalog \<Rightarrow> str \<Rightarrow> downstream_artifact option" where
  "catalog_get c artifact_id = List.find (\<lambda>a. da_artifact_id a = artifact_id) (ct_artifacts c)"

definition artifact_block :: "downstream_artifact \<Rightarrow> str" where
  "artifact_block a = join_with newline
     ([''- artifact_id: '' @ da_artifact_id a, ''  artifact_type: '' @ da_artifact_type a,
       ''  operation_id: '' @ da_operation_id a, ''  requirements:''] @
      map (\<lambda>(k, x). ''    '' @ k @ '': '' @ x) (sorted_items (da_requirements a)))"

definition catalog_untrusted_text :: "artifact_catalog \<Rightarrow> str" where
  "catalog_untrusted_text c = join_with newline (map artifact_block (ct_artifacts c))"

text \<open>The approval records of a parsed change file, searched by id.\<close>

definition load_approved_change_record ::
  "(str, json) dict list \<Rightarrow> str \<Rightarrow> (str, json) dict res" where
  "load_approved_change_record changes change_id =
     (case List.find (\<lambda>e. dict_get e ''change_id'' = None \<or>
                          dict_get e ''change_id'' = Some (JStr change_id)) changes of
        None \<Rightarrow> Inl SourceIngestionError
      | Some e \<Rightarrow> if dict_get e ''change_id'' = None then Inl KeyError else Inr e)"

section \<open>The store keeps what it was given\<close>

interpretation sources: write_once_idem "register H" source_resolve source_content_ref "\<lambda>v. v"
    "\<lambda>u v. source_content_hash H u = source_content_hash H v" "\<lambda>_. True" for H
  by unfold_locales
    (auto simp: register_def source_resolve_def Let_def split: option.splits if_splits)

lemma register_resolves:
  assumes "register H v s = (s', Inr ref)"
  shows "ref = source_content_ref v"
    "\<exists>u. source_resolve ref s' = Some u \<and> source_content_hash H u = source_content_hash H v"
  using sources.put_ref [OF _ assms] sources.put_resolves [OF _ assms, of "[]"] by auto

lemma register_keeps:
  "source_resolve k s = Some u \<Longrightarrow> register H v s = (s', r) \<Longrightarrow> source_resolve k s' = Some u"
  using sources.put_keeps [where s = s and k = k and u = u and H = H and v = v] by simp

section \<open>The diff\<close>

lemma get_or_emptyD: "get_or_empty d k = x \<Longrightarrow> x \<noteq> [] \<Longrightarrow> dict_get d k = Some x"
  by (auto simp: get_or_empty_def split: option.splits)

lemma changed_keys:
  "set (filter (\<lambda>k. dict_get p k \<noteq> dict_get c k) (sort (dedup (dict_keys p @ dict_keys c)))) =
     {k. dict_get p k \<noteq> dict_get c k}"
proof -
  have "k \<in> fst ` set p \<or> k \<in> fst ` set c" if "dict_get p k \<noteq> dict_get c k" for k
    using that by (metis dict_get_absent)
  then show ?thesis by auto
qed

lemma diff_ids:
  "set (map rd_requirement_id (diff_requirements v w)) =
     {k. dict_get (sv_requirements v) k \<noteq> dict_get (sv_requirements w) k}"
  "sorted (map rd_requirement_id (diff_requirements v w))"
  "distinct (map rd_requirement_id (diff_requirements v w))"
  using changed_keys [of "sv_requirements v" "sv_requirements w"]
  by (simp_all add: diff_requirements_def Let_def comp_def sorted_wrt_filter)

lemma diff_values:
  "d \<in> set (diff_requirements v w) \<Longrightarrow>
     rd_previous_value d = get_or_empty (sv_requirements v) (rd_requirement_id d) \<and>
     rd_current_value d = get_or_empty (sv_requirements w) (rd_requirement_id d)"
  by (auto simp: diff_requirements_def Let_def)


text \<open>The specification of a change the single-target path accepts.\<close>

definition single_value_change :: "source_version \<Rightarrow> source_version \<Rightarrow> requirement_delta \<Rightarrow> bool" where
  "single_value_change v w d \<longleftrightarrow>
     sv_source_procedure_id v = sv_source_procedure_id w \<and>
     sv_operation_id v = sv_operation_id w \<and> sv_version v \<noteq> sv_version w \<and>
     dict_get (sv_requirements v) (rd_requirement_id d) = Some (rd_previous_value d) \<and>
     dict_get (sv_requirements w) (rd_requirement_id d) = Some (rd_current_value d) \<and>
     rd_previous_value d \<noteq> rd_current_value d \<and>
     rd_previous_value d \<noteq> [] \<and> rd_current_value d \<noteq> [] \<and>
     (\<forall>k. k = rd_requirement_id d \<or> dict_get (sv_requirements v) k = dict_get (sv_requirements w) k)"

lemma singleton_diff_iff:
  "diff_requirements v w = [d] \<and> rd_previous_value d \<noteq> [] \<and> rd_current_value d \<noteq> [] \<longleftrightarrow>
     dict_get (sv_requirements v) (rd_requirement_id d) = Some (rd_previous_value d) \<and>
     dict_get (sv_requirements w) (rd_requirement_id d) = Some (rd_current_value d) \<and>
     rd_previous_value d \<noteq> rd_current_value d \<and>
     rd_previous_value d \<noteq> [] \<and> rd_current_value d \<noteq> [] \<and>
     (\<forall>k. k = rd_requirement_id d \<or> dict_get (sv_requirements v) k = dict_get (sv_requirements w) k)"
    (is "?diff \<longleftrightarrow> ?spec")
proof
  assume l: ?diff
  then have m: "d \<in> set (diff_requirements v w)" by simp
  from l diff_ids(1) [of v w] have only: "{rd_requirement_id d} =
      {k. dict_get (sv_requirements v) k \<noteq> dict_get (sv_requirements w) k}" by simp
  from l have ne: "rd_previous_value d \<noteq> []" "rd_current_value d \<noteq> []" by simp_all
  have "dict_get (sv_requirements v) (rd_requirement_id d) = Some (rd_previous_value d)"
    by (rule get_or_emptyD [OF _ ne(1)]) (simp add: diff_values [OF m])
  moreover have "dict_get (sv_requirements w) (rd_requirement_id d) = Some (rd_current_value d)"
    by (rule get_or_emptyD [OF _ ne(2)]) (simp add: diff_values [OF m])
  moreover have "rd_previous_value d \<noteq> rd_current_value d"
  proof
    assume "rd_previous_value d = rd_current_value d"
    with calculation have "rd_requirement_id d \<notin>
        {k. dict_get (sv_requirements v) k \<noteq> dict_get (sv_requirements w) k}" by simp
    with only show False by blast
  qed
  moreover have "k = rd_requirement_id d \<or> dict_get (sv_requirements v) k = dict_get (sv_requirements w) k" for k
    using only by blast
  ultimately show ?spec using ne by blast
next
  assume s: ?spec
  let ?ids = "map rd_requirement_id (diff_requirements v w)"
  from s have "{k. dict_get (sv_requirements v) k \<noteq> dict_get (sv_requirements w) k} =
      {rd_requirement_id d}" by auto
  with diff_ids(1) [of v w] have "set ?ids = {rd_requirement_id d}" by simp
  with diff_ids(3) [of v w] have "?ids = [rd_requirement_id d]"
    by (rule distinct_set_singleton)
  then obtain e where e: "diff_requirements v w = [e]" "rd_requirement_id e = rd_requirement_id d"
    by (auto simp: map_eq_Cons_conv)
  with diff_values [of e v w] s have "e = d" by (simp add: get_or_empty_def)
  with e s show ?diff by simp
qed

lemma ingest_eq:
  "ingest_source_change H i v w sc st t cl s =
     (case diff_requirements v w of
        [d] \<Rightarrow>
          if single_value_change v w d then
            (case register H v s of
               (s1, Inl e) \<Rightarrow> (s1, Inl e)
             | (s1, Inr _) \<Rightarrow>
                 (case register H w s1 of
                    (s2, Inl e) \<Rightarrow> (s2, Inl e)
                  | (s2, Inr ref) \<Rightarrow>
                      (s2, res_bind (validated valid_change (derived_change i v w d sc st ref t cl))
                         (\<lambda>c. Inr \<lparr>si_change = c, si_previous = v, si_current = w, si_delta = d,
                                    si_all_deltas = [d]\<rparr>))))
          else (s, Inl SourceIngestionError)
      | _ \<Rightarrow> (s, Inl SourceIngestionError))"
proof (cases "\<exists>d. diff_requirements v w = [d]")
  case False
  then show ?thesis
    by (auto simp: ingest_source_change_def split: list.splits)
next
  case True
  then obtain d where d: "diff_requirements v w = [d]" by blast
  with singleton_diff_iff [of v w d] show ?thesis
    unfolding ingest_source_change_def single_value_change_def d list.case by auto
qed

lemma ingest_Inr:
  assumes "ingest_source_change H i v w sc st t cl s = (s', Inr r)"
  obtains d s1 where "single_value_change v w d" "si_delta r = d" "si_all_deltas r = [d]"
    "si_previous r = v" "si_current r = w"
    "register H v s = (s1, Inr (source_content_ref v))"
    "register H w s1 = (s', Inr (source_content_ref w))"
    "si_change r = derived_change i v w d sc st (source_content_ref w) t cl"
    "valid_change (si_change r)"
proof -
  from assms obtain d s1 ref1 ref2 where
    "single_value_change v w d" "register H v s = (s1, Inr ref1)" "register H w s1 = (s', Inr ref2)"
    "valid_change (derived_change i v w d sc st ref2 t cl)"
    "r = \<lparr>si_change = derived_change i v w d sc st ref2 t cl, si_previous = v, si_current = w,
       si_delta = d, si_all_deltas = [d]\<rparr>"
    by (auto simp: ingest_eq res_bind_Inr_iff split: list.splits if_splits prod.splits sum.splits)
  with register_resolves(1) [of H v s s1 ref1] register_resolves(1) [of H w s1 s' ref2]
  show thesis by (intro that [of d s1]) auto
qed


section \<open>Properties\<close>

definition conflicts :: "(str \<Rightarrow> str) \<Rightarrow> source_version \<Rightarrow> source_store \<Rightarrow> bool" where
  "conflicts H v s \<longleftrightarrow>
     (case source_resolve (source_content_ref v) s of
        None \<Rightarrow> False
      | Some u \<Rightarrow> source_content_hash H u \<noteq> source_content_hash H v)"

lemma register_Inr_iff: "(\<exists>s'. register H v s = (s', Inr (source_content_ref v))) \<longleftrightarrow> \<not> conflicts H v s"
  using sources.put_accepted_iff [where s = s and H = H and v = v] by (simp add: conflicts_def split: option.splits)

lemma register_outcome:
  obtains (stored) s' where "register H v s = (s', Inr (source_content_ref v))" "\<not> conflicts H v s"
  | (refused) "register H v s = (s, Inl SourceIngestionError)" "conflicts H v s"
  by (cases "dict_get (ss_versions s) (source_content_ref v)"; cases "conflicts H v s")
    (auto simp: register_def conflicts_def source_resolve_def Let_def)

lemma conflicts_frame:
  assumes "register H v s = (s', r)" and "source_content_ref v \<noteq> source_content_ref w"
  shows "conflicts H w s' \<longleftrightarrow> conflicts H w s"
  using sources.put_frame [where s = s and k = "source_content_ref w" and v = v and H = H and s' = s' and r = r] assms by (simp add: conflicts_def)

lemma refs_differ:
  "single_value_change v w d \<Longrightarrow> source_content_ref v \<noteq> source_content_ref w"
  by (simp add: single_value_change_def source_content_ref_def)

lemma single_value_change_diff:
  "single_value_change v w d \<Longrightarrow> diff_requirements v w = [d]"
  using singleton_diff_iff [of v w d] by (simp add: single_value_change_def)

text \<open>An approved change is derived, never declared: ingestion succeeds if and only if the two
  versions are of one procedure and operation under different version labels, exactly one
  requirement differs and has a non-empty value on both sides, neither label already holds other
  content, and the derived record is valid. The change then carries exactly that requirement with
  the two values read from the versions, its source reference resolves to content with the hash of
  the current version, and, success or error, everything the store resolved before it still does.\<close>

theorem ingestion_exact:
  "case ingest_source_change H i v w sc st t cl s of (s', res) \<Rightarrow>
     (\<forall>k. case source_resolve k s of None \<Rightarrow> True | Some u \<Rightarrow> source_resolve k s' = Some u) \<and>
     ((\<exists>r. res = Inr r) \<longleftrightarrow>
        \<not> conflicts H v s \<and> \<not> conflicts H w s \<and>
        (\<exists>d. single_value_change v w d \<and>
           valid_change (derived_change i v w d sc st (source_content_ref w) t cl))) \<and>
     (case res of
        Inl e \<Rightarrow> e = SourceIngestionError \<or> e = ValidationError
      | Inr r \<Rightarrow> single_value_change v w (si_delta r) \<and>
          si_change r = derived_change i v w (si_delta r) sc st (source_content_ref w) t cl \<and>
          (\<exists>u. source_resolve (ac_source_evidence_ref (si_change r)) s' = Some u \<and>
             source_content_hash H u = source_content_hash H w))"
proof (cases "\<exists>d. single_value_change v w d")
  case False
  then have "ingest_source_change H i v w sc st t cl s = (s, Inl SourceIngestionError)"
    by (auto simp: ingest_eq split: list.splits)
  with False show ?thesis by (simp split: option.split)
next
  case True
  then obtain d where d: "single_value_change v w d" by blast
  note diff = single_value_change_diff [OF d]
  have uniq: "single_value_change v w e \<longleftrightarrow> e = d" for e
    using d single_value_change_diff [of v w e] diff by auto
  show ?thesis
  proof (cases rule: register_outcome [of H v s])
    case refused
    then show ?thesis by (simp add: ingest_eq diff d split: option.split)
  next
    case v: (stored s1)
    note frame = conflicts_frame [OF v(1) refs_differ [OF d]]
    show ?thesis
    proof (cases rule: register_outcome [of H w s1])
      case refused
      then show ?thesis using v frame register_keeps [OF _ v(1)]
        by (simp add: ingest_eq diff d split: option.split)
    next
      case w: (stored s2)
      have keep: "source_resolve k s = Some u \<Longrightarrow> source_resolve k s2 = Some u" for k u
        by (rule register_keeps [OF register_keeps [OF _ v(1)] w(1)])
      show ?thesis
        using v w frame keep register_resolves(2) [OF w(1)] uniq
        by (auto simp: ingest_eq diff d validated_def derived_change_def split: option.split)
    qed
  qed
qed

text \<open>The diff reads dictionaries as mappings: versions whose requirements are equal as mappings,
  whatever the insertion order of their keys, give the same deltas in the same order, and the
  reference and hash of a version do not depend on that order either.\<close>

theorem diff_order_independent:
  assumes "dict_ok (sv_requirements v)" and "dict_ok reqs" and "map_of (sv_requirements v) = map_of reqs"
  shows "diff_requirements v w = diff_requirements (v\<lparr>sv_requirements := reqs\<rparr>) w \<and>
    diff_requirements w v = diff_requirements w (v\<lparr>sv_requirements := reqs\<rparr>) \<and>
    source_content_hash H v = source_content_hash H (v\<lparr>sv_requirements := reqs\<rparr>)"
proof -
  from assms(3) have keys: "set (dict_keys (sv_requirements v)) = set (dict_keys reqs)"
    by (metis dom_map_of_conv_image_fst image_set)
  then have "sort (dedup (dict_keys (sv_requirements v) @ ks)) = sort (dedup (dict_keys reqs @ ks))"
    "sort (dedup (ks @ dict_keys (sv_requirements v))) = sort (dedup (ks @ dict_keys reqs))" for ks
    by (auto intro!: sort_set_eq)
  moreover have "canonical_json (source_material v) =
      canonical_json (source_material (v\<lparr>sv_requirements := reqs\<rparr>))"
    unfolding source_material_def using dump_dict_inj [OF assms(1,2)] assms(3)
    by (subst canonical_fields_iff) simp_all
  ultimately show ?thesis using assms(3)
    by (simp add: diff_requirements_def get_or_empty_def source_content_hash_def canonical_hash_def)
qed

definition sample_version :: "str \<Rightarrow> str \<Rightarrow> source_version" where
  "sample_version n position =
     \<lparr>sv_source_procedure_id = ''PACKING-SOP'', sv_version = n, sv_operation_id = ''op'',
      sv_title = ''t'', sv_requirements = [(''label_position'', position), (''box'', ''B'')],
      sv_notes = [], sv_effective_from = None\<rparr>"

theorem diff_order_independent_witness:
  "diff_requirements (sample_version ''v13'' ''LEFT'') (sample_version ''v14'' ''TOP_RIGHT'') =
   diff_requirements ((sample_version ''v13'' ''LEFT'')
      \<lparr>sv_requirements := [(''box'', ''B''), (''label_position'', ''LEFT'')]\<rparr>)
     (sample_version ''v14'' ''TOP_RIGHT'')"
  by (rule diff_order_independent [THEN conjunct1]) (auto simp: sample_version_def)

lemma sample_ingestion:
  "\<not> isl (snd (ingest_source_change id ''chg'' (sample_version ''v13'' ''LEFT'')
     (sample_version ''v14'' ''TOP_RIGHT'') [''a''] ''APPROVED'' 0
     \<lparr>dc_labels = [SYNTHETIC], dc_lineage = []\<rparr> empty_source_store))"
  by code_simp

end
