(* ===== verification/Proof_Store.thy ===== *)
theory Proof_Store
  imports Change_Proof Write_Once
begin

text \<open>
  Storing and replaying Change Proofs (\<open>proof/store.py\<close>): the eligibility projection, the
  append-only proof store, the proof attempt that either returns the stored proof, explains what
  blocks it, or generates and records one, and the read-only replay audit.
\<close>

section \<open>Eligibility\<close>

primrec CONDITION_LABELS :: "proof_condition \<Rightarrow> str" where
  "CONDITION_LABELS C1_SOURCE_CHANGE_APPLICABLE = ''Source change represented and still applicable''"
| "CONDITION_LABELS C2_IMPACT_DETERMINED = ''Impact validly determined to one target''"
| "CONDITION_LABELS C3_REMEDIATED_OR_NO_OP = ''Remediated, or a valid no-op''"
| "CONDITION_LABELS C4_DELTA_DELIVERED = ''Delta delivered with a resolvable receipt''"
| "CONDITION_LABELS C5_LATEST_VERIFICATION_PASS = ''Latest authoritative verification is PASS''"
| "CONDITION_LABELS C6_EVIDENCE_TRACEABLE = ''Evidence complete and traceable''"
| "CONDITION_LABELS C7_STATE_COMPATIBLE = ''Current state compatible with completion''"

definition ALL_CONDITIONS :: "proof_condition list" where
  "ALL_CONDITIONS =
     [C1_SOURCE_CHANGE_APPLICABLE, C2_IMPACT_DETERMINED, C3_REMEDIATED_OR_NO_OP, C4_DELTA_DELIVERED,
      C5_LATEST_VERIFICATION_PASS, C6_EVIDENCE_TRACEABLE, C7_STATE_COMPATIBLE]"

record condition_entry =
  ce_condition :: proof_condition
  ce_label :: str
  ce_satisfied :: bool

definition invariant_report :: "proof_invariant_result \<Rightarrow> condition_entry list res" where
  "invariant_report result =
     (if list_ex (\<lambda>c. dict_get (pi_conditions result) c = None) ALL_CONDITIONS then Inl KeyError
      else Inr (map (\<lambda>c. \<lparr>ce_condition = c, ce_label = CONDITION_LABELS c,
                          ce_satisfied = (dict_get (pi_conditions result) c = Some True)\<rparr>)
                ALL_CONDITIONS))"

record proof_eligibility =
  pe_eligible :: bool
  pe_conditions :: "condition_entry list"
  pe_failed_conditions :: "proof_condition list"

definition pe_satisfied_count :: "proof_eligibility \<Rightarrow> nat" where
  "pe_satisfied_count e = length (filter ce_satisfied (pe_conditions e))"

definition pe_total :: "proof_eligibility \<Rightarrow> nat" where
  "pe_total e = length (pe_conditions e)"

definition evaluate_eligibility :: "proof_context \<Rightarrow> proof_eligibility res" where
  "evaluate_eligibility c =
     res_bind (evaluate_proof_invariants c) (\<lambda>result.
       res_bind (invariant_report result) (\<lambda>report. Inr
         \<lparr>pe_eligible = pi_eligible result, pe_conditions = report,
          pe_failed_conditions = pi_failed_conditions result\<rparr>))"

section \<open>The store\<close>

record stored_proof =
  sp_proof_ref :: str
  sp_proof :: change_proof
  sp_canonical_bytes :: str
  sp_content_hash :: str

record proof_store =
  pt_proofs :: "(str, stored_proof) dict"
  pt_by_workflow :: "(str, str) dict"
  pt_order :: "str list"

definition empty_proof_store :: proof_store where
  "empty_proof_store = \<lparr>pt_proofs = [], pt_by_workflow = [], pt_order = []\<rparr>"

definition proof_ref :: "str \<Rightarrow> str" where
  "proof_ref proof_id = ''proof:'' @ proof_id"

text \<open>\<open>proof.model_dump(mode="json")\<close>: the hashed material and the digest itself.\<close>

definition dump_proof :: "(datetime \<Rightarrow> str) \<Rightarrow> change_proof \<Rightarrow> json" where
  "dump_proof isoformat p =
     (case canonical_proof_material isoformat p of
        JObj kvs \<Rightarrow> JObj (kvs @ [(''content_hash'', JStr (cp_content_hash p))])
      | j \<Rightarrow> j)"

definition store_entry :: "(datetime \<Rightarrow> str) \<Rightarrow> change_proof \<Rightarrow> stored_proof" where
  "store_entry isoformat p =
     \<lparr>sp_proof_ref = proof_ref (cp_proof_id p), sp_proof = p,
      sp_canonical_bytes = canonical_json (dump_proof isoformat p),
      sp_content_hash = cp_content_hash p\<rparr>"

definition record_proof ::
  "(datetime \<Rightarrow> str) \<Rightarrow> change_proof \<Rightarrow> proof_store \<Rightarrow> proof_store \<times> stored_proof res" where
  "record_proof isoformat p s =
     (let ref = proof_ref (cp_proof_id p)
      in case dict_get (pt_proofs s) ref of
           Some existing \<Rightarrow>
             if sp_canonical_bytes existing \<noteq> canonical_json (dump_proof isoformat p)
             then (s, Inl (ProofStorageError ref))
             else (s, Inr existing)
         | None \<Rightarrow>
             (\<lparr>pt_proofs = dict_put ref (store_entry isoformat p) (pt_proofs s),
               pt_by_workflow = dict_put (cp_workflow_id p) ref (pt_by_workflow s),
               pt_order = pt_order s @ [ref]\<rparr>,
              Inr (store_entry isoformat p)))"

definition proof_resolve :: "str \<Rightarrow> proof_store \<Rightarrow> stored_proof option" where
  "proof_resolve ref s = dict_get (pt_proofs s) ref"

definition find_workflow :: "str \<Rightarrow> proof_store \<Rightarrow> stored_proof option" where
  "find_workflow workflow_id s =
     (case dict_get (pt_by_workflow s) workflow_id of
        None \<Rightarrow> None
      | Some ref \<Rightarrow> if ref = [] then None else proof_resolve ref s)"

section \<open>The proof attempt\<close>

record proof_outcome =
  po_generated :: bool
  po_eligibility :: proof_eligibility
  po_stored :: "stored_proof option"
  po_replayed :: bool
  po_blocker_detail :: "str option"

definition blocker_detail :: "proof_eligibility \<Rightarrow> str" where
  "blocker_detail e =
     show_nat (pe_satisfied_count e) @ '' of '' @ show_nat (pe_total e) @
     '' completion conditions hold; unmet: '' @
     join_str '', '' (map CONDITION_LABELS (pe_failed_conditions e))"

definition attempt_proof ::
  "(datetime \<Rightarrow> str) \<Rightarrow> (str \<Rightarrow> str) \<Rightarrow> proof_context \<Rightarrow> proof_store \<Rightarrow> proof_store \<times> proof_outcome res"
where
  "attempt_proof isoformat H c s =
     (case evaluate_eligibility c of
        Inl e \<Rightarrow> (s, Inl e)
      | Inr eligibility \<Rightarrow>
          (case find_workflow (wf_workflow_id (pc_workflow c)) s of
             Some existing \<Rightarrow>
               (s, Inr \<lparr>po_generated = True, po_eligibility = eligibility,
                        po_stored = Some existing, po_replayed = True, po_blocker_detail = None\<rparr>)
           | None \<Rightarrow>
               if \<not> pe_eligible eligibility then
                 (s, Inr \<lparr>po_generated = False, po_eligibility = eligibility, po_stored = None,
                          po_replayed = False, po_blocker_detail = Some (blocker_detail eligibility)\<rparr>)
               else (case generate_change_proof isoformat H c None of
                 Inl e \<Rightarrow> (s, Inl e)
               | Inr p \<Rightarrow>
                   (case record_proof isoformat p s of
                      (s', Inl e) \<Rightarrow> (s', Inl e)
                    | (s', Inr stored) \<Rightarrow>
                        (s', Inr \<lparr>po_generated = True, po_eligibility = eligibility,
                                  po_stored = Some stored, po_replayed = False,
                                  po_blocker_detail = None\<rparr>)))))"

definition verify_stored_hash :: "(datetime \<Rightarrow> str) \<Rightarrow> (str \<Rightarrow> str) \<Rightarrow> stored_proof \<Rightarrow> bool" where
  "verify_stored_hash isoformat H stored \<longleftrightarrow>
     compute_proof_hash isoformat H (sp_proof stored) = sp_content_hash stored"

section \<open>Replay\<close>

record chronology_entry =
  ch_event_sequence :: int
  ch_event_id :: str
  ch_observed :: str
  ch_expected :: str
  ch_result :: str
  ch_timestamp :: str

record 't replay_document =
  ra_proof_ref :: str
  ra_proof_id :: str
  ra_content_hash :: str
  ra_hash_verified :: bool
  ra_side_effects_executed :: nat
  ra_manifest :: evidence_manifest
  ra_verification_chronology :: "chronology_entry list"
  ra_timeline :: "'t list"

definition chronology_entry_of :: "(datetime \<Rightarrow> str) \<Rightarrow> verification_event \<Rightarrow> chronology_entry" where
  "chronology_entry_of isoformat e =
     \<lparr>ch_event_sequence = ve_event_sequence e, ch_event_id = ve_event_id e,
      ch_observed = position_value (ve_derived_observation e), ch_expected = ve_expected_value e,
      ch_result = result_value (ve_verification_result e), ch_timestamp = isoformat (ve_timestamp e)\<rparr>"

definition replay_audit ::
  "(datetime \<Rightarrow> str) \<Rightarrow> (str \<Rightarrow> str) \<Rightarrow> stored_proof \<Rightarrow> verification_event list \<Rightarrow> 't list \<Rightarrow>
     't replay_document" where
  "replay_audit isoformat H stored events timeline =
     \<lparr>ra_proof_ref = sp_proof_ref stored,
      ra_proof_id = cp_proof_id (sp_proof stored),
      ra_content_hash = sp_content_hash stored,
      ra_hash_verified = verify_stored_hash isoformat H stored,
      ra_side_effects_executed = 0,
      ra_manifest = cp_evidence_manifest (sp_proof stored),
      ra_verification_chronology =
        map (chronology_entry_of isoformat) (sort_key ve_event_sequence events),
      ra_timeline = timeline\<rparr>"

section \<open>The store is write-once\<close>

text \<open>\<open>record\<close> seen as a write of a proof under its reference.\<close>

definition put_proof ::
  "(datetime \<Rightarrow> str) \<Rightarrow> change_proof \<Rightarrow> proof_store \<Rightarrow> proof_store \<times> str res" where
  "put_proof isoformat p s =
     (let (s', r) = record_proof isoformat p s
      in (s', case r of Inl e \<Rightarrow> Inl e | Inr _ \<Rightarrow> Inr (proof_ref (cp_proof_id p))))"

text \<open>
  The invariant of the store: each entry sits under its proof's reference with the canonical bytes
  and hash of that proof, the workflow index points at stored references of that workflow, and the
  workflow of every stored proof is indexed.
\<close>

definition proof_store_ok :: "(datetime \<Rightarrow> str) \<Rightarrow> proof_store \<Rightarrow> bool" where
  "proof_store_ok isoformat s \<longleftrightarrow>
     (\<forall>ref sp. dict_get (pt_proofs s) ref = Some sp \<longrightarrow>
        sp = store_entry isoformat (sp_proof sp) \<and> ref = sp_proof_ref sp) \<and>
     (\<forall>w ref. dict_get (pt_by_workflow s) w = Some ref \<longrightarrow>
        (\<exists>sp. dict_get (pt_proofs s) ref = Some sp \<and> cp_workflow_id (sp_proof sp) = w)) \<and>
     (\<forall>ref sp. dict_get (pt_proofs s) ref = Some sp \<longrightarrow>
        dict_get (pt_by_workflow s) (cp_workflow_id (sp_proof sp)) \<noteq> None)"

lemma empty_store_ok: "proof_store_ok isoformat empty_proof_store"
  by (simp add: proof_store_ok_def empty_proof_store_def)

lemma store_entry_simps [simp]:
  "sp_proof_ref (store_entry tf p) = proof_ref (cp_proof_id p)" "sp_proof (store_entry tf p) = p"
  "sp_canonical_bytes (store_entry tf p) = canonical_json (dump_proof tf p)"
  "sp_content_hash (store_entry tf p) = cp_content_hash p"
  by (simp_all add: store_entry_def)

lemma proof_ref_nonempty [simp]: "proof_ref i \<noteq> []"
  by (simp add: proof_ref_def)

lemma record_proof_ok:
  assumes "proof_store_ok tf s" and "record_proof tf p s = (s', r)"
  shows "proof_store_ok tf s'"
proof (cases "dict_get (pt_proofs s) (proof_ref (cp_proof_id p))")
  case (Some sp)
  with assms show ?thesis by (auto simp: record_proof_def Let_def split: if_splits)
next
  case None
  with assms(2) have "s' = \<lparr>pt_proofs = dict_put (proof_ref (cp_proof_id p)) (store_entry tf p) (pt_proofs s),
      pt_by_workflow = dict_put (cp_workflow_id p) (proof_ref (cp_proof_id p)) (pt_by_workflow s),
      pt_order = pt_order s @ [proof_ref (cp_proof_id p)]\<rparr>"
    by (simp add: record_proof_def Let_def)
  with assms(1) None show ?thesis
    unfolding proof_store_ok_def by (auto) (metis option.distinct(1))+
qed

lemma record_proof_result:
  assumes "record_proof tf p s = (s', Inr sp)"
  shows "proof_resolve (proof_ref (cp_proof_id p)) s' = Some sp \<and>
    sp_canonical_bytes sp = canonical_json (dump_proof tf p)"
  using assms
  by (cases "dict_get (pt_proofs s) (proof_ref (cp_proof_id p))")
    (auto simp: record_proof_def proof_resolve_def Let_def split: if_splits)

lemma find_workflow_Some:
  assumes "proof_store_ok tf s" and "find_workflow w s = Some sp"
  shows "proof_resolve (sp_proof_ref sp) s = Some sp \<and> cp_workflow_id (sp_proof sp) = w \<and>
    sp = store_entry tf (sp_proof sp)"
  using assms
  by (auto simp: find_workflow_def proof_resolve_def proof_store_ok_def split: option.splits if_splits)
    fastforce+

interpretation proofs: write_once_idem "put_proof tf" proof_resolve "\<lambda>p. proof_ref (cp_proof_id p)"
    "store_entry tf" "\<lambda>sp p. sp_canonical_bytes sp = canonical_json (dump_proof tf p)" "proof_store_ok tf"
  for tf
proof unfold_locales
  fix s v assume "proof_store_ok tf s"
  then show "proof_store_ok tf (fst (put_proof tf v s))"
    by (cases "record_proof tf v s") (simp add: put_proof_def record_proof_ok)
qed (auto simp: put_proof_def record_proof_def proof_resolve_def Let_def
      split: option.splits if_splits prod.splits)

section \<open>One proof per workflow\<close>

lemma dump_proof_workflow:
  "canonical_json (dump_proof tf p) = canonical_json (dump_proof tf q) \<Longrightarrow>
   cp_workflow_id p = cp_workflow_id q"
  unfolding dump_proof_def canonical_proof_material_def json.case
  by (subst (asm) canonical_fields_iff) simp_all

lemma find_workflow_None:
  assumes "proof_store_ok tf s"
  shows "find_workflow w s = None \<longleftrightarrow> dict_get (pt_by_workflow s) w = None"
proof (cases "dict_get (pt_by_workflow s) w")
  case (Some ref)
  with assms obtain sp where "dict_get (pt_proofs s) ref = Some sp"
    unfolding proof_store_ok_def by blast
  moreover from this assms have "ref = sp_proof_ref sp" "sp = store_entry tf (sp_proof sp)"
    by (simp_all add: proof_store_ok_def)
  then have "ref \<noteq> []" by (metis proof_ref_nonempty store_entry_simps(1))
  ultimately show ?thesis using Some by (simp add: find_workflow_def proof_resolve_def)
qed (simp add: find_workflow_def)

text \<open>Recording a proof of a workflow that has none makes it that workflow's proof, and changes no
  other workflow's.\<close>

lemma record_proof_indexed:
  assumes "proof_store_ok tf s" and "record_proof tf p s = (s', Inr sp)"
    and "find_workflow (cp_workflow_id p) s = None"
  shows "sp = store_entry tf p \<and> find_workflow (cp_workflow_id p) s' = Some sp"
proof (cases "dict_get (pt_proofs s) (proof_ref (cp_proof_id p))")
  case None
  with assms(2) show ?thesis
    by (auto simp: record_proof_def find_workflow_def proof_resolve_def Let_def)
next
  case (Some ex)
  with assms(2) have "sp_canonical_bytes ex = canonical_json (dump_proof tf p)"
    by (auto simp: record_proof_def Let_def split: if_splits)
  moreover from Some assms(1) have "ex = store_entry tf (sp_proof ex)"
    and i: "dict_get (pt_by_workflow s) (cp_workflow_id (sp_proof ex)) \<noteq> None"
    by (simp_all add: proof_store_ok_def)
  ultimately have "cp_workflow_id (sp_proof ex) = cp_workflow_id p"
    by (metis dump_proof_workflow store_entry_simps(3))
  with i assms(3) find_workflow_None [OF assms(1)] show ?thesis by simp
qed

lemma record_proof_frame:
  assumes "proof_store_ok tf s" and "record_proof tf p s = (s', r)"
    and "find_workflow w s = Some sp" and "w \<noteq> cp_workflow_id p"
  shows "find_workflow w s' = Some sp"
proof (cases "dict_get (pt_proofs s) (proof_ref (cp_proof_id p))")
  case (Some ex)
  with assms show ?thesis by (auto simp: record_proof_def Let_def split: if_splits)
next
  case None
  with assms show ?thesis
    by (auto simp: record_proof_def find_workflow_def proof_resolve_def Let_def split: option.splits)
qed

lemma generated_workflow:
  "generate_change_proof tf H c None = Inr p \<Longrightarrow> cp_workflow_id p = wf_workflow_id (pc_workflow c)"
  by (erule generate_Inr_cases) simp

lemma eligibility_Inr:
  assumes "evaluate_eligibility c = Inr e"
  shows "\<exists>r. evaluate_proof_invariants c = Inr r \<and> pe_eligible e = pi_eligible r \<and>
    pe_failed_conditions e = pi_failed_conditions r"
  using assms by (auto simp: evaluate_eligibility_def res_bind_Inr_iff)

text \<open>The four ways an attempt ends.\<close>

lemma attempt_cases [consumes 1, case_names error replayed blocked fresh]:
  assumes "attempt_proof tf H c s = (s', r)"
  obtains (error) x where "r = Inl x"
      "s' = s \<or> (\<exists>p. generate_change_proof tf H c None = Inr p \<and> record_proof tf p s = (s', Inl x) \<and>
         find_workflow (wf_workflow_id (pc_workflow c)) s = None)"
  | (replayed) e sp where "s' = s" "evaluate_eligibility c = Inr e"
      "find_workflow (wf_workflow_id (pc_workflow c)) s = Some sp"
      "r = Inr \<lparr>po_generated = True, po_eligibility = e, po_stored = Some sp, po_replayed = True,
         po_blocker_detail = None\<rparr>"
  | (blocked) e where "s' = s" "evaluate_eligibility c = Inr e" "\<not> pe_eligible e"
      "find_workflow (wf_workflow_id (pc_workflow c)) s = None"
      "r = Inr \<lparr>po_generated = False, po_eligibility = e, po_stored = None, po_replayed = False,
         po_blocker_detail = Some (blocker_detail e)\<rparr>"
  | (fresh) e p sp where "evaluate_eligibility c = Inr e" "pe_eligible e"
      "find_workflow (wf_workflow_id (pc_workflow c)) s = None"
      "generate_change_proof tf H c None = Inr p" "record_proof tf p s = (s', Inr sp)"
      "r = Inr \<lparr>po_generated = True, po_eligibility = e, po_stored = Some sp, po_replayed = False,
         po_blocker_detail = None\<rparr>"
proof (cases "evaluate_eligibility c")
  case (Inl x)
  with assms show thesis by (intro error [of x]) (simp_all add: attempt_proof_def)
next
  case e: (Inr e)
  show thesis
  proof (cases "find_workflow (wf_workflow_id (pc_workflow c)) s")
    case (Some sp)
    with assms e show thesis by (intro replayed [of e sp]) (simp_all add: attempt_proof_def)
  next
    case n: None
    show thesis
    proof (cases "pe_eligible e")
      case False
      with assms e n show thesis by (intro blocked [of e]) (simp_all add: attempt_proof_def)
    next
      case elig: True
      show thesis
      proof (cases "generate_change_proof tf H c None")
        case (Inl x)
        with assms e n elig show thesis by (intro error [of x]) (simp_all add: attempt_proof_def)
      next
        case p: (Inr p)
        obtain t q where t: "record_proof tf p s = (t, q)" by fastforce
        show thesis
        proof (cases q)
          case (Inl x)
          with assms e n elig p t show thesis
            by (intro error [of x]) (simp_all add: attempt_proof_def)
        next
          case (Inr sp)
          with assms e n elig p t show thesis
            by (intro fresh [of e p sp]) (simp_all add: attempt_proof_def)
        qed
      qed
    qed
  qed
qed

lemma attempt_ok:
  assumes "proof_store_ok tf s" and "attempt_proof tf H c s = (s', r)"
  shows "proof_store_ok tf s'"
  using assms(2) by (cases rule: attempt_cases) (auto intro: record_proof_ok assms(1))

lemma attempt_keeps:
  assumes "proof_store_ok tf s" and "attempt_proof tf H c s = (s', r)" and "find_workflow w s = Some sp"
  shows "find_workflow w s' = Some sp"
  using assms(2)
proof (cases rule: attempt_cases)
  case (error x)
  then show ?thesis using record_proof_frame [OF assms(1) _ assms(3)] generated_workflow assms(3) by fastforce
next
  case (fresh e p t)
  then show ?thesis using record_proof_frame [OF assms(1) fresh(5) assms(3)] generated_workflow assms(3)
    by fastforce
qed (use assms(3) in simp_all)

definition attempts ::
  "(datetime \<Rightarrow> str) \<Rightarrow> (str \<Rightarrow> str) \<Rightarrow> proof_context list \<Rightarrow> proof_store \<Rightarrow> proof_store" where
  "attempts tf H cs s = foldl (\<lambda>s c. fst (attempt_proof tf H c s)) s cs"

lemma attempts_keep:
  assumes "proof_store_ok tf s" and "find_workflow w s = Some sp"
  shows "proof_store_ok tf (attempts tf H cs s) \<and> find_workflow w (attempts tf H cs s) = Some sp"
  using assms unfolding attempts_def
proof (induction cs arbitrary: s)
  case (Cons c cs)
  obtain s' r where "attempt_proof tf H c s = (s', r)" by fastforce
  with Cons.IH [of s'] attempt_ok [OF Cons.prems(1)] attempt_keeps [OF Cons.prems(1) _ Cons.prems(2)]
  show ?case by simp
qed simp

text \<open>A fresh proof is the stored one, and its hash verifies.\<close>

lemma attempt_stored:
  assumes "proof_store_ok tf s" and "attempt_proof tf H c s = (s', Inr q)" and "po_stored q = Some sp"
  shows "find_workflow (wf_workflow_id (pc_workflow c)) s' = Some sp \<and>
    (po_replayed q \<or> pe_eligible (po_eligibility q) \<and> verify_stored_hash tf H sp \<and>
       generate_change_proof tf H c None = Inr (sp_proof sp))"
  using assms(2)
proof (cases rule: attempt_cases)
  case (error x)
  then show ?thesis by simp
next
  case (replayed e t)
  with assms(3) show ?thesis by simp
next
  case (blocked e)
  with assms(3) show ?thesis by simp
next
  case (fresh e p t)
  note w = generated_workflow [OF fresh(4)]
  have r: "t = store_entry tf p" "find_workflow (cp_workflow_id p) s' = Some t"
    using record_proof_indexed [OF assms(1) fresh(5)] fresh(3) w by auto
  have "cp_content_hash p = compute_proof_hash tf H p"
    using fresh(4) by (auto elim!: generate_Inr_cases)
  with fresh r w assms(3) show ?thesis by (auto simp: verify_stored_hash_def)
qed

text \<open>One authoritative proof per workflow: once an attempt has produced a proof for a workflow, then
  after any further attempts, for any contexts, every attempt for that workflow that returns at all
  returns the same stored proof, marked as a replay, and leaves the store as it is, even when the
  conditions no longer hold; its reference still resolves to it; and unless the first attempt was
  itself a replay, all seven conditions held then, the stored proof is the generated one and its
  hash verifies.\<close>

theorem one_proof_per_workflow:
  assumes "proof_store_ok tf s" and "attempt_proof tf H c s = (s1, Inr q)" and "po_stored q = Some sp"
    and "wf_workflow_id (pc_workflow c') = wf_workflow_id (pc_workflow c)"
    and "attempt_proof tf H c' (attempts tf H cs s1) = (s2, Inr q')"
  shows "s2 = attempts tf H cs s1 \<and> po_generated q' \<and> po_replayed q' \<and> po_stored q' = Some sp \<and>
    proof_resolve (sp_proof_ref sp) s2 = Some sp \<and>
    (po_replayed q \<or> pe_eligible (po_eligibility q) \<and> verify_stored_hash tf H sp \<and>
       generate_change_proof tf H c None = Inr (sp_proof sp))"
proof -
  note st = attempt_stored [OF assms(1,2,3)]
  have ok1: "proof_store_ok tf s1" by (rule attempt_ok [OF assms(1,2)])
  from st have "find_workflow (wf_workflow_id (pc_workflow c)) s1 = Some sp" ..
  note later = attempts_keep [OF ok1 this, of H cs]
  note found = find_workflow_Some [OF later [THEN conjunct1] later [THEN conjunct2]]
  from assms(5) show ?thesis
    by (cases rule: attempt_cases) (use later found st assms(4) in auto)
qed

lemma sample_attempt:
  "\<exists>s1 q sp. attempt_proof show_int id sample_context empty_proof_store = (s1, Inr q) \<and>
     po_stored q = Some sp \<and> \<not> po_replayed q"
proof -
  obtain p where "generate_change_proof show_int id sample_context None = Inr p"
    using sample_context_generates by blast
  moreover have "\<not> isl (evaluate_eligibility sample_context) \<and>
      (case evaluate_eligibility sample_context of Inl _ \<Rightarrow> False | Inr e \<Rightarrow> pe_eligible e)"
    by code_simp
  ultimately show ?thesis
    by (auto simp: attempt_proof_def record_proof_def empty_proof_store_def find_workflow_def Let_def
        split: sum.splits)
qed

theorem one_proof_per_workflow_witness:
  "\<exists>s1 q sp. attempt_proof show_int id sample_context empty_proof_store = (s1, Inr q) \<and>
     (\<exists>q'. attempt_proof show_int id sample_context s1 = (s1, Inr q') \<and> po_replayed q' \<and>
        po_stored q' = Some sp)"
proof -
  obtain s1 q sp where a: "attempt_proof show_int id sample_context empty_proof_store = (s1, Inr q)"
    and q: "po_stored q = Some sp" using sample_attempt by blast
  obtain s2 r where r: "attempt_proof show_int id sample_context s1 = (s2, r)" by fastforce
  have "find_workflow (wf_workflow_id (pc_workflow sample_context)) s1 = Some sp"
    using attempt_stored [OF empty_store_ok a q] ..
  with r obtain q' where "r = Inr q'"
    using a by (auto simp: attempt_proof_def split: sum.splits)
  with r one_proof_per_workflow [OF empty_store_ok a q refl, of "[]" s2 q']
  have "s2 = s1 \<and> po_replayed q' \<and> po_stored q' = Some sp" by (simp add: attempts_def)
  with a r \<open>r = Inr q'\<close> show ?thesis by blast
qed

text \<open>The integrity check of a stored proof reads the proof object, not the stored bytes: whatever the
  bytes are, its answer is the same.\<close>

lemma stored_hash_ignores_bytes:
  "verify_stored_hash tf H (sp\<lparr>sp_canonical_bytes := bytes\<rparr>) = verify_stored_hash tf H sp"
  by (simp add: verify_stored_hash_def)

text \<open>The replay audit lists the recorded events in sequence order and changes nothing.\<close>

lemma replay_sorted:
  "sorted (map ch_event_sequence (ra_verification_chronology (replay_audit tf H sp es timeline)))"
  by (simp add: replay_audit_def comp_def chronology_entry_of_def)

lemma replay_order_independent:
  assumes "mset es = mset fs" and "distinct (map ve_event_sequence es)"
  shows "replay_audit tf H sp es timeline = replay_audit tf H sp fs timeline"
proof -
  have "sort_key ve_event_sequence es = sort_key ve_event_sequence fs"
    using assms by (intro sort_key_inj_key_eq) (auto simp: distinct_map)
  then show ?thesis by (simp add: replay_audit_def)
qed

text \<open>A blocked attempt names exactly the unmet conditions and counts the others.\<close>

lemma eligibility_conditions:
  assumes "evaluate_proof_invariants c = Inr r" and "invariant_report r = Inr es"
  shows "map ce_condition es = ALL_CONDITIONS"
    "es = map (\<lambda>(k, b). \<lparr>ce_condition = k, ce_label = CONDITION_LABELS k, ce_satisfied = b\<rparr>)
       (pi_conditions r)"
    "pi_failed_conditions r = failed_of (pi_conditions r)" "pi_eligible r = list_all snd (pi_conditions r)"
  using assms
  by (auto simp: res_bind_Inr_iff evaluate_proof_invariants_def Let_def invariant_report_def
      ALL_CONDITIONS_def simp del: failed_of_simps)

lemma eligibility_report:
  assumes "evaluate_eligibility c = Inr e"
  shows "pe_total e = 7 \<and> map ce_condition (pe_conditions e) = ALL_CONDITIONS \<and>
    pe_satisfied_count e + length (pe_failed_conditions e) = 7 \<and>
    (pe_eligible e \<longleftrightarrow> pe_satisfied_count e = 7)"
proof -
  from assms obtain r es where r: "evaluate_proof_invariants c = Inr r" "invariant_report r = Inr es"
    and e: "e = \<lparr>pe_eligible = pi_eligible r, pe_conditions = es,
      pe_failed_conditions = pi_failed_conditions r\<rparr>"
    by (auto simp: evaluate_eligibility_def res_bind_Inr_iff)
  note c = eligibility_conditions [OF r]
  have n: "length es = 7" using arg_cong [OF c(1), of length] by (simp add: ALL_CONDITIONS_def)
  have "length (filter ce_satisfied es) = length (filter snd (pi_conditions r))"
    by (subst c(2)) (simp add: filter_map comp_def split_beta)
  moreover have "length (filter snd (pi_conditions r)) + length (failed_of (pi_conditions r)) =
      length (pi_conditions r)"
    by (simp add: failed_of_def sum_length_filter_compl)
  moreover have "length (pi_conditions r) = 7" using n c(2) by (metis length_map)
  moreover have "list_all snd (pi_conditions r) \<longleftrightarrow> failed_of (pi_conditions r) = []"
    by (simp add: failed_of_Nil_iff)
  ultimately show ?thesis
    using n c by (auto simp: e pe_total_def pe_satisfied_count_def)
qed

end
