(* ===== verification/Delivery.thy ===== *)
theory Delivery
  imports Capabilities Canonical
begin

text \<open>
  The local pilot delivery mechanism (\<open>delivery/local_channel.py\<close>) and the Frontline Enablement
  Agent that composes a delta and hands it to a mechanism (\<open>agents/enablement.py\<close>). The
  \<open>DeliveryChannel\<close> protocol is the locale \<open>delivery_channel\<close>: what any mechanism must promise about
  its receipts. The agent is written over an arbitrary mechanism, and the pilot channel is shown to
  be one.
\<close>

section \<open>Receipts\<close>

definition CHANNEL_LOCAL_PILOT :: str where
  "CHANNEL_LOCAL_PILOT = ''local_pilot_frontline''"

datatype delivery_status = DS_DELIVERED | DS_FAILED | DS_UNCERTAIN

record delivery_receipt =
  rc_receipt_id :: str
  rc_instruction_id :: str
  rc_change_id :: str
  rc_channel :: str
  rc_destination_ref :: str
  rc_payload_hash :: str
  rc_status :: delivery_status
  rc_issued_at :: datetime
  rc_identity_basis :: str

definition receipt_evidence_ref :: "delivery_receipt \<Rightarrow> str" where
  "receipt_evidence_ref r = rc_channel r @ '':receipt:'' @ rc_receipt_id r"

definition receipt_delivered :: "delivery_receipt \<Rightarrow> bool" where
  "receipt_delivered r \<longleftrightarrow> rc_status r = DS_DELIVERED"

type_synonym payload = "(str, json) dict"

definition payload_hash :: "(str \<Rightarrow> str) \<Rightarrow> payload \<Rightarrow> str" where
  "payload_hash H payload = canonical_hash H (JObj payload)"

section \<open>The pilot channel\<close>

record pilot_channel =
  lc_receipts :: "(str, delivery_receipt) dict"
  lc_delivered :: "(str, payload) dict"
  lc_dispatch_count :: nat

definition new_pilot_channel :: pilot_channel where
  "new_pilot_channel = \<lparr>lc_receipts = [], lc_delivered = [], lc_dispatch_count = 0\<rparr>"

text \<open>The source has an em dash where this text has a hyphen.\<close>

definition IDENTITY_BASIS :: str where
  "IDENTITY_BASIS =
     ''UNAUTHENTICATED_LOCAL_SESSION - the destination is a local pilot frontline surface, not '' @
     ''a named employee, mailbox, or device. '' @
     ''No enterprise workforce identity system is integrated.''"

definition authorization_ok ::
  "tool_grant option \<Rightarrow> (tool_grant \<Rightarrow> bool) option \<Rightarrow> str \<Rightarrow> str \<Rightarrow> bool" where
  "authorization_ok grant grant_verifier destination_ref change_id =
     (case (grant, grant_verifier) of
        (Some g, Some verifier) \<Rightarrow>
          if \<not> verifier g then False
          else if \<not> covers g destination_ref then False
          else tg_change_id g = change_id
      | _ \<Rightarrow> False)"

text \<open>\<open>f"rcpt-{n:04d}-{instruction_id}"\<close>\<close>

definition receipt_id :: "nat \<Rightarrow> str \<Rightarrow> str" where
  "receipt_id n instruction_id = ''rcpt-'' @ pad_nat 4 n @ CHR ''-'' # instruction_id"

definition deliver ::
  "(str \<Rightarrow> str) \<Rightarrow> str \<Rightarrow> str \<Rightarrow> payload \<Rightarrow> str \<Rightarrow> datetime \<Rightarrow> tool_grant option \<Rightarrow>
     (tool_grant \<Rightarrow> bool) option \<Rightarrow> pilot_channel \<Rightarrow> pilot_channel \<times> delivery_receipt res" where
  "deliver H instruction_id change_id payload destination_ref occurred_at grant grant_verifier c =
     (if \<not> authorization_ok grant grant_verifier destination_ref change_id then
        (c, Inl DeliveryNotAuthorized)
      else if blank instruction_id \<or> blank change_id then (c, Inl DeliveryDispatchError)
      else if payload = [] then (c, Inl DeliveryDispatchError)
      else
        let c1 = c\<lparr>lc_dispatch_count := lc_dispatch_count c + 1\<rparr>;
            receipt =
              \<lparr>rc_receipt_id = receipt_id (lc_dispatch_count c1) instruction_id,
               rc_instruction_id = instruction_id, rc_change_id = change_id,
               rc_channel = CHANNEL_LOCAL_PILOT, rc_destination_ref = destination_ref,
               rc_payload_hash = payload_hash H payload, rc_status = DS_DELIVERED,
               rc_issued_at = occurred_at, rc_identity_basis = IDENTITY_BASIS\<rparr>;
            ref = receipt_evidence_ref receipt
        in if dict_get (lc_receipts c1) ref \<noteq> None then (c1, Inl DeliveryDispatchError)
           else (c1\<lparr>lc_receipts := dict_put ref receipt (lc_receipts c1),
                    lc_delivered := dict_put ref payload (lc_delivered c1)\<rparr>, Inr receipt))"

definition channel_resolve :: "str \<Rightarrow> pilot_channel \<Rightarrow> delivery_receipt option" where
  "channel_resolve ref c = dict_get (lc_receipts c) ref"

definition resolve_payload :: "str \<Rightarrow> pilot_channel \<Rightarrow> payload option" where
  "resolve_payload ref c = dict_get (lc_delivered c) ref"

definition channel_refs :: "pilot_channel \<Rightarrow> str list" where
  "channel_refs c = dict_keys (lc_receipts c)"

definition recoverable_receipt_ref :: "str \<Rightarrow> pilot_channel \<Rightarrow> str option" where
  "recoverable_receipt_ref instruction_id c =
     map_option fst
       (List.find (\<lambda>(ref, r). rc_instruction_id r = instruction_id \<and> receipt_delivered r)
          (lc_receipts c))"

section \<open>The enablement agent\<close>

record delta_instruction =
  di_instruction_id :: str
  di_change_id :: str
  di_artifact_id :: str
  di_requirement_id :: str
  di_before_value :: str
  di_after_value :: str
  di_concise_instruction :: str
  di_unchanged_context :: "(str, str) dict"
  di_source_procedure_id :: str
  di_source_version :: str
  di_previous_version :: str
  di_source_evidence_ref :: str
  di_rationale :: "str option"
  di_delivery_established :: bool

definition valid_instruction :: "delta_instruction \<Rightarrow> bool" where
  "valid_instruction i \<longleftrightarrow>
     di_instruction_id i \<noteq> [] \<and> di_change_id i \<noteq> [] \<and> di_artifact_id i \<noteq> [] \<and>
     di_requirement_id i \<noteq> [] \<and> di_before_value i \<noteq> [] \<and> di_after_value i \<noteq> [] \<and>
     di_concise_instruction i \<noteq> [] \<and> di_source_procedure_id i \<noteq> [] \<and> di_source_version i \<noteq> [] \<and>
     di_previous_version i \<noteq> [] \<and> di_source_evidence_ref i \<noteq> []"

datatype delta_status =
  COMPOSED | NO_CHANGE | DELTA_ARTIFACT_MISMATCH | REQUIREMENT_NOT_PRESENT | NOT_IN_AUTHORIZED_SCOPE

text \<open>The reason of a refusal is prose determined by the status; it is not kept.\<close>

record delta_composition =
  dc_status :: delta_status
  dc_instruction :: "delta_instruction option"

definition underscores_to_spaces :: "str \<Rightarrow> str" where
  "underscores_to_spaces s = map (\<lambda>c. if c = CHR ''_'' then CHR '' '' else c) s"

definition compose_instruction_text :: "str \<Rightarrow> str \<Rightarrow> str \<Rightarrow> str" where
  "compose_instruction_text requirement_id before after =
     ''Set '' @ py_strip (underscores_to_spaces requirement_id) @ '' to '' @ after @
     ''. It was previously '' @ before @ ''.''"

definition compose_delta ::
  "approved_change \<Rightarrow> downstream_artifact \<Rightarrow> str \<Rightarrow> str option \<Rightarrow> delta_composition res" where
  "compose_delta change artifact instruction_id rationale =
     (if da_artifact_id artifact \<notin> set (ac_authorized_scope change) then
        Inr \<lparr>dc_status = NOT_IN_AUTHORIZED_SCOPE, dc_instruction = None\<rparr>
      else if da_operation_id artifact \<noteq> ac_operation_id change then
        Inr \<lparr>dc_status = DELTA_ARTIFACT_MISMATCH, dc_instruction = None\<rparr>
      else if ac_requirement_id change \<notin> set (dict_keys (da_requirements artifact)) then
        Inr \<lparr>dc_status = REQUIREMENT_NOT_PRESENT, dc_instruction = None\<rparr>
      else if ac_previous_value change = ac_current_value change then
        Inr \<lparr>dc_status = NO_CHANGE, dc_instruction = None\<rparr>
      else res_bind
        (validated valid_instruction
          \<lparr>di_instruction_id = instruction_id,
           di_change_id = ac_change_id change,
           di_artifact_id = da_artifact_id artifact,
           di_requirement_id = ac_requirement_id change,
           di_before_value = ac_previous_value change,
           di_after_value = ac_current_value change,
           di_concise_instruction =
             compose_instruction_text (ac_requirement_id change) (ac_previous_value change)
               (ac_current_value change),
           di_unchanged_context =
             filter (\<lambda>(k, v). k \<noteq> ac_requirement_id change) (da_requirements artifact),
           di_source_procedure_id = ac_source_procedure_id change,
           di_source_version = ac_source_version change,
           di_previous_version = ac_previous_version change,
           di_source_evidence_ref = ac_source_evidence_ref change,
           di_rationale = rationale,
           di_delivery_established = False\<rparr>)
        (\<lambda>i. Inr \<lparr>dc_status = COMPOSED, dc_instruction = Some i\<rparr>))"

definition composed :: "delta_composition \<Rightarrow> bool" where
  "composed r \<longleftrightarrow> dc_status r = COMPOSED \<and> dc_instruction r \<noteq> None"

definition delivery_payload :: "delta_instruction \<Rightarrow> payload" where
  "delivery_payload i =
     [(''instruction_id'', JStr (di_instruction_id i)),
      (''change_id'', JStr (di_change_id i)),
      (''artifact_id'', JStr (di_artifact_id i)),
      (''requirement_id'', JStr (di_requirement_id i)),
      (''before_value'', JStr (di_before_value i)),
      (''after_value'', JStr (di_after_value i)),
      (''concise_instruction'', JStr (di_concise_instruction i)),
      (''unchanged_context'', dump_string_dict (di_unchanged_context i)),
      (''source_procedure_id'', JStr (di_source_procedure_id i)),
      (''source_version'', JStr (di_source_version i)),
      (''previous_version'', JStr (di_previous_version i))]"

record delivery_dispatch =
  dd_result :: delivery_result
  dd_receipt :: delivery_receipt
  dd_payload :: payload

text \<open>
  A mechanism's \<open>deliver\<close> has the pilot's argument order; \<open>channel_name\<close> is the mechanism identity.
  The receipt's status, not the agent, decides \<open>delivered\<close>.
\<close>

type_synonym 'c deliver_op =
  "str \<Rightarrow> str \<Rightarrow> payload \<Rightarrow> str \<Rightarrow> datetime \<Rightarrow> tool_grant option \<Rightarrow> (tool_grant \<Rightarrow> bool) option \<Rightarrow> 'c \<Rightarrow>
     'c \<times> delivery_receipt res"

definition valid_delivery_result :: "delivery_result \<Rightarrow> bool" where
  "valid_delivery_result r \<longleftrightarrow>
     dr_worker_id r \<noteq> [] \<and> dr_delivery_mechanism r \<noteq> [] \<and> dr_delta_content r \<noteq> [] \<and>
     dr_delivery_evidence_ref r \<noteq> []"

definition deliver_delta ::
  "'c deliver_op \<Rightarrow> str \<Rightarrow> delta_instruction \<Rightarrow> str \<Rightarrow> datetime \<Rightarrow> tool_grant option \<Rightarrow>
     (tool_grant \<Rightarrow> bool) option \<Rightarrow> 'c \<Rightarrow> 'c \<times> delivery_dispatch res" where
  "deliver_delta op channel_name i destination_ref occurred_at grant grant_verifier c =
     (case op (di_instruction_id i) (di_change_id i) (delivery_payload i) destination_ref
             occurred_at grant grant_verifier c of
        (c', Inl e) \<Rightarrow> (c', Inl e)
      | (c', Inr receipt) \<Rightarrow>
          (c', res_bind
             (validated valid_delivery_result
               \<lparr>dr_worker_id = destination_ref,
                dr_delivery_mechanism = channel_name,
                dr_delta_content = di_concise_instruction i,
                dr_delivered = (rc_status receipt = DS_DELIVERED),
                dr_delivery_evidence_ref = receipt_evidence_ref receipt,
                dr_training_video_ref = None\<rparr>)
             (\<lambda>result. Inr \<lparr>dd_result = result, dd_receipt = receipt,
                            dd_payload = delivery_payload i\<rparr>)))"

record frontline_acknowledgment =
  fa_instruction_id :: str
  fa_change_id :: str
  fa_acknowledged :: bool
  fa_acknowledged_at :: datetime
  fa_operator_ref :: str
  fa_identity_basis :: str
  fa_establishes_delivery :: bool
  fa_establishes_verification :: bool

definition acknowledge ::
  "delta_instruction \<Rightarrow> str \<Rightarrow> str \<Rightarrow> datetime \<Rightarrow> frontline_acknowledgment res" where
  "acknowledge i operator_ref identity_basis occurred_at =
     validated
       (\<lambda>a. fa_instruction_id a \<noteq> [] \<and> fa_change_id a \<noteq> [] \<and> fa_operator_ref a \<noteq> [] \<and>
            fa_identity_basis a \<noteq> [])
       \<lparr>fa_instruction_id = di_instruction_id i, fa_change_id = di_change_id i,
        fa_acknowledged = True, fa_acknowledged_at = occurred_at, fa_operator_ref = operator_ref,
        fa_identity_basis = identity_basis, fa_establishes_delivery = False,
        fa_establishes_verification = False\<rparr>"


section \<open>The channel protocol\<close>

text \<open>
  What a mechanism promises: a refused dispatch leaves every reference as it was; an accepted one
  was authorised for its destination and change, its receipt was not there before and resolves
  afterwards, names the dispatch and carries the hash of the payload that was sent, and no other
  reference changes. \<open>refs\<close> lists what resolves.
\<close>

locale delivery_channel =
  fixes op :: "'c deliver_op"
    and resolve :: "str \<Rightarrow> 'c \<Rightarrow> delivery_receipt option"
    and sent :: "str \<Rightarrow> 'c \<Rightarrow> payload option"
    and refs :: "'c \<Rightarrow> str list"
    and name :: str
    and hash :: "payload \<Rightarrow> str"
    and inv :: "'c \<Rightarrow> bool"
  assumes op_inv: "inv c \<Longrightarrow> op i ch p d t g v c = (c', out) \<Longrightarrow> inv c'"
    and op_refused: "inv c \<Longrightarrow> op i ch p d t g v c = (c', Inl e) \<Longrightarrow>
      resolve k c' = resolve k c \<and> sent k c' = sent k c"
    and op_receipt: "inv c \<Longrightarrow> op i ch p d t g v c = (c', Inr r) \<Longrightarrow>
      authorization_ok g v d ch \<and>
      rc_instruction_id r = i \<and> rc_change_id r = ch \<and> rc_destination_ref r = d \<and>
      rc_channel r = name \<and> rc_issued_at r = t \<and>
      resolve (receipt_evidence_ref r) c = None \<and>
      resolve (receipt_evidence_ref r) c' = Some r \<and> sent (receipt_evidence_ref r) c' = Some p"
    and op_frame: "inv c \<Longrightarrow> op i ch p d t g v c = (c', Inr r) \<Longrightarrow> k \<noteq> receipt_evidence_ref r \<Longrightarrow>
      resolve k c' = resolve k c \<and> sent k c' = sent k c"
    and bound: "inv c \<Longrightarrow> resolve k c = Some r \<Longrightarrow>
      (\<exists>p. sent k c = Some p \<and> rc_payload_hash r = hash p)"
    and refs_resolve: "inv c \<Longrightarrow> k \<in> set (refs c) \<longleftrightarrow> resolve k c \<noteq> None"
begin

text \<open>A receipt, once issued, resolves to itself and to its payload for ever.\<close>

lemma op_keeps:
  assumes "inv c" and "op i ch p d t g v c = (c', r)" and "resolve k c = Some x"
  shows "resolve k c' = Some x \<and> sent k c' = sent k c"
proof (cases r)
  case (Inl e)
  with op_refused [OF assms(1), of i ch p d t g v c' e k] assms show ?thesis by simp
next
  case (Inr y)
  with op_receipt [OF assms(1), of i ch p d t g v c' y] assms(2,3)
  have "k \<noteq> receipt_evidence_ref y" by auto
  with op_frame [OF assms(1), of i ch p d t g v c' y k] assms(2,3) Inr show ?thesis by simp
qed

lemma delta_dispatch:
  assumes "inv c" and "deliver_delta op name i d t g v c = (c', Inr x)"
  shows "inv c' \<and> authorization_ok g v d (di_change_id i) \<and>
    resolve (dr_delivery_evidence_ref (dd_result x)) c' = Some (dd_receipt x) \<and>
    sent (dr_delivery_evidence_ref (dd_result x)) c' = Some (delivery_payload i) \<and>
    resolve (dr_delivery_evidence_ref (dd_result x)) c = None \<and>
    rc_instruction_id (dd_receipt x) = di_instruction_id i \<and>
    rc_change_id (dd_receipt x) = di_change_id i \<and> rc_channel (dd_receipt x) = name \<and>
    rc_issued_at (dd_receipt x) = t \<and>
    rc_payload_hash (dd_receipt x) = hash (delivery_payload i) \<and>
    dr_worker_id (dd_result x) = d \<and> dr_delivery_mechanism (dd_result x) = name \<and>
    (dr_delivered (dd_result x) \<longleftrightarrow> receipt_delivered (dd_receipt x))"
proof -
  obtain r where o': "op (di_instruction_id i) (di_change_id i) (delivery_payload i) d t g v c = (c', Inr r)"
    and x: "dd_receipt x = r" "dr_delivery_evidence_ref (dd_result x) = receipt_evidence_ref r"
      "dr_worker_id (dd_result x) = d" "dr_delivery_mechanism (dd_result x) = name"
      "dr_delivered (dd_result x) \<longleftrightarrow> rc_status r = DS_DELIVERED"
    using assms(2) by (auto simp: deliver_delta_def res_bind_Inr_iff split: prod.splits sum.splits)
  have i': "inv c'" by (rule op_inv [OF assms(1) o'])
  note rc = op_receipt [OF assms(1) o']
  with bound [OF i'] have "rc_payload_hash r = hash (delivery_payload i)" by fastforce
  with i' rc x show ?thesis by (simp add: receipt_delivered_def)
qed

lemma delta_refused:
  assumes "inv c" and "\<not> authorization_ok g v d (di_change_id i)"
  shows "isl (snd (deliver_delta op name i d t g v c)) \<and>
    (\<forall>k. resolve k (fst (deliver_delta op name i d t g v c)) = resolve k c)"
proof -
  obtain c' r where o': "op (di_instruction_id i) (di_change_id i) (delivery_payload i) d t g v c = (c', r)"
    by fastforce
  with op_receipt [OF assms(1)] assms(2) obtain e where "r = Inl e" by (cases r) auto
  with o' op_refused [OF assms(1)] show ?thesis by (auto simp: deliver_delta_def)
qed

end

section \<open>The pilot channel is one\<close>

lemma digit_char_not_dash: "n < 10 \<Longrightarrow> digit_char n \<noteq> CHR ''-''"
proof -
  assume "n < 10"
  then have "(of_char (digit_char n) :: nat) \<noteq> of_char (CHR ''-'')" by (simp add: digit_char_def)
  then show ?thesis by metis
qed

lemma show_nat_not_dash: "CHR ''-'' \<notin> set (show_nat n)"
proof (induction n rule: show_nat.induct)
  case (1 n)
  then show ?case
    using digit_char_not_dash [of n] digit_char_not_dash [of "n mod 10"]
    by (subst show_nat.simps) auto
qed

lemma pad_nat_not_dash: "CHR ''-'' \<notin> set (pad_nat w n)"
  using show_nat_not_dash by (auto simp: pad_nat_def Let_def)

lemma receipt_id_inj: "receipt_id m i = receipt_id n j \<longleftrightarrow> m = n \<and> i = j"
  using append_sep_inj [OF pad_nat_not_dash pad_nat_not_dash, of 4 m i 4 n j]
  by (auto simp: receipt_id_def pad_nat_inj)

definition channel_ok :: "(str \<Rightarrow> str) \<Rightarrow> pilot_channel \<Rightarrow> bool" where
  "channel_ok H c \<longleftrightarrow>
     (\<forall>k r. dict_get (lc_receipts c) k = Some r \<longrightarrow>
        k = receipt_evidence_ref r \<and> rc_channel r = CHANNEL_LOCAL_PILOT \<and> receipt_delivered r \<and>
        (\<exists>n. n \<le> lc_dispatch_count c \<and> rc_receipt_id r = receipt_id n (rc_instruction_id r)) \<and>
        (\<exists>p. dict_get (lc_delivered c) k = Some p \<and> rc_payload_hash r = payload_hash H p))"

lemma new_channel_ok: "channel_ok H new_pilot_channel"
  by (simp add: channel_ok_def new_pilot_channel_def)

text \<open>The numbered reference is always free, so the overwrite refusal never fires.\<close>

lemma next_receipt_free:
  assumes "channel_ok H c" and "rc_receipt_id r = receipt_id (lc_dispatch_count c + 1) i"
    and "rc_channel r = CHANNEL_LOCAL_PILOT"
  shows "dict_get (lc_receipts c) (receipt_evidence_ref r) = None"
proof (rule ccontr)
  assume "dict_get (lc_receipts c) (receipt_evidence_ref r) \<noteq> None"
  then obtain q n where "receipt_evidence_ref r = receipt_evidence_ref q"
    "rc_channel q = CHANNEL_LOCAL_PILOT" "n \<le> lc_dispatch_count c"
    "rc_receipt_id q = receipt_id n (rc_instruction_id q)"
    using assms(1) unfolding channel_ok_def by blast
  with assms(2,3) show False by (auto simp: receipt_evidence_ref_def receipt_id_inj)
qed

definition next_receipt :: "(str \<Rightarrow> str) \<Rightarrow> str \<Rightarrow> str \<Rightarrow> payload \<Rightarrow> str \<Rightarrow> datetime \<Rightarrow> pilot_channel \<Rightarrow> delivery_receipt" where
  "next_receipt H i ch p d t c =
     \<lparr>rc_receipt_id = receipt_id (lc_dispatch_count c + 1) i,
      rc_instruction_id = i, rc_change_id = ch, rc_channel = CHANNEL_LOCAL_PILOT,
      rc_destination_ref = d, rc_payload_hash = payload_hash H p, rc_status = DS_DELIVERED,
      rc_issued_at = t, rc_identity_basis = IDENTITY_BASIS\<rparr>"

lemma deliver_eq:
  assumes "channel_ok H c"
  shows "deliver H i ch p d t g v c =
    (if \<not> authorization_ok g v d ch then (c, Inl DeliveryNotAuthorized)
     else if blank i \<or> blank ch \<or> p = [] then (c, Inl DeliveryDispatchError)
     else let r = next_receipt H i ch p d t c
          in (\<lparr>lc_receipts = dict_put (receipt_evidence_ref r) r (lc_receipts c),
               lc_delivered = dict_put (receipt_evidence_ref r) p (lc_delivered c),
               lc_dispatch_count = lc_dispatch_count c + 1\<rparr>, Inr r))"
  using next_receipt_free [OF assms, of "next_receipt H i ch p d t c" i]
  by (auto simp: deliver_def next_receipt_def Let_def)

lemma deliver_ok:
  assumes "channel_ok H c" and "deliver H i ch p d t g v c = (c', r)"
  shows "channel_ok H c'"
proof (cases "\<not> authorization_ok g v d ch \<or> blank i \<or> blank ch \<or> p = []")
  case True
  with assms show ?thesis by (auto simp: deliver_eq split: if_splits)
next
  case False
  let ?r = "next_receipt H i ch p d t c"
  from False assms have c': "c' = \<lparr>lc_receipts = dict_put (receipt_evidence_ref ?r) ?r (lc_receipts c),
      lc_delivered = dict_put (receipt_evidence_ref ?r) p (lc_delivered c),
      lc_dispatch_count = lc_dispatch_count c + 1\<rparr>" by (auto simp: deliver_eq Let_def)
  have "rc_channel ?r = CHANNEL_LOCAL_PILOT" "receipt_delivered ?r" "rc_payload_hash ?r = payload_hash H p"
    "rc_receipt_id ?r = receipt_id (lc_dispatch_count c + 1) (rc_instruction_id ?r)"
    by (simp_all add: next_receipt_def receipt_delivered_def)
  with assms(1) show ?thesis unfolding channel_ok_def c' by auto (metis le_SucI)
qed

interpretation pilot: delivery_channel "deliver H" channel_resolve resolve_payload channel_refs
    CHANNEL_LOCAL_PILOT "payload_hash H" "channel_ok H" for H
proof (unfold_locales, goal_cases)
  case 1
  then show ?case by (rule deliver_ok)
next
  case 2
  then show ?case by (auto simp: deliver_eq Let_def split: if_splits)
next
  case (3 c i ch p d t g v c' r)
  then show ?case using next_receipt_free [OF 3(1), of r i]
    by (auto simp: deliver_eq Let_def channel_resolve_def resolve_payload_def next_receipt_def
        split: if_splits)
next
  case 4
  then show ?case
    by (auto simp: deliver_eq Let_def channel_resolve_def resolve_payload_def split: if_splits)
next
  case 5
  then show ?case by (auto simp: channel_ok_def channel_resolve_def resolve_payload_def)
next
  case (6 c k)
  then show ?case
    by (simp add: channel_refs_def channel_resolve_def dict_get_None del: set_map image_set)
qed

end
