(* ===== verification/Delivery_Crossing.thy ===== *)
theory Delivery_Crossing
  imports Delivery Validation Samples
begin

text \<open>
  Crossing 3 as the application wires it (\<open>orchestration.py\<close>, T078): a delivery becomes a fact only
  when the mechanism's receipt resolves and binds to the authoritative instruction. The mechanism is
  any \<open>delivery_channel\<close>; the results are instantiated for the pilot channel.
\<close>

section \<open>The crossing\<close>

datatype delivery_rejection =
    RECEIPT_NOT_RESOLVABLE | INSTRUCTION_MISMATCH | CHANGE_MISMATCH | PAYLOAD_HASH_MISMATCH
  | NOT_DELIVERED | CHANNEL_MISMATCH | RECEIPT_PREDATES_INSTRUCTION | LAYER_VALIDATION_FAILED

primrec delivery_rejection_value :: "delivery_rejection \<Rightarrow> str" where
  "delivery_rejection_value RECEIPT_NOT_RESOLVABLE = ''RECEIPT_NOT_RESOLVABLE''"
| "delivery_rejection_value INSTRUCTION_MISMATCH = ''INSTRUCTION_MISMATCH''"
| "delivery_rejection_value CHANGE_MISMATCH = ''CHANGE_MISMATCH''"
| "delivery_rejection_value PAYLOAD_HASH_MISMATCH = ''PAYLOAD_HASH_MISMATCH''"
| "delivery_rejection_value NOT_DELIVERED = ''NOT_DELIVERED''"
| "delivery_rejection_value CHANNEL_MISMATCH = ''CHANNEL_MISMATCH''"
| "delivery_rejection_value RECEIPT_PREDATES_INSTRUCTION = ''RECEIPT_PREDATES_INSTRUCTION''"
| "delivery_rejection_value LAYER_VALIDATION_FAILED = ''LAYER_VALIDATION_FAILED''"

record delivery_crossing_context =
  dx_instruction :: delta_instruction
  dx_expected_destination_ref :: str
  dx_rejection_ref :: str
  dx_composed_at :: "datetime option"

record delivery_boundary_result =
  db_accepted :: bool
  db_delivery_established :: bool
  db_accepted_result :: "delivery_result option"
  db_receipt :: "delivery_receipt option"
  db_outcome :: validation_outcome
  db_rejections :: "delivery_rejection list"
  db_authoritative_payload_hash :: str
  db_rejection_ref_value :: str

definition receipt_reasons ::
  "str \<Rightarrow> str \<Rightarrow> delivery_crossing_context \<Rightarrow> delivery_receipt option \<Rightarrow> delivery_rejection list" where
  "receipt_reasons channel_name expected_hash ctx receipt =
     (case receipt of
        None \<Rightarrow> [RECEIPT_NOT_RESOLVABLE]
      | Some r \<Rightarrow>
          add_if (rc_instruction_id r \<noteq> di_instruction_id (dx_instruction ctx)) INSTRUCTION_MISMATCH @
          add_if (rc_change_id r \<noteq> di_change_id (dx_instruction ctx)) CHANGE_MISMATCH @
          add_if (rc_payload_hash r \<noteq> expected_hash) PAYLOAD_HASH_MISMATCH @
          add_if (\<not> receipt_delivered r) NOT_DELIVERED @
          add_if (rc_channel r \<noteq> channel_name) CHANNEL_MISMATCH @
          add_if (case dx_composed_at ctx of None \<Rightarrow> False | Some t \<Rightarrow> rc_issued_at r < t)
            RECEIPT_PREDATES_INSTRUCTION)"

definition accept_delivery_result ::
  "(str \<Rightarrow> str) \<Rightarrow> (str \<Rightarrow> 'c \<Rightarrow> delivery_receipt option) \<Rightarrow> ('c \<Rightarrow> str list) \<Rightarrow> str \<Rightarrow>
     delivery_result \<Rightarrow> delivery_crossing_context \<Rightarrow> 'c \<Rightarrow> delivery_boundary_result" where
  "accept_delivery_result H resolve refs channel_name result ctx c =
     (let expected_hash = payload_hash H (delivery_payload (dx_instruction ctx));
          outcome = validate_delivery_result result (dx_expected_destination_ref ctx) channel_name
                      (refs c) (dx_rejection_ref ctx);
          layer_reasons =
            (if vo_accepted outcome then []
             else LAYER_VALIDATION_FAILED #
               add_if (POSITIVE_RECEIPT \<in> set (vo_failed_layers outcome)) RECEIPT_NOT_RESOLVABLE @
               add_if (SEMANTIC_INVARIANT \<in> set (vo_failed_layers outcome)) CHANNEL_MISMATCH);
          receipt = resolve (dr_delivery_evidence_ref result) c;
          reasons = layer_reasons @ receipt_reasons channel_name expected_hash ctx receipt
      in if reasons \<noteq> [] then
           \<lparr>db_accepted = False, db_delivery_established = False, db_accepted_result = None,
            db_receipt = None, db_outcome = outcome, db_rejections = dedup reasons,
            db_authoritative_payload_hash = expected_hash,
            db_rejection_ref_value = dx_rejection_ref ctx\<rparr>
         else
           \<lparr>db_accepted = True, db_delivery_established = True, db_accepted_result = Some result,
            db_receipt = receipt, db_outcome = outcome, db_rejections = [],
            db_authoritative_payload_hash = expected_hash,
            db_rejection_ref_value = dx_rejection_ref ctx\<rparr>)"

definition crossing3_evidence_ref :: "delivery_boundary_result \<Rightarrow> str option" where
  "crossing3_evidence_ref b =
     (if db_accepted b then None
      else Some (''crossing3-rejected:'' @ db_rejection_ref_value b @ '':'' @
                 join_str '','' (map delivery_rejection_value (db_rejections b))))"

section \<open>When it accepts\<close>

definition binds :: "(str \<Rightarrow> str) \<Rightarrow> str \<Rightarrow> delivery_crossing_context \<Rightarrow> delivery_receipt \<Rightarrow> bool" where
  "binds H channel_name ctx r \<longleftrightarrow>
     rc_instruction_id r = di_instruction_id (dx_instruction ctx) \<and>
     rc_change_id r = di_change_id (dx_instruction ctx) \<and>
     rc_payload_hash r = payload_hash H (delivery_payload (dx_instruction ctx)) \<and>
     receipt_delivered r \<and> rc_channel r = channel_name \<and>
     (case dx_composed_at ctx of None \<Rightarrow> True | Some t \<Rightarrow> t \<le> rc_issued_at r)"

lemma receipt_reasons_Nil_iff:
  "receipt_reasons name (payload_hash H (delivery_payload (dx_instruction ctx))) ctx receipt = [] \<longleftrightarrow>
     (\<exists>r. receipt = Some r \<and> binds H name ctx r)"
  by (cases receipt; cases "dx_composed_at ctx") (auto simp: receipt_reasons_def binds_def)

lemma delivery_layers_iff:
  "vo_accepted (validate_delivery_result res d name refs ref) \<longleftrightarrow>
     dr_worker_id res = d \<and> dr_delivery_mechanism res = name \<and>
     dr_delivery_evidence_ref res \<noteq> [] \<and> dr_delivery_evidence_ref res \<in> set refs"
  by (auto simp: validate_delivery_result_def)

lemma accepted_established:
  "db_accepted (accept_delivery_result H resolve refs name result ctx c) =
   db_delivery_established (accept_delivery_result H resolve refs name result ctx c)"
  by (simp add: accept_delivery_result_def Let_def)

lemma channel_ok_resolves:
  assumes "channel_ok H c" and "channel_resolve k c = Some r"
  shows "receipt_delivered r" "k \<noteq> []"
proof -
  from assms have "k = receipt_evidence_ref r" "receipt_delivered r"
    unfolding channel_ok_def channel_resolve_def by blast+
  then show "receipt_delivered r" "k \<noteq> []" by (simp_all add: receipt_evidence_ref_def)
qed

context delivery_channel
begin

lemma crossing_accepts_iff:
  assumes "inv c"
  shows "db_delivery_established (accept_delivery_result H resolve refs name result ctx c) \<longleftrightarrow>
    dr_worker_id result = dx_expected_destination_ref ctx \<and> dr_delivery_mechanism result = name \<and>
    dr_delivery_evidence_ref result \<noteq> [] \<and>
    (\<exists>r. resolve (dr_delivery_evidence_ref result) c = Some r \<and> binds H name ctx r)"
  using refs_resolve [OF assms, of "dr_delivery_evidence_ref result"]
  by (auto simp: accept_delivery_result_def Let_def receipt_reasons_Nil_iff delivery_layers_iff)

lemma crossing_sent:
  assumes "inv c" and "db_delivery_established (accept_delivery_result H resolve refs name result ctx c)"
  shows "\<exists>p. sent (dr_delivery_evidence_ref result) c = Some p \<and>
    hash p = payload_hash H (delivery_payload (dx_instruction ctx))"
  using assms(2) bound [OF assms(1), of "dr_delivery_evidence_ref result"]
  by (auto simp: crossing_accepts_iff [OF assms(1)] binds_def)

end

section \<open>Properties\<close>

lemma payload_collision_free:
  assumes "payload_hash H p = payload_hash H q"
    and "H (utf8 (canonical_json (JObj p))) = H (utf8 (canonical_json (JObj q))) \<Longrightarrow>
      utf8 (canonical_json (JObj p)) = utf8 (canonical_json (JObj q))"
  shows "canonical_json (JObj p) = canonical_json (JObj q)"
  using assms by (simp add: payload_hash_def canonical_hash_def content_hash_def utf8_inj)

text \<open>The claim of delivery counts for nothing, the receipt for everything: Crossing 3 establishes a
  delivery exactly when worker and mechanism are the expected ones and the mechanism resolves the
  reference to a delivered receipt of this very instruction, change and payload hash, issued no
  earlier than the instruction was composed; the agent's \<open>delivered\<close> flag and its wording never
  change the verdict, and a rejection names at least one reason.\<close>

theorem delivery_established_iff:
  assumes "channel_ok H c"
  shows "let b = accept_delivery_result H channel_resolve channel_refs CHANNEL_LOCAL_PILOT result ctx c
    in (db_delivery_established b \<longleftrightarrow>
         dr_worker_id result = dx_expected_destination_ref ctx \<and>
         dr_delivery_mechanism result = CHANNEL_LOCAL_PILOT \<and>
         dr_delivery_evidence_ref result \<noteq> [] \<and>
         (\<exists>r. channel_resolve (dr_delivery_evidence_ref result) c = Some r \<and>
            binds H CHANNEL_LOCAL_PILOT ctx r)) \<and>
       (db_accepted b \<longleftrightarrow> db_rejections b = []) \<and>
       db_delivery_established (accept_delivery_result H channel_resolve channel_refs
         CHANNEL_LOCAL_PILOT (result\<lparr>dr_delivered := flag, dr_delta_content := text\<rparr>) ctx c) =
         db_delivery_established b"
proof -
  have "db_accepted (accept_delivery_result H channel_resolve channel_refs CHANNEL_LOCAL_PILOT result ctx c)
      \<longleftrightarrow> db_rejections (accept_delivery_result H channel_resolve channel_refs CHANNEL_LOCAL_PILOT result ctx c) = []"
    by (simp add: accept_delivery_result_def Let_def)
  then show ?thesis by (simp add: pilot.crossing_accepts_iff [OF assms])
qed

text \<open>An established delivery was really sent, authorised, and stays provable. A dispatch through the
  pilot channel succeeds only with a verified grant covering the destination and the change (and
  otherwise leaves every receipt as it was); its receipt then resolves, after any further dispatch
  too, to the payload of this instruction; Crossing 3 accepts it; and whatever result
  Crossing 3 accepts for the instruction, the channel holds a payload with the same hash.\<close>

theorem delivery_end_to_end:
  assumes "channel_ok H c"
    and "deliver_delta (deliver H) CHANNEL_LOCAL_PILOT (dx_instruction ctx)
      (dx_expected_destination_ref ctx) t g v c = (c1, Inr x)"
    and "case dx_composed_at ctx of None \<Rightarrow> True | Some t0 \<Rightarrow> t0 \<le> t"
    and "deliver H i ch p d t' g' v' c1 = (c2, out)"
  shows "authorization_ok g v (dx_expected_destination_ref ctx) (di_change_id (dx_instruction ctx)) \<and>
    resolve_payload (dr_delivery_evidence_ref (dd_result x)) c2 = Some (delivery_payload (dx_instruction ctx)) \<and>
    db_delivery_established (accept_delivery_result H channel_resolve channel_refs CHANNEL_LOCAL_PILOT
      (dd_result x) ctx c2) \<and>
    (db_delivery_established (accept_delivery_result H channel_resolve channel_refs CHANNEL_LOCAL_PILOT
      result ctx c2) \<longrightarrow>
       (\<exists>q. resolve_payload (dr_delivery_evidence_ref result) c2 = Some q \<and>
          payload_hash H q = payload_hash H (delivery_payload (dx_instruction ctx))))"
proof -
  note d = pilot.delta_dispatch [OF assms(1,2)]
  then have ok1: "channel_ok H c1" by blast
  have ok2: "channel_ok H c2" by (rule deliver_ok [OF ok1 assms(4)])
  have keep: "channel_resolve (dr_delivery_evidence_ref (dd_result x)) c2 = Some (dd_receipt x)"
    "resolve_payload (dr_delivery_evidence_ref (dd_result x)) c2 =
      resolve_payload (dr_delivery_evidence_ref (dd_result x)) c1"
    using pilot.op_keeps [OF ok1 assms(4)] d by blast+
  then have "receipt_delivered (dd_receipt x)" "dr_delivery_evidence_ref (dd_result x) \<noteq> []"
    using channel_ok_resolves [OF ok2] by blast+
  then have "db_delivery_established (accept_delivery_result H channel_resolve channel_refs
      CHANNEL_LOCAL_PILOT (dd_result x) ctx c2)"
    using d keep assms(3) by (auto simp: pilot.crossing_accepts_iff [OF ok2] binds_def split: option.splits)
  with d keep pilot.crossing_sent [OF ok2] show ?thesis by auto
qed

definition sample_instruction :: delta_instruction where
  "sample_instruction =
     (case compose_delta (sample_change [''a'']) (sample_artifact ''a'' ''LEFT'') ''ins-1'' None of
        Inr r \<Rightarrow> the (dc_instruction r) | Inl _ \<Rightarrow> undefined)"

definition sample_grant :: tool_grant where
  "sample_grant =
     \<lparr>tg_capability_id = ''cap-1'', tg_holder = ''driftzero-enablement'', tg_tool = ''FRONTLINE_DELIVERY'',
      tg_scope_refs = {''w1''}, tg_change_id = ''chg-1'', tg_source_version = ''v8'',
      tg_grant_token = ''t''\<rparr>"

definition sample_crossing :: delivery_crossing_context where
  "sample_crossing =
     \<lparr>dx_instruction = sample_instruction, dx_expected_destination_ref = ''w1'',
      dx_rejection_ref = ''rej'', dx_composed_at = Some 3\<rparr>"

definition sample_dispatch :: "pilot_channel \<times> delivery_dispatch res" where
  "sample_dispatch = deliver_delta (deliver id) CHANNEL_LOCAL_PILOT sample_instruction ''w1'' 5
     (Some sample_grant) (Some (\<lambda>g. tg_grant_token g = ''t'')) new_pilot_channel"

lemma sample_dispatched: "\<exists>c1 x. sample_dispatch = (c1, Inr x)"
proof -
  have "\<not> isl (snd sample_dispatch)" by code_simp
  then show ?thesis by (metis isl_def prod.collapse sum.exhaust sum.disc(1))
qed

theorem delivery_established_iff_witness:
  "let b = accept_delivery_result id channel_resolve channel_refs CHANNEL_LOCAL_PILOT
      \<lparr>dr_worker_id = ''w1'', dr_delivery_mechanism = CHANNEL_LOCAL_PILOT, dr_delta_content = ''x'',
       dr_delivered = True, dr_delivery_evidence_ref = ''made-up'', dr_training_video_ref = None\<rparr>
      sample_crossing new_pilot_channel
   in \<not> db_delivery_established b \<and> \<not> db_accepted b"
  using delivery_established_iff [OF new_channel_ok, of id
      "\<lparr>dr_worker_id = ''w1'', dr_delivery_mechanism = CHANNEL_LOCAL_PILOT, dr_delta_content = ''x'',
       dr_delivered = True, dr_delivery_evidence_ref = ''made-up'', dr_training_video_ref = None\<rparr>"
      sample_crossing]
  by (simp add: Let_def channel_resolve_def new_pilot_channel_def accepted_established)

theorem delivery_end_to_end_witness:
  "\<exists>c1 x. sample_dispatch = (c1, Inr x) \<and>
     resolve_payload (dr_delivery_evidence_ref (dd_result x)) c1 = Some (delivery_payload sample_instruction)"
proof -
  obtain c1 x where s: "sample_dispatch = (c1, Inr x)" using sample_dispatched by blast
  have "deliver id [] [] [] [] 0 None None c1 = (c1, Inl DeliveryNotAuthorized)"
    by (simp add: deliver_def authorization_ok_def)
  from delivery_end_to_end [OF new_channel_ok _ _ this, of sample_crossing 5 "Some sample_grant"
      "Some (\<lambda>g. tg_grant_token g = ''t'')" x] s
  show ?thesis by (auto simp: sample_dispatch_def sample_crossing_def)
qed

end
