(* ===== verification/Remediation.thy ===== *)
theory Remediation
  imports Mutation_Tool Tool_Properties
begin

text \<open>
  The Remediation Agent (\<open>agents/remediation.py\<close>), which obtains a scoped capability from the broker
  and runs the mutation tool under it, and Crossing 2 (\<open>orchestration.py\<close>, T076), which measures the
  returned evidence against the ledger's pre-action intent and the artifact as committed. The
  context's capability verifier is a function of the broker: the callback reads the broker's
  current state, so it sees the capability the agent has just been issued.
\<close>

section \<open>The agent\<close>

datatype remediation_status =
    RS_MUTATED | RS_NO_OP | RS_RECONCILED_MUTATION | RS_ALREADY_COMPLETED | RS_CAPABILITY_DENIED
  | RS_MALFORMED_INTENT | RS_TOOL_REJECTED

record remediation_intent =
  ri_action_id :: str
  ri_artifact_id :: str
  ri_requirement_id :: str
  ri_expected_before_value :: str
  ri_expected_before_hash :: str
  ri_expected_after_value :: str
  ri_source_procedure_id :: str
  ri_source_version :: str
  ri_change_id :: str
  ri_correlation_id :: str

definition missing_fields :: "remediation_intent \<Rightarrow> str list" where
  "missing_fields i =
     map fst (filter (\<lambda>(_, v). blank v)
       [(''action_id'', ri_action_id i), (''artifact_id'', ri_artifact_id i),
        (''requirement_id'', ri_requirement_id i),
        (''expected_before_value'', ri_expected_before_value i),
        (''expected_before_hash'', ri_expected_before_hash i),
        (''expected_after_value'', ri_expected_after_value i),
        (''source_procedure_id'', ri_source_procedure_id i),
        (''source_version'', ri_source_version i), (''change_id'', ri_change_id i),
        (''correlation_id'', ri_correlation_id i)])"

record remediation_result =
  rm_status :: remediation_status
  rm_evidence :: "remediation_evidence option"
  rm_tool_result :: "mutation_result option"
  rm_denial_evidence :: "denial_evidence option"
  rm_identity :: str

definition remediation_succeeded :: "remediation_result \<Rightarrow> bool" where
  "remediation_succeeded r \<longleftrightarrow>
     rm_status r \<in> {RS_MUTATED, RS_NO_OP, RS_RECONCILED_MUTATION, RS_ALREADY_COMPLETED}"

definition remediation_dispatched :: "remediation_result \<Rightarrow> bool" where
  "remediation_dispatched r =
     (case rm_tool_result r of None \<Rightarrow> False | Some m \<Rightarrow> mr_dispatched m)"

text \<open>\<open>_TOOL_OUTCOME_TO_STATUS\<close>; a rejected result is returned before the table is read.\<close>

primrec tool_outcome_status :: "mutation_outcome \<Rightarrow> remediation_status" where
  "tool_outcome_status MUTATED = RS_MUTATED"
| "tool_outcome_status NO_OP = RS_NO_OP"
| "tool_outcome_status MUTATION_RECONCILED = RS_RECONCILED_MUTATION"
| "tool_outcome_status MUTATION_ALREADY_COMPLETED = RS_ALREADY_COMPLETED"
| "tool_outcome_status REJECTED = RS_TOOL_REJECTED"

definition request_of :: "remediation_intent \<Rightarrow> patch_request" where
  "request_of i =
     \<lparr>rq_action_id = ri_action_id i, rq_artifact_id = ri_artifact_id i,
      rq_requirement_id = ri_requirement_id i,
      rq_expected_before_value = ri_expected_before_value i,
      rq_expected_before_hash = ri_expected_before_hash i,
      rq_new_value = ri_expected_after_value i,
      rq_source_procedure_id = ri_source_procedure_id i,
      rq_source_version = ri_source_version i, rq_change_id = ri_change_id i,
      rq_correlation_id = ri_correlation_id i\<rparr>"

definition remediate ::
  "(str \<Rightarrow> str \<Rightarrow> str) \<Rightarrow> str \<Rightarrow> (str \<Rightarrow> str) \<Rightarrow> 'r reader \<Rightarrow> 'r writer \<Rightarrow>
     (broker \<Rightarrow> mutation_capability \<Rightarrow> bool) \<Rightarrow> tool_context \<Rightarrow> (nat \<Rightarrow> datetime) \<Rightarrow> str \<Rightarrow>
     datetime option \<Rightarrow> remediation_intent \<Rightarrow> broker \<times> ledger \<times> 'r \<Rightarrow>
     (broker \<times> ledger \<times> 'r) \<times> remediation_result res" where
  "remediate mac identity H read apply_req verifier ctx clk rnd now i s =
     (let (b, l, r) = s
      in if missing_fields i \<noteq> [] then
           (s, Inr \<lparr>rm_status = RS_MALFORMED_INTENT, rm_evidence = None, rm_tool_result = None,
                    rm_denial_evidence = None, rm_identity = identity_value REMEDIATION\<rparr>)
         else case issue mac identity (ri_artifact_id i) (ri_change_id i) (ri_source_version i)
                     rnd now b of
           (b1, Inl e) \<Rightarrow>
             ((b1, l, r), Inr \<lparr>rm_status = RS_CAPABILITY_DENIED, rm_evidence = None,
                               rm_tool_result = None,
                               rm_denial_evidence = Some (last (br_denials b1)),
                               rm_identity = identity\<rparr>)
         | (b1, Inr capability) \<Rightarrow>
             (case apply_authorized_artifact_patch H read apply_req
                     (ctx\<lparr>tc_capability := Some capability, tc_verifier := verifier b1\<rparr>) clk
                     (request_of i) (l, r) of
                ((l', r'), Inl e) \<Rightarrow> ((b1, l', r'), Inl e)
              | ((l', r'), Inr m) \<Rightarrow>
                  ((b1, l', r'), Inr
                    (if mr_outcome m = REJECTED then
                       \<lparr>rm_status = RS_TOOL_REJECTED, rm_evidence = None, rm_tool_result = Some m,
                        rm_denial_evidence = None, rm_identity = identity\<rparr>
                     else
                       \<lparr>rm_status = tool_outcome_status (mr_outcome m), rm_evidence = mr_evidence m,
                        rm_tool_result = Some m, rm_denial_evidence = None,
                        rm_identity = identity\<rparr>))))"

section \<open>Crossing 2\<close>

datatype remediation_rejection =
    NO_LEDGER_RECORD | RX_ACTION_NOT_COMPLETED | RX_MISSING_PRE_ACTION_INTENT
  | RX_ARTIFACT_NOT_FOUND | RX_ARTIFACT_MISMATCH | RX_REQUIREMENT_MISMATCH
  | RX_BEFORE_HASH_MISMATCH | RX_AFTER_HASH_MISMATCH | RX_HASHES_IDENTICAL
  | RX_RECONCILED_FLAG_MISMATCH | RX_NO_OP_NOT_ADMISSIBLE | RX_LAYER_VALIDATION_FAILED

record remediation_crossing_context =
  rx_change :: approved_change
  rx_action_id :: str
  rx_expected_artifact_id :: str
  rx_expected_requirement_id :: str
  rx_source_version_applicable :: bool
  rx_rejection_ref :: str

record remediation_boundary_result =
  rb_accepted :: bool
  rb_accepted_evidence :: "remediation_evidence option"
  rb_outcome :: "validation_outcome option"
  rb_rejections :: "remediation_rejection list"
  rb_authoritative_before_hash :: "str option"
  rb_authoritative_after_hash :: "str option"
  rb_rejection_ref_value :: str

definition crossing2_reject ::
  "remediation_rejection list \<Rightarrow> validation_outcome option \<Rightarrow> str \<Rightarrow> str option \<Rightarrow> str option \<Rightarrow>
     remediation_boundary_result" where
  "crossing2_reject reasons outcome rejection_ref before_hash after_hash =
     \<lparr>rb_accepted = False, rb_accepted_evidence = None, rb_outcome = outcome,
      rb_rejections = dedup reasons, rb_authoritative_before_hash = before_hash,
      rb_authoritative_after_hash = after_hash, rb_rejection_ref_value = rejection_ref\<rparr>"

text \<open>The adjudication of the two kinds of evidence that the layer validator does not perform.\<close>

definition evidence_reasons ::
  "remediation_evidence \<Rightarrow> remediation_crossing_context \<Rightarrow> action_execution \<Rightarrow> ledger \<Rightarrow>
     downstream_artifact \<Rightarrow> str \<Rightarrow> remediation_rejection list" where
  "evidence_reasons evidence ctx rec l artifact after_hash =
     (let held = dict_get (da_requirements artifact) (rx_expected_requirement_id ctx)
      in case evidence of
           MutationEvidence e \<Rightarrow>
             add_if (ax_status rec \<noteq> AS_COMPLETED) RX_ACTION_NOT_COMPLETED @
             add_if (me_after_hash e \<noteq> after_hash) RX_AFTER_HASH_MISMATCH @
             add_if (me_before_hash e = me_after_hash e) RX_HASHES_IDENTICAL @
             add_if (held \<noteq> Some (me_after_value e)) RX_REQUIREMENT_MISMATCH @
             add_if (me_reconciled e \<noteq> ax_reconciled rec) RX_RECONCILED_FLAG_MISMATCH
         | NoOpEvidence e \<Rightarrow>
             add_if (\<not> no_op_admissible l (rx_action_id ctx)) RX_NO_OP_NOT_ADMISSIBLE @
             add_if (ne_evaluated_artifact_hash e \<noteq> after_hash) RX_AFTER_HASH_MISMATCH @
             add_if (held \<noteq> Some (ne_observed_value e)) RX_REQUIREMENT_MISMATCH)"

definition accept_remediation_evidence ::
  "(str \<Rightarrow> str) \<Rightarrow> 'r reader \<Rightarrow> remediation_evidence \<Rightarrow> remediation_crossing_context \<Rightarrow> ledger \<times> 'r \<Rightarrow>
     'r \<times> remediation_boundary_result" where
  "accept_remediation_evidence H read evidence ctx s =
     (let (l, r) = s
      in case ledger_get l (rx_action_id ctx) of
           None \<Rightarrow> (r, crossing2_reject [NO_LEDGER_RECORD] None (rx_rejection_ref ctx) None None)
         | Some rec \<Rightarrow>
             let before_hash = intent_value (ax_intent rec) ''expected_before_hash'';
                 intent_reasons = add_if (before_hash = []) RX_MISSING_PRE_ACTION_INTENT
             in case read (rx_expected_artifact_id ctx) r of
                  (r', ReadError) \<Rightarrow>
                    (r', crossing2_reject [RX_ARTIFACT_NOT_FOUND] None (rx_rejection_ref ctx) None None)
                | (r', ReadArtifact None) \<Rightarrow>
                    (r', crossing2_reject [RX_ARTIFACT_NOT_FOUND] None (rx_rejection_ref ctx) None None)
                | (r', ReadArtifact (Some artifact)) \<Rightarrow>
                    let after_hash = artifact_content_hash H artifact;
                        outcome = validate_remediation_evidence evidence (rx_change ctx)
                          (rx_expected_artifact_id ctx) before_hash (rx_action_id ctx)
                          (rx_source_version_applicable ctx) (rx_rejection_ref ctx);
                        layer_reasons =
                          (if vo_accepted outcome then []
                           else RX_LAYER_VALIDATION_FAILED #
                             add_if (BEFORE_STATE_CONSISTENCY \<in> set (vo_failed_layers outcome))
                               RX_BEFORE_HASH_MISMATCH @
                             add_if (EXPECTED_ARTIFACT_IDENTITY \<in> set (vo_failed_layers outcome))
                               RX_ARTIFACT_MISMATCH);
                        reasons = intent_reasons @ layer_reasons @
                          evidence_reasons evidence ctx rec l artifact after_hash
                    in (r', if reasons \<noteq> [] then
                              crossing2_reject reasons (Some outcome) (rx_rejection_ref ctx)
                                (Some before_hash) (Some after_hash)
                            else
                              \<lparr>rb_accepted = True, rb_accepted_evidence = Some evidence,
                               rb_outcome = Some outcome, rb_rejections = [],
                               rb_authoritative_before_hash = Some before_hash,
                               rb_authoritative_after_hash = Some after_hash,
                               rb_rejection_ref_value = rx_rejection_ref ctx\<rparr>))"

primrec remediation_rejection_value :: "remediation_rejection \<Rightarrow> str" where
  "remediation_rejection_value NO_LEDGER_RECORD = ''NO_LEDGER_RECORD''"
| "remediation_rejection_value RX_ACTION_NOT_COMPLETED = ''ACTION_NOT_COMPLETED''"
| "remediation_rejection_value RX_MISSING_PRE_ACTION_INTENT = ''MISSING_PRE_ACTION_INTENT''"
| "remediation_rejection_value RX_ARTIFACT_NOT_FOUND = ''ARTIFACT_NOT_FOUND''"
| "remediation_rejection_value RX_ARTIFACT_MISMATCH = ''ARTIFACT_MISMATCH''"
| "remediation_rejection_value RX_REQUIREMENT_MISMATCH = ''REQUIREMENT_MISMATCH''"
| "remediation_rejection_value RX_BEFORE_HASH_MISMATCH = ''BEFORE_HASH_MISMATCH''"
| "remediation_rejection_value RX_AFTER_HASH_MISMATCH = ''AFTER_HASH_MISMATCH''"
| "remediation_rejection_value RX_HASHES_IDENTICAL = ''HASHES_IDENTICAL''"
| "remediation_rejection_value RX_RECONCILED_FLAG_MISMATCH = ''RECONCILED_FLAG_MISMATCH''"
| "remediation_rejection_value RX_NO_OP_NOT_ADMISSIBLE = ''NO_OP_NOT_ADMISSIBLE''"
| "remediation_rejection_value RX_LAYER_VALIDATION_FAILED = ''LAYER_VALIDATION_FAILED''"

definition crossing2_evidence_ref :: "remediation_boundary_result \<Rightarrow> str option" where
  "crossing2_evidence_ref b =
     (if rb_accepted b then None
      else Some (''crossing2-rejected:'' @ rb_rejection_ref_value b @ '':'' @
                 join_str '','' (map remediation_rejection_value (rb_rejections b))))"

section \<open>When the crossing accepts\<close>

text \<open>The specification: evidence of this action on this artifact, measured against its own record.\<close>

definition evidence_admissible ::
  "(str \<Rightarrow> str) \<Rightarrow> remediation_evidence \<Rightarrow> remediation_crossing_context \<Rightarrow> ledger \<Rightarrow>
     downstream_artifact \<Rightarrow> bool" where
  "evidence_admissible H evidence ctx l artifact \<longleftrightarrow>
     (\<exists>rec. dict_get l (rx_action_id ctx) = Some rec \<and>
        intent_value (ax_intent rec) ''expected_before_hash'' \<noteq> [] \<and>
        re_artifact_id evidence = rx_expected_artifact_id ctx \<and>
        rx_expected_artifact_id ctx \<in> set (ac_authorized_scope (rx_change ctx)) \<and>
        rx_source_version_applicable ctx \<and>
        (case evidence of
           MutationEvidence e \<Rightarrow>
             ax_status rec = AS_COMPLETED \<and> me_reconciled e = ax_reconciled rec \<and>
             me_action_id e = rx_action_id ctx \<and> me_before_ref e \<noteq> me_after_ref e \<and>
             me_before_hash e = intent_value (ax_intent rec) ''expected_before_hash'' \<and>
             me_after_hash e = artifact_content_hash H artifact \<and> me_before_hash e \<noteq> me_after_hash e \<and>
             me_before_value e = ac_previous_value (rx_change ctx) \<and>
             me_after_value e = ac_current_value (rx_change ctx) \<and>
             dict_get (da_requirements artifact) (rx_expected_requirement_id ctx) =
               Some (ac_current_value (rx_change ctx))
         | NoOpEvidence e \<Rightarrow>
             no_op_admissible l (rx_action_id ctx) \<and>
             ne_evaluated_artifact_hash e = artifact_content_hash H artifact \<and>
             ne_observed_value e = ac_current_value (rx_change ctx) \<and>
             ne_expected_value e = ac_current_value (rx_change ctx) \<and>
             dict_get (da_requirements artifact) (rx_expected_requirement_id ctx) =
               Some (ac_current_value (rx_change ctx))))"

lemma evidence_reasons_Nil_iff:
  "evidence_reasons evidence ctx rec l a h = [] \<longleftrightarrow>
     (case evidence of
        MutationEvidence e \<Rightarrow>
          ax_status rec = AS_COMPLETED \<and> me_after_hash e = h \<and> me_before_hash e \<noteq> me_after_hash e \<and>
          dict_get (da_requirements a) (rx_expected_requirement_id ctx) = Some (me_after_value e) \<and>
          me_reconciled e = ax_reconciled rec
      | NoOpEvidence e \<Rightarrow>
          no_op_admissible l (rx_action_id ctx) \<and> ne_evaluated_artifact_hash e = h \<and>
          dict_get (da_requirements a) (rx_expected_requirement_id ctx) = Some (ne_observed_value e))"
  by (cases evidence) (auto simp: evidence_reasons_def Let_def)

lemma crossing2_accepts_iff:
  assumes "read (rx_expected_artifact_id ctx) r = (r', ReadArtifact (Some a))"
  shows "rb_accepted (snd (accept_remediation_evidence H read evidence ctx (l, r))) \<longleftrightarrow>
    evidence_admissible H evidence ctx l a"
proof (cases "dict_get l (rx_action_id ctx)")
  case None
  then show ?thesis
    by (simp add: accept_remediation_evidence_def ledger_get_def crossing2_reject_def evidence_admissible_def)
next
  case (Some rec)
  show ?thesis
    by (cases evidence)
      (auto simp: accept_remediation_evidence_def ledger_get_def Some assms Let_def crossing2_reject_def
        evidence_admissible_def evidence_reasons_Nil_iff gate_simps)
qed

lemma crossing2_not_read:
  assumes "read (rx_expected_artifact_id ctx) r = (r', out)" and "\<forall>a. out \<noteq> ReadArtifact (Some a)"
  shows "\<not> rb_accepted (snd (accept_remediation_evidence H read evidence ctx (l, r)))"
  using assms
  by (cases out)
    (auto simp: accept_remediation_evidence_def crossing2_reject_def Let_def split: option.splits)

lemma crossing2_state:
  "fst (accept_remediation_evidence H read evidence ctx (l, r)) \<in> {r, fst (read (rx_expected_artifact_id ctx) r)}"
  by (cases "read (rx_expected_artifact_id ctx) r")
    (auto simp: accept_remediation_evidence_def Let_def split: option.splits read_outcome.splits)


section \<open>The agent on the in-memory repository\<close>

abbreviation mem_remediate ::
  "(str \<Rightarrow> str \<Rightarrow> str) \<Rightarrow> str \<Rightarrow> (str \<Rightarrow> str) \<Rightarrow> (broker \<Rightarrow> mutation_capability \<Rightarrow> bool) \<Rightarrow>
     tool_context \<Rightarrow> (nat \<Rightarrow> datetime) \<Rightarrow> str \<Rightarrow> datetime option \<Rightarrow> remediation_intent \<Rightarrow>
     broker \<times> ledger \<times> repository \<Rightarrow> (broker \<times> ledger \<times> repository) \<times> remediation_result res" where
  "mem_remediate mac h H \<equiv> remediate mac h H repo_read apply_requirement"

lemma mem_tool_only_target:
  assumes "repo_ok r" and "mem_tool H ctx clk rq (l, r) = ((l', r'), res)" and "j \<noteq> rq_artifact_id rq"
  shows "dict_get (rp_artifacts r') j = dict_get (rp_artifacts r) j"
  using assms(2)
proof (cases rule: tool_cases)
  case (unread out reason st)
  with mem.read_frame [OF assms(1)] show ?thesis by blast
next
  case (reconciled artifact)
  with mem.read_frame [OF assms(1)] show ?thesis by blast
next
  case (resolved artifact)
  with mem.read_frame [OF assms(1)] show ?thesis by blast
next
  case (dispatched artifact h r1)
  from mem.read_frame [OF assms(1) dispatched(3)] have r1: "repo_ok r1"
    "dict_get (rp_artifacts r1) j = dict_get (rp_artifacts r) j" by blast+
  from dispatched(5) show ?thesis
  proof (cases rule: dispatch_cases)
    case (uncertain l1)
    with mem_never_uncertain show ?thesis by blast
  next
    case (failed l1)
    with mem.apply_failed [OF r1(1) failed(2)] r1(2) show ?thesis by simp
  next
    case (written l1 m)
    with mem.apply_written [OF r1(1) written(2)] r1(2) assms(3) show ?thesis by auto
  qed (use r1 mem_never_uncertain in \<open>simp_all\<close>)
qed simp_all

text \<open>And of that artifact at most the one requirement, from its expected to its new value.\<close>

lemma mem_tool_only_requirement:
  assumes "repo_ok r" and "mem_tool H ctx clk rq (l, r) = ((l', r'), res)"
  shows "dict_get (rp_artifacts r') (rq_artifact_id rq) = dict_get (rp_artifacts r) (rq_artifact_id rq) \<or>
    (\<exists>a w. dict_get (rp_artifacts r) (rq_artifact_id rq) = Some a \<and>
       dict_get (rp_artifacts r') (rq_artifact_id rq) = Some w \<and>
       one_requirement_changed a (rq_requirement_id rq) (rq_expected_before_value rq) (rq_new_value rq) w)"
  using assms(2)
proof (cases rule: tool_cases)
  case (unread out reason st)
  with mem.read_frame [OF assms(1)] show ?thesis by blast
next
  case (reconciled artifact)
  with mem.read_frame [OF assms(1)] show ?thesis by blast
next
  case (resolved artifact)
  with mem.read_frame [OF assms(1)] show ?thesis by blast
next
  case (dispatched artifact h r1)
  from mem.read_frame [OF assms(1) dispatched(3)] have r1: "repo_ok r1"
    "\<forall>j. dict_get (rp_artifacts r1) j = dict_get (rp_artifacts r) j" by blast+
  from dispatched(5) show ?thesis
  proof (cases rule: dispatch_cases)
    case (failed l1)
    with mem.apply_failed [OF r1(1) failed(2)] r1(2) show ?thesis by simp
  next
    case (written l1 m)
    with mem.apply_written [OF r1(1) written(2)] r1(2) show ?thesis by auto
  qed (use r1 mem_never_uncertain in \<open>simp_all\<close>)
qed simp_all

lemma remediate_cases:
  assumes "remediate mac h H read apply_req verifier ctx clk rnd now i (b, l, r) = ((b', l', r'), out)"
  obtains (malformed) "b' = b" "l' = l" "r' = r"
      "out = Inr \<lparr>rm_status = RS_MALFORMED_INTENT, rm_evidence = None, rm_tool_result = None,
         rm_denial_evidence = None, rm_identity = identity_value REMEDIATION\<rparr>"
  | (denied) e where "issue mac h (ri_artifact_id i) (ri_change_id i) (ri_source_version i) rnd now b = (b', Inl e)"
      "l' = l" "r' = r"
      "out = Inr \<lparr>rm_status = RS_CAPABILITY_DENIED, rm_evidence = None, rm_tool_result = None,
         rm_denial_evidence = Some (last (br_denials b')), rm_identity = h\<rparr>"
  | (ran) cap res where "missing_fields i = []"
      "issue mac h (ri_artifact_id i) (ri_change_id i) (ri_source_version i) rnd now b = (b', Inr cap)"
      "apply_authorized_artifact_patch H read apply_req
         (ctx\<lparr>tc_capability := Some cap, tc_verifier := verifier b'\<rparr>) clk (request_of i) (l, r) = ((l', r'), res)"
      "out = (case res of Inl e \<Rightarrow> Inl e | Inr m \<Rightarrow> Inr
         \<lparr>rm_status = tool_outcome_status (mr_outcome m),
          rm_evidence = (if mr_outcome m = REJECTED then None else mr_evidence m),
          rm_tool_result = Some m, rm_denial_evidence = None, rm_identity = h\<rparr>)"
proof (cases "missing_fields i = []")
  case False
  with assms show thesis by (intro malformed) (auto simp: remediate_def)
next
  case True
  obtain b1 ires where iss: "issue mac h (ri_artifact_id i) (ri_change_id i) (ri_source_version i) rnd now b = (b1, ires)"
    by fastforce
  show thesis
  proof (cases ires)
    case (Inl e)
    with assms True iss show thesis by (intro denied [of e]) (auto simp: remediate_def)
  next
    case (Inr cap)
    obtain l1 r1 res where t: "apply_authorized_artifact_patch H read apply_req
        (ctx\<lparr>tc_capability := Some cap, tc_verifier := verifier b1\<rparr>) clk (request_of i) (l, r) = ((l1, r1), res)"
      by (metis surj_pair)
    from assms True iss Inr t have "b' = b1" "l' = l1" "r' = r1"
      by (auto simp: remediate_def split: sum.splits)
    with assms True iss Inr t show thesis
      by (intro ran [of cap res]) (auto simp: remediate_def split: sum.splits)
  qed
qed

lemma issue_denied:
  assumes "h \<noteq> identity_value REMEDIATION"
  shows "isl (snd (issue mac h a c v rnd now b)) \<and> br_grants (fst (issue mac h a c v rnd now b)) = br_grants b"
proof (cases "mint_check h (tool_value ARTIFACT_MUTATION) ''artifact_id'' a c v")
  case (Inl x)
  then show ?thesis unfolding issue_def Inl by (cases x) (simp add: deny_def Let_def)
next
  case (Inr t)
  then have "\<exists>b' cap. issue mac h a c v rnd now b = (b', Inr cap)"
    unfolding issue_def Inr by (simp add: split_beta Let_def)
  with issue_Inr assms show ?thesis by blast
qed

end
