(* ===== verification/Remediation_Properties.thy ===== *)
theory Remediation_Properties
  imports Remediation
begin

text \<open>
  What the remediation agent and Crossing 2 guarantee together on the in-memory repository: who can
  write, that a genuine mutation is accepted, what acceptance means, and that the no-op evidence
  of the tool cannot be accepted against the ledger the tool leaves behind.
\<close>

section \<open>The ledger record of a mutation\<close>

lemma planned_intent:
  assumes "plan_and_attempt ctx now rq a h l = (l1, Inr ())" and "dict_get l (rq_action_id rq) = None"
  shows "\<exists>rec. dict_get l1 (rq_action_id rq) = Some rec \<and>
    ax_intent rec = build_remediation_intent (tc_change ctx) a h"
  using assms
  by (auto simp: plan_and_attempt_def Let_def ledger_get_def res_bind_Inr_iff plan_Inr_iff
      mark_attempted_Inr_iff split: sum.splits)

lemma success_record:
  assumes "record_success H ctx now rq a h w l = (l', Inr m)" and "dict_get l (rq_action_id rq) = Some rec"
  shows "\<exists>rec'. dict_get l' (rq_action_id rq) = Some rec' \<and> ax_intent rec' = ax_intent rec \<and>
    ax_status rec' = AS_COMPLETED \<and> \<not> ax_reconciled rec'"
  using assms
  by (auto simp: record_success_def Let_def mark_completed_Inr_iff split: sum.splits)

lemma mutated_record:
  assumes "repo_ok r" and "mem_tool H ctx clk rq (l, r) = ((l', r'), Inr m)" and "mr_outcome m = MUTATED"
    and "dict_get l (rq_action_id rq) = None" and "dict_get (rp_artifacts r) (rq_artifact_id rq) = Some a"
  shows "\<exists>rec. dict_get l' (rq_action_id rq) = Some rec \<and> ax_status rec = AS_COMPLETED \<and>
    \<not> ax_reconciled rec \<and>
    ax_intent rec = build_remediation_intent (tc_change ctx) a (artifact_content_hash H a)"
  using assms(2)
proof (cases rule: tool_cases)
  case (dispatched a' h r1)
  have a': "a' = a" using mem.read_frame [OF assms(1) dispatched(3)] assms(5) by auto
  have h: "h = artifact_content_hash H a" using resolve_due [OF dispatched(4)] a' by blast
  from dispatched(5) show ?thesis
  proof (cases rule: dispatch_cases)
    case (uncertain l1)
    with mark_failure_ledger(2) assms(3) show ?thesis by fastforce
  next
    case (failed l1)
    with mark_failure_ledger(2) assms(3) show ?thesis by fastforce
  next
    case (written l1 w)
    from planned_intent [OF written(1) assms(4)] success_record [OF written(3)] h a'
    show ?thesis by auto
  qed simp_all
next
  case (reconciled artifact)
  with tool_reconcile_effect(2) [OF reconciled(4) refl] assms(3) show ?thesis by auto
next
  case (resolved artifact)
  with resolve_final [of H ctx rq artifact l m] assms(3) show ?thesis by auto
qed (use assms(3) in \<open>auto simp: tool_reject_def dest: replay_result [OF sym]\<close>)

lemma no_op_ledger:
  assumes "repo_ok r" and "mem_tool H ctx clk rq (l, r) = ((l', r'), Inr m)" and "mr_outcome m = NO_OP"
  shows "l' = l"
  using assms(2)
proof (cases rule: tool_cases)
  case (reconciled artifact)
  with tool_reconcile_effect(2) [OF reconciled(4) refl] assms(3) show ?thesis by auto
next
  case (dispatched artifact h r1)
  from dispatched(5) show ?thesis
    by (cases rule: dispatch_cases)
      (use assms(3) mark_failure_ledger(2) record_success_Inr in fastforce)+
qed simp_all

text \<open>The states and the record around a write the agent reports.\<close>

lemma remediated_states:
  assumes "repo_ok r" and "missing_fields i = []" and "dict_get l (ri_action_id i) = None"
    and "mem_tool H ctx clk (request_of i) (l, r) = ((l', r'), Inr m)" and "mr_outcome m = MUTATED"
  obtains a w rec where "dict_get (rp_artifacts r) (ri_artifact_id i) = Some a"
    "dict_get (rp_artifacts r') (ri_artifact_id i) = Some w"
    "one_requirement_changed a (ri_requirement_id i) (ri_expected_before_value i)
       (ri_expected_after_value i) w"
    "artifact_content_hash H a = ri_expected_before_hash i" "ri_expected_before_hash i \<noteq> []"
    "ri_expected_before_value i \<noteq> ri_expected_after_value i"
    "mr_evidence m = Some (MutationEvidence
       (mutation_evidence_of H ctx (request_of i) a (ri_expected_before_hash i) w))"
    "dict_get l' (ri_action_id i) = Some rec" "ax_status rec = AS_COMPLETED" "\<not> ax_reconciled rec"
    "ax_intent rec = build_remediation_intent (tc_change ctx) a (ri_expected_before_hash i)"
proof -
  note mut = mem.tool_mutated [OF assms(1,4,5)]
  then obtain a w where
    aw: "dict_get (rp_artifacts r) (ri_artifact_id i) = Some a"
      "dict_get (rp_artifacts r') (ri_artifact_id i) = Some w"
      "one_requirement_changed a (ri_requirement_id i) (ri_expected_before_value i)
         (ri_expected_after_value i) w"
      "artifact_content_hash H a = ri_expected_before_hash i"
      "mr_evidence m = Some (MutationEvidence
         (mutation_evidence_of H ctx (request_of i) a (ri_expected_before_hash i) w))"
    by (auto simp: request_of_def)
  from mutated_record [OF assms(1,4,5)] assms(3) aw(1) obtain rec where
    rec: "dict_get l' (ri_action_id i) = Some rec" "ax_status rec = AS_COMPLETED" "\<not> ax_reconciled rec"
      "ax_intent rec = build_remediation_intent (tc_change ctx) a (ri_expected_before_hash i)"
    using aw(4) by (auto simp: request_of_def)
  have "ri_expected_before_hash i \<noteq> []"
    using assms(2) by (auto simp: missing_fields_def split: if_splits)
  moreover from mut have "ri_expected_before_value i \<noteq> ri_expected_after_value i"
    by (auto simp: precheck_def request_of_def split: option.splits if_splits)
  ultimately show thesis using that aw rec by blast
qed

section \<open>Properties\<close>

text \<open>The artifact and the requirement of an intent changed as it says, and nothing else of the artifact did
  but its reference and the value it displays for that requirement.\<close>

definition told_change :: "remediation_intent \<Rightarrow> repository \<Rightarrow> repository \<Rightarrow> bool" where
  "told_change i r r' \<longleftrightarrow>
     (\<exists>a w. dict_get (rp_artifacts r) (ri_artifact_id i) = Some a \<and>
        dict_get (rp_artifacts r') (ri_artifact_id i) = Some w \<and>
        one_requirement_changed a (ri_requirement_id i) (ri_expected_before_value i)
          (ri_expected_after_value i) w)"

text \<open>C24. Only the remediation identity writes, and only what it was told: under any other identity the
  agent returns a denial (or a malformed intent) and ledger, artifacts and grants are exactly as
  before; under its own, whatever the outcome or exception, no artifact but the intent's is touched, and
  of that one nothing but the requirement the intent names, which held the intent's expected value and
  holds its new one; and a write is reported only for the context's change and version with no required
  field blank, and is then that change of that requirement.\<close>

theorem only_remediation_writes:
  assumes "repo_ok r" and "mem_remediate mac h H verifier ctx clk rnd now i (b, l, r) = ((b', l', r'), out)"
  shows "if h \<noteq> identity_value REMEDIATION
    then l' = l \<and> r' = r \<and> br_grants b' = br_grants b \<and>
      (\<exists>q. out = Inr q \<and> rm_status q \<in> {RS_CAPABILITY_DENIED, RS_MALFORMED_INTENT})
    else (\<forall>j. j = ri_artifact_id i \<or> dict_get (rp_artifacts r') j = dict_get (rp_artifacts r) j) \<and>
      (if dict_get (rp_artifacts r') (ri_artifact_id i) = dict_get (rp_artifacts r) (ri_artifact_id i) then True
       else told_change i r r') \<and>
      (case out of Inl e \<Rightarrow> True | Inr q \<Rightarrow>
         if remediation_dispatched q
         then missing_fields i = [] \<and> rm_status q = RS_MUTATED \<and> told_change i r r' \<and>
           ri_change_id i = ac_change_id (tc_change ctx) \<and>
           ri_source_version i = ac_source_version (tc_change ctx)
         else \<forall>j. dict_get (rp_artifacts r') j = dict_get (rp_artifacts r) j)"
  using assms(2)
proof (cases rule: remediate_cases)
  case malformed
  then show ?thesis by (simp add: remediation_dispatched_def)
next
  case (denied e)
  with issue_denied [of h mac "ri_artifact_id i" "ri_change_id i" "ri_source_version i" rnd now b]
  show ?thesis by (auto simp: remediation_dispatched_def)
next
  case (ran cap res)
  have h: "h = identity_value REMEDIATION" using issue_Inr [OF ran(2)] by blast
  have target: "j = ri_artifact_id i \<or> dict_get (rp_artifacts r') j = dict_get (rp_artifacts r) j" for j
    using mem_tool_only_target [OF assms(1) ran(3), of j] by (auto simp: request_of_def)
  have what: "if dict_get (rp_artifacts r') (ri_artifact_id i) = dict_get (rp_artifacts r) (ri_artifact_id i)
      then True else told_change i r r'"
    using mem_tool_only_requirement [OF assms(1) ran(3)] by (auto simp: request_of_def told_change_def)
  show ?thesis
  proof (cases res)
    case (Inl e)
    with ran(4) h target what show ?thesis by simp
  next
    case (Inr m)
    note run = ran(3) [unfolded Inr]
    show ?thesis
    proof (cases "mr_outcome m = MUTATED")
      case True
      from mem.tool_mutated [OF assms(1) run True] have "mr_dispatched m" and told: "told_change i r r'"
        and pre: "precheck (ctx\<lparr>tc_capability := Some cap, tc_verifier := verifier b'\<rparr>) (request_of i) = None"
        by (auto simp: told_change_def request_of_def)
      with ran(1,4) Inr h target what True show ?thesis
        by (auto simp: remediation_dispatched_def precheck_def request_of_def split: if_splits)
    next
      case False
      with mem_dispatched_iff(1) [OF run] have "\<not> mr_dispatched m" by simp
      with mem.tool_frame [OF assms(1) run this] ran(4) Inr h target what show ?thesis
        by (simp add: remediation_dispatched_def)
    qed
  qed
qed

definition sample_intent :: "str \<Rightarrow> remediation_intent" where
  "sample_intent v =
     \<lparr>ri_action_id = ''act-1'', ri_artifact_id = ''a'', ri_requirement_id = ''req-1'',
      ri_expected_before_value = ''LEFT'',
      ri_expected_before_hash = artifact_content_hash sample_hash (sample_artifact ''a'' v),
      ri_expected_after_value = ''TOP_RIGHT'', ri_source_procedure_id = ''proc-1'',
      ri_source_version = ''v8'', ri_change_id = ''chg-1'', ri_correlation_id = ''corr-1''\<rparr>"

definition sample_remediation ::
  "agent_identity \<Rightarrow> str \<Rightarrow> (broker \<times> ledger \<times> repository) \<times> remediation_result res" where
  "sample_remediation h v =
     mem_remediate (\<lambda>s m. m) (identity_value h) sample_hash (verify (\<lambda>s m. m)) sample_tool_context int
       ''ab'' None (sample_intent v) (new_broker ''s'', [], sample_repository v)"

theorem only_remediation_writes_witness:
  "(case sample_remediation ENABLEMENT ''LEFT'' of ((b', l', r'), out) \<Rightarrow>
      l' = [] \<and> r' = sample_repository ''LEFT'') \<and>
   (case sample_remediation REMEDIATION ''LEFT'' of ((b', l', r'), out) \<Rightarrow>
      told_change (sample_intent ''LEFT'') (sample_repository ''LEFT'') r')"
proof (rule conjI)
  obtain b' l' r' out where s: "sample_remediation REMEDIATION ''LEFT'' = ((b', l', r'), out)"
    by (metis surj_pair)
  have "case sample_remediation REMEDIATION ''LEFT'' of ((b', l', r'), out) \<Rightarrow>
      dict_get (rp_artifacts r') ''a'' \<noteq> dict_get (rp_artifacts (sample_repository ''LEFT'')) ''a''" by code_simp
  with only_remediation_writes [OF sample_repository_ok s [unfolded sample_remediation_def]]
  show "case sample_remediation REMEDIATION ''LEFT'' of ((b', l', r'), out) \<Rightarrow>
      told_change (sample_intent ''LEFT'') (sample_repository ''LEFT'') r'"
    by (simp add: s sample_intent_def)
next
  obtain b' l' r' out where s: "sample_remediation ENABLEMENT ''LEFT'' = ((b', l', r'), out)"
    by (metis surj_pair)
  from only_remediation_writes [OF sample_repository_ok s [unfolded sample_remediation_def]]
  show "case sample_remediation ENABLEMENT ''LEFT'' of ((b', l', r'), out) \<Rightarrow>
      l' = [] \<and> r' = sample_repository ''LEFT''" by (simp add: s)
qed

text \<open>A genuine remediation is accepted: when the agent, for the approved change and an authorised
  artifact, reports \<open>MUTATED\<close> for an action with no earlier record, Crossing 2 run on the state it
  leaves accepts its evidence, against the hash recorded before the write and the artifact as
  committed (digests of different requirements assumed different). And in general Crossing 2
  accepts exactly the evidence its specification admits, and leaves artifacts alone.\<close>

theorem mutation_crosses:
  assumes "repo_ok r" and "mem_remediate mac h H verifier ctx clk rnd now i (b, l, r) = ((b', l', r'), Inr q)"
    and "rm_status q = RS_MUTATED" and "dict_get l (ri_action_id i) = None"
    and "ri_expected_before_value i = ac_previous_value (tc_change ctx)"
    and "ri_expected_after_value i = ac_current_value (tc_change ctx)"
    and "ri_artifact_id i \<in> set (ac_authorized_scope (tc_change ctx))"
    and "cx = \<lparr>rx_change = tc_change ctx, rx_action_id = ri_action_id i,
      rx_expected_artifact_id = ri_artifact_id i, rx_expected_requirement_id = ri_requirement_id i,
      rx_source_version_applicable = True, rx_rejection_ref = rej\<rparr>"
    and dicts: "\<And>a. dict_get (rp_artifacts r) (ri_artifact_id i) = Some a \<Longrightarrow> dict_ok (da_requirements a)"
    and digest: "\<And>v w. dict_ok (da_requirements v) \<Longrightarrow> dict_ok (da_requirements w) \<Longrightarrow>
      artifact_content_hash H v = artifact_content_hash H w \<Longrightarrow>
      map_of (da_requirements v) = map_of (da_requirements w)"
  shows "\<exists>e w. rm_evidence q = Some e \<and> dict_get (rp_artifacts r') (ri_artifact_id i) = Some w \<and>
    evidence_admissible H e cx l' w \<and>
    rb_accepted (snd (accept_remediation_evidence H repo_read e cx (l', r')))"
  using assms(2)
proof (cases rule: remediate_cases)
  case (ran cap res)
  from ran(4) obtain m where res: "res = Inr m" and q: "rm_status q = tool_outcome_status (mr_outcome m)"
      "rm_evidence q = (if mr_outcome m = REJECTED then None else mr_evidence m)"
    by (cases res) auto
  from q(1) assms(3) have mut: "mr_outcome m = MUTATED" by (cases "mr_outcome m") simp_all
  obtain a w rec where
    aw: "dict_get (rp_artifacts r) (ri_artifact_id i) = Some a"
      "dict_get (rp_artifacts r') (ri_artifact_id i) = Some w"
      "one_requirement_changed a (ri_requirement_id i) (ri_expected_before_value i)
         (ri_expected_after_value i) w"
      "artifact_content_hash H a = ri_expected_before_hash i"
      "mr_evidence m = Some (MutationEvidence (mutation_evidence_of H
         (ctx\<lparr>tc_capability := Some cap, tc_verifier := verifier b'\<rparr>) (request_of i) a
         (ri_expected_before_hash i) w))"
    and nonblank: "ri_expected_before_hash i \<noteq> []"
    and differ: "ri_expected_before_value i \<noteq> ri_expected_after_value i"
    and rec: "dict_get l' (ri_action_id i) = Some rec" "ax_status rec = AS_COMPLETED" "\<not> ax_reconciled rec"
      "ax_intent rec = build_remediation_intent (tc_change ctx) a (ri_expected_before_hash i)"
    by (rule remediated_states [OF assms(1) ran(1) assms(4) ran(3) [unfolded res] mut]) simp
  have held: "dict_get (da_requirements w) (ri_requirement_id i) = Some (ri_expected_after_value i)"
    "dict_get (da_requirements a) (ri_requirement_id i) = Some (ri_expected_before_value i)"
    "da_content_ref a \<noteq> da_content_ref w" and ok: "dict_ok (da_requirements w)"
    using aw(3) dicts [OF aw(1)] by (auto simp: one_requirement_changed_def)
  with differ digest [OF dicts [OF aw(1)] ok] have hashes: "artifact_content_hash H a \<noteq> artifact_content_hash H w" by auto
  have adm: "evidence_admissible H (the (mr_evidence m)) cx l' w"
    using rec nonblank held hashes aw(4) assms(5,6,7)
    by (simp add: evidence_admissible_def aw(5) assms(8) mutation_evidence_of_def request_of_def
        intent_value_def build_remediation_intent_def)
  have rd: "repo_read (rx_expected_artifact_id cx) r' = (fst (repo_read (ri_artifact_id i) r'), ReadArtifact (Some w))"
    using aw(2) by (simp add: repo_read_def assms(8))
  from crossing2_accepts_iff [of repo_read, OF rd] adm q(2) aw(2,5) mut show ?thesis by simp
qed (use assms(3) in auto)

lemma sample_hash_digest:
  assumes "dict_ok (da_requirements v)" and "dict_ok (da_requirements w)"
    and "artifact_content_hash sample_hash v = artifact_content_hash sample_hash w"
  shows "map_of (da_requirements v) = map_of (da_requirements w)"
  using assms(3) dump_dict_inj [OF assms(1,2)]
  by (simp add: artifact_content_hash_def canonical_hash_def content_hash_def sample_hash_def utf8_inj)

lemma sample_remediation_runs:
  "\<exists>b' l' r' q. sample_remediation REMEDIATION ''LEFT'' = ((b', l', r'), Inr q) \<and> rm_status q = RS_MUTATED"
  "\<exists>b' l' r' q. sample_remediation REMEDIATION ''TOP_RIGHT'' = ((b', l', r'), Inr q) \<and> rm_status q = RS_NO_OP"
proof -
  have "case snd (sample_remediation REMEDIATION ''LEFT'') of Inl _ \<Rightarrow> False | Inr q \<Rightarrow> rm_status q = RS_MUTATED"
    by code_simp
  then show "\<exists>b' l' r' q. sample_remediation REMEDIATION ''LEFT'' = ((b', l', r'), Inr q) \<and> rm_status q = RS_MUTATED"
    by (cases "sample_remediation REMEDIATION ''LEFT''") (auto split: sum.splits)
  have "case snd (sample_remediation REMEDIATION ''TOP_RIGHT'') of Inl _ \<Rightarrow> False | Inr q \<Rightarrow> rm_status q = RS_NO_OP"
    by code_simp
  then show "\<exists>b' l' r' q. sample_remediation REMEDIATION ''TOP_RIGHT'' = ((b', l', r'), Inr q) \<and> rm_status q = RS_NO_OP"
    by (cases "sample_remediation REMEDIATION ''TOP_RIGHT''") (auto split: sum.splits)
qed

definition sample_crossing2 :: remediation_crossing_context where
  "sample_crossing2 =
     \<lparr>rx_change = sample_change [''a''], rx_action_id = ''act-1'', rx_expected_artifact_id = ''a'',
      rx_expected_requirement_id = ''req-1'', rx_source_version_applicable = True,
      rx_rejection_ref = ''rej''\<rparr>"

theorem mutation_crosses_witness:
  "\<exists>b' l' r' q e. sample_remediation REMEDIATION ''LEFT'' = ((b', l', r'), Inr q) \<and>
     rb_accepted (snd (accept_remediation_evidence sample_hash repo_read e sample_crossing2 (l', r')))"
proof -
  obtain b' l' r' q where s: "sample_remediation REMEDIATION ''LEFT'' = ((b', l', r'), Inr q)"
    and q: "rm_status q = RS_MUTATED" using sample_remediation_runs(1) by blast
  have "\<exists>e w. rm_evidence q = Some e \<and>
      dict_get (rp_artifacts r') (ri_artifact_id (sample_intent ''LEFT'')) = Some w \<and>
      evidence_admissible sample_hash e sample_crossing2 l' w \<and>
      rb_accepted (snd (accept_remediation_evidence sample_hash repo_read e sample_crossing2 (l', r')))"
    by (rule mutation_crosses [OF sample_repository_ok s [unfolded sample_remediation_def] q])
      (auto simp: sample_intent_def sample_tool_context_def sample_change_def sample_crossing2_def
        sample_repository_def new_repository_def sample_artifact_def dest: sample_hash_digest)
  with s show ?thesis by blast
qed

text \<open>The no-op path ends at Crossing 2: when the agent reports \<open>NO_OP\<close> for an action with no ledger
  record (the tool never plans an action it does not dispatch), the ledger it leaves has no record
  either, and Crossing 2 rejects that evidence, and any other for the action, with
  \<open>NO_LEDGER_RECORD\<close>, although the artifact already holds the approved value.\<close>

theorem no_op_never_crosses:
  assumes "repo_ok r" and "mem_remediate mac h H verifier ctx clk rnd now i (b, l, r) = ((b', l', r'), Inr q)"
    and "rm_status q = RS_NO_OP" and "dict_get l (ri_action_id i) = None"
    and "rx_action_id cx = ri_action_id i"
  shows "l' = l \<and> \<not> remediation_dispatched q \<and> (\<exists>e. rm_evidence q = Some (NoOpEvidence e)) \<and>
    rb_rejections (snd (accept_remediation_evidence H repo_read e cx (l', r'))) = [NO_LEDGER_RECORD] \<and>
    \<not> rb_accepted (snd (accept_remediation_evidence H repo_read e cx (l', r')))"
  using assms(2)
proof (cases rule: remediate_cases)
  case (ran cap res)
  from ran(4) obtain m where res: "res = Inr m" and q: "rm_status q = tool_outcome_status (mr_outcome m)"
      "rm_evidence q = (if mr_outcome m = REJECTED then None else mr_evidence m)"
      "rm_tool_result q = Some m"
    by (cases res) auto
  from q(1) assms(3) have no: "mr_outcome m = NO_OP" by (cases "mr_outcome m") simp_all
  note run = ran(3) [unfolded res]
  have l: "l' = l" by (rule no_op_ledger [OF assms(1) run no])
  have "\<not> mr_dispatched m" using mem_dispatched_iff(1) [OF run] no by simp
  moreover have "\<exists>e. mr_evidence m = Some (NoOpEvidence e)"
    using run
  proof (cases rule: tool_cases)
    case (resolved artifact)
    with resolve_final no show ?thesis by fastforce
  next
    case (reconciled artifact)
    with tool_reconcile_effect(2) [OF reconciled(4) refl] no show ?thesis by auto
  next
    case (dispatched artifact h' r1)
    with \<open>\<not> mr_dispatched m\<close> no show ?thesis
      by (auto elim!: dispatch_cases dest: mark_failure_ledger(2) record_success_Inr)
  qed (use no in \<open>auto simp: tool_reject_def dest: replay_result [OF sym]\<close>)
  ultimately show ?thesis using l q no assms(4,5)
    by (simp add: remediation_dispatched_def accept_remediation_evidence_def ledger_get_def
        crossing2_reject_def)
qed (use assms(3) in auto)


theorem no_op_never_crosses_witness:
  "\<exists>b' l' r' q. sample_remediation REMEDIATION ''TOP_RIGHT'' = ((b', l', r'), Inr q) \<and> rm_status q = RS_NO_OP \<and>
     rb_rejections (snd (accept_remediation_evidence sample_hash repo_read (the (rm_evidence q))
       sample_crossing2 (l', r'))) = [NO_LEDGER_RECORD]"
proof -
  obtain b' l' r' q where s: "sample_remediation REMEDIATION ''TOP_RIGHT'' = ((b', l', r'), Inr q)"
    and q: "rm_status q = RS_NO_OP" using sample_remediation_runs(2) by blast
  from no_op_never_crosses [OF sample_repository_ok s [unfolded sample_remediation_def] q]
  have "rb_rejections (snd (accept_remediation_evidence sample_hash repo_read (the (rm_evidence q))
      sample_crossing2 (l', r'))) = [NO_LEDGER_RECORD]"
    by (simp add: sample_intent_def sample_crossing2_def)
  with s q show ?thesis by blast
qed

end
