(* ===== verification/Field_Evidence.thy ===== *)
theory Field_Evidence
  imports Idempotency Write_Once
begin

text \<open>
  Container identification (\<open>media/container.py\<close>) and the acceptance and storage of physical field
  images (\<open>field/evidence.py\<close>). An image is its byte string, one \<^typ>\<open>char\<close> per byte; SHA-256 is the
  parameter \<open>H\<close> and the ISO rendering of a time the parameter \<open>isoformat\<close>.
\<close>

section \<open>Containers\<close>

datatype container_format = JPEG | PNG | HEIC | HEIF | AVIF | UNKNOWN_CONTAINER

primrec container_value :: "container_format \<Rightarrow> str" where
  "container_value JPEG = ''JPEG''"
| "container_value PNG = ''PNG''"
| "container_value HEIC = ''HEIC''"
| "container_value HEIF = ''HEIF''"
| "container_value AVIF = ''AVIF''"
| "container_value UNKNOWN_CONTAINER = ''UNKNOWN''"

primrec MIME_BY_CONTAINER :: "container_format \<Rightarrow> str option" where
  "MIME_BY_CONTAINER JPEG = Some ''image/jpeg''"
| "MIME_BY_CONTAINER PNG = Some ''image/png''"
| "MIME_BY_CONTAINER HEIC = Some ''image/heic''"
| "MIME_BY_CONTAINER HEIF = Some ''image/heif''"
| "MIME_BY_CONTAINER AVIF = Some ''image/avif''"
| "MIME_BY_CONTAINER UNKNOWN_CONTAINER = None"

definition MIN_SNIFFABLE_BYTES :: nat where
  "MIN_SNIFFABLE_BYTES = 12"

definition ISO_BRANDS :: "(str, container_format) dict" where
  "ISO_BRANDS =
     [(''heic'', HEIC), (''heix'', HEIC), (''heim'', HEIC), (''heis'', HEIC), (''hevc'', HEIC),
      (''hevx'', HEIC), (''hevm'', HEIC), (''hevs'', HEIC), (''mif1'', HEIF), (''msf1'', HEIF),
      (''avif'', AVIF), (''avis'', AVIF)]"

definition bytes_of :: "nat list \<Rightarrow> str" where
  "bytes_of ns = map char_of ns"

text \<open>\<open>raw[a:b]\<close>\<close>

definition slice :: "nat \<Rightarrow> nat \<Rightarrow> str \<Rightarrow> str" where
  "slice a b s = take (b - a) (drop a s)"

definition sniff_container :: "str \<Rightarrow> container_format" where
  "sniff_container raw =
     (if length raw < MIN_SNIFFABLE_BYTES then UNKNOWN_CONTAINER
      else if slice 0 8 raw = bytes_of [0x89, 0x50, 0x4E, 0x47, 0x0D, 0x0A, 0x1A, 0x0A] then PNG
      else if slice 0 3 raw = bytes_of [0xFF, 0xD8, 0xFF] then JPEG
      else if slice 4 8 raw = ''ftyp'' then
        (case dict_get ISO_BRANDS (map lower_char (slice 8 12 raw)) of
           None \<Rightarrow> UNKNOWN_CONTAINER
         | Some f \<Rightarrow> f)
      else UNKNOWN_CONTAINER)"

definition sniff_mime_type :: "str \<Rightarrow> str option" where
  "sniff_mime_type raw = MIME_BY_CONTAINER (sniff_container raw)"

section \<open>Acceptance\<close>

definition MAX_IMAGE_BYTES :: nat where
  "MAX_IMAGE_BYTES = 12 * 1024 * 1024"

definition MIN_IMAGE_BYTES :: nat where
  "MIN_IMAGE_BYTES = 64"

definition ACCEPTED_CONTAINERS :: "container_format set" where
  "ACCEPTED_CONTAINERS = {JPEG, PNG, HEIC, HEIF}"

datatype image_rejection =
  EMPTY | TOO_SMALL | TOO_LARGE | UNRECOGNIZED_CONTAINER | UNSUPPORTED_CONTAINER

record field_image =
  fi_sha256 :: str
  fi_container :: container_format
  fi_mime_type :: str
  fi_byte_count :: nat
  fi_declared_filename :: "str option"
  fi_declared_content_type :: "str option"

definition declared_type :: "field_image \<Rightarrow> str" where
  "declared_type i =
     map lower_char (py_strip (takeWhile (\<lambda>c. c \<noteq> CHR '';'')
       (case fi_declared_content_type i of None \<Rightarrow> '''' | Some s \<Rightarrow> s)))"

definition client_claim_was_wrong :: "field_image \<Rightarrow> bool" where
  "client_claim_was_wrong i \<longleftrightarrow> declared_type i \<noteq> [] \<and> declared_type i \<noteq> fi_mime_type i"

definition json_opt :: "str option \<Rightarrow> json" where
  "json_opt s = (case s of None \<Rightarrow> JNull | Some x \<Rightarrow> JStr x)"

definition image_evidence :: "field_image \<Rightarrow> (str, json) dict" where
  "image_evidence i =
     [(''image_sha256'', JStr (fi_sha256 i)),
      (''container'', JStr (container_value (fi_container i))),
      (''mime_type'', JStr (fi_mime_type i)),
      (''byte_count'', JInt (int (fi_byte_count i))),
      (''declared_filename'', json_opt (fi_declared_filename i)),
      (''declared_content_type'', json_opt (fi_declared_content_type i)),
      (''declared_type_matched_bytes'', JBool (\<not> client_claim_was_wrong i)),
      (''mime_authority'', JStr ''DERIVED_FROM_BYTES'')]"

definition accept_field_image ::
  "(str \<Rightarrow> str) \<Rightarrow> str \<Rightarrow> str option \<Rightarrow> str option \<Rightarrow> nat \<Rightarrow> image_rejection + field_image" where
  "accept_field_image H raw declared_filename declared_content_type max_bytes =
     (if raw = [] then Inl EMPTY
      else if length raw > max_bytes then Inl TOO_LARGE
      else if length raw < MIN_IMAGE_BYTES then Inl TOO_SMALL
      else
        let container = sniff_container raw
        in if container = UNKNOWN_CONTAINER then Inl UNRECOGNIZED_CONTAINER
           else if container \<notin> ACCEPTED_CONTAINERS then Inl UNSUPPORTED_CONTAINER
           else case sniff_mime_type raw of
             None \<Rightarrow> Inl UNRECOGNIZED_CONTAINER
           | Some mime_type \<Rightarrow>
               Inr \<lparr>fi_sha256 = H raw, fi_container = container, fi_mime_type = mime_type,
                    fi_byte_count = length raw, fi_declared_filename = declared_filename,
                    fi_declared_content_type = declared_content_type\<rparr>)"

section \<open>Identities\<close>

definition derive_submission_id :: "(str \<Rightarrow> str) \<Rightarrow> str \<Rightarrow> str \<Rightarrow> str \<Rightarrow> str" where
  "derive_submission_id H change_id source_version image_sha256 =
     ''fev-'' @ take 32 (H (utf8 (join_with (CHR 0x1F) [change_id, source_version, image_sha256])))"

definition derive_observation_operation_id :: "(str \<Rightarrow> str) \<Rightarrow> str \<Rightarrow> str \<Rightarrow> str \<Rightarrow> str" where
  "derive_observation_operation_id H change_id source_version image_sha256 =
     ''obs-'' @ drop 4 (derive_submission_id H change_id source_version image_sha256)"

section \<open>The evidence store\<close>

record field_evidence_store =
  fs_records :: "(str, (str, json) dict) dict"
  fs_order :: "str list"
  fs_by_operation :: "(str, str) dict"

definition empty_field_store :: field_evidence_store where
  "empty_field_store = \<lparr>fs_records = [], fs_order = [], fs_by_operation = []\<rparr>"

definition field_evidence_ref :: "str \<Rightarrow> str" where
  "field_evidence_ref operation_id = ''field-evidence:'' @ operation_id"

definition stored_document ::
  "(datetime \<Rightarrow> str) \<Rightarrow> str \<Rightarrow> (str, json) dict \<Rightarrow> datetime \<Rightarrow> (str, json) dict" where
  "stored_document isoformat operation_id document recorded_at =
     dict_put ''evidence_ref'' (JStr (field_evidence_ref operation_id))
       (dict_put ''recorded_at'' (JStr (isoformat recorded_at)) document)"

definition record_field ::
  "(datetime \<Rightarrow> str) \<Rightarrow> str \<Rightarrow> (str, json) dict \<Rightarrow> datetime \<Rightarrow> field_evidence_store \<Rightarrow>
     field_evidence_store \<times> str res" where
  "record_field isoformat operation_id document recorded_at s =
     (let ref = field_evidence_ref operation_id
      in if dict_get (fs_records s) ref \<noteq> None then
           (s, Inl (ValueError (''refusing to overwrite field evidence at '' @ ref)))
         else
           (\<lparr>fs_records = dict_put ref (stored_document isoformat operation_id document recorded_at)
                            (fs_records s),
             fs_order = fs_order s @ [ref],
             fs_by_operation = dict_put operation_id ref (fs_by_operation s)\<rparr>, Inr ref))"

definition field_resolve :: "str \<Rightarrow> field_evidence_store \<Rightarrow> (str, json) dict option" where
  "field_resolve evidence_ref s = dict_get (fs_records s) evidence_ref"

definition find_operation :: "str \<Rightarrow> field_evidence_store \<Rightarrow> (str, json) dict option" where
  "find_operation operation_id s =
     (case dict_get (fs_by_operation s) operation_id of
        None \<Rightarrow> None
      | Some ref \<Rightarrow> if ref = [] then None else field_resolve ref s)"

definition field_refs :: "field_evidence_store \<Rightarrow> str list" where
  "field_refs s = dict_keys (fs_records s)"

text \<open>\<open>self._records[ref]\<close> raises for a missing reference; the invariant below excludes it.\<close>

definition field_history :: "field_evidence_store \<Rightarrow> (str, json) dict list res" where
  "field_history s =
     (if list_ex (\<lambda>ref. dict_get (fs_records s) ref = None) (fs_order s) then Inl KeyError
      else Inr (List.map_filter (\<lambda>ref. dict_get (fs_records s) ref) (fs_order s)))"

section \<open>The store is write-once\<close>

text \<open>The order lists the references, and the operation index points at its operation's record.\<close>

definition field_store_ok :: "field_evidence_store \<Rightarrow> bool" where
  "field_store_ok s \<longleftrightarrow>
     fs_order s = dict_keys (fs_records s) \<and> dict_ok (fs_records s) \<and>
     (\<forall>i. dict_get (fs_by_operation s) i =
        (if field_evidence_ref i \<in> fst ` set (fs_records s) then Some (field_evidence_ref i) else None))"

lemma field_evidence_ref_inj [simp]: "field_evidence_ref a = field_evidence_ref b \<longleftrightarrow> a = b"
  by (simp add: field_evidence_ref_def)

lemma field_evidence_ref_nonempty [simp]: "field_evidence_ref a \<noteq> []"
  by (simp add: field_evidence_ref_def)

lemma empty_field_store_ok: "field_store_ok empty_field_store"
  by (simp add: field_store_ok_def empty_field_store_def)

lemma record_field_fresh:
  assumes "field_evidence_ref i \<notin> fst ` set (fs_records s)"
  shows "record_field tf i d t s =
    (\<lparr>fs_records = fs_records s @ [(field_evidence_ref i, stored_document tf i d t)],
      fs_order = fs_order s @ [field_evidence_ref i],
      fs_by_operation = dict_put i (field_evidence_ref i) (fs_by_operation s)\<rparr>,
     Inr (field_evidence_ref i))"
  using assms by (simp add: record_field_def Let_def dict_get_absent dict_put_absent)

lemma record_field_used:
  assumes "field_evidence_ref i \<in> fst ` set (fs_records s)"
  shows "record_field tf i d t s =
    (s, Inl (ValueError (''refusing to overwrite field evidence at '' @ field_evidence_ref i)))"
proof -
  have "dict_get (fs_records s) (field_evidence_ref i) \<noteq> None"
    using assms dict_get_present [of "field_evidence_ref i" "fs_records s"] by auto
  then show ?thesis by (simp add: record_field_def)
qed

lemma record_field_ok:
  assumes "field_store_ok s"
  shows "field_store_ok (fst (record_field tf i d t s))"
proof (cases "field_evidence_ref i \<in> fst ` set (fs_records s)")
  case True
  with assms show ?thesis by (simp add: record_field_used)
next
  case False
  with assms show ?thesis by (simp add: record_field_fresh field_store_ok_def)
qed

definition put_field ::
  "(datetime \<Rightarrow> str) \<Rightarrow> str \<times> (str, json) dict \<times> datetime \<Rightarrow> field_evidence_store \<Rightarrow>
     field_evidence_store \<times> str res" where
  "put_field isoformat = (\<lambda>(i, d, t). record_field isoformat i d t)"

interpretation fields: write_once "put_field tf" field_resolve "\<lambda>(i, d, t). field_evidence_ref i"
    "\<lambda>(i, d, t). stored_document tf i d t" "\<lambda>_ _. False" field_store_ok for tf
proof unfold_locales
  fix s and v :: "str \<times> (str, json) dict \<times> datetime"
  assume "field_store_ok s"
  moreover obtain i d t where "v = (i, d, t)" by (cases v)
  ultimately show "field_store_ok (fst (put_field tf v s))"
    by (simp add: put_field_def record_field_ok)
qed (auto simp: put_field_def record_field_def field_resolve_def Let_def split: if_splits)

lemma find_operation_eq:
  assumes "field_store_ok s"
  shows "find_operation i s = field_resolve (field_evidence_ref i) s"
proof (cases "field_evidence_ref i \<in> fst ` set (fs_records s)")
  case False
  with assms show ?thesis
    by (simp add: find_operation_def field_resolve_def field_store_ok_def dict_get_absent)
next
  case True
  with assms show ?thesis by (simp add: find_operation_def field_store_ok_def)
qed

lemma map_filter_lookup:
  assumes "dict_ok d"
  shows "List.map_filter (map_of d) (dict_keys d) = map snd d"
proof -
  have m: "map_of d (fst p) = Some (snd p)" if "p \<in> set d" for p
    using assms that by simp
  then have "List.map_filter (map_of d) (dict_keys d) = map (\<lambda>k. the (map_of d k)) (dict_keys d)"
    by (intro map_filter_Some) auto
  also have "\<dots> = map snd d" using m by simp
  finally show ?thesis .
qed

lemma field_history_eq: "field_store_ok s \<Longrightarrow> field_history s = Inr (map snd (fs_records s))"
proof -
  assume "field_store_ok s"
  then have o': "fs_order s = dict_keys (fs_records s)" "dict_ok (fs_records s)"
    by (simp_all add: field_store_ok_def)
  have "\<not> list_ex (\<lambda>ref. dict_get (fs_records s) ref = None) (dict_keys (fs_records s))"
    by (simp add: list_ex_iff dict_get_None del: set_map)
  with o' show ?thesis by (simp add: field_history_def map_filter_lookup)
qed

text \<open>Field evidence is history: recording an attempt under a new operation returns a reference
  that resolves, after any number of further recordings, to exactly the recorded document, under
  which the operation is found and any later attempt to record it is refused without effect;
  recording under a used operation is refused with the store unchanged; and the history grows by
  the new document at its end.\<close>

theorem field_evidence_permanent:
  assumes "field_store_ok s" and "record_field tf i d t s = (s1, r)"
  shows "let s2 = foldl (\<lambda>s v. fst (put_field tf v s)) s1 vs in
    case r of
      Inl e \<Rightarrow> s1 = s \<and> field_resolve (field_evidence_ref i) s \<noteq> None
    | Inr ref \<Rightarrow> field_resolve ref s = None \<and>
        field_resolve ref s2 = Some (stored_document tf i d t) \<and>
        find_operation i s2 = Some (stored_document tf i d t) \<and>
        fst (record_field tf i d' t' s2) = s2 \<and> isl (snd (record_field tf i d' t' s2)) \<and>
        (\<exists>h. field_history s = Inr h \<and> field_history s1 = Inr (h @ [stored_document tf i d t]))"
proof (cases "field_evidence_ref i \<in> fst ` set (fs_records s)")
  case True
  with assms(2) have "s1 = s" "isl r" by (auto simp: record_field_used)
  moreover have "field_resolve (field_evidence_ref i) s \<noteq> None"
    using True dict_get_present by (force simp: field_resolve_def)
  ultimately show ?thesis by (auto simp: isl_def)
next
  case False
  note fresh = record_field_fresh [OF False, of tf d t]
  let ?s2 = "foldl (\<lambda>s v. fst (put_field tf v s)) s1 vs"
  have ok1: "field_store_ok s1" using record_field_ok [OF assms(1), of tf i d t] assms(2) by simp
  have ok2: "field_store_ok ?s2" by (rule fields.history_invar [OF ok1])
  have "field_resolve (field_evidence_ref i) s1 = Some (stored_document tf i d t)"
    using False assms(2) fresh
    by (auto simp: field_resolve_def map_add_def dict_get_absent split: option.split)
  then have now: "field_resolve (field_evidence_ref i) ?s2 = Some (stored_document tf i d t)"
    by (rule fields.permanent [OF ok1])
  then have used: "field_evidence_ref i \<in> fst ` set (fs_records ?s2)"
    by (simp add: field_resolve_def dict_get_present)
  obtain e where again: "record_field tf i d' t' ?s2 = (?s2, Inl e)"
    using record_field_used [OF used, of tf d' t'] by blast
  have find2: "find_operation i ?s2 = Some (stored_document tf i d t)"
    using now by (simp add: find_operation_eq [OF ok2])
  have "field_resolve (field_evidence_ref i) s = None"
    using False by (simp add: field_resolve_def dict_get_absent)
  moreover have "r = Inr (field_evidence_ref i)" "map snd (fs_records s1) = map snd (fs_records s) @ [stored_document tf i d t]"
    using assms(2) fresh by auto
  ultimately show ?thesis
    using field_history_eq [OF assms(1)] field_history_eq [OF ok1]
    by (simp add: Let_def now find2 again)
qed

theorem field_evidence_permanent_witness:
  "case record_field show_int ''op-1'' [] 5 empty_field_store of (s1, r) \<Rightarrow>
     r = Inr ''field-evidence:op-1'' \<and>
     field_resolve ''field-evidence:op-1'' (fst (put_field show_int (''op-1'', [], 9) s1)) =
       Some (stored_document show_int ''op-1'' [] 5)"
proof -
  obtain s1 r where s: "record_field show_int ''op-1'' [] 5 empty_field_store = (s1, r)" by fastforce
  from s have r: "r = Inr ''field-evidence:op-1''"
    by (auto simp: record_field_def empty_field_store_def field_evidence_ref_def Let_def)
  with field_evidence_permanent [OF empty_field_store_ok s, of "[(''op-1'', [], 9)]"] s
  show ?thesis by (simp add: Let_def)
qed

section \<open>What is accepted\<close>

text \<open>Only the bytes decide: an image is accepted exactly when it has at least 64 bytes, at most the
  limit, and one of the four allowed containers by its own leading bytes, and the accepted record's
  hash, container, media type and size are those of the bytes; whatever filename and content type
  the client declares, verdict and derived fields are the same.\<close>

theorem image_acceptance_exact:
  "((\<exists>i. accept_field_image H raw fn ct max_bytes = Inr i) \<longleftrightarrow>
      64 \<le> length raw \<and> length raw \<le> max_bytes \<and> sniff_container raw \<in> {JPEG, PNG, HEIC, HEIF}) \<and>
   (case accept_field_image H raw fn ct max_bytes of
      Inl e \<Rightarrow> accept_field_image H raw fn' ct' max_bytes = Inl e \<and> (e = EMPTY \<longleftrightarrow> raw = [])
    | Inr i \<Rightarrow> i = \<lparr>fi_sha256 = H raw, fi_container = sniff_container raw,
          fi_mime_type = the (MIME_BY_CONTAINER (sniff_container raw)), fi_byte_count = length raw,
          fi_declared_filename = fn, fi_declared_content_type = ct\<rparr> \<and>
        accept_field_image H raw fn' ct' max_bytes =
          Inr (i\<lparr>fi_declared_filename := fn', fi_declared_content_type := ct'\<rparr>))"
  by (cases "sniff_container raw")
    (auto simp: accept_field_image_def sniff_mime_type_def ACCEPTED_CONTAINERS_def MIN_IMAGE_BYTES_def Let_def)

text \<open>A container is only ever named for at least twelve bytes that carry its signature.\<close>

lemma iso_brand:
  assumes "dict_get ISO_BRANDS k = Some f"
  shows "k \<in> set (dict_keys ISO_BRANDS)" "f \<in> {HEIC, HEIF, AVIF}"
proof -
  from assms have "(k, f) \<in> set ISO_BRANDS" by (rule map_of_SomeD)
  then show "k \<in> set (dict_keys ISO_BRANDS)" by force
  from \<open>(k, f) \<in> set ISO_BRANDS\<close> have "f \<in> snd ` set ISO_BRANDS" by force
  then show "f \<in> {HEIC, HEIF, AVIF}" by (simp add: ISO_BRANDS_def)
qed

lemma sniffed_signature:
  assumes "sniff_container raw \<noteq> UNKNOWN_CONTAINER"
  shows "12 \<le> length raw \<and>
     (case sniff_container raw of
        PNG \<Rightarrow> take 8 raw = bytes_of [0x89, 0x50, 0x4E, 0x47, 0x0D, 0x0A, 0x1A, 0x0A]
      | JPEG \<Rightarrow> take 3 raw = bytes_of [0xFF, 0xD8, 0xFF]
      | _ \<Rightarrow> take 4 (drop 4 raw) = ''ftyp'' \<and> map lower_char (take 4 (drop 8 raw)) \<in> set (dict_keys ISO_BRANDS))"
proof (cases "dict_get ISO_BRANDS (map lower_char (slice 8 12 raw))")
  case None
  with assms show ?thesis
    by (simp add: sniff_container_def MIN_SNIFFABLE_BYTES_def slice_def bytes_of_def split: if_splits)
next
  case (Some f)
  with iso_brand [OF Some] assms show ?thesis
    by (cases f)
      (simp_all add: sniff_container_def MIN_SNIFFABLE_BYTES_def slice_def bytes_of_def split: if_splits)
qed

end
