(* ===== verification/Field_Observation.thy ===== *)
theory Field_Observation
  imports Field_Evidence Retry Capabilities Verification Validation
begin

text \<open>
  The Field Verification Agent (\<open>agents/field_verify.py\<close>, T079): the authorization gate before any
  billable call, the bounded provider call, the normalization of the model's answer onto the closed
  domain and the evidence document; and Crossing 4 (\<open>orchestration.py\<close>), which measures an observation
  against the independently stored evidence. The provider is a parameter acting on a world, as in
  \<open>Retry\<close>; \<open>py_repr\<close> is the text \<open>repr\<close> gives a string, which only occurs in messages.
\<close>

section \<open>Normalization\<close>

text \<open>\<open>str.upper()\<close>. The capitals of the micro sign and of y with diaeresis lie outside the first 256
  code points and occur in no label; those two characters are left as they are.\<close>

definition upper_char :: "char \<Rightarrow> str" where
  "upper_char c =
     (let n = (of_char c :: nat)
      in if n = 223 then ''SS''
         else if (97 \<le> n \<and> n \<le> 122) \<or> (224 \<le> n \<and> n \<le> 254 \<and> n \<noteq> 247) then [char_of (n - 32)]
         else [c])"

definition py_upper :: "str \<Rightarrow> str" where
  "py_upper s = concat (map upper_char s)"

text \<open>The characters of \<open>.strip("\"'`.,!;: \n\t")\<close>.\<close>

definition answer_punctuation :: "char set" where
  "answer_punctuation =
     {CHR 0x22, CHR 0x27, CHR 0x60, CHR ''.'', CHR '','', CHR ''!'', CHR '';'', CHR '':'', CHR '' '',
      CHR 0x0A, CHR 0x09}"

definition cleaned :: "str \<Rightarrow> str" where
  "cleaned raw =
     map (\<lambda>c. if c = CHR ''-'' \<or> c = CHR '' '' then CHR ''_'' else c)
       (py_upper (strip_by (\<lambda>c. c \<in> answer_punctuation) (py_strip raw)))"

fun normalize_model_output :: "raw_observation \<Rightarrow> observed_position option" where
  "normalize_model_output (RawPosition p) = Some p"
| "normalize_model_output (RawStr raw) = position_of_value (cleaned raw)"
| "normalize_model_output RawOther = None"

section \<open>The provider\<close>

definition FIELD_OBSERVATION_PROMPT :: str where
  "FIELD_OBSERVATION_PROMPT =
     ''Observe the physical shipping label position on the visible face of the cardboard '' @
     ''box. Return exactly one token and nothing else: LEFT, TOP_RIGHT, or INCONCLUSIVE. '' @
     ''If the available image does not provide enough visual evidence to determine LEFT '' @
     ''or TOP_RIGHT reliably, return INCONCLUSIVE.''"

definition MAX_OUTPUT_TOKENS :: int where
  "MAX_OUTPUT_TOKENS = 8"

record observation_context =
  oc_change_id :: str
  oc_source_version :: str
  oc_submission_id :: str
  oc_prompt :: str
  oc_max_output_tokens :: int

definition observation_context_for :: "str \<Rightarrow> str \<Rightarrow> str \<Rightarrow> observation_context" where
  "observation_context_for change_id source_version submission_id =
     \<lparr>oc_change_id = change_id, oc_source_version = source_version,
      oc_submission_id = submission_id, oc_prompt = FIELD_OBSERVATION_PROMPT,
      oc_max_output_tokens = MAX_OUTPUT_TOKENS\<rparr>"

text \<open>The measured latency is the JSON value the provider reports, \<open>JNull\<close> when it measured none.\<close>

record provider_observation =
  po_raw_output :: str
  po_provider :: str
  po_model :: str
  po_response_id :: "str option"
  po_created :: "int option"
  po_finish_reason :: "str option"
  po_prompt_tokens :: "int option"
  po_completion_tokens :: "int option"
  po_total_tokens :: "int option"
  po_traffic_type :: "str option"
  po_http_status :: "int option"
  po_request_hash :: "str option"
  po_raw_response_hash :: "str option"
  po_latency_seconds :: json

definition json_opt_int :: "int option \<Rightarrow> json" where
  "json_opt_int n = (case n of None \<Rightarrow> JNull | Some i \<Rightarrow> JInt i)"

definition provider_evidence :: "provider_observation \<Rightarrow> (str, json) dict" where
  "provider_evidence p =
     [(''provider'', JStr (po_provider p)),
      (''model'', JStr (po_model p)),
      (''raw_output'', JStr (po_raw_output p)),
      (''response_id'', json_opt (po_response_id p)),
      (''created'', json_opt_int (po_created p)),
      (''finish_reason'', json_opt (po_finish_reason p)),
      (''prompt_tokens'', json_opt_int (po_prompt_tokens p)),
      (''completion_tokens'', json_opt_int (po_completion_tokens p)),
      (''total_tokens'', json_opt_int (po_total_tokens p)),
      (''traffic_type'', json_opt (po_traffic_type p)),
      (''http_status'', json_opt_int (po_http_status p)),
      (''request_hash'', json_opt (po_request_hash p)),
      (''raw_response_hash'', json_opt (po_raw_response_hash p)),
      (''latency_seconds'', po_latency_seconds p),
      (''latency_label'',
        JStr (if po_latency_seconds p \<noteq> JNull then ''ACTUAL_OBSERVED'' else ''NOT_RECORDED''))]"

text \<open>
  The registered factory is module state: \<open>register_\<dots>\<close> sets it, \<open>clear_\<dots>\<close> removes it, and building
  a provider fails when observation is disabled or nothing is registered.
\<close>

definition get_field_observation_provider ::
  "(provider_config \<Rightarrow> 'p) option \<Rightarrow> provider_config \<Rightarrow> 'p option" where
  "get_field_observation_provider factory config =
     (if \<not> field_enabled config then None else map_option (\<lambda>f. f config) factory)"

section \<open>The request hash\<close>

text \<open>\<open>json.dumps\<close> with its default \<open>ensure_ascii\<close>: everything outside printable ASCII is escaped.\<close>

definition ascii_escape :: "char \<Rightarrow> str" where
  "ascii_escape c =
     (let n = (of_char c :: nat)
      in if n < 127 then json_escape c
         else backslash # ''u00'' @ [hex_digit (n div 16), hex_digit (n mod 16)])"

definition ascii_quote :: "str \<Rightarrow> str" where
  "ascii_quote s = quote_char # concat (map ascii_escape s) @ [quote_char]"

definition request_hash :: "(str \<Rightarrow> str) \<Rightarrow> str \<Rightarrow> observation_context \<Rightarrow> str \<Rightarrow> str" where
  "request_hash H image_sha256 ctx model =
     H (CHR ''{'' #
        join_with (CHR '','')
          [ascii_quote ''image_sha256'' @ CHR '':'' # ascii_quote image_sha256,
           ascii_quote ''max_output_tokens'' @ CHR '':'' # show_int (oc_max_output_tokens ctx),
           ascii_quote ''model'' @ CHR '':'' # ascii_quote model,
           ascii_quote ''prompt'' @ CHR '':'' # ascii_quote (oc_prompt ctx)] @
        ''}'')"

section \<open>The agent\<close>

datatype observation_status = OBSERVED | OUT_OF_DOMAIN | PROVIDER_FAILED | NOT_AUTHORIZED | REPLAYED

primrec observation_status_value :: "observation_status \<Rightarrow> str" where
  "observation_status_value OBSERVED = ''OBSERVED''"
| "observation_status_value OUT_OF_DOMAIN = ''OUT_OF_DOMAIN''"
| "observation_status_value PROVIDER_FAILED = ''PROVIDER_FAILED''"
| "observation_status_value NOT_AUTHORIZED = ''NOT_AUTHORIZED''"
| "observation_status_value REPLAYED = ''REPLAYED''"

text \<open>Why an attempt produced no observation: the data the \<open>failure_reason\<close> text is made of.\<close>

datatype observation_failure =
    NoGrant
  | InvalidGrant
  | ChangeNotCovered str
  | GrantVersionMismatch str str
  | ProviderEnded retry_outcome "final_error option"
  | OutOfDomain str

record observation_result =
  or_status :: observation_status
  or_observation :: "field_observation option"
  or_provider_observation :: "provider_observation option"
  or_evidence :: "(str, json) dict"
  or_attempt_count :: nat
  or_failure_reason :: "observation_failure option"
  or_identity :: str

definition observation_succeeded :: "observation_result \<Rightarrow> bool" where
  "observation_succeeded r \<longleftrightarrow> or_status r = OBSERVED \<and> or_observation r \<noteq> None"

definition require_authorization ::
  "tool_grant option \<Rightarrow> (tool_grant \<Rightarrow> bool) option \<Rightarrow> observation_context \<Rightarrow>
     observation_failure option" where
  "require_authorization grant grant_verifier ctx =
     (case (grant, grant_verifier) of
        (Some g, Some verifier) \<Rightarrow>
          if \<not> verifier g then Some InvalidGrant
          else if \<not> covers g (oc_change_id ctx) then Some (ChangeNotCovered (oc_change_id ctx))
          else if tg_source_version g \<noteq> oc_source_version ctx then
            Some (GrantVersionMismatch (tg_source_version g) (oc_source_version ctx))
          else None
      | _ \<Rightarrow> Some NoGrant)"

definition base_evidence ::
  "(str \<Rightarrow> str) \<Rightarrow> agent_identity \<Rightarrow> field_image \<Rightarrow> observation_context \<Rightarrow> nat \<Rightarrow>
     provider_observation option \<Rightarrow> (str, json) dict" where
  "base_evidence H identity img ctx attempts provider_obs =
     (let document = dict_merge
            [(''change_id'', JStr (oc_change_id ctx)),
             (''source_version'', JStr (oc_source_version ctx)),
             (''submission_id'', JStr (oc_submission_id ctx)),
             (''identity'', JStr (identity_value identity)),
             (''capability'', JStr (tool_value FIELD_OBSERVATION_TOOL)),
             (''prompt_sha256'', JStr (H (utf8 (oc_prompt ctx)))),
             (''attempt_count'', JInt (int attempts))]
            (image_evidence img)
      in case provider_obs of
           None \<Rightarrow> document
         | Some p \<Rightarrow>
             dict_put ''request_hash''
               (JStr (if truthy (po_request_hash p) then the (po_request_hash p)
                      else request_hash H (fi_sha256 img) ctx (po_model p)))
               (dict_merge document (provider_evidence p)))"

definition unauthorized_result :: "agent_identity \<Rightarrow> observation_failure \<Rightarrow> observation_result" where
  "unauthorized_result identity reason =
     \<lparr>or_status = NOT_AUTHORIZED, or_observation = None, or_provider_observation = None,
      or_evidence = [], or_attempt_count = 0, or_failure_reason = Some reason,
      or_identity = identity_value identity\<rparr>"

definition out_of_domain_text :: "(str \<Rightarrow> str) \<Rightarrow> str \<Rightarrow> str" where
  "out_of_domain_text py_repr raw = ''out-of-domain model output: '' @ py_repr raw"

definition confidence_note_of :: "(str \<Rightarrow> str) \<Rightarrow> provider_observation \<Rightarrow> str" where
  "confidence_note_of py_repr p =
     ''Model '' @ po_model p @ '' returned '' @ py_repr (py_strip (po_raw_output p)) @
     ''. Informational only - never authoritative.''"

definition observe ::
  "(str \<Rightarrow> str) \<Rightarrow> (str \<Rightarrow> str) \<Rightarrow> (pyfloat \<Rightarrow> pyfloat \<Rightarrow> pyfloat) \<Rightarrow> ('w \<Rightarrow> pyfloat \<times> 'w) \<Rightarrow>
     (str \<Rightarrow> str \<Rightarrow> observation_context \<Rightarrow> pyfloat \<Rightarrow> 'w \<Rightarrow> (call_exn + provider_observation) \<times> 'w) \<Rightarrow>
     agent_identity \<Rightarrow> field_image \<Rightarrow> str \<Rightarrow> observation_context \<Rightarrow> provider_config \<Rightarrow>
     tool_grant option \<Rightarrow> (tool_grant \<Rightarrow> bool) option \<Rightarrow> str \<Rightarrow> 'w \<Rightarrow> observation_result res \<times> 'w" where
  "observe H py_repr minus_fl clock provider identity img image_bytes ctx config grant
       grant_verifier raw_evidence_ref w =
     (case require_authorization grant grant_verifier ctx of
        Some reason \<Rightarrow> (Inr (unauthorized_result identity reason), w)
      | None \<Rightarrow>
          let (outcome, w') = run_semantic_call minus_fl
                (provider image_bytes (fi_mime_type img) ctx) clock (pv_semantic config) w
          in case (if retry_succeeded outcome then rt_value outcome else None) of
               None \<Rightarrow>
                 (Inr \<lparr>or_status = PROVIDER_FAILED, or_observation = None,
                       or_provider_observation = None,
                       or_evidence = base_evidence H identity img ctx (attempt_count outcome) None,
                       or_attempt_count = attempt_count outcome,
                       or_failure_reason =
                         Some (ProviderEnded (rt_outcome outcome) (rt_final_error outcome)),
                       or_identity = identity_value identity\<rparr>, w')
             | Some raw \<Rightarrow>
                 let evidence = base_evidence H identity img ctx (attempt_count outcome) (Some raw)
                 in case normalize_model_output (RawStr (po_raw_output raw)) of
                      None \<Rightarrow>
                        (Inr \<lparr>or_status = OUT_OF_DOMAIN, or_observation = None,
                              or_provider_observation = Some raw,
                              or_evidence =
                                dict_put ''normalization_error''
                                  (JStr (out_of_domain_text py_repr (po_raw_output raw)))
                                  (dict_put ''normalization_succeeded'' (JBool False)
                                    (dict_put ''normalized_observation'' JNull evidence)),
                              or_attempt_count = attempt_count outcome,
                              or_failure_reason = Some (OutOfDomain (po_raw_output raw)),
                              or_identity = identity_value identity\<rparr>, w')
                    | Some normalized \<Rightarrow>
                        (res_bind
                           (validated valid_observation
                             \<lparr>fo_submission_id = oc_submission_id ctx,
                              fo_raw_evidence_ref = raw_evidence_ref,
                              fo_observed_label_position = normalized,
                              fo_confidence_note = confidence_note_of py_repr raw\<rparr>)
                           (\<lambda>observation. Inr
                             \<lparr>or_status = OBSERVED, or_observation = Some observation,
                              or_provider_observation = Some raw,
                              or_evidence =
                                dict_put ''normalization_succeeded'' (JBool True)
                                  (dict_put ''normalized_observation''
                                    (JStr (position_value normalized)) evidence),
                              or_attempt_count = attempt_count outcome, or_failure_reason = None,
                              or_identity = identity_value identity\<rparr>), w'))"

text \<open>The classification of a failure outside the retry loop: a bare \<open>TimeoutError\<close> is not one of the
  semantic call errors, although the loop retries it.\<close>

definition observation_failure_is_retryable :: "call_exn \<Rightarrow> bool" where
  "observation_failure_is_retryable e \<longleftrightarrow> xn_class e \<in> {MalformedStructuredOutput, TransientModelError}"

text \<open>The truth value of \<open>record.get(key)\<close>.\<close>

definition json_truthy :: "json option \<Rightarrow> bool" where
  "json_truthy j =
     (case j of
        None \<Rightarrow> False
      | Some JNull \<Rightarrow> False
      | Some (JBool b) \<Rightarrow> b
      | Some (JInt n) \<Rightarrow> n \<noteq> 0
      | Some (JStr s) \<Rightarrow> s \<noteq> []
      | Some (JArr xs) \<Rightarrow> xs \<noteq> []
      | Some (JObj kvs) \<Rightarrow> kvs \<noteq> [])"

definition evidence_is_replayable :: "(str, json) dict \<Rightarrow> bool" where
  "evidence_is_replayable rec \<longleftrightarrow>
     json_truthy (dict_get rec ''normalization_succeeded'') \<and>
     json_truthy (dict_get rec ''normalized_observation'')"

section \<open>Crossing 4\<close>

datatype observation_rejection =
    OX_EVIDENCE_NOT_RESOLVABLE | OX_SUBMISSION_MISMATCH | OX_CHANGE_MISMATCH
  | OX_SOURCE_VERSION_MISMATCH | OX_IMAGE_HASH_MISMATCH | OX_OBSERVATION_MISMATCH
  | OX_OUT_OF_DOMAIN_OBSERVATION | OX_NO_PROVIDER_EVIDENCE | OX_IDENTITY_NOT_AUTHORIZED
  | OX_LAYER_VALIDATION_FAILED

primrec observation_rejection_value :: "observation_rejection \<Rightarrow> str" where
  "observation_rejection_value OX_EVIDENCE_NOT_RESOLVABLE = ''EVIDENCE_NOT_RESOLVABLE''"
| "observation_rejection_value OX_SUBMISSION_MISMATCH = ''SUBMISSION_MISMATCH''"
| "observation_rejection_value OX_CHANGE_MISMATCH = ''CHANGE_MISMATCH''"
| "observation_rejection_value OX_SOURCE_VERSION_MISMATCH = ''SOURCE_VERSION_MISMATCH''"
| "observation_rejection_value OX_IMAGE_HASH_MISMATCH = ''IMAGE_HASH_MISMATCH''"
| "observation_rejection_value OX_OBSERVATION_MISMATCH = ''OBSERVATION_MISMATCH''"
| "observation_rejection_value OX_OUT_OF_DOMAIN_OBSERVATION = ''OUT_OF_DOMAIN_OBSERVATION''"
| "observation_rejection_value OX_NO_PROVIDER_EVIDENCE = ''NO_PROVIDER_EVIDENCE''"
| "observation_rejection_value OX_IDENTITY_NOT_AUTHORIZED = ''IDENTITY_NOT_AUTHORIZED''"
| "observation_rejection_value OX_LAYER_VALIDATION_FAILED = ''LAYER_VALIDATION_FAILED''"

record observation_crossing_context =
  ox_expected_change_id :: str
  ox_expected_source_version :: str
  ox_expected_submission_id :: str
  ox_expected_image_sha256 :: str
  ox_authorized_identity :: str
  ox_rejection_ref :: str
  ox_known_submission_ids :: "str list"

record observation_boundary_result =
  ob_accepted :: bool
  ob_accepted_observation :: "field_observation option"
  ob_outcome :: validation_outcome
  ob_provider_evidence :: "(str, json) dict option"
  ob_rejections :: "observation_rejection list"
  ob_rejection_ref_value :: str

text \<open>
  The position of a \<^typ>\<open>field_observation\<close> is always in the closed domain, so the two checks of the
  domain (the layer's and the \<open>isinstance\<close> test) never fail here.
\<close>

definition record_reasons ::
  "field_observation \<Rightarrow> observation_crossing_context \<Rightarrow> (str, json) dict option \<Rightarrow>
     observation_rejection list" where
  "record_reasons observation ctx rec =
     (case rec of
        None \<Rightarrow> [OX_EVIDENCE_NOT_RESOLVABLE]
      | Some doc \<Rightarrow>
          add_if (\<not> json_truthy (dict_get doc ''normalization_succeeded'') \<or>
                  \<not> json_truthy (dict_get doc ''normalized_observation'')) OX_NO_PROVIDER_EVIDENCE @
          add_if (dict_get doc ''submission_id'' \<noteq> Some (JStr (ox_expected_submission_id ctx)))
            OX_SUBMISSION_MISMATCH @
          add_if (dict_get doc ''change_id'' \<noteq> Some (JStr (ox_expected_change_id ctx)))
            OX_CHANGE_MISMATCH @
          add_if (dict_get doc ''source_version'' \<noteq> Some (JStr (ox_expected_source_version ctx)))
            OX_SOURCE_VERSION_MISMATCH @
          add_if (dict_get doc ''image_sha256'' \<noteq> Some (JStr (ox_expected_image_sha256 ctx)))
            OX_IMAGE_HASH_MISMATCH @
          add_if (dict_get doc ''identity'' \<noteq> Some (JStr (ox_authorized_identity ctx)))
            OX_IDENTITY_NOT_AUTHORIZED @
          add_if (dict_get doc ''normalized_observation'' \<noteq>
                  Some (JStr (position_value (fo_observed_label_position observation))))
            OX_OBSERVATION_MISMATCH)"

definition accept_field_observation ::
  "field_observation \<Rightarrow> observation_crossing_context \<Rightarrow> field_evidence_store \<Rightarrow>
     observation_boundary_result" where
  "accept_field_observation observation ctx s =
     (let outcome = validate_field_observation observation (field_refs s)
            (ox_known_submission_ids ctx) (ox_rejection_ref ctx);
          layer_reasons =
            (if vo_accepted outcome then []
             else OX_LAYER_VALIDATION_FAILED #
               add_if (EVIDENCE_REFERENCE \<in> set (vo_failed_layers outcome))
                 OX_EVIDENCE_NOT_RESOLVABLE);
          rec = field_resolve (fo_raw_evidence_ref observation) s;
          reasons = layer_reasons @ record_reasons observation ctx rec @
            add_if (fo_submission_id observation \<noteq> ox_expected_submission_id ctx)
              OX_SUBMISSION_MISMATCH
      in if reasons \<noteq> [] then
           \<lparr>ob_accepted = False, ob_accepted_observation = None, ob_outcome = outcome,
            ob_provider_evidence = None, ob_rejections = dedup reasons,
            ob_rejection_ref_value = ox_rejection_ref ctx\<rparr>
         else
           \<lparr>ob_accepted = True, ob_accepted_observation = Some observation, ob_outcome = outcome,
            ob_provider_evidence = rec, ob_rejections = [],
            ob_rejection_ref_value = ox_rejection_ref ctx\<rparr>)"

definition crossing4_evidence_ref :: "observation_boundary_result \<Rightarrow> str option" where
  "crossing4_evidence_ref b =
     (if ob_accepted b then None
      else Some (''crossing4-rejected:'' @ ob_rejection_ref_value b @ '':'' @
                 join_str '','' (map observation_rejection_value (ob_rejections b))))"

section \<open>What an observation rests on\<close>

lemma normalize_model_output_iff:
  "normalize_model_output (RawStr raw) = Some p \<longleftrightarrow> cleaned raw = position_value p"
  by (simp add: position_of_value_iff)

lemmas evidence_lookups = base_evidence_def image_evidence_def provider_evidence_def

lemma dict_get_merge:
  "dict_get (dict_merge d e) k = (case dict_get (rev e) k of None \<Rightarrow> dict_get d k | Some v \<Rightarrow> Some v)"
  by (induction d e rule: dict_merge.induct) (auto simp: map_add_def split: option.split)

lemma base_evidence_lookup [simp]:
  "dict_get (base_evidence H i img ctx n po) ''change_id'' = Some (JStr (oc_change_id ctx))"
  "dict_get (base_evidence H i img ctx n po) ''source_version'' = Some (JStr (oc_source_version ctx))"
  "dict_get (base_evidence H i img ctx n po) ''submission_id'' = Some (JStr (oc_submission_id ctx))"
  "dict_get (base_evidence H i img ctx n po) ''identity'' = Some (JStr (identity_value i))"
  "dict_get (base_evidence H i img ctx n po) ''image_sha256'' = Some (JStr (fi_sha256 img))"
  "dict_get (base_evidence H i img ctx n po) ''normalization_succeeded'' = None"
  by (cases po; simp add: evidence_lookups Let_def dict_get_merge del: dict_merge.simps update.simps)+

definition authorized_to_observe ::
  "tool_grant option \<Rightarrow> (tool_grant \<Rightarrow> bool) option \<Rightarrow> observation_context \<Rightarrow> bool" where
  "authorized_to_observe grant grant_verifier ctx \<longleftrightarrow>
     (\<exists>g verifier. grant = Some g \<and> grant_verifier = Some verifier \<and> verifier g \<and>
        covers g (oc_change_id ctx) \<and> tg_source_version g = oc_source_version ctx)"

lemma require_authorization_None_iff:
  "require_authorization grant grant_verifier ctx = None \<longleftrightarrow>
     authorized_to_observe grant grant_verifier ctx"
  by (cases grant; cases grant_verifier) (auto simp: require_authorization_def authorized_to_observe_def)

text \<open>How an attempt can end.\<close>

lemma observe_cases [consumes 1, case_names unauthorized failed outside observed]:
  assumes "observe H py_repr minus_fl clock provider i img bytes ctx config grant verifier ref w = (r, w')"
  obtains "\<not> authorized_to_observe grant verifier ctx" "w' = w"
      "\<exists>reason. r = Inr (unauthorized_result i reason)"
  | outcome where "authorized_to_observe grant verifier ctx"
      "run_semantic_call minus_fl (provider bytes (fi_mime_type img) ctx) clock (pv_semantic config) w =
        (outcome, w')"
      "\<exists>x. r = Inr x \<and> or_status x = PROVIDER_FAILED \<and> or_observation x = None \<and>
        or_evidence x = base_evidence H i img ctx (attempt_count outcome) None \<and>
        or_attempt_count x = attempt_count outcome"
  | outcome raw where "authorized_to_observe grant verifier ctx"
      "run_semantic_call minus_fl (provider bytes (fi_mime_type img) ctx) clock (pv_semantic config) w =
        (outcome, w')"
      "rt_outcome outcome = RO_SUCCEEDED" "rt_value outcome = Some raw"
      "\<forall>p. cleaned (po_raw_output raw) \<noteq> position_value p"
      "\<exists>x. r = Inr x \<and> or_status x = OUT_OF_DOMAIN \<and> or_observation x = None \<and>
        dict_get (or_evidence x) ''normalization_succeeded'' = Some (JBool False) \<and>
        or_attempt_count x = attempt_count outcome"
  | outcome raw p where "authorized_to_observe grant verifier ctx"
      "run_semantic_call minus_fl (provider bytes (fi_mime_type img) ctx) clock (pv_semantic config) w =
        (outcome, w')"
      "rt_outcome outcome = RO_SUCCEEDED" "rt_value outcome = Some raw"
      "cleaned (po_raw_output raw) = position_value p"
      "r = (if oc_submission_id ctx \<noteq> [] \<and> ref \<noteq> [] then Inr
         \<lparr>or_status = OBSERVED,
          or_observation = Some \<lparr>fo_submission_id = oc_submission_id ctx, fo_raw_evidence_ref = ref,
            fo_observed_label_position = p, fo_confidence_note = confidence_note_of py_repr raw\<rparr>,
          or_provider_observation = Some raw,
          or_evidence =
            dict_put ''normalization_succeeded'' (JBool True)
              (dict_put ''normalized_observation'' (JStr (position_value p))
                (base_evidence H i img ctx (attempt_count outcome) (Some raw))),
          or_attempt_count = attempt_count outcome, or_failure_reason = None,
          or_identity = identity_value i\<rparr> else Inl ValidationError)"
proof (cases "require_authorization grant verifier ctx")
  case (Some reason)
  then have "\<not> authorized_to_observe grant verifier ctx"
    using require_authorization_None_iff [of grant verifier ctx] by simp
  moreover have "r = Inr (unauthorized_result i reason)" "w' = w"
    using assms Some by (simp_all add: observe_def)
  ultimately show ?thesis using that(1) by blast
next
  case None
  then have auth: "authorized_to_observe grant verifier ctx" by (simp add: require_authorization_None_iff)
  obtain outcome w2 where run: "run_semantic_call minus_fl (provider bytes (fi_mime_type img) ctx) clock
      (pv_semantic config) w = (outcome, w2)" by fastforce
  show ?thesis
  proof (cases "if retry_succeeded outcome then rt_value outcome else None")
    case None
    with assms \<open>require_authorization grant verifier ctx = None\<close> run show ?thesis
      by (intro that(2) [OF auth, of outcome]) (auto simp: observe_def Let_def)
  next
    case (Some raw)
    then have out: "rt_outcome outcome = RO_SUCCEEDED" "rt_value outcome = Some raw"
      by (auto simp: retry_succeeded_def split: if_splits)
    let ?ev = "base_evidence H i img ctx (attempt_count outcome) (Some raw)"
    show ?thesis
    proof (cases "normalize_model_output (RawStr (po_raw_output raw))")
      case None
      then have "\<forall>p. cleaned (po_raw_output raw) \<noteq> position_value p"
        by (metis normalize_model_output_iff option.distinct(1))
      moreover have "r = Inr \<lparr>or_status = OUT_OF_DOMAIN, or_observation = None,
          or_provider_observation = Some raw,
          or_evidence = dict_put ''normalization_error''
            (JStr (out_of_domain_text py_repr (po_raw_output raw)))
            (dict_put ''normalization_succeeded'' (JBool False)
              (dict_put ''normalized_observation'' JNull ?ev)),
          or_attempt_count = attempt_count outcome,
          or_failure_reason = Some (OutOfDomain (po_raw_output raw)),
          or_identity = identity_value i\<rparr>" and "w2 = w'"
        using assms auth run Some None
        by (simp_all add: observe_def require_authorization_None_iff [symmetric] Let_def del: normalize_model_output.simps)
      ultimately show ?thesis
        using run out by (intro that(3) [OF auth, of outcome raw]) simp_all
    next
      case (Some p)
      then have "cleaned (po_raw_output raw) = position_value p"
        by (simp only: normalize_model_output_iff)
      moreover have "r = (if oc_submission_id ctx \<noteq> [] \<and> ref \<noteq> [] then Inr
         \<lparr>or_status = OBSERVED,
          or_observation = Some \<lparr>fo_submission_id = oc_submission_id ctx, fo_raw_evidence_ref = ref,
            fo_observed_label_position = p, fo_confidence_note = confidence_note_of py_repr raw\<rparr>,
          or_provider_observation = Some raw,
          or_evidence = dict_put ''normalization_succeeded'' (JBool True)
            (dict_put ''normalized_observation'' (JStr (position_value p)) ?ev),
          or_attempt_count = attempt_count outcome, or_failure_reason = None,
          or_identity = identity_value i\<rparr> else Inl ValidationError)" and "w2 = w'"
        using assms auth run \<open>(if retry_succeeded outcome then rt_value outcome else None) = Some raw\<close> Some
        by (auto simp: observe_def require_authorization_None_iff [symmetric] Let_def validated_def
            valid_observation_def simp del: normalize_model_output.simps split: if_splits)
      ultimately show ?thesis
        using run out by (intro that(4) [OF auth, of outcome raw p]) simp_all
    qed
  qed
qed

text \<open>The acceptance condition of Crossing 4, spelled out over the stored document.\<close>

definition observation_recorded ::
  "field_observation \<Rightarrow> observation_crossing_context \<Rightarrow> (str, json) dict \<Rightarrow> bool" where
  "observation_recorded ob ctx doc \<longleftrightarrow>
     json_truthy (dict_get doc ''normalization_succeeded'') \<and>
     dict_get doc ''normalized_observation'' =
       Some (JStr (position_value (fo_observed_label_position ob))) \<and>
     dict_get doc ''submission_id'' = Some (JStr (ox_expected_submission_id ctx)) \<and>
     dict_get doc ''change_id'' = Some (JStr (ox_expected_change_id ctx)) \<and>
     dict_get doc ''source_version'' = Some (JStr (ox_expected_source_version ctx)) \<and>
     dict_get doc ''image_sha256'' = Some (JStr (ox_expected_image_sha256 ctx)) \<and>
     dict_get doc ''identity'' = Some (JStr (ox_authorized_identity ctx))"

lemma position_value_nonempty [simp]: "position_value p \<noteq> []"
  by (cases p) simp_all

lemma record_reasons_Nil_iff:
  "record_reasons ob ctx rec = [] \<longleftrightarrow> (\<exists>doc. rec = Some doc \<and> observation_recorded ob ctx doc)"
  by (cases rec) (auto simp: record_reasons_def observation_recorded_def json_truthy_def)

lemma field_refs_iff: "ref \<in> set (field_refs s) \<longleftrightarrow> (\<exists>doc. field_resolve ref s = Some doc)"
  by (simp add: field_refs_def field_resolve_def dict_get_present)

lemma crossing4_accepts_iff:
  "ob_accepted (accept_field_observation ob ctx s) \<longleftrightarrow>
     fo_submission_id ob = ox_expected_submission_id ctx \<and>
     fo_submission_id ob \<notin> set (ox_known_submission_ids ctx) \<and>
     (\<exists>doc. field_resolve (fo_raw_evidence_ref ob) s = Some doc \<and> observation_recorded ob ctx doc)"
  by (auto simp: accept_field_observation_def Let_def record_reasons_Nil_iff observation_accepted_iff
      field_refs_iff)

lemma crossing4_result:
  "ob_accepted_observation (accept_field_observation ob ctx s) =
     (if ob_accepted (accept_field_observation ob ctx s) then Some ob else None)"
  by (simp add: accept_field_observation_def Let_def)

section \<open>Nothing billable without a grant\<close>

abbreviation counted_provider ::
  "(str \<Rightarrow> str \<Rightarrow> observation_context \<Rightarrow> pyfloat \<Rightarrow> 'w \<Rightarrow> (call_exn + provider_observation) \<times> 'w) \<Rightarrow>
     str \<Rightarrow> str \<Rightarrow> observation_context \<Rightarrow> pyfloat \<Rightarrow> 'w \<times> nat \<Rightarrow> (call_exn + provider_observation) \<times> 'w \<times> nat"
  where "counted_provider provider b m ctx \<equiv> counted_call (provider b m ctx)"

lemma counted_run_bounds:
  assumes "semantic_ok c"
    and "run_semantic_call minus_fl (counted_call call) (counted_clock clock) c (w, 0) = (r, w', calls)"
  shows "calls = attempt_count r" "1 \<le> calls" "int calls \<le> max_attempts c"
proof -
  from attempt_loop_counts [of minus_fl call clock c "[1..max_attempts c]" "[]" False w 0] assms(2)
  have m: "calls = attempt_count r" and run: "attempt_loop minus_fl call clock c [1..max_attempts c] [] False w = (r, w')"
    by (auto simp: run_semantic_call_def)
  have "run_ok c r"
    using attempt_loop_ok [OF run_pending [OF assms(1)], of minus_fl call clock w] run by simp
  with max_attempts_bounds [OF assms(1)] show "calls = attempt_count r" "1 \<le> calls" "int calls \<le> max_attempts c"
    unfolding m run_ok_def
    by (cases "rt_outcome r"; cases "rt_attempts r"; auto simp: attempt_count_def)+
qed

text \<open>Evidence filed under a reference keeps what the agent wrote of whom and what it is about.\<close>

definition evidence_filed :: "(str, json) dict \<Rightarrow> (str, json) dict \<Rightarrow> bool" where
  "evidence_filed evidence doc \<longleftrightarrow>
     list_all (\<lambda>k. dict_get doc k = dict_get evidence k)
       [''identity'', ''change_id'', ''source_version'', ''submission_id'']"

text \<open>A grant under which the field agent may observe: the broker verifies it for the tool, and it covers
  the change in its version.\<close>

definition observation_granted ::
  "(str \<Rightarrow> str \<Rightarrow> str) \<Rightarrow> broker \<Rightarrow> tool_grant option \<Rightarrow> observation_context \<Rightarrow> bool" where
  "observation_granted mac b grant ctx \<longleftrightarrow>
     (case grant of None \<Rightarrow> False | Some g \<Rightarrow>
        verify_grant mac b g ''FIELD_OBSERVATION'' \<and>
        oc_change_id ctx \<in> tg_scope_refs g \<and> tg_source_version g = oc_source_version ctx)"

lemma observation_grant_holder:
  assumes "verify_grant mac b g ''FIELD_OBSERVATION''"
  shows "tg_holder g = identity_value FIELD_VERIFICATION"
proof -
  from assms have "is_authorized (tg_holder g) ''FIELD_OBSERVATION''"
    by (auto simp: verify_grant_def split: option.splits if_splits)
  then have "is_authorized (tg_holder g) (tool_value FIELD_OBSERVATION_TOOL)" by simp
  then obtain i where "tg_holder g = identity_value i" "(i, FIELD_OBSERVATION_TOOL) \<in> AUTHORIZATION_POLICY"
    by (auto simp: is_authorized_iff simp del: tool_value.simps)
  then show ?thesis by (auto simp: AUTHORIZATION_POLICY_def)
qed

lemma accepted_is_filed:
  assumes "ob_accepted (accept_field_observation ob cx s)"
    and "field_resolve (fo_raw_evidence_ref ob) s = Some doc" and "evidence_filed evidence doc"
  shows "dict_get evidence ''identity'' = Some (JStr (ox_authorized_identity cx))"
    "dict_get evidence ''change_id'' = Some (JStr (ox_expected_change_id cx))"
    "dict_get evidence ''source_version'' = Some (JStr (ox_expected_source_version cx))"
    "dict_get evidence ''submission_id'' = Some (JStr (ox_expected_submission_id cx))"
  using assms by (auto simp: crossing4_accepts_iff observation_recorded_def evidence_filed_def)


definition sample_image :: field_image where
  "sample_image =
     \<lparr>fi_sha256 = ''img'', fi_container = PNG, fi_mime_type = ''image/png'', fi_byte_count = 100,
      fi_declared_filename = None, fi_declared_content_type = None\<rparr>"

definition sample_field_config :: provider_config where
  "sample_field_config =
     \<lparr>pv_provider = ''vertex_maas'', pv_project = ''p'', pv_location = ''global'', pv_model = ''m'',
      pv_semantic = \<lparr>sm_model_id = ''m'', sm_timeout_seconds = Fin 60, sm_max_retries = 2,
        sm_allow_structured_repair = False\<rparr>\<rparr>"

definition sample_answer :: "str \<Rightarrow> provider_observation" where
  "sample_answer raw =
     \<lparr>po_raw_output = raw, po_provider = ''vertex_maas'', po_model = ''m'', po_response_id = None,
      po_created = None, po_finish_reason = None, po_prompt_tokens = None,
      po_completion_tokens = None, po_total_tokens = None, po_traffic_type = None,
      po_http_status = None, po_request_hash = None, po_raw_response_hash = None,
      po_latency_seconds = JNull\<rparr>"

text \<open>A provider that times out once and then answers.\<close>

definition sample_provider ::
  "str \<Rightarrow> str \<Rightarrow> observation_context \<Rightarrow> pyfloat \<Rightarrow> nat \<Rightarrow> (call_exn + provider_observation) \<times> nat" where
  "sample_provider b m ctx d n =
     (if n = 0 then (Inl \<lparr>xn_class = TimeoutError, xn_type_name = ''TimeoutError'', xn_message = []\<rparr>, 1)
      else (Inr (sample_answer '' top-right.''), n + 1))"

definition sample_field_grant :: "broker \<times> tool_grant" where
  "sample_field_grant =
     (case issue_grant (\<lambda>k m. k @ m) ''driftzero-field-verify'' ''FIELD_OBSERVATION'' ''DZ-1'' ''DZ-1'' ''v14''
             ''r'' None (new_broker ''s'') of
        (b, Inr g) \<Rightarrow> (b, g)
      | (b, Inl e) \<Rightarrow> (b, undefined))"


end
