(* ===== verification/Adjudication.thy ===== *)
theory Adjudication
  imports Field_Observation State_Machine
begin

text \<open>
  Step 10 of the workflow (\<open>agents/orchestrator.py\<close>, T080): a validated observation is turned into
  the authoritative verdict by the comparator, the event is appended and the workflow advances; and
  a workflow with a non-passing verdict is reopened for new evidence. The rejection texts are prose
  determined by the status and are not kept.
\<close>

section \<open>Verdicts\<close>

primrec VERDICT_STATE :: "verification_result \<Rightarrow> workflow_state" where
  "VERDICT_STATE VR_PASS = VERIFICATION_PASSED"
| "VERDICT_STATE VR_FAIL = VERIFICATION_FAILED"
| "VERDICT_STATE VR_INCONCLUSIVE = VERIFICATION_INCONCLUSIVE"

datatype verdict_status =
    ADJUDICATED | DUPLICATE_SUBMISSION | OBSERVATION_NOT_VALIDATED | NOT_AWAITING_VERIFICATION
  | EVIDENCE_NOT_RESOLVABLE | EVIDENCE_CONTEXT_MISMATCH

record verdict_context =
  vc_workflow :: workflow
  vc_change :: approved_change
  vc_boundary :: observation_boundary_result
  vc_store :: field_evidence_store
  vc_event_id :: str
  vc_occurred_at :: datetime
  vc_data_classification :: data_classification
  vc_existing_events :: "verification_event list"

record verdict_outcome =
  vd_status :: verdict_status
  vd_result :: "verification_result option"
  vd_event :: "verification_event option"
  vd_workflow :: "workflow option"
  vd_expected_value :: "str option"
  vd_observed_value :: "str option"

definition adjudicated :: "verdict_outcome \<Rightarrow> bool" where
  "adjudicated v \<longleftrightarrow> vd_status v \<in> {ADJUDICATED, DUPLICATE_SUBMISSION}"

definition duplicate :: "verdict_outcome \<Rightarrow> bool" where
  "duplicate v \<longleftrightarrow> vd_status v = DUPLICATE_SUBMISSION"

definition passed :: "verdict_outcome \<Rightarrow> bool" where
  "passed v \<longleftrightarrow> vd_result v = Some VR_PASS"

definition change_is_deployed :: "workflow option \<Rightarrow> bool" where
  "change_is_deployed w =
     (case w of None \<Rightarrow> False | Some w \<Rightarrow> workflow_category w = TERMINAL_SUCCESS)"

definition change_deployed :: "verdict_outcome \<Rightarrow> bool" where
  "change_deployed v = change_is_deployed (vd_workflow v)"

definition proof_generated :: "verdict_outcome \<Rightarrow> bool" where
  "proof_generated v \<longleftrightarrow> (case vd_workflow v of None \<Rightarrow> False | Some w \<Rightarrow> truthy (wf_proof_id w))"

definition authoritative_expected_value :: "approved_change \<Rightarrow> str" where
  "authoritative_expected_value change = ac_current_value change"

section \<open>Step 10\<close>

datatype context_mismatch =
  EvidenceChange | EvidenceVersion | WorkflowChange | WorkflowVersion

definition context_mismatches ::
  "(str, json) dict \<Rightarrow> workflow \<Rightarrow> approved_change \<Rightarrow> context_mismatch list" where
  "context_mismatches rec w change =
     add_if (dict_get rec ''change_id'' \<noteq> Some (JStr (ac_change_id change))) EvidenceChange @
     add_if (dict_get rec ''source_version'' \<noteq> Some (JStr (ac_source_version change))) EvidenceVersion @
     add_if (wf_change_id w \<noteq> ac_change_id change) WorkflowChange @
     add_if (wf_source_version w \<noteq> ac_source_version change) WorkflowVersion"

definition refused :: "verdict_status \<Rightarrow> workflow option \<Rightarrow> verdict_outcome" where
  "refused status w =
     \<lparr>vd_status = status, vd_result = None, vd_event = None, vd_workflow = w,
      vd_expected_value = None, vd_observed_value = None\<rparr>"

definition with_verdict :: "verification_event \<Rightarrow> workflow \<Rightarrow> workflow" where
  "with_verdict event w =
     w\<lparr>wf_verification_events := wf_verification_events w @ [event],
       wf_latest_verification_status := Some (ve_verification_result event),
       wf_event_sequence := ve_event_sequence event\<rparr>"

definition reached :: "verdict_status \<Rightarrow> verification_event \<Rightarrow> workflow \<Rightarrow> verdict_outcome" where
  "reached status event w =
     \<lparr>vd_status = status, vd_result = Some (ve_verification_result event), vd_event = Some event,
      vd_workflow = Some w, vd_expected_value = Some (ve_expected_value event),
      vd_observed_value = Some (position_value (ve_derived_observation event))\<rparr>"

definition adjudicate_field_verification :: "verdict_context \<Rightarrow> verdict_outcome res" where
  "adjudicate_field_verification ctx =
     (let boundary = vc_boundary ctx; w = vc_workflow ctx
      in case (if ob_accepted boundary then ob_accepted_observation boundary else None) of
           None \<Rightarrow> Inr (refused OBSERVATION_NOT_VALIDATED None)
         | Some observation \<Rightarrow>
             if wf_state w \<noteq> AWAITING_FIELD_VERIFICATION then
               Inr (refused NOT_AWAITING_VERIFICATION (Some w))
             else case field_resolve (fo_raw_evidence_ref observation) (vc_store ctx) of
               None \<Rightarrow> Inr (refused EVIDENCE_NOT_RESOLVABLE (Some w))
             | Some rec \<Rightarrow>
                 if context_mismatches rec w (vc_change ctx) \<noteq> [] then
                   Inr (refused EVIDENCE_CONTEXT_MISMATCH (Some w))
                 else
                   let expected = authoritative_expected_value (vc_change ctx);
                       existing = (if vc_existing_events ctx \<noteq> [] then vc_existing_events ctx
                                   else wf_verification_events w)
                   in res_bind
                        (ingest_observation observation (wf_workflow_id w) expected existing
                          (vc_event_id ctx) (vc_occurred_at ctx) (vc_data_classification ctx))
                        (\<lambda>ingest.
                          let event = vi_event ingest
                          in if vi_outcome ingest = INGEST_TRANSPORT_DUPLICATE then
                               Inr (reached DUPLICATE_SUBMISSION event w)
                             else res_bind
                               (transition w (VERDICT_STATE (ve_verification_result event))
                                 (vc_occurred_at ctx))
                               (\<lambda>advanced. Inr (reached ADJUDICATED event (with_verdict event advanced)))))"

definition reopen_for_new_evidence :: "workflow \<Rightarrow> datetime \<Rightarrow> workflow res" where
  "reopen_for_new_evidence w occurred_at =
     (if \<not> can_transition (wf_state w) AWAITING_FIELD_VERIFICATION then Inr w
      else transition w AWAITING_FIELD_VERIFICATION occurred_at)"

section \<open>Projections of the history\<close>

definition verification_history ::
  "(datetime \<Rightarrow> str) \<Rightarrow> verification_event list \<Rightarrow> (str, json) dict list" where
  "verification_history isoformat events =
     map (\<lambda>e.
       [(''event_id'', JStr (ve_event_id e)),
        (''submission_id'', JStr (ve_submission_id e)),
        (''event_sequence'', JInt (ve_event_sequence e)),
        (''observed'', JStr (position_value (ve_derived_observation e))),
        (''expected'', JStr (ve_expected_value e)),
        (''result'', JStr (case ve_verification_result e of
           VR_PASS \<Rightarrow> ''PASS'' | VR_FAIL \<Rightarrow> ''FAIL'' | VR_INCONCLUSIVE \<Rightarrow> ''INCONCLUSIVE'')),
        (''raw_evidence_ref'', JStr (ve_raw_evidence_ref e)),
        (''timestamp'', JStr (isoformat (ve_timestamp e)))])
       (sort_key ve_event_sequence events)"

definition authoritative_result ::
  "verification_event list \<Rightarrow> str \<Rightarrow> verification_result option res" where
  "authoritative_result events workflow_id =
     res_bind (latest_authoritative_event events workflow_id)
       (\<lambda>latest. Inr (map_option ve_verification_result latest))"

section \<open>Reaching a verdict\<close>

lemma context_mismatches_Nil_iff:
  "context_mismatches rec w change = [] \<longleftrightarrow>
     dict_get rec ''change_id'' = Some (JStr (ac_change_id change)) \<and>
     dict_get rec ''source_version'' = Some (JStr (ac_source_version change)) \<and>
     wf_change_id w = ac_change_id change \<and> wf_source_version w = ac_source_version change"
  by (auto simp: context_mismatches_def)

lemma awaiting_to_verdict [simp]: "can_transition AWAITING_FIELD_VERIFICATION (VERDICT_STATE v)"
  by (cases v) (simp_all add: can_transition_def)

lemma transition_to_verdict [simp]:
  "wf_state w = AWAITING_FIELD_VERIFICATION \<Longrightarrow>
     transition w (VERDICT_STATE v) t = Inr (w\<lparr>wf_state := VERDICT_STATE v, wf_updated_at := t\<rparr>)"
  by (simp add: transition_def assert_transition_allowed_def)

lemma reopen_Inr:
  "reopen_for_new_evidence w t =
     Inr (if wf_state w \<in> {VERIFICATION_FAILED, VERIFICATION_INCONCLUSIVE, FRONTLINE_DELIVERY_COMPLETED}
          then w\<lparr>wf_state := AWAITING_FIELD_VERIFICATION, wf_updated_at := t\<rparr> else w)"
  by (cases "wf_state w")
    (simp_all add: reopen_for_new_evidence_def can_transition_def transition_def assert_transition_allowed_def)

lemma with_verdict_fields [simp]:
  "wf_state (with_verdict e w) = wf_state w"
  "wf_workflow_id (with_verdict e w) = wf_workflow_id w"
  "wf_change_id (with_verdict e w) = wf_change_id w"
  "wf_source_version (with_verdict e w) = wf_source_version w"
  "wf_verification_events (with_verdict e w) = wf_verification_events w @ [e]"
  "wf_latest_verification_status (with_verdict e w) = Some (ve_verification_result e)"
  by (simp_all add: with_verdict_def)

text \<open>What step 10 requires before it compares anything.\<close>

definition adjudicable :: "verdict_context \<Rightarrow> field_observation \<Rightarrow> bool" where
  "adjudicable ctx ob \<longleftrightarrow>
     ob_accepted (vc_boundary ctx) \<and> ob_accepted_observation (vc_boundary ctx) = Some ob \<and>
     wf_state (vc_workflow ctx) = AWAITING_FIELD_VERIFICATION \<and>
     (\<exists>rec. field_resolve (fo_raw_evidence_ref ob) (vc_store ctx) = Some rec \<and>
        context_mismatches rec (vc_workflow ctx) (vc_change ctx) = [])"

definition prior_events :: "verdict_context \<Rightarrow> verification_event list" where
  "prior_events ctx =
     (if vc_existing_events ctx \<noteq> [] then vc_existing_events ctx
      else wf_verification_events (vc_workflow ctx))"

definition verdict_on :: "observed_position \<Rightarrow> str \<Rightarrow> verification_result" where
  "verdict_on observed expected =
     (if observed = OBS_INCONCLUSIVE then VR_INCONCLUSIVE
      else if position_value observed = expected then VR_PASS else VR_FAIL)"

definition compared :: "field_observation \<Rightarrow> str \<Rightarrow> verification_result" where
  "compared ob expected = verdict_on (fo_observed_label_position ob) expected"

text \<open>The event a new attempt records.\<close>

definition verdict_event :: "verdict_context \<Rightarrow> field_observation \<Rightarrow> verification_event" where
  "verdict_event ctx ob =
     new_verification_event ob (wf_workflow_id (vc_workflow ctx)) (ac_current_value (vc_change ctx))
       (next_event_sequence (prior_events ctx) (wf_workflow_id (vc_workflow ctx))) (vc_event_id ctx)
       (vc_occurred_at ctx) (vc_data_classification ctx) (compared ob (ac_current_value (vc_change ctx)))"

definition seen_before :: "verdict_context \<Rightarrow> field_observation \<Rightarrow> bool" where
  "seen_before ctx ob \<longleftrightarrow>
     fo_submission_id ob \<in> ve_submission_id `
       set (events_for_workflow (prior_events ctx) (wf_workflow_id (vc_workflow ctx)))"

lemma adjudicable_unique: "adjudicable ctx ob \<Longrightarrow> adjudicable ctx ob' \<Longrightarrow> ob = ob'"
  by (simp add: adjudicable_def)

lemma adjudicable_ex:
  assumes "adjudicable ctx ob"
  shows "(\<exists>ob'. adjudicable ctx ob' \<and> P ob') \<longleftrightarrow> P ob" "\<exists>ob'. adjudicable ctx ob'"
  using assms adjudicable_unique by blast+

lemma adjudicate_refused:
  assumes "\<nexists>ob. adjudicable ctx ob"
  shows "\<exists>s w. adjudicate_field_verification ctx = Inr (refused s w) \<and>
    s \<notin> {ADJUDICATED, DUPLICATE_SUBMISSION} \<and> w \<in> {None, Some (vc_workflow ctx)}"
  using assms
  by (auto simp: adjudicate_field_verification_def adjudicable_def Let_def split: option.split)

lemma adjudicate_ready:
  assumes "adjudicable ctx ob"
  shows "adjudicate_field_verification ctx =
    res_bind
      (ingest_observation ob (wf_workflow_id (vc_workflow ctx)) (ac_current_value (vc_change ctx))
        (prior_events ctx) (vc_event_id ctx) (vc_occurred_at ctx) (vc_data_classification ctx))
      (\<lambda>ingest.
        if vi_outcome ingest = INGEST_TRANSPORT_DUPLICATE then
          Inr (reached DUPLICATE_SUBMISSION (vi_event ingest) (vc_workflow ctx))
        else Inr (reached ADJUDICATED (vi_event ingest) (with_verdict (vi_event ingest)
          ((vc_workflow ctx)\<lparr>wf_state := VERDICT_STATE (ve_verification_result (vi_event ingest)),
                             wf_updated_at := vc_occurred_at ctx\<rparr>))))"
proof -
  from assms obtain rec where "ob_accepted (vc_boundary ctx)"
    "ob_accepted_observation (vc_boundary ctx) = Some ob"
    "wf_state (vc_workflow ctx) = AWAITING_FIELD_VERIFICATION"
    "field_resolve (fo_raw_evidence_ref ob) (vc_store ctx) = Some rec"
    "context_mismatches rec (vc_workflow ctx) (vc_change ctx) = []"
    by (auto simp: adjudicable_def)
  then show ?thesis
    by (simp add: adjudicate_field_verification_def Let_def prior_events_def
        authoritative_expected_value_def cong: if_cong)
qed

lemma ingest_fresh:
  assumes "fo_submission_id ob \<notin> ve_submission_id ` set (events_for_workflow es w)"
  shows "ingest_observation ob w x es i t c =
    (let e = new_verification_event ob w x (next_event_sequence es w) i t c (compared ob x)
     in if valid_event e then
          Inr \<lparr>vi_outcome = RECORDED_NEW_ATTEMPT, vi_event = e,
               vi_allocated_sequence = Some (next_event_sequence es w)\<rparr>
        else Inl ValidationError)"
proof -
  have "sd_outcome (classify_submission (fo_submission_id ob) (events_for_workflow es w)) =
      NEW_EVIDENCE_ATTEMPT" using assms by (simp add: classify_submission_new)
  moreover have "next_event_sequence (events_for_workflow es w) w = next_event_sequence es w"
    by (simp add: next_event_sequence_def)
  ultimately show ?thesis
    by (simp add: ingest_observation_def Let_def validated_def compared_def verdict_on_def)
qed

text \<open>How an adjudication can end.\<close>

lemma adjudicate_cases [case_names refused duplicate fresh invalid]:
  obtains
    s w where "adjudicate_field_verification ctx = Inr (refused s w)" "\<nexists>ob. adjudicable ctx ob"
      "s \<notin> {ADJUDICATED, DUPLICATE_SUBMISSION}" "w \<in> {None, Some (vc_workflow ctx)}"
  | ob e where "adjudicable ctx ob" "seen_before ctx ob"
      "adjudicate_field_verification ctx = Inr (reached DUPLICATE_SUBMISSION e (vc_workflow ctx))"
      "e \<in> set (events_for_workflow (prior_events ctx) (wf_workflow_id (vc_workflow ctx)))"
  | ob where "adjudicable ctx ob" "\<not> seen_before ctx ob" "valid_event (verdict_event ctx ob)"
      "adjudicate_field_verification ctx = Inr (reached ADJUDICATED (verdict_event ctx ob)
        (with_verdict (verdict_event ctx ob)
          ((vc_workflow ctx)\<lparr>wf_state := VERDICT_STATE (compared ob (ac_current_value (vc_change ctx))),
                             wf_updated_at := vc_occurred_at ctx\<rparr>)))"
  | ob e where "adjudicable ctx ob" "adjudicate_field_verification ctx = Inl e"
      "seen_before ctx ob \<or> \<not> valid_event (verdict_event ctx ob)"
proof (cases "\<exists>ob. adjudicable ctx ob")
  case False
  with adjudicate_refused [OF False] that(1) show thesis by blast
next
  case True
  then obtain ob where ob: "adjudicable ctx ob" by blast
  let ?w = "wf_workflow_id (vc_workflow ctx)"
  let ?ing = "ingest_observation ob ?w (ac_current_value (vc_change ctx)) (prior_events ctx)
      (vc_event_id ctx) (vc_occurred_at ctx) (vc_data_classification ctx)"
  show thesis
  proof (cases "seen_before ctx ob")
    case True
    show thesis
    proof (cases ?ing)
      case (Inl e)
      with adjudicate_ready [OF ob] True that(4) [OF ob, of e] show thesis by simp
    next
      case (Inr r)
      from this True show thesis
      proof (cases rule: ingest_cases)
        case dup
        with adjudicate_ready [OF ob] Inr True that(2) [OF ob] show thesis by simp
      next
        case fresh
        with True show thesis by (simp add: seen_before_def)
      qed
    qed
  next
    case False
    then have "?ing = (if valid_event (verdict_event ctx ob) then
        Inr \<lparr>vi_outcome = RECORDED_NEW_ATTEMPT, vi_event = verdict_event ctx ob,
             vi_allocated_sequence = Some (next_event_sequence (prior_events ctx) ?w)\<rparr>
        else Inl ValidationError)"
      by (simp add: ingest_fresh seen_before_def verdict_event_def Let_def)
    moreover have "ve_verification_result (verdict_event ctx ob) = compared ob (ac_current_value (vc_change ctx))"
      by (simp add: verdict_event_def)
    ultimately show thesis
      using adjudicate_ready [OF ob] False that(3) [OF ob] that(4) [OF ob, of ValidationError]
      by (cases "valid_event (verdict_event ctx ob)") simp_all
  qed
qed

text \<open>The verdict is the comparator's, on validated inputs only: an adjudication that returns
  reaches a verdict exactly when Crossing 4 accepted the observation, the workflow awaits
  verification, the evidence resolves and belongs to this change and version; a new submission is
  then recorded as the next event with the approved value as its expectation and the comparison as
  its result, appended to the workflow, which moves to that result's state; a submission seen before
  returns its recorded event; and in every other case the workflow is returned as it was.\<close>

theorem adjudication_exact:
  "case adjudicate_field_verification ctx of
     Inl e \<Rightarrow>
       \<exists>ob. adjudicable ctx ob \<and> (if valid_event (verdict_event ctx ob) then seen_before ctx ob else True)
   | Inr v \<Rightarrow>
       (adjudicated v \<longleftrightarrow> (\<exists>ob. adjudicable ctx ob)) \<and>
       (vd_status v = ADJUDICATED \<longleftrightarrow> (\<exists>ob. adjudicable ctx ob \<and> \<not> seen_before ctx ob)) \<and>
       (if vd_status v = ADJUDICATED then
          (\<exists>ob w'. adjudicable ctx ob \<and> vd_event v = Some (verdict_event ctx ob) \<and>
             vd_result v = Some (compared ob (ac_current_value (vc_change ctx))) \<and>
             vd_workflow v = Some w' \<and>
             wf_state w' = VERDICT_STATE (compared ob (ac_current_value (vc_change ctx))) \<and>
             wf_verification_events w' =
               wf_verification_events (vc_workflow ctx) @ [verdict_event ctx ob] \<and>
             wf_latest_verification_status w' = vd_result v)
        else if vd_status v = DUPLICATE_SUBMISSION then
          vd_workflow v = Some (vc_workflow ctx) \<and>
          (\<exists>e \<in> set (prior_events ctx). vd_event v = Some e)
        else vd_event v = None \<and> vd_workflow v \<in> {None, Some (vc_workflow ctx)})"
proof (cases rule: adjudicate_cases [of ctx])
  case (refused s w)
  then show ?thesis by (auto simp: adjudicated_def refused_def)
next
  case (duplicate ob e)
  then have "e \<in> set (prior_events ctx)" by (simp add: events_for_workflow_def)
  then show ?thesis
    by (simp add: duplicate(2-3) adjudicable_ex [OF duplicate(1)] adjudicated_def reached_def)
next
  case (fresh ob)
  show ?thesis
    by (simp add: fresh(2,4) adjudicable_ex [OF fresh(1)] adjudicated_def reached_def verdict_event_def)
next
  case (invalid ob e)
  then show ?thesis by auto
qed

section \<open>The history of verdicts\<close>

text \<open>
  What the console service does around step 10: the workflow is reopened where that is legal, then
  the observation is adjudicated against the recorded events; a new event is appended and the
  returned workflow replaces the old one. A raised exception leaves the reopened workflow.
\<close>

definition record_verdict ::
  "approved_change \<Rightarrow> data_classification \<Rightarrow> observation_boundary_result \<Rightarrow> field_evidence_store \<Rightarrow> str \<Rightarrow>
     datetime \<Rightarrow> datetime \<Rightarrow> workflow \<times> verification_event list \<Rightarrow>
     (workflow \<times> verification_event list) \<times> verdict_outcome res" where
  "record_verdict change classification boundary store event_id t1 t2 s =
     (let (w, events) = s
      in case reopen_for_new_evidence w t1 of
           Inl e \<Rightarrow> ((w, events), Inl e)
         | Inr w1 \<Rightarrow>
             (case adjudicate_field_verification
                 \<lparr>vc_workflow = w1, vc_change = change, vc_boundary = boundary, vc_store = store,
                  vc_event_id = event_id, vc_occurred_at = t2,
                  vc_data_classification = classification, vc_existing_events = events\<rparr> of
                Inl e \<Rightarrow> ((w1, events), Inl e)
              | Inr v \<Rightarrow>
                  ((case vd_workflow v of None \<Rightarrow> w1 | Some w2 \<Rightarrow> w2,
                    case vd_event v of
                      None \<Rightarrow> events
                    | Some e \<Rightarrow> if duplicate v then events else events @ [e]), Inr v)))"

definition verdicts_ok :: "approved_change \<Rightarrow> workflow \<Rightarrow> verification_event list \<Rightarrow> bool" where
  "verdicts_ok change w events \<longleftrightarrow>
     wf_verification_events w = events \<and> history_ok (wf_workflow_id w) events \<and>
     list_all (\<lambda>e. ve_workflow_id e = wf_workflow_id w \<and>
       ve_expected_value e = ac_current_value change \<and>
       ve_verification_result e = verdict_on (ve_derived_observation e) (ac_current_value change)) events \<and>
     (\<forall>v. wf_state w = VERDICT_STATE v \<longrightarrow>
        events \<noteq> [] \<and> ve_verification_result (last events) = v \<and> wf_latest_verification_status w = Some v)"

lemma events_for_all:
  "list_all (\<lambda>e. ve_workflow_id e = w) es \<Longrightarrow> events_for_workflow es w = es"
  by (simp add: events_for_workflow_def list_all_iff)

lemma verdicts_ok_scope: "verdicts_ok change w events \<Longrightarrow> events_for_workflow events (wf_workflow_id w) = events"
  by (rule events_for_all) (auto simp: verdicts_ok_def list_all_iff)

text \<open>The state shows the authoritative result.\<close>

lemma verdicts_ok_authoritative:
  assumes "verdicts_ok change w events" and "wf_state w = VERDICT_STATE v"
  shows "authoritative_result events (wf_workflow_id w) = Inr (Some v)"
proof -
  have "history_ok (wf_workflow_id w) events" "events \<noteq> []" "ve_verification_result (last events) = v"
    using assms by (auto simp: verdicts_ok_def)
  with history_latest [of "wf_workflow_id w" events] verdicts_ok_scope [OF assms(1)] show ?thesis
    by (simp add: authoritative_result_def)
qed

lemma VERDICT_STATE_inj [simp]: "VERDICT_STATE u = VERDICT_STATE v \<longleftrightarrow> u = v"
  by (cases u; cases v) simp_all

lemma VERDICT_STATE_not_awaiting [simp]:
  "VERDICT_STATE v \<noteq> AWAITING_FIELD_VERIFICATION" "AWAITING_FIELD_VERIFICATION \<noteq> VERDICT_STATE v"
  by (cases v; simp)+

lemma verdicts_ok_reopened:
  "verdicts_ok change w events \<Longrightarrow>
     verdicts_ok change (w\<lparr>wf_state := AWAITING_FIELD_VERIFICATION, wf_updated_at := t\<rparr>) events"
  by (simp add: verdicts_ok_def)

lemma verdicts_ok_appended:
  assumes ok: "verdicts_ok change w events"
    and ctx: "vc_workflow ctx = w" "vc_change ctx = change" "vc_existing_events ctx = events"
    and fresh: "\<not> seen_before ctx ob"
  shows "verdicts_ok change
    (with_verdict (verdict_event ctx ob)
      (w\<lparr>wf_state := VERDICT_STATE (compared ob (ac_current_value change)), wf_updated_at := t\<rparr>))
    (events @ [verdict_event ctx ob])"
proof -
  have prior: "prior_events ctx = events" using ok ctx by (simp add: prior_events_def verdicts_ok_def)
  have "history_ok (wf_workflow_id w) (events @ [verdict_event ctx ob])"
  proof (rule history_ok_append)
    show "history_ok (wf_workflow_id w) events" using ok by (simp add: verdicts_ok_def)
  qed (use fresh ctx prior in \<open>simp_all add: verdict_event_def seen_before_def\<close>)
  moreover have "ve_expected_value (verdict_event ctx ob) = ac_current_value change"
    "ve_derived_observation (verdict_event ctx ob) = fo_observed_label_position ob"
    "ve_verification_result (verdict_event ctx ob) = compared ob (ac_current_value change)"
    "ve_workflow_id (verdict_event ctx ob) = wf_workflow_id w"
    using ctx by (simp_all add: verdict_event_def new_verification_event_def)
  ultimately show ?thesis
    using ok by (auto simp: verdicts_ok_def compared_def)
qed

lemma record_verdict_ok:
  assumes "verdicts_ok change w events"
    and "record_verdict change c b store i t1 t2 (w, events) = ((w', events'), r)"
  shows "verdicts_ok change w' events' \<and> wf_workflow_id w' = wf_workflow_id w \<and>
    (\<exists>new. events' = events @ new)"
proof -
  obtain w1 where w1: "reopen_for_new_evidence w t1 = Inr w1" and ok1: "verdicts_ok change w1 events"
    and id1: "wf_workflow_id w1 = wf_workflow_id w"
    using assms(1) verdicts_ok_reopened by (force simp: reopen_Inr)
  let ?ctx = "\<lparr>vc_workflow = w1, vc_change = change, vc_boundary = b, vc_store = store,
    vc_event_id = i, vc_occurred_at = t2, vc_data_classification = c, vc_existing_events = events\<rparr>"
  have step: "record_verdict change c b store i t1 t2 (w, events) =
    (case adjudicate_field_verification ?ctx of
       Inl e \<Rightarrow> ((w1, events), Inl e)
     | Inr v \<Rightarrow>
         ((case vd_workflow v of None \<Rightarrow> w1 | Some w2 \<Rightarrow> w2,
           case vd_event v of
             None \<Rightarrow> events
           | Some e \<Rightarrow> if duplicate v then events else events @ [e]), Inr v))"
    by (simp add: record_verdict_def w1)
  show ?thesis
  proof (cases rule: adjudicate_cases [of ?ctx])
    case (refused s w2)
    with step assms(2) ok1 id1 show ?thesis by (auto simp: refused_def)
  next
    case (duplicate ob e)
    with step assms(2) ok1 id1 show ?thesis by (auto simp: reached_def duplicate_def)
  next
    case (fresh ob)
    from fresh(4) have "w' = with_verdict (verdict_event ?ctx ob)
        (w1\<lparr>wf_state := VERDICT_STATE (compared ob (ac_current_value change)), wf_updated_at := t2\<rparr>)"
      "events' = events @ [verdict_event ?ctx ob]"
      using step assms(2) by (simp_all add: reached_def duplicate_def)
    with verdicts_ok_appended [OF ok1, of ?ctx ob t2] fresh(2) id1 show ?thesis by simp
  next
    case (invalid ob e)
    with step assms(2) ok1 id1 show ?thesis by auto
  qed
qed

type_synonym verdict_request =
  "observation_boundary_result \<times> field_evidence_store \<times> str \<times> datetime \<times> datetime \<times> data_classification"

definition verdict_run ::
  "approved_change \<Rightarrow> verdict_request list \<Rightarrow> workflow \<times> verification_event list \<Rightarrow>
     workflow \<times> verification_event list" where
  "verdict_run change =
     fold (\<lambda>(b, store, i, t1, t2, c) s. fst (record_verdict change c b store i t1 t2 s))"

lemma verdict_run_ok:
  "verdicts_ok change w events \<Longrightarrow> verdict_run change rs (w, events) = (w', events') \<Longrightarrow>
     verdicts_ok change w' events' \<and> wf_workflow_id w' = wf_workflow_id w \<and> (\<exists>new. events' = events @ new)"
proof (induction rs arbitrary: w events)
  case Nil
  then show ?case by (simp add: verdict_run_def)
next
  case (Cons r rs)
  obtain b store i t1 t2 c where r: "r = (b, store, i, t1, t2, c)" by (metis prod.collapse)
  obtain w1 events1 x where step: "record_verdict change c b store i t1 t2 (w, events) = ((w1, events1), x)"
    by (metis prod.collapse)
  have "verdict_run change rs (w1, events1) = (w', events')"
    using Cons.prems(2) step by (simp add: verdict_run_def r)
  with Cons.IH record_verdict_ok [OF Cons.prems(1) step] show ?case by force
qed

text \<open>What a workflow shows of the recorded events: before the first it awaits verification; afterwards its
  status is the last result, and its state that result's, or again the waiting state when the result was
  no pass and the workflow was reopened for new evidence.\<close>

definition verdict_shown :: "workflow \<Rightarrow> verification_event list \<Rightarrow> bool" where
  "verdict_shown w events \<longleftrightarrow>
     (if events = [] then wf_state w = AWAITING_FIELD_VERIFICATION
      else let v = ve_verification_result (last events)
           in wf_latest_verification_status w = Some v \<and>
              wf_state w \<in> {VERDICT_STATE v} \<union>
                (if v = VR_PASS then {} else {AWAITING_FIELD_VERIFICATION}))"

lemma verdict_shown_reopened:
  "verdict_shown w events \<Longrightarrow> reopen_for_new_evidence w t = Inr w1 \<Longrightarrow> verdict_shown w1 events"
  by (cases "ve_verification_result (last events)")
    (auto simp: verdict_shown_def reopen_Inr Let_def split: if_splits)

lemma record_verdict_shown:
  assumes "verdict_shown w events"
    and "record_verdict change c b store i t1 t2 (w, events) = ((w', events'), r)"
  shows "verdict_shown w' events'"
proof -
  obtain w1 where w1: "reopen_for_new_evidence w t1 = Inr w1" by (simp add: reopen_Inr)
  have ok1: "verdict_shown w1 events" by (rule verdict_shown_reopened [OF assms(1) w1])
  let ?ctx = "\<lparr>vc_workflow = w1, vc_change = change, vc_boundary = b, vc_store = store,
    vc_event_id = i, vc_occurred_at = t2, vc_data_classification = c, vc_existing_events = events\<rparr>"
  show ?thesis
  proof (cases rule: adjudicate_cases [of ?ctx])
    case (refused s w2)
    with assms(2) ok1 show ?thesis by (auto simp: record_verdict_def w1 refused_def)
  next
    case (duplicate ob e)
    with assms(2) ok1 show ?thesis by (auto simp: record_verdict_def w1 reached_def duplicate_def)
  next
    case (fresh ob)
    have "ve_verification_result (verdict_event ?ctx ob) = compared ob (ac_current_value change)"
      by (simp add: verdict_event_def new_verification_event_def)
    with fresh(4) assms(2) show ?thesis
      by (auto simp: record_verdict_def w1 reached_def duplicate_def verdict_shown_def Let_def)
  next
    case (invalid ob e)
    with assms(2) ok1 show ?thesis by (auto simp: record_verdict_def w1)
  qed
qed

lemma verdict_run_shown:
  "verdict_shown w events \<Longrightarrow> verdict_run change rs (w, events) = (w', events') \<Longrightarrow> verdict_shown w' events'"
proof (induction rs arbitrary: w events)
  case Nil
  then show ?case by (simp add: verdict_run_def)
next
  case (Cons r rs)
  obtain b store i t1 t2 c where r: "r = (b, store, i, t1, t2, c)" by (metis prod.collapse)
  obtain w1 events1 x where step: "record_verdict change c b store i t1 t2 (w, events) = ((w1, events1), x)"
    by (metis prod.collapse)
  have "verdict_run change rs (w1, events1) = (w', events')"
    using Cons.prems(2) step by (simp add: verdict_run_def r)
  with Cons.IH record_verdict_shown [OF Cons.prems(1) step] show ?case by blast
qed

text \<open>C29. The state never contradicts the evidence: from a workflow with no event, after any sequence
  of submissions, validated or not, fresh or repeated, in any order, every recorded event carries
  the approved value and exactly the result of comparing the observed position with it (an abstention is
  inconclusive, the approved value passes, another fails). Without an event the workflow still awaits
  verification. With events, the authoritative result and the status field are the result of the last
  one; after a pass the state is the passed one, and otherwise it is that result's state or, where the
  workflow was reopened by a submission that added no event, the waiting state.\<close>

theorem verdict_state_reflects_evidence:
  assumes "wf_verification_events w = []" and "wf_state w = AWAITING_FIELD_VERIFICATION"
    and "verdict_run change rs (w, []) = (w', events)"
  shows "wf_verification_events w' = events \<and> history_ok (wf_workflow_id w) events \<and>
    list_all (\<lambda>e. ve_expected_value e = ac_current_value change \<and>
      ve_verification_result e =
        (if ve_derived_observation e = OBS_INCONCLUSIVE then VR_INCONCLUSIVE
         else if position_value (ve_derived_observation e) = ac_current_value change then VR_PASS
         else VR_FAIL)) events \<and>
    (if events = [] then wf_state w' = AWAITING_FIELD_VERIFICATION
     else let v = ve_verification_result (last events)
          in authoritative_result events (wf_workflow_id w) = Inr (Some v) \<and>
             wf_latest_verification_status w' = Some v \<and>
             wf_state w' \<in> {VERDICT_STATE v} \<union>
               (if v = VR_PASS then {} else {AWAITING_FIELD_VERIFICATION}))"
proof -
  have start: "verdicts_ok change w []"
    using assms(1,2) by (simp add: verdicts_ok_def history_ok_def events_for_workflow_def)
  from verdict_run_ok [OF start assms(3)] have ok: "verdicts_ok change w' events"
    and i: "wf_workflow_id w' = wf_workflow_id w" by auto
  have shown: "verdict_shown w' events"
    using verdict_run_shown [OF _ assms(3)] assms(2) by (simp add: verdict_shown_def)
  have auth: "authoritative_result events (wf_workflow_id w) = Inr (Some (ve_verification_result (last events)))"
    if "events \<noteq> []"
    using history_latest [of "wf_workflow_id w'" events] verdicts_ok_scope [OF ok] ok i that
    by (simp add: authoritative_result_def verdicts_ok_def)
  have "list_all (\<lambda>e. ve_expected_value e = ac_current_value change \<and>
      ve_verification_result e = verdict_on (ve_derived_observation e) (ac_current_value change)) events"
    using ok by (auto simp: verdicts_ok_def list_all_iff)
  moreover have "wf_verification_events w' = events" "history_ok (wf_workflow_id w) events"
    using ok i by (simp_all add: verdicts_ok_def)
  ultimately show ?thesis
    using shown [unfolded verdict_shown_def] auth unfolding verdict_on_def by (cases "events = []") (simp_all add: Let_def)
qed

section \<open>From the image to the verdict\<close>

lemma record_field_Inr:
  assumes "record_field tf i d t s = (s1, Inr ref)"
  shows "ref = field_evidence_ref i" "field_resolve ref s1 = Some (stored_document tf i d t)"
  using assms by (auto simp: record_field_def Let_def field_resolve_def split: if_splits)

lemma stored_lookup:
  "k \<notin> {''evidence_ref'', ''recorded_at''} \<Longrightarrow>
     dict_get (stored_document tf i d t) k = dict_get d k"
  by (simp add: stored_document_def)

lemma extra_lookup:
  assumes "set (dict_keys extra) \<subseteq> {''operation_id'', ''status'', ''failure_reason''}"
    and "k \<notin> {''operation_id'', ''status'', ''failure_reason''}"
  shows "dict_get (dict_merge d extra) k = dict_get d k"
proof -
  have "k \<notin> fst ` set (rev extra)" using assms by auto
  then show ?thesis by (simp add: dict_get_merge dict_get_absent del: dict_merge.simps)
qed

definition crossing_for ::
  "approved_change \<Rightarrow> observation_context \<Rightarrow> field_image \<Rightarrow> str \<Rightarrow> str list \<Rightarrow> observation_crossing_context" where
  "crossing_for change ctx img rejection_ref known =
     \<lparr>ox_expected_change_id = ac_change_id change, ox_expected_source_version = ac_source_version change,
      ox_expected_submission_id = oc_submission_id ctx, ox_expected_image_sha256 = fi_sha256 img,
      ox_authorized_identity = identity_value FIELD_VERIFICATION, ox_rejection_ref = rejection_ref,
      ox_known_submission_ids = known\<rparr>"

lemma observed_recorded:
  assumes "observe H py_repr minus_fl clock provider FIELD_VERIFICATION img bytes ctx config grant verifier
      ref w0 = (Inr x, w1)"
    and "observation_succeeded x"
    and "oc_change_id ctx = ac_change_id change" "oc_source_version ctx = ac_source_version change"
    and "set (dict_keys extra) \<subseteq> {''operation_id'', ''status'', ''failure_reason''}"
  shows "\<exists>ob raw p. or_observation x = Some ob \<and> or_provider_observation x = Some raw \<and>
    fo_observed_label_position ob = p \<and> cleaned (po_raw_output raw) = position_value p \<and>
    fo_submission_id ob = oc_submission_id ctx \<and> fo_raw_evidence_ref ob = ref \<and>
    oc_submission_id ctx \<noteq> [] \<and> ref \<noteq> [] \<and>
    observation_recorded ob (crossing_for change ctx img rej known)
      (stored_document tf i (dict_merge (or_evidence x) extra) t)"
  using assms(1)
proof (cases rule: observe_cases)
  case unauthorized
  with assms(2) show ?thesis by (auto simp: unauthorized_result_def observation_succeeded_def)
next
  case (failed outcome)
  with assms(2) show ?thesis by (auto simp: observation_succeeded_def)
next
  case (outside outcome raw)
  with assms(2) show ?thesis by (auto simp: observation_succeeded_def)
next
  case (observed outcome raw p)
  then show ?thesis
    using assms(3,4)
    by (auto simp: observation_recorded_def stored_lookup extra_lookup [OF assms(5)] crossing_for_def
        json_truthy_def simp del: dict_merge.simps split: if_splits)
qed

text \<open>C31. From the photograph to the verdict nothing but the model's own answer and the approved value
  decides: when an authorised observation succeeded, its evidence was recorded under the reference it
  names, and the workflow awaits verification of this change with this submission new, then Crossing 4
  accepts it, a verdict is reached, and it is a pass exactly when the answer, trimmed and upper-cased,
  is the approved value and not an abstention.\<close>

theorem observation_to_verdict:
  assumes "observe H py_repr minus_fl clock provider FIELD_VERIFICATION img bytes ctx config grant verifier
      (field_evidence_ref i) w0 = (Inr x, w1)"
    and "observation_succeeded x" and "or_provider_observation x = Some raw"
    and "record_field tf i (dict_merge (or_evidence x) extra) t s = (s1, Inr ref)"
    and "set (dict_keys extra) \<subseteq> {''operation_id'', ''status'', ''failure_reason''}"
    and "oc_change_id ctx = ac_change_id change" "oc_source_version ctx = ac_source_version change"
    and "wf_change_id w = ac_change_id change" "wf_source_version w = ac_source_version change"
    and "wf_state w = AWAITING_FIELD_VERIFICATION" "wf_workflow_id w \<noteq> []"
    and "ac_current_value change \<noteq> []" "event_id \<noteq> []" "valid_classification c"
    and "oc_submission_id ctx \<notin> set known"
    and "oc_submission_id ctx \<notin> ve_submission_id ` set (wf_verification_events w)"
    and "list_all (\<lambda>e. 0 \<le> ve_event_sequence e) (wf_verification_events w)"
  shows "let b = accept_field_observation (the (or_observation x)) (crossing_for change ctx img rej known) s1
    in ob_accepted b \<and>
      (\<exists>v w'. adjudicate_field_verification
          \<lparr>vc_workflow = w, vc_change = change, vc_boundary = b, vc_store = s1, vc_event_id = event_id,
           vc_occurred_at = t2, vc_data_classification = c, vc_existing_events = []\<rparr> = Inr v \<and>
        vd_status v = ADJUDICATED \<and> vd_workflow v = Some w' \<and>
        (wf_state w' = VERIFICATION_PASSED \<longleftrightarrow>
           cleaned (po_raw_output raw) = ac_current_value change \<and>
           cleaned (po_raw_output raw) \<noteq> ''INCONCLUSIVE''))"
proof -
  let ?x = "crossing_for change ctx img rej known"
  note ref = record_field_Inr [OF assms(4)]
  from observed_recorded [OF assms(1,2,6,7,5), of rej known tf i t] assms(3) obtain ob p where
    ob: "or_observation x = Some ob" "fo_observed_label_position ob = p"
      "cleaned (po_raw_output raw) = position_value p" "fo_submission_id ob = oc_submission_id ctx"
      "fo_raw_evidence_ref ob = field_evidence_ref i" "oc_submission_id ctx \<noteq> []"
    and doc: "observation_recorded ob ?x (stored_document tf i (dict_merge (or_evidence x) extra) t)"
    by auto
  let ?b = "accept_field_observation ob ?x s1"
  have acc: "ob_accepted ?b"
    using ob doc ref assms(15) by (simp add: crossing4_accepts_iff crossing_for_def)
  let ?c = "\<lparr>vc_workflow = w, vc_change = change, vc_boundary = ?b, vc_store = s1, vc_event_id = event_id,
           vc_occurred_at = t2, vc_data_classification = c, vc_existing_events = []\<rparr>"
  have adj: "adjudicable ?c ob"
    using acc ob ref doc assms(8-10)
    by (auto simp: adjudicable_def crossing4_result context_mismatches_Nil_iff observation_recorded_def
        crossing_for_def)
  have new: "\<not> seen_before ?c ob"
    using assms(16) ob by (auto simp: seen_before_def prior_events_def events_for_workflow_def)
  have "0 \<le> next_event_sequence (wf_verification_events w) (wf_workflow_id w)"
    using assms(17) max_sequence_in [of "events_for_workflow (wf_verification_events w) (wf_workflow_id w)"]
    by (cases "events_for_workflow (wf_verification_events w) (wf_workflow_id w) = []")
      (auto simp: next_event_sequence_def events_for_workflow_def list_all_iff)
  then have valid: "valid_event (verdict_event ?c ob)"
    using ob assms(11-14)
    by (simp add: valid_event_def verdict_event_def new_verification_event_def prior_events_def)
  have verdict: "VERDICT_STATE (compared ob (ac_current_value change)) = VERIFICATION_PASSED \<longleftrightarrow>
      cleaned (po_raw_output raw) = ac_current_value change \<and> cleaned (po_raw_output raw) \<noteq> ''INCONCLUSIVE''"
    using ob(2,3) by (cases p) (auto simp: compared_def verdict_on_def)
  show ?thesis
  proof (cases rule: adjudicate_cases [of ?c])
    case (fresh ob')
    with adjudicable_unique [OF adj fresh(1)] acc ob(1) verdict show ?thesis
      by (simp add: Let_def reached_def)
  qed (use adj new valid adjudicable_unique [OF adj] in auto)
qed

section \<open>A concrete submission\<close>

definition sample_observation_grant :: tool_grant where
  "sample_observation_grant =
     \<lparr>tg_capability_id = ''cap-1'', tg_holder = ''driftzero-field-verify'', tg_tool = ''FIELD_OBSERVATION'',
      tg_scope_refs = {''chg-1''}, tg_change_id = ''chg-1'', tg_source_version = ''v8'',
      tg_grant_token = ''t''\<rparr>"

definition sample_observe_context :: observation_context where
  "sample_observe_context =
     \<lparr>oc_change_id = ''chg-1'', oc_source_version = ''v8'', oc_submission_id = ''fev-1'',
      oc_prompt = ''p'', oc_max_output_tokens = 8\<rparr>"

definition sample_observed :: "observation_result res \<times> nat" where
  "sample_observed = observe (\<lambda>s. s) (\<lambda>s. s) (\<lambda>x y. Fin 1) (\<lambda>n. (Fin 0, n)) sample_provider
     FIELD_VERIFICATION sample_image ''bytes'' sample_observe_context sample_field_config
     (Some sample_observation_grant) (Some (\<lambda>g. tg_grant_token g = ''t'')) (field_evidence_ref ''obs-1'') 0"

definition sample_recorded :: "field_evidence_store \<times> str res" where
  "sample_recorded =
     record_field show_int ''obs-1''
       (dict_merge (or_evidence (projr (fst sample_observed))) [(''status'', JStr ''OBSERVED'')]) 7
       empty_field_store"

lemma sample_observed_eq:
  "observe (\<lambda>s. s) (\<lambda>s. s) (\<lambda>x y. Fin 1) (\<lambda>n. (Fin 0, n)) sample_provider
     FIELD_VERIFICATION sample_image ''bytes'' sample_observe_context sample_field_config
     (Some sample_observation_grant) (Some (\<lambda>g. tg_grant_token g = ''t'')) (field_evidence_ref ''obs-1'') 0 =
   (Inr (projr (fst sample_observed)), snd sample_observed)"
  "observation_succeeded (projr (fst sample_observed))"
  "or_provider_observation (projr (fst sample_observed)) = Some (sample_answer '' top-right.'')"
proof -
  have "\<not> isl (fst sample_observed)" by code_simp
  then have "sample_observed = (Inr (projr (fst sample_observed)), snd sample_observed)"
    by (metis prod.collapse sum.collapse(2))
  then show "observe (\<lambda>s. s) (\<lambda>s. s) (\<lambda>x y. Fin 1) (\<lambda>n. (Fin 0, n)) sample_provider
     FIELD_VERIFICATION sample_image ''bytes'' sample_observe_context sample_field_config
     (Some sample_observation_grant) (Some (\<lambda>g. tg_grant_token g = ''t'')) (field_evidence_ref ''obs-1'') 0 =
    (Inr (projr (fst sample_observed)), snd sample_observed)"
    by (simp only: sample_observed_def)
qed code_simp+

lemma sample_recorded_eq:
  "record_field show_int ''obs-1''
     (dict_merge (or_evidence (projr (fst sample_observed))) [(''status'', JStr ''OBSERVED'')]) 7
     empty_field_store = (fst sample_recorded, Inr (field_evidence_ref ''obs-1''))"
proof -
  have "\<not> isl (snd sample_recorded)"
    by (simp add: sample_recorded_def record_field_def empty_field_store_def Let_def del: dict_merge.simps)
  then obtain ref where "sample_recorded = (fst sample_recorded, Inr ref)"
    by (metis prod.collapse sum.collapse(2))
  with record_field_Inr(1) [of show_int "''obs-1''"] show ?thesis
    by (metis sample_recorded_def)
qed

definition sample_boundary :: observation_boundary_result where
  "sample_boundary = accept_field_observation (the (or_observation (projr (fst sample_observed))))
     (crossing_for (sample_change [''a'']) sample_observe_context sample_image ''rej'' [])
     (fst sample_recorded)"

theorem observation_to_verdict_witness:
  "ob_accepted sample_boundary \<and>
    (\<exists>v w'. adjudicate_field_verification
        \<lparr>vc_workflow = sample_workflow AWAITING_FIELD_VERIFICATION, vc_change = sample_change [''a''],
         vc_boundary = sample_boundary, vc_store = fst sample_recorded, vc_event_id = ''vev-1'',
         vc_occurred_at = 9, vc_data_classification = \<lparr>dc_labels = [SYNTHETIC], dc_lineage = []\<rparr>,
         vc_existing_events = []\<rparr> = Inr v \<and>
      vd_status v = ADJUDICATED \<and> vd_workflow v = Some w' \<and> wf_state w' = VERIFICATION_PASSED)"
proof -
  have c: "cleaned (po_raw_output (sample_answer '' top-right.'')) = ''TOP_RIGHT''" by code_simp
  have ctx: "oc_change_id sample_observe_context = ac_change_id (sample_change [''a''])"
    "oc_source_version sample_observe_context = ac_source_version (sample_change [''a''])"
    "oc_submission_id sample_observe_context = ''fev-1''"
    by (simp_all add: sample_observe_context_def sample_change_def)
  have val: "valid_classification \<lparr>dc_labels = [SYNTHETIC], dc_lineage = []\<rparr>"
    by (simp add: valid_classification_def)
  have ws: "wf_change_id (sample_workflow s) = ac_change_id (sample_change [''a''])"
    "wf_source_version (sample_workflow s) = ac_source_version (sample_change [''a''])"
    "wf_state (sample_workflow s) = s" "wf_workflow_id (sample_workflow s) \<noteq> []"
    "wf_verification_events (sample_workflow s) = []" "ac_current_value (sample_change [''a'']) = ''TOP_RIGHT''" for s
    by (simp_all add: sample_workflow_def sample_change_def)
  have extra: "set (dict_keys [(''status'', JStr ''OBSERVED'')]) \<subseteq> {''operation_id'', ''status'', ''failure_reason''}"
    by simp
  show ?thesis
    using observation_to_verdict [OF sample_observed_eq(1)
      sample_observed_eq(2,3) sample_recorded_eq extra ctx(1,2) ws(1,2,3,4),
      where event_id = "''vev-1''" and known = "[]" and c = "\<lparr>dc_labels = [SYNTHETIC], dc_lineage = []\<rparr>"]
      val ws(5,6) c ctx(3)
    by (simp add: Let_def sample_boundary_def)
qed

text \<open>A rejected observation, an accepted one, and the accepted one again.\<close>

definition sample_verdicts :: "verdict_request list" where
  "sample_verdicts =
     (let ob = \<lparr>fo_submission_id = ''fev-1'', fo_raw_evidence_ref = ''r'',
                fo_observed_label_position = OBS_LEFT, fo_confidence_note = []\<rparr>;
          b = (\<lambda>ok. \<lparr>ob_accepted = ok, ob_accepted_observation = Some ob,
                ob_outcome = outcome_of FIELD_OBSERVATION [] [], ob_provider_evidence = None,
                ob_rejections = [], ob_rejection_ref_value = []\<rparr>);
          store = \<lparr>fs_records = [(''r'', [(''change_id'', JStr ''chg-1''), (''source_version'', JStr ''v8'')])],
                   fs_order = [''r''], fs_by_operation = []\<rparr>;
          c = \<lparr>dc_labels = [SYNTHETIC], dc_lineage = []\<rparr>
      in [(b False, store, ''vev-1'', 8, 9, c), (b True, store, ''vev-1'', 10, 11, c),
          (b True, store, ''vev-2'', 12, 13, c)])"

theorem verdict_state_reflects_evidence_witness:
  "case verdict_run (sample_change [''a'']) (take 2 sample_verdicts)
      (sample_workflow AWAITING_FIELD_VERIFICATION, []) of
    (w', events) \<Rightarrow> length events = 1 \<and> wf_state w' = VERIFICATION_FAILED \<and>
      ve_verification_result (last events) = VR_FAIL \<and>
      authoritative_result events ''wf-1'' = Inr (Some VR_FAIL)"
proof -
  obtain w' events where run: "verdict_run (sample_change [''a'']) (take 2 sample_verdicts)
      (sample_workflow AWAITING_FIELD_VERIFICATION, []) = (w', events)" by fastforce
  have "case verdict_run (sample_change [''a'']) (take 2 sample_verdicts)
      (sample_workflow AWAITING_FIELD_VERIFICATION, []) of
      (w', events) \<Rightarrow> wf_state w' = VERIFICATION_FAILED \<and> length events = 1 \<and>
        ve_verification_result (last events) = VR_FAIL" by code_simp
  with run have "wf_state w' = VERIFICATION_FAILED" "length events = 1" "events \<noteq> []"
    "ve_verification_result (last events) = VR_FAIL" by auto
  with verdict_state_reflects_evidence [OF _ _ run] run show ?thesis
    by (auto simp: sample_workflow_def Let_def)
qed

text \<open>A repeated submission reopens a failed workflow and leaves it reopened: the recorded result is
  still the failure, but the workflow awaits verification again.\<close>

lemma duplicate_reopens:
  "case verdict_run (sample_change [''a'']) sample_verdicts
      (sample_workflow AWAITING_FIELD_VERIFICATION, []) of
    (w', events) \<Rightarrow> wf_state w' = AWAITING_FIELD_VERIFICATION \<and> length events = 1 \<and>
      wf_latest_verification_status w' = Some VR_FAIL"
  by code_simp

end
