(* ===== verification/Session.thy ===== *)
theory Session
  imports Change_Intel Adjudication Remediation Delivery_Crossing Proof_Store
begin

text \<open>
  The state of the console service (\<open>driftzero_console/service.py\<close>): one session holds the authoritative
  records of a change, every use case takes it to the next one. The dictionaries the service keeps for
  display (\<open>intel\<close>, \<open>impact\<close>, \<open>remediation\<close>, \<open>crossing\<close>, \<open>delivery\<close>, \<open>verdict\<close>, \<open>proof\<close>) are kept as the
  domain results they are projections of; of the evidence documents the ids are kept, in the order they
  were stored, and of the timeline the names of the events. What the durable sink is handed is logged.
\<close>

section \<open>The surroundings of a call\<close>

text \<open>
  Fixed for the life of a service: SHA-256, HMAC, the renderings of times, strings and failure reasons,
  and subtraction on floats.
\<close>

record platform =
  pf_H :: "str \<Rightarrow> str"
  pf_mac :: "str \<Rightarrow> str \<Rightarrow> str"
  pf_isoformat :: "datetime \<Rightarrow> str"
  pf_repr :: "str \<Rightarrow> str"
  pf_failure_text :: "observation_failure \<Rightarrow> str"
  pf_minus :: "pyfloat \<Rightarrow> pyfloat \<Rightarrow> pyfloat"

type_synonym 'w field_provider =
  "str \<Rightarrow> str \<Rightarrow> observation_context \<Rightarrow> pyfloat \<Rightarrow> 'w \<Rightarrow> (call_exn + provider_observation) \<times> 'w"

text \<open>
  What one call finds: the configuration read from the environment (or the failure to read it), the
  registered factories, which may raise (\<open>None\<close>), the clock of the retry loop, Pydantic's validation of
  a model's answer, and its own readings of the wall clock and of the random source.
\<close>

record 'w call =
  cl_config :: "driftzero_config cfg"
  cl_semantic_factory :: "(semantic_config \<Rightarrow> 'w semantic_client option) option"
  cl_field_factory :: "(provider_config \<Rightarrow> 'w field_provider option) option"
  cl_clock :: "'w \<Rightarrow> pyfloat \<times> 'w"
  cl_parse :: "json \<Rightarrow> change_set option"
  cl_error_count :: "json \<Rightarrow> nat"
  cl_now :: "nat \<Rightarrow> datetime"
  cl_tool_clock :: "nat \<Rightarrow> datetime"
  cl_rnd :: str

section \<open>The session\<close>

definition DESTINATION_REF :: str where
  "DESTINATION_REF = ''frontline:pilot-surface''"

definition classification :: data_classification where
  "classification = \<lparr>dc_labels = [SYNTHETIC], dc_lineage = []\<rparr>"

primrec workflow_state_value :: "workflow_state \<Rightarrow> str" where
  "workflow_state_value CHANGE_RECEIVED = ''CHANGE_RECEIVED''"
| "workflow_state_value IMPACT_DETERMINED = ''IMPACT_DETERMINED''"
| "workflow_state_value REMEDIATION_PENDING = ''REMEDIATION_PENDING''"
| "workflow_state_value REVIEW_REQUIRED = ''REVIEW_REQUIRED''"
| "workflow_state_value REMEDIATION_COMPLETED = ''REMEDIATION_COMPLETED''"
| "workflow_state_value FRONTLINE_DELIVERY_COMPLETED = ''FRONTLINE_DELIVERY_COMPLETED''"
| "workflow_state_value AWAITING_FIELD_VERIFICATION = ''AWAITING_FIELD_VERIFICATION''"
| "workflow_state_value VERIFICATION_INCONCLUSIVE = ''VERIFICATION_INCONCLUSIVE''"
| "workflow_state_value VERIFICATION_FAILED = ''VERIFICATION_FAILED''"
| "workflow_state_value VERIFICATION_PASSED = ''VERIFICATION_PASSED''"
| "workflow_state_value PROOF_COMPLETE = ''PROOF_COMPLETE''"
| "workflow_state_value SUPERSEDED = ''SUPERSEDED''"
| "workflow_state_value FAILED = ''FAILED''"

primrec impact_outcome_value :: "impact_outcome \<Rightarrow> str" where
  "impact_outcome_value NO_QUALIFIED_TARGET = ''NO_QUALIFIED_TARGET''"
| "impact_outcome_value SINGLE_QUALIFIED_TARGET = ''SINGLE_QUALIFIED_TARGET''"
| "impact_outcome_value MULTIPLE_QUALIFIED_TARGETS = ''MULTIPLE_QUALIFIED_TARGETS''"

record pilot_dataset =
  pd_change_id :: str
  pd_source_name :: str
  pd_previous :: source_version
  pd_current :: source_version
  pd_catalog :: artifact_catalog
  pd_authorized_scope :: "str list"
  pd_approved_status :: str

datatype intel_status = IntelDisabled | IntelUnavailable | Analyzed change_intelligence_result

text \<open>A refused request has no status: it was \<open>BLOCKED_NO_QUALIFIED_TARGET\<close> and not executed.\<close>

record remediation_request =
  mq_executed :: bool
  mq_status :: "remediation_status option"
  mq_dispatch_count :: nat

record validated_execution =
  vx_evidence_id :: str
  vx_dispatch_count :: nat
  vx_accepted :: bool
  vx_before_hash :: "str option"
  vx_after_hash :: "str option"
  vx_action_id :: str

record security_probe =
  sp_status :: remediation_status
  sp_hash_before :: str
  sp_hash_after :: str
  sp_dispatches_before :: nat
  sp_dispatches_after :: nat

datatype field_status =
    FieldRejected image_rejection | FieldDisabled | FieldUnavailable
  | FieldView observation_status "bool option"

record field_attempt =
  fx_operation_id :: str
  fx_evidence_ref :: str
  fx_image_sha256 :: str
  fx_mime_type :: str
  fx_status :: observation_status
  fx_attempt_count :: nat

datatype sink_write =
    WorkflowWritten workflow "workflow_state list" | ActionWritten action_execution
  | SessionWritten str | ProofWritten change_proof

text \<open>
  The fields of \<open>_Session\<close>, in four layers: what it was created from, the stores it owns, the
  authoritative progress, and the results kept for display. Of \<open>proof\<close>, \<open>Some None\<close> is an attempt
  made before the inputs of a proof existed.
\<close>

record session_inputs =
  sn_session_id :: str
  sn_source_name :: str
  sn_rationale :: "str option"
  sn_catalog :: artifact_catalog
  sn_change :: approved_change
  sn_ingestion :: source_ingestion
  sn_source_store :: source_store
  sn_delivery_action_id :: str

record session_stores = session_inputs +
  sn_ledger :: ledger
  sn_repository :: repository
  sn_broker :: broker
  sn_channel :: pilot_channel
  sn_field_store :: field_evidence_store
  sn_proof_store :: proof_store
  sn_evidence_ids :: "str list"
  sn_events :: "str list"
  sn_sink :: "sink_write list"

record session_progress = session_stores +
  sn_workflow :: workflow
  sn_state_history :: "workflow_state list"
  sn_rejected_result_refs :: "str list"
  sn_action_id :: "str option"
  sn_qualified_artifact_id :: "str option"
  sn_impact_resolution :: "impact_resolution option"
  sn_remediation_evidence :: "remediation_evidence option"
  sn_delta :: "delta_instruction option"
  sn_delta_composed_at :: "datetime option"
  sn_delivery_receipt_ref :: "str option"
  sn_verification_events :: "verification_event list"
  sn_known_submission_ids :: "str list"
  sn_provider_calls :: nat

record session = session_progress +
  sn_intel :: "intel_status option"
  sn_crossing_1 :: "change_set_boundary option"
  sn_remediation :: "remediation_result option"
  sn_remediation_requests :: "remediation_request list"
  sn_crossing_2 :: "remediation_boundary_result option"
  sn_validated_execution :: "validated_execution option"
  sn_security :: "security_probe option"
  sn_delivery :: "delivery_boundary_result option"
  sn_acknowledgment :: "frontline_acknowledgment option"
  sn_field_verification :: "field_status option"
  sn_field_attempts :: "field_attempt list"
  sn_verdict :: "verdict_outcome option"
  sn_proof :: "proof_outcome option option"

section \<open>Recording\<close>

definition workflow_id_of :: "session \<Rightarrow> str" where
  "workflow_id_of s = wf_workflow_id (sn_workflow s)"

text \<open>\<open>_record\<close>, and the assignment \<open>session.evidence[evidence_id] = \<dots>\<close>.\<close>

definition record_event :: "str \<Rightarrow> session \<Rightarrow> session" where
  "record_event event s = s\<lparr>sn_events := sn_events s @ [event]\<rparr>"

definition store_evidence :: "str \<Rightarrow> session \<Rightarrow> session" where
  "store_evidence evidence_id s =
     (if evidence_id \<in> set (sn_evidence_ids s) then s
      else s\<lparr>sn_evidence_ids := sn_evidence_ids s @ [evidence_id]\<rparr>)"

text \<open>
  \<open>_persist\<close>: the records handed to the sink, in order. The sink is a log here and does not raise; a session
  flushed to documents, where a conflict ends the flush, is \<open>flush_session\<close> of \<open>Cloud_Store\<close>.
\<close>

definition persist :: "session \<Rightarrow> session" where
  "persist s =
     s\<lparr>sn_sink := sn_sink s @ [WorkflowWritten (sn_workflow s) (sn_state_history s)] @
         map ActionWritten (all_records (sn_ledger s)) @ [SessionWritten (workflow_id_of s)]\<rparr>"

text \<open>The decorator \<open>@_persists\<close>: a method that returns flushes the records, one that raises does not.\<close>

definition persists :: "session \<times> 'w \<Rightarrow> unit res \<Rightarrow> (session \<times> 'w) \<times> unit res" where
  "persists sw r =
     (case r of Inl e \<Rightarrow> (sw, Inl e) | Inr x \<Rightarrow> ((persist (fst sw), snd sw), Inr x))"

text \<open>\<open>_advance\<close>: an illegal request is skipped; the state that is left is kept in the history.\<close>

definition advance :: "workflow_state \<Rightarrow> datetime \<Rightarrow> session \<Rightarrow> session" where
  "advance target t s =
     (if \<not> can_transition (wf_state (sn_workflow s)) target then s
      else
        let s1 = s\<lparr>sn_state_history := sn_state_history s @ [wf_state (sn_workflow s)]\<rparr>
        in case transition (sn_workflow s) target t of
             Inl e \<Rightarrow> s1
           | Inr w \<Rightarrow> persist (s1\<lparr>sn_workflow := w\<rparr>))"

text \<open>\<open>session.repository.read(artifact_id)\<close> followed by the use of an attribute of the result.\<close>

definition read_artifact :: "str \<Rightarrow> session \<Rightarrow> session \<times> downstream_artifact res" where
  "read_artifact artifact_id s =
     (case repo_read artifact_id (sn_repository s) of
        (r, outcome) \<Rightarrow>
          (s\<lparr>sn_repository := r\<rparr>,
           case outcome of
             ReadArtifact (Some a) \<Rightarrow> Inr a
           | _ \<Rightarrow> Inl AttributeError))"

section \<open>The proof context\<close>

text \<open>\<open>_proof_context\<close>: \<open>None\<close> while a structural input is missing. First the reference of the affected
  artifact as it is now.\<close>

definition affected_artifact_ref :: "session \<Rightarrow> session \<times> str res" where
  "affected_artifact_ref s =
     (if \<not> truthy (sn_qualified_artifact_id s) then (s, Inr '''')
      else case read_artifact (the (sn_qualified_artifact_id s)) s of
        (s1, r) \<Rightarrow> (s1, res_bind r (\<lambda>a. Inr (da_content_ref a))))"

definition session_proof_context :: "platform \<Rightarrow> session \<Rightarrow> session \<times> proof_context option res" where
  "session_proof_context pf s =
     (case (sn_impact_resolution s, sn_remediation_evidence s) of
        (Some impact, Some evidence) \<Rightarrow>
          if \<not> truthy (sn_delivery_receipt_ref s) then (s, Inr None)
          else
            (case affected_artifact_ref s of
               (s1, Inl e) \<Rightarrow> (s1, Inl e)
             | (s1, Inr artifact_ref) \<Rightarrow>
                 (s1, res_bind
                    (assemble_evidence_manifest (source_content_ref (si_current (sn_ingestion s)))
                      artifact_ref evidence (the (sn_delivery_receipt_ref s))
                      (sn_verification_events s) (map workflow_state_value (sn_state_history s))
                      (sn_rejected_result_refs s)
                      [(source_content_ref (si_current (sn_ingestion s)),
                        source_content_hash (pf_H pf) (si_current (sn_ingestion s)))])
                    (\<lambda>manifest. Inr (Some
                       \<lparr>pc_workflow = sn_workflow s, pc_change = sn_change s, pc_impact = impact,
                        pc_remediation_evidence = Some evidence, pc_manifest = manifest,
                        pc_verification_events = sn_verification_events s,
                        pc_state_history = sn_state_history s,
                        pc_source_version_applicable = True,
                        pc_delivery_receipt_ref = sn_delivery_receipt_ref s\<rparr>))))
      | _ \<Rightarrow> (s, Inr None))"

section \<open>The answer of a call\<close>

text \<open>
  \<open>get_state\<close> renders the session. What the rendering does besides: it reads the qualified artifact,
  the configuration, and, while no proof was attempted, the proof context with its eligibility; each
  of these can raise.
\<close>

definition artifact_view :: "session \<Rightarrow> session \<times> unit res" where
  "artifact_view s =
     (case sn_qualified_artifact_id s of
        None \<Rightarrow> (s, Inr ())
      | Some i \<Rightarrow> (case read_artifact i s of (s1, r) \<Rightarrow> (s1, res_bind r (\<lambda>_. Inr ()))))"

definition proof_state_view :: "platform \<Rightarrow> session \<Rightarrow> session \<times> unit res" where
  "proof_state_view pf s =
     (if sn_proof s \<noteq> None then (s, Inr ())
      else case session_proof_context pf s of
        (s1, r) \<Rightarrow>
          (s1, res_bind r (\<lambda>context. case context of
                 None \<Rightarrow> Inr () | Some c \<Rightarrow> res_bind (evaluate_eligibility c) (\<lambda>_. Inr ()))))"

definition get_state :: "platform \<Rightarrow> 'w call \<Rightarrow> session \<Rightarrow> session \<times> unit res" where
  "get_state pf cl s =
     (case artifact_view s of
        (s1, Inl e) \<Rightarrow> (s1, Inl e)
      | (s1, Inr _) \<Rightarrow>
          (case cl_config cl of
             Inl _ \<Rightarrow> (s1, Inl ConfigurationError)
           | Inr _ \<Rightarrow> proof_state_view pf s1))"

text \<open>The end of a decorated use case: \<open>return self.get_state()\<close>, then the flush.\<close>

definition respond :: "platform \<Rightarrow> 'w call \<Rightarrow> session \<times> 'w \<Rightarrow> (session \<times> 'w) \<times> unit res" where
  "respond pf cl sw =
     (case get_state pf cl (fst sw) of (s, r) \<Rightarrow> persists (s, snd sw) r)"

section \<open>A new session\<close>

text \<open>
  \<open>_new_session\<close>: the change is derived from the two source versions; no target, no action. The
  reception time of the approval is fixed in the code (2026-08-25 09:00 UTC, in microseconds).
\<close>

definition RECEIVED_AT :: datetime where
  "RECEIVED_AT = 1787648400000000"

definition new_session ::
  "platform \<Rightarrow> str \<Rightarrow> nat \<Rightarrow> pilot_dataset \<Rightarrow> str option \<Rightarrow> str \<Rightarrow> datetime \<Rightarrow> datetime \<Rightarrow> sink_write list \<Rightarrow>
     session res" where
  "new_session pf namespace sequence dataset rationale secret created updated sink =
     (let workflow_id = namespace @ ''-'' @ pad_nat 3 sequence;
          session_id = ''session-'' @ pad_nat 3 sequence
      in case ingest_source_change (pf_H pf) (pd_change_id dataset) (pd_previous dataset)
            (pd_current dataset) (pd_authorized_scope dataset) (pd_approved_status dataset)
            RECEIVED_AT classification empty_source_store of
           (source_store, Inl e) \<Rightarrow> Inl e
         | (source_store, Inr ingestion) \<Rightarrow>
             let change = si_change ingestion
             in res_bind
               (validated valid_workflow
                 \<lparr>wf_workflow_id = workflow_id, wf_change_id = ac_change_id change,
                  wf_source_version = ac_source_version change, wf_state = CHANGE_RECEIVED,
                  wf_affected_artifact_id = None, wf_impact_reason = None,
                  wf_candidate_artifact_refs = [], wf_remediation_evidence = None,
                  wf_delivery_status = None, wf_delivery_ref = None,
                  wf_worker_id = DESTINATION_REF, wf_verification_events = [],
                  wf_latest_verification_status = None, wf_proof_id = None,
                  wf_created_at = created, wf_updated_at = updated, wf_event_sequence = 0,
                  wf_data_classification = classification\<rparr>)
               (\<lambda>w. Inr
                 \<lparr>sn_session_id = session_id, sn_source_name = pd_source_name dataset,
                  sn_rationale = rationale, sn_catalog = pd_catalog dataset, sn_change = change,
                  sn_ingestion = ingestion, sn_source_store = source_store,
                  sn_delivery_action_id =
                    derive_delivery_action_id (pf_H pf) workflow_id change DESTINATION_REF,
                  sn_ledger = [],
                  sn_repository = new_repository
                    (dict_merge [] (map (\<lambda>a. (da_artifact_id a, a)) (ct_artifacts (pd_catalog dataset)))),
                  sn_broker = new_broker secret, sn_channel = new_pilot_channel,
                  sn_field_store = empty_field_store, sn_proof_store = empty_proof_store,
                  sn_evidence_ids = [''source-change-'' @ session_id],
                  sn_events = [''SOURCE_CHANGE_RECEIVED''], sn_sink = sink,
                  sn_workflow = w, sn_state_history = [], sn_rejected_result_refs = [],
                  sn_action_id = None, sn_qualified_artifact_id = None,
                  sn_impact_resolution = None, sn_remediation_evidence = None, sn_delta = None,
                  sn_delta_composed_at = None, sn_delivery_receipt_ref = None,
                  sn_verification_events = [], sn_known_submission_ids = [],
                  sn_provider_calls = 0,
                  sn_intel = None, sn_crossing_1 = None, sn_remediation = None,
                  sn_remediation_requests = [], sn_crossing_2 = None,
                  sn_validated_execution = None, sn_security = None, sn_delivery = None,
                  sn_acknowledgment = None, sn_field_verification = None,
                  sn_field_attempts = [], sn_verdict = None, sn_proof = None\<rparr>))"

end
