(* ===== verification/Session_Handlers.thy ===== *)
theory Session_Handlers
  imports Session
begin

text \<open>
  The use cases of the console service up to the delivery: the impact analysis (steps 2 and 3), the
  remediation with Crossing 2, the security probe, and the frontline delivery with Crossing 3. Each
  handler is the method of the same name; the pieces it calls are its private methods. The k-th reading
  of the wall clock that a handler keeps is \<open>cl_now cl k\<close>.
\<close>

section \<open>Impact analysis\<close>

definition review_required :: "datetime \<Rightarrow> datetime \<Rightarrow> session \<Rightarrow> session" where
  "review_required t1 t2 s = advance REVIEW_REQUIRED t2 (advance IMPACT_DETERMINED t1 s)"

text \<open>What \<open>analyze_change\<close> keeps of the agent's result, proposed or not.\<close>

definition record_analysis :: "change_intelligence_result \<Rightarrow> session \<Rightarrow> session" where
  "record_analysis result s =
     store_evidence (''change-intelligence-'' @ sn_session_id s)
       (s\<lparr>sn_intel := Some (Analyzed result)\<rparr>)"

text \<open>\<open>_validate_change_set\<close>\<close>

definition validate_crossing_1 ::
  "change_intelligence_result \<Rightarrow> session \<Rightarrow> session \<times> change_set_boundary" where
  "validate_crossing_1 result s =
     (let boundary = accept_change_set result (sn_change s)
            (map da_artifact_id (ct_artifacts (sn_catalog s))) True
            (''rej-changeset-'' @ sn_session_id s);
          s1 = (store_evidence (''crossing1-'' @ sn_session_id s) s)\<lparr>sn_crossing_1 := Some boundary\<rparr>
      in (record_event (if bs_accepted boundary then ''CROSSING_1_ACCEPTED'' else ''CROSSING_1_REJECTED'') s1,
          boundary))"

definition qualify_impact ::
  "platform \<Rightarrow> datetime \<Rightarrow> datetime \<Rightarrow> change_set \<Rightarrow> session \<Rightarrow> session" where
  "qualify_impact pf t1 t2 proposal s =
     (let known = known_pairs (sn_catalog s) proposal;
          resolution = resolve_cardinality (qualify_candidates known (sn_change s));
          w = (sn_workflow s)\<lparr>wf_candidate_artifact_refs := map (\<lambda>(c, _). cand_artifact_id c) known,
                              wf_impact_reason := Some (impact_outcome_value (ir_outcome resolution))\<rparr>;
          s1 = store_evidence (''impact-'' @ sn_session_id s)
                 (s\<lparr>sn_workflow := w, sn_impact_resolution := Some resolution\<rparr>)
      in case ir_affected_artifact_id resolution of
           None \<Rightarrow>
             review_required t1 t2
               (record_event ''IMPACT_REVIEW_REQUIRED''
                  (s1\<lparr>sn_qualified_artifact_id := None, sn_action_id := None\<rparr>))
         | Some artifact_id \<Rightarrow>
             advance IMPACT_DETERMINED t1
               (record_event ''IMPACT_QUALIFIED''
                  (s1\<lparr>sn_qualified_artifact_id := Some artifact_id,
                      sn_workflow := w\<lparr>wf_affected_artifact_id := Some artifact_id\<rparr>,
                      sn_action_id := Some (derive_remediation_action_id (pf_H pf)
                        (wf_workflow_id w) (sn_change s) artifact_id)\<rparr>)))"

definition after_analysis ::
  "platform \<Rightarrow> 'w call \<Rightarrow> change_intelligence_result \<Rightarrow> session \<Rightarrow> session" where
  "after_analysis pf cl result s =
     (if \<not> proposal_succeeded result then
        review_required (cl_now cl 0) (cl_now cl 1) (record_event ''IMPACT_ANALYSIS_FAILED'' s)
      else case validate_crossing_1 result s of
        (s1, boundary) \<Rightarrow>
          (case (if bs_accepted boundary then bs_accepted_change_set boundary else None) of
             None \<Rightarrow> review_required (cl_now cl 0) (cl_now cl 1) s1
           | Some proposal \<Rightarrow> qualify_impact pf (cl_now cl 0) (cl_now cl 1) proposal s1))"

definition analyze_change ::
  "platform \<Rightarrow> 'w call \<Rightarrow> session \<times> 'w \<Rightarrow> (session \<times> 'w) \<times> unit res" where
  "analyze_change pf cl sw =
     (let (s0, w) = sw
      in case cl_config cl of
           Inl _ \<Rightarrow> (sw, Inl ConfigurationError)
         | Inr dz \<Rightarrow>
             let config = dz_semantic_provider dz;
                 s = record_event ''IMPACT_ANALYSIS_REQUESTED'' s0
             in case (if semantic_enabled config then cl_semantic_factory cl else None) of
                  None \<Rightarrow>
                    respond pf cl
                      (record_event ''SEMANTIC_PROVIDER_DISABLED'' (s\<lparr>sn_intel := Some IntelDisabled\<rparr>), w)
                | Some factory \<Rightarrow>
                    (case factory (pv_semantic config) of
                       None \<Rightarrow>
                         respond pf cl
                           (record_event ''SEMANTIC_PROVIDER_UNAVAILABLE''
                              (s\<lparr>sn_intel := Some IntelUnavailable\<rparr>), w)
                     | Some client \<Rightarrow>
                         let (result, w', _) =
                               propose (cl_parse cl) (cl_error_count cl) (pf_minus pf) (cl_clock cl)
                                 client (pv_semantic config)
                                 (\<lambda>cid. if cid = ac_change_id (sn_change s) then Some (sn_change s) else None)
                                 (ct_artifacts (sn_catalog s)) (ac_change_id (sn_change s)) (w, False)
                         in respond pf cl (after_analysis pf cl result (record_analysis result s), w')))"

section \<open>Remediation\<close>

definition session_tool_context :: "session \<Rightarrow> tool_context" where
  "session_tool_context s =
     \<lparr>tc_capability = None, tc_verifier = (\<lambda>_. False), tc_workflow_id = workflow_id_of s,
      tc_change = sn_change s, tc_source_version_applicable = True,
      tc_data_classification = classification\<rparr>"

definition remediation_intent_for :: "platform \<Rightarrow> str \<Rightarrow> str \<Rightarrow> downstream_artifact \<Rightarrow> session \<Rightarrow> remediation_intent"
where
  "remediation_intent_for pf action_id target artifact s =
     \<lparr>ri_action_id = action_id, ri_artifact_id = target,
      ri_requirement_id = ac_requirement_id (sn_change s),
      ri_expected_before_value = ac_previous_value (sn_change s),
      ri_expected_before_hash = artifact_content_hash (pf_H pf) artifact,
      ri_expected_after_value = ac_current_value (sn_change s),
      ri_source_procedure_id = ac_source_procedure_id (sn_change s),
      ri_source_version = ac_source_version (sn_change s),
      ri_change_id = ac_change_id (sn_change s),
      ri_correlation_id = ''corr-'' @ sn_session_id s\<rparr>"

text \<open>The agent run on the session's broker, ledger and repository.\<close>

definition run_remediation_agent ::
  "platform \<Rightarrow> 'w call \<Rightarrow> agent_identity \<Rightarrow> remediation_intent \<Rightarrow> session \<Rightarrow> session \<times> remediation_result res"
where
  "run_remediation_agent pf cl identity intent s =
     (case remediate (pf_mac pf) (identity_value identity) (pf_H pf) repo_read apply_requirement
             (verify (pf_mac pf)) (session_tool_context s) (cl_tool_clock cl) (cl_rnd cl)
             (Some (cl_now cl 9)) intent (sn_broker s, sn_ledger s, sn_repository s) of
        ((b, l, r), result) \<Rightarrow> (s\<lparr>sn_broker := b, sn_ledger := l, sn_repository := r\<rparr>, result))"

text \<open>\<open>_validate\<close>: Crossing 2 against the session's ledger and repository.\<close>

definition validate_crossing_2 ::
  "platform \<Rightarrow> str \<Rightarrow> str \<Rightarrow> remediation_evidence \<Rightarrow> session \<Rightarrow> session \<times> remediation_boundary_result" where
  "validate_crossing_2 pf action_id target evidence s =
     (case accept_remediation_evidence (pf_H pf) repo_read evidence
             \<lparr>rx_change = sn_change s, rx_action_id = action_id, rx_expected_artifact_id = target,
              rx_expected_requirement_id = ac_requirement_id (sn_change s),
              rx_source_version_applicable = True, rx_rejection_ref = ''rej-'' @ sn_session_id s\<rparr>
             (sn_ledger s, sn_repository s) of
        (r, boundary) \<Rightarrow>
          (record_event (if rb_accepted boundary then ''CROSSING_2_ACCEPTED'' else ''CROSSING_2_REJECTED'')
             ((store_evidence (''crossing2-'' @ sn_session_id s) (s\<lparr>sn_repository := r\<rparr>))
                \<lparr>sn_crossing_2 := Some boundary\<rparr>),
           boundary))"

text \<open>\<open>_compose_delta\<close>\<close>

definition compose_session_delta :: "datetime \<Rightarrow> str \<Rightarrow> session \<Rightarrow> session \<times> unit res" where
  "compose_session_delta t target s =
     (case read_artifact target s of
        (s1, Inl e) \<Rightarrow> (s1, Inl e)
      | (s1, Inr artifact) \<Rightarrow>
          (case compose_delta (sn_change s1) artifact
                  (''delta-'' @ ac_change_id (sn_change s1) @ CHR ''-'' # sn_session_id s1)
                  (sn_rationale s1) of
             Inl e \<Rightarrow> (s1, Inl e)
           | Inr composition \<Rightarrow>
               (case (if dc_status composition = COMPOSED then dc_instruction composition else None) of
                  None \<Rightarrow> (record_event ''DELTA_NOT_COMPOSED'' s1, Inr ())
                | Some i \<Rightarrow>
                    (record_event ''DELTA_COMPOSED''
                       (store_evidence (di_instruction_id i)
                          (s1\<lparr>sn_delta := Some i, sn_delta_composed_at := Some t\<rparr>)), Inr ()))))"

text \<open>
  What \<open>deploy_change\<close> does with the agent's result. The first execution that reached the crossing is
  kept and advances the workflow; whether the crossing accepted it is recorded, not asked.
\<close>

definition record_remediation :: "remediation_result \<Rightarrow> session \<Rightarrow> session" where
  "record_remediation result s =
     (let s1 = s\<lparr>sn_remediation_requests := sn_remediation_requests s @
                   [\<lparr>mq_executed = True, mq_status = Some (rm_status result),
                     mq_dispatch_count = rp_dispatch_count (sn_repository s)\<rparr>]\<rparr>;
          s2 = (if rm_status result \<noteq> RS_CAPABILITY_DENIED
                then record_event ''AUTHORIZATION_GRANTED'' s1 else s1);
          s3 = s2\<lparr>sn_remediation := Some result\<rparr>
      in if rm_status result = RS_MUTATED then record_event ''ARTIFACT_MUTATED'' s3
         else if rm_status result = RS_ALREADY_COMPLETED then record_event ''IDEMPOTENT_REPLAY'' s3
         else s3)"

definition keep_execution ::
  "'w call \<Rightarrow> str \<Rightarrow> str \<Rightarrow> remediation_boundary_result \<Rightarrow> session \<Rightarrow> session \<times> unit res" where
  "keep_execution cl action_id target boundary s =
     (if sn_validated_execution s \<noteq> None then (s, Inr ())
      else compose_session_delta (cl_now cl 3) target
        (advance REMEDIATION_COMPLETED (cl_now cl 2)
          (advance REMEDIATION_PENDING (cl_now cl 1)
            (advance IMPACT_DETERMINED (cl_now cl 0)
              (s\<lparr>sn_validated_execution := Some
                   \<lparr>vx_evidence_id = ''remediation-evidence-'' @ sn_session_id s,
                    vx_dispatch_count = rp_dispatch_count (sn_repository s),
                    vx_accepted = rb_accepted boundary,
                    vx_before_hash = rb_authoritative_before_hash boundary,
                    vx_after_hash = rb_authoritative_after_hash boundary,
                    vx_action_id = action_id\<rparr>\<rparr>)))))"

definition after_remediation ::
  "platform \<Rightarrow> 'w call \<Rightarrow> str \<Rightarrow> str \<Rightarrow> remediation_result \<Rightarrow> session \<Rightarrow> session \<times> unit res" where
  "after_remediation pf cl action_id target result s =
     (let s1 = record_remediation result s
      in case rm_evidence result of
           None \<Rightarrow> (s1, Inr ())
         | Some evidence \<Rightarrow>
             (case validate_crossing_2 pf action_id target evidence
                 (store_evidence (''remediation-evidence-'' @ sn_session_id s)
                    (s1\<lparr>sn_remediation_evidence := Some evidence\<rparr>)) of
                (s2, boundary) \<Rightarrow> keep_execution cl action_id target boundary s2))"

definition deploy_change ::
  "platform \<Rightarrow> 'w call \<Rightarrow> session \<times> 'w \<Rightarrow> (session \<times> 'w) \<times> unit res" where
  "deploy_change pf cl sw =
     (let (s, w) = sw
      in case (sn_qualified_artifact_id s, sn_action_id s) of
           (Some target, Some action_id) \<Rightarrow>
             (case read_artifact target (record_event ''REMEDIATION_REQUESTED'' s) of
                (s1, Inl e) \<Rightarrow> ((s1, w), Inl e)
              | (s1, Inr artifact) \<Rightarrow>
                  (case run_remediation_agent pf cl REMEDIATION
                          (remediation_intent_for pf action_id target artifact s1) s1 of
                     (s2, Inl e) \<Rightarrow> ((s2, w), Inl e)
                   | (s2, Inr result) \<Rightarrow>
                       (case after_remediation pf cl action_id target result s2 of
                          (s3, Inl e) \<Rightarrow> ((s3, w), Inl e)
                        | (s3, Inr _) \<Rightarrow> respond pf cl (s3, w))))
         | _ \<Rightarrow>
             respond pf cl
               ((record_event ''REMEDIATION_BLOCKED'' s)
                  \<lparr>sn_remediation_requests := sn_remediation_requests s @
                     [\<lparr>mq_executed = False, mq_status = None,
                       mq_dispatch_count = rp_dispatch_count (sn_repository s)\<rparr>]\<rparr>, w))"

section \<open>The security probe\<close>

text \<open>
  \<open>run_security_test\<close>: the enablement agent asks for the mutation. The target is the qualified artifact
  or the first of the catalog; the value it claims to find is the one the artifact holds. This use case
  is not flushed.
\<close>

definition probe_intent :: "platform \<Rightarrow> str \<Rightarrow> downstream_artifact \<Rightarrow> session \<Rightarrow> remediation_intent" where
  "probe_intent pf target artifact s =
     (let action = (case sn_action_id s of None \<Rightarrow> ''probe'' | Some a \<Rightarrow> if a = [] then ''probe'' else a)
      in (remediation_intent_for pf (action @ ''-security-probe'') target artifact s)
           \<lparr>ri_expected_before_value :=
              (case dict_get (da_requirements artifact) (ac_requirement_id (sn_change s)) of
                 None \<Rightarrow> ac_previous_value (sn_change s) | Some v \<Rightarrow> v),
            ri_correlation_id := ''corr-security-'' @ sn_session_id s\<rparr>)"

definition record_probe ::
  "platform \<Rightarrow> remediation_result \<Rightarrow> downstream_artifact \<Rightarrow> downstream_artifact \<Rightarrow> nat \<Rightarrow> session \<Rightarrow> session" where
  "record_probe pf result artifact0 after dispatches_before s =
     (let s1 = (if rm_denial_evidence result \<noteq> None
                then store_evidence (''denial-evidence-'' @ sn_session_id s) s else s);
          s2 = s1\<lparr>sn_security := Some
                 \<lparr>sp_status = rm_status result,
                  sp_hash_before = artifact_content_hash (pf_H pf) artifact0,
                  sp_hash_after = artifact_content_hash (pf_H pf) after,
                  sp_dispatches_before = dispatches_before,
                  sp_dispatches_after = rp_dispatch_count (sn_repository s)\<rparr>\<rparr>
      in record_event (if rm_status result = RS_CAPABILITY_DENIED then ''SECURITY_DENIED''
                       else ''SECURITY_UNEXPECTED_ALLOW'') s2)"

definition run_security_test ::
  "platform \<Rightarrow> 'w call \<Rightarrow> session \<times> 'w \<Rightarrow> (session \<times> 'w) \<times> unit res" where
  "run_security_test pf cl sw =
     (let (s0, w) = sw;
          s = record_event ''SECURITY_REQUESTED'' s0
      in case (if truthy (sn_qualified_artifact_id s) then sn_qualified_artifact_id s
               else case ct_artifacts (sn_catalog s) of [] \<Rightarrow> None | a # _ \<Rightarrow> Some (da_artifact_id a)) of
           None \<Rightarrow> ((s, w), Inl IndexError)
         | Some target \<Rightarrow>
             (case read_artifact target s of
                (s1, Inl e) \<Rightarrow> ((s1, w), Inl e)
              | (s1, Inr artifact0) \<Rightarrow>
                  (case read_artifact target s1 of
                     (s2, Inl e) \<Rightarrow> ((s2, w), Inl e)
                   | (s2, Inr artifact) \<Rightarrow>
                       (case run_remediation_agent pf cl ENABLEMENT (probe_intent pf target artifact s2) s2 of
                          (s3, Inl e) \<Rightarrow> ((s3, w), Inl e)
                        | (s3, Inr result) \<Rightarrow>
                            (case read_artifact target s3 of
                               (s4, Inl e) \<Rightarrow> ((s4, w), Inl e)
                             | (s4, Inr after) \<Rightarrow>
                                 (case get_state pf cl (record_probe pf result artifact0 after
                                           (rp_dispatch_count (sn_repository s1)) s4) of
                                    (s5, r) \<Rightarrow> ((s5, w), r)))))))"

end
