(* ===== verification/Session_Field.thy ===== *)
theory Session_Field
  imports Session_Handlers
begin

text \<open>
  The later use cases of the console service: frontline delivery with Crossing 3, the acknowledgment, the
  field evidence with Crossing 4 and the verdict, the Change Proof, and the requests a service answers.
\<close>

section \<open>Delivery\<close>

definition delivery_intent :: "delta_instruction \<Rightarrow> session \<Rightarrow> (str, str) dict" where
  "delivery_intent i s =
     [(''instruction_id'', di_instruction_id i), (''change_id'', ac_change_id (sn_change s)),
      (''channel'', CHANNEL_LOCAL_PILOT)]"

text \<open>The action is planned once, then marked attempted before anything is sent.\<close>

definition begin_delivery :: "'w call \<Rightarrow> delta_instruction \<Rightarrow> session \<Rightarrow> session \<times> unit res" where
  "begin_delivery cl i s =
     (case (if ledger_get (sn_ledger s) (sn_delivery_action_id s) = None then
              res_bind (plan (sn_delivery_action_id s) (workflow_id_of s) DELIVER_DELTA DESTINATION_REF
                          (delivery_intent i s) (cl_now cl 1) (sn_ledger s)) (\<lambda>(l, _). Inr l)
            else Inr (sn_ledger s)) of
        Inl e \<Rightarrow> (s, Inl e)
      | Inr l \<Rightarrow>
          (case mark_attempted (sn_delivery_action_id s) (cl_now cl 2) l of
             Inl e \<Rightarrow> (s\<lparr>sn_ledger := l\<rparr>, Inl e)
           | Inr (l', _) \<Rightarrow> (s\<lparr>sn_ledger := l'\<rparr>, Inr ())))"

text \<open>The grant is the broker's, the dispatch the agent's through the session's channel.\<close>

definition dispatch_delivery ::
  "platform \<Rightarrow> 'w call \<Rightarrow> delta_instruction \<Rightarrow> session \<Rightarrow> session \<times> delivery_dispatch res" where
  "dispatch_delivery pf cl i s =
     (case issue_grant (pf_mac pf) (identity_value ENABLEMENT) (tool_value FRONTLINE_DELIVERY)
             DESTINATION_REF (ac_change_id (sn_change s)) (ac_source_version (sn_change s)) (cl_rnd cl)
             (Some (cl_now cl 3)) (sn_broker s) of
        (b, Inl e) \<Rightarrow> (s\<lparr>sn_broker := b\<rparr>, Inl e)
      | (b, Inr grant) \<Rightarrow>
          (case deliver_delta (deliver (pf_H pf)) CHANNEL_LOCAL_PILOT i DESTINATION_REF (cl_now cl 4)
                  (Some grant)
                  (Some (\<lambda>g. verify_grant (pf_mac pf) b g (tool_value FRONTLINE_DELIVERY)))
                  (sn_channel s) of
             (c, r) \<Rightarrow> (s\<lparr>sn_broker := b, sn_channel := c\<rparr>, r)))"

definition validate_crossing_3 ::
  "platform \<Rightarrow> delta_instruction \<Rightarrow> delivery_dispatch \<Rightarrow> session \<Rightarrow> session \<times> delivery_boundary_result" where
  "validate_crossing_3 pf i d s =
     (let verdict = accept_delivery_result (pf_H pf) channel_resolve channel_refs CHANNEL_LOCAL_PILOT
            (dd_result d)
            \<lparr>dx_instruction = i, dx_expected_destination_ref = DESTINATION_REF,
             dx_rejection_ref = ''rej-delivery-'' @ sn_session_id s,
             dx_composed_at = sn_delta_composed_at s\<rparr> (sn_channel s);
          s1 = (if db_receipt verdict \<noteq> None
                then store_evidence (''delivery-receipt-'' @ sn_session_id s) s else s)
      in (s1\<lparr>sn_delivery := Some verdict\<rparr>, verdict))"

definition finish_delivery ::
  "'w call \<Rightarrow> delivery_boundary_result \<Rightarrow> session \<Rightarrow> session \<times> unit res" where
  "finish_delivery cl verdict s =
     (case (if db_accepted verdict then db_receipt verdict else None) of
        Some receipt \<Rightarrow>
          (case mark_completed (sn_delivery_action_id s) (cl_now cl 5)
                  (Some (receipt_evidence_ref receipt)) None False (sn_ledger s) of
             Inl e \<Rightarrow> (s, Inl e)
           | Inr (l, _) \<Rightarrow>
               (record_event ''DELIVERY_ESTABLISHED''
                  (advance AWAITING_FIELD_VERIFICATION (cl_now cl 7)
                    (advance FRONTLINE_DELIVERY_COMPLETED (cl_now cl 6)
                      (s\<lparr>sn_ledger := l,
                         sn_delivery_receipt_ref := Some (receipt_evidence_ref receipt),
                         sn_workflow := (sn_workflow s)
                           \<lparr>wf_delivery_status := Some ''DELIVERED'',
                            wf_delivery_ref := Some (receipt_evidence_ref receipt)\<rparr>\<rparr>))), Inr ()))
      | None \<Rightarrow>
          (case mark_failed_or_uncertain (sn_delivery_action_id s) (cl_now cl 5) (sn_ledger s) of
             Inl e \<Rightarrow> (s, Inl e)
           | Inr (l, _) \<Rightarrow> (record_event ''DELIVERY_REJECTED'' (s\<lparr>sn_ledger := l\<rparr>), Inr ())))"

definition send_delivery ::
  "platform \<Rightarrow> 'w call \<Rightarrow> delta_instruction \<Rightarrow> session \<Rightarrow> session \<times> unit res" where
  "send_delivery pf cl i s0 =
     (case begin_delivery cl i (record_event ''DELIVERY_REQUESTED'' s0) of
        (s1, Inl e) \<Rightarrow> (s1, Inl e)
      | (s1, Inr _) \<Rightarrow>
          (case dispatch_delivery pf cl i s1 of
             (s2, Inl e) \<Rightarrow> (s2, Inl e)
           | (s2, Inr d) \<Rightarrow>
               (case validate_crossing_3 pf i d s2 of
                  (s3, verdict) \<Rightarrow> finish_delivery cl verdict s3)))"

text \<open>
  \<open>deliver_to_frontline\<close>. The pilot channel never raises \<open>UncertainDeliveryError\<close>, so its handler has no
  branch here; an uncertain action is reconciled first, and the method then goes on to send.
\<close>

definition deliver_to_frontline ::
  "platform \<Rightarrow> 'w call \<Rightarrow> session \<times> 'w \<Rightarrow> (session \<times> 'w) \<times> unit res" where
  "deliver_to_frontline pf cl sw =
     (let (s, w) = sw;
          send = (\<lambda>i s'. case send_delivery pf cl i s' of
                    (s1, Inl e) \<Rightarrow> ((s1, w), Inl e)
                  | (s1, Inr _) \<Rightarrow> respond pf cl (s1, w))
      in case sn_delta s of
           None \<Rightarrow> respond pf cl (record_event ''DELIVERY_REJECTED'' s, w)
         | Some i \<Rightarrow>
             (case decide_retry (sn_ledger s) (sn_delivery_action_id s) of
                RETRY_ALREADY_COMPLETED \<Rightarrow>
                  respond pf cl (record_event ''DELIVERY_ALREADY_ESTABLISHED'' s, w)
              | RECONCILIATION_REQUIRED \<Rightarrow>
                  (case reconcile_delivery (sn_delivery_action_id s)
                          (recoverable_receipt_ref (di_instruction_id i) (sn_channel s))
                          (cl_now cl 0) (sn_ledger s) of
                     Inl e \<Rightarrow> ((s, w), Inl e)
                   | Inr (l, outcome) \<Rightarrow>
                       let s1 = record_event (if drr_delivered outcome then ''DELIVERY_RECONCILED''
                                  else ''DELIVERY_UNCERTAIN_NO_RECEIPT'') (s\<lparr>sn_ledger := l\<rparr>)
                       in if drr_delivered outcome then send i s1 else respond pf cl (s1, w))
              | SAFE_TO_EXECUTE \<Rightarrow> send i s))"

section \<open>Acknowledgment\<close>

definition delivery_shown :: "session \<Rightarrow> bool" where
  "delivery_shown s \<longleftrightarrow>
     (case sn_delivery s of None \<Rightarrow> False | Some d \<Rightarrow> db_delivery_established d)"

text \<open>The source has an em dash where this constant has a hyphen.\<close>

definition ACKNOWLEDGMENT_BASIS :: str where
  "ACKNOWLEDGMENT_BASIS =
     ''UNAUTHENTICATED_LOCAL_SESSION - no enterprise employee identity '' @
     ''system is integrated, so this acknowledgment identifies a session, '' @
     ''not a named worker.''"

text \<open>\<open>acknowledge\<close>: nothing happens for another change or before a validated delivery; it is not flushed.
  The view it returns reads the configuration.\<close>

definition acknowledge_frontline ::
  "platform \<Rightarrow> 'w call \<Rightarrow> str \<Rightarrow> session \<times> 'w \<Rightarrow> (session \<times> 'w) \<times> unit res" where
  "acknowledge_frontline pf cl change_id sw =
     (let (s, w) = sw
      in if change_id \<noteq> ac_change_id (sn_change s) then (sw, Inr ())
         else if sn_field_verification s = None \<and> isl (cl_config cl) then (sw, Inl ConfigurationError)
         else
           (case (if delivery_shown s then sn_delta s else None) of
              None \<Rightarrow> (sw, Inr ())
            | Some i \<Rightarrow>
                (case acknowledge i (''local-session:'' @ sn_session_id s) ACKNOWLEDGMENT_BASIS (cl_now cl 0) of
                   Inl e \<Rightarrow> (sw, Inl e)
                 | Inr a \<Rightarrow>
                     ((record_event ''FRONTLINE_ACKNOWLEDGED''
                         (store_evidence (''acknowledgment-'' @ sn_session_id s)
                            (s\<lparr>sn_acknowledgment := Some a\<rparr>)), w), Inr ()))))"

section \<open>Field evidence\<close>

text \<open>\<open>_validate_observation\<close>: the expected submission and image digest are read from the observation
  and from the document it points to.\<close>

definition validate_crossing_4 ::
  "field_observation \<Rightarrow> session \<Rightarrow> session \<times> observation_boundary_result" where
  "validate_crossing_4 observation s =
     (let stored = (case field_resolve (fo_raw_evidence_ref observation) (sn_field_store s) of
                      None \<Rightarrow> [] | Some d \<Rightarrow> d);
          verdict = accept_field_observation observation
            \<lparr>ox_expected_change_id = ac_change_id (sn_change s),
             ox_expected_source_version = ac_source_version (sn_change s),
             ox_expected_submission_id = fo_submission_id observation,
             ox_expected_image_sha256 =
               (case dict_get stored ''image_sha256'' of Some (JStr h) \<Rightarrow> h | _ \<Rightarrow> ''''),
             ox_authorized_identity = identity_value FIELD_VERIFICATION,
             ox_rejection_ref = ''rej-observation-'' @ sn_session_id s,
             ox_known_submission_ids = sn_known_submission_ids s\<rparr> (sn_field_store s);
          crossing_id = ''crossing4-'' @ sn_session_id s @ CHR ''-'' # show_nat (length (sn_field_attempts s))
      in (record_event (if ob_accepted verdict then ''CROSSING_4_ACCEPTED'' else ''CROSSING_4_REJECTED'')
            (store_evidence crossing_id s), verdict))"

text \<open>\<open>_adjudicate\<close>\<close>

definition verdict_name :: "verdict_outcome \<Rightarrow> str" where
  "verdict_name v =
     (case vd_result v of None \<Rightarrow> ''VERDICT_NOT_REACHED'' | Some r \<Rightarrow> ''VERIFICATION_'' @ result_value r)"

definition adjudicate_session ::
  "'w call \<Rightarrow> observation_boundary_result \<Rightarrow> session \<Rightarrow> session \<times> unit res" where
  "adjudicate_session cl boundary s =
     (case record_verdict (sn_change s) classification boundary (sn_field_store s)
             (''vev-'' @ sn_session_id s @ CHR ''-'' # pad_nat 3 (length (sn_verification_events s) + 1))
             (cl_now cl 1) (cl_now cl 2) (sn_workflow s, sn_verification_events s) of
        ((w, events), r) \<Rightarrow>
          (let s1 = s\<lparr>sn_workflow := w, sn_verification_events := events\<rparr>
           in case r of
                Inl e \<Rightarrow> (s1, Inl e)
              | Inr v \<Rightarrow>
                  let s2 = (case vd_event v of
                              None \<Rightarrow> s1
                            | Some e \<Rightarrow> if duplicate v then s1
                                else store_evidence (''verification-event-'' @ ve_event_id e) s1)
                  in (record_event (verdict_name v) (s2\<lparr>sn_verdict := Some v\<rparr>), Inr ())))"

definition record_attempt ::
  "platform \<Rightarrow> 'w call \<Rightarrow> str \<Rightarrow> field_image \<Rightarrow> observation_result \<Rightarrow> session \<Rightarrow> session \<times> unit res" where
  "record_attempt pf cl operation_id img result s =
     (let document =
            dict_put ''failure_reason'' (json_opt (map_option (pf_failure_text pf) (or_failure_reason result)))
              (dict_put ''status'' (JStr (observation_status_value (or_status result)))
                (dict_put ''operation_id'' (JStr operation_id) (or_evidence result)))
      in case record_field (pf_isoformat pf) operation_id document (cl_now cl 0) (sn_field_store s) of
           (store, Inl e) \<Rightarrow> (s\<lparr>sn_field_store := store\<rparr>, Inl e)
         | (store, Inr ref) \<Rightarrow>
             ((store_evidence (''field-observation-'' @ operation_id) (s\<lparr>sn_field_store := store\<rparr>))
                \<lparr>sn_field_attempts := sn_field_attempts s @
                   [\<lparr>fx_operation_id = operation_id, fx_evidence_ref = ref,
                     fx_image_sha256 = fi_sha256 img, fx_mime_type = fi_mime_type img,
                     fx_status = or_status result, fx_attempt_count = or_attempt_count result\<rparr>]\<rparr>,
              Inr ()))"

text \<open>Crossing 4 and the verdict for a recorded attempt; whether the crossing accepted it, if it ran.\<close>

definition judge_observation ::
  "'w call \<Rightarrow> observation_result \<Rightarrow> session \<Rightarrow> session \<times> bool option \<times> unit res" where
  "judge_observation cl result s =
     (case (if observation_succeeded result then or_observation result else None) of
        None \<Rightarrow> (record_event ''FIELD_OBSERVATION_FAILED'' s, None, Inr ())
      | Some observation \<Rightarrow>
          (case validate_crossing_4 observation s of
             (s1, verdict) \<Rightarrow>
               if ob_accepted verdict then
                 (case adjudicate_session cl verdict s1 of (s2, r) \<Rightarrow> (s2, Some True, r))
               else (s1, Some False, Inr ())))"

text \<open>The part of \<open>submit_field_evidence\<close> after the provider was built: the call, its record, Crossing 4
  and the verdict.\<close>

definition observe_and_judge ::
  "platform \<Rightarrow> 'w call \<Rightarrow> provider_config \<Rightarrow> 'w field_provider \<Rightarrow> str \<Rightarrow> field_image \<Rightarrow> session \<times> 'w \<Rightarrow>
     (session \<times> 'w) \<times> unit res" where
  "observe_and_judge pf cl config provider raw img sw =
     (let (s, w) = sw;
          change = sn_change s;
          submission_id = derive_submission_id (pf_H pf) (ac_change_id change)
            (ac_source_version change) (fi_sha256 img);
          operation_id = derive_observation_operation_id (pf_H pf) (ac_change_id change)
            (ac_source_version change) (fi_sha256 img)
      in case issue_grant (pf_mac pf) (identity_value FIELD_VERIFICATION)
                (tool_value FIELD_OBSERVATION_TOOL) (ac_change_id change) (ac_change_id change)
                (ac_source_version change) (cl_rnd cl) (Some (cl_now cl 3)) (sn_broker s) of
           (b, Inl e) \<Rightarrow> ((s\<lparr>sn_broker := b\<rparr>, w), Inl e)
         | (b, Inr grant) \<Rightarrow>
             let s1 = s\<lparr>sn_broker := b, sn_provider_calls := sn_provider_calls s + 1\<rparr>
             in case observe (pf_H pf) (pf_repr pf) (pf_minus pf) (cl_clock cl) provider
                    FIELD_VERIFICATION img raw
                    (observation_context_for (ac_change_id change) (ac_source_version change) submission_id)
                    config (Some grant)
                    (Some (\<lambda>g. verify_grant (pf_mac pf) b g (tool_value FIELD_OBSERVATION_TOOL)))
                    (field_evidence_ref operation_id) w of
                  (Inl e, w') \<Rightarrow> ((s1, w'), Inl e)
                | (Inr result, w') \<Rightarrow>
                    (case record_attempt pf cl operation_id img result s1 of
                       (s2, Inl e) \<Rightarrow> ((s2, w'), Inl e)
                     | (s2, Inr _) \<Rightarrow>
                         (case judge_observation cl result s2 of
                            (s5, crossing, Inl e) \<Rightarrow> ((s5, w'), Inl e)
                          | (s5, crossing, Inr _) \<Rightarrow>
                              respond pf cl
                                (s5\<lparr>sn_known_submission_ids :=
                                      (if submission_id \<in> set (sn_known_submission_ids s5)
                                       then sn_known_submission_ids s5
                                       else sn_known_submission_ids s5 @ [submission_id]),
                                    sn_field_verification := Some (FieldView (or_status result) crossing)\<rparr>,
                                 w'))))"

text \<open>A submission that is not a replay.\<close>

definition submit_fresh ::
  "platform \<Rightarrow> 'w call \<Rightarrow> str \<Rightarrow> field_image \<Rightarrow> session \<times> 'w \<Rightarrow> (session \<times> 'w) \<times> unit res" where
  "submit_fresh pf cl raw img sw =
     (let (s, w) = sw
      in case cl_config cl of
           Inl _ \<Rightarrow> (sw, Inl ConfigurationError)
         | Inr dz \<Rightarrow>
             let config = dz_field_provider dz
             in if \<not> field_enabled config \<or> cl_field_factory cl = None then
                  respond pf cl
                    (record_event ''FIELD_PROVIDER_DISABLED''
                       (s\<lparr>sn_field_verification := Some FieldDisabled\<rparr>), w)
                else
                  (case (case get_field_observation_provider (cl_field_factory cl) config of
                           None \<Rightarrow> None | Some p \<Rightarrow> p) of
                     None \<Rightarrow>
                       respond pf cl
                         (record_event ''FIELD_PROVIDER_UNAVAILABLE''
                            (s\<lparr>sn_field_verification := Some FieldUnavailable\<rparr>), w)
                   | Some provider \<Rightarrow> observe_and_judge pf cl config provider raw img (s, w)))"

definition previous_crossing :: "session \<Rightarrow> bool option" where
  "previous_crossing s =
     (case sn_field_verification s of Some (FieldView _ crossing) \<Rightarrow> crossing | _ \<Rightarrow> None)"

definition submit_field_evidence ::
  "platform \<Rightarrow> 'w call \<Rightarrow> str \<Rightarrow> str option \<Rightarrow> str option \<Rightarrow> session \<times> 'w \<Rightarrow>
     (session \<times> 'w) \<times> unit res" where
  "submit_field_evidence pf cl raw declared_filename declared_content_type sw =
     (let (s0, w) = sw;
          s = record_event ''FIELD_EVIDENCE_SUBMITTED'' s0
      in case accept_field_image (pf_H pf) raw declared_filename declared_content_type MAX_IMAGE_BYTES of
           Inl reason \<Rightarrow>
             if isl (cl_config cl) then ((s, w), Inl ConfigurationError)
             else respond pf cl
               (record_event ''FIELD_EVIDENCE_REJECTED''
                  (s\<lparr>sn_field_verification := Some (FieldRejected reason)\<rparr>), w)
         | Inr img \<Rightarrow>
             (case find_operation
                  (derive_observation_operation_id (pf_H pf) (ac_change_id (sn_change s))
                    (ac_source_version (sn_change s)) (fi_sha256 img)) (sn_field_store s) of
                Some existing \<Rightarrow>
                  if evidence_is_replayable existing then
                    (let s1 = record_event ''FIELD_OBSERVATION_REPLAYED'' s
                     in if isl (cl_config cl) then ((s1, w), Inl ConfigurationError)
                        else respond pf cl
                          (s1\<lparr>sn_field_verification := Some (FieldView REPLAYED (previous_crossing s1))\<rparr>, w))
                  else submit_fresh pf cl raw img (s, w)
              | None \<Rightarrow> submit_fresh pf cl raw img (s, w)))"

section \<open>The Change Proof\<close>

definition generate_proof ::
  "platform \<Rightarrow> 'w call \<Rightarrow> session \<times> 'w \<Rightarrow> (session \<times> 'w) \<times> unit res" where
  "generate_proof pf cl sw =
     (let (s0, w) = sw
      in case session_proof_context pf (record_event ''PROOF_REQUESTED'' s0) of
           (s, Inl e) \<Rightarrow> ((s, w), Inl e)
         | (s, Inr None) \<Rightarrow>
             respond pf cl (record_event ''PROOF_BLOCKED'' (s\<lparr>sn_proof := Some None\<rparr>), w)
         | (s, Inr (Some c)) \<Rightarrow>
             (case attempt_proof (pf_isoformat pf) (pf_H pf) c (sn_proof_store s) of
                (store, Inl e) \<Rightarrow> ((s\<lparr>sn_proof_store := store\<rparr>, w), Inl e)
              | (store, Inr outcome) \<Rightarrow>
                  let s1 = s\<lparr>sn_proof_store := store, sn_proof := Some (Some outcome)\<rparr>
                  in case (if po_generated outcome then po_stored outcome else None) of
                       None \<Rightarrow> respond pf cl (record_event ''PROOF_BLOCKED'' s1, w)
                     | Some stored \<Rightarrow>
                         let s2 = store_evidence (''change-proof-'' @ cp_proof_id (sp_proof stored))
                               (s1\<lparr>sn_sink := sn_sink s1 @ [ProofWritten (sp_proof stored)]\<rparr>)
                         in if po_replayed outcome then
                              respond pf cl (record_event ''PROOF_ALREADY_COMPLETE'' s2, w)
                            else
                              respond pf cl
                                (record_event ''PROOF_COMPLETE''
                                  (advance PROOF_COMPLETE (cl_now cl 0)
                                    (s2\<lparr>sn_workflow := (sn_workflow s2)
                                          \<lparr>wf_proof_id := Some (cp_proof_id (sp_proof stored))\<rparr>\<rparr>)), w)))"

text \<open>\<open>validate_proof\<close>: the documents under an evidence id are \<open>document_of\<close>; those the manifest names
  are handed to the validator. \<open>None\<close> while there is no proof or no context.\<close>

definition validate_session_proof ::
  "platform \<Rightarrow> (str \<Rightarrow> json) \<Rightarrow> session \<Rightarrow> session \<times> proof_validation_result option res" where
  "validate_session_proof pf document_of s =
     (case session_proof_context pf s of
        (s1, Inl e) \<Rightarrow> (s1, Inl e)
      | (s1, Inr context) \<Rightarrow>
          (s1, case (find_workflow (workflow_id_of s) (sn_proof_store s), context) of
                 (Some stored, Some c) \<Rightarrow>
                   res_bind
                     (validate_proof (pf_isoformat pf) (pf_H pf) (sp_proof stored) c
                       (map (\<lambda>i. (i, canonical_json (document_of i)))
                         (filter (\<lambda>i. i \<in> set (dict_keys
                             (em_content_hashes (cp_evidence_manifest (sp_proof stored)))))
                           (sn_evidence_ids s))))
                     (\<lambda>r. res_bind (evaluate_eligibility c) (\<lambda>_. Inr (Some r)))
               | _ \<Rightarrow> Inr None))"

definition get_replay_audit :: "platform \<Rightarrow> session \<Rightarrow> str replay_document option" where
  "get_replay_audit pf s =
     map_option (\<lambda>stored. replay_audit (pf_isoformat pf) (pf_H pf) stored (sn_verification_events s)
         (sn_events s))
       (find_workflow (workflow_id_of s) (sn_proof_store s))"

section \<open>Requests\<close>

text \<open>The use cases the routes of the console ask for, each with what it finds when it is called.\<close>

datatype 'w request =
    Analyze "'w call"
  | Deploy "'w call"
  | SecurityTest "'w call"
  | Deliver "'w call"
  | Acknowledge "'w call" str
  | SubmitEvidence "'w call" str "str option" "str option"
  | GenerateProof "'w call"

primrec handle :: "platform \<Rightarrow> 'w request \<Rightarrow> session \<times> 'w \<Rightarrow> (session \<times> 'w) \<times> unit res" where
  "handle pf (Analyze cl) sw = analyze_change pf cl sw"
| "handle pf (Deploy cl) sw = deploy_change pf cl sw"
| "handle pf (SecurityTest cl) sw = run_security_test pf cl sw"
| "handle pf (Deliver cl) sw = deliver_to_frontline pf cl sw"
| "handle pf (Acknowledge cl change_id) sw = acknowledge_frontline pf cl change_id sw"
| "handle pf (SubmitEvidence cl raw filename content_type) sw =
     submit_field_evidence pf cl raw filename content_type sw"
| "handle pf (GenerateProof cl) sw = generate_proof pf cl sw"

text \<open>A run of requests; one that raises leaves what it had changed.\<close>

definition serve :: "platform \<Rightarrow> 'w request list \<Rightarrow> session \<times> 'w \<Rightarrow> session \<times> 'w" where
  "serve pf requests sw = foldl (\<lambda>sw r. fst (handle pf r sw)) sw requests"

end
