(* ===== verification/Session_Way.thy ===== *)
theory Session_Way
  imports Session_Field "HOL-Library.Sublist"
begin

text \<open>
  The way a session has gone, read off its own records. The history a session keeps lists the states it
  left by \<open>_advance\<close>; a verdict and the reopening before it leave no entry there, but every verdict is a
  recorded event. \<open>way\<close> puts the two together. \<open>goes\<close> is one move of the three records, and a session
  whose records moved so has a way that is legal and has only grown.
\<close>

abbreviation state_of :: "session \<Rightarrow> workflow_state" where
  "state_of s \<equiv> wf_state (sn_workflow s)"

section \<open>The way of the records\<close>

type_synonym track = "workflow_state list \<times> workflow_state \<times> verification_result list"

definition track_of :: "session \<Rightarrow> track" where
  "track_of s = (sn_state_history s, state_of s, map ve_verification_result (sn_verification_events s))"

definition PROGRESS :: "workflow_state list" where
  "PROGRESS = [CHANGE_RECEIVED, IMPACT_DETERMINED, REMEDIATION_PENDING, REMEDIATION_COMPLETED,
     FRONTLINE_DELIVERY_COMPLETED]"

definition judged_way :: "verification_result list \<Rightarrow> workflow_state list" where
  "judged_way rs = concat (map (\<lambda>v. [AWAITING_FIELD_VERIFICATION, VERDICT_STATE v]) rs)"

text \<open>The progress before the first verification, a wait before every verdict, and where the session is.\<close>

fun way :: "track \<Rightarrow> workflow_state list" where
  "way (h, st, rs) =
     take 5 h @ judged_way rs @
     (if st \<in> {VERIFICATION_PASSED, VERIFICATION_FAILED, VERIFICATION_INCONCLUSIVE} then []
      else (if AWAITING_FIELD_VERIFICATION \<in> set h then [AWAITING_FIELD_VERIFICATION] else []) @ [st])"

abbreviation recorded_way :: "session \<Rightarrow> workflow_state list" where
  "recorded_way s \<equiv> way (track_of s)"

section \<open>Moves of the records\<close>

inductive goes :: "track \<Rightarrow> track \<Rightarrow> bool" where
  advanced: "can_transition st t \<Longrightarrow>
    t \<notin> {VERIFICATION_PASSED, VERIFICATION_FAILED, VERIFICATION_INCONCLUSIVE, SUPERSEDED, FAILED} \<Longrightarrow>
    goes (h, st, rs) (h @ [st], t, rs)"
| judged: "goes (h, AWAITING_FIELD_VERIFICATION, rs) (h, VERDICT_STATE v, rs @ [v])"
| reopened: "st \<in> {VERIFICATION_FAILED, VERIFICATION_INCONCLUSIVE} \<Longrightarrow>
    goes (h, st, rs) (h, AWAITING_FIELD_VERIFICATION, rs)"

inductive_cases goesE: "goes x y"

fun early :: "track \<Rightarrow> bool" where
  "early (h, st, rs) \<longleftrightarrow> prefix (h @ [st]) PROGRESS \<and> rs = []"

fun verifying :: "track \<Rightarrow> bool" where
  "verifying (h, st, rs) \<longleftrightarrow>
     take 5 h = PROGRESS \<and> set (drop 5 h) \<subseteq> {VERIFICATION_FAILED, VERIFICATION_INCONCLUSIVE} \<and>
     (if st = AWAITING_FIELD_VERIFICATION then VR_PASS \<notin> set rs
      else rs \<noteq> [] \<and> VR_PASS \<notin> set (butlast rs) \<and> st = VERDICT_STATE (last rs))"

fun stopped_track :: "track \<Rightarrow> bool" where
  "stopped_track (h, st, rs) \<longleftrightarrow>
     st \<in> {REVIEW_REQUIRED, PROOF_COMPLETE} \<and>
     (\<exists>h0 x. h = h0 @ [x] \<and> can_transition x st \<and> (early (h0, x, rs) \<or> verifying (h0, x, rs)))"

definition on_track :: "track \<Rightarrow> bool" where
  "on_track x \<longleftrightarrow> early x \<or> verifying x \<or> stopped_track x"

lemma judged_way_simps [simp]:
  "judged_way [] = []"
  "judged_way (rs @ [v]) = judged_way rs @ [AWAITING_FIELD_VERIFICATION, VERDICT_STATE v]"
  by (simp_all add: judged_way_def)

lemma judged_way_retries:
  "judged_way (rs @ [v]) =
     AWAITING_FIELD_VERIFICATION # retries (map VERDICT_STATE rs) @ [VERDICT_STATE v]"
  by (induction rs) (simp_all add: judged_way_def)

lemma verdict_states:
  "VERDICT_STATE v \<in> {VERIFICATION_PASSED, VERIFICATION_FAILED, VERIFICATION_INCONCLUSIVE}"
  "VERDICT_STATE v \<in> {VERIFICATION_FAILED, VERIFICATION_INCONCLUSIVE} \<longleftrightarrow> v \<noteq> VR_PASS"
  "VERDICT_STATE v = VERIFICATION_PASSED \<longleftrightarrow> v = VR_PASS"
  by (cases v; simp)+

text \<open>The states before verification, and what may follow each.\<close>

lemma early_cases:
  assumes "early (h, st, rs)"
  obtains "h = []" "st = CHANGE_RECEIVED" "rs = []"
  | "h = [CHANGE_RECEIVED]" "st = IMPACT_DETERMINED" "rs = []"
  | "h = [CHANGE_RECEIVED, IMPACT_DETERMINED]" "st = REMEDIATION_PENDING" "rs = []"
  | "h = [CHANGE_RECEIVED, IMPACT_DETERMINED, REMEDIATION_PENDING]" "st = REMEDIATION_COMPLETED" "rs = []"
  | "h = [CHANGE_RECEIVED, IMPACT_DETERMINED, REMEDIATION_PENDING, REMEDIATION_COMPLETED]"
      "st = FRONTLINE_DELIVERY_COMPLETED" "rs = []"
  using assms by (auto simp: PROGRESS_def prefix_Cons append_eq_Cons_conv)

lemma early_intros:
  "early ([], CHANGE_RECEIVED, [])"
  "early ([CHANGE_RECEIVED], IMPACT_DETERMINED, [])"
  "early ([CHANGE_RECEIVED, IMPACT_DETERMINED], REMEDIATION_PENDING, [])"
  "early ([CHANGE_RECEIVED, IMPACT_DETERMINED, REMEDIATION_PENDING], REMEDIATION_COMPLETED, [])"
  "early ([CHANGE_RECEIVED, IMPACT_DETERMINED, REMEDIATION_PENDING, REMEDIATION_COMPLETED],
     FRONTLINE_DELIVERY_COMPLETED, [])"
  by (simp_all add: PROGRESS_def)

declare early.simps [simp del] verifying.simps [simp del]

lemma verifying_not_awaited:
  assumes "verifying (h, st, rs)" shows "AWAITING_FIELD_VERIFICATION \<notin> set h \<and> 5 \<le> length h"
proof -
  have "h = PROGRESS @ drop 5 h" using assms append_take_drop_id [of 5 h] by (simp add: verifying.simps)
  moreover have "set (drop 5 h) \<subseteq> {VERIFICATION_FAILED, VERIFICATION_INCONCLUSIVE}"
    using assms by (simp add: verifying.simps)
  ultimately have "set h \<subseteq> set PROGRESS \<union> {VERIFICATION_FAILED, VERIFICATION_INCONCLUSIVE}"
    "length h = length PROGRESS + length (drop 5 h)"
    by (metis Un_mono set_append subset_refl) (metis \<open>h = PROGRESS @ drop 5 h\<close> length_append)
  then show ?thesis by (auto simp: PROGRESS_def)
qed

lemma verifying_awaiting: "verifying (PROGRESS, AWAITING_FIELD_VERIFICATION, [])"
  by (simp add: verifying.simps PROGRESS_def)

text \<open>The way ends where the session is.\<close>

lemma on_track_last:
  assumes "on_track (h, st, rs)"
  shows "way (h, st, rs) \<noteq> [] \<and> last (way (h, st, rs)) = st"
proof (cases "st \<in> {VERIFICATION_PASSED, VERIFICATION_FAILED, VERIFICATION_INCONCLUSIVE}")
  case True
  with assms have "verifying (h, st, rs)"
    by (auto simp: on_track_def elim!: early_cases)
  with True have "rs \<noteq> []" "st = VERDICT_STATE (last rs)" by (auto simp: verifying.simps)
  moreover from \<open>rs \<noteq> []\<close> have "judged_way rs =
      judged_way (butlast rs) @ [AWAITING_FIELD_VERIFICATION, VERDICT_STATE (last rs)]"
    using judged_way_simps(2) [of "butlast rs" "last rs"] by simp
  ultimately show ?thesis using True by simp
qed simp

lemma verifying_way:
  assumes "verifying (h, st, rs)"
  shows "way (h, st, rs) =
    PROGRESS @ judged_way rs @
      (if st = AWAITING_FIELD_VERIFICATION then [AWAITING_FIELD_VERIFICATION] else [])"
proof (cases "st = AWAITING_FIELD_VERIFICATION")
  case True
  with assms verifying_not_awaited [OF assms] show ?thesis by (simp add: verifying.simps)
next
  case False
  with assms verdict_states(1) [of "last rs"] show ?thesis by (simp add: verifying.simps)
qed

lemma stopped_way:
  assumes "verifying (h, x, rs)" and "st \<in> {REVIEW_REQUIRED, PROOF_COMPLETE}"
  shows "way (h @ [x], st, rs) = way (h, x, rs) @ [st]"
  using assms(2) verifying_not_awaited [OF assms(1)] verifying_way [OF assms(1)] assms(1)
  by (auto simp: verifying.simps)

text \<open>A move keeps the records on track and prolongs the way by legal transitions.\<close>

definition prolongs :: "track \<Rightarrow> track \<Rightarrow> bool" where
  "prolongs x y \<longleftrightarrow>
     on_track y \<and> (\<exists>zs. way y = way x @ zs \<and> legal_path (last (way x)) zs \<and> zs \<noteq> [])"

lemma prolongs_early:
  assumes "early (h, st, rs)" and "can_transition st t" and "t \<notin> {SUPERSEDED, FAILED}"
  shows "prolongs (h, st, rs) (h @ [st], t, rs)"
proof -
  have "t = REVIEW_REQUIRED \<Longrightarrow> stopped_track (h @ [st], t, rs)" using assms by simp
  with assms show ?thesis
    by (cases rule: early_cases)
      (auto simp: can_transition_def prolongs_def on_track_def early_intros PROGRESS_def
        intro: verifying_awaiting [unfolded PROGRESS_def])
qed

lemma verifying_reopened:
  assumes v: "verifying (h, st, rs)" and st: "st \<in> {VERIFICATION_FAILED, VERIFICATION_INCONCLUSIVE}"
  shows "verifying (h, AWAITING_FIELD_VERIFICATION, rs)" "verifying (h @ [st], AWAITING_FIELD_VERIFICATION, rs)"
proof -
  from v st have rs: "rs \<noteq> []" "VR_PASS \<notin> set (butlast rs)" "st = VERDICT_STATE (last rs)"
    by (auto simp: verifying.simps)
  then have "VR_PASS \<notin> set rs"
    using st verdict_states(2) [of "last rs"] append_butlast_last_id [of rs]
    by (metis Un_iff empty_iff insert_iff list.set(1,2) set_append)
  then show "verifying (h, AWAITING_FIELD_VERIFICATION, rs)" "verifying (h @ [st], AWAITING_FIELD_VERIFICATION, rs)"
    using v st verifying_not_awaited [OF v] by (auto simp: verifying.simps)
qed

lemma prolongs_verifying:
  assumes v: "verifying (h, st, rs)" and c: "can_transition st t"
    and t: "t \<notin> {VERIFICATION_PASSED, VERIFICATION_FAILED, VERIFICATION_INCONCLUSIVE, SUPERSEDED, FAILED}"
  shows "prolongs (h, st, rs) (h @ [st], t, rs)"
proof (cases "t = AWAITING_FIELD_VERIFICATION")
  case True
  with v c have st: "st \<in> {VERIFICATION_FAILED, VERIFICATION_INCONCLUSIVE}"
    by (cases "last rs") (auto simp: verifying.simps can_transition_def split: if_splits)
  have "verifying (h @ [st], t, rs)" using verifying_reopened(2) [OF v st] True by simp
  moreover from this v True st have "way (h @ [st], t, rs) = way (h, st, rs) @ [t]"
    by (auto simp: verifying_way simp del: way.simps)
  ultimately show ?thesis
    using v c on_track_last [of h st rs] by (auto simp: prolongs_def on_track_def simp del: way.simps)
next
  case False
  with v c t have "t \<in> {REVIEW_REQUIRED, PROOF_COMPLETE}"
    by (cases "st = AWAITING_FIELD_VERIFICATION"; cases "last rs")
      (auto simp: verifying.simps can_transition_def)
  then show ?thesis
    using v c on_track_last [of h st rs] stopped_way [OF v]
    by (auto simp: prolongs_def on_track_def)
qed


lemma prolongs_judged:
  assumes "verifying (h, AWAITING_FIELD_VERIFICATION, rs)"
  shows "prolongs (h, AWAITING_FIELD_VERIFICATION, rs) (h, VERDICT_STATE v, rs @ [v])"
proof -
  have "verifying (h, VERDICT_STATE v, rs @ [v])" using assms by (simp add: verifying.simps)
  then show ?thesis
    using assms on_track_last [of h AWAITING_FIELD_VERIFICATION rs]
    by (auto simp: prolongs_def on_track_def verifying_way simp del: way.simps)
qed

lemma prolongs_reopened:
  assumes "verifying (h, st, rs)" and st: "st \<in> {VERIFICATION_FAILED, VERIFICATION_INCONCLUSIVE}"
  shows "prolongs (h, st, rs) (h, AWAITING_FIELD_VERIFICATION, rs)"
proof -
  have "can_transition st AWAITING_FIELD_VERIFICATION" "st \<noteq> AWAITING_FIELD_VERIFICATION"
    using st by (auto simp: can_transition_def)
  moreover note v = verifying_reopened [OF assms]
  moreover have "way (h, AWAITING_FIELD_VERIFICATION, rs) = way (h, st, rs) @ [AWAITING_FIELD_VERIFICATION]"
    using verifying_way [OF assms(1)] verifying_way [OF v(1)] calculation(2) by simp
  ultimately show ?thesis
    using assms(1) on_track_last [of h st rs] by (auto simp: prolongs_def on_track_def simp del: way.simps)
qed

text \<open>Where each move can start.\<close>

lemma on_track_states:
  assumes "on_track (h, st, rs)"
  shows "st = AWAITING_FIELD_VERIFICATION \<Longrightarrow> verifying (h, st, rs)"
    "st \<in> {VERIFICATION_FAILED, VERIFICATION_INCONCLUSIVE} \<Longrightarrow> verifying (h, st, rs)"
    "stopped_track (h, st, rs) \<Longrightarrow> can_transition st t \<Longrightarrow> t \<in> {SUPERSEDED, FAILED}"
  using assms by (auto simp: on_track_def can_transition_def elim!: early_cases)

lemma goes_prolongs:
  assumes "goes x y" and "on_track x" shows "prolongs x y"
  using assms
proof cases
  case (advanced st t h rs)
  then show ?thesis
    using assms(2) on_track_states(3) [of h st rs t] prolongs_early [of h st rs t]
      prolongs_verifying [of h st rs t]
    by (auto simp: on_track_def)
next
  case (judged h rs v)
  then show ?thesis using prolongs_judged on_track_states(1) assms(2) by blast
next
  case (reopened st h rs)
  then show ?thesis using prolongs_reopened on_track_states(2) assms(2) by blast
qed

text \<open>What the closure of the moves keeps: the way is a prefix of the later one, and legal.\<close>

abbreviation moves_to :: "track \<Rightarrow> track \<Rightarrow> bool" where
  "moves_to \<equiv> goes\<^sup>*\<^sup>*"

lemma legal_path_append:
  "legal_path s (xs @ ys) \<longleftrightarrow> legal_path s xs \<and> legal_path (last (s # xs)) ys"
  by (induction xs arbitrary: s) auto

lemma moves_way:
  assumes "moves_to x y" and "on_track x"
  shows "on_track y \<and> (\<exists>zs. way y = way x @ zs \<and> legal_path (last (way x)) zs)"
  using assms
proof (induction rule: rtranclp_induct)
  case base
  then show ?case by simp
next
  case (step y z)
  then obtain zs where y: "on_track y" "way y = way x @ zs" "legal_path (last (way x)) zs" by blast
  from goes_prolongs [OF step.hyps(2) y(1)] obtain us where
    z: "on_track z" "way z = way y @ us" "legal_path (last (way y)) us" by (auto simp: prolongs_def)
  have "last (way y) = last (last (way x) # zs)"
    using y(2) on_track_last [of "fst x" "fst (snd x)" "snd (snd x)"] step.prems by (cases "zs = []") auto
  with y z show ?case by (intro conjI exI [of _ "zs @ us"]) (simp_all add: legal_path_append)
qed

lemma moves_prefix: "moves_to x y \<Longrightarrow> on_track x \<Longrightarrow> prefix (way x) (way y)"
  using moves_way by (metis prefixI)

text \<open>The history lists states of the way, in its order.\<close>

lemma goes_history:
  assumes "goes x y" and "on_track x" and "subseq (fst x) (butlast (way x))"
  shows "subseq (fst y) (butlast (way y))"
proof -
  from goes_prolongs [OF assms(1,2)] obtain zs where zs: "way y = way x @ zs" "zs \<noteq> []"
    by (auto simp: prolongs_def)
  have "way x \<noteq> [] \<and> last (way x) = fst (snd x)"
    using on_track_last [of "fst x" "fst (snd x)" "snd (snd x)"] assms(2) by simp
  then have w: "way y = butlast (way x) @ [fst (snd x)] @ zs"
    using zs(1) append_butlast_last_id [of "way x"] by (metis append_assoc)
  then have "butlast (way y) = butlast (way x) @ [fst (snd x)] @ butlast zs"
    using zs(2) by (simp add: butlast_append)
  moreover have "fst y \<in> {fst x, fst x @ [fst (snd x)]}" using assms(1) by cases simp_all
  moreover have "subseq (fst x @ [fst (snd x)]) (butlast (way x) @ [fst (snd x)] @ butlast zs)"
    using list_emb_append_mono [OF assms(3), of "[fst (snd x)]" "[fst (snd x)] @ butlast zs"] by simp
  moreover have "subseq (fst x) (butlast (way x) @ [fst (snd x)] @ butlast zs)"
    using assms(3) by (rule list_emb_prefix)
  ultimately show ?thesis by auto
qed

lemma moves_history:
  "moves_to x y \<Longrightarrow> on_track x \<Longrightarrow> subseq (fst x) (butlast (way x)) \<Longrightarrow> subseq (fst y) (butlast (way y))"
  by (induction rule: rtranclp_induct) (use moves_way goes_history in blast)+

text \<open>A complete session went the one way.\<close>

lemma complete_way:
  assumes "on_track (h, PROOF_COMPLETE, rs)"
  shows "rs \<noteq> [] \<and> last rs = VR_PASS \<and> VR_PASS \<notin> set (butlast rs) \<and>
    way (h, PROOF_COMPLETE, rs) = PROGRESS @ AWAITING_FIELD_VERIFICATION #
      retries (map VERDICT_STATE (butlast rs)) @ [VERIFICATION_PASSED, PROOF_COMPLETE]"
proof -
  have "\<not> early (h, PROOF_COMPLETE, rs)" by (auto elim!: early_cases)
  moreover have "\<not> verifying (h, PROOF_COMPLETE, rs)"
    using verdict_states(1) [of "last rs"] by (auto simp: verifying.simps)
  ultimately obtain h0 x where x: "h = h0 @ [x]" "can_transition x PROOF_COMPLETE"
    "early (h0, x, rs) \<or> verifying (h0, x, rs)" using assms by (auto simp: on_track_def)
  then have "x = VERIFICATION_PASSED" using into_proof_complete by blast
  with x(3) have v: "verifying (h0, VERIFICATION_PASSED, rs)" by (auto elim!: early_cases)
  then have rs: "rs \<noteq> []" "VR_PASS \<notin> set (butlast rs)" "last rs = VR_PASS"
    using verdict_states(3) [of "last rs"] by (auto simp: verifying.simps)
  obtain rs0 where "rs = rs0 @ [VR_PASS]" using rs by (metis append_butlast_last_id)
  then have "judged_way rs = AWAITING_FIELD_VERIFICATION # retries (map VERDICT_STATE (butlast rs)) @
      [VERIFICATION_PASSED]"
    by (simp add: judged_way_retries del: judged_way_simps)
  with rs stopped_way [OF v, of PROOF_COMPLETE] verifying_way [OF v] x(1) \<open>x = VERIFICATION_PASSED\<close>
  show ?thesis by (simp del: way.simps)
qed

end
