(* ===== verification/Session_Invariant.thy ===== *)
theory Session_Invariant
  imports Session_Way
begin

text \<open>
  The invariant of a console session and the steps a request can take. \<open>follows\<close> relates a session to
  what a piece of a use case makes of it: the invariant is kept, the change and the identity stay, the
  state moves along the table, the recorded verdicts only grow. It is reflexive and transitive, every
  operation is shown to be one, and so every run of requests is.
\<close>

section \<open>The invariant\<close>

text \<open>States a workflow reaches only after the remediation ran, only after a validated delivery, and only
  after a passed verification.\<close>

definition EXECUTED_STATES :: "workflow_state set" where
  "EXECUTED_STATES =
     {REMEDIATION_COMPLETED, FRONTLINE_DELIVERY_COMPLETED, AWAITING_FIELD_VERIFICATION,
      VERIFICATION_PASSED, VERIFICATION_FAILED, VERIFICATION_INCONCLUSIVE, PROOF_COMPLETE}"

definition DELIVERED_STATES :: "workflow_state set" where
  "DELIVERED_STATES = EXECUTED_STATES - {REMEDIATION_COMPLETED}"

definition PASSED_STATES :: "workflow_state set" where
  "PASSED_STATES = {VERIFICATION_PASSED, PROOF_COMPLETE}"

lemmas state_sets = EXECUTED_STATES_def DELIVERED_STATES_def PASSED_STATES_def

text \<open>The receipt the session rests on resolves on the channel and binds the composed instruction.\<close>

definition delivered_ok :: "platform \<Rightarrow> session \<Rightarrow> bool" where
  "delivered_ok pf s \<longleftrightarrow>
     (\<exists>i ref r. sn_delta s = Some i \<and> sn_delivery_receipt_ref s = Some ref \<and>
        channel_resolve ref (sn_channel s) = Some r \<and>
        binds (pf_H pf) CHANNEL_LOCAL_PILOT
          \<lparr>dx_instruction = i, dx_expected_destination_ref = DESTINATION_REF, dx_rejection_ref = '''',
           dx_composed_at = sn_delta_composed_at s\<rparr> r)"

definition session_proof :: "session \<Rightarrow> stored_proof option" where
  "session_proof s = find_workflow (workflow_id_of s) (sn_proof_store s)"

definition passed_events :: "verification_event list \<Rightarrow> bool" where
  "passed_events es \<longleftrightarrow> es \<noteq> [] \<and> ve_verification_result (last es) = VR_PASS"

text \<open>The broker's grants are its own; field evidence is filed under its operation, the recorded verdicts
  are valid events, and nothing was submitted or judged whose operation is not on file.\<close>

definition operation_of :: "str \<Rightarrow> str" where
  "operation_of submission_id = ''obs-'' @ drop 4 submission_id"

definition submissions :: "session \<Rightarrow> str set" where
  "submissions s = set (sn_known_submission_ids s) \<union> ve_submission_id ` set (sn_verification_events s)"

definition intake_ok :: "session \<Rightarrow> bool" where
  "intake_ok s \<longleftrightarrow>
     broker_ok (sn_broker s) \<and> field_store_ok (sn_field_store s) \<and>
     list_all valid_event (sn_verification_events s) \<and>
     (\<forall>i\<in>submissions s. find_operation (operation_of i) (sn_field_store s) \<noteq> None)"

definition session_ok :: "platform \<Rightarrow> session \<Rightarrow> bool" where
  "session_ok pf s \<longleftrightarrow>
     wf_change_id (sn_workflow s) = ac_change_id (sn_change s) \<and>
     wf_source_version (sn_workflow s) = ac_source_version (sn_change s) \<and>
     state_of s \<notin> {SUPERSEDED, FAILED, FRONTLINE_DELIVERY_COMPLETED} \<and>
     verdicts_ok (sn_change s) (sn_workflow s) (sn_verification_events s) \<and>
     (passed_events (sn_verification_events s) \<longleftrightarrow> state_of s \<in> PASSED_STATES) \<and>
     channel_ok (pf_H pf) (sn_channel s) \<and>
     (\<forall>i. sn_delta s = Some i \<longrightarrow>
        sn_validated_execution s \<noteq> None \<and> di_change_id i = ac_change_id (sn_change s)) \<and>
     (state_of s \<in> EXECUTED_STATES \<longrightarrow> sn_validated_execution s \<noteq> None) \<and>
     (state_of s \<in> DELIVERED_STATES \<longrightarrow> delivered_ok pf s) \<and>
     proof_store_ok (pf_isoformat pf) (sn_proof_store s) \<and>
     (session_proof s \<noteq> None \<longleftrightarrow> state_of s = PROOF_COMPLETE) \<and>
     wf_proof_id (sn_workflow s) = map_option (\<lambda>p. cp_proof_id (sp_proof p)) (session_proof s) \<and>
     intake_ok s"

section \<open>Steps\<close>

text \<open>The records of the session move along the table.\<close>

definition moves :: "session \<Rightarrow> session \<Rightarrow> bool" where
  "moves s s' \<longleftrightarrow> moves_to (track_of s) (track_of s')"

lemma moves_same: "track_of s' = track_of s \<Longrightarrow> moves s s'"
  by (simp add: moves_def)

lemma moves_step: "goes (track_of s) (track_of s') \<Longrightarrow> moves s s'"
  by (simp add: moves_def)

lemma moves_trans: "moves s s' \<Longrightarrow> moves s' s'' \<Longrightarrow> moves s s''"
  unfolding moves_def by (rule rtranclp_trans)

text \<open>The evidence on file stays on file, as it is.\<close>

definition keeps_evidence :: "session \<Rightarrow> session \<Rightarrow> bool" where
  "keeps_evidence s s' \<longleftrightarrow>
     (\<forall>k d. find_operation k (sn_field_store s) = Some d \<longrightarrow> find_operation k (sn_field_store s') = Some d)"

lemma keeps_same: "sn_field_store s' = sn_field_store s \<Longrightarrow> keeps_evidence s s'"
  by (simp add: keeps_evidence_def)

lemma keeps_trans: "keeps_evidence s s' \<Longrightarrow> keeps_evidence s' s'' \<Longrightarrow> keeps_evidence s s''"
  by (simp add: keeps_evidence_def)

definition follows :: "platform \<Rightarrow> session \<Rightarrow> session \<Rightarrow> bool" where
  "follows pf s s' \<longleftrightarrow>
     (session_ok pf s \<longrightarrow>
        session_ok pf s' \<and> sn_change s' = sn_change s \<and> workflow_id_of s' = workflow_id_of s \<and>
        moves s s' \<and> keeps_evidence s s' \<and>
        (\<exists>new. sn_verification_events s' = sn_verification_events s @ new))"

lemma followsI:
  assumes "session_ok pf s \<Longrightarrow> session_ok pf s'"
    and "session_ok pf s \<Longrightarrow> sn_change s' = sn_change s"
    and "session_ok pf s \<Longrightarrow> workflow_id_of s' = workflow_id_of s"
    and "session_ok pf s \<Longrightarrow> moves s s'"
    and "session_ok pf s \<Longrightarrow> keeps_evidence s s'"
    and "session_ok pf s \<Longrightarrow> sn_verification_events s' = sn_verification_events s"
  shows "follows pf s s'"
  using assms by (auto simp: follows_def)

lemma follows_refl [simp, intro]: "follows pf s s"
  by (rule followsI) (simp_all add: moves_same keeps_same)

lemma follows_trans [trans]: "follows pf s s' \<Longrightarrow> follows pf s' s'' \<Longrightarrow> follows pf s s''"
  unfolding follows_def using moves_trans keeps_trans by (metis append.assoc)

lemma follows_ok: "follows pf s s' \<Longrightarrow> session_ok pf s \<Longrightarrow> session_ok pf s'"
  by (simp add: follows_def)

text \<open>The part of a session the invariant reads.\<close>

definition core where
  "core s = (sn_workflow s, sn_change s, sn_verification_events s, sn_channel s, sn_delta s,
     sn_delta_composed_at s, sn_delivery_receipt_ref s, sn_validated_execution s, sn_proof_store s,
     sn_state_history s, sn_broker s, sn_field_store s, sn_known_submission_ids s)"

lemma coreD:
  assumes "core s' = core s"
  shows "sn_workflow s' = sn_workflow s" "sn_change s' = sn_change s"
    "sn_verification_events s' = sn_verification_events s" "sn_channel s' = sn_channel s"
    "sn_delta s' = sn_delta s" "sn_delta_composed_at s' = sn_delta_composed_at s"
    "sn_delivery_receipt_ref s' = sn_delivery_receipt_ref s"
    "sn_validated_execution s' = sn_validated_execution s" "sn_proof_store s' = sn_proof_store s"
    "sn_state_history s' = sn_state_history s" "sn_broker s' = sn_broker s"
    "sn_field_store s' = sn_field_store s" "sn_known_submission_ids s' = sn_known_submission_ids s"
  using assms unfolding core_def prod.inject by blast+

lemma session_ok_core:
  assumes "core s' = core s"
  shows "session_ok pf s' = session_ok pf s"
  unfolding session_ok_def delivered_ok_def session_proof_def workflow_id_of_def intake_ok_def
    submissions_def coreD [OF assms] ..

lemma follows_core:
  assumes "core s' = core s"
  shows "follows pf s s'"
  using moves_same [of s' s] keeps_same [of s' s]
  unfolding follows_def session_ok_core [OF assms] workflow_id_of_def track_of_def coreD [OF assms]
  by simp

lemma core_record_event [simp]: "core (record_event e s) = core s"
  by (simp add: record_event_def core_def)

lemma core_store_evidence [simp]: "core (store_evidence e s) = core s"
  by (simp add: store_evidence_def core_def)

lemma core_persist [simp]: "core (persist s) = core s"
  by (simp add: persist_def core_def)

lemma core_read_artifact [simp]: "core (fst (read_artifact i s)) = core s"
  by (simp add: read_artifact_def core_def split: prod.split)

section \<open>Moving the workflow\<close>

definition moved :: "workflow_state \<Rightarrow> datetime \<Rightarrow> session \<Rightarrow> session" where
  "moved target t s =
     s\<lparr>sn_workflow := (sn_workflow s)\<lparr>wf_state := target, wf_updated_at := t\<rparr>,
       sn_state_history := sn_state_history s @ [state_of s]\<rparr>"

lemma core_advance:
  "core (advance target t s) =
     core (if can_transition (state_of s) target then moved target t s else s)"
  by (simp add: advance_def transition_def assert_transition_allowed_def Let_def persist_def core_def moved_def)

lemma verdicts_ok_moved:
  "verdicts_ok change w events \<Longrightarrow> \<forall>v. target \<noteq> VERDICT_STATE v \<Longrightarrow>
     verdicts_ok change (w\<lparr>wf_state := target, wf_updated_at := t\<rparr>) events"
  by (simp add: verdicts_ok_def)

lemma not_verdict_state: "target \<notin> {VERIFICATION_PASSED, VERIFICATION_FAILED, VERIFICATION_INCONCLUSIVE} \<Longrightarrow>
    \<forall>v. target \<noteq> VERDICT_STATE v"
proof
  fix v assume "target \<notin> {VERIFICATION_PASSED, VERIFICATION_FAILED, VERIFICATION_INCONCLUSIVE}"
  then show "target \<noteq> VERDICT_STATE v" by (cases v) auto
qed

lemma leaves_passed: "can_transition s t \<Longrightarrow> t \<notin> {PROOF_COMPLETE, SUPERSEDED, FAILED} \<Longrightarrow> s \<notin> PASSED_STATES"
  by (auto simp: PASSED_STATES_def can_transition_def)

text \<open>The states the service asks for before a verdict and rests in.\<close>

definition working_state :: "workflow_state \<Rightarrow> bool" where
  "working_state t \<longleftrightarrow>
     t \<in> {IMPACT_DETERMINED, REMEDIATION_PENDING, REVIEW_REQUIRED, REMEDIATION_COMPLETED,
          AWAITING_FIELD_VERIFICATION}"

lemma moved_ok:
  assumes ok: "session_ok pf s" and p: "state_of s \<notin> PASSED_STATES" and t: "working_state target"
    and ex: "target \<in> EXECUTED_STATES \<Longrightarrow> sn_validated_execution s \<noteq> None"
    and dl: "target \<in> DELIVERED_STATES \<Longrightarrow> delivered_ok pf s"
  shows "session_ok pf (moved target time s)"
proof -
  from t have n: "target \<notin> {PROOF_COMPLETE, SUPERSEDED, FAILED, VERIFICATION_PASSED, VERIFICATION_FAILED,
      VERIFICATION_INCONCLUSIVE, FRONTLINE_DELIVERY_COMPLETED}" by (auto simp: working_state_def)
  from p have q: "state_of s \<noteq> PROOF_COMPLETE" "target \<notin> PASSED_STATES" using n by (auto simp: PASSED_STATES_def)
  have v: "verdicts_ok (sn_change s)
      ((sn_workflow s)\<lparr>wf_state := target, wf_updated_at := time\<rparr>) (sn_verification_events s)"
    using ok n by (intro verdicts_ok_moved not_verdict_state) (auto simp: session_ok_def)
  have d: "delivered_ok pf (moved target time s) = delivered_ok pf s"
    by (simp add: delivered_ok_def moved_def)
  have w: "session_proof (moved target time s) = session_proof s"
    "intake_ok (moved target time s) = intake_ok s"
    by (simp_all add: session_proof_def moved_def workflow_id_of_def intake_ok_def submissions_def)
  show ?thesis
    using ok v ex dl d n p q w unfolding session_ok_def by (simp add: moved_def)
qed

lemma advance_follows:
  assumes "working_state target"
    and "session_ok pf s \<Longrightarrow> target \<in> EXECUTED_STATES \<Longrightarrow> sn_validated_execution s \<noteq> None"
    and "session_ok pf s \<Longrightarrow> target \<in> DELIVERED_STATES \<Longrightarrow> can_transition (state_of s) target \<Longrightarrow> delivered_ok pf s"
  shows "follows pf s (advance target t s)"
proof (cases "can_transition (state_of s) target")
  case False
  then show ?thesis using core_advance [of target t s] by (simp add: follows_core)
next
  case True
  then have c: "core (advance target t s) = core (moved target t s)" by (simp add: core_advance)
  have n: "target \<notin> {PROOF_COMPLETE, SUPERSEDED, FAILED, VERIFICATION_PASSED, VERIFICATION_FAILED,
      VERIFICATION_INCONCLUSIVE}" using assms(1) by (auto simp: working_state_def)
  then have "goes (track_of s) (track_of (moved target t s))"
    using goes.advanced [OF True] by (simp add: track_of_def moved_def)
  then have "follows pf s (moved target t s)"
    using moved_ok [of pf s target] leaves_passed [OF True] n assms True
    by (intro followsI moves_step keeps_same) (simp_all add: moved_def workflow_id_of_def)
  then show ?thesis using follows_core [OF c] follows_trans by blast
qed

text \<open>A delivery asks for two states at once and never rests in the first.\<close>

lemma session_ok_history [simp]: "session_ok pf (s\<lparr>sn_state_history := h\<rparr>) = session_ok pf s"
  by (simp add: session_ok_def delivered_ok_def session_proof_def workflow_id_of_def intake_ok_def
      submissions_def)

lemma core_moved: "core s = core s' \<Longrightarrow> core (moved target t s) = core (moved target t s')"
  by (simp add: core_def moved_def)

lemma advance_delivered_follows:
  assumes ex: "session_ok pf s \<Longrightarrow> sn_validated_execution s \<noteq> None"
    and dl: "session_ok pf s \<Longrightarrow> delivered_ok pf s"
  shows "follows pf s (advance AWAITING_FIELD_VERIFICATION u (advance FRONTLINE_DELIVERY_COMPLETED t s))"
proof (cases "can_transition (state_of s) FRONTLINE_DELIVERY_COMPLETED")
  case False
  then have c: "core (advance FRONTLINE_DELIVERY_COMPLETED t s) = core s"
    using core_advance [of FRONTLINE_DELIVERY_COMPLETED t s] by simp
  have "delivered_ok pf (advance FRONTLINE_DELIVERY_COMPLETED t s) = delivered_ok pf s"
    unfolding delivered_ok_def coreD [OF c] ..
  then have "follows pf (advance FRONTLINE_DELIVERY_COMPLETED t s)
      (advance AWAITING_FIELD_VERIFICATION u (advance FRONTLINE_DELIVERY_COMPLETED t s))"
    using ex dl session_ok_core [OF c, of pf] coreD(8) [OF c]
    by (intro advance_follows) (simp_all add: working_state_def)
  with follows_core [OF c] show ?thesis by (rule follows_trans)
next
  case True
  let ?m = "moved AWAITING_FIELD_VERIFICATION u (moved FRONTLINE_DELIVERY_COMPLETED t s)"
  have c: "core (advance FRONTLINE_DELIVERY_COMPLETED t s) = core (moved FRONTLINE_DELIVERY_COMPLETED t s)"
    using core_advance [of FRONTLINE_DELIVERY_COMPLETED t s] True by simp
  have st: "state_of (advance FRONTLINE_DELIVERY_COMPLETED t s) = FRONTLINE_DELIVERY_COMPLETED"
    using coreD(1) [OF c] by (simp add: moved_def)
  have next_state: "can_transition FRONTLINE_DELIVERY_COMPLETED AWAITING_FIELD_VERIFICATION"
    by (simp add: can_transition_def)
  have m: "core (advance AWAITING_FIELD_VERIFICATION u (advance FRONTLINE_DELIVERY_COMPLETED t s)) = core ?m"
    using core_advance [of AWAITING_FIELD_VERIFICATION u "advance FRONTLINE_DELIVERY_COMPLETED t s"] st
      next_state core_moved [OF c] by simp
  have eq: "?m = (moved AWAITING_FIELD_VERIFICATION u s)\<lparr>sn_state_history :=
      sn_state_history s @ [state_of s, FRONTLINE_DELIVERY_COMPLETED]\<rparr>"
    by (simp add: moved_def)
  have "goes (track_of s) (track_of (moved FRONTLINE_DELIVERY_COMPLETED t s))"
    using goes.advanced [OF True] by (simp add: track_of_def moved_def)
  moreover have "goes (track_of (moved FRONTLINE_DELIVERY_COMPLETED t s)) (track_of ?m)"
    using goes.advanced [OF next_state, of "sn_state_history s @ [state_of s]"] by (simp add: track_of_def moved_def)
  ultimately have "moves s ?m" by (simp add: moves_def)
  moreover have "session_ok pf ?m" if "session_ok pf s"
    unfolding eq session_ok_history
    using moved_ok [OF that _ _ ex dl, of AWAITING_FIELD_VERIFICATION u] leaves_passed [OF True] that ex dl
    by (simp add: working_state_def)
  ultimately have "follows pf s ?m"
    by (intro followsI keeps_same) (simp_all add: moved_def workflow_id_of_def)
  then show ?thesis using follows_core [OF m] follows_trans by blast
qed

lemma advance_early_follows [simp, intro]:
  "target \<in> {IMPACT_DETERMINED, REMEDIATION_PENDING, REVIEW_REQUIRED} \<Longrightarrow> follows pf s (advance target t s)"
  by (rule advance_follows) (auto simp: working_state_def state_sets)

lemma advance_executed [simp]:
  "sn_validated_execution (advance target t s) = sn_validated_execution s"
  "sn_delta (advance target t s) = sn_delta s"
  "sn_delta_composed_at (advance target t s) = sn_delta_composed_at s"
  "sn_delivery_receipt_ref (advance target t s) = sn_delivery_receipt_ref s"
  "sn_channel (advance target t s) = sn_channel s"
  by (simp_all add: advance_def transition_def assert_transition_allowed_def Let_def persist_def)

lemma review_required_follows [simp, intro]: "follows pf s (review_required t1 t2 s)"
  unfolding review_required_def by (rule follows_trans [of _ _ "advance IMPACT_DETERMINED t1 s"]) simp_all

text \<open>Edits of the workflow that leave what the invariant reads of it.\<close>

definition same_record :: "workflow \<Rightarrow> workflow \<Rightarrow> bool" where
  "same_record w w' \<longleftrightarrow>
     wf_workflow_id w' = wf_workflow_id w \<and> wf_change_id w' = wf_change_id w \<and>
     wf_source_version w' = wf_source_version w \<and> wf_state w' = wf_state w \<and>
     wf_verification_events w' = wf_verification_events w \<and>
     wf_latest_verification_status w' = wf_latest_verification_status w \<and>
     wf_proof_id w' = wf_proof_id w"

lemma edited_ok:
  assumes "session_ok pf s" and "same_record (sn_workflow s) w'"
  shows "session_ok pf (s\<lparr>sn_workflow := w'\<rparr>)"
proof -
  have "verdicts_ok (sn_change s) w' (sn_verification_events s)"
    using assms by (simp add: session_ok_def verdicts_ok_def same_record_def)
  moreover have "session_proof (s\<lparr>sn_workflow := w'\<rparr>) = session_proof s"
    using assms(2) by (simp add: session_proof_def workflow_id_of_def same_record_def)
  moreover have "delivered_ok pf (s\<lparr>sn_workflow := w'\<rparr>) = delivered_ok pf s"
    "intake_ok (s\<lparr>sn_workflow := w'\<rparr>) = intake_ok s"
    by (simp_all add: delivered_ok_def intake_ok_def submissions_def)
  ultimately show ?thesis
    using assms unfolding session_ok_def by (simp add: same_record_def)
qed

lemma edited_follows:
  assumes "same_record (sn_workflow s) w'"
  shows "follows pf s (s\<lparr>sn_workflow := w'\<rparr>)"
  using edited_ok [OF _ assms] assms
  by (intro followsI moves_same keeps_same) (simp_all add: workflow_id_of_def same_record_def track_of_def)

section \<open>Answers\<close>

lemma core_read: "read_artifact i s = (s1, r) \<Longrightarrow> core s1 = core s"
  using core_read_artifact [of i s] by simp

lemma core_affected_artifact_ref [simp]: "core (fst (affected_artifact_ref s)) = core s"
proof (cases "read_artifact (the (sn_qualified_artifact_id s)) s")
  case (Pair s1 r)
  with core_read [OF Pair] show ?thesis by (simp add: affected_artifact_ref_def)
qed

lemma core_session_proof_context [simp]: "core (fst (session_proof_context pf s)) = core s"
proof (cases "sn_impact_resolution s = None \<or> sn_remediation_evidence s = None \<or>
    \<not> truthy (sn_delivery_receipt_ref s)")
  case True
  then show ?thesis by (auto simp: session_proof_context_def split: option.splits)
next
  case False
  then obtain impact ev where "sn_impact_resolution s = Some impact" "sn_remediation_evidence s = Some ev"
    by auto
  with False core_affected_artifact_ref [of s] show ?thesis
    by (cases "affected_artifact_ref s"; cases "snd (affected_artifact_ref s)")
      (simp_all add: session_proof_context_def)
qed

lemma core_artifact_view [simp]: "core (fst (artifact_view s)) = core s"
  by (cases "sn_qualified_artifact_id s"; cases "read_artifact (the (sn_qualified_artifact_id s)) s")
    (auto simp: artifact_view_def dest: core_read)

lemma core_proof_state_view [simp]: "core (fst (proof_state_view pf s)) = core s"
  using core_session_proof_context [of pf s]
  by (cases "session_proof_context pf s") (simp add: proof_state_view_def)

lemma core_get_state [simp]: "core (fst (get_state pf cl s)) = core s"
  using core_artifact_view [of s]
  by (cases "artifact_view s"; cases "snd (artifact_view s)"; cases "cl_config cl")
    (simp_all add: get_state_def)

lemma core_respond [simp]: "core (fst (fst (respond pf cl sw))) = core (fst sw)"
proof -
  obtain s r where "get_state pf cl (fst sw) = (s, r)" by fastforce
  with core_get_state [of pf cl "fst sw"] show ?thesis
    by (cases r) (simp_all add: respond_def persists_def)
qed

lemma respond_follows: "follows pf s s' \<Longrightarrow> follows pf s (fst (fst (respond pf cl (s', w))))"
  using follows_trans follows_core [of "fst (fst (respond pf cl (s', w)))" s' pf] by simp

lemma follows_core_right: "follows pf s s' \<Longrightarrow> core s'' = core s' \<Longrightarrow> follows pf s s''"
  using follows_core follows_trans by blast

lemma record_event_follows: "follows pf s s' \<Longrightarrow> follows pf s (record_event e s')"
  by (erule follows_core_right) simp

text \<open>Fields outside the invariant.\<close>

lemma core_updates [simp]:
  "core (s\<lparr>sn_intel := a\<rparr>) = core s" "core (s\<lparr>sn_crossing_1 := b\<rparr>) = core s"
  "core (s\<lparr>sn_remediation := c\<rparr>) = core s" "core (s\<lparr>sn_remediation_requests := d\<rparr>) = core s"
  "core (s\<lparr>sn_crossing_2 := e\<rparr>) = core s" "core (s\<lparr>sn_security := f\<rparr>) = core s"
  "core (s\<lparr>sn_delivery := g\<rparr>) = core s" "core (s\<lparr>sn_acknowledgment := h\<rparr>) = core s"
  "core (s\<lparr>sn_field_verification := i\<rparr>) = core s" "core (s\<lparr>sn_field_attempts := j\<rparr>) = core s"
  "core (s\<lparr>sn_verdict := k\<rparr>) = core s" "core (s\<lparr>sn_proof := l\<rparr>) = core s"
  "core (s\<lparr>sn_ledger := m\<rparr>) = core s" "core (s\<lparr>sn_repository := n\<rparr>) = core s"
  "core (s\<lparr>sn_action_id := q\<rparr>) = core s" "core (s\<lparr>sn_qualified_artifact_id := u\<rparr>) = core s"
  "core (s\<lparr>sn_impact_resolution := v\<rparr>) = core s" "core (s\<lparr>sn_remediation_evidence := x\<rparr>) = core s"
  "core (s\<lparr>sn_provider_calls := z\<rparr>) = core s"
  "core (s\<lparr>sn_sink := sk\<rparr>) = core s"
  by (simp_all add: core_def)

end
