(* ===== verification/Session_Progress.thy ===== *)
theory Session_Progress
  imports Session_Invariant
begin

text \<open>
  Every use case of the console service follows the invariant and the table, and so does every run of
  requests.
\<close>

section \<open>The broker\<close>

lemma broker_follows:
  assumes "broker_ok (sn_broker s) \<Longrightarrow> broker_ok b"
  shows "follows pf s (s\<lparr>sn_broker := b\<rparr>)"
proof (rule followsI)
  assume ok: "session_ok pf s"
  have "delivered_ok pf (s\<lparr>sn_broker := b\<rparr>) = delivered_ok pf s"
    "session_proof (s\<lparr>sn_broker := b\<rparr>) = session_proof s"
    by (simp_all add: delivered_ok_def session_proof_def workflow_id_of_def)
  moreover have "intake_ok (s\<lparr>sn_broker := b\<rparr>)"
    using ok assms by (simp add: session_ok_def intake_ok_def submissions_def)
  ultimately show "session_ok pf (s\<lparr>sn_broker := b\<rparr>)" using ok by (simp add: session_ok_def)
qed (simp_all add: workflow_id_of_def moves_same keeps_same track_of_def)

lemma issued_follows:
  assumes "issue_grant mac h t c a v rnd now (sn_broker s) = (b, g)"
  shows "follows pf s (s\<lparr>sn_broker := b\<rparr>)"
  using broker_ok_step [OF issue_grant_is_step, of "sn_broker s" mac h t c a v rnd now] assms
  by (intro broker_follows) simp

lemma remediate_broker:
  assumes "remediate mac h H rd ap vr ctx clk rnd now i (b, l, r) = ((b', l', r'), x)" and "broker_ok b"
  shows "broker_ok b'"
proof (cases "missing_fields i = []")
  case False
  with assms show ?thesis by (simp add: remediate_def)
next
  case True
  obtain b1 g where i: "issue mac h (ri_artifact_id i) (ri_change_id i) (ri_source_version i) rnd now b = (b1, g)"
    by fastforce
  then have "broker_ok b1" using broker_ok_step [OF issue_is_step assms(2)] by (metis fst_conv)
  with assms(1) True i show ?thesis
    by (cases g) (auto simp: remediate_def split: prod.splits sum.splits)
qed

section \<open>Analysis and remediation\<close>

lemma qualify_impact_follows: "follows pf s (qualify_impact pf t1 t2 p s)"
proof -
  let ?known = "known_pairs (sn_catalog s) p"
  let ?res = "resolve_cardinality (qualify_candidates ?known (sn_change s))"
  let ?w = "(sn_workflow s)\<lparr>wf_candidate_artifact_refs := map (\<lambda>(c, _). cand_artifact_id c) ?known,
    wf_impact_reason := Some (impact_outcome_value (ir_outcome ?res))\<rparr>"
  have review: "follows pf s (review_required t1 t2 s')" if "core s' = core (s\<lparr>sn_workflow := ?w\<rparr>)" for s'
    using follows_trans [OF follows_core_right [OF edited_follows that] review_required_follows]
    by (simp add: same_record_def)
  have move: "follows pf s (advance IMPACT_DETERMINED t1 s')"
    if "core s' = core (s\<lparr>sn_workflow := ?w\<lparr>wf_affected_artifact_id := Some i\<rparr>\<rparr>)" for s' i
    using follows_trans [OF follows_core_right [OF edited_follows that] advance_early_follows]
    by (simp add: same_record_def)
  show ?thesis
    by (cases "ir_affected_artifact_id ?res") (simp_all add: qualify_impact_def Let_def, rule review, simp add: core_def record_event_def store_evidence_def,
      rule move, simp add: core_def record_event_def store_evidence_def)
qed

lemma after_analysis_follows: "follows pf s (after_analysis pf cl result s)"
proof (cases "proposal_succeeded result")
  case False
  have "follows pf s (review_required t u (record_event e s))" for t u e
    by (rule follows_trans [OF record_event_follows [OF follows_refl] review_required_follows])
  with False show ?thesis by (simp add: after_analysis_def)
next
  case True
  obtain s1 b where c: "validate_crossing_1 result s = (s1, b)" by fastforce
  then have "core s1 = core s" by (auto simp: validate_crossing_1_def Let_def)
  then have s1: "follows pf s s1" by (rule follows_core)
  show ?thesis
    using True c follows_trans [OF s1 review_required_follows] follows_trans [OF s1 qualify_impact_follows]
    by (simp add: after_analysis_def split: option.split)
qed

lemma analyze_change_follows: "follows pf (fst sw) (fst (fst (analyze_change pf cl sw)))"
proof (cases "cl_config cl")
  case (Inl e)
  then show ?thesis by (cases sw) (simp add: analyze_change_def)
next
  case (Inr dz)
  let ?f = "if semantic_enabled (dz_semantic_provider dz) then cl_semantic_factory cl else None"
  obtain s w where sw: "sw = (s, w)" by fastforce
  have step: "follows pf s (fst (fst (respond pf cl (s', w'))))" if "core s' = core s" for s' w'
    by (rule respond_follows [OF follows_core [OF that]])
  have judged: "follows pf s (fst (fst (respond pf cl (after_analysis pf cl result s', w'))))"
    if "core s' = core s" for s' w' result
    by (rule respond_follows [OF follows_trans [OF follows_core [OF that] after_analysis_follows]])
  show ?thesis
  proof (cases ?f)
    case None
    with Inr sw show ?thesis by (simp add: analyze_change_def Let_def step)
  next
    case (Some factory)
    show ?thesis
    proof (cases "factory (pv_semantic (dz_semantic_provider dz))")
      case None
      with Inr sw Some show ?thesis by (simp add: analyze_change_def Let_def step)
    next
      case c: (Some client)
      with Inr sw Some show ?thesis
        by (simp add: analyze_change_def Let_def record_analysis_def judged split: prod.split)
    qed
  qed
qed

lemma run_remediation_agent_follows:
  assumes "run_remediation_agent pf cl identity intent s = (s', r)"
  shows "follows pf s s'"
proof -
  obtain b l rp where run: "remediate (pf_mac pf) (identity_value identity) (pf_H pf) repo_read apply_requirement
      (verify (pf_mac pf)) (session_tool_context s) (cl_tool_clock cl) (cl_rnd cl)
      (Some (cl_now cl 9)) intent (sn_broker s, sn_ledger s, sn_repository s) = ((b, l, rp), r)"
    and s': "s' = s\<lparr>sn_broker := b, sn_ledger := l, sn_repository := rp\<rparr>"
    using assms by (auto simp: run_remediation_agent_def split: prod.splits)
  have c: "core s' = core (s\<lparr>sn_broker := b\<rparr>)" by (simp add: s' core_def)
  show ?thesis
    by (rule follows_core_right [OF broker_follows c]) (rule remediate_broker [OF run])
qed

lemma validate_crossing_2_core: "validate_crossing_2 pf a t e s = (s', b) \<Longrightarrow> core s' = core s"
  by (auto simp: validate_crossing_2_def split: prod.splits)

lemma record_remediation_core [simp]: "core (record_remediation result s) = core s"
  by (simp add: record_remediation_def Let_def)

lemma follows_assume: "(session_ok pf s \<Longrightarrow> follows pf s s') \<Longrightarrow> follows pf s s'"
  by (auto simp: follows_def)

lemma executed_follows: "follows pf s (s\<lparr>sn_validated_execution := Some x\<rparr>)"
proof (rule followsI)
  assume "session_ok pf s"
  moreover have "delivered_ok pf (s\<lparr>sn_validated_execution := Some x\<rparr>) = delivered_ok pf s"
    "session_proof (s\<lparr>sn_validated_execution := Some x\<rparr>) = session_proof s"
    "intake_ok (s\<lparr>sn_validated_execution := Some x\<rparr>) = intake_ok s"
    by (simp_all add: delivered_ok_def session_proof_def workflow_id_of_def intake_ok_def submissions_def)
  ultimately show "session_ok pf (s\<lparr>sn_validated_execution := Some x\<rparr>)"
    unfolding session_ok_def by simp
qed (simp_all add: workflow_id_of_def moves_same keeps_same track_of_def)

lemma delta_set_follows:
  assumes "session_ok pf s \<Longrightarrow> state_of s \<notin> DELIVERED_STATES" and "sn_validated_execution s \<noteq> None"
    and "di_change_id i = ac_change_id (sn_change s)"
  shows "follows pf s (s\<lparr>sn_delta := Some i, sn_delta_composed_at := Some t\<rparr>)"
proof (rule followsI)
  assume "session_ok pf s"
  moreover have "session_proof (s\<lparr>sn_delta := Some i, sn_delta_composed_at := Some t\<rparr>) = session_proof s"
    "intake_ok (s\<lparr>sn_delta := Some i, sn_delta_composed_at := Some t\<rparr>) = intake_ok s"
    by (simp_all add: session_proof_def workflow_id_of_def intake_ok_def submissions_def)
  ultimately show "session_ok pf (s\<lparr>sn_delta := Some i, sn_delta_composed_at := Some t\<rparr>)"
    using assms unfolding session_ok_def by simp
qed (simp_all add: workflow_id_of_def moves_same keeps_same track_of_def)

lemma composed_change:
  assumes "compose_delta change a i r = Inr c" and "dc_instruction c = Some d"
  shows "di_change_id d = ac_change_id change"
  using assms by (auto simp: compose_delta_def res_bind_Inr_iff split: if_splits)

lemma compose_follows:
  assumes "session_ok pf s \<Longrightarrow> state_of s \<notin> DELIVERED_STATES" and "sn_validated_execution s \<noteq> None"
  shows "follows pf s (fst (compose_session_delta t target s))"
proof -
  obtain s1 r where read: "read_artifact target s = (s1, r)" by fastforce
  note c = core_read [OF read]
  have s1: "follows pf s s1" by (rule follows_core [OF c])
  show ?thesis
  proof (cases r)
    case (Inl e)
    with read s1 show ?thesis by (simp add: compose_session_delta_def)
  next
    case (Inr a)
    let ?comp = "compose_delta (sn_change s1) a
      (''delta-'' @ ac_change_id (sn_change s1) @ CHR ''-'' # sn_session_id s1) (sn_rationale s1)"
    show ?thesis
    proof (cases ?comp)
      case (Inl e)
      with read \<open>r = Inr a\<close> s1 show ?thesis by (simp add: compose_session_delta_def)
    next
      case comp: (Inr x)
      show ?thesis
      proof (cases "if dc_status x = COMPOSED then dc_instruction x else None")
        case None
        with read \<open>r = Inr a\<close> comp show ?thesis
          using record_event_follows [OF s1] by (simp add: compose_session_delta_def)
      next
        case (Some i)
        then have "di_change_id i = ac_change_id (sn_change s1)"
          using composed_change [OF comp, of i] by (simp split: if_splits)
        then have "follows pf s1 (s1\<lparr>sn_delta := Some i, sn_delta_composed_at := Some t\<rparr>)"
          using assms coreD [OF c] session_ok_core [OF c] by (intro delta_set_follows) simp_all
        note d = follows_trans [OF s1 this]
        from read \<open>r = Inr a\<close> comp Some show ?thesis
          using record_event_follows [OF follows_core_right [OF d]]
          by (simp add: compose_session_delta_def)
      qed
    qed
  qed
qed

lemma state_advance: "state_of (advance target t s) = (if can_transition (state_of s) target then target else state_of s)"
  by (simp add: advance_def transition_def assert_transition_allowed_def Let_def persist_def)

lemma keep_execution_follows: "follows pf s (fst (keep_execution cl a target b s))"
proof (cases "sn_validated_execution s")
  case (Some x)
  then show ?thesis by (simp add: keep_execution_def)
next
  case None
  define s0 where "s0 = s\<lparr>sn_validated_execution := Some
     \<lparr>vx_evidence_id = ''remediation-evidence-'' @ sn_session_id s,
      vx_dispatch_count = rp_dispatch_count (sn_repository s), vx_accepted = rb_accepted b,
      vx_before_hash = rb_authoritative_before_hash b, vx_after_hash = rb_authoritative_after_hash b,
      vx_action_id = a\<rparr>\<rparr>"
  define s2 where "s2 = advance REMEDIATION_PENDING (cl_now cl 1) (advance IMPACT_DETERMINED (cl_now cl 0) s0)"
  define s3 where "s3 = advance REMEDIATION_COMPLETED (cl_now cl 2) s2"
  have s0: "follows pf s s0" "state_of s0 = state_of s" "sn_validated_execution s0 \<noteq> None"
    by (simp_all add: s0_def executed_follows)
  show ?thesis
  proof (rule follows_assume)
    assume "session_ok pf s"
    with None have "state_of s \<notin> EXECUTED_STATES" by (simp add: session_ok_def)
    with s0(2) have st: "state_of s3 \<notin> DELIVERED_STATES"
      by (auto simp: s3_def s2_def state_advance state_sets)
    have "follows pf s s2"
      using follows_trans [OF follows_trans [OF s0(1) advance_early_follows] advance_early_follows]
      by (simp add: s2_def)
    moreover have v: "sn_validated_execution s2 \<noteq> None" using s0(3) by (simp add: s2_def)
    then have "follows pf s2 s3"
      unfolding s3_def by (intro advance_follows) (auto simp: working_state_def state_sets)
    moreover have "follows pf s3 (fst (compose_session_delta (cl_now cl 3) target s3))"
      using st v by (intro compose_follows) (simp_all add: s3_def)
    ultimately have "follows pf s (fst (compose_session_delta (cl_now cl 3) target s3))"
      using follows_trans by blast
    then show "follows pf s (fst (keep_execution cl a target b s))"
      using None by (simp add: keep_execution_def s3_def s2_def s0_def)
  qed
qed

lemma after_remediation_follows: "follows pf s (fst (after_remediation pf cl a target result s))"
proof (cases "rm_evidence result")
  case None
  then show ?thesis by (simp add: after_remediation_def Let_def follows_core)
next
  case (Some ev)
  let ?s1 = "store_evidence (''remediation-evidence-'' @ sn_session_id s)
    ((record_remediation result s)\<lparr>sn_remediation_evidence := Some ev\<rparr>)"
  obtain s2 b where v: "validate_crossing_2 pf a target ev ?s1 = (s2, b)" by fastforce
  then have "follows pf s s2" by (intro follows_core) (simp add: validate_crossing_2_core)
  from follows_trans [OF this keep_execution_follows] Some v show ?thesis
    by (simp add: after_remediation_def Let_def)
qed

lemma deploy_change_follows: "follows pf (fst sw) (fst (fst (deploy_change pf cl sw)))"
proof (cases "\<exists>target a. sn_qualified_artifact_id (fst sw) = Some target \<and> sn_action_id (fst sw) = Some a")
  case False
  then show ?thesis
    by (cases sw) (auto simp: deploy_change_def follows_core split: option.splits)
next
  case True
  then obtain target a where q: "sn_qualified_artifact_id (fst sw) = Some target" "sn_action_id (fst sw) = Some a"
    by blast
  obtain s w where sw: "sw = (s, w)" by fastforce
  obtain s1 r where read: "read_artifact target (record_event ''REMEDIATION_REQUESTED'' s) = (s1, r)" by fastforce
  from core_read [OF read] have c1: "core s1 = core s" by simp
  show ?thesis
  proof (cases r)
    case (Inl e)
    with q sw read c1 show ?thesis by (simp add: deploy_change_def follows_core)
  next
    case (Inr artifact)
    obtain s2 r2 where agent: "run_remediation_agent pf cl REMEDIATION
        (remediation_intent_for pf a target artifact s1) s1 = (s2, r2)" by fastforce
    note f2 = follows_trans [OF follows_core [OF c1] run_remediation_agent_follows [OF agent]]
    show ?thesis
    proof (cases r2)
      case (Inl e)
      with q sw read Inr agent f2 show ?thesis by (simp add: deploy_change_def)
    next
      case r2: (Inr result)
      obtain s3 r3 where after: "after_remediation pf cl a target result s2 = (s3, r3)" by fastforce
      with follows_trans [OF f2 after_remediation_follows [of pf s2 cl a target result]]
      have "follows pf s s3" by simp
      with q sw read Inr agent r2 after show ?thesis
        by (cases r3) (simp_all add: deploy_change_def respond_follows)
    qed
  qed
qed

section \<open>The probe, delivery, acknowledgment\<close>

lemma record_probe_core [simp]: "core (record_probe pf result a b n s) = core s"
  by (simp add: record_probe_def Let_def)

lemma run_security_test_follows: "follows pf (fst sw) (fst (fst (run_security_test pf cl sw)))"
proof -
  obtain s0 w where sw: "sw = (s0, w)" by fastforce
  let ?s = "record_event ''SECURITY_REQUESTED'' s0"
  let ?t = "if truthy (sn_qualified_artifact_id ?s) then sn_qualified_artifact_id ?s
    else case ct_artifacts (sn_catalog ?s) of [] \<Rightarrow> None | a # _ \<Rightarrow> Some (da_artifact_id a)"
  show ?thesis
  proof (cases ?t)
    case None
    with sw show ?thesis by (simp add: run_security_test_def Let_def follows_core)
  next
    case (Some target)
    obtain s1 r1 where a: "read_artifact target ?s = (s1, r1)" by fastforce
    obtain s2 r2 where b: "read_artifact target s1 = (s2, r2)" by fastforce
    obtain s3 r3 where c: "run_remediation_agent pf cl ENABLEMENT (probe_intent pf target (projr r2) s2) s2 = (s3, r3)"
      by fastforce
    obtain s4 r4 where d: "read_artifact target s3 = (s4, r4)" by fastforce
    have k: "core s1 = core s0" "core s2 = core s0" using core_read [OF a] core_read [OF b] by simp_all
    note f3 = follows_trans [OF follows_core [OF k(2)] run_remediation_agent_follows [OF c]]
    note f4 = follows_core_right [OF f3 core_read [OF d]]
    show ?thesis
    proof (cases "isl r1 \<or> isl r2 \<or> isl r3 \<or> isl r4")
      case True
      then show ?thesis
        using sw Some a b c d k f3 f4
        by (cases r1; cases r2; cases r3; cases r4) (simp_all add: run_security_test_def Let_def follows_core)
    next
      case False
      then obtain v1 v2 v3 v4 where r: "r1 = Inr v1" "r2 = Inr v2" "r3 = Inr v3" "r4 = Inr v4"
        by (cases r1; cases r2; cases r3; cases r4) auto
      let ?p = "record_probe pf v3 v1 v4 (rp_dispatch_count (sn_repository s1)) s4"
      obtain s5 q where g: "get_state pf cl ?p = (s5, q)" by fastforce
      with core_get_state [of pf cl ?p] have "core s5 = core s4" by simp
      with sw Some a b c d r g follows_core_right [OF f4] show ?thesis
        by (simp add: run_security_test_def Let_def)
    qed
  qed
qed

lemma channel_follows:
  assumes "channel_ok (pf_H pf) (sn_channel s) \<Longrightarrow> channel_ok (pf_H pf) c"
    and "\<And>k r. channel_ok (pf_H pf) (sn_channel s) \<Longrightarrow> channel_resolve k (sn_channel s) = Some r \<Longrightarrow>
      channel_resolve k c = Some r"
  shows "follows pf s (s\<lparr>sn_channel := c\<rparr>)"
proof (rule followsI)
  assume ok: "session_ok pf s"
  then have c: "channel_ok (pf_H pf) (sn_channel s)" by (simp add: session_ok_def)
  have "delivered_ok pf (s\<lparr>sn_channel := c\<rparr>)" if "delivered_ok pf s"
    using that assms(2) [OF c] unfolding delivered_ok_def by fastforce
  moreover have "session_proof (s\<lparr>sn_channel := c\<rparr>) = session_proof s"
    "intake_ok (s\<lparr>sn_channel := c\<rparr>) = intake_ok s"
    by (simp_all add: session_proof_def workflow_id_of_def intake_ok_def submissions_def)
  ultimately show "session_ok pf (s\<lparr>sn_channel := c\<rparr>)"
    using ok assms(1) [OF c] unfolding session_ok_def by simp
qed (simp_all add: workflow_id_of_def moves_same keeps_same track_of_def)

text \<open>What a delivery in progress holds fixed.\<close>

definition delivering :: "platform \<Rightarrow> delta_instruction \<Rightarrow> session \<Rightarrow> session \<Rightarrow> bool" where
  "delivering pf i s s' \<longleftrightarrow>
     follows pf s s' \<and> sn_delta s' = Some i \<and> sn_delta_composed_at s' = sn_delta_composed_at s"

lemma begin_delivery_core: "begin_delivery cl i s = (s', r) \<Longrightarrow> core s' = core s"
  by (auto simp: begin_delivery_def split: sum.splits prod.splits)

lemma dispatch_keeps:
  assumes "dispatch_delivery pf cl i s = (s', r)"
  shows "follows pf s s' \<and> sn_delta s' = sn_delta s \<and> sn_delta_composed_at s' = sn_delta_composed_at s"
proof -
  obtain b g where issue: "issue_grant (pf_mac pf) (identity_value ENABLEMENT) (tool_value FRONTLINE_DELIVERY)
      DESTINATION_REF (ac_change_id (sn_change s)) (ac_source_version (sn_change s)) (cl_rnd cl)
      (Some (cl_now cl 3)) (sn_broker s) = (b, g)" by fastforce
  show ?thesis
  proof (cases g)
    case (Inl e)
    with assms issue have "s' = s\<lparr>sn_broker := b\<rparr>" by (simp add: dispatch_delivery_def)
    with issued_follows [OF issue] show ?thesis by simp
  next
    case (Inr grant)
    obtain c d where sent: "deliver_delta (deliver (pf_H pf)) CHANNEL_LOCAL_PILOT i DESTINATION_REF
        (cl_now cl 4) (Some grant)
        (Some (\<lambda>g. verify_grant (pf_mac pf) b g (tool_value FRONTLINE_DELIVERY))) (sn_channel s) = (c, d)"
      by fastforce
    with assms issue Inr have s': "s' = s\<lparr>sn_broker := b, sn_channel := c\<rparr>"
      by (simp add: dispatch_delivery_def)
    from sent obtain x where op: "deliver (pf_H pf) (di_instruction_id i) (di_change_id i) (delivery_payload i)
        DESTINATION_REF (cl_now cl 4) (Some grant)
        (Some (\<lambda>g. verify_grant (pf_mac pf) b g (tool_value FRONTLINE_DELIVERY))) (sn_channel s) = (c, x)"
      by (auto simp: deliver_delta_def split: prod.splits sum.splits)
    have "follows pf (s\<lparr>sn_broker := b\<rparr>) (s\<lparr>sn_broker := b\<rparr>\<lparr>sn_channel := c\<rparr>)"
      using deliver_ok [OF _ op] pilot.op_keeps [OF _ op] by (intro channel_follows) auto
    then have "follows pf s s'"
      using follows_trans [OF issued_follows [OF issue, of pf]] s' by simp
    with s' show ?thesis by simp
  qed
qed

lemma crossing_3_established:
  assumes ok: "channel_ok H c"
    and acc: "db_accepted (accept_delivery_result H channel_resolve channel_refs CHANNEL_LOCAL_PILOT res ctx c)"
    and rec: "db_receipt (accept_delivery_result H channel_resolve channel_refs CHANNEL_LOCAL_PILOT res ctx c) = Some r"
  shows "channel_resolve (receipt_evidence_ref r) c = Some r \<and> binds H CHANNEL_LOCAL_PILOT ctx r"
proof -
  from acc pilot.crossing_accepts_iff [OF ok, where result = res and ctx = ctx] obtain q where
    q: "channel_resolve (dr_delivery_evidence_ref res) c = Some q" "binds H CHANNEL_LOCAL_PILOT ctx q"
    by (auto simp: accepted_established)
  have "db_receipt (accept_delivery_result H channel_resolve channel_refs CHANNEL_LOCAL_PILOT res ctx c) =
      channel_resolve (dr_delivery_evidence_ref res) c"
    using acc by (auto simp: accept_delivery_result_def Let_def split: if_splits)
  with rec q have "q = r" by simp
  moreover have "dr_delivery_evidence_ref res = receipt_evidence_ref q"
    using ok q(1) unfolding channel_ok_def channel_resolve_def by blast
  ultimately show ?thesis using q by simp
qed

lemma binds_context:
  "binds H n ctx r \<Longrightarrow> dx_instruction ctx' = dx_instruction ctx \<Longrightarrow>
     dx_composed_at ctx' = dx_composed_at ctx \<Longrightarrow> binds H n ctx' r"
  by (simp add: binds_def)

lemma delivered_follows:
  assumes "session_ok pf s \<Longrightarrow> delivered_ok pf (s\<lparr>sn_delivery_receipt_ref := Some ref\<rparr>)"
  shows "follows pf s (s\<lparr>sn_delivery_receipt_ref := Some ref\<rparr>)"
proof (rule followsI)
  assume ok: "session_ok pf s"
  have "session_proof (s\<lparr>sn_delivery_receipt_ref := Some ref\<rparr>) = session_proof s"
    "intake_ok (s\<lparr>sn_delivery_receipt_ref := Some ref\<rparr>) = intake_ok s"
    by (simp_all add: session_proof_def workflow_id_of_def intake_ok_def submissions_def)
  with ok assms [OF ok] show "session_ok pf (s\<lparr>sn_delivery_receipt_ref := Some ref\<rparr>)"
    unfolding session_ok_def by simp
qed (simp_all add: workflow_id_of_def moves_same keeps_same track_of_def)

lemma finish_delivery_follows:
  assumes "validate_crossing_3 pf i d s0 = (s, verdict)" and "sn_delta s0 = Some i"
  shows "follows pf s (fst (finish_delivery cl verdict s))"
proof (cases "if db_accepted verdict then db_receipt verdict else None")
  case None
  then show ?thesis
    by (auto simp: finish_delivery_def follows_core split: sum.split)
next
  case (Some receipt)
  then have acc: "db_accepted verdict" "db_receipt verdict = Some receipt" by (auto split: if_splits)
  have s: "sn_delta s = Some i" "sn_channel s = sn_channel s0"
    "sn_delta_composed_at s = sn_delta_composed_at s0"
    and v: "verdict = accept_delivery_result (pf_H pf) channel_resolve channel_refs CHANNEL_LOCAL_PILOT
       (dd_result d)
       \<lparr>dx_instruction = i, dx_expected_destination_ref = DESTINATION_REF,
        dx_rejection_ref = ''rej-delivery-'' @ sn_session_id s0,
        dx_composed_at = sn_delta_composed_at s0\<rparr> (sn_channel s0)"
    using assms by (auto simp: validate_crossing_3_def Let_def store_evidence_def)
  let ?ref = "receipt_evidence_ref receipt"
  show ?thesis
  proof (cases "mark_completed (sn_delivery_action_id s) (cl_now cl 5) (Some ?ref) None False (sn_ledger s)")
    case (Inl e)
    with Some show ?thesis by (simp add: finish_delivery_def)
  next
    case (Inr lr)
    obtain l r where lr: "lr = (l, r)" by fastforce
    define s1 where "s1 = s\<lparr>sn_delivery_receipt_ref := Some ?ref\<rparr>"
    define s2 where "s2 = s1\<lparr>sn_workflow := (sn_workflow s)
      \<lparr>wf_delivery_status := Some ''DELIVERED'', wf_delivery_ref := Some ?ref\<rparr>\<rparr>"
    define s3 where "s3 = s\<lparr>sn_ledger := l, sn_delivery_receipt_ref := Some ?ref,
      sn_workflow := (sn_workflow s)
        \<lparr>wf_delivery_status := Some ''DELIVERED'', wf_delivery_ref := Some ?ref\<rparr>\<rparr>"
    show ?thesis
    proof (rule follows_assume)
      assume "session_ok pf s"
      then have "channel_ok (pf_H pf) (sn_channel s0)" using s(2) by (simp add: session_ok_def)
      note est = crossing_3_established [OF this acc [unfolded v]]
      then have "channel_resolve ?ref (sn_channel s0) = Some receipt" ..
      moreover have "binds (pf_H pf) CHANNEL_LOCAL_PILOT
        \<lparr>dx_instruction = i, dx_expected_destination_ref = DESTINATION_REF, dx_rejection_ref = '''',
         dx_composed_at = sn_delta_composed_at s0\<rparr> receipt"
        by (rule binds_context [OF conjunct2 [OF est]]) simp_all
      ultimately have d: "delivered_ok pf s1" "delivered_ok pf s3"
        using s by (simp_all add: delivered_ok_def s1_def s2_def s3_def)
      have "follows pf s s1" using delivered_follows [of pf s ?ref] d(1) by (simp add: s1_def)
      moreover have "follows pf s1 s2"
        unfolding s2_def by (rule edited_follows) (simp add: s1_def same_record_def)
      moreover have "follows pf s2 s3" by (rule follows_core) (simp add: s3_def s2_def s1_def core_def)
      moreover have ex: "sn_validated_execution s3 \<noteq> None" if "session_ok pf s3"
        using that s(1) by (simp add: session_ok_def s3_def s2_def s1_def)
      have "follows pf s3 (advance AWAITING_FIELD_VERIFICATION (cl_now cl 7)
            (advance FRONTLINE_DELIVERY_COMPLETED (cl_now cl 6) s3))"
        using ex d(2) by (intro advance_delivered_follows) simp_all
      ultimately have "follows pf s (advance AWAITING_FIELD_VERIFICATION (cl_now cl 7)
            (advance FRONTLINE_DELIVERY_COMPLETED (cl_now cl 6) s3))"
        using follows_trans by blast
      from record_event_follows [OF this] show "follows pf s (fst (finish_delivery cl verdict s))"
        using Some Inr lr by (simp add: finish_delivery_def s3_def)
    qed
  qed
qed

lemma send_delivery_follows:
  assumes "sn_delta s = Some i"
  shows "follows pf s (fst (send_delivery pf cl i s))"
proof -
  obtain s1 r1 where a: "begin_delivery cl i (record_event ''DELIVERY_REQUESTED'' s) = (s1, r1)" by fastforce
  from begin_delivery_core [OF a] have c1: "core s1 = core s" by simp
  then have f1: "follows pf s s1" by (rule follows_core)
  show ?thesis
  proof (cases r1)
    case (Inl e)
    with a f1 show ?thesis by (simp add: send_delivery_def)
  next
    case r1: (Inr u)
    obtain s2 r2 where b: "dispatch_delivery pf cl i s1 = (s2, r2)" by fastforce
    from dispatch_keeps [OF b] c1 assms have f2: "follows pf s1 s2" "sn_delta s2 = Some i"
      using coreD(5) [OF c1] by simp_all
    show ?thesis
    proof (cases r2)
      case (Inl e)
      with a b r1 follows_trans [OF f1 f2(1)] show ?thesis by (simp add: send_delivery_def)
    next
      case (Inr d)
      obtain s3 v where c: "validate_crossing_3 pf i d s2 = (s3, v)" by fastforce
      then have "core s3 = core s2" by (auto simp: validate_crossing_3_def Let_def)
      then have "follows pf s s3" using follows_trans [OF f1 follows_core_right [OF f2(1)]] by simp
      from follows_trans [OF this finish_delivery_follows [OF c f2(2)]] a b c r1 Inr show ?thesis
        by (simp add: send_delivery_def)
    qed
  qed
qed

lemma deliver_to_frontline_follows: "follows pf (fst sw) (fst (fst (deliver_to_frontline pf cl sw)))"
proof -
  obtain s w where sw: "sw = (s, w)" by fastforce
  have plain: "follows pf s (fst (fst (respond pf cl (s', w))))" if "core s' = core s" for s'
    using respond_follows [OF follows_core [OF that]] .
  show ?thesis
  proof (cases "sn_delta s")
    case None
    with sw show ?thesis by (simp add: deliver_to_frontline_def Let_def plain)
  next
    case (Some i)
    let ?send = "\<lambda>s'. case send_delivery pf cl i s' of
       (s1, Inl e) \<Rightarrow> ((s1, w), Inl e) | (s1, Inr u) \<Rightarrow> respond pf cl (s1, w)"
    have send: "follows pf s (fst (fst (?send s')))" if "core s' = core s" for s'
    proof -
      obtain s1 r where r: "send_delivery pf cl i s' = (s1, r)" by fastforce
      have "follows pf s s1"
        using follows_trans [OF follows_core [OF that] send_delivery_follows [of s' i pf cl]] r
          coreD(5) [OF that] Some by simp
      with r show ?thesis by (cases r) (simp_all add: respond_follows)
    qed
    show ?thesis
    proof (cases "decide_retry (sn_ledger s) (sn_delivery_action_id s)")
      case SAFE_TO_EXECUTE
      with sw Some send [of s] show ?thesis by (simp add: deliver_to_frontline_def Let_def)
    next
      case RETRY_ALREADY_COMPLETED
      with sw Some show ?thesis by (simp add: deliver_to_frontline_def Let_def plain)
    next
      case RECONCILIATION_REQUIRED
      let ?rec = "reconcile_delivery (sn_delivery_action_id s)
        (recoverable_receipt_ref (di_instruction_id i) (sn_channel s)) (cl_now cl 0) (sn_ledger s)"
      show ?thesis
      proof (cases ?rec)
        case (Inl e)
        with sw Some RECONCILIATION_REQUIRED show ?thesis by (simp add: deliver_to_frontline_def Let_def)
      next
        case (Inr x)
        obtain l out where x: "x = (l, out)" by fastforce
        show ?thesis
          using sw Some RECONCILIATION_REQUIRED Inr x
            send [of "record_event ''DELIVERY_RECONCILED'' (s\<lparr>sn_ledger := l\<rparr>)"]
            plain [of "record_event ''DELIVERY_UNCERTAIN_NO_RECEIPT'' (s\<lparr>sn_ledger := l\<rparr>)"]
          by (simp add: deliver_to_frontline_def Let_def)
      qed
    qed
  qed
qed

lemma acknowledge_frontline_follows: "follows pf (fst sw) (fst (fst (acknowledge_frontline pf cl c sw)))"
  by (cases sw) (auto simp: acknowledge_frontline_def Let_def follows_core split: option.split sum.split)

section \<open>Verdicts\<close>

lemma record_verdict_shape:
  assumes run: "record_verdict change c b store i t1 t2 (w, events) = ((w', events'), r)"
  obtains (kept) "reopen_for_new_evidence w t1 = Inr w'" "events' = events"
  | (judged) w1 e where "reopen_for_new_evidence w t1 = Inr w1" "wf_state w1 = AWAITING_FIELD_VERIFICATION"
      "events' = events @ [e]" "valid_event e" "ve_submission_id e \<in> fo_submission_id ` set_option (ob_accepted_observation b)"
      "w' = with_verdict e (w1\<lparr>wf_state := VERDICT_STATE (ve_verification_result e), wf_updated_at := t2\<rparr>)"
proof -
  obtain w1 where w1: "reopen_for_new_evidence w t1 = Inr w1" by (force simp: reopen_Inr)
  let ?ctx = "\<lparr>vc_workflow = w1, vc_change = change, vc_boundary = b, vc_store = store,
    vc_event_id = i, vc_occurred_at = t2, vc_data_classification = c, vc_existing_events = events\<rparr>"
  have step: "record_verdict change c b store i t1 t2 (w, events) =
    (case adjudicate_field_verification ?ctx of
       Inl e \<Rightarrow> ((w1, events), Inl e)
     | Inr v \<Rightarrow>
         ((case vd_workflow v of None \<Rightarrow> w1 | Some w2 \<Rightarrow> w2,
           case vd_event v of
             None \<Rightarrow> events
           | Some e \<Rightarrow> if duplicate v then events else events @ [e]), Inr v))"
    by (simp add: record_verdict_def w1)
  show thesis
  proof (cases rule: adjudicate_cases [of ?ctx])
    case (refused s w2)
    then have "w' = w1" "events' = events" using step run by (auto simp: refused_def)
    with w1 show thesis by (intro kept) simp_all
  next
    case (duplicate ob e)
    then have "w' = w1" "events' = events" using step run by (auto simp: reached_def duplicate_def)
    with w1 show thesis by (intro kept) simp_all
  next
    case (fresh ob)
    have v: "ve_verification_result (verdict_event ?ctx ob) = compared ob (ac_current_value change)"
      by (simp add: verdict_event_def)
    show thesis
    proof (rule judged [OF w1])
      show "wf_state w1 = AWAITING_FIELD_VERIFICATION" using fresh(1) by (simp add: adjudicable_def)
      show "events' = events @ [verdict_event ?ctx ob]"
        "w' = with_verdict (verdict_event ?ctx ob) (w1\<lparr>wf_state :=
           VERDICT_STATE (ve_verification_result (verdict_event ?ctx ob)), wf_updated_at := t2\<rparr>)"
        using fresh(4) step run v by (simp_all add: reached_def duplicate_def)
      show "valid_event (verdict_event ?ctx ob)" by (rule fresh(3))
      show "ve_submission_id (verdict_event ?ctx ob) \<in> fo_submission_id ` set_option (ob_accepted_observation b)"
        using fresh(1) by (simp add: adjudicable_def verdict_event_def new_verification_event_def)
    qed
  next
    case (invalid ob e)
    then have "w' = w1" "events' = events" using step run by auto
    with w1 show thesis by (intro kept) simp_all
  qed
qed

lemma reopened_states:
  assumes "reopen_for_new_evidence w t = Inr w1"
  shows "w1 = w \<or> can_transition (wf_state w) AWAITING_FIELD_VERIFICATION \<and>
     w1 = w\<lparr>wf_state := AWAITING_FIELD_VERIFICATION, wf_updated_at := t\<rparr>"
  using assms
  by (auto simp: reopen_for_new_evidence_def transition_def assert_transition_allowed_def split: if_splits)

lemma into_awaiting:
  "can_transition s AWAITING_FIELD_VERIFICATION \<Longrightarrow>
     s \<in> DELIVERED_STATES - PASSED_STATES - {AWAITING_FIELD_VERIFICATION}"
  by (cases s) (simp_all add: can_transition_def state_sets)

lemma verdict_state_sets [simp]:
  "VERDICT_STATE v \<in> DELIVERED_STATES" "VERDICT_STATE v \<in> EXECUTED_STATES"
  "VERDICT_STATE v \<in> PASSED_STATES \<longleftrightarrow> v = VR_PASS" "VERDICT_STATE v \<noteq> PROOF_COMPLETE"
  "VERDICT_STATE v \<noteq> FRONTLINE_DELIVERY_COMPLETED" "VERDICT_STATE v \<notin> {SUPERSEDED, FAILED}"
  by (cases v; simp add: state_sets)+

lemma record_verdict_effect:
  assumes run: "record_verdict change c b store i t1 t2 (w, events) = ((w', events'), r)"
    and passed: "passed_events events \<longleftrightarrow> wf_state w \<in> PASSED_STATES"
  shows "wf_change_id w' = wf_change_id w" "wf_source_version w' = wf_source_version w"
    "wf_proof_id w' = wf_proof_id w"
    "wf_state w' = wf_state w \<or> wf_state w \<in> DELIVERED_STATES - PASSED_STATES \<and>
       wf_state w' \<in> DELIVERED_STATES - {PROOF_COMPLETE, FRONTLINE_DELIVERY_COMPLETED}"
    "passed_events events' \<longleftrightarrow> wf_state w' \<in> PASSED_STATES"
    "wf_state w \<noteq> FRONTLINE_DELIVERY_COMPLETED \<Longrightarrow>
       moves_to (h, wf_state w, map ve_verification_result events)
         (h, wf_state w', map ve_verification_result events')"
proof -
  have reopened: "wf_change_id w1 = wf_change_id w" "wf_source_version w1 = wf_source_version w"
      "wf_proof_id w1 = wf_proof_id w"
      "wf_state w1 = wf_state w \<or> wf_state w \<in> DELIVERED_STATES - PASSED_STATES \<and>
         wf_state w1 = AWAITING_FIELD_VERIFICATION \<and> can_transition (wf_state w) AWAITING_FIELD_VERIFICATION"
    if "reopen_for_new_evidence w t1 = Inr w1" for w1
    using reopened_states [OF that] into_awaiting [of "wf_state w"] by auto
  have await: "AWAITING_FIELD_VERIFICATION \<in> DELIVERED_STATES - PASSED_STATES"
    by (simp add: state_sets)
  have waits: "moves_to (h, wf_state w, rs) (h, wf_state w1, rs)"
    if "reopen_for_new_evidence w t1 = Inr w1" "wf_state w \<noteq> FRONTLINE_DELIVERY_COMPLETED" for w1 rs
  proof -
    have "wf_state w1 = wf_state w \<or> wf_state w1 = AWAITING_FIELD_VERIFICATION \<and>
        wf_state w \<in> {VERIFICATION_FAILED, VERIFICATION_INCONCLUSIVE}"
      using that by (auto simp: reopen_Inr split: if_splits)
    then show ?thesis using goes.reopened by auto
  qed
  have goal: "wf_change_id w' = wf_change_id w \<and> wf_source_version w' = wf_source_version w \<and>
    wf_proof_id w' = wf_proof_id w \<and>
    (wf_state w' = wf_state w \<or> wf_state w \<in> DELIVERED_STATES - PASSED_STATES \<and>
       wf_state w' \<in> DELIVERED_STATES - {PROOF_COMPLETE, FRONTLINE_DELIVERY_COMPLETED}) \<and>
    (passed_events events' \<longleftrightarrow> wf_state w' \<in> PASSED_STATES) \<and>
    (wf_state w \<noteq> FRONTLINE_DELIVERY_COMPLETED \<longrightarrow>
       moves_to (h, wf_state w, map ve_verification_result events)
         (h, wf_state w', map ve_verification_result events'))"
    using run
  proof (cases rule: record_verdict_shape)
    case kept
    with reopened [OF kept(1)] waits [OF kept(1)] passed await show ?thesis by auto
  next
    case (judged w1 e)
    have "moves_to (h, wf_state w, map ve_verification_result events)
        (h, wf_state w', map ve_verification_result events')" if "wf_state w \<noteq> FRONTLINE_DELIVERY_COMPLETED"
      using rtranclp.rtrancl_into_rtrancl [OF waits [OF judged(1) that] goes.judged [folded judged(2)]]
        judged(2,3,6) goes.judged by simp
    moreover have "passed_events events' \<longleftrightarrow> wf_state w' \<in> PASSED_STATES"
      using judged(3,6) by (simp add: passed_events_def)
    moreover have "wf_state w \<in> DELIVERED_STATES - PASSED_STATES"
      using reopened(4) [OF judged(1)] judged(2) await by auto
    moreover have "wf_state w' \<in> DELIVERED_STATES - {PROOF_COMPLETE, FRONTLINE_DELIVERY_COMPLETED}"
      using judged(6) by simp
    ultimately show ?thesis using reopened(1-3) [OF judged(1)] judged(6)
      by (simp add: with_verdict_def)
  qed
  then show "wf_change_id w' = wf_change_id w" "wf_source_version w' = wf_source_version w"
    "wf_proof_id w' = wf_proof_id w"
    "wf_state w' = wf_state w \<or> wf_state w \<in> DELIVERED_STATES - PASSED_STATES \<and>
       wf_state w' \<in> DELIVERED_STATES - {PROOF_COMPLETE, FRONTLINE_DELIVERY_COMPLETED}"
    "passed_events events' \<longleftrightarrow> wf_state w' \<in> PASSED_STATES"
    "wf_state w \<noteq> FRONTLINE_DELIVERY_COMPLETED \<Longrightarrow>
       moves_to (h, wf_state w, map ve_verification_result events)
         (h, wf_state w', map ve_verification_result events')"
    by blast+
qed

text \<open>The operation a submission belongs to is on file.\<close>

abbreviation filed :: "session \<Rightarrow> str \<Rightarrow> bool" where
  "filed s i \<equiv> find_operation (operation_of i) (sn_field_store s) \<noteq> None"

lemma verdict_submissions:
  assumes "record_verdict change c b store i t1 t2 (w, events) = ((w', events'), r)"
  shows "ve_submission_id ` set events' \<subseteq>
    ve_submission_id ` set events \<union> fo_submission_id ` set_option (ob_accepted_observation b)"
  using assms by (cases rule: record_verdict_shape) auto

lemma verdict_valid:
  assumes "record_verdict change c b store i t1 t2 (w, events) = ((w', events'), r)"
  shows "list_all valid_event events' = list_all valid_event events"
  using assms by (cases rule: record_verdict_shape) auto

lemma judged_follows:
  assumes ok: "session_ok pf s"
    and run: "record_verdict (sn_change s) c b store i t1 t2 (sn_workflow s, sn_verification_events s) =
      ((w, events), r)"
    and filed: "\<And>ob. ob_accepted_observation b = Some ob \<Longrightarrow> filed s (fo_submission_id ob)"
  shows "follows pf s (s\<lparr>sn_workflow := w, sn_verification_events := events\<rparr>)"
proof -
  let ?s' = "s\<lparr>sn_workflow := w, sn_verification_events := events\<rparr>"
  have vs: "verdicts_ok (sn_change s) (sn_workflow s) (sn_verification_events s)"
    and ps: "passed_events (sn_verification_events s) \<longleftrightarrow> state_of s \<in> PASSED_STATES"
    using ok by (simp_all add: session_ok_def)
  from record_verdict_ok [OF vs run] have v: "verdicts_ok (sn_change s) w events"
    "wf_workflow_id w = wf_workflow_id (sn_workflow s)" "\<exists>new. events = sn_verification_events s @ new"
    by auto
  note e = record_verdict_effect [OF run ps]
  have sub: "DELIVERED_STATES \<subseteq> EXECUTED_STATES" "SUPERSEDED \<notin> DELIVERED_STATES" "FAILED \<notin> DELIVERED_STATES"
    "PROOF_COMPLETE \<in> PASSED_STATES" by (auto simp: state_sets)
  have p: "session_proof ?s' = session_proof s" using v(2) by (simp add: session_proof_def workflow_id_of_def)
  have d: "delivered_ok pf ?s' = delivered_ok pf s" by (simp add: delivered_ok_def)
  have st: "wf_state w \<notin> {SUPERSEDED, FAILED, FRONTLINE_DELIVERY_COMPLETED}" "wf_state w \<in> EXECUTED_STATES \<Longrightarrow> state_of s \<in> EXECUTED_STATES"
    "wf_state w \<in> DELIVERED_STATES \<Longrightarrow> state_of s \<in> DELIVERED_STATES"
    "wf_state w = PROOF_COMPLETE \<longleftrightarrow> state_of s = PROOF_COMPLETE"
    using e(4) sub ok unfolding session_ok_def by auto
  have k: "intake_ok ?s'"
    using ok filed verdict_submissions [OF run] verdict_valid [OF run]
    by (auto simp: session_ok_def intake_ok_def submissions_def)
  have "session_ok pf ?s'"
    using ok v(1) e(1,2,3,5) p d st k unfolding session_ok_def by simp
  moreover have "moves s ?s'" "keeps_evidence s ?s'"
    using e(6) [of "sn_state_history s"] ok by (simp_all add: moves_def track_of_def keeps_same session_ok_def)
  ultimately show ?thesis using v by (simp add: follows_def workflow_id_of_def)
qed

lemma adjudicate_session_follows:
  assumes "\<And>ob. ob_accepted_observation b = Some ob \<Longrightarrow> filed s (fo_submission_id ob)"
  shows "follows pf s (fst (adjudicate_session cl b s))"
proof (rule follows_assume)
  assume ok: "session_ok pf s"
  obtain w events r where run: "record_verdict (sn_change s) classification b (sn_field_store s)
      (''vev-'' @ sn_session_id s @ CHR ''-'' # pad_nat 3 (length (sn_verification_events s) + 1))
      (cl_now cl 1) (cl_now cl 2) (sn_workflow s, sn_verification_events s) = ((w, events), r)"
    by (metis prod.collapse)
  note f = judged_follows [OF ok run assms]
  show "follows pf s (fst (adjudicate_session cl b s))"
    using run f
    by (cases r) (auto simp: adjudicate_session_def Let_def split: option.split
        intro: record_event_follows follows_core_right)
qed

lemma find_operation_kept:
  assumes "field_store_ok f" and "find_operation k f = Some x"
  shows "find_operation k (fst (record_field tf i d t f)) = Some x"
proof -
  from assms have "field_resolve (field_evidence_ref k) f = Some x" by (auto simp: find_operation_eq)
  from fields.permanent [OF assms(1) this, of tf "[(i, d, t)]"]
  show ?thesis using record_field_ok [OF assms(1), of tf i d t] by (simp add: put_field_def find_operation_eq)
qed

lemma field_store_follows:
  "follows pf s (s\<lparr>sn_field_store := fst (record_field tf i d t (sn_field_store s))\<rparr>)" (is "follows pf s ?s'")
proof (rule followsI)
  assume ok: "session_ok pf s"
  have "delivered_ok pf ?s' = delivered_ok pf s" "session_proof ?s' = session_proof s"
    by (simp_all add: delivered_ok_def session_proof_def workflow_id_of_def)
  moreover have "find_operation k (fst (record_field tf i d t (sn_field_store s))) \<noteq> None"
    if "find_operation k (sn_field_store s) \<noteq> None" for k
    using find_operation_kept [of "sn_field_store s" k] ok that by (auto simp: session_ok_def intake_ok_def)
  then have "intake_ok ?s'"
    using ok record_field_ok by (simp add: session_ok_def intake_ok_def submissions_def)
  ultimately show "session_ok pf ?s'" using ok by (simp add: session_ok_def)
next
  assume "session_ok pf s"
  then show "keeps_evidence s ?s'"
    using find_operation_kept by (simp add: session_ok_def intake_ok_def keeps_evidence_def)
qed (simp_all add: workflow_id_of_def moves_same track_of_def)

lemma record_attempt_shape:
  assumes "record_attempt pf cl oid img result s = (s', r)"
  shows "\<exists>d. core s' =
    core (s\<lparr>sn_field_store := fst (record_field (pf_isoformat pf) oid d (cl_now cl 0) (sn_field_store s))\<rparr>) \<and>
    (isl r \<longleftrightarrow> isl (snd (record_field (pf_isoformat pf) oid d (cl_now cl 0) (sn_field_store s))))"
proof -
  let ?d = "dict_put ''failure_reason'' (json_opt (map_option (pf_failure_text pf) (or_failure_reason result)))
    (dict_put ''status'' (JStr (observation_status_value (or_status result)))
      (dict_put ''operation_id'' (JStr oid) (or_evidence result)))"
  obtain f q where "record_field (pf_isoformat pf) oid ?d (cl_now cl 0) (sn_field_store s) = (f, q)" by fastforce
  with assms show ?thesis
    by (intro exI [of _ ?d], cases q) (auto simp: record_attempt_def Let_def core_def store_evidence_def)
qed

lemma record_attempt_follows:
  assumes "record_attempt pf cl oid img result s = (s', r)"
  shows "follows pf s s'"
  using record_attempt_shape [OF assms] field_store_follows follows_core_right by blast

lemma record_attempt_filed:
  assumes "record_attempt pf cl oid img result s = (s', Inr u)" and "session_ok pf s"
  shows "find_operation oid (sn_field_store s') \<noteq> None"
proof -
  from record_attempt_shape [OF assms(1)] obtain d f ref where
    c: "core s' = core (s\<lparr>sn_field_store := f\<rparr>)"
    and f: "record_field (pf_isoformat pf) oid d (cl_now cl 0) (sn_field_store s) = (f, Inr ref)"
    by (auto simp: isl_def) (metis prod.collapse sum.exhaust)
  have "field_store_ok f"
    using record_field_ok [of "sn_field_store s" "pf_isoformat pf" oid d "cl_now cl 0"] f assms(2)
    by (simp add: session_ok_def intake_ok_def)
  then show ?thesis
    using record_field_Inr [OF f] coreD(12) [OF c] by (simp add: find_operation_eq)
qed

lemma validate_crossing_4_effect:
  assumes "validate_crossing_4 ob s = (s', v)"
  shows "core s' = core s" "ob_accepted_observation v \<in> {None, Some ob}"
  using assms by (auto simp: validate_crossing_4_def Let_def crossing4_result)

text \<open>Crossing 4 and the verdict, as the observation leaves them.\<close>

lemma judge_observation_follows:
  assumes "\<And>ob. observation_succeeded result \<Longrightarrow> or_observation result = Some ob \<Longrightarrow> filed s (fo_submission_id ob)"
  shows "follows pf s (fst (judge_observation cl result s))"
proof (cases "if observation_succeeded result then or_observation result else None")
  case None
  then show ?thesis by (simp add: judge_observation_def follows_core)
next
  case (Some ob)
  then have f: "filed s (fo_submission_id ob)" using assms by (simp split: if_splits)
  obtain s1 v where c: "validate_crossing_4 ob s = (s1, v)" by fastforce
  note c1 = validate_crossing_4_effect [OF c]
  note s1 = follows_core [OF c1(1)]
  have "filed s1 (fo_submission_id ob')" if "ob_accepted_observation v = Some ob'" for ob'
    using that c1(2) f coreD(12) [OF c1(1)] by auto
  note a1 = adjudicate_session_follows [OF this]
  obtain s2 r where a: "adjudicate_session cl v s1 = (s2, r)" by fastforce
  with follows_trans [OF s1 a1] have "follows pf s s2" by (metis fst_conv)
  with Some c s1 a show ?thesis by (simp add: judge_observation_def)
qed

lemma observed_submission:
  assumes "observe H rp minus_fl clock provider i img bytes ctx config grant verifier ref w = (Inr x, w')"
    and "observation_succeeded x" and "or_observation x = Some ob"
  shows "fo_submission_id ob = oc_submission_id ctx"
  using assms(1)
proof (cases rule: observe_cases)
  case unauthorized
  with assms(2) show ?thesis by (auto simp: unauthorized_result_def observation_succeeded_def)
qed (use assms(2,3) in \<open>auto simp: observation_succeeded_def split: if_splits\<close>)

lemma operation_of_submission:
  "operation_of (derive_submission_id H c v h) = derive_observation_operation_id H c v h"
  by (simp add: operation_of_def derive_observation_operation_id_def)

text \<open>A submission whose operation is on file becomes a known one.\<close>

lemma known_follows:
  assumes "filed s i"
  shows "follows pf s (s\<lparr>sn_known_submission_ids :=
    (if i \<in> set (sn_known_submission_ids s) then sn_known_submission_ids s
     else sn_known_submission_ids s @ [i])\<rparr>)" (is "follows pf s ?s'")
proof (rule followsI)
  assume ok: "session_ok pf s"
  have "delivered_ok pf ?s' = delivered_ok pf s" "session_proof ?s' = session_proof s"
    by (simp_all add: delivered_ok_def session_proof_def workflow_id_of_def)
  moreover have "intake_ok ?s'" using ok assms by (auto simp: session_ok_def intake_ok_def submissions_def)
  ultimately show "session_ok pf ?s'" using ok by (simp add: session_ok_def)
qed (simp_all add: workflow_id_of_def moves_same keeps_same track_of_def)

lemma judge_observation_store:
  "sn_field_store (fst (judge_observation cl result s)) = sn_field_store s"
proof (cases "if observation_succeeded result then or_observation result else None")
  case None
  then show ?thesis by (simp add: judge_observation_def record_event_def)
next
  case (Some ob)
  obtain s1 v where c: "validate_crossing_4 ob s = (s1, v)" by fastforce
  note k = coreD(12) [OF validate_crossing_4_effect(1) [OF c]]
  obtain w es r where run: "record_verdict (sn_change s1) classification v (sn_field_store s1)
      (''vev-'' @ sn_session_id s1 @ CHR ''-'' # pad_nat 3 (length (sn_verification_events s1) + 1))
      (cl_now cl 1) (cl_now cl 2) (sn_workflow s1, sn_verification_events s1) = ((w, es), r)"
    by (metis prod.collapse)
  have "sn_field_store (fst (adjudicate_session cl v s1)) = sn_field_store s1"
    using run by (cases r)
      (simp_all add: adjudicate_session_def Let_def record_event_def store_evidence_def split: option.split)
  with Some c k show ?thesis
    by (cases "adjudicate_session cl v s1") (simp add: judge_observation_def)
qed

lemma observe_and_judge_follows:
  "follows pf (fst sw) (fst (fst (observe_and_judge pf cl config provider raw img sw)))"
proof -
  obtain s w where sw: "sw = (s, w)" by fastforce
  let ?c = "sn_change s"
  let ?sub = "derive_submission_id (pf_H pf) (ac_change_id ?c) (ac_source_version ?c) (fi_sha256 img)"
  let ?op = "derive_observation_operation_id (pf_H pf) (ac_change_id ?c) (ac_source_version ?c) (fi_sha256 img)"
  obtain b g where issue: "issue_grant (pf_mac pf) (identity_value FIELD_VERIFICATION)
      (tool_value FIELD_OBSERVATION_TOOL) (ac_change_id ?c) (ac_change_id ?c) (ac_source_version ?c)
      (cl_rnd cl) (Some (cl_now cl 3)) (sn_broker s) = (b, g)" by fastforce
  note fb = issued_follows [OF issue, of pf]
  show ?thesis
  proof (cases g)
    case (Inl e)
    with sw issue fb show ?thesis by (simp add: observe_and_judge_def Let_def)
  next
    case (Inr grant)
    let ?s1 = "s\<lparr>sn_broker := b, sn_provider_calls := sn_provider_calls s + 1\<rparr>"
    have f1: "follows pf s ?s1" by (rule follows_core_right [OF fb]) (simp add: core_def)
    obtain o1 w1 where obs: "observe (pf_H pf) (pf_repr pf) (pf_minus pf) (cl_clock cl) provider
        FIELD_VERIFICATION img raw
        (observation_context_for (ac_change_id ?c) (ac_source_version ?c) ?sub) config (Some grant)
        (Some (\<lambda>g. verify_grant (pf_mac pf) b g (tool_value FIELD_OBSERVATION_TOOL)))
        (field_evidence_ref ?op) w = (o1, w1)" by fastforce
    show ?thesis
    proof (cases o1)
      case (Inl e)
      with sw issue Inr obs f1 show ?thesis by (simp add: observe_and_judge_def Let_def)
    next
      case o1: (Inr result)
      obtain s2 r2 where att: "record_attempt pf cl ?op img result ?s1 = (s2, r2)" by fastforce
      note f2 = follows_trans [OF f1 record_attempt_follows [OF att]]
      show ?thesis
      proof (cases r2)
        case (Inl e)
        with sw issue Inr obs o1 att f2 show ?thesis by (simp add: observe_and_judge_def Let_def)
      next
        case r2: (Inr u)
        show ?thesis
        proof (rule follows_assume)
          assume "session_ok pf (fst sw)"
          with f1 sw have "session_ok pf ?s1" using follows_ok by simp
          from record_attempt_filed [OF att [unfolded r2] this]
          have filed: "filed s2 ?sub" by (simp add: operation_of_submission)
          have sub: "fo_submission_id ob = ?sub"
            if "observation_succeeded result" "or_observation result = Some ob" for ob
            using observed_submission [OF obs [unfolded o1] that]
            by (simp add: observation_context_for_def)
          obtain s5 x r5 where j: "judge_observation cl result s2 = (s5, x, r5)" by (metis prod.collapse)
          have "follows pf s2 (fst (judge_observation cl result s2))"
            using filed sub by (intro judge_observation_follows) simp
          with follows_trans [OF f2] j have f5: "follows pf s s5" by simp
          have "filed s5 ?sub" using filed judge_observation_store [of cl result s2] j by simp
          note f6 = follows_trans [OF f5 known_follows [OF this]]
          have "follows pf s (fst (fst (respond pf cl (s', w1))))"
            if "core s' = core (s5\<lparr>sn_known_submission_ids :=
              (if ?sub \<in> set (sn_known_submission_ids s5) then sn_known_submission_ids s5
               else sn_known_submission_ids s5 @ [?sub])\<rparr>)" for s'
            by (rule respond_follows [OF follows_core_right [OF f6 that]])
          with sw issue Inr obs o1 att r2 j f5
          show "follows pf (fst sw) (fst (fst (observe_and_judge pf cl config provider raw img sw)))"
            by (cases r5) (simp_all add: observe_and_judge_def Let_def)
        qed
      qed
    qed
  qed
qed

lemma plain_respond: "core s' = core s \<Longrightarrow> follows pf s (fst (fst (respond pf cl (s', w))))"
  by (rule respond_follows [OF follows_core])

lemma submit_fresh_follows: "follows pf (fst sw) (fst (fst (submit_fresh pf cl raw img sw)))"
proof -
  obtain s w where sw: "sw = (s, w)" by fastforce
  show ?thesis
    using sw observe_and_judge_follows [of pf "(s, w)"]
    by (cases "cl_config cl") (auto simp: submit_fresh_def Let_def plain_respond split: option.split)
qed

lemma submit_field_evidence_follows:
  "follows pf (fst sw) (fst (fst (submit_field_evidence pf cl raw f c sw)))"
proof -
  obtain s0 w where sw: "sw = (s0, w)" by fastforce
  let ?s = "record_event ''FIELD_EVIDENCE_SUBMITTED'' s0"
  have fresh: "follows pf s0 (fst (fst (submit_fresh pf cl raw img (?s, w))))" for img
    using follows_trans [OF follows_core [of ?s s0 pf]] submit_fresh_follows [of pf "(?s, w)" cl raw img]
    by simp
  show ?thesis
  proof (cases "accept_field_image (pf_H pf) raw f c MAX_IMAGE_BYTES")
    case (Inl e)
    with sw show ?thesis by (simp add: submit_field_evidence_def Let_def follows_core plain_respond)
  next
    case (Inr img)
    with sw fresh show ?thesis
      by (simp add: submit_field_evidence_def Let_def follows_core plain_respond split: option.split)
  qed
qed

section \<open>The proof\<close>

lemma session_proof_context_Some:
  assumes "session_proof_context pf s = (s1, Inr (Some c))"
  shows "pc_workflow c = sn_workflow s \<and> pc_verification_events c = sn_verification_events s \<and>
    pc_change c = sn_change s \<and> pc_state_history c = sn_state_history s \<and>
    pc_delivery_receipt_ref c = sn_delivery_receipt_ref s \<and>
    pc_remediation_evidence c = sn_remediation_evidence s \<and>
    sn_impact_resolution s = Some (pc_impact c) \<and> truthy (sn_delivery_receipt_ref s)"
proof -
  from assms obtain impact ev where i: "sn_impact_resolution s = Some impact"
    "sn_remediation_evidence s = Some ev" "truthy (sn_delivery_receipt_ref s)"
    by (auto simp: session_proof_context_def split: option.splits if_splits)
  obtain s2 r where "affected_artifact_ref s = (s2, r)" by fastforce
  with assms i show ?thesis
    by (cases r) (auto simp: session_proof_context_def res_bind_Inr_iff)
qed

lemma eligible_passed:
  assumes "session_ok pf s" and "evaluate_eligibility c = Inr e" and "pe_eligible e"
    and "pc_workflow c = sn_workflow s" and "pc_verification_events c = sn_verification_events s"
  shows "passed_events (sn_verification_events s)"
proof -
  have v: "verdicts_ok (sn_change s) (sn_workflow s) (sn_verification_events s)"
    using assms(1) by (simp add: session_ok_def)
  then have h: "history_ok (wf_workflow_id (sn_workflow s)) (sn_verification_events s)"
    by (simp add: verdicts_ok_def)
  note scope = verdicts_ok_scope [OF v]
  from eligibility_Inr [OF assms(2)] assms(3) obtain r where
    r: "evaluate_proof_invariants c = Inr r" "pi_eligible r" by auto
  then obtain l where l: "latest_authoritative_event (sn_verification_events s)
      (wf_workflow_id (sn_workflow s)) = Inr (Some l)" "ve_verification_result l = VR_PASS"
    using assms(4,5)
    by (auto simp: evaluate_proof_invariants_def res_bind_Inr_iff Let_def split: option.splits)
  moreover have "sn_verification_events s \<noteq> []"
    using l(1) scope by (auto simp: latest_Nil)
  ultimately show ?thesis
    using history_latest [OF h] scope by (simp add: passed_events_def)
qed

text \<open>A fresh proof of a passed session completes it.\<close>

lemma completed_ok:
  assumes ok: "session_ok pf s" and st: "state_of s = VERIFICATION_PASSED"
    and store: "proof_store_ok (pf_isoformat pf) store"
      "find_workflow (workflow_id_of s) store = Some stored"
  shows "session_ok pf (s\<lparr>sn_proof_store := store, sn_workflow := (sn_workflow s)
    \<lparr>wf_proof_id := Some (cp_proof_id (sp_proof stored)), wf_state := PROOF_COMPLETE, wf_updated_at := t\<rparr>,
    sn_state_history := sn_state_history s @ [VERIFICATION_PASSED]\<rparr>)"
    (is "session_ok pf ?s'")
proof -
  have "verdicts_ok (sn_change s) ((sn_workflow s)\<lparr>wf_proof_id := Some (cp_proof_id (sp_proof stored)),
      wf_state := PROOF_COMPLETE, wf_updated_at := t\<rparr>) (sn_verification_events s)"
    using ok not_verdict_state [of PROOF_COMPLETE] by (simp add: session_ok_def verdicts_ok_def)
  moreover have "session_proof ?s' = Some stored"
    using store(2) by (simp add: session_proof_def workflow_id_of_def)
  moreover have "delivered_ok pf ?s' = delivered_ok pf s" "intake_ok ?s' = intake_ok s"
    by (simp_all add: delivered_ok_def intake_ok_def submissions_def)
  ultimately show ?thesis
    using ok st store(1) unfolding session_ok_def by (simp add: state_sets)
qed


lemma record_proof_error: "record_proof tf p s = (s', Inl e) \<Longrightarrow> s' = s"
  by (auto simp: record_proof_def Let_def split: option.splits if_splits)

lemma core_same_store: "store = sn_proof_store s \<Longrightarrow> core (s\<lparr>sn_proof_store := store\<rparr>) = core s"
  by (simp add: core_def)

lemma generate_proof_follows: "follows pf (fst sw) (fst (fst (generate_proof pf cl sw)))"
proof -
  obtain s0 w where sw: "sw = (s0, w)" by fastforce
  obtain s r where ctx: "session_proof_context pf (record_event ''PROOF_REQUESTED'' s0) = (s, r)" by fastforce
  have c0: "core s = core s0"
    using core_session_proof_context [of pf "record_event ''PROOF_REQUESTED'' s0"] ctx by simp
  note f0 = follows_core [OF c0]
  show ?thesis
  proof (cases "\<exists>c. r = Inr (Some c)")
    case False
    with sw ctx c0 f0 show ?thesis
      by (cases r) (auto simp: generate_proof_def Let_def plain_respond split: option.split)
  next
    case True
    then obtain c where r: "r = Inr (Some c)" by blast
    obtain store q where att: "attempt_proof (pf_isoformat pf) (pf_H pf) c (sn_proof_store s) = (store, q)"
      by fastforce
    have same: "follows pf s0 (fst (fst (respond pf cl (s', w))))"
      if "store = sn_proof_store s" "core s' = core (s\<lparr>sn_proof_store := store\<rparr>)" for s'
      using plain_respond [of s' s0 pf cl w] that core_same_store [OF that(1)] c0 by simp
    have same_raise: "follows pf s0 (s\<lparr>sn_proof_store := store\<rparr>)" if "store = sn_proof_store s"
      using follows_core [of "s\<lparr>sn_proof_store := store\<rparr>" s0 pf] core_same_store [OF that] c0 by simp
    from att show ?thesis
    proof (cases rule: attempt_cases)
      case (error x)
      then have "store = sn_proof_store s" using record_proof_error by blast
      with sw ctx r att error(1) same_raise show ?thesis by (simp add: generate_proof_def Let_def)
    next
      case (replayed e sp)
      with sw ctx r att show ?thesis
        by (simp add: generate_proof_def Let_def same core_def store_evidence_def record_event_def)
    next
      case (blocked e)
      with sw ctx r att show ?thesis
        by (simp add: generate_proof_def Let_def same core_def record_event_def)
    next
      case (fresh e p sp)
      show ?thesis
      proof (rule follows_assume)
        assume "session_ok pf (fst sw)"
        then have ok: "session_ok pf s" using session_ok_core [OF c0] sw by simp
        have k: "pc_workflow c = sn_workflow s" "pc_verification_events c = sn_verification_events s"
          using session_proof_context_Some [of pf "record_event ''PROOF_REQUESTED'' s0" s c] ctx r
            coreD(1,3) [OF c0] by (simp_all add: record_event_def)
        have "state_of s \<in> PASSED_STATES"
          using eligible_passed [OF ok fresh(1,2) k] ok by (simp add: session_ok_def)
        moreover have "session_proof s = None"
          using fresh(3) k(1) by (simp add: session_proof_def workflow_id_of_def)
        ultimately have st: "state_of s = VERIFICATION_PASSED"
          using ok by (simp add: session_ok_def PASSED_STATES_def)
        have ok_store: "proof_store_ok (pf_isoformat pf) (sn_proof_store s)" using ok by (simp add: session_ok_def)
        have found: "find_workflow (workflow_id_of s) store = Some sp"
          using attempt_stored [OF ok_store, of "pf_H pf" c store] att fresh(6) k(1)
          by (simp add: workflow_id_of_def)
        let ?done = "s\<lparr>sn_proof_store := store, sn_workflow := (sn_workflow s)
          \<lparr>wf_proof_id := Some (cp_proof_id (sp_proof sp)), wf_state := PROOF_COMPLETE,
            wf_updated_at := cl_now cl 0\<rparr>,
          sn_state_history := sn_state_history s @ [VERIFICATION_PASSED]\<rparr>"
        have complete: "session_ok pf ?done"
          using completed_ok [OF ok st attempt_ok [OF ok_store att] found] .
        have "can_transition VERIFICATION_PASSED PROOF_COMPLETE" by (simp add: can_transition_def)
        from goes.advanced [OF this] have "goes (track_of s) (track_of ?done)"
          using st by (simp add: track_of_def)
        with complete have "follows pf s ?done"
          by (intro followsI moves_step keeps_same) (simp_all add: workflow_id_of_def)
        from follows_trans [OF f0 this] have f: "follows pf s0 ?done" .
        have fin: "follows pf s0 (fst (fst (respond pf cl (s', w))))" if "core s' = core ?done" for s'
          by (rule respond_follows [OF follows_core_right [OF f that]])
        show "follows pf (fst sw) (fst (fst (generate_proof pf cl sw)))"
          using sw ctx r att fresh(6) st
          by (simp add: generate_proof_def Let_def)
            (rule fin, simp add: core_advance, simp add: core_def moved_def record_event_def
              store_evidence_def can_transition_def)
      qed
    qed
  qed
qed

section \<open>Runs of requests\<close>

lemma handle_follows: "follows pf (fst sw) (fst (fst (handle pf r sw)))"
  by (cases r) (simp_all add: analyze_change_follows deploy_change_follows run_security_test_follows
      deliver_to_frontline_follows acknowledge_frontline_follows submit_field_evidence_follows
      generate_proof_follows)

lemma serve_follows: "follows pf (fst sw) (fst (serve pf rs sw))"
proof (induction rs arbitrary: sw)
  case Nil
  then show ?case by (simp add: serve_def)
next
  case (Cons r rs)
  have "serve pf (r # rs) sw = serve pf rs (fst (handle pf r sw))" by (simp add: serve_def)
  with follows_trans [OF handle_follows Cons.IH] show ?case by simp
qed

lemma new_session_ok:
  assumes "new_session pf ns n d rationale secret t u sink = Inr s"
  shows "session_ok pf s \<and> track_of s = ([], CHANGE_RECEIVED, [])"
proof -
  obtain store r where "ingest_source_change (pf_H pf) (pd_change_id d) (pd_previous d) (pd_current d)
      (pd_authorized_scope d) (pd_approved_status d) RECEIVED_AT classification empty_source_store = (store, r)"
    by fastforce
  with assms obtain ing where s: "res_bind (validated valid_workflow (sn_workflow s)) (\<lambda>w. Inr s) = Inr s"
    "sn_workflow s = \<lparr>wf_workflow_id = ns @ ''-'' @ pad_nat 3 n, wf_change_id = ac_change_id (sn_change s),
      wf_source_version = ac_source_version (sn_change s), wf_state = CHANGE_RECEIVED,
      wf_affected_artifact_id = None, wf_impact_reason = None, wf_candidate_artifact_refs = [],
      wf_remediation_evidence = None, wf_delivery_status = None, wf_delivery_ref = None,
      wf_worker_id = DESTINATION_REF, wf_verification_events = [], wf_latest_verification_status = None,
      wf_proof_id = None, wf_created_at = t, wf_updated_at = u, wf_event_sequence = 0,
      wf_data_classification = classification\<rparr>"
    "sn_channel s = new_pilot_channel" "sn_proof_store s = empty_proof_store" "sn_verification_events s = []"
    "sn_delta s = None" "sn_broker s = new_broker secret" "sn_field_store s = empty_field_store"
    "sn_known_submission_ids s = []" "sn_state_history s = []"
    by (cases r) (auto simp: new_session_def Let_def res_bind_Inr_iff)
  have "session_proof s = None"
    by (simp add: session_proof_def s find_workflow_def empty_proof_store_def)
  then show ?thesis
    using not_verdict_state [of CHANGE_RECEIVED]
    by (simp add: session_ok_def s verdicts_ok_def history_ok_def events_for_workflow_def passed_events_def
        new_channel_ok empty_store_ok state_sets
        intake_ok_def submissions_def new_broker_ok empty_field_store_ok track_of_def)
qed

end
