(* ===== verification/Session_Samples.thy ===== *)
theory Session_Samples
  imports Session_Progress "HOL-Library.Code_Target_Nat"
begin

text \<open>
  A concrete pilot for the witnesses: one artifact that still shows LEFT, a procedure whose new version
  asks for TOP_RIGHT, a model that names the artifact, and a photograph read as the approved value.
  Hashes and renderings are simple functions on strings.
\<close>

definition sample_digest :: "str \<Rightarrow> str" where
  "sample_digest s = take 12 (rev s)"

definition sample_platform :: platform where
  "sample_platform =
     \<lparr>pf_H = sample_digest, pf_mac = (\<lambda>k m. take 6 m), pf_isoformat = show_int, pf_repr = (\<lambda>s. s),
      pf_failure_text = (\<lambda>_. ''failed''), pf_minus = (\<lambda>x y. Fin 1)\<rparr>"

definition pilot_artifact :: downstream_artifact where
  "pilot_artifact =
     \<lparr>da_artifact_id = ''a'', da_artifact_type = ''sop'', da_operation_id = ''op'',
      da_requirement_id = ''label_position'', da_current_value = ''LEFT'', da_content_ref = ''mem:a'',
      da_authorized_for_remediation = True, da_requirements = [(''label_position'', ''LEFT'')],
      da_data_classification = classification\<rparr>"

definition sample_dataset :: pilot_dataset where
  "sample_dataset =
     \<lparr>pd_change_id = ''DZ-1'', pd_source_name = ''sop'', pd_previous = sample_version ''v13'' ''LEFT'',
      pd_current = sample_version ''v14'' ''TOP_RIGHT'',
      pd_catalog = \<lparr>ct_catalog_id = ''cat'', ct_artifacts = [pilot_artifact]\<rparr>,
      pd_authorized_scope = [''a''], pd_approved_status = ''APPROVED''\<rparr>"

definition pilot_proposal :: change_set where
  "pilot_proposal =
     \<lparr>cs_change_id = ''DZ-1'', cs_source_procedure_id = ''PACKING-SOP'', cs_source_version = ''v14'',
      cs_operation_id = ''op'', cs_requirement_id = ''label_position'', cs_previous_value = ''LEFT'',
      cs_current_value = ''TOP_RIGHT'', cs_authorized_scope = [''a''],
      cs_candidate_affected_artifacts = [sample_candidate ''a'' True]\<rparr>"

definition pilot_config :: driftzero_config where
  "pilot_config =
     \<lparr>dz_semantic = pv_semantic sample_field_config,
      dz_side_effect = \<lparr>se_timeout_seconds = Fin 30, se_auto_retry = False\<rparr>,
      dz_gemma = \<lparr>gm_timeout_seconds = Fin 30\<rparr>,
      dz_field_provider = sample_field_config, dz_semantic_provider = sample_field_config,
      dz_persistence =
        \<lparr>ps_backend = ''memory'', ps_project = [], ps_database = [], ps_evidence_bucket = [], ps_region = []\<rparr>,
      dz_screening = \<lparr>sc_provider = [], sc_project = [], sc_location = [], sc_template = []\<rparr>\<rparr>"

text \<open>A call of the model costs one; so does an observation.\<close>

definition pilot_model :: "nat semantic_client" where
  "pilot_model request n = (Inr (JObj []), n + 1)"

definition pilot_call :: "str \<Rightarrow> nat call" where
  "pilot_call answer =
     \<lparr>cl_config = Inr pilot_config,
      cl_semantic_factory = Some (\<lambda>_. Some pilot_model),
      cl_field_factory = Some (\<lambda>_. Some (\<lambda>_ _ _ _ n. (Inr (sample_answer answer), n + 1))),
      cl_clock = (\<lambda>n. (Fin 0, n)), cl_parse = (\<lambda>_. Some pilot_proposal), cl_error_count = (\<lambda>_. 0),
      cl_now = (\<lambda>k. 100 + int k), cl_tool_clock = (\<lambda>k. 50 + int k), cl_rnd = ''r''\<rparr>"

definition pilot_photo :: "char \<Rightarrow> str" where
  "pilot_photo c = map char_of [0x89::nat, 0x50, 0x4E, 0x47, 0x0D, 0x0A, 0x1A, 0x0A] @ replicate 60 (CHR ''x'') @ [c]"

definition pilot_session :: session where
  "pilot_session = projr (new_session sample_platform ''wf'' 1 sample_dataset None ''secret'' 1 1 [])"

text \<open>
  Evaluating the search for injected instructions is slow and its result is only recorded, so the
  runs are evaluated for whatever it finds.
\<close>

definition pilot_result :: "str list \<Rightarrow> change_intelligence_result" where
  "pilot_result markers =
     \<lparr>ci_status = PROPOSED, ci_proposal = Some pilot_proposal, ci_failure_reason = None, ci_attempts = 1,
      ci_repair_attempts_used = 0, ci_injection_markers_detected = markers, ci_unknown_artifact_ids = []\<rparr>"

definition pilot_analyzed :: "str list \<Rightarrow> session \<times> nat" where
  "pilot_analyzed markers =
     fst (respond sample_platform (pilot_call '''')
       (after_analysis sample_platform (pilot_call '''') (pilot_result markers)
          (record_analysis (pilot_result markers) (record_event ''IMPACT_ANALYSIS_REQUESTED'' pilot_session)),
        1 :: nat))"

lemma pilot_model_call:
  "case run_semantic_call (\<lambda>x y. Fin 1)
      (call_model (\<lambda>_. Some pilot_proposal) (\<lambda>_. 0) pilot_model
        (pv_semantic sample_field_config) text)
      (\<lambda>(w, f). let (t, w') = (Fin 0, w) in (t, w', f)) (pv_semantic sample_field_config) (0 :: nat, False) of
    (r, w, f) \<Rightarrow> rt_outcome r = RO_SUCCEEDED \<and> rt_value r = Some (JObj []) \<and> attempt_count r = 1 \<and>
      repair_attempts_used r = 0 \<and> w = 1 \<and> \<not> f"
  by code_simp

lemma pilot_propose:
  "\<exists>markers. propose (\<lambda>_. Some pilot_proposal) (\<lambda>_. 0) (\<lambda>x y. Fin 1) (\<lambda>n. (Fin 0, n))
      pilot_model (pv_semantic sample_field_config)
      (\<lambda>i. if i = ac_change_id (sn_change pilot_session) then Some (sn_change pilot_session) else None)
      (ct_artifacts (sn_catalog pilot_session)) (ac_change_id (sn_change pilot_session)) (0 :: nat, False) =
    (pilot_result markers, 1, False)"
proof -
  let ?text = "render_artifact_data (sn_change pilot_session) (ct_artifacts (sn_catalog pilot_session))"
  have "sort (filter (\<lambda>i. i \<notin> da_artifact_id ` set (ct_artifacts (sn_catalog pilot_session)))
      (map cand_artifact_id (cs_candidate_affected_artifacts pilot_proposal))) = []" by code_simp
  with pilot_model_call [of ?text] show ?thesis
    by (intro exI [of _ "detect_injection_markers ?text"])
      (simp add: propose_def Let_def pilot_result_def split: prod.splits)
qed

lemma pilot_call_fields:
  "cl_config (pilot_call a) = Inr pilot_config" "cl_semantic_factory (pilot_call a) = Some (\<lambda>_. Some pilot_model)"
  "cl_parse (pilot_call a) = (\<lambda>_. Some pilot_proposal)" "cl_error_count (pilot_call a) = (\<lambda>_. 0)"
  "cl_clock (pilot_call a) = (\<lambda>n. (Fin 0, n))" "pf_minus sample_platform = (\<lambda>x y. Fin 1)"
  "dz_semantic_provider pilot_config = sample_field_config" "semantic_enabled sample_field_config"
  by (simp_all add: pilot_call_def sample_platform_def pilot_config_def sample_field_config_def
      semantic_enabled_def SEMANTIC_PROVIDER_DISABLED_def)

lemma pilot_analysis:
  "\<exists>markers. fst (handle sample_platform (Analyze (pilot_call '''')) (pilot_session, 0)) =
     pilot_analyzed markers"
proof -
  have s: "sn_change (record_event e s) = sn_change s" "sn_catalog (record_event e s) = sn_catalog s" for e s
    by (simp_all add: record_event_def)
  obtain markers where "propose (\<lambda>_. Some pilot_proposal) (\<lambda>_. 0) (\<lambda>x y. Fin 1) (\<lambda>n. (Fin 0, n))
      pilot_model (pv_semantic sample_field_config)
      (\<lambda>i. if i = ac_change_id (sn_change pilot_session) then Some (sn_change pilot_session) else None)
      (ct_artifacts (sn_catalog pilot_session)) (ac_change_id (sn_change pilot_session)) (0 :: nat, False) =
    (pilot_result markers, 1, False)"
    using pilot_propose by blast
  then have "fst (handle sample_platform (Analyze (pilot_call '''')) (pilot_session, 0)) =
      pilot_analyzed markers"
    by (simp add: analyze_change_def pilot_call_fields s pilot_analyzed_def Let_def cong: if_cong)
  then show ?thesis ..
qed

text \<open>Delivered; and the photograph to submit next.\<close>

definition pilot_delivered :: "str list \<Rightarrow> session \<times> nat" where
  "pilot_delivered markers =
     serve sample_platform [Deploy (pilot_call ''''), Deliver (pilot_call '''')] (pilot_analyzed markers)"

definition pilot_evidence :: "nat request" where
  "pilot_evidence = SubmitEvidence (pilot_call ''top-right'') (pilot_photo (CHR ''2'')) None None"

lemma pilot_delivered_records:
  "let s = fst (pilot_delivered markers)
   in state_of s = AWAITING_FIELD_VERIFICATION \<and> sn_field_store s = empty_field_store \<and>
     rp_artifacts (sn_repository s) \<noteq> [] \<and> wf_workflow_id (sn_workflow s) = ''wf-001'' \<and>
     (case sn_delta s of None \<Rightarrow> False | Some i \<Rightarrow> \<not> blank (di_instruction_id i)) \<and>
     decide_retry (sn_ledger s) (sn_delivery_action_id s) = RETRY_ALREADY_COMPLETED \<and>
     derive_delivery_action_id sample_digest ''wf-001-001'' (sn_change s) DESTINATION_REF
       \<notin> ax_action_id ` set (all_records (sn_ledger s))"
  by code_simp

lemma pilot_awaits:
  "state_of (fst (pilot_delivered markers)) = AWAITING_FIELD_VERIFICATION \<and>
   sn_field_store (fst (pilot_delivered markers)) = empty_field_store"
  using pilot_delivered_records [of markers] unfolding Let_def by blast

lemma pilot_proved:
  "case serve sample_platform [pilot_evidence, GenerateProof (pilot_call '''')] (pilot_delivered markers) of
     (s, w) \<Rightarrow> state_of s = PROOF_COMPLETE \<and>
       derive_submission_id sample_digest ''DZ-1'' ''v14'' (sample_digest (pilot_photo (CHR ''2'')))
         \<in> set (sn_known_submission_ids s) \<and>
       (case find_operation (derive_observation_operation_id sample_digest ''DZ-1'' ''v14''
           (sample_digest (pilot_photo (CHR ''2'')))) (sn_field_store s) of
          None \<Rightarrow> False | Some d \<Rightarrow> evidence_is_replayable d)"
  by code_simp

end
