(* ===== verification/Session_Effects.thy ===== *)
theory Session_Effects
  imports Session_Progress
begin

text \<open>
  What the answer of a call and the refused requests leave untouched: rendering a session only counts the
  reads of the repository.
\<close>

section \<open>Rendering\<close>

definition reread :: "session \<Rightarrow> session \<Rightarrow> bool" where
  "reread s s' \<longleftrightarrow> (\<exists>n. s' = s\<lparr>sn_repository := (sn_repository s)\<lparr>rp_read_count := n\<rparr>\<rparr>)"

lemma reread_refl [simp, intro]: "reread s s"
  unfolding reread_def by (intro exI [of _ "rp_read_count (sn_repository s)"]) simp

lemma reread_trans: "reread s s' \<Longrightarrow> reread s' s'' \<Longrightarrow> reread s s''"
  by (auto simp: reread_def)

lemma reread_artifact: "reread s (fst (read_artifact i s))"
  by (auto simp: read_artifact_def repo_read_def reread_def)

lemma reread_affected: "reread s (fst (affected_artifact_ref s))"
  using reread_artifact [of s "the (sn_qualified_artifact_id s)"]
  by (cases "read_artifact (the (sn_qualified_artifact_id s)) s") (simp add: affected_artifact_ref_def)

lemma reread_context: "reread s (fst (session_proof_context pf s))"
proof (cases "sn_impact_resolution s = None \<or> sn_remediation_evidence s = None \<or>
    \<not> truthy (sn_delivery_receipt_ref s)")
  case True
  then show ?thesis by (auto simp: session_proof_context_def split: option.splits)
next
  case False
  then obtain impact ev where "sn_impact_resolution s = Some impact" "sn_remediation_evidence s = Some ev"
    by auto
  with False reread_affected [of s] show ?thesis
    by (cases "affected_artifact_ref s"; cases "snd (affected_artifact_ref s)")
      (simp_all add: session_proof_context_def)
qed

lemma reread_get_state: "reread s (fst (get_state pf cl s))"
proof -
  have a: "reread s (fst (artifact_view s))"
    using reread_artifact [of s "the (sn_qualified_artifact_id s)"]
    by (cases "sn_qualified_artifact_id s"; cases "read_artifact (the (sn_qualified_artifact_id s)) s")
      (simp_all add: artifact_view_def)
  have p: "reread s' (fst (proof_state_view pf s'))" for s'
    using reread_context [of s' pf] by (cases "session_proof_context pf s'") (simp add: proof_state_view_def)
  show ?thesis
    using a reread_trans [OF _ p, of s "fst (artifact_view s)"]
    by (cases "artifact_view s"; cases "snd (artifact_view s)"; cases "cl_config cl")
      (simp_all add: get_state_def)
qed

lemma rereadD:
  assumes "reread s s'"
  shows "sn_workflow s' = sn_workflow s" "sn_ledger s' = sn_ledger s" "sn_channel s' = sn_channel s"
    "sn_broker s' = sn_broker s" "sn_field_store s' = sn_field_store s" "sn_change s' = sn_change s"
    "sn_verification_events s' = sn_verification_events s" "sn_provider_calls s' = sn_provider_calls s"
    "sn_proof_store s' = sn_proof_store s" "sn_catalog s' = sn_catalog s"
    "sn_qualified_artifact_id s' = sn_qualified_artifact_id s" "sn_security s' = sn_security s"
    "rp_artifacts (sn_repository s') = rp_artifacts (sn_repository s)"
    "rp_revision (sn_repository s') = rp_revision (sn_repository s)"
    "rp_snapshots (sn_repository s') = rp_snapshots (sn_repository s)"
    "rp_dispatch_count (sn_repository s') = rp_dispatch_count (sn_repository s)"
  using assms by (auto simp: reread_def)

text \<open>The parts of a session a refused request has no business with.\<close>

definition assets where
  "assets s = (sn_workflow s, sn_ledger s, sn_channel s, br_grants (sn_broker s), sn_field_store s,
     sn_verification_events s, sn_provider_calls s, sn_proof_store s, rp_artifacts (sn_repository s),
     rp_revision (sn_repository s), rp_snapshots (sn_repository s), rp_dispatch_count (sn_repository s))"

lemma reread_assets: "reread s s' \<Longrightarrow> assets s' = assets s"
  by (simp add: assets_def rereadD)

lemma assets_updates [simp]:
  "assets (record_event e s) = assets s" "assets (store_evidence i s) = assets s"
  "assets (persist s) = assets s" "assets (s\<lparr>sn_security := p\<rparr>) = assets s"
  "assets (s\<lparr>sn_field_verification := v\<rparr>) = assets s"
  by (simp_all add: assets_def record_event_def store_evidence_def persist_def)

lemma respond_effect:
  "assets (fst (fst (respond pf cl (s, w)))) = assets s \<and> snd (fst (respond pf cl (s, w))) = w"
proof -
  obtain s' r where g: "get_state pf cl s = (s', r)" by fastforce
  with reread_assets [OF reread_get_state [of s pf cl]] show ?thesis
    by (cases r) (simp_all add: respond_def persists_def)
qed

section \<open>Photographs\<close>

lemma accepted_digest: "accept_field_image H raw f c n = Inr img \<Longrightarrow> fi_sha256 img = H raw"
  by (auto simp: accept_field_image_def Let_def split: if_splits option.splits)

lemma accept_declared:
  "accept_field_image H raw f c n = Inr img \<Longrightarrow> \<exists>img'. accept_field_image H raw f' c' n = Inr img'"
  by (auto simp: accept_field_image_def Let_def split: if_splits option.splits)

lemma record_event_fields [simp]:
  "sn_change (record_event e s) = sn_change s" "sn_field_store (record_event e s) = sn_field_store s"
  "sn_broker (record_event e s) = sn_broker s" "sn_workflow (record_event e s) = sn_workflow s"
  "sn_provider_calls (record_event e s) = sn_provider_calls s"
  "sn_verification_events (record_event e s) = sn_verification_events s"
  by (simp_all add: record_event_def)

end
