(* ===== verification/Session_Properties.thy ===== *)
theory Session_Properties
  imports Session_Samples Session_Effects
begin

text \<open>
  What a console session guarantees, whatever is asked of it and in whatever order: the sessions that can
  be reached from a new one, and the properties of every one of them.
\<close>

section \<open>Reachable sessions\<close>

inductive reached :: "platform \<Rightarrow> session \<Rightarrow> session \<times> 'w \<Rightarrow> bool" for pf s0 where
  opened: "new_session pf namespace n d rationale secret t u sink = Inr s0 \<Longrightarrow> reached pf s0 (s0, w)"
| served: "reached pf s0 sw \<Longrightarrow> reached pf s0 (fst (handle pf r sw))"

lemma reached_follows:
  "reached pf s0 sw \<Longrightarrow> session_ok pf s0 \<and> track_of s0 = ([], CHANGE_RECEIVED, []) \<and>
     follows pf s0 (fst sw)"
proof (induction rule: reached.induct)
  case (opened namespace n d rationale secret t u sink w)
  with new_session_ok [OF opened] show ?case by simp
next
  case (served sw r)
  with follows_trans [OF _ handle_follows [of pf sw r]] show ?case by blast
qed

lemma reached_ok: "reached pf s0 sw \<Longrightarrow> session_ok pf (fst sw)"
  using reached_follows follows_ok by blast

lemma reached_serve: "reached pf s0 sw \<Longrightarrow> reached pf s0 (serve pf rs sw)"
  unfolding serve_def by (induction rs arbitrary: sw) (simp_all add: reached.served)

section \<open>The pilot\<close>

lemma pilot_opened: "reached sample_platform pilot_session (pilot_session, w)"
proof -
  have "\<not> isl (new_session sample_platform ''wf'' 1 sample_dataset None ''secret'' 1 1 [])" by code_simp
  then have "new_session sample_platform ''wf'' 1 sample_dataset None ''secret'' 1 1 [] = Inr pilot_session"
    by (simp add: pilot_session_def)
  then show ?thesis by (rule reached.opened)
qed

lemma pilot_reached:
  "\<exists>markers. reached sample_platform pilot_session (pilot_delivered markers)"
proof -
  obtain markers where m: "fst (handle sample_platform (Analyze (pilot_call '''')) (pilot_session, 0)) =
      pilot_analyzed markers" using pilot_analysis by blast
  have "reached sample_platform pilot_session (pilot_analyzed markers)"
    using reached.served [OF pilot_opened, of "Analyze (pilot_call '''')" 0] m by simp
  then show ?thesis unfolding pilot_delivered_def using reached_serve by blast
qed

section \<open>The way of a session\<close>

lemma reached_track:
  assumes "reached pf s0 (s, w)"
  shows "on_track (track_of s) \<and> hd (recorded_way s) = CHANGE_RECEIVED \<and>
    legal_path CHANGE_RECEIVED (tl (recorded_way s)) \<and> last (recorded_way s) = state_of s \<and>
    subseq (sn_state_history s) (butlast (recorded_way s))"
proof -
  have start: "track_of s0 = ([], CHANGE_RECEIVED, [])" and m: "moves_to (track_of s0) (track_of s)"
    using reached_follows [OF assms] by (auto simp: follows_def moves_def)
  have on: "on_track (track_of s0)" using early_intros(1) by (simp add: start on_track_def)
  from moves_way [OF m on] obtain zs where zs: "on_track (track_of s)"
    "recorded_way s = CHANGE_RECEIVED # zs" "legal_path CHANGE_RECEIVED zs"
    by (auto simp: start)
  moreover have "last (recorded_way s) = state_of s"
    using on_track_last zs(1) unfolding track_of_def by blast
  moreover have "subseq (sn_state_history s) (butlast (recorded_way s))"
    using moves_history [OF m on] by (simp add: start) (simp add: track_of_def del: way.simps)
  ultimately show ?thesis by simp
qed

text \<open>C1. A session never leaves the transition table, whatever the surfaces ask for, and its own records
  show the way it went. In every session that is reached from a new one by any requests, in any order,
  whatever the models, providers and clocks answer and whichever requests raise: the approved change and
  the workflow's identity are those the session was opened with. The way read off its history, its
  verification events and its state (the progress it recorded, then a wait and a verdict for every event,
  then where it is) starts at CHANGE_RECEIVED, is legal from state to state, ends at its state and has
  every recorded entry in its order. Further requests only prolong it: nothing a session has gone through
  is ever taken back. And a complete session went the one way to a Change Proof: the five states of
  progress, for every event but the last a failed or inconclusive verdict followed by a renewed wait, then
  the pass and the proof.\<close>

theorem session_follows_table:
  assumes "reached pf s0 (s, w)"
  shows "sn_change s = sn_change s0 \<and> workflow_id_of s = workflow_id_of s0 \<and>
    hd (recorded_way s) = CHANGE_RECEIVED \<and> legal_path CHANGE_RECEIVED (tl (recorded_way s)) \<and>
    last (recorded_way s) = state_of s \<and>
    subseq (sn_state_history s) (butlast (recorded_way s)) \<and>
    prefix (recorded_way s) (recorded_way (fst (serve pf rs (s, w)))) \<and>
    (if state_of s = PROOF_COMPLETE then
       let results = map ve_verification_result (sn_verification_events s)
       in results \<noteq> [] \<and> last results = VR_PASS \<and> VR_PASS \<notin> set (butlast results) \<and>
          recorded_way s = [CHANGE_RECEIVED, IMPACT_DETERMINED, REMEDIATION_PENDING, REMEDIATION_COMPLETED,
              FRONTLINE_DELIVERY_COMPLETED, AWAITING_FIELD_VERIFICATION] @
            retries (map VERDICT_STATE (butlast results)) @ [VERIFICATION_PASSED, PROOF_COMPLETE]
     else True)"
proof -
  note track = reached_track [OF assms]
  have f: "sn_change s = sn_change s0" "workflow_id_of s = workflow_id_of s0"
    using reached_follows [OF assms] by (auto simp: follows_def)
  have "follows pf s (fst (serve pf rs (s, w)))" using serve_follows [of pf "(s, w)" rs] by simp
  then have "moves_to (track_of s) (track_of (fst (serve pf rs (s, w))))"
    using reached_ok [OF assms] by (simp add: follows_def moves_def)
  then have "prefix (recorded_way s) (recorded_way (fst (serve pf rs (s, w))))"
    using moves_prefix track by blast
  with f track show ?thesis
    using complete_way [of "sn_state_history s" "map ve_verification_result (sn_verification_events s)"]
    by (auto simp: track_of_def Let_def PROGRESS_def simp del: way.simps)
qed

lemma pilot_completed:
  "\<exists>s w. reached sample_platform pilot_session (s :: session, w :: nat) \<and> state_of s = PROOF_COMPLETE \<and>
     derive_submission_id sample_digest ''DZ-1'' ''v14'' (sample_digest (pilot_photo (CHR ''2'')))
       \<in> set (sn_known_submission_ids s) \<and>
     (\<exists>d. find_operation (derive_observation_operation_id sample_digest ''DZ-1'' ''v14''
        (sample_digest (pilot_photo (CHR ''2'')))) (sn_field_store s) = Some d \<and> evidence_is_replayable d)"
proof -
  obtain markers where r: "reached sample_platform pilot_session (pilot_delivered markers)"
    using pilot_reached by blast
  obtain s w where sw: "serve sample_platform [pilot_evidence, GenerateProof (pilot_call '''')]
      (pilot_delivered markers) = (s, w)" by fastforce
  have "reached sample_platform pilot_session (s, w)"
    using reached_serve [OF r, of "[pilot_evidence, GenerateProof (pilot_call '''')]"] sw by simp
  moreover note pilot_proved [of markers, unfolded sw prod.case]
  ultimately show ?thesis by (intro exI [of _ s] exI [of _ w]) (auto split: option.splits)
qed

theorem session_follows_table_witness:
  "\<exists>s results. state_of s = PROOF_COMPLETE \<and> sn_change s = sn_change pilot_session \<and>
     last results = VR_PASS \<and>
     recorded_way s = [CHANGE_RECEIVED, IMPACT_DETERMINED, REMEDIATION_PENDING, REMEDIATION_COMPLETED,
         FRONTLINE_DELIVERY_COMPLETED, AWAITING_FIELD_VERIFICATION] @
       retries (map VERDICT_STATE (butlast results)) @ [VERIFICATION_PASSED, PROOF_COMPLETE]"
proof -
  obtain s and w :: nat where s: "reached sample_platform pilot_session (s, w)" "state_of s = PROOF_COMPLETE"
    using pilot_completed by blast
  from session_follows_table [OF s(1), of "[]"] s(2) show ?thesis
    by (intro exI [of _ s] exI [of _ "map ve_verification_result (sn_verification_events s)"])
      (simp add: Let_def del: way.simps)
qed

section \<open>What a state vouches for\<close>

lemma passed_authoritative:
  assumes "session_ok pf s"
  shows "authoritative_result (sn_verification_events s) (workflow_id_of s) = Inr (Some VR_PASS) \<longleftrightarrow>
    state_of s \<in> PASSED_STATES"
proof -
  have v: "verdicts_ok (sn_change s) (sn_workflow s) (sn_verification_events s)"
    and p: "passed_events (sn_verification_events s) \<longleftrightarrow> state_of s \<in> PASSED_STATES"
    using assms by (simp_all add: session_ok_def)
  from v have h: "history_ok (workflow_id_of s) (sn_verification_events s)"
    by (simp add: verdicts_ok_def workflow_id_of_def)
  have e: "events_for_workflow (sn_verification_events s) (workflow_id_of s) = sn_verification_events s"
    using verdicts_ok_scope [OF v] by (simp add: workflow_id_of_def)
  show ?thesis
  proof (cases "sn_verification_events s = []")
    case True
    with p latest_Nil [of "[]" "workflow_id_of s"] show ?thesis
      by (simp add: authoritative_result_def passed_events_def events_for_workflow_def)
  next
    case False
    with history_latest [OF h] e p show ?thesis by (simp add: authoritative_result_def passed_events_def)
  qed
qed

lemma find_workflow_proof: "session_proof s = find_workflow (workflow_id_of s) (sn_proof_store s)"
  by (simp add: session_proof_def)

text \<open>C2. A state is never claimed without what it stands for. In every reachable session: it is neither
  superseded nor failed; a proof is stored exactly when the session is PROOF_COMPLETE, and the workflow
  names that proof and no other; the authoritative verification result is a pass exactly in the passed
  and the proved state; from the remediation on an execution that went through Crossing 2 is kept; and
  from the delivery on the session's receipt resolves on the channel and binds the instruction that was
  composed for this change.\<close>

theorem state_vouched_for:
  assumes "reached pf s0 (s, w)"
  shows "state_of s \<notin> {SUPERSEDED, FAILED} \<and>
    (find_workflow (workflow_id_of s) (sn_proof_store s) \<noteq> None \<longleftrightarrow> state_of s = PROOF_COMPLETE) \<and>
    wf_proof_id (sn_workflow s) =
      map_option (\<lambda>p. cp_proof_id (sp_proof p)) (find_workflow (workflow_id_of s) (sn_proof_store s)) \<and>
    (authoritative_result (sn_verification_events s) (workflow_id_of s) = Inr (Some VR_PASS) \<longleftrightarrow>
       state_of s \<in> {VERIFICATION_PASSED, PROOF_COMPLETE}) \<and>
    (if state_of s \<in> EXECUTED_STATES then sn_validated_execution s \<noteq> None else True) \<and>
    (if state_of s \<in> DELIVERED_STATES then
       \<exists>i ref r. sn_delta s = Some i \<and> di_change_id i = ac_change_id (sn_change s) \<and>
         sn_delivery_receipt_ref s = Some ref \<and> channel_resolve ref (sn_channel s) = Some r \<and>
         binds (pf_H pf) CHANNEL_LOCAL_PILOT
           \<lparr>dx_instruction = i, dx_expected_destination_ref = DESTINATION_REF, dx_rejection_ref = '''',
            dx_composed_at = sn_delta_composed_at s\<rparr> r
     else True)"
proof -
  have ok: "session_ok pf s" using reached_ok [OF assms] by simp
  note a = passed_authoritative [OF ok, unfolded PASSED_STATES_def]
  have d: "\<exists>i ref r. sn_delta s = Some i \<and> di_change_id i = ac_change_id (sn_change s) \<and>
         sn_delivery_receipt_ref s = Some ref \<and> channel_resolve ref (sn_channel s) = Some r \<and>
         binds (pf_H pf) CHANNEL_LOCAL_PILOT
           \<lparr>dx_instruction = i, dx_expected_destination_ref = DESTINATION_REF, dx_rejection_ref = '''',
            dx_composed_at = sn_delta_composed_at s\<rparr> r" if "state_of s \<in> DELIVERED_STATES"
    using ok that unfolding session_ok_def delivered_ok_def by meson
  show ?thesis
    using ok a d unfolding session_ok_def find_workflow_proof [symmetric] if_bool_eq_conj
    by (intro conjI impI) simp_all
qed

theorem state_vouched_for_witness:
  "\<exists>s. state_of s = PROOF_COMPLETE \<and> wf_proof_id (sn_workflow s) \<noteq> None \<and>
     authoritative_result (sn_verification_events s) (workflow_id_of s) = Inr (Some VR_PASS) \<and>
     sn_validated_execution s \<noteq> None"
proof -
  obtain s and w :: nat where s: "reached sample_platform pilot_session (s, w)" "state_of s = PROOF_COMPLETE"
    using pilot_completed by blast
  have "PROOF_COMPLETE \<in> EXECUTED_STATES" by (simp add: state_sets)
  with state_vouched_for [OF s(1), unfolded s(2)] s(2) show ?thesis
    by (intro exI [of _ s]) simp
qed

section \<open>The security probe\<close>

lemma remediate_unauthorized:
  assumes "remediate mac h H rd ap vr ctx clk rnd now i (b, l, r) = ((b', l', r'), out)"
    and "h \<noteq> identity_value REMEDIATION"
  shows "l' = l \<and> r' = r \<and> br_grants b' = br_grants b \<and>
    (\<exists>m. out = Inr m \<and> rm_status m \<in> {RS_CAPABILITY_DENIED, RS_MALFORMED_INTENT})"
proof (cases "missing_fields i = []")
  case False
  with assms(1) show ?thesis by (auto simp: remediate_def)
next
  case True
  obtain b1 g where i: "issue mac h (ri_artifact_id i) (ri_change_id i) (ri_source_version i) rnd now b = (b1, g)"
    by fastforce
  then obtain e where g: "g = Inl e" using issue_Inr assms(2) by (cases g) blast+
  have "br_grants b1 = br_grants b"
    using i g unfolding issue_def
    by (auto simp: deny_def Let_def split: sum.splits prod.splits)
  with assms(1) True i g show ?thesis by (auto simp: remediate_def)
qed

lemma probe_denied:
  assumes "run_remediation_agent pf cl ENABLEMENT intent s = (s', r)"
  shows "assets s' = assets s \<and> sn_repository s' = sn_repository s \<and>
    (\<exists>m. r = Inr m \<and> rm_status m \<in> {RS_CAPABILITY_DENIED, RS_MALFORMED_INTENT})"
proof -
  obtain b l rp where run: "remediate (pf_mac pf) (identity_value ENABLEMENT) (pf_H pf) repo_read
      apply_requirement (verify (pf_mac pf)) (session_tool_context s) (cl_tool_clock cl) (cl_rnd cl)
      (Some (cl_now cl 9)) intent (sn_broker s, sn_ledger s, sn_repository s) = ((b, l, rp), r)"
    and s': "s' = s\<lparr>sn_broker := b, sn_ledger := l, sn_repository := rp\<rparr>"
    using assms by (auto simp: run_remediation_agent_def split: prod.splits)
  from remediate_unauthorized [OF run] s' show ?thesis by (simp add: assets_def)
qed

lemma record_probe_effect:
  "assets (record_probe pf m a b n s) = assets s"
  "sn_security (record_probe pf m a b n s) = Some
     \<lparr>sp_status = rm_status m, sp_hash_before = artifact_content_hash (pf_H pf) a,
      sp_hash_after = artifact_content_hash (pf_H pf) b, sp_dispatches_before = n,
      sp_dispatches_after = rp_dispatch_count (sn_repository s)\<rparr>"
  by (simp add: record_probe_def Let_def) (simp add: record_probe_def Let_def record_event_def)

text \<open>C13. The security probe can only fail. In any session, reachable or not, and whatever it is called
  with, asking for the mutation under the enablement identity makes no call, grants nothing, leaves the
  artifacts, their revisions and snapshots, the dispatches, the ledger, the channel and the workflow
  exactly as they were; and when the probe answers, it reports the same digest and the same number of
  dispatches before and after, and no mutation.\<close>

theorem security_probe_harmless:
  "case run_security_test pf cl (s, w) of
     ((s', w'), r) \<Rightarrow>
       w' = w \<and> sn_workflow s' = sn_workflow s \<and> sn_ledger s' = sn_ledger s \<and> sn_channel s' = sn_channel s \<and>
       br_grants (sn_broker s') = br_grants (sn_broker s) \<and>
       rp_artifacts (sn_repository s') = rp_artifacts (sn_repository s) \<and>
       rp_revision (sn_repository s') = rp_revision (sn_repository s) \<and>
       rp_snapshots (sn_repository s') = rp_snapshots (sn_repository s) \<and>
       rp_dispatch_count (sn_repository s') = rp_dispatch_count (sn_repository s) \<and>
       (if r = Inr () then
          \<exists>p. sn_security s' = Some p \<and> sp_status p \<in> {RS_CAPABILITY_DENIED, RS_MALFORMED_INTENT} \<and>
            sp_hash_before p = sp_hash_after p \<and> sp_dispatches_before p = sp_dispatches_after p
        else True)"
proof -
  let ?s = "record_event ''SECURITY_REQUESTED'' s"
  let ?t = "if truthy (sn_qualified_artifact_id ?s) then sn_qualified_artifact_id ?s
    else case ct_artifacts (sn_catalog ?s) of [] \<Rightarrow> None | a # _ \<Rightarrow> Some (da_artifact_id a)"
  obtain s' w' r where run: "run_security_test pf cl (s, w) = ((s', w'), r)" by (metis prod.collapse)
  have "w' = w \<and> assets s' = assets s \<and>
    (r = Inr () \<longrightarrow> (\<exists>p. sn_security s' = Some p \<and> sp_status p \<in> {RS_CAPABILITY_DENIED, RS_MALFORMED_INTENT} \<and>
            sp_hash_before p = sp_hash_after p \<and> sp_dispatches_before p = sp_dispatches_after p))"
  proof (cases ?t)
    case None
    with run show ?thesis by (auto simp: run_security_test_def Let_def)
  next
    case (Some target)
    obtain s1 r1 where a: "read_artifact target ?s = (s1, r1)" by fastforce
    obtain s2 r2 where b: "read_artifact target s1 = (s2, r2)" by fastforce
    obtain s3 r3 where c: "run_remediation_agent pf cl ENABLEMENT (probe_intent pf target (projr r2) s2) s2 = (s3, r3)"
      by fastforce
    obtain s4 r4 where d: "read_artifact target s3 = (s4, r4)" by fastforce
    have rr: "reread ?s s1" "reread s1 s2" "reread s3 s4"
      using reread_artifact [of ?s target] reread_artifact [of s1 target] reread_artifact [of s3 target] a b d
      by simp_all
    from probe_denied [OF c] obtain m where m: "r3 = Inr m" "rm_status m \<in> {RS_CAPABILITY_DENIED, RS_MALFORMED_INTENT}"
      and c3: "assets s3 = assets s2" "sn_repository s3 = sn_repository s2" by blast
    have k: "assets s1 = assets s" "assets s2 = assets s" "assets s3 = assets s" "assets s4 = assets s"
      using reread_assets [OF rr(1)] reread_assets [OF rr(2)] reread_assets [OF rr(3)] c3(1) by simp_all
    show ?thesis
    proof (cases "isl r1 \<or> isl r2 \<or> isl r4")
      case True
      then show ?thesis
        using run Some a b c d k m(1)
        by (cases r1; cases r2; cases r4) (auto simp: run_security_test_def Let_def)
    next
      case False
      then obtain v1 v2 v4 where v: "r1 = Inr v1" "r2 = Inr v2" "r4 = Inr v4"
        by (cases r1; cases r2; cases r4) auto
      have same: "v4 = v1"
        using a d v c3(2) rereadD(13) [OF rr(1)] rereadD(13) [OF rr(2)]
        by (auto simp: read_artifact_def repo_read_def split: option.splits)
      let ?p = "record_probe pf m v1 v4 (rp_dispatch_count (sn_repository s1)) s4"
      obtain s5 q where g: "get_state pf cl ?p = (s5, q)" by fastforce
      then have r5: "reread ?p s5" using reread_get_state [of ?p pf cl] by simp
      have cnt: "rp_dispatch_count (sn_repository s4) = rp_dispatch_count (sn_repository s1)"
        using c3(2) rereadD(16) [OF rr(3)] rereadD(16) [OF rr(2)] by simp
      have "s' = s5" "w' = w" using run Some a b c d v m(1) g by (simp_all add: run_security_test_def Let_def)
      moreover have "assets s5 = assets s" using reread_assets [OF r5] k(4) by (simp add: record_probe_effect)
      moreover have "sn_security s5 = Some
          \<lparr>sp_status = rm_status m, sp_hash_before = artifact_content_hash (pf_H pf) v1,
           sp_hash_after = artifact_content_hash (pf_H pf) v4,
           sp_dispatches_before = rp_dispatch_count (sn_repository s1),
           sp_dispatches_after = rp_dispatch_count (sn_repository s4)\<rparr>"
        using rereadD(12) [OF r5] by (simp add: record_probe_effect)
      ultimately show ?thesis using same cnt m(2) by simp
    qed
  qed
  then show ?thesis by (simp add: run assets_def)
qed

end
