(* ===== verification/Session_Liveness.thy ===== *)
theory Session_Liveness
  imports Session_Effects
begin

text \<open>
  A delivered session is not stuck: a fresh photograph that the model answers is judged by the request that
  submits it. The lemmas follow that request: the grant it is issued verifies, the observation succeeds,
  its record is new, Crossing 4 accepts it and the verdict is reached.
\<close>

section \<open>The request, step by step\<close>

lemma issued_grant_verifies:
  assumes "is_authorized (identity_value i) (tool_value u)"
    and "\<not> blank scope" "\<not> blank cid" "\<not> blank v"
  shows "\<exists>b' g. issue_grant mac (identity_value i) (tool_value u) scope cid v rnd now b = (b', Inr g) \<and>
    verify_grant mac b' g (tool_value u) \<and> covers g scope \<and> tg_source_version g = v"
proof -
  have m: "mint_check (identity_value i) (tool_value u) ''scope_ref'' scope cid v = Inr u"
    using assms by (simp only: mint_check_Inr_iff simp_thms)
  obtain b' k where r: "register_grant (identity_value i) u scope cid v rnd b = (b', k)" by fastforce
  have g: "br_grants b' = dict_put k
      \<lparr>cg_capability_id = k, cg_holder = identity_value i, cg_tool = u, cg_scope_ref = scope,
       cg_change_id = cid, cg_source_version = v, cg_revoked = False\<rparr> (br_grants b)"
    "br_secret b' = br_secret b"
    using register_grants(1,2) [of "identity_value i" u scope cid v rnd b] by (simp_all add: r)
  show ?thesis
    unfolding issue_grant_def m
    using assms(1) sign_secret [OF g(2), of mac]
    by (simp add: r verify_grant_def g(1) covers_def del: identity_value.simps tool_value.simps)
qed

lemma observe_answered:
  assumes "authorized_to_observe grant verifier ctx"
    and "run_semantic_call minus_fl (provider bytes (fi_mime_type img) ctx) clock (pv_semantic config) w = (outcome, w')"
    and "rt_outcome outcome = RO_SUCCEEDED" "rt_value outcome = Some raw"
    and "cleaned (po_raw_output raw) = position_value p"
    and "oc_submission_id ctx \<noteq> []" "ref \<noteq> []"
  shows "\<exists>x. observe H rp minus_fl clock provider i img bytes ctx config grant verifier ref w = (Inr x, w') \<and>
    observation_succeeded x \<and> or_provider_observation x = Some raw"
proof -
  have n: "normalize_model_output (RawStr (po_raw_output raw)) = Some p"
    using assms(5) by (simp only: normalize_model_output_iff)
  have "require_authorization grant verifier ctx = None"
    using assms(1) by (simp only: require_authorization_None_iff)
  then show ?thesis
    using assms(2-4,6,7) n
    by (simp add: observe_def Let_def retry_succeeded_def validated_def valid_observation_def
        observation_succeeded_def del: normalize_model_output.simps)
qed

lemma record_attempt_fresh:
  assumes "field_store_ok (sn_field_store s)" and "find_operation oid (sn_field_store s) = None"
  shows "\<exists>s1 extra. record_attempt pf cl oid img x s = (s1, Inr ()) \<and>
    set (dict_keys extra) \<subseteq> {''operation_id'', ''status'', ''failure_reason''} \<and>
    core s1 = core (s\<lparr>sn_field_store := sn_field_store s1\<rparr>) \<and>
    field_resolve (field_evidence_ref oid) (sn_field_store s1) =
      Some (stored_document (pf_isoformat pf) oid (dict_merge (or_evidence x) extra) (cl_now cl 0))"
proof -
  let ?extra = "[(''operation_id'', JStr oid), (''status'', JStr (observation_status_value (or_status x))),
    (''failure_reason'', json_opt (map_option (pf_failure_text pf) (or_failure_reason x)))]"
  let ?d = "dict_merge (or_evidence x) ?extra"
  have "field_resolve (field_evidence_ref oid) (sn_field_store s) = None"
    using assms by (simp add: find_operation_eq)
  then have "field_evidence_ref oid \<notin> fst ` set (fs_records (sn_field_store s))"
    by (auto simp: field_resolve_def dict_get_None)
  from record_field_fresh [OF this, of "pf_isoformat pf" ?d "cl_now cl 0"] obtain f where
    f: "record_field (pf_isoformat pf) oid ?d (cl_now cl 0) (sn_field_store s) = (f, Inr (field_evidence_ref oid))"
    by blast
  have d: "dict_put ''failure_reason'' (json_opt (map_option (pf_failure_text pf) (or_failure_reason x)))
      (dict_put ''status'' (JStr (observation_status_value (or_status x)))
        (dict_put ''operation_id'' (JStr oid) (or_evidence x))) = ?d" by simp
  obtain s1 where s1: "record_attempt pf cl oid img x s = (s1, Inr ())"
    "core s1 = core (s\<lparr>sn_field_store := f\<rparr>)"
    using f unfolding record_attempt_def Let_def d
    by (simp add: core_def store_evidence_def del: dict_merge.simps)
  then have "sn_field_store s1 = f" using coreD(12) [OF s1(2)] by simp
  with s1 record_field_Inr(2) [OF f] show ?thesis
    by (intro exI [of _ s1] exI [of _ ?extra]) (simp del: dict_merge.simps)
qed

text \<open>The states in which a photograph is judged.\<close>

definition OPEN_STATES :: "workflow_state set" where
  "OPEN_STATES = {AWAITING_FIELD_VERIFICATION, VERIFICATION_FAILED, VERIFICATION_INCONCLUSIVE}"

lemma reopened_open:
  assumes "wf_state w \<in> OPEN_STATES"
  shows "\<exists>w1. reopen_for_new_evidence w t = Inr w1 \<and> wf_state w1 = AWAITING_FIELD_VERIFICATION \<and>
    wf_workflow_id w1 = wf_workflow_id w \<and> wf_change_id w1 = wf_change_id w \<and>
    wf_source_version w1 = wf_source_version w"
  using assms by (auto simp: reopen_Inr OPEN_STATES_def)

lemma verdict_recorded:
  assumes ok: "verdicts_ok change w events" "list_all valid_event events" and st: "wf_state w \<in> OPEN_STATES"
    and ids: "wf_change_id w = ac_change_id change" "wf_source_version w = ac_source_version change"
      "wf_workflow_id w \<noteq> []" "ac_current_value change \<noteq> []" "event_id \<noteq> []" "valid_classification c"
    and b: "ob_accepted b" "ob_accepted_observation b = Some ob"
    and doc: "field_resolve (fo_raw_evidence_ref ob) store = Some doc"
      "dict_get doc ''change_id'' = Some (JStr (ac_change_id change))"
      "dict_get doc ''source_version'' = Some (JStr (ac_source_version change))"
    and ob: "fo_submission_id ob \<noteq> []" "fo_raw_evidence_ref ob \<noteq> []"
      "fo_submission_id ob \<notin> ve_submission_id ` set events"
  shows "\<exists>w' e v. record_verdict change c b store event_id t1 t2 (w, events) = ((w', events @ [e]), Inr v) \<and>
    wf_state w' = VERDICT_STATE (compared ob (ac_current_value change)) \<and>
    ve_verification_result e = compared ob (ac_current_value change)"
proof -
  from reopened_open [OF st] obtain w1 where w1: "reopen_for_new_evidence w t1 = Inr w1"
    "wf_state w1 = AWAITING_FIELD_VERIFICATION" "wf_workflow_id w1 = wf_workflow_id w"
    "wf_change_id w1 = wf_change_id w" "wf_source_version w1 = wf_source_version w" by blast
  let ?ctx = "\<lparr>vc_workflow = w1, vc_change = change, vc_boundary = b, vc_store = store,
    vc_event_id = event_id, vc_occurred_at = t2, vc_data_classification = c, vc_existing_events = events\<rparr>"
  have adj: "adjudicable ?ctx ob"
    using b doc w1 ids by (auto simp: adjudicable_def context_mismatches_Nil_iff)
  have prior: "prior_events ?ctx = events \<or> events = []" by (simp add: prior_events_def)
  have wev: "wf_verification_events w1 = events"
    using ok(1) w1(1) by (auto simp: reopen_Inr verdicts_ok_def split: if_splits)
  then have prior: "prior_events ?ctx = events" by (simp add: prior_events_def)
  have new: "\<not> seen_before ?ctx ob"
    using ob(3) unfolding seen_before_def prior by (auto simp: events_for_workflow_def)
  have "0 \<le> next_event_sequence events (wf_workflow_id w1)"
    using ok(2) max_sequence_in [of "events_for_workflow events (wf_workflow_id w1)"]
    by (cases "events_for_workflow events (wf_workflow_id w1) = []")
      (auto simp: next_event_sequence_def events_for_workflow_def list_all_iff valid_event_def)
  then have valid: "valid_event (verdict_event ?ctx ob)"
    using ob ids w1(3) by (simp add: valid_event_def verdict_event_def new_verification_event_def prior)
  have v: "ve_verification_result (verdict_event ?ctx ob) = compared ob (ac_current_value change)"
    by (simp add: verdict_event_def)
  have step: "record_verdict change c b store event_id t1 t2 (w, events) =
    (case adjudicate_field_verification ?ctx of
       Inl e \<Rightarrow> ((w1, events), Inl e)
     | Inr v \<Rightarrow>
         ((case vd_workflow v of None \<Rightarrow> w1 | Some w2 \<Rightarrow> w2,
           case vd_event v of
             None \<Rightarrow> events
           | Some e \<Rightarrow> if duplicate v then events else events @ [e]), Inr v))"
    by (simp add: record_verdict_def w1(1))
  show ?thesis
  proof (cases rule: adjudicate_cases [of ?ctx])
    case (fresh ob')
    have "ob' = ob" by (rule adjudicable_unique [OF fresh(1) adj])
    with fresh(4) step v show ?thesis by (simp add: reached_def duplicate_def)
  qed (use adj new valid adjudicable_unique [OF adj] in auto)
qed

section \<open>The verdict of an answered photograph\<close>

lemma crossing_4_accepts:
  assumes "field_resolve (fo_raw_evidence_ref ob) (sn_field_store s) = Some doc"
    and "observation_recorded ob (crossing_for (sn_change s) ctx img rej known) doc"
    and "fo_submission_id ob = oc_submission_id ctx"
    and "fo_submission_id ob \<notin> set (sn_known_submission_ids s)"
  shows "\<exists>s' v. validate_crossing_4 ob s = (s', v) \<and> core s' = core s \<and>
    sn_provider_calls s' = sn_provider_calls s \<and> ob_accepted v \<and> ob_accepted_observation v = Some ob"
  using assms
  by (simp add: validate_crossing_4_def Let_def crossing4_result crossing4_accepts_iff observation_recorded_def
      crossing_for_def) (simp add: record_event_def store_evidence_def)

lemma adjudicate_session_verdict:
  assumes ok: "session_ok pf s" and st: "state_of s \<in> OPEN_STATES"
    and ids: "workflow_id_of s \<noteq> []" "ac_current_value (sn_change s) \<noteq> []"
    and b: "ob_accepted b" "ob_accepted_observation b = Some ob"
    and doc: "field_resolve (fo_raw_evidence_ref ob) (sn_field_store s) = Some doc"
      "dict_get doc ''change_id'' = Some (JStr (ac_change_id (sn_change s)))"
      "dict_get doc ''source_version'' = Some (JStr (ac_source_version (sn_change s)))"
    and ob: "fo_submission_id ob \<noteq> []" "fo_raw_evidence_ref ob \<noteq> []"
      "fo_submission_id ob \<notin> ve_submission_id ` set (sn_verification_events s)"
  shows "\<exists>s'. adjudicate_session cl b s = (s', Inr ()) \<and>
    state_of s' = VERDICT_STATE (compared ob (ac_current_value (sn_change s))) \<and>
    length (sn_verification_events s') = length (sn_verification_events s) + 1 \<and>
    sn_provider_calls s' = sn_provider_calls s"
proof -
  have k: "verdicts_ok (sn_change s) (sn_workflow s) (sn_verification_events s)"
    "list_all valid_event (sn_verification_events s)"
    "wf_change_id (sn_workflow s) = ac_change_id (sn_change s)"
    "wf_source_version (sn_workflow s) = ac_source_version (sn_change s)"
    using ok by (simp_all add: session_ok_def intake_ok_def)
  have c: "valid_classification classification" by (simp add: valid_classification_def classification_def)
  have i: "''vev-'' @ sn_session_id s @ CHR ''-'' # pad_nat 3 (length (sn_verification_events s) + 1) \<noteq> []" by simp
  from verdict_recorded [OF k(1,2) st k(3,4) ids(1) [unfolded workflow_id_of_def] ids(2) i c b doc ob, of "cl_now cl 1" "cl_now cl 2"]
  obtain w' e v where "record_verdict (sn_change s) classification b (sn_field_store s)
      (''vev-'' @ sn_session_id s @ CHR ''-'' # pad_nat 3 (length (sn_verification_events s) + 1))
      (cl_now cl 1) (cl_now cl 2) (sn_workflow s, sn_verification_events s) =
        ((w', sn_verification_events s @ [e]), Inr v)"
    "wf_state w' = VERDICT_STATE (compared ob (ac_current_value (sn_change s)))" by blast
  then show ?thesis
    by (simp add: adjudicate_session_def Let_def record_event_def store_evidence_def split: option.split)
qed

text \<open>Nothing that was submitted or judged shares the submission of an image whose operation is not on file.\<close>

lemma submission_fresh:
  assumes "session_ok pf s" and "find_operation (operation_of i) (sn_field_store s) = None"
  shows "i \<notin> set (sn_known_submission_ids s)" "i \<notin> ve_submission_id ` set (sn_verification_events s)"
  using assms unfolding session_ok_def intake_ok_def submissions_def by blast+

lemma observe_and_judge_verdict:
  fixes s :: session and w w1 :: 'w and pf :: platform and img :: field_image
  defines "c \<equiv> sn_change s"
  defines "sub \<equiv> derive_submission_id (pf_H pf) (ac_change_id c) (ac_source_version c) (fi_sha256 img)"
  assumes ok: "session_ok pf s" and st: "state_of s \<in> OPEN_STATES"
    and ids: "workflow_id_of s \<noteq> []" "ac_current_value c \<noteq> []" "\<not> blank (ac_change_id c)" "\<not> blank (ac_source_version c)"
    and new: "find_operation (operation_of sub) (sn_field_store s) = None"
    and run: "run_semantic_call (pf_minus pf)
        (provider raw (fi_mime_type img) (observation_context_for (ac_change_id c) (ac_source_version c) sub))
        (cl_clock cl) (pv_semantic config) w = (outcome, w1)"
      "rt_outcome outcome = RO_SUCCEEDED" "rt_value outcome = Some answer"
      "cleaned (po_raw_output answer) = position_value p"
  shows "case observe_and_judge pf cl config provider raw img (s, w) of
    ((s', w'), r) \<Rightarrow> state_of s' = VERDICT_STATE
        (if p = OBS_INCONCLUSIVE then VR_INCONCLUSIVE else if position_value p = ac_current_value c then VR_PASS else VR_FAIL) \<and>
      length (sn_verification_events s') = length (sn_verification_events s) + 1 \<and>
      sn_provider_calls s' = sn_provider_calls s + 1 \<and> w' = w1"
proof -
  let ?ctx = "observation_context_for (ac_change_id c) (ac_source_version c) sub"
  let ?op = "derive_observation_operation_id (pf_H pf) (ac_change_id c) (ac_source_version c) (fi_sha256 img)"
  have op: "operation_of sub = ?op" by (simp add: sub_def operation_of_submission)
  have sub_ne: "sub \<noteq> []" by (simp add: sub_def derive_submission_id_def)
  have auth: "is_authorized (identity_value FIELD_VERIFICATION) (tool_value FIELD_OBSERVATION_TOOL)"
    by (simp only: is_authorized_values) (simp add: AUTHORIZATION_POLICY_def)
  from issued_grant_verifies [OF auth ids(3,3,4), of "pf_mac pf" "cl_rnd cl" "Some (cl_now cl 3)" "sn_broker s"]
  obtain b g where issue: "issue_grant (pf_mac pf) (identity_value FIELD_VERIFICATION)
      (tool_value FIELD_OBSERVATION_TOOL) (ac_change_id c) (ac_change_id c) (ac_source_version c)
      (cl_rnd cl) (Some (cl_now cl 3)) (sn_broker s) = (b, Inr g)"
    and g: "verify_grant (pf_mac pf) b g (tool_value FIELD_OBSERVATION_TOOL)" "covers g (ac_change_id c)"
      "tg_source_version g = ac_source_version c" by blast
  let ?verifier = "Some (\<lambda>g. verify_grant (pf_mac pf) b g (tool_value FIELD_OBSERVATION_TOOL))"
  let ?s1 = "s\<lparr>sn_broker := b, sn_provider_calls := sn_provider_calls s + 1\<rparr>"
  have ctx: "oc_change_id ?ctx = ac_change_id c" "oc_source_version ?ctx = ac_source_version c"
    "oc_submission_id ?ctx = sub" by (simp_all add: observation_context_for_def)
  have "authorized_to_observe (Some g) ?verifier ?ctx"
    using g ctx by (simp add: authorized_to_observe_def)
  from observe_answered [of "Some g" ?verifier ?ctx "pf_minus pf" provider raw img "cl_clock cl" config w outcome w1
      answer p "field_evidence_ref ?op" "pf_H pf" "pf_repr pf" FIELD_VERIFICATION, OF this run]
  obtain x where obs: "observe (pf_H pf) (pf_repr pf) (pf_minus pf) (cl_clock cl) provider
      FIELD_VERIFICATION img raw ?ctx config (Some g) ?verifier (field_evidence_ref ?op) w = (Inr x, w1)"
    and x: "observation_succeeded x" "or_provider_observation x = Some answer"
    using sub_ne ctx(3) by auto
  have ok1: "session_ok pf ?s1"
    using follows_ok [OF follows_core_right [OF issued_follows [OF issue]] ok, of ?s1] by (simp add: core_def)
  have "find_operation ?op (sn_field_store ?s1) = None" "field_store_ok (sn_field_store ?s1)"
    using new op ok1 by (simp_all add: session_ok_def intake_ok_def)
  from record_attempt_fresh [OF this(2,1), of pf cl img x] obtain s2 extra where
    att: "record_attempt pf cl ?op img x ?s1 = (s2, Inr ())"
    and extra: "set (dict_keys extra) \<subseteq> {''operation_id'', ''status'', ''failure_reason''}"
    and c2: "core s2 = core (?s1\<lparr>sn_field_store := sn_field_store s2\<rparr>)"
    and doc: "field_resolve (field_evidence_ref ?op) (sn_field_store s2) =
      Some (stored_document (pf_isoformat pf) ?op (dict_merge (or_evidence x) extra) (cl_now cl 0))" by blast
  let ?doc = "stored_document (pf_isoformat pf) ?op (dict_merge (or_evidence x) extra) (cl_now cl 0)"
  have ok2: "session_ok pf s2" by (rule follows_ok [OF record_attempt_follows [OF att] ok1])
  have s2: "sn_workflow s2 = sn_workflow s" "sn_change s2 = c"
    "sn_verification_events s2 = sn_verification_events s"
    "sn_known_submission_ids s2 = sn_known_submission_ids s"
    using coreD(1-3,13) [OF c2] by (simp_all add: c_def)
  have calls2: "sn_provider_calls s2 = sn_provider_calls s + 1"
    using att by (auto simp: record_attempt_def Let_def store_evidence_def split: prod.splits sum.splits if_splits)
  from observed_recorded [OF obs x(1) ctx(1,2) extra] x(2) obtain ob where
    ob: "or_observation x = Some ob" "cleaned (po_raw_output answer) = position_value (fo_observed_label_position ob)"
      "fo_submission_id ob = sub" "fo_raw_evidence_ref ob = field_evidence_ref ?op"
    and rec: "observation_recorded ob (crossing_for c ?ctx img '''' []) ?doc" using ctx(3) by fastforce
  have p: "fo_observed_label_position ob = p" using ob(2) run(4) by (cases p; cases "fo_observed_label_position ob") auto
  note fresh = submission_fresh [OF ok new]
  from crossing_4_accepts [of ob s2 ?doc ?ctx img "''''" "[]"] doc rec ob(3,4) s2(2,4) fresh(1) ctx(3)
  obtain s3 v where x4: "validate_crossing_4 ob s2 = (s3, v)" "core s3 = core s2"
    "sn_provider_calls s3 = sn_provider_calls s2" "ob_accepted v" "ob_accepted_observation v = Some ob"
    by auto
  note c3 = coreD [OF x4(2)]
  have ok3: "session_ok pf s3" using ok2 session_ok_core [OF x4(2)] by simp
  have d: "dict_get ?doc ''change_id'' = Some (JStr (ac_change_id c))"
    "dict_get ?doc ''source_version'' = Some (JStr (ac_source_version c))"
    using rec by (simp_all add: observation_recorded_def crossing_for_def)
  have "\<exists>s'. adjudicate_session cl v s3 = (s', Inr ()) \<and>
      state_of s' = VERDICT_STATE (compared ob (ac_current_value (sn_change s3))) \<and>
      length (sn_verification_events s') = length (sn_verification_events s3) + 1 \<and>
      sn_provider_calls s' = sn_provider_calls s3"
  proof (rule adjudicate_session_verdict [OF ok3 _ _ _ x4(4,5)])
    show "state_of s3 \<in> OPEN_STATES" "workflow_id_of s3 \<noteq> []"
      using st ids(1) s2(1) c3(1) by (simp_all add: workflow_id_of_def)
    show "ac_current_value (sn_change s3) \<noteq> []" using ids(2) s2(2) c3(2) by simp
    show "field_resolve (fo_raw_evidence_ref ob) (sn_field_store s3) = Some ?doc" using doc ob(4) c3(12) by simp
    show "dict_get ?doc ''change_id'' = Some (JStr (ac_change_id (sn_change s3)))"
      "dict_get ?doc ''source_version'' = Some (JStr (ac_source_version (sn_change s3)))"
      using d s2(2) c3(2) by simp_all
    show "fo_submission_id ob \<noteq> []" "fo_raw_evidence_ref ob \<noteq> []"
      "fo_submission_id ob \<notin> ve_submission_id ` set (sn_verification_events s3)"
      using ob(3,4) sub_ne fresh(2) s2(3) c3(3) by simp_all
  qed
  then obtain s4 where a: "adjudicate_session cl v s3 = (s4, Inr ())"
    "state_of s4 = VERDICT_STATE (compared ob (ac_current_value c))"
    "length (sn_verification_events s4) = length (sn_verification_events s) + 1"
    "sn_provider_calls s4 = sn_provider_calls s + 1"
    using s2 c3 x4(3) calls2 by auto
  have judge: "judge_observation cl x s2 = (s4, Some True, Inr ())"
    using x(1) ob(1) x4(1,4) a(1) by (simp add: judge_observation_def)
  let ?s5 = "s4\<lparr>sn_known_submission_ids := (if sub \<in> set (sn_known_submission_ids s4)
      then sn_known_submission_ids s4 else sn_known_submission_ids s4 @ [sub]),
    sn_field_verification := Some (FieldView (or_status x) (Some True))\<rparr>"
  have res: "observe_and_judge pf cl config provider raw img (s, w) = respond pf cl (?s5, w1)"
    using issue obs att judge by (simp add: observe_and_judge_def Let_def c_def sub_def)
  note e = respond_effect [of pf cl ?s5 w1]
  have "compared ob (ac_current_value c) =
      (if p = OBS_INCONCLUSIVE then VR_INCONCLUSIVE else if position_value p = ac_current_value c then VR_PASS else VR_FAIL)"
    by (simp add: compared_def verdict_on_def p)
  with e a res show ?thesis by (simp add: assets_def split_beta)
qed

lemma validated_Inr: "validated P x = Inr y \<Longrightarrow> P y"
  by (auto simp: validated_def split: if_splits)

lemma ingested_valid:
  assumes "ingest_source_change H i p c scope st t k store = (store', Inr r)"
  shows "valid_change (si_change r)"
  using assms
  by (auto simp: ingest_source_change_def res_bind_Inr_iff dest: validated_Inr
      split: if_splits list.splits prod.splits sum.splits)

lemma new_session_valid:
  assumes "new_session pf ns n d rationale secret t u sink = Inr s"
  shows "workflow_id_of s \<noteq> [] \<and> valid_change (sn_change s)"
proof -
  obtain store r where i: "ingest_source_change (pf_H pf) (pd_change_id d) (pd_previous d) (pd_current d)
      (pd_authorized_scope d) (pd_approved_status d) RECEIVED_AT classification empty_source_store = (store, r)"
    by fastforce
  with assms obtain ing where r: "r = Inr ing" by (cases r) (auto simp: new_session_def)
  have "sn_change s = si_change ing \<and> wf_workflow_id (sn_workflow s) = ns @ ''-'' @ pad_nat 3 n"
    using assms i r by (auto simp: new_session_def Let_def res_bind_Inr_iff validated_def split: if_splits)
  with ingested_valid [OF i [unfolded r]] show ?thesis by (simp add: workflow_id_of_def)
qed

end
