(* ===== verification/Session_Evidence.thy ===== *)
theory Session_Evidence
  imports Session_Properties Session_Liveness
begin

text \<open>
  Field evidence in a console session: a photograph that was judged costs nothing when it is submitted
  again, one whose attempt failed is refused for good, and a fresh one that is answered gets its verdict.
\<close>

section \<open>Submissions on file\<close>

abbreviation operation_id :: "platform \<Rightarrow> approved_change \<Rightarrow> str \<Rightarrow> str" where
  "operation_id pf c sha \<equiv> derive_observation_operation_id (pf_H pf) (ac_change_id c) (ac_source_version c) sha"

lemma replay_effect:
  assumes "accept_field_image (pf_H pf) raw f c MAX_IMAGE_BYTES = Inr img"
    and "find_operation (operation_id pf (sn_change s) (pf_H pf raw)) (sn_field_store s) = Some d"
    and "evidence_is_replayable d"
  shows "assets (fst (fst (submit_field_evidence pf cl raw f c (s, w)))) = assets s \<and>
    snd (fst (submit_field_evidence pf cl raw f c (s, w))) = w"
  using assms accepted_digest [OF assms(1)]
  by (simp add: submit_field_evidence_def Let_def respond_effect)

text \<open>C4. A photograph that was judged is never paid for again. Once an attempt on an image is on file
  with its normalized answer, then after any further requests the same bytes, under whatever name and
  type they are declared, are answered from the file: the world does not change, so no provider is called,
  nothing is granted, and neither the verdicts, the workflow nor the evidence store changes.\<close>

theorem resubmission_costs_nothing:
  assumes "reached pf s0 (s, w)"
    and "accept_field_image (pf_H pf) raw f c MAX_IMAGE_BYTES = Inr img"
    and "find_operation (operation_id pf (sn_change s) (pf_H pf raw)) (sn_field_store s) = Some d"
    and "evidence_is_replayable d"
    and "serve pf rs (s, w) = (s1, w1)"
  shows "case submit_field_evidence pf cl raw f' c' (s1, w1) of
    ((s2, w2), r) \<Rightarrow> w2 = w1 \<and> sn_provider_calls s2 = sn_provider_calls s1 \<and>
      br_grants (sn_broker s2) = br_grants (sn_broker s1) \<and> sn_workflow s2 = sn_workflow s1 \<and>
      sn_verification_events s2 = sn_verification_events s1 \<and> sn_field_store s2 = sn_field_store s1"
proof -
  have ok: "session_ok pf s" using reached_ok [OF assms(1)] by simp
  have f: "follows pf s s1" using serve_follows [of pf "(s, w)" rs] assms(5) by simp
  with ok have k: "sn_change s1 = sn_change s" "keeps_evidence s s1" by (auto simp: follows_def)
  then have filed: "find_operation (operation_id pf (sn_change s1) (pf_H pf raw)) (sn_field_store s1) = Some d"
    using assms(3) by (simp add: keeps_evidence_def)
  from accept_declared [OF assms(2)] obtain img' where
    "accept_field_image (pf_H pf) raw f' c' MAX_IMAGE_BYTES = Inr img'" by blast
  note e = replay_effect [OF this filed assms(4), of cl w1]
  obtain s2 w2 r where sub: "submit_field_evidence pf cl raw f' c' (s1, w1) = ((s2, w2), r)"
    by (metis prod.collapse)
  with e show ?thesis by (simp add: assets_def)
qed

lemma pilot_photo_accepted:
  "\<exists>img. accept_field_image sample_digest (pilot_photo (CHR ''2'')) None None MAX_IMAGE_BYTES = Inr img"
proof -
  have "case accept_field_image sample_digest (pilot_photo (CHR ''2'')) None None 4000 of
      Inl e \<Rightarrow> False | Inr i \<Rightarrow> True" by code_simp
  moreover have "accept_field_image sample_digest (pilot_photo (CHR ''2'')) None None MAX_IMAGE_BYTES =
      accept_field_image sample_digest (pilot_photo (CHR ''2'')) None None 4000"
    by (simp add: accept_field_image_def MAX_IMAGE_BYTES_def pilot_photo_def)
  ultimately show ?thesis by (auto split: sum.splits)
qed

lemma pilot_change:
  "ac_change_id (sn_change pilot_session) = ''DZ-1'' \<and> ac_source_version (sn_change pilot_session) = ''v14'' \<and>
   ac_current_value (sn_change pilot_session) = ''TOP_RIGHT''"
  by code_simp

theorem resubmission_costs_nothing_witness:
  "\<exists>s w. case submit_field_evidence sample_platform (pilot_call ''left'') (pilot_photo (CHR ''2''))
       (Some ''again.png'') None (s, w :: nat) of
     ((s2, w2), r) \<Rightarrow> w2 = w \<and> sn_provider_calls s2 = sn_provider_calls s \<and>
       sn_workflow s2 = sn_workflow s \<and> state_of s = PROOF_COMPLETE"
proof -
  obtain s and w :: nat and d where s: "reached sample_platform pilot_session (s, w)" "state_of s = PROOF_COMPLETE"
    "find_operation (derive_observation_operation_id sample_digest ''DZ-1'' ''v14''
        (sample_digest (pilot_photo (CHR ''2'')))) (sn_field_store s) = Some d" "evidence_is_replayable d"
    using pilot_completed by blast
  have c: "sn_change s = sn_change pilot_session"
    using reached_follows [OF s(1)] by (auto simp: follows_def)
  have H: "pf_H sample_platform = sample_digest" by (simp add: sample_platform_def)
  obtain img where img: "accept_field_image sample_digest (pilot_photo (CHR ''2'')) None None MAX_IMAGE_BYTES = Inr img"
    using pilot_photo_accepted by blast
  have "serve sample_platform [] (s, w) = (s, w)" by (simp add: serve_def)
  from resubmission_costs_nothing [OF s(1), unfolded H c, OF img _ s(4) this, of "pilot_call ''left''" "Some ''again.png''" None]
    s(2,3) pilot_change
  show ?thesis by (intro exI [of _ s] exI [of _ w]) (auto split: prod.splits)
qed

section \<open>Failed attempts\<close>

lemma record_attempt_used:
  assumes "field_store_ok (sn_field_store s)" and "find_operation oid (sn_field_store s) = Some d"
  shows "\<exists>e. record_attempt pf cl oid img result s = (s\<lparr>sn_field_store := sn_field_store s\<rparr>, Inl e)"
proof -
  have "field_evidence_ref oid \<in> fst ` set (fs_records (sn_field_store s))"
    using assms by (simp add: find_operation_eq field_resolve_def dict_get_present)
  then show ?thesis by (simp add: record_attempt_def Let_def record_field_used)
qed

lemma filed_first:
  "find_operation i (fst (record_field tf i d t empty_field_store)) = Some (stored_document tf i d t)"
proof -
  have "field_evidence_ref i \<notin> fst ` set (fs_records empty_field_store)" by (simp add: empty_field_store_def)
  from record_field_fresh [OF this, of tf d t] obtain f where
    f: "record_field tf i d t empty_field_store = (f, Inr (field_evidence_ref i))" by blast
  with record_field_Inr(2) [OF f] record_field_ok [OF empty_field_store_ok, of tf i d t]
  show ?thesis by (simp add: find_operation_eq)
qed

text \<open>C17. An attempt that failed is final. When an attempt on an image is on file without a normalized
  answer - the provider failed, or answered outside the domain - submitting the same bytes again never
  leads to a verdict: the workflow, its verdicts and the evidence store stay as they are, and if the
  provider was called again, and so paid for again, the request raises.\<close>

theorem failed_attempt_is_final:
  fixes w :: 'w
  assumes "field_store_ok (sn_field_store s)"
    and "accept_field_image (pf_H pf) raw f c MAX_IMAGE_BYTES = Inr img"
    and "find_operation (operation_id pf (sn_change s) (pf_H pf raw)) (sn_field_store s) = Some d"
    and "\<not> evidence_is_replayable d"
  shows "case submit_field_evidence pf cl raw f c (s, w) of
    ((s', w'), r) \<Rightarrow> sn_workflow s' = sn_workflow s \<and> sn_verification_events s' = sn_verification_events s \<and>
      sn_field_store s' = sn_field_store s \<and>
      (if sn_provider_calls s' = sn_provider_calls s then w' = w
       else sn_provider_calls s' = sn_provider_calls s + 1 \<and> isl r)"
proof -
  let ?s = "record_event ''FIELD_EVIDENCE_SUBMITTED'' s"
  define good where "good = (\<lambda>(sw :: session \<times> 'w, r :: unit res).
      sn_workflow (fst sw) = sn_workflow s \<and> sn_verification_events (fst sw) = sn_verification_events s \<and>
      sn_field_store (fst sw) = sn_field_store s \<and>
      (if sn_provider_calls (fst sw) = sn_provider_calls s then snd sw = w
       else sn_provider_calls (fst sw) = sn_provider_calls s + 1 \<and> isl r))"
  have plain: "good (respond pf cl (s', w))" if "assets s' = assets s" for s'
    using respond_effect [of pf cl s' w] that
    by (cases "respond pf cl (s', w)") (simp add: assets_def good_def)
  have judged: "good (observe_and_judge pf cl config provider raw img (?s, w))" for config provider
  proof -
    let ?c = "sn_change s"
    let ?sub = "derive_submission_id (pf_H pf) (ac_change_id ?c) (ac_source_version ?c) (fi_sha256 img)"
    let ?op = "derive_observation_operation_id (pf_H pf) (ac_change_id ?c) (ac_source_version ?c) (fi_sha256 img)"
    obtain b g where issue: "issue_grant (pf_mac pf) (identity_value FIELD_VERIFICATION)
        (tool_value FIELD_OBSERVATION_TOOL) (ac_change_id ?c) (ac_change_id ?c) (ac_source_version ?c)
        (cl_rnd cl) (Some (cl_now cl 3)) (sn_broker s) = (b, g)" by fastforce
    show ?thesis
    proof (cases g)
      case (Inl e)
      with issue show ?thesis by (simp add: observe_and_judge_def Let_def good_def)
    next
      case (Inr grant)
      let ?s1 = "?s\<lparr>sn_broker := b, sn_provider_calls := sn_provider_calls s + 1\<rparr>"
      obtain o1 w1 where obs: "observe (pf_H pf) (pf_repr pf) (pf_minus pf) (cl_clock cl) provider
          FIELD_VERIFICATION img raw
          (observation_context_for (ac_change_id ?c) (ac_source_version ?c) ?sub) config (Some grant)
          (Some (\<lambda>g. verify_grant (pf_mac pf) b g (tool_value FIELD_OBSERVATION_TOOL)))
          (field_evidence_ref ?op) w = (o1, w1)" by fastforce
      show ?thesis
      proof (cases o1)
        case (Inl e)
        with issue Inr obs show ?thesis by (simp add: observe_and_judge_def Let_def good_def)
      next
        case o1: (Inr result)
        have "field_store_ok (sn_field_store ?s1)" "find_operation ?op (sn_field_store ?s1) = Some d"
          using assms(1,3) accepted_digest [OF assms(2)] by simp_all
        from record_attempt_used [OF this] obtain e where
          "record_attempt pf cl ?op img result ?s1 = (?s1\<lparr>sn_field_store := sn_field_store ?s1\<rparr>, Inl e)" by blast
        with issue Inr obs o1 show ?thesis by (simp add: observe_and_judge_def Let_def good_def)
      qed
    qed
  qed
  have "submit_field_evidence pf cl raw f c (s, w) = submit_fresh pf cl raw img (?s, w)"
    using assms(2-4) accepted_digest [OF assms(2)] by (simp add: submit_field_evidence_def Let_def)
  moreover have "good (submit_fresh pf cl raw img (?s, w))"
  proof (cases "cl_config cl")
    case (Inl e)
    then show ?thesis by (simp add: submit_fresh_def good_def)
  next
    case (Inr dz)
    then show ?thesis by (simp add: submit_fresh_def Let_def plain judged split: option.split)
  qed
  ultimately have "good (submit_field_evidence pf cl raw f c (s, w))" by (simp only:)
  then show ?thesis unfolding good_def split_beta .
qed

theorem failed_attempt_is_final_witness:
  "let store = fst (record_field show_int (operation_id sample_platform (sn_change pilot_session)
        (sample_digest (pilot_photo (CHR ''2'')))) [(''status'', JStr ''PROVIDER_FAILED'')] 7 empty_field_store)
   in case submit_field_evidence sample_platform (pilot_call ''top-right'') (pilot_photo (CHR ''2'')) None None
       (pilot_session\<lparr>sn_field_store := store\<rparr>, 0) of
     ((s', w'), r) \<Rightarrow> sn_workflow s' = sn_workflow pilot_session \<and> sn_field_store s' = store"
proof -
  let ?op = "operation_id sample_platform (sn_change pilot_session) (sample_digest (pilot_photo (CHR ''2'')))"
  let ?doc = "[(''status'', JStr ''PROVIDER_FAILED'')] :: (str, json) dict"
  let ?store = "fst (record_field show_int ?op ?doc 7 empty_field_store)"
  let ?s = "pilot_session\<lparr>sn_field_store := ?store\<rparr>"
  have ok: "field_store_ok ?store" by (rule record_field_ok [OF empty_field_store_ok])
  note filed = filed_first [of ?op show_int ?doc 7]
  have H: "pf_H sample_platform = sample_digest" by (simp add: sample_platform_def)
  have nr: "\<not> evidence_is_replayable (stored_document show_int ?op ?doc 7)"
    by (simp add: evidence_is_replayable_def stored_lookup json_truthy_def)
  obtain img where img: "accept_field_image sample_digest (pilot_photo (CHR ''2'')) None None MAX_IMAGE_BYTES = Inr img"
    using pilot_photo_accepted by blast
  obtain s' w' r where sub: "submit_field_evidence sample_platform (pilot_call ''top-right'')
      (pilot_photo (CHR ''2'')) None None (?s, 0) = ((s', w'), r)" by (metis prod.collapse)
  have k: "field_store_ok (sn_field_store ?s)"
    "find_operation (operation_id sample_platform (sn_change ?s) (pf_H sample_platform (pilot_photo (CHR ''2''))))
       (sn_field_store ?s) = Some (stored_document show_int ?op ?doc 7)"
    using ok filed by (simp_all add: H)
  from failed_attempt_is_final [OF k(1) _ k(2) nr, unfolded H, OF img, where cl = "pilot_call ''top-right''" and w = 0]
  have "sn_workflow s' = sn_workflow ?s \<and> sn_field_store s' = sn_field_store ?s"
    unfolding H sub [unfolded H] prod.case by blast
  then show ?thesis unfolding Let_def sub prod.case by simp
qed

section \<open>Fresh photographs\<close>

lemma reached_valid:
  assumes "reached pf s0 (s, w)"
  shows "workflow_id_of s \<noteq> []" "ac_current_value (sn_change s) \<noteq> []"
proof -
  have "workflow_id_of s0 \<noteq> [] \<and> valid_change s" if "s = sn_change s0" for s
    using assms that by (induction rule: reached.induct) (auto dest: new_session_valid)
  moreover have "sn_change s = sn_change s0" "workflow_id_of s = workflow_id_of s0"
    using reached_follows [OF assms] by (auto simp: follows_def)
  ultimately show "workflow_id_of s \<noteq> []" "ac_current_value (sn_change s) \<noteq> []"
    by (simp_all add: valid_change_def)
qed

text \<open>C6. A delivered session is never stuck. In every reachable session that awaits field verification
  or whose last verdict was a failure or inconclusive, a photograph that was not submitted before is
  judged by the very request that submits it, provided a field provider is configured and its bounded
  call ends with an answer in the domain: one verdict is recorded, the state is the one of that verdict,
  and it is a pass exactly when the answer is the approved value - so from here a pass, and with it the
  proof, stays within reach.\<close>

theorem fresh_image_is_judged:
  assumes "reached pf s0 (s, w)"
    and "state_of s \<in> {AWAITING_FIELD_VERIFICATION, VERIFICATION_FAILED, VERIFICATION_INCONCLUSIVE}"
    and "\<not> blank (ac_change_id (sn_change s))" "\<not> blank (ac_source_version (sn_change s))"
    and "accept_field_image (pf_H pf) raw f c MAX_IMAGE_BYTES = Inr img"
    and "find_operation (operation_id pf (sn_change s) (pf_H pf raw)) (sn_field_store s) = None"
    and "cl_config cl = Inr dz" "field_enabled (dz_field_provider dz)"
      "cl_field_factory cl = Some factory" "factory (dz_field_provider dz) = Some provider"
    and "run_semantic_call (pf_minus pf)
        (provider raw (fi_mime_type img) (observation_context_for (ac_change_id (sn_change s))
           (ac_source_version (sn_change s))
           (derive_submission_id (pf_H pf) (ac_change_id (sn_change s)) (ac_source_version (sn_change s)) (pf_H pf raw))))
        (cl_clock cl) (pv_semantic (dz_field_provider dz)) w = (outcome, w1)"
      "rt_outcome outcome = RO_SUCCEEDED" "rt_value outcome = Some answer"
      "cleaned (po_raw_output answer) = position_value p"
  shows "case submit_field_evidence pf cl raw f c (s, w) of
    ((s', w'), r) \<Rightarrow> w' = w1 \<and> sn_provider_calls s' = sn_provider_calls s + 1 \<and>
      length (sn_verification_events s') = length (sn_verification_events s) + 1 \<and>
      state_of s' =
        (if p = OBS_INCONCLUSIVE then VERIFICATION_INCONCLUSIVE
         else if position_value p = ac_current_value (sn_change s) then VERIFICATION_PASSED
         else VERIFICATION_FAILED)"
proof -
  let ?s = "record_event ''FIELD_EVIDENCE_SUBMITTED'' s"
  note sha = accepted_digest [OF assms(5)]
  have core: "core ?s = core s" by simp
  have ok: "session_ok pf ?s" using reached_ok [OF assms(1)] session_ok_core [OF core] by simp
  have "submit_field_evidence pf cl raw f c (s, w) =
      observe_and_judge pf cl (dz_field_provider dz) provider raw img (?s, w)"
    using assms(5-10) sha
    by (simp add: submit_field_evidence_def submit_fresh_def get_field_observation_provider_def Let_def)
  moreover have "case observe_and_judge pf cl (dz_field_provider dz) provider raw img (?s, w) of
    ((s', w'), r) \<Rightarrow> state_of s' = VERDICT_STATE
        (if p = OBS_INCONCLUSIVE then VR_INCONCLUSIVE
         else if position_value p = ac_current_value (sn_change ?s) then VR_PASS else VR_FAIL) \<and>
      length (sn_verification_events s') = length (sn_verification_events ?s) + 1 \<and>
      sn_provider_calls s' = sn_provider_calls ?s + 1 \<and> w' = w1"
    using assms(2-4,6,11-14) reached_valid [OF assms(1)] sha
    by (intro observe_and_judge_verdict [OF ok])
      (simp_all add: OPEN_STATES_def workflow_id_of_def operation_of_submission)
  ultimately show ?thesis by (auto split: prod.splits)
qed

theorem fresh_image_is_judged_witness:
  "\<exists>s n. case submit_field_evidence sample_platform (pilot_call ''top-right'') (pilot_photo (CHR ''2'')) None None
      (s, n) of
     ((s', w'), r) \<Rightarrow> state_of s = AWAITING_FIELD_VERIFICATION \<and> state_of s' = VERIFICATION_PASSED \<and>
       length (sn_verification_events s') = length (sn_verification_events s) + 1"
proof -
  obtain s and n :: nat where r: "reached sample_platform pilot_session (s, n)"
    and st: "state_of s = AWAITING_FIELD_VERIFICATION" and fs: "sn_field_store s = empty_field_store"
    using pilot_reached pilot_awaits by (metis prod.collapse)
  have c: "sn_change s = sn_change pilot_session" using reached_follows [OF r] by (auto simp: follows_def)
  obtain img where img: "accept_field_image sample_digest (pilot_photo (CHR ''2'')) None None MAX_IMAGE_BYTES = Inr img"
    using pilot_photo_accepted by blast
  have H: "pf_H sample_platform = sample_digest" by (simp add: sample_platform_def)
  have none: "find_operation i empty_field_store = None" for i
    by (simp add: find_operation_def empty_field_store_def)
  let ?provider = "\<lambda>_ _ _ _ n. (Inr (sample_answer ''top-right''), n + 1)"
  have call: "cl_config (pilot_call ''top-right'') = Inr pilot_config"
    "field_enabled (dz_field_provider pilot_config)"
    "cl_field_factory (pilot_call ''top-right'') = Some (\<lambda>_. Some ?provider)"
    "cl_clock (pilot_call ''top-right'') = (\<lambda>n. (Fin 0, n))" "pf_minus sample_platform = (\<lambda>x y. Fin 1)"
    "dz_field_provider pilot_config = sample_field_config"
    by (simp_all add: pilot_call_def pilot_config_def sample_platform_def field_enabled_def sample_field_config_def
        FIELD_PROVIDER_DISABLED_def)
  have run: "case run_semantic_call (\<lambda>x y. Fin 1) (\<lambda>_ n :: nat. (Inr (sample_answer ''top-right''), n + 1))
      (\<lambda>n. (Fin 0, n)) (pv_semantic sample_field_config) n of
      (r, w') \<Rightarrow> rt_outcome r = RO_SUCCEEDED \<and> rt_value r = Some (sample_answer ''top-right'') \<and> w' = n + 1" for n
    by (simp add: run_semantic_call_def sample_field_config_def max_attempts_def upto_rec1)
  have clean: "cleaned (po_raw_output (sample_answer ''top-right'')) = position_value OBS_TOP_RIGHT" by code_simp
  have nb: "\<not> blank ''DZ-1''" "\<not> blank ''v14''" by code_simp+
  obtain outcome w1 where o: "run_semantic_call (\<lambda>x y. Fin 1) (\<lambda>_ n :: nat. (Inr (sample_answer ''top-right''), n + 1))
      (\<lambda>n. (Fin 0, n)) (pv_semantic sample_field_config) n = (outcome, w1)" by fastforce
  with run [of n] have out: "rt_outcome outcome = RO_SUCCEEDED" "rt_value outcome = Some (sample_answer ''top-right'')"
    by auto
  obtain s' w' r' where sub: "submit_field_evidence sample_platform (pilot_call ''top-right'')
      (pilot_photo (CHR ''2'')) None None (s, n) = ((s', w'), r')" by (metis prod.collapse)
  have "case submit_field_evidence sample_platform (pilot_call ''top-right'') (pilot_photo (CHR ''2'')) None None (s, n) of
    ((s', w'), r) \<Rightarrow> w' = w1 \<and> sn_provider_calls s' = sn_provider_calls s + 1 \<and>
      length (sn_verification_events s') = length (sn_verification_events s) + 1 \<and>
      state_of s' =
        (if OBS_TOP_RIGHT = OBS_INCONCLUSIVE then VERIFICATION_INCONCLUSIVE
         else if position_value OBS_TOP_RIGHT = ac_current_value (sn_change s) then VERIFICATION_PASSED
         else VERIFICATION_FAILED)"
  proof (rule fresh_image_is_judged [OF r])
    show "state_of s \<in> {AWAITING_FIELD_VERIFICATION, VERIFICATION_FAILED, VERIFICATION_INCONCLUSIVE}"
      using st by simp
    show "accept_field_image (pf_H sample_platform) (pilot_photo (CHR ''2'')) None None MAX_IMAGE_BYTES = Inr img"
      using img by (simp only: H)
    show "run_semantic_call (pf_minus sample_platform)
        (?provider (pilot_photo (CHR ''2'')) (fi_mime_type img) ctx)
        (cl_clock (pilot_call ''top-right'')) (pv_semantic (dz_field_provider pilot_config)) n = (outcome, w1)" for ctx
      using o by (simp only: call)
  qed (use c pilot_change nb fs none call out clean in \<open>simp_all only: not_False_eq_True\<close>)
  then have "state_of s' = VERIFICATION_PASSED \<and> length (sn_verification_events s') = length (sn_verification_events s) + 1"
    using c pilot_change unfolding sub prod.case by simp
  then show ?thesis using st by (intro exI [of _ s] exI [of _ n]) (simp only: sub prod.case simp_thms)
qed

end
