(* ===== verification/Resume_Snapshot.thy ===== *)
theory Resume_Snapshot
  imports Session_Field
begin

text \<open>
  The session state a resumed workflow needs (\<open>driftzero_cloud/resume_snapshot.py\<close>): the hand-written
  codec of an impact resolution, the projection of a session and its restoration. Pydantic records are
  kept as values where the code dumps and validates them: that round trip is the library's. A string
  field that holds no string has no place in the typed records, the decoder answers it with an error.
\<close>

section \<open>Errors of the cloud package\<close>

datatype cloud_error =
    CloudAdapterError | ConflictingRecord str | IdentifierRejected str | CloudRaised exn

type_synonym 'a cloud = "cloud_error + 'a"

definition cloud_bind :: "'a cloud \<Rightarrow> ('a \<Rightarrow> 'b cloud) \<Rightarrow> 'b cloud" where
  "cloud_bind r f = (case r of Inl e \<Rightarrow> Inl e | Inr x \<Rightarrow> f x)"

lemma cloud_bind_Inr_iff [simp]: "cloud_bind r f = Inr y \<longleftrightarrow> (\<exists>x. r = Inr x \<and> f x = Inr y)"
  by (cases r) (simp_all add: cloud_bind_def)

definition lift_res :: "'a res \<Rightarrow> 'a cloud" where
  "lift_res r = (case r of Inl e \<Rightarrow> Inl (CloudRaised e) | Inr x \<Rightarrow> Inr x)"

lemma lift_res_Inr_iff [simp]: "lift_res r = Inr x \<longleftrightarrow> r = Inr x"
  by (cases r) (simp_all add: lift_res_def)

section \<open>The impact codec\<close>

primrec condition_value :: "qualification_condition \<Rightarrow> str" where
  "condition_value OPERATION_MATCH = ''operation_match''"
| "condition_value INSTRUCTION_CORRESPONDENCE = ''instruction_correspondence''"
| "condition_value VALUE_CONFLICT = ''value_conflict''"
| "condition_value AUTHORIZED_SCOPE = ''in_authorized_scope''"

text \<open>\<open>QualificationCondition(value)\<close> and the like: the member with that value, or \<open>ValueError\<close>.\<close>

definition member_of :: "('a \<Rightarrow> str) \<Rightarrow> 'a list \<Rightarrow> str \<Rightarrow> 'a res" where
  "member_of val members v =
     (case List.find (\<lambda>m. val m = v) members of None \<Rightarrow> Inl (ValueError v) | Some m \<Rightarrow> Inr m)"

definition condition_of :: "str \<Rightarrow> qualification_condition res" where
  "condition_of = member_of condition_value
     [OPERATION_MATCH, INSTRUCTION_CORRESPONDENCE, VALUE_CONFLICT, AUTHORIZED_SCOPE]"

definition impact_outcome_of :: "str \<Rightarrow> impact_outcome res" where
  "impact_outcome_of = member_of impact_outcome_value
     [NO_QUALIFIED_TARGET, SINGLE_QUALIFIED_TARGET, MULTIPLE_QUALIFIED_TARGETS]"

lemma condition_of_value [simp]: "condition_of (condition_value c) = Inr c"
  by (cases c) (simp_all add: condition_of_def member_of_def)

lemma impact_outcome_of_value [simp]: "impact_outcome_of (impact_outcome_value c) = Inr c"
  by (cases c) (simp_all add: impact_outcome_of_def member_of_def)

definition json_strings :: "str list \<Rightarrow> json" where
  "json_strings xs = JArr (map JStr xs)"

definition encode_qualification :: "candidate_qualification \<Rightarrow> json" where
  "encode_qualification q = JObj
     [(''artifact_id'', JStr (q_artifact_id q)),
      (''qualified'', JBool (q_qualified q)),
      (''conditions'', JObj (map (\<lambda>(c, v). (condition_value c, JBool v)) (q_conditions q))),
      (''failed_conditions'', json_strings (map condition_value (q_failed_conditions q))),
      (''agent_proposed_is_affected'', JBool (q_agent_proposed_is_affected q)),
      (''agent_proposal_disagreed'', JBool (q_agent_proposal_disagreed q))]"

definition encode_impact :: "impact_resolution \<Rightarrow> json" where
  "encode_impact r = JObj
     [(''outcome'', JStr (impact_outcome_value (ir_outcome r))),
      (''affected_artifact_id'', json_opt (ir_affected_artifact_id r)),
      (''qualified_artifact_ids'', json_strings (ir_qualified_artifact_ids r)),
      (''candidate_artifact_refs'', json_strings (ir_candidate_artifact_refs r)),
      (''qualifications'', JArr (map encode_qualification (ir_qualifications r))),
      (''impact_reason'', JStr (ir_impact_reason r)),
      (''requires_review'', JBool (ir_requires_review r))]"

text \<open>Reading a document: \<open>payload[key]\<close>, \<open>payload.get(key, default)\<close>, and the typed contents.\<close>

definition json_dict :: "json \<Rightarrow> (str, json) dict res" where
  "json_dict j = (case j of JObj kvs \<Rightarrow> Inr kvs | _ \<Rightarrow> Inl AttributeError)"

definition json_item :: "str \<Rightarrow> (str, json) dict \<Rightarrow> json res" where
  "json_item k d = (case dict_get d k of None \<Rightarrow> Inl KeyError | Some v \<Rightarrow> Inr v)"

definition json_default :: "str \<Rightarrow> json \<Rightarrow> (str, json) dict \<Rightarrow> json" where
  "json_default k v d = (case dict_get d k of None \<Rightarrow> v | Some x \<Rightarrow> x)"

definition json_text_of :: "json \<Rightarrow> str res" where
  "json_text_of j = (case j of JStr s \<Rightarrow> Inr s | _ \<Rightarrow> Inl ValidationError)"

definition json_text_option :: "json \<Rightarrow> str option res" where
  "json_text_option j =
     (case j of JNull \<Rightarrow> Inr None | JStr s \<Rightarrow> Inr (Some s) | _ \<Rightarrow> Inl ValidationError)"

definition json_items :: "json \<Rightarrow> json list res" where
  "json_items j = (case j of JArr xs \<Rightarrow> Inr xs | _ \<Rightarrow> Inl ValidationError)"

primrec res_list :: "('a \<Rightarrow> 'b res) \<Rightarrow> 'a list \<Rightarrow> 'b list res" where
  "res_list f [] = Inr []"
| "res_list f (x # xs) = res_bind (f x) (\<lambda>y. res_bind (res_list f xs) (\<lambda>ys. Inr (y # ys)))"

lemma res_list_map: "(\<And>x. x \<in> set xs \<Longrightarrow> f (g x) = Inr (h x)) \<Longrightarrow> res_list f (map g xs) = Inr (map h xs)"
  by (induction xs) simp_all

definition json_texts :: "json \<Rightarrow> str list res" where
  "json_texts j = res_bind (json_items j) (res_list json_text_of)"

lemma json_texts_strings [simp]: "json_texts (json_strings xs) = Inr xs"
  using res_list_map [of xs json_text_of JStr "\<lambda>x. x"]
  by (simp add: json_texts_def json_strings_def json_items_def json_text_of_def)

definition decode_condition :: "str \<times> json \<Rightarrow> (qualification_condition \<times> bool) res" where
  "decode_condition kv = res_bind (condition_of (fst kv)) (\<lambda>c. Inr (c, json_truthy (Some (snd kv))))"

definition decode_qualification :: "json \<Rightarrow> candidate_qualification res" where
  "decode_qualification j =
     res_bind (json_dict j) (\<lambda>d.
     res_bind (res_bind (json_item ''artifact_id'' d) json_text_of) (\<lambda>artifact_id.
     res_bind (json_item ''qualified'' d) (\<lambda>qualified.
     res_bind (if json_truthy (dict_get d ''conditions'')
               then res_bind (json_item ''conditions'' d) json_dict else Inr []) (\<lambda>conditions.
     res_bind (res_list decode_condition conditions) (\<lambda>decoded.
     res_bind (res_bind (json_texts (json_default ''failed_conditions'' (JArr []) d))
                 (res_list condition_of)) (\<lambda>failed.
     res_bind (json_item ''agent_proposed_is_affected'' d) (\<lambda>proposed.
     res_bind (json_item ''agent_proposal_disagreed'' d) (\<lambda>disagreed.
       Inr \<lparr>q_artifact_id = artifact_id, q_qualified = json_truthy (Some qualified),
            q_conditions = dict_merge [] decoded, q_failed_conditions = failed,
            q_agent_proposed_is_affected = json_truthy (Some proposed),
            q_agent_proposal_disagreed = json_truthy (Some disagreed)\<rparr>))))))))"

definition decode_impact :: "json \<Rightarrow> impact_resolution res" where
  "decode_impact j =
     res_bind (json_dict j) (\<lambda>d.
     res_bind (res_bind (res_bind (json_item ''outcome'' d) json_text_of) impact_outcome_of) (\<lambda>outcome.
     res_bind (json_text_option (json_default ''affected_artifact_id'' JNull d)) (\<lambda>affected.
     res_bind (json_texts (json_default ''qualified_artifact_ids'' (JArr []) d)) (\<lambda>qualified.
     res_bind (json_texts (json_default ''candidate_artifact_refs'' (JArr []) d)) (\<lambda>refs.
     res_bind (res_bind (json_items (json_default ''qualifications'' (JArr []) d))
                 (res_list decode_qualification)) (\<lambda>qualifications.
     res_bind (json_text_of (json_default ''impact_reason'' (JStr '''') d)) (\<lambda>reason.
       Inr \<lparr>ir_outcome = outcome, ir_affected_artifact_id = affected,
            ir_qualified_artifact_ids = qualified, ir_candidate_artifact_refs = refs,
            ir_qualifications = qualifications, ir_impact_reason = reason,
            ir_requires_review =
              json_truthy (Some (json_default ''requires_review'' (JBool False) d))\<rparr>)))))))"

lemma dict_merge_new: "dict_ok (d @ e) \<Longrightarrow> dict_merge d e = d @ e"
proof (induction d e rule: dict_merge.induct)
  case (2 d k v rest)
  then have "k \<notin> set (dict_keys d)" by auto
  with 2 show ?case by (simp add: dict_put_absent)
qed simp

lemma decode_encoded_condition [simp]: "decode_condition (condition_value c, JBool v) = Inr (c, v)"
  by (simp add: decode_condition_def json_truthy_def)

lemma decode_qualification_encoded [simp]:
  assumes "dict_ok (q_conditions q)"
  shows "decode_qualification (encode_qualification q) = Inr q"
proof -
  have "res_list decode_condition (map (\<lambda>(c, v). (condition_value c, JBool v)) (q_conditions q)) =
      Inr (q_conditions q)"
    using res_list_map [of "q_conditions q" decode_condition "\<lambda>(c, v). (condition_value c, JBool v)" "\<lambda>x. x"]
    by auto
  moreover have "res_list condition_of (map condition_value (q_failed_conditions q)) =
      Inr (q_failed_conditions q)"
    using res_list_map [of "q_failed_conditions q" condition_of condition_value "\<lambda>x. x"] by simp
  moreover have "dict_merge [] (q_conditions q) = q_conditions q"
    using dict_merge_new [of "[]"] assms by simp
  ultimately show ?thesis
    by (simp add: decode_qualification_def encode_qualification_def json_dict_def json_item_def
        json_default_def json_truthy_def json_text_of_def)
qed

lemma decode_impact_encoded:
  assumes "\<And>q. q \<in> set (ir_qualifications r) \<Longrightarrow> dict_ok (q_conditions q)"
  shows "decode_impact (encode_impact r) = Inr r"
proof -
  have "res_list decode_qualification (map encode_qualification (ir_qualifications r)) =
      Inr (ir_qualifications r)"
    using res_list_map [of "ir_qualifications r" decode_qualification encode_qualification "\<lambda>x. x"] assms
    by simp
  then show ?thesis
    by (cases "ir_affected_artifact_id r")
      (simp_all add: decode_impact_def encode_impact_def json_dict_def json_item_def json_default_def
        json_truthy_def json_text_of_def json_opt_def json_text_option_def json_items_def)
qed

section \<open>The snapshot\<close>

definition SNAPSHOT_SCHEMA_VERSION :: int where
  "SNAPSHOT_SCHEMA_VERSION = 1"

record resume_snapshot =
  rs_schema_version :: int
  rs_qualified_artifact_id :: "str option"
  rs_impact_resolution :: json
  rs_remediation_evidence :: "remediation_evidence option"
  rs_delivery_receipt_ref :: "str option"
  rs_delta :: "delta_instruction option"
  rs_delivery :: "delivery_boundary_result option"
  rs_rejected_result_refs :: "str list"
  rs_verification_events :: "verification_event list"
  rs_known_submission_ids :: "str list"
  rs_provider_calls :: nat
  rs_action_id :: "str option"
  rs_artifacts :: "(str, downstream_artifact) dict"

definition encode_snapshot :: "session \<Rightarrow> resume_snapshot" where
  "encode_snapshot s =
     \<lparr>rs_schema_version = SNAPSHOT_SCHEMA_VERSION,
      rs_qualified_artifact_id = sn_qualified_artifact_id s,
      rs_impact_resolution =
        (case sn_impact_resolution s of None \<Rightarrow> JNull | Some r \<Rightarrow> encode_impact r),
      rs_remediation_evidence = sn_remediation_evidence s,
      rs_delivery_receipt_ref = sn_delivery_receipt_ref s,
      rs_delta = sn_delta s,
      rs_delivery = sn_delivery s,
      rs_rejected_result_refs = sn_rejected_result_refs s,
      rs_verification_events = sn_verification_events s,
      rs_known_submission_ids = sort (sn_known_submission_ids s),
      rs_provider_calls = sn_provider_calls s,
      rs_action_id = sn_action_id s,
      rs_artifacts = rp_artifacts (sn_repository s)\<rparr>"

text \<open>
  \<open>apply_snapshot\<close>: an unknown version is refused before anything is applied. A delta is only set where
  the document has one; the repository is rebuilt by its constructor, so revisions, snapshots and counters
  start over.
\<close>

definition apply_snapshot :: "resume_snapshot \<Rightarrow> session \<Rightarrow> session cloud" where
  "apply_snapshot d s =
     (if rs_schema_version d \<noteq> SNAPSHOT_SCHEMA_VERSION then Inl CloudAdapterError
      else cloud_bind
        (if json_truthy (Some (rs_impact_resolution d))
         then cloud_bind (lift_res (decode_impact (rs_impact_resolution d))) (\<lambda>r. Inr (Some r))
         else Inr None)
        (\<lambda>impact. Inr (s
           \<lparr>sn_impact_resolution := impact,
            sn_qualified_artifact_id := rs_qualified_artifact_id d,
            sn_remediation_evidence := rs_remediation_evidence d,
            sn_delivery_receipt_ref := rs_delivery_receipt_ref d,
            sn_delta := (case rs_delta d of None \<Rightarrow> sn_delta s | Some i \<Rightarrow> Some i),
            sn_delivery := rs_delivery d,
            sn_rejected_result_refs := rs_rejected_result_refs d,
            sn_verification_events := rs_verification_events d,
            sn_known_submission_ids := remdups (rs_known_submission_ids d),
            sn_provider_calls := rs_provider_calls d,
            sn_action_id := rs_action_id d,
            sn_repository := (if rs_artifacts d = [] then sn_repository s
                              else new_repository (rs_artifacts d))\<rparr>)))"

section \<open>Rebuilding a service\<close>

definition ALL_STATES :: "workflow_state list" where
  "ALL_STATES =
     [CHANGE_RECEIVED, IMPACT_DETERMINED, REMEDIATION_PENDING, REVIEW_REQUIRED, REMEDIATION_COMPLETED,
      FRONTLINE_DELIVERY_COMPLETED, AWAITING_FIELD_VERIFICATION, VERIFICATION_INCONCLUSIVE,
      VERIFICATION_FAILED, VERIFICATION_PASSED, PROOF_COMPLETE, SUPERSEDED, FAILED]"

definition workflow_state_of :: "str \<Rightarrow> workflow_state res" where
  "workflow_state_of = member_of workflow_state_value ALL_STATES"

lemma workflow_state_of_value [simp]: "workflow_state_of (workflow_state_value s) = Inr s"
  by (cases s) (simp_all add: workflow_state_of_def member_of_def ALL_STATES_def)

text \<open>The durable records of one workflow: the aggregate with its chronology, the ledger and, once a
  session was flushed, the snapshot.\<close>

record workflow_record =
  wr_workflow :: workflow
  wr_state_history :: "str list"
  wr_revision :: nat

record durable_records =
  dr_record :: workflow_record
  dr_actions :: "action_execution list"
  dr_snapshot :: "resume_snapshot option"

text \<open>
  \<open>_rehydrate\<close>: a new service over the dataset, with the workflow's own id as its namespace, on which the
  stored workflow, chronology, ledger records and snapshot are laid. The stored strings must be states.
\<close>

definition reinstate :: "action_execution list \<Rightarrow> ledger \<Rightarrow> ledger" where
  "reinstate actions l = foldl (\<lambda>l a. dict_put (ax_action_id a) a l) l actions"

definition rehydrate ::
  "platform \<Rightarrow> str \<Rightarrow> pilot_dataset \<Rightarrow> str \<Rightarrow> datetime \<Rightarrow> datetime \<Rightarrow> durable_records \<Rightarrow> session cloud" where
  "rehydrate pf workflow_id dataset secret created updated d =
     cloud_bind (lift_res (new_session pf workflow_id 1 dataset None secret created updated [])) (\<lambda>s.
     cloud_bind (lift_res (res_list workflow_state_of (wr_state_history (dr_record d)))) (\<lambda>history.
       let s1 = s\<lparr>sn_workflow := wr_workflow (dr_record d), sn_state_history := history,
                  sn_ledger := reinstate (dr_actions d) (sn_ledger s)\<rparr>
       in case dr_snapshot d of None \<Rightarrow> Inr s1 | Some snapshot \<Rightarrow> apply_snapshot snapshot s1))"

text \<open>What the flush of a session leaves in the store.\<close>

definition durable_image :: "session \<Rightarrow> nat \<Rightarrow> durable_records" where
  "durable_image s revision =
     \<lparr>dr_record = \<lparr>wr_workflow = sn_workflow s,
                   wr_state_history = map workflow_state_value (sn_state_history s),
                   wr_revision = revision\<rparr>,
      dr_actions = all_records (sn_ledger s), dr_snapshot = Some (encode_snapshot s)\<rparr>"

end
