(* ===== verification/Session_Inputs.thy ===== *)
theory Session_Inputs
  imports Session_Effects
begin

text \<open>
  What a session was opened with stays as it is: no use case changes the approved change, the ingestion
  it was derived from, the catalog or the identity of the delivery action. And the impact resolution a
  session keeps is one the impact gate computed.
\<close>

section \<open>Steps that keep the inputs\<close>

definition inputs where
  "inputs s = (sn_session_id s, sn_catalog s, sn_change s, sn_ingestion s, sn_delivery_action_id s)"

definition impact_ok :: "session \<Rightarrow> bool" where
  "impact_ok s \<longleftrightarrow>
     (\<forall>r. sn_impact_resolution s = Some r \<longrightarrow> (\<forall>q\<in>set (ir_qualifications r). dict_ok (q_conditions q)))"

definition keeps_inputs :: "session \<Rightarrow> session \<Rightarrow> bool" where
  "keeps_inputs s s' \<longleftrightarrow> inputs s' = inputs s \<and> (impact_ok s \<longrightarrow> impact_ok s')"

lemma keeps_inputs_refl [simp, intro]: "keeps_inputs s s"
  by (simp add: keeps_inputs_def)

lemma keeps_inputs_trans [trans]: "keeps_inputs s s' \<Longrightarrow> keeps_inputs s' s'' \<Longrightarrow> keeps_inputs s s''"
  by (simp add: keeps_inputs_def)

lemma keeps_inputsI:
  "inputs s' = inputs s \<Longrightarrow> sn_impact_resolution s' = sn_impact_resolution s \<Longrightarrow> keeps_inputs s s'"
  by (simp add: keeps_inputs_def impact_ok_def)

lemma keeps_event [simp]: "keeps_inputs s (record_event e s') = keeps_inputs s s'"
  by (simp add: keeps_inputs_def inputs_def impact_ok_def record_event_def)

lemma keeps_store [simp]: "keeps_inputs s (store_evidence e s') = keeps_inputs s s'"
  by (simp add: keeps_inputs_def inputs_def impact_ok_def store_evidence_def)

lemma keeps_persist [simp]: "keeps_inputs s (persist s') = keeps_inputs s s'"
  by (simp add: keeps_inputs_def inputs_def impact_ok_def persist_def)

lemma keeps_advance [simp]: "keeps_inputs s (advance target t s') = keeps_inputs s s'"
  by (simp add: advance_def transition_def assert_transition_allowed_def Let_def)
    (simp add: keeps_inputs_def inputs_def impact_ok_def)

lemma keeps_updates [simp]:
  "keeps_inputs s (s'\<lparr>sn_ledger := l\<rparr>) = keeps_inputs s s'"
  "keeps_inputs s (s'\<lparr>sn_repository := r\<rparr>) = keeps_inputs s s'"
  "keeps_inputs s (s'\<lparr>sn_broker := b\<rparr>) = keeps_inputs s s'"
  "keeps_inputs s (s'\<lparr>sn_channel := c\<rparr>) = keeps_inputs s s'"
  "keeps_inputs s (s'\<lparr>sn_field_store := f\<rparr>) = keeps_inputs s s'"
  "keeps_inputs s (s'\<lparr>sn_proof_store := p\<rparr>) = keeps_inputs s s'"
  "keeps_inputs s (s'\<lparr>sn_sink := k\<rparr>) = keeps_inputs s s'"
  "keeps_inputs s (s'\<lparr>sn_workflow := w\<rparr>) = keeps_inputs s s'"
  "keeps_inputs s (s'\<lparr>sn_qualified_artifact_id := q\<rparr>) = keeps_inputs s s'"
  "keeps_inputs s (s'\<lparr>sn_action_id := a\<rparr>) = keeps_inputs s s'"
  "keeps_inputs s (s'\<lparr>sn_remediation_evidence := e\<rparr>) = keeps_inputs s s'"
  "keeps_inputs s (s'\<lparr>sn_delta := d\<rparr>) = keeps_inputs s s'"
  "keeps_inputs s (s'\<lparr>sn_delta_composed_at := t\<rparr>) = keeps_inputs s s'"
  "keeps_inputs s (s'\<lparr>sn_delivery_receipt_ref := rf\<rparr>) = keeps_inputs s s'"
  "keeps_inputs s (s'\<lparr>sn_verification_events := vs\<rparr>) = keeps_inputs s s'"
  "keeps_inputs s (s'\<lparr>sn_known_submission_ids := ks\<rparr>) = keeps_inputs s s'"
  "keeps_inputs s (s'\<lparr>sn_provider_calls := n\<rparr>) = keeps_inputs s s'"
  "keeps_inputs s (s'\<lparr>sn_intel := i\<rparr>) = keeps_inputs s s'"
  "keeps_inputs s (s'\<lparr>sn_crossing_1 := x1\<rparr>) = keeps_inputs s s'"
  "keeps_inputs s (s'\<lparr>sn_remediation := x2\<rparr>) = keeps_inputs s s'"
  "keeps_inputs s (s'\<lparr>sn_remediation_requests := x3\<rparr>) = keeps_inputs s s'"
  "keeps_inputs s (s'\<lparr>sn_crossing_2 := x4\<rparr>) = keeps_inputs s s'"
  "keeps_inputs s (s'\<lparr>sn_validated_execution := x5\<rparr>) = keeps_inputs s s'"
  "keeps_inputs s (s'\<lparr>sn_security := x6\<rparr>) = keeps_inputs s s'"
  "keeps_inputs s (s'\<lparr>sn_delivery := x7\<rparr>) = keeps_inputs s s'"
  "keeps_inputs s (s'\<lparr>sn_acknowledgment := x8\<rparr>) = keeps_inputs s s'"
  "keeps_inputs s (s'\<lparr>sn_field_verification := x9\<rparr>) = keeps_inputs s s'"
  "keeps_inputs s (s'\<lparr>sn_field_attempts := x10\<rparr>) = keeps_inputs s s'"
  "keeps_inputs s (s'\<lparr>sn_verdict := x11\<rparr>) = keeps_inputs s s'"
  "keeps_inputs s (s'\<lparr>sn_proof := x12\<rparr>) = keeps_inputs s s'"
  by (simp_all add: keeps_inputs_def inputs_def impact_ok_def)

lemma keeps_reread: "reread s s' \<Longrightarrow> keeps_inputs s s'"
  by (auto simp: reread_def)

lemma keeps_read: "read_artifact i s = (s', r) \<Longrightarrow> keeps_inputs s s'"
  using keeps_reread [OF reread_artifact [of s i]] by simp

lemma keeps_respond: "keeps_inputs s (fst (fst (respond pf cl (s, w))))"
proof -
  obtain s' r where g: "get_state pf cl s = (s', r)" by fastforce
  with keeps_reread [OF reread_get_state [of s pf cl]] show ?thesis
    by (cases r) (simp_all add: respond_def persists_def)
qed

lemma keeps_response: "keeps_inputs s s' \<Longrightarrow> keeps_inputs s (fst (fst (respond pf cl (s', w))))"
  using keeps_inputs_trans [OF _ keeps_respond] .

section \<open>The use cases\<close>

lemma resolved_qualifications [simp]: "ir_qualifications (resolve_cardinality qs) = qs"
  by (simp add: resolve_cardinality_def Let_def)

lemma qualified_ok: "q \<in> set (qualify_candidates known change) \<Longrightarrow> dict_ok (q_conditions q)"
  by (auto simp: qualify_candidates_def qualify_candidate_def qualification_results_def Let_def)

lemma keeps_resolution:
  assumes "keeps_inputs s s'" and "\<forall>q\<in>set (ir_qualifications r). dict_ok (q_conditions q)"
  shows "keeps_inputs s (s'\<lparr>sn_impact_resolution := Some r\<rparr>)"
proof -
  have "impact_ok (s'\<lparr>sn_impact_resolution := Some r\<rparr>)"
    unfolding impact_ok_def using assms(2) by simp
  moreover have "inputs (s'\<lparr>sn_impact_resolution := Some r\<rparr>) = inputs s'" by (simp add: inputs_def)
  ultimately show ?thesis using assms(1) unfolding keeps_inputs_def by (simp only: simp_thms)
qed

lemma keeps_impact [simp]:
  "keeps_inputs s s' \<Longrightarrow>
     keeps_inputs s (s'\<lparr>sn_impact_resolution := Some (resolve_cardinality (qualify_candidates known change))\<rparr>)"
  by (rule keeps_resolution) (simp_all only: resolved_qualifications, blast intro: qualified_ok)

lemma keeps_after_analysis: "keeps_inputs s (after_analysis pf cl result s)"
  by (simp add: after_analysis_def validate_crossing_1_def review_required_def qualify_impact_def Let_def
      split: option.split)

lemma keeps_analyze_change: "keeps_inputs s (fst (fst (analyze_change pf cl (s, w))))"
proof (cases "cl_config cl")
  case (Inr dz)
  let ?s = "record_event ''IMPACT_ANALYSIS_REQUESTED'' s"
  have plain: "keeps_inputs s (fst (fst (respond pf cl (record_event e (?s\<lparr>sn_intel := i\<rparr>), w))))" for e i
    by (rule keeps_response) simp
  have analyzed: "keeps_inputs s (fst (fst (respond pf cl (after_analysis pf cl result (record_analysis result ?s), w'))))"
    for result w'
  proof (rule keeps_response)
    have "keeps_inputs s (record_analysis result ?s)" by (simp add: record_analysis_def)
    then show "keeps_inputs s (after_analysis pf cl result (record_analysis result ?s))"
      using keeps_inputs_trans [OF _ keeps_after_analysis] by blast
  qed
  show ?thesis
    unfolding analyze_change_def prod.case Inr sum.case Let_def
    by (split option.split, intro conjI impI allI, rule plain, split option.split, intro conjI impI allI,
        rule plain) (simp only: split_beta analyzed)
qed (simp add: analyze_change_def)

lemma keeps_by_fst: "(\<And>s'. keeps_inputs s' (fst (f s'))) \<Longrightarrow> keeps_inputs s s0 \<Longrightarrow> keeps_inputs s (fst (f s0))"
  using keeps_inputs_trans by blast

lemma keeps_read_artifact [simp]: "keeps_inputs s s0 \<Longrightarrow> keeps_inputs s (fst (read_artifact i s0))"
  by (rule keeps_by_fst) (rule keeps_reread [OF reread_artifact])

lemma keeps_remediation_agent [simp]:
  "keeps_inputs s s0 \<Longrightarrow> keeps_inputs s (fst (run_remediation_agent pf cl identity intent s0))"
  by (simp add: run_remediation_agent_def split: prod.split)

lemma keeps_compose [simp]:
  "keeps_inputs s s0 \<Longrightarrow> keeps_inputs s (fst (compose_session_delta t target s0))"
  using keeps_read_artifact [of s s0 target]
  by (cases "read_artifact target s0") (simp add: compose_session_delta_def split: sum.split option.split)

lemma keeps_execution [simp]:
  "keeps_inputs s s0 \<Longrightarrow> keeps_inputs s (fst (keep_execution cl action_id target boundary s0))"
  by (simp add: keep_execution_def)

lemma keeps_record_remediation [simp]:
  "keeps_inputs s s0 \<Longrightarrow> keeps_inputs s (record_remediation result s0)"
  by (simp add: record_remediation_def Let_def)

lemma keeps_crossing_2 [simp]:
  "keeps_inputs s s0 \<Longrightarrow> keeps_inputs s (fst (validate_crossing_2 pf action_id target evidence s0))"
  by (simp add: validate_crossing_2_def split: prod.split)

lemma keeps_after_remediation [simp]:
  assumes "keeps_inputs s s0"
  shows "keeps_inputs s (fst (after_remediation pf cl action_id target result s0))"
  using assms by (simp add: after_remediation_def Let_def split_beta split: option.split)

lemma keeps_response_fst [simp]:
  "keeps_inputs s s0 \<Longrightarrow> keeps_inputs s (fst (fst (respond pf cl (s0, w))))"
  by (rule keeps_response)

lemma keeps_get_state [simp]: "keeps_inputs s s0 \<Longrightarrow> keeps_inputs s (fst (get_state pf cl s0))"
  by (rule keeps_by_fst) (rule keeps_reread [OF reread_get_state])

lemma keeps_proof_context [simp]: "keeps_inputs s s0 \<Longrightarrow> keeps_inputs s (fst (session_proof_context pf s0))"
  by (rule keeps_by_fst) (rule keeps_reread [OF reread_context])

lemma keeps_deploy_change: "keeps_inputs s (fst (fst (deploy_change pf cl (s, w))))"
  by (simp add: deploy_change_def split_beta split: option.split sum.split)

lemma keeps_record_probe [simp]:
  "keeps_inputs s s0 \<Longrightarrow> keeps_inputs s (record_probe pf m a b n s0)"
  by (simp add: record_probe_def Let_def)

lemma keeps_security_test: "keeps_inputs s (fst (fst (run_security_test pf cl (s, w))))"
  by (simp add: run_security_test_def Let_def split_beta split: option.split sum.split)

lemma keeps_begin_delivery [simp]: "keeps_inputs s s0 \<Longrightarrow> keeps_inputs s (fst (begin_delivery cl i s0))"
  by (simp add: begin_delivery_def split: sum.split prod.split)

lemma keeps_dispatch_delivery [simp]:
  "keeps_inputs s s0 \<Longrightarrow> keeps_inputs s (fst (dispatch_delivery pf cl i s0))"
  by (simp add: dispatch_delivery_def split: sum.split prod.split)

lemma keeps_crossing_3 [simp]:
  "keeps_inputs s s0 \<Longrightarrow> keeps_inputs s (fst (validate_crossing_3 pf i d s0))"
  by (simp add: validate_crossing_3_def Let_def)

lemma keeps_finish_delivery [simp]:
  "keeps_inputs s s0 \<Longrightarrow> keeps_inputs s (fst (finish_delivery cl verdict s0))"
  by (simp add: finish_delivery_def split: option.split sum.split prod.split)

lemma keeps_send_delivery [simp]: "keeps_inputs s s0 \<Longrightarrow> keeps_inputs s (fst (send_delivery pf cl i s0))"
  by (simp add: send_delivery_def split_beta split: sum.split)

lemma keeps_deliver_to_frontline: "keeps_inputs s (fst (fst (deliver_to_frontline pf cl (s, w))))"
  by (simp add: deliver_to_frontline_def Let_def split_beta split: option.split sum.split retry_decision.split)

lemma keeps_acknowledge: "keeps_inputs s (fst (fst (acknowledge_frontline pf cl change_id (s, w))))"
  by (simp add: acknowledge_frontline_def split: option.split sum.split)

lemma keeps_crossing_4 [simp]:
  "keeps_inputs s s0 \<Longrightarrow> keeps_inputs s (fst (validate_crossing_4 observation s0))"
  by (simp add: validate_crossing_4_def Let_def)

lemma keeps_adjudicate [simp]:
  "keeps_inputs s s0 \<Longrightarrow> keeps_inputs s (fst (adjudicate_session cl boundary s0))"
  by (simp add: adjudicate_session_def Let_def split: sum.split prod.split option.split)

lemma keeps_record_attempt [simp]:
  "keeps_inputs s s0 \<Longrightarrow> keeps_inputs s (fst (record_attempt pf cl operation_id img result s0))"
  by (simp add: record_attempt_def Let_def split: sum.split prod.split)

lemma keeps_judge [simp]: "keeps_inputs s s0 \<Longrightarrow> keeps_inputs s (fst (judge_observation cl result s0))"
  by (simp add: judge_observation_def split_beta split: option.split)

lemma keeps_observe [simp]:
  "keeps_inputs s s0 \<Longrightarrow>
     keeps_inputs s (fst (fst (observe_and_judge pf cl config provider raw img (s0, w))))"
  by (simp add: observe_and_judge_def Let_def split_beta split: sum.split)

lemma keeps_submit_fresh [simp]:
  "keeps_inputs s s0 \<Longrightarrow> keeps_inputs s (fst (fst (submit_fresh pf cl raw img (s0, w))))"
  by (simp add: submit_fresh_def Let_def split: sum.split option.split)

lemma keeps_submit_field_evidence: "keeps_inputs s (fst (fst (submit_field_evidence pf cl raw f c (s, w))))"
  by (simp add: submit_field_evidence_def Let_def split: sum.split option.split)

lemma keeps_generate_proof: "keeps_inputs s (fst (fst (generate_proof pf cl (s, w))))"
  by (simp add: generate_proof_def Let_def split_beta split: sum.split option.split)

lemma keeps_handle: "keeps_inputs (fst sw) (fst (fst (handle pf r sw)))"
  by (cases sw; cases r)
    (simp_all add: keeps_analyze_change keeps_deploy_change keeps_security_test keeps_deliver_to_frontline
      keeps_acknowledge keeps_submit_field_evidence keeps_generate_proof)

section \<open>A new session\<close>

lemma new_session_fields:
  assumes "new_session pf namespace n d rationale secret t u sink = Inr s"
  shows "\<exists>store. ingest_source_change (pf_H pf) (pd_change_id d) (pd_previous d) (pd_current d)
           (pd_authorized_scope d) (pd_approved_status d) RECEIVED_AT classification empty_source_store =
           (store, Inr (sn_ingestion s))"
    and "sn_change s = si_change (sn_ingestion s)"
    and "workflow_id_of s = namespace @ ''-'' @ pad_nat 3 n"
    and "sn_delivery_action_id s =
           derive_delivery_action_id (pf_H pf) (namespace @ ''-'' @ pad_nat 3 n) (sn_change s) DESTINATION_REF"
    and "sn_session_id s = ''session-'' @ pad_nat 3 n" "sn_catalog s = pd_catalog d"
    and "sn_impact_resolution s = None" "sn_ledger s = []" "sn_broker s = new_broker secret"
      "sn_channel s = new_pilot_channel" "sn_field_store s = empty_field_store"
      "sn_proof_store s = empty_proof_store" "sn_delta s = None" "sn_delta_composed_at s = None"
      "sn_validated_execution s = None"
proof -
  obtain store r where i: "ingest_source_change (pf_H pf) (pd_change_id d) (pd_previous d) (pd_current d)
      (pd_authorized_scope d) (pd_approved_status d) RECEIVED_AT classification empty_source_store = (store, r)"
    by fastforce
  with assms obtain ing where r: "r = Inr ing" by (cases r) (auto simp: new_session_def)
  have s: "sn_ingestion s = ing \<and> sn_change s = si_change ing \<and>
      wf_workflow_id (sn_workflow s) = namespace @ ''-'' @ pad_nat 3 n \<and>
      sn_delivery_action_id s =
        derive_delivery_action_id (pf_H pf) (namespace @ ''-'' @ pad_nat 3 n) (si_change ing) DESTINATION_REF \<and>
      sn_session_id s = ''session-'' @ pad_nat 3 n \<and> sn_catalog s = pd_catalog d \<and>
      sn_impact_resolution s = None \<and> sn_ledger s = [] \<and> sn_broker s = new_broker secret \<and>
      sn_channel s = new_pilot_channel \<and> sn_field_store s = empty_field_store \<and>
      sn_proof_store s = empty_proof_store \<and> sn_delta s = None \<and> sn_delta_composed_at s = None \<and>
      sn_validated_execution s = None"
    using assms i r by (auto simp: new_session_def Let_def res_bind_Inr_iff validated_def split: if_splits)
  with i r show "\<exists>store. ingest_source_change (pf_H pf) (pd_change_id d) (pd_previous d) (pd_current d)
      (pd_authorized_scope d) (pd_approved_status d) RECEIVED_AT classification empty_source_store =
      (store, Inr (sn_ingestion s))" by (intro exI [of _ store]) simp
  show "sn_change s = si_change (sn_ingestion s)" using s by simp
  show "workflow_id_of s = namespace @ ''-'' @ pad_nat 3 n" using s unfolding workflow_id_of_def by (elim conjE)
  show "sn_delivery_action_id s =
      derive_delivery_action_id (pf_H pf) (namespace @ ''-'' @ pad_nat 3 n) (sn_change s) DESTINATION_REF"
    using s by simp
  show "sn_session_id s = ''session-'' @ pad_nat 3 n" "sn_catalog s = pd_catalog d"
    "sn_impact_resolution s = None" "sn_ledger s = []" "sn_broker s = new_broker secret"
    "sn_channel s = new_pilot_channel" "sn_field_store s = empty_field_store"
    "sn_proof_store s = empty_proof_store" "sn_delta s = None" "sn_delta_composed_at s = None"
    "sn_validated_execution s = None"
    using s by - (elim conjE, assumption)+
qed

lemma impact_ok_new: "new_session pf namespace n d rationale secret t u sink = Inr s \<Longrightarrow> impact_ok s"
  by (simp add: impact_ok_def new_session_fields(7))

text \<open>Sessions opened on the same dataset have the same ingestion, whatever they are called.\<close>

lemma same_dataset_same_ingestion:
  assumes "new_session pf namespace n d rationale secret t u sink = Inr s"
    and "new_session pf namespace' n' d rationale' secret' t' u' sink' = Inr s'"
  shows "sn_ingestion s' = sn_ingestion s" "sn_change s' = sn_change s"
  using new_session_fields(1) [OF assms(1)] new_session_fields(1) [OF assms(2)]
    new_session_fields(2) [OF assms(1)] new_session_fields(2) [OF assms(2)] by auto

end
