(* ===== verification/Resume_Properties.thy ===== *)
theory Resume_Properties
  imports Resume_Snapshot Session_Inputs Session_Evidence
begin

text \<open>
  What a resumed session keeps of the session it stands for, and what it does not: it can finish the
  workflow with the same proof, and it delivers and pays a second time.
\<close>

section \<open>The resumed session\<close>

lemma reached_inputs: "reached pf s0 sw \<Longrightarrow> keeps_inputs s0 (fst sw) \<and> impact_ok s0"
proof (induction rule: reached.induct)
  case (opened namespace n d rationale secret t u sink w)
  then show ?case by (simp add: impact_ok_new)
next
  case (served sw r)
  then show ?case using keeps_inputs_trans [OF _ keeps_handle [of sw pf r]] by simp
qed

lemma new_session_again:
  assumes "new_session pf namespace n d rationale secret t u sink = Inr s0" and "namespace' \<noteq> []"
  shows "\<exists>s1. new_session pf namespace' n' d rationale' secret' t' u' sink' = Inr s1"
proof -
  obtain store where "ingest_source_change (pf_H pf) (pd_change_id d) (pd_previous d) (pd_current d)
      (pd_authorized_scope d) (pd_approved_status d) RECEIVED_AT classification empty_source_store =
      (store, Inr (sn_ingestion s0))"
    using new_session_fields(1) [OF assms(1)] by blast
  then show ?thesis using assms
    by (auto simp: new_session_def Let_def res_bind_Inr_iff validated_def valid_workflow_def split: if_splits)
qed

lemma res_list_states: "res_list workflow_state_of (map workflow_state_value hs) = Inr hs"
  using res_list_map [of hs workflow_state_of workflow_state_value "\<lambda>h. h"] by simp

text \<open>The snapshot of a session, laid on another one.\<close>

definition restored :: "session \<Rightarrow> session \<Rightarrow> session" where
  "restored s s1 = s1
     \<lparr>sn_impact_resolution := sn_impact_resolution s,
      sn_qualified_artifact_id := sn_qualified_artifact_id s,
      sn_remediation_evidence := sn_remediation_evidence s,
      sn_delivery_receipt_ref := sn_delivery_receipt_ref s,
      sn_delta := (case sn_delta s of None \<Rightarrow> sn_delta s1 | Some i \<Rightarrow> Some i),
      sn_delivery := sn_delivery s,
      sn_rejected_result_refs := sn_rejected_result_refs s,
      sn_verification_events := sn_verification_events s,
      sn_known_submission_ids := remdups (sort (sn_known_submission_ids s)),
      sn_provider_calls := sn_provider_calls s,
      sn_action_id := sn_action_id s,
      sn_repository := (if rp_artifacts (sn_repository s) = [] then sn_repository s1
                        else new_repository (rp_artifacts (sn_repository s)))\<rparr>"

lemma apply_encoded:
  assumes "impact_ok s"
  shows "apply_snapshot (encode_snapshot s) s1 = Inr (restored s s1)"
proof (cases "sn_impact_resolution s")
  case None
  then show ?thesis
    by (simp add: apply_snapshot_def encode_snapshot_def restored_def json_truthy_def cloud_bind_def)
next
  case (Some r)
  have t: "json_truthy (Some (encode_impact r))" by (simp add: json_truthy_def encode_impact_def)
  have d: "lift_res (decode_impact (encode_impact r)) = Inr r"
    using assms Some by (simp add: impact_ok_def decode_impact_encoded)
  show ?thesis
    by (simp add: apply_snapshot_def encode_snapshot_def restored_def Some t d cloud_bind_def)
qed

lemma rehydrated_actions:
  assumes "new_session pf namespace n d rationale secret t u sink = Inr s0"
    and "reached pf s0 (s, w)"
  shows "\<exists>s1. new_session pf (workflow_id_of s) 1 d None secret' t' u' [] = Inr s1 \<and>
    rehydrate pf (workflow_id_of s) d secret' t' u' ((durable_image s revision)\<lparr>dr_actions := actions\<rparr>) =
      Inr (restored s (s1\<lparr>sn_workflow := sn_workflow s, sn_state_history := sn_state_history s,
                          sn_ledger := reinstate actions []\<rparr>))"
proof -
  have i: "impact_ok s" using reached_inputs [OF assms(2)] by (simp add: keeps_inputs_def)
  have "workflow_id_of s = workflow_id_of s0" using reached_follows [OF assms(2)] by (simp add: follows_def)
  then have "workflow_id_of s \<noteq> []" using new_session_fields(3) [OF assms(1)] by simp
  with new_session_again [OF assms(1)] obtain s1 where
    s1: "new_session pf (workflow_id_of s) 1 d None secret' t' u' [] = Inr s1" by blast
  then have "sn_ledger s1 = []" by (rule new_session_fields(8))
  then show ?thesis
    using s1 apply_encoded [OF i]
    by (intro exI [of _ s1]) (simp add: rehydrate_def durable_image_def res_list_states cloud_bind_def
        lift_res_def Let_def)
qed

lemma rehydrated:
  assumes "new_session pf namespace n d rationale secret t u sink = Inr s0"
    and "reached pf s0 (s, w)"
  shows "\<exists>s1. new_session pf (workflow_id_of s) 1 d None secret' t' u' [] = Inr s1 \<and>
    rehydrate pf (workflow_id_of s) d secret' t' u' (durable_image s revision) =
      Inr (restored s (s1\<lparr>sn_workflow := sn_workflow s, sn_state_history := sn_state_history s,
                          sn_ledger := reinstate (all_records (sn_ledger s)) []\<rparr>))"
  using rehydrated_actions [OF assms, of secret' t' u' "all_records (sn_ledger s)" revision]
  by (simp add: durable_image_def)

section \<open>Finishing the workflow\<close>

lemma restored_fields:
  "sn_impact_resolution (restored s s1) = sn_impact_resolution s"
  "sn_remediation_evidence (restored s s1) = sn_remediation_evidence s"
  "sn_delivery_receipt_ref (restored s s1) = sn_delivery_receipt_ref s"
  "sn_qualified_artifact_id (restored s s1) = sn_qualified_artifact_id s"
  "sn_verification_events (restored s s1) = sn_verification_events s"
  "sn_rejected_result_refs (restored s s1) = sn_rejected_result_refs s"
  "sn_provider_calls (restored s s1) = sn_provider_calls s"
  "set (sn_known_submission_ids (restored s s1)) = set (sn_known_submission_ids s)"
  "sn_delta (restored s s1) = (case sn_delta s of None \<Rightarrow> sn_delta s1 | Some i \<Rightarrow> Some i)"
  "sn_action_id (restored s s1) = sn_action_id s"
  "sn_workflow (restored s s1) = sn_workflow s1" "sn_state_history (restored s s1) = sn_state_history s1"
  "sn_ledger (restored s s1) = sn_ledger s1" "sn_ingestion (restored s s1) = sn_ingestion s1"
  "sn_change (restored s s1) = sn_change s1" "sn_channel (restored s s1) = sn_channel s1"
  "sn_field_store (restored s s1) = sn_field_store s1" "sn_broker (restored s s1) = sn_broker s1"
  "sn_delivery_action_id (restored s s1) = sn_delivery_action_id s1"
  "sn_proof_store (restored s s1) = sn_proof_store s1" "sn_session_id (restored s s1) = sn_session_id s1"
  "rp_artifacts (sn_repository s) \<noteq> [] \<Longrightarrow>
     rp_artifacts (sn_repository (restored s s1)) = rp_artifacts (sn_repository s)"
  by (simp_all add: restored_def new_repository_def)

lemma read_artifact_outcome:
  "rp_artifacts (sn_repository s') = rp_artifacts (sn_repository s) \<Longrightarrow>
     snd (read_artifact i s') = snd (read_artifact i s)"
  by (simp add: read_artifact_def repo_read_def)

lemma affected_artifact_outcome:
  assumes "rp_artifacts (sn_repository s') = rp_artifacts (sn_repository s)"
    and "sn_qualified_artifact_id s' = sn_qualified_artifact_id s"
  shows "snd (affected_artifact_ref s') = snd (affected_artifact_ref s)"
  using read_artifact_outcome [OF assms(1)] assms(2) by (simp add: affected_artifact_ref_def split_beta)

text \<open>The inputs of a proof.\<close>

definition proof_inputs where
  "proof_inputs s = (sn_workflow s, sn_change s, sn_ingestion s, sn_impact_resolution s,
     sn_remediation_evidence s, sn_delivery_receipt_ref s, sn_verification_events s, sn_state_history s,
     sn_rejected_result_refs s, sn_qualified_artifact_id s, rp_artifacts (sn_repository s))"

lemma same_proof_context:
  assumes "proof_inputs s' = proof_inputs s"
  shows "snd (session_proof_context pf s') = snd (session_proof_context pf s)"
proof -
  have k: "sn_workflow s' = sn_workflow s" "sn_change s' = sn_change s" "sn_ingestion s' = sn_ingestion s"
    "sn_impact_resolution s' = sn_impact_resolution s" "sn_remediation_evidence s' = sn_remediation_evidence s"
    "sn_delivery_receipt_ref s' = sn_delivery_receipt_ref s"
    "sn_verification_events s' = sn_verification_events s" "sn_state_history s' = sn_state_history s"
    "sn_rejected_result_refs s' = sn_rejected_result_refs s"
    "sn_qualified_artifact_id s' = sn_qualified_artifact_id s"
    "rp_artifacts (sn_repository s') = rp_artifacts (sn_repository s)"
    using assms unfolding proof_inputs_def prod.inject by blast+
  have a: "snd (affected_artifact_ref s') = snd (affected_artifact_ref s)"
    by (rule affected_artifact_outcome [OF k(11,10)])
  show ?thesis
  proof (cases "sn_impact_resolution s = None \<or> sn_remediation_evidence s = None \<or>
      \<not> truthy (sn_delivery_receipt_ref s)")
    case True
    then show ?thesis by (auto simp: session_proof_context_def k(4-6) split: option.splits)
  next
    case False
    then obtain impact ev where "sn_impact_resolution s = Some impact" "sn_remediation_evidence s = Some ev"
      by auto
    with False a k show ?thesis
      by (cases "affected_artifact_ref s'"; cases "affected_artifact_ref s"; cases "snd (affected_artifact_ref s)")
        (simp_all add: session_proof_context_def)
  qed
qed

text \<open>C8. A resumed workflow can finish as if nothing had happened. The session another process rebuilds
  from the records a reachable session flushed - the workflow with its chronology, the snapshot, and
  whatever ledger records were read back - and from the same source change has the same approved change, workflow, chronology and
  verdicts, and the inputs of its Change Proof are the same: the same seven conditions hold of it, with
  the same evidence manifest.\<close>

theorem resume_keeps_the_proof:
  assumes "new_session pf namespace n d rationale secret t u sink = Inr s0"
    and "reached pf s0 (s, w)"
    and "rp_artifacts (sn_repository s) \<noteq> []"
  shows "case rehydrate pf (workflow_id_of s) d secret' t' u' ((durable_image s revision)\<lparr>dr_actions := actions\<rparr>) of
    Inl e \<Rightarrow> False
  | Inr s' \<Rightarrow>
      sn_change s' = sn_change s \<and> sn_workflow s' = sn_workflow s \<and> sn_state_history s' = sn_state_history s \<and>
      sn_verification_events s' = sn_verification_events s \<and>
      snd (session_proof_context pf s') = snd (session_proof_context pf s)"
proof -
  from rehydrated_actions [OF assms(1,2)] obtain s1 where
    s1: "new_session pf (workflow_id_of s) 1 d None secret' t' u' [] = Inr s1"
    and r: "rehydrate pf (workflow_id_of s) d secret' t' u' ((durable_image s revision)\<lparr>dr_actions := actions\<rparr>) =
      Inr (restored s (s1\<lparr>sn_workflow := sn_workflow s, sn_state_history := sn_state_history s,
                          sn_ledger := reinstate actions []\<rparr>))" (is "_ = Inr ?s'")
    by blast
  have "sn_ingestion s1 = sn_ingestion s" "sn_change s1 = sn_change s"
    using same_dataset_same_ingestion [OF assms(1) s1] reached_inputs [OF assms(2)]
    by (simp_all add: keeps_inputs_def inputs_def)
  then have "proof_inputs ?s' = proof_inputs s" using assms(3) by (simp add: proof_inputs_def restored_fields)
  from same_proof_context [OF this] this show ?thesis by (simp add: r proof_inputs_def)
qed

section \<open>Delivering again\<close>

lemma reinstated_get:
  "dict_get (reinstate as l) k =
     (case List.find (\<lambda>a. ax_action_id a = k) (rev as) of None \<Rightarrow> dict_get l k | Some a \<Rightarrow> Some a)"
proof (induction as rule: rev_induct)
  case (snoc a as)
  then show ?case by (simp add: reinstate_def)
qed (simp add: reinstate_def)

lemma reinstated_absent:
  "k \<notin> ax_action_id ` set as \<Longrightarrow> dict_get (reinstate as []) k = None"
  by (auto simp: reinstated_get find_None_iff2 split: option.split)

lemma begin_unplanned:
  assumes "ledger_get (sn_ledger s) (sn_delivery_action_id s) = None"
    and "sn_delivery_action_id s \<noteq> []" "workflow_id_of s \<noteq> []"
  shows "\<exists>l. begin_delivery cl i s = (s\<lparr>sn_ledger := l\<rparr>, Inr ())"
proof -
  let ?a = "\<lparr>ax_action_id = sn_delivery_action_id s, ax_workflow_id = workflow_id_of s,
    ax_action_type = DELIVER_DELTA, ax_status = AS_PLANNED, ax_target_ref = DESTINATION_REF,
    ax_intent = delivery_intent i s, ax_receipt_ref = None, ax_outcome_evidence_ref = None,
    ax_attempt_count = 0, ax_reconciled = False, ax_created_at = cl_now cl 1, ax_updated_at = cl_now cl 1\<rparr>"
  let ?l = "dict_put (sn_delivery_action_id s) ?a (sn_ledger s)"
  let ?b = "?a\<lparr>ax_status := AS_ATTEMPTED, ax_attempt_count := ax_attempt_count ?a + 1,
    ax_updated_at := cl_now cl 2\<rparr>"
  have "valid_action ?a" using assms by (simp add: valid_action_def DESTINATION_REF_def)
  then have p: "plan (sn_delivery_action_id s) (workflow_id_of s) DELIVER_DELTA DESTINATION_REF
      (delivery_intent i s) (cl_now cl 1) (sn_ledger s) = Inr (?l, ?a)"
    using assms(1) by (simp add: plan_Inr_iff ledger_get_def)
  have m: "mark_attempted (sn_delivery_action_id s) (cl_now cl 2) ?l =
      Inr (dict_put (sn_delivery_action_id s) ?b ?l, ?b)"
    by (simp add: mark_attempted_Inr_iff)
  show ?thesis
    unfolding begin_delivery_def using assms(1) p m
    by (intro exI [of _ "dict_put (sn_delivery_action_id s) ?b ?l"]) simp
qed

lemma issued_grant_change:
  "issue_grant mac h t scope cid v rnd now b = (b', Inr g) \<Longrightarrow> tg_change_id g = cid"
  by (auto simp: issue_grant_def deny_def Let_def split: sum.splits prod.splits if_splits)

lemma dispatch_counts:
  assumes "channel_ok (pf_H pf) (sn_channel s)" and "di_change_id i = ac_change_id (sn_change s)"
    and "\<not> blank (ac_change_id (sn_change s))" "\<not> blank (ac_source_version (sn_change s))"
    and "\<not> blank (di_instruction_id i)"
    and "dispatch_delivery pf cl i s = (s', r)"
  shows "lc_dispatch_count (sn_channel s') = lc_dispatch_count (sn_channel s) + 1"
proof -
  have auth: "is_authorized (identity_value ENABLEMENT) (tool_value FRONTLINE_DELIVERY)"
    by (simp only: is_authorized_values) (simp add: AUTHORIZATION_POLICY_def)
  have dest: "\<not> blank DESTINATION_REF" by (simp add: DESTINATION_REF_def) code_simp
  from issued_grant_verifies [OF auth dest assms(3,4)] obtain b g where
    g: "issue_grant (pf_mac pf) (identity_value ENABLEMENT) (tool_value FRONTLINE_DELIVERY) DESTINATION_REF
      (ac_change_id (sn_change s)) (ac_source_version (sn_change s)) (cl_rnd cl) (Some (cl_now cl 3))
      (sn_broker s) = (b, Inr g)"
    "verify_grant (pf_mac pf) b g (tool_value FRONTLINE_DELIVERY)" "covers g DESTINATION_REF" by blast
  show ?thesis
    using assms g issued_grant_change [OF g(1)]
    by (auto simp: dispatch_delivery_def deliver_delta_def deliver_eq authorization_ok_def delivery_payload_def
        Let_def res_bind_Inr_iff simp del: identity_value.simps tool_value.simps)
qed

lemma after_dispatch_channel:
  "sn_channel (fst (validate_crossing_3 pf i d s)) = sn_channel s"
  "sn_channel (fst (finish_delivery cl v s)) = sn_channel s"
  "sn_channel (fst (fst (respond pf cl (s, w)))) = sn_channel s"
proof -
  show "sn_channel (fst (validate_crossing_3 pf i d s)) = sn_channel s"
    by (simp add: validate_crossing_3_def Let_def store_evidence_def)
  have a: "sn_channel (advance target t s') = sn_channel s'" for target t s'
    using coreD(4) [OF core_advance [of target t s']] by (simp add: moved_def)
  show "sn_channel (fst (finish_delivery cl v s)) = sn_channel s"
    by (simp add: finish_delivery_def record_event_def a split: option.split sum.split prod.split)
  show "sn_channel (fst (fst (respond pf cl (s, w)))) = sn_channel s"
    using respond_effect [of pf cl s w] by (simp add: assets_def)
qed

lemma send_counts:
  assumes "ledger_get (sn_ledger s) (sn_delivery_action_id s) = None"
    and "sn_delivery_action_id s \<noteq> []" "workflow_id_of s \<noteq> []"
    and "channel_ok (pf_H pf) (sn_channel s)" and "di_change_id i = ac_change_id (sn_change s)"
    and "\<not> blank (ac_change_id (sn_change s))" "\<not> blank (ac_source_version (sn_change s))"
    and "\<not> blank (di_instruction_id i)"
  shows "lc_dispatch_count (sn_channel (fst (send_delivery pf cl i s))) = lc_dispatch_count (sn_channel s) + 1"
proof -
  let ?s = "record_event ''DELIVERY_REQUESTED'' s"
  have e: "sn_ledger ?s = sn_ledger s" "sn_delivery_action_id ?s = sn_delivery_action_id s"
    "workflow_id_of ?s = workflow_id_of s" "sn_channel ?s = sn_channel s"
    by (simp_all add: record_event_def workflow_id_of_def)
  from begin_unplanned [of ?s cl i] assms(1-3) e obtain l where
    b: "begin_delivery cl i ?s = (?s\<lparr>sn_ledger := l\<rparr>, Inr ())" by auto
  obtain s2 r where d: "dispatch_delivery pf cl i (?s\<lparr>sn_ledger := l\<rparr>) = (s2, r)" by fastforce
  have "lc_dispatch_count (sn_channel s2) = lc_dispatch_count (sn_channel s) + 1"
    using dispatch_counts [OF _ _ _ _ _ d] assms(4-8) e(4) by simp
  moreover have "sn_channel (fst (send_delivery pf cl i s)) = sn_channel s2"
    using after_dispatch_channel(1) [of pf i "projr r" s2]
    by (cases r) (simp_all add: send_delivery_def b d split_beta after_dispatch_channel)
  ultimately show ?thesis by simp
qed

lemma delivered_once:
  assumes "sn_delta s = Some i"
    and "decide_retry (sn_ledger s) (sn_delivery_action_id s) = RETRY_ALREADY_COMPLETED"
  shows "sn_channel (fst (fst (deliver_to_frontline pf cl (s, w)))) = sn_channel s"
  using assms by (simp add: deliver_to_frontline_def Let_def after_dispatch_channel) (simp add: record_event_def)

lemma delivered_anew:
  assumes "sn_delta s = Some i" and "ledger_get (sn_ledger s) (sn_delivery_action_id s) = None"
  shows "sn_channel (fst (fst (deliver_to_frontline pf cl (s, w)))) = sn_channel (fst (send_delivery pf cl i s))"
proof -
  have "decide_retry (sn_ledger s) (sn_delivery_action_id s) = SAFE_TO_EXECUTE"
    using assms(2) by (simp add: decide_retry_def)
  with assms(1) show ?thesis
    by (cases "send_delivery pf cl i s"; cases "snd (send_delivery pf cl i s)")
      (simp_all add: deliver_to_frontline_def Let_def after_dispatch_channel)
qed

lemma resumed_delivery_id:
  "new_session pf namespace n d rationale secret t u sink = Inr s \<Longrightarrow> sn_delivery_action_id s \<noteq> []"
  by (simp add: new_session_fields(4) derive_delivery_action_id_def derive_action_id_def Let_def)

text \<open>C15. A resume can deliver the same instruction twice. In a session whose delivery is established, asking
  for the delivery again sends nothing. The session rebuilt from its records derives the identity of the
  delivery action from the namespace it is built in, the workflow's id with a sequence number of its own;
  unless some recorded action happens to have that identity, the completed delivery is not found in the
  ledger, and asking for the delivery dispatches the instruction again.\<close>

theorem resumed_session_delivers_again:
  assumes "new_session pf namespace n d rationale secret t u sink = Inr s0"
    and "reached pf s0 (s, w)"
    and "sn_delta s = Some i" "\<not> blank (di_instruction_id i)"
    and "\<not> blank (ac_change_id (sn_change s))" "\<not> blank (ac_source_version (sn_change s))"
    and "decide_retry (sn_ledger s) (sn_delivery_action_id s) = RETRY_ALREADY_COMPLETED"
    and "derive_delivery_action_id (pf_H pf) (workflow_id_of s @ ''-001'') (sn_change s) DESTINATION_REF
      \<notin> ax_action_id ` set (all_records (sn_ledger s))"
  shows "sn_channel (fst (fst (deliver_to_frontline pf cl (s, w)))) = sn_channel s \<and>
    (case rehydrate pf (workflow_id_of s) d secret' t' u' (durable_image s revision) of
       Inl e \<Rightarrow> False
     | Inr s' \<Rightarrow>
         sn_workflow s' = sn_workflow s \<and> sn_delta s' = Some i \<and> lc_dispatch_count (sn_channel s') = 0 \<and>
         lc_dispatch_count (sn_channel (fst (fst (deliver_to_frontline pf cl (s', w))))) = 1)"
proof -
  from rehydrated [OF assms(1,2)] obtain s1 where
    s1: "new_session pf (workflow_id_of s) 1 d None secret' t' u' [] = Inr s1"
    and r: "rehydrate pf (workflow_id_of s) d secret' t' u' (durable_image s revision) =
      Inr (restored s (s1\<lparr>sn_workflow := sn_workflow s, sn_state_history := sn_state_history s,
                          sn_ledger := reinstate (all_records (sn_ledger s)) []\<rparr>))" (is "_ = Inr ?s'")
    by blast
  have change: "sn_change s1 = sn_change s"
    using same_dataset_same_ingestion [OF assms(1) s1] reached_inputs [OF assms(2)]
    by (simp add: keeps_inputs_def inputs_def)
  have suffix: "''-'' @ pad_nat 3 1 = ''-001''" by code_simp
  have k: "sn_channel ?s' = new_pilot_channel" "sn_change ?s' = sn_change s" "sn_delta ?s' = Some i"
    "sn_workflow ?s' = sn_workflow s" "sn_delivery_action_id ?s' = sn_delivery_action_id s1"
    "sn_ledger ?s' = reinstate (all_records (sn_ledger s)) []" "workflow_id_of ?s' = workflow_id_of s"
    using new_session_fields(10) [OF s1] assms(3) change by (simp_all add: restored_fields workflow_id_of_def)
  have "dict_get (sn_ledger ?s') (sn_delivery_action_id ?s') = None"
    using assms(8) new_session_fields(4) [OF s1] change suffix unfolding k(5,6)
    by (intro reinstated_absent) simp
  then have none: "ledger_get (sn_ledger ?s') (sn_delivery_action_id ?s') = None"
    by (simp add: ledger_get_def)
  have "di_change_id i = ac_change_id (sn_change s)"
    using reached_ok [OF assms(2)] assms(3) by (simp add: session_ok_def)
  with send_counts [OF none, of pf i cl] k assms(4-6) resumed_delivery_id [OF s1] reached_valid(1) [OF assms(2)]
    new_channel_ok [of "pf_H pf"]
  have "lc_dispatch_count (sn_channel (fst (send_delivery pf cl i ?s'))) = 1"
    by (simp add: new_pilot_channel_def)
  then show ?thesis
    using delivered_once [OF assms(3,7), of pf cl w] delivered_anew [OF k(3) none, of pf cl w] k(1,3,4)
    by (simp add: r new_pilot_channel_def)
qed

section \<open>Paying again\<close>

lemma record_attempt_keeps:
  assumes "record_attempt pf cl oid img x s = (s', r)"
  shows "sn_provider_calls s' = sn_provider_calls s" "sn_workflow s' = sn_workflow s"
    "sn_verification_events s' = sn_verification_events s" "sn_change s' = sn_change s"
    "sn_known_submission_ids s' = sn_known_submission_ids s"
  using assms by (auto simp: record_attempt_def Let_def store_evidence_def split: prod.splits sum.splits if_splits)

text \<open>A submission that is already known is rejected at Crossing 4, whatever the observation says.\<close>

lemma known_submission_not_judged:
  assumes "\<And>ob. observation_succeeded x \<Longrightarrow> or_observation x = Some ob \<Longrightarrow>
      fo_submission_id ob \<in> set (sn_known_submission_ids s)"
    and "judge_observation cl x s = (s', crossing, r)"
  shows "r = Inr ()" "sn_provider_calls s' = sn_provider_calls s" "sn_workflow s' = sn_workflow s"
    "sn_verification_events s' = sn_verification_events s"
proof -
  have "r = Inr () \<and> sn_provider_calls s' = sn_provider_calls s \<and> sn_workflow s' = sn_workflow s \<and>
    sn_verification_events s' = sn_verification_events s"
  proof (cases "if observation_succeeded x then or_observation x else None")
    case None
    with assms(2) show ?thesis by (auto simp: judge_observation_def)
  next
    case (Some ob)
    with assms(1) have k: "fo_submission_id ob \<in> set (sn_known_submission_ids s)" by (auto split: if_splits)
    obtain s1 v where v: "validate_crossing_4 ob s = (s1, v)" by fastforce
    with k have "\<not> ob_accepted v" "sn_provider_calls s1 = sn_provider_calls s" "core s1 = core s"
      using validate_crossing_4_effect(1) [OF v]
      by (auto simp: validate_crossing_4_def Let_def crossing4_accepts_iff record_event_def store_evidence_def)
    with Some v assms(2) coreD(1,3) [of s1 s] show ?thesis by (auto simp: judge_observation_def)
  qed
  then show "r = Inr ()" "sn_provider_calls s' = sn_provider_calls s" "sn_workflow s' = sn_workflow s"
    "sn_verification_events s' = sn_verification_events s" by blast+
qed

lemma known_submission_is_paid:
  fixes s :: session and w :: 'w and pf :: platform and img :: field_image
  defines "c \<equiv> sn_change s"
  assumes known: "derive_submission_id (pf_H pf) (ac_change_id c) (ac_source_version c) (fi_sha256 img)
      \<in> set (sn_known_submission_ids s)"
    and ids: "\<not> blank (ac_change_id c)" "\<not> blank (ac_source_version c)"
  shows "case observe_and_judge pf cl config provider raw img (s, w) of
    ((s', w'), r) \<Rightarrow> sn_provider_calls s' = sn_provider_calls s + 1 \<and> sn_workflow s' = sn_workflow s \<and>
      sn_verification_events s' = sn_verification_events s"
proof -
  let ?sub = "derive_submission_id (pf_H pf) (ac_change_id c) (ac_source_version c) (fi_sha256 img)"
  let ?op = "derive_observation_operation_id (pf_H pf) (ac_change_id c) (ac_source_version c) (fi_sha256 img)"
  let ?ctx = "observation_context_for (ac_change_id c) (ac_source_version c) ?sub"
  have auth: "is_authorized (identity_value FIELD_VERIFICATION) (tool_value FIELD_OBSERVATION_TOOL)"
    by (simp only: is_authorized_values) (simp add: AUTHORIZATION_POLICY_def)
  from issued_grant_verifies [OF auth ids(1,1,2), of "pf_mac pf" "cl_rnd cl" "Some (cl_now cl 3)" "sn_broker s"]
  obtain b g where issue: "issue_grant (pf_mac pf) (identity_value FIELD_VERIFICATION)
      (tool_value FIELD_OBSERVATION_TOOL) (ac_change_id c) (ac_change_id c) (ac_source_version c)
      (cl_rnd cl) (Some (cl_now cl 3)) (sn_broker s) = (b, Inr g)" by blast
  let ?s1 = "s\<lparr>sn_broker := b, sn_provider_calls := sn_provider_calls s + 1\<rparr>"
  obtain o1 w1 where obs: "observe (pf_H pf) (pf_repr pf) (pf_minus pf) (cl_clock cl) provider
      FIELD_VERIFICATION img raw ?ctx config (Some g)
      (Some (\<lambda>g. verify_grant (pf_mac pf) b g (tool_value FIELD_OBSERVATION_TOOL)))
      (field_evidence_ref ?op) w = (o1, w1)" by fastforce
  show ?thesis
  proof (cases o1)
    case (Inl e)
    with issue obs show ?thesis by (simp add: observe_and_judge_def Let_def c_def)
  next
    case o1: (Inr x)
    obtain s2 q where att: "record_attempt pf cl ?op img x ?s1 = (s2, q)" by fastforce
    note k = record_attempt_keeps [OF att]
    show ?thesis
    proof (cases q)
      case (Inl e)
      with issue obs o1 att k show ?thesis by (simp add: observe_and_judge_def Let_def c_def)
    next
      case (Inr u)
      obtain s3 crossing r where judged: "judge_observation cl x s2 = (s3, crossing, r)"
        by (metis prod.exhaust)
      have known2: "fo_submission_id ob \<in> set (sn_known_submission_ids s2)"
        if "observation_succeeded x" "or_observation x = Some ob" for ob
        using observed_submission [OF obs [unfolded o1] that] known k(5)
        by (simp add: observation_context_for_def)
      note j = known_submission_not_judged [OF known2 judged]
      let ?s4 = "s3\<lparr>sn_known_submission_ids := (if ?sub \<in> set (sn_known_submission_ids s3)
          then sn_known_submission_ids s3 else sn_known_submission_ids s3 @ [?sub]),
        sn_field_verification := Some (FieldView (or_status x) crossing)\<rparr>"
      have res: "observe_and_judge pf cl config provider raw img (s, w) = respond pf cl (?s4, w1)"
        using issue obs o1 att Inr judged j(1) by (simp add: observe_and_judge_def Let_def c_def)
      obtain s5 w5 r5 where answer: "respond pf cl (?s4, w1) = ((s5, w5), r5)" by (metis prod.exhaust)
      have "assets s5 = assets ?s4" using respond_effect [of pf cl ?s4 w1] by (simp add: answer)
      then have "sn_provider_calls s5 = sn_provider_calls s3" "sn_workflow s5 = sn_workflow s3"
        "sn_verification_events s5 = sn_verification_events s3" by (simp_all add: assets_def)
      with j k show ?thesis unfolding res answer prod.case by simp
    qed
  qed
qed

text \<open>C19. A resume pays for a photograph again. In a session that has judged a photograph and keeps its
  answer on file, the same bytes are answered from the file. The session rebuilt from its records knows
  the submission but has no field evidence: the same bytes call the provider once more, and whatever it
  answers, the known submission is refused at Crossing 4 - nothing is decided by the call that was paid
  for.\<close>

theorem resumed_session_pays_again:
  assumes "new_session pf namespace n d rationale secret t u sink = Inr s0"
    and "reached pf s0 (s, w)"
    and "accept_field_image (pf_H pf) raw f c MAX_IMAGE_BYTES = Inr img"
    and "find_operation (operation_id pf (sn_change s) (pf_H pf raw)) (sn_field_store s) = Some doc"
      "evidence_is_replayable doc"
    and "derive_submission_id (pf_H pf) (ac_change_id (sn_change s)) (ac_source_version (sn_change s))
      (pf_H pf raw) \<in> set (sn_known_submission_ids s)"
    and "\<not> blank (ac_change_id (sn_change s))" "\<not> blank (ac_source_version (sn_change s))"
    and "cl_config cl = Inr dz" "field_enabled (dz_field_provider dz)"
      "cl_field_factory cl = Some factory" "factory (dz_field_provider dz) = Some provider"
  shows "sn_provider_calls (fst (fst (submit_field_evidence pf cl raw f c (s, w)))) = sn_provider_calls s \<and>
    (case rehydrate pf (workflow_id_of s) d secret' t' u' (durable_image s revision) of
       Inl e \<Rightarrow> False
     | Inr s' \<Rightarrow>
         (case submit_field_evidence pf cl raw f c (s', w) of
            ((s2, w2), r) \<Rightarrow> sn_provider_calls s2 = sn_provider_calls s + 1 \<and>
              sn_workflow s2 = sn_workflow s \<and> sn_verification_events s2 = sn_verification_events s))"
proof -
  from rehydrated [OF assms(1,2)] obtain s1 where
    s1: "new_session pf (workflow_id_of s) 1 d None secret' t' u' [] = Inr s1"
    and r: "rehydrate pf (workflow_id_of s) d secret' t' u' (durable_image s revision) =
      Inr (restored s (s1\<lparr>sn_workflow := sn_workflow s, sn_state_history := sn_state_history s,
                          sn_ledger := reinstate (all_records (sn_ledger s)) []\<rparr>))" (is "_ = Inr ?s'")
    by blast
  have change: "sn_change s1 = sn_change s"
    using same_dataset_same_ingestion [OF assms(1) s1] reached_inputs [OF assms(2)]
    by (simp add: keeps_inputs_def inputs_def)
  let ?t = "record_event ''FIELD_EVIDENCE_SUBMITTED'' ?s'"
  have k: "sn_change ?t = sn_change s" "sn_field_store ?t = empty_field_store" "sn_workflow ?t = sn_workflow s"
    "sn_verification_events ?t = sn_verification_events s" "sn_provider_calls ?t = sn_provider_calls s"
    "set (sn_known_submission_ids ?t) = set (sn_known_submission_ids s)"
    using new_session_fields(11) [OF s1] change
    by (simp_all add: restored_fields record_event_def)
  have none: "find_operation j empty_field_store = None" for j
    by (simp add: find_operation_def empty_field_store_def)
  note sha = accepted_digest [OF assms(3)]
  have "submit_field_evidence pf cl raw f c (?s', w) =
      observe_and_judge pf cl (dz_field_provider dz) provider raw img (?t, w)"
    using assms(3,9-12) k(1,2) none
    by (simp add: submit_field_evidence_def submit_fresh_def get_field_observation_provider_def Let_def)
  moreover have "derive_submission_id (pf_H pf) (ac_change_id (sn_change ?t)) (ac_source_version (sn_change ?t))
      (fi_sha256 img) \<in> set (sn_known_submission_ids ?t)" using assms(6) sha k(1,6) by simp
  from known_submission_is_paid [OF this, of cl "dz_field_provider dz" provider raw w] assms(7,8) k
  have "case observe_and_judge pf cl (dz_field_provider dz) provider raw img (?t, w) of
    ((s2, w2), r) \<Rightarrow> sn_provider_calls s2 = sn_provider_calls s + 1 \<and> sn_workflow s2 = sn_workflow s \<and>
      sn_verification_events s2 = sn_verification_events s" by (simp only:) simp
  moreover have "sn_provider_calls (fst (fst (submit_field_evidence pf cl raw f c (s, w)))) = sn_provider_calls s"
    using replay_effect [OF assms(3-5), of cl w] by (simp add: assets_def)
  ultimately show ?thesis by (simp only: r sum.case)
qed

section \<open>The pilot, resumed\<close>

lemma pilot_new_session:
  "new_session sample_platform ''wf'' 1 sample_dataset None ''secret'' 1 1 [] = Inr pilot_session"
proof -
  have "\<not> isl (new_session sample_platform ''wf'' 1 sample_dataset None ''secret'' 1 1 [])" by code_simp
  then show ?thesis by (simp add: pilot_session_def)
qed

lemma pilot_change_texts: "\<not> blank ''DZ-1''" "\<not> blank ''v14''"
  by code_simp+

lemma pilot_delivered_reached:
  "\<exists>s w. reached sample_platform pilot_session (s :: session, w :: nat) \<and> workflow_id_of s = ''wf-001'' \<and>
     state_of s = AWAITING_FIELD_VERIFICATION \<and> rp_artifacts (sn_repository s) \<noteq> [] \<and>
     sn_change s = sn_change pilot_session \<and>
     (\<exists>i. sn_delta s = Some i \<and> \<not> blank (di_instruction_id i)) \<and>
     decide_retry (sn_ledger s) (sn_delivery_action_id s) = RETRY_ALREADY_COMPLETED \<and>
     derive_delivery_action_id sample_digest ''wf-001-001'' (sn_change s) DESTINATION_REF
       \<notin> ax_action_id ` set (all_records (sn_ledger s))"
proof -
  obtain markers where r: "reached sample_platform pilot_session (pilot_delivered markers)"
    using pilot_reached by blast
  obtain s w where sw: "pilot_delivered markers = (s, w)" by fastforce
  from pilot_delivered_records [of markers, unfolded sw fst_conv Let_def]
  have k: "state_of s = AWAITING_FIELD_VERIFICATION" "rp_artifacts (sn_repository s) \<noteq> []"
    "wf_workflow_id (sn_workflow s) = ''wf-001''"
    "case sn_delta s of None \<Rightarrow> False | Some i \<Rightarrow> \<not> blank (di_instruction_id i)"
    "decide_retry (sn_ledger s) (sn_delivery_action_id s) = RETRY_ALREADY_COMPLETED"
    "derive_delivery_action_id sample_digest ''wf-001-001'' (sn_change s) DESTINATION_REF
       \<notin> ax_action_id ` set (all_records (sn_ledger s))"
    by - (elim conjE, assumption)+
  then have i: "\<exists>i. sn_delta s = Some i \<and> \<not> blank (di_instruction_id i)" by (auto split: option.splits)
  have "reached sample_platform pilot_session (s, w)" "sn_change s = sn_change pilot_session"
    using r reached_follows [OF r] by (simp_all add: sw follows_def)
  with k i show ?thesis unfolding workflow_id_of_def by (intro exI [of _ s] exI [of _ w] conjI)
qed

theorem resume_keeps_the_proof_witness:
  "\<exists>s s'. state_of s = AWAITING_FIELD_VERIFICATION \<and>
     rehydrate sample_platform ''wf-001'' sample_dataset ''other'' 5 5 ((durable_image s 7)\<lparr>dr_actions := []\<rparr>) = Inr s' \<and>
     sn_workflow s' = sn_workflow s \<and>
     snd (session_proof_context sample_platform s') = snd (session_proof_context sample_platform s)"
proof -
  obtain s and w :: nat where s: "reached sample_platform pilot_session (s, w)" "workflow_id_of s = ''wf-001''"
    "state_of s = AWAITING_FIELD_VERIFICATION" "rp_artifacts (sn_repository s) \<noteq> []"
    using pilot_delivered_reached by blast
  note t = resume_keeps_the_proof [OF pilot_new_session s(1,4), of "''other''" 5 5 "[]" 7, unfolded s(2)]
  show ?thesis
  proof (cases "rehydrate sample_platform ''wf-001'' sample_dataset ''other'' 5 5 ((durable_image s 7)\<lparr>dr_actions := []\<rparr>)")
    case (Inr s')
    with t s(3) show ?thesis by (intro exI [of _ s] exI [of _ s']) simp
  qed (use t in simp)
qed

theorem resumed_session_delivers_again_witness:
  "\<exists>s s' w. state_of s = AWAITING_FIELD_VERIFICATION \<and>
     rehydrate sample_platform ''wf-001'' sample_dataset ''other'' 5 5 (durable_image s 7) = Inr s' \<and>
     lc_dispatch_count (sn_channel (fst (fst (deliver_to_frontline sample_platform (pilot_call '''') (s', w))))) = 1"
proof -
  obtain s and w :: nat and i where s: "reached sample_platform pilot_session (s, w)"
    "workflow_id_of s = ''wf-001''" "state_of s = AWAITING_FIELD_VERIFICATION"
    "sn_change s = sn_change pilot_session" "sn_delta s = Some i" "\<not> blank (di_instruction_id i)"
    "decide_retry (sn_ledger s) (sn_delivery_action_id s) = RETRY_ALREADY_COMPLETED"
    "derive_delivery_action_id sample_digest ''wf-001-001'' (sn_change s) DESTINATION_REF
       \<notin> ax_action_id ` set (all_records (sn_ledger s))"
    using pilot_delivered_reached by blast
  have H: "pf_H sample_platform = sample_digest" by (simp add: sample_platform_def)
  have nb: "\<not> blank (ac_change_id (sn_change s))" "\<not> blank (ac_source_version (sn_change s))"
    using pilot_change pilot_change_texts by (simp_all add: s(4))
  have id: "derive_delivery_action_id (pf_H sample_platform) (workflow_id_of s @ ''-001'') (sn_change s)
      DESTINATION_REF \<notin> ax_action_id ` set (all_records (sn_ledger s))"
    using s(8) by (simp add: H s(2))
  note t = resumed_session_delivers_again [OF pilot_new_session s(1,5,6) nb s(7) id, of "pilot_call ''''" "''other''" 5 5 7,
    unfolded s(2)]
  show ?thesis
  proof (cases "rehydrate sample_platform ''wf-001'' sample_dataset ''other'' 5 5 (durable_image s 7)")
    case (Inr s')
    with t s(3) show ?thesis by (intro exI [of _ s] exI [of _ s'] exI [of _ w]) simp
  qed (use t in simp)
qed

theorem resumed_session_pays_again_witness:
  "\<exists>s s' w. state_of s = PROOF_COMPLETE \<and>
     rehydrate sample_platform (workflow_id_of s) sample_dataset ''other'' 5 5 (durable_image s 7) = Inr s' \<and>
     (case submit_field_evidence sample_platform (pilot_call ''left'') (pilot_photo (CHR ''2'')) None None (s', w) of
        ((s2, w2), r) \<Rightarrow> sn_provider_calls s2 = sn_provider_calls s + 1 \<and>
          sn_verification_events s2 = sn_verification_events s)"
proof -
  obtain s and w :: nat and doc where s: "reached sample_platform pilot_session (s, w)" "state_of s = PROOF_COMPLETE"
    "derive_submission_id sample_digest ''DZ-1'' ''v14'' (sample_digest (pilot_photo (CHR ''2'')))
       \<in> set (sn_known_submission_ids s)"
    "find_operation (derive_observation_operation_id sample_digest ''DZ-1'' ''v14''
       (sample_digest (pilot_photo (CHR ''2'')))) (sn_field_store s) = Some doc" "evidence_is_replayable doc"
    using pilot_completed by blast
  have c: "ac_change_id (sn_change s) = ''DZ-1''" "ac_source_version (sn_change s) = ''v14''"
    using reached_follows [OF s(1)] pilot_change by (simp_all add: follows_def)
  have H: "pf_H sample_platform = sample_digest" by (simp add: sample_platform_def)
  obtain img where img: "accept_field_image (pf_H sample_platform) (pilot_photo (CHR ''2'')) None None
      MAX_IMAGE_BYTES = Inr img"
    using pilot_photo_accepted by (auto simp: H)
  have call: "cl_config (pilot_call ''left'') = Inr pilot_config"
    "field_enabled (dz_field_provider pilot_config)"
    "cl_field_factory (pilot_call ''left'') = Some (\<lambda>_. Some (\<lambda>_ _ _ _ n. (Inr (sample_answer ''left''), n + 1)))"
    by (simp_all add: pilot_call_def pilot_config_def field_enabled_def sample_field_config_def
        FIELD_PROVIDER_DISABLED_def)
  note t = resumed_session_pays_again [OF pilot_new_session s(1) img _ s(5) _ _ _ call refl, unfolded H c,
    OF s(4,3) pilot_change_texts, of "''other''" 5 5 7]
  show ?thesis
  proof (cases "rehydrate sample_platform (workflow_id_of s) sample_dataset ''other'' 5 5 (durable_image s 7)")
    case (Inr s')
    with t s(2) show ?thesis
      by (intro exI [of _ s] exI [of _ s'] exI [of _ w]) (simp add: split_beta)
  qed (use t in simp)
qed

end
