(* ===== verification/Documents.thy ===== *)
theory Documents
  imports Resume_Snapshot
begin

text \<open>
  What the cloud adapters need of Firestore, and the identifiers they accept
  (\<open>driftzero_cloud/serialization.py\<close>). The client is a parameter: reading, creating under the
  precondition that the document does not exist, overwriting and deleting one document, each atomic. The
  laws are those the repository's double of the client states (\<open>tests/integration/_fake_gcp.py\<close>), which
  is the instance here. A document is addressed by its path.
\<close>

section \<open>The client\<close>

record ('d, 's) document_client =
  dc_get :: "str \<Rightarrow> 's \<Rightarrow> 'd option"
  dc_create :: "str \<Rightarrow> 'd \<Rightarrow> 's \<Rightarrow> 's option"
  dc_set :: "str \<Rightarrow> 'd \<Rightarrow> 's \<Rightarrow> 's"
  dc_delete :: "str \<Rightarrow> 's \<Rightarrow> 's"
  dc_stream :: "str \<Rightarrow> 's \<Rightarrow> 'd list"

text \<open>A document is in a collection when its path adds one segment to the collection's.\<close>

definition in_collection :: "str \<Rightarrow> str \<Rightarrow> bool" where
  "in_collection p q \<longleftrightarrow>
     take (length p + 1) q = p @ ''/'' \<and> CHR ''/'' \<notin> set (drop (length p + 1) q)"

text \<open>\<open>create\<close> is \<open>None\<close> where the client raises \<open>AlreadyExists\<close>.\<close>

locale document_store =
  fixes c :: "('d, 's) document_client"
  assumes get_set: "dc_get c q (dc_set c p d s) = (if q = p then Some d else dc_get c q s)"
    and get_delete: "dc_get c q (dc_delete c p s) = (if q = p then None else dc_get c q s)"
    and create_taken: "dc_get c p s = Some d' \<Longrightarrow> dc_create c p d s = None"
    and create_free: "dc_get c p s = None \<Longrightarrow>
      \<exists>s'. dc_create c p d s = Some s' \<and> (\<forall>q. dc_get c q s' = (if q = p then Some d else dc_get c q s))"
    and stream_set: "set (dc_stream c p s) = {d. \<exists>q. in_collection p q \<and> dc_get c q s = Some d}"
begin

lemma created:
  assumes "dc_create c p d s = Some s'"
  shows "dc_get c p s = None" "dc_get c q s' = (if q = p then Some d else dc_get c q s)"
proof -
  show none: "dc_get c p s = None"
  proof (cases "dc_get c p s")
    case (Some d')
    from create_taken [OF this, of d] assms show ?thesis by simp
  qed
  from create_free [OF this, of d] assms show "dc_get c q s' = (if q = p then Some d else dc_get c q s)"
    by auto
qed

lemma create_refused: "dc_create c p d s = None \<longleftrightarrow> dc_get c p s \<noteq> None"
proof (cases "dc_get c p s")
  case None
  from create_free [OF this, of d] None show ?thesis by auto
next
  case (Some d')
  from create_taken [OF this, of d] Some show ?thesis by simp
qed

end

text \<open>The in-memory double.\<close>

definition memory_client :: "('d, (str, 'd) dict) document_client" where
  "memory_client =
     \<lparr>dc_get = (\<lambda>p s. dict_get s p),
      dc_create = (\<lambda>p d s. if p \<in> set (dict_keys s) then None else Some (dict_put p d s)),
      dc_set = (\<lambda>p d s. dict_put p d s),
      dc_delete = (\<lambda>p s. filter (\<lambda>(q, _). q \<noteq> p) s),
      dc_stream = (\<lambda>p s. map (\<lambda>q. the (dict_get s q))
        (sort (remdups (filter (in_collection p) (dict_keys s)))))\<rparr>"

lemma dict_get_filter: "dict_get (filter (\<lambda>(q, _). q \<noteq> p) s) k = (if k = p then None else dict_get s k)"
  by (induction s) auto

lemma memory_stream:
  "(\<lambda>q. the (dict_get s q)) ` {q \<in> fst ` set s. in_collection p q} =
     {d. \<exists>q. in_collection p q \<and> dict_get s q = Some d}"
  by (force simp: dict_get_present)

interpretation memory: document_store memory_client
proof unfold_locales
  show "set (dc_stream memory_client p s) = {d. \<exists>q. in_collection p q \<and> dc_get memory_client q s = Some d}"
    for p and s :: "(str, 'd) dict"
    using memory_stream [of s p] by (simp add: memory_client_def image_def)
qed (auto simp: memory_client_def dict_get_filter dict_get_None dest: map_of_Some_key)

section \<open>Identifiers\<close>

definition ascii_alnum :: "char \<Rightarrow> bool" where
  "ascii_alnum c \<longleftrightarrow>
     (let n = (of_char c :: nat) in (48 \<le> n \<and> n \<le> 57) \<or> (65 \<le> n \<and> n \<le> 90) \<or> (97 \<le> n \<and> n \<le> 122))"

definition identifier_char :: "char \<Rightarrow> bool" where
  "identifier_char c \<longleftrightarrow> ascii_alnum c \<or> c \<in> {CHR ''.'', CHR ''_'', CHR ''-''}"

fun has_parent_reference :: "str \<Rightarrow> bool" where
  "has_parent_reference (a # b # s) \<longleftrightarrow> (a = CHR ''.'' \<and> b = CHR ''.'') \<or> has_parent_reference (b # s)"
| "has_parent_reference _ \<longleftrightarrow> False"

text \<open>\<open>safe_identifier\<close>, with the checks in the code's order.\<close>

definition safe_identifier :: "str \<Rightarrow> str cloud" where
  "safe_identifier v =
     (if v = [] then Inl (IdentifierRejected v)
      else if v \<in> {''.'', ''..''} then Inl (IdentifierRejected v)
      else if CHR ''/'' \<in> set v \<or> CHR 0x5C \<in> set v then Inl (IdentifierRejected v)
      else if has_parent_reference v then Inl (IdentifierRejected v)
      else if \<not> (ascii_alnum (hd v) \<and> list_all identifier_char (tl v) \<and> length v \<le> 255)
        then Inl (IdentifierRejected v)
      else Inr v)"

lemma safe_identifier_Inr: "safe_identifier v = Inr u \<Longrightarrow> u = v \<and> v \<noteq> [] \<and> CHR ''/'' \<notin> set v"
  by (auto simp: safe_identifier_def split: if_splits)

lemma safe_identifier_no_space:
  "safe_identifier v = Inr u \<Longrightarrow> list_all (\<lambda>c. \<not> py_space c) v"
proof -
  assume safe: "safe_identifier v = Inr u"
  have i: "identifier_char c \<Longrightarrow> \<not> py_space c" for c
    by (auto simp: identifier_char_def ascii_alnum_def py_space_def Let_def)
  from safe obtain a s where v: "v = a # s" "ascii_alnum a" "list_all identifier_char s"
    by (cases v) (auto simp: safe_identifier_def split: if_splits)
  then have "identifier_char a" by (simp add: identifier_char_def)
  with v i show ?thesis by (auto simp: list_all_iff)
qed

end
