(* ===== verification/Leases.thy ===== *)
theory Leases
  imports Documents
begin

text \<open>
  The resume leases (\<open>driftzero_cloud/leases.py\<close>): a claim by creating a document, a takeover of an
  expired one, a release by the holder of the token. Each access to the store is atomic, the operations
  are not: \<open>acquire\<close> is composed of a create, a read and an overwrite, which others may come between.
  The clock, the token and the two directions of ISO 8601 are parameters.
\<close>

section \<open>The operations\<close>

definition RESUME_LEASES :: str where
  "RESUME_LEASES = ''resume_leases''"

definition DEFAULT_LEASE_SECONDS :: int where
  "DEFAULT_LEASE_SECONDS = 120"

text \<open>Clock values are microseconds.\<close>

definition lease_ttl :: int where
  "lease_ttl = DEFAULT_LEASE_SECONDS * 1000000"

record lease =
  le_workflow_id :: str
  le_owner :: str
  le_token :: str
  le_expires_at :: datetime

definition lease_expired :: "datetime \<Rightarrow> lease \<Rightarrow> bool" where
  "lease_expired now l \<longleftrightarrow> le_expires_at l \<le> now"

record iso_format =
  iso_print :: "datetime \<Rightarrow> str"
  iso_parse :: "str \<Rightarrow> datetime option"

text \<open>\<open>_doc\<close>, and the document \<open>acquire\<close> writes.\<close>

definition lease_path :: "str \<Rightarrow> str cloud" where
  "lease_path workflow_id =
     cloud_bind (safe_identifier workflow_id) (\<lambda>v. Inr (RESUME_LEASES @ CHR ''/'' # v))"

definition lease_document :: "iso_format \<Rightarrow> datetime \<Rightarrow> lease \<Rightarrow> (str, json) dict" where
  "lease_document f now l =
     [(''workflow_id'', JStr (le_workflow_id l)), (''owner'', JStr (le_owner l)),
      (''token'', JStr (le_token l)), (''acquired_at'', JStr (iso_print f now)),
      (''expires_at'', JStr (iso_print f (le_expires_at l)))]"

definition lease_for :: "str \<Rightarrow> str \<Rightarrow> str \<Rightarrow> datetime \<Rightarrow> lease" where
  "lease_for workflow_id owner token now =
     \<lparr>le_workflow_id = workflow_id, le_owner = owner, le_token = token, le_expires_at = now + lease_ttl\<rparr>"

text \<open>\<open>_parse(document.get("expires_at"))\<close>\<close>

definition document_expiry :: "iso_format \<Rightarrow> (str, json) dict \<Rightarrow> datetime option" where
  "document_expiry f d =
     (case dict_get d ''expires_at'' of Some (JStr t) \<Rightarrow> iso_parse f t | _ \<Rightarrow> None)"

definition document_live :: "iso_format \<Rightarrow> datetime \<Rightarrow> (str, json) dict \<Rightarrow> bool" where
  "document_live f now d \<longleftrightarrow> (case document_expiry f d of None \<Rightarrow> False | Some t \<Rightarrow> now < t)"

definition json_or_null :: "str \<Rightarrow> (str, json) dict \<Rightarrow> json" where
  "json_or_null k d = (case dict_get d k of None \<Rightarrow> JNull | Some v \<Rightarrow> v)"

text \<open>What a contender does after its create was refused, from what it reads (an absent document reads
  as an empty one): it is denied, or it overwrites.\<close>

definition takeover_document ::
  "iso_format \<Rightarrow> datetime \<Rightarrow> lease \<Rightarrow> (str, json) dict option \<Rightarrow> (str, json) dict option" where
  "takeover_document f now l found =
     (let existing = (case found of None \<Rightarrow> [] | Some d \<Rightarrow> d)
      in if document_live f now existing then None
         else Some (lease_document f now l @
           [(''superseded_owner'', json_or_null ''owner'' existing),
            (''superseded_expired_at'', json_or_null ''expires_at'' existing)]))"

datatype lease_error = LeaseDenied str | LeaseCloud cloud_error

text \<open>\<open>str(existing.get("owner"))\<close> for an owner that is a string.\<close>

definition holder_text :: "(str, json) dict option \<Rightarrow> str" where
  "holder_text found =
     (case json_or_null ''owner'' (case found of None \<Rightarrow> [] | Some d \<Rightarrow> d) of JStr o' \<Rightarrow> o' | _ \<Rightarrow> ''None'')"

text \<open>\<open>acquire\<close>, with nothing coming between its accesses.\<close>

definition acquire ::
  "((str, json) dict, 's) document_client \<Rightarrow> iso_format \<Rightarrow> str \<Rightarrow> str \<Rightarrow> str \<Rightarrow> datetime \<Rightarrow> 's \<Rightarrow>
     's \<times> (lease_error + lease)" where
  "acquire c f workflow_id owner token now s =
     (case lease_path workflow_id of
        Inl e \<Rightarrow> (s, Inl (LeaseCloud e))
      | Inr p \<Rightarrow>
          (let l = lease_for workflow_id owner token now
           in case dc_create c p (lease_document f now l) s of
                Some s' \<Rightarrow> (s', Inr l)
              | None \<Rightarrow>
                  (case takeover_document f now l (dc_get c p s) of
                     None \<Rightarrow> (s, Inl (LeaseDenied (holder_text (dc_get c p s))))
                   | Some d \<Rightarrow> (dc_set c p d s, Inr l))))"

definition release ::
  "((str, json) dict, 's) document_client \<Rightarrow> lease \<Rightarrow> 's \<Rightarrow> 's \<times> bool cloud" where
  "release c l s =
     (case lease_path (le_workflow_id l) of
        Inl e \<Rightarrow> (s, Inl e)
      | Inr p \<Rightarrow>
          (case dc_get c p s of
             None \<Rightarrow> (s, Inr False)
           | Some d \<Rightarrow>
               if dict_get d ''token'' \<noteq> Some (JStr (le_token l)) then (s, Inr False)
               else (dc_delete c p s, Inr True)))"

definition lease_holder ::
  "((str, json) dict, 's) document_client \<Rightarrow> iso_format \<Rightarrow> str \<Rightarrow> datetime \<Rightarrow> 's \<Rightarrow>
     (str, json) dict option cloud" where
  "lease_holder c f workflow_id now s =
     cloud_bind (lease_path workflow_id) (\<lambda>p. Inr (map_option
       (\<lambda>d. dict_put ''live'' (JBool (document_live f now d)) d) (dc_get c p s)))"

section \<open>Interleaved contenders\<close>

text \<open>
  Several processes contend for one workflow. Each access is a step: the create, the read after a refused
  create, the overwrite it led to, and the release.
\<close>

datatype contender =
    Waiting
  | CreateRefused datetime lease
  | Displacing "(str, json) dict" lease
  | Holding lease
  | Denied str

datatype lease_access =
    TryCreate nat str str datetime
  | ReadHolder nat
  | Overwrite nat
  | GiveUp nat

definition lease_access_step ::
  "((str, json) dict, 's) document_client \<Rightarrow> iso_format \<Rightarrow> str \<Rightarrow> str \<Rightarrow> 's \<times> (nat \<Rightarrow> contender) \<Rightarrow>
     lease_access \<Rightarrow> 's \<times> (nat \<Rightarrow> contender)" where
  "lease_access_step c f workflow_id p sk a =
     (let (s, k) = sk
      in case a of
           TryCreate i owner token now \<Rightarrow>
             (let l = lease_for workflow_id owner token now
              in case dc_create c p (lease_document f now l) s of
                   Some s' \<Rightarrow> (s', k(i := Holding l))
                 | None \<Rightarrow> (s, k(i := CreateRefused now l)))
         | ReadHolder i \<Rightarrow>
             (case k i of
                CreateRefused now l \<Rightarrow>
                  (case takeover_document f now l (dc_get c p s) of
                     None \<Rightarrow> (s, k(i := Denied (holder_text (dc_get c p s))))
                   | Some d \<Rightarrow> (s, k(i := Displacing d l)))
              | _ \<Rightarrow> sk)
         | Overwrite i \<Rightarrow>
             (case k i of Displacing d l \<Rightarrow> (dc_set c p d s, k(i := Holding l)) | _ \<Rightarrow> sk)
         | GiveUp i \<Rightarrow>
             (case k i of Holding l \<Rightarrow> (fst (release c l s), k(i := Waiting)) | _ \<Rightarrow> sk))"

definition contend ::
  "((str, json) dict, 's) document_client \<Rightarrow> iso_format \<Rightarrow> str \<Rightarrow> str \<Rightarrow> lease_access list \<Rightarrow>
     's \<times> (nat \<Rightarrow> contender) \<Rightarrow> 's \<times> (nat \<Rightarrow> contender)" where
  "contend c f workflow_id p accesses sk = foldl (lease_access_step c f workflow_id p) sk accesses"

text \<open>\<open>acquire\<close> is its accesses with nothing between them.\<close>

lemma acquire_uninterrupted:
  assumes "lease_path workflow_id = Inr p" and "acquire c f workflow_id owner token now s = (s', r)"
  shows "contend c f workflow_id p [TryCreate i owner token now, ReadHolder i, Overwrite i] (s, k) =
    (s', k(i := (case r of Inr l \<Rightarrow> Holding l | Inl (LeaseDenied h) \<Rightarrow> Denied h | Inl (LeaseCloud e) \<Rightarrow> k i)))"
  using assms
  by (auto simp: acquire_def contend_def lease_access_step_def Let_def split: option.splits)

section \<open>Exclusion\<close>

text \<open>
  The runs in which no operation is interrupted, with the leases that were granted and not given up. The
  clock does not go back, and a token is not one that is still held.
\<close>

inductive lease_history ::
  "((str, json) dict, 's) document_client \<Rightarrow> iso_format \<Rightarrow> str \<Rightarrow> str \<Rightarrow> 's \<times> datetime \<times> lease list \<Rightarrow> bool"
  for c f workflow_id p where
  unclaimed: "dc_get c p s = None \<Longrightarrow> lease_history c f workflow_id p (s, now, [])"
| granted: "lease_history c f workflow_id p (s, t, held) \<Longrightarrow> t \<le> now \<Longrightarrow> token \<notin> le_token ` set held \<Longrightarrow>
    acquire c f workflow_id owner token now s = (s', Inr l) \<Longrightarrow>
    lease_history c f workflow_id p (s', now, l # held)"
| refused: "lease_history c f workflow_id p (s, t, held) \<Longrightarrow> t \<le> now \<Longrightarrow>
    acquire c f workflow_id owner token now s = (s', Inl e) \<Longrightarrow>
    lease_history c f workflow_id p (s', now, held)"
| given_up: "lease_history c f workflow_id p (s, t, held) \<Longrightarrow> l \<in> set held \<Longrightarrow>
    release c l s = (s', r) \<Longrightarrow> lease_history c f workflow_id p (s', t, removeAll l held)"

definition on_file :: "iso_format \<Rightarrow> lease \<Rightarrow> (str, json) dict \<Rightarrow> bool" where
  "on_file f l d \<longleftrightarrow>
     dict_get d ''token'' = Some (JStr (le_token l)) \<and> document_expiry f d = Some (le_expires_at l)"

definition leases_ok ::
  "((str, json) dict, 's) document_client \<Rightarrow> iso_format \<Rightarrow> str \<Rightarrow> str \<Rightarrow> 's \<times> datetime \<times> lease list \<Rightarrow> bool" where
  "leases_ok c f workflow_id p x \<longleftrightarrow>
     (case x of (s, now, held) \<Rightarrow>
        distinct (map le_token held) \<and>
        (\<forall>l\<in>set held. le_workflow_id l = workflow_id) \<and>
        (\<forall>l\<in>set held. now < le_expires_at l \<longrightarrow> (\<exists>d. dc_get c p s = Some d \<and> on_file f l d)) \<and>
        (\<forall>d. dc_get c p s = Some d \<longrightarrow> (\<exists>l\<in>set held. on_file f l d)))"

text \<open>The store of the lease documents.\<close>

locale lease_store = document_store c for c :: "((str, json) dict, 's) document_client"
begin

lemma lease_document_on_file:
  assumes "\<And>t. iso_parse f (iso_print f t) = Some t"
  shows "on_file f l (lease_document f now l)" "takeover_document f now l found = Some d \<Longrightarrow> on_file f l d"
  using assms
  by (auto simp: on_file_def lease_document_def document_expiry_def takeover_document_def Let_def split: if_splits)

lemma acquire_cases:
  assumes "lease_path workflow_id = Inr p"
    and "acquire c f workflow_id owner token now s = (s', r)"
  obtains (refused) d h where "s' = s" "r = Inl (LeaseDenied h)" "dc_get c p s = Some d" "document_live f now d"
  | (granted) d where "r = Inr (lease_for workflow_id owner token now)"
      "\<And>q. dc_get c q s' = (if q = p then Some d else dc_get c q s)"
      "d = lease_document f now (lease_for workflow_id owner token now) \<or>
       takeover_document f now (lease_for workflow_id owner token now) (dc_get c p s) = Some d"
      "case dc_get c p s of None \<Rightarrow> True | Some d' \<Rightarrow> \<not> document_live f now d'"
proof (cases "dc_create c p (lease_document f now (lease_for workflow_id owner token now)) s")
  case (Some s1)
  with assms have "s' = s1" "r = Inr (lease_for workflow_id owner token now)"
    by (auto simp: acquire_def Let_def)
  with created [OF Some] show ?thesis by (intro granted) auto
next
  case None
  then obtain d' where d': "dc_get c p s = Some d'" by (auto simp: create_refused)
  show ?thesis
  proof (cases "document_live f now d'")
    case True
    with assms None d' show ?thesis
      by (intro refused) (auto simp: acquire_def Let_def takeover_document_def)
  next
    case False
    with assms None d' show ?thesis
      by (intro granted) (auto simp: acquire_def Let_def takeover_document_def get_set)
  qed
qed

lemma leases_ok_live:
  assumes ok: "leases_ok c f workflow_id p (s, t, held)" and now: "t \<le> now"
  shows "(\<exists>l\<in>set held. now < le_expires_at l) \<longleftrightarrow> (\<exists>d. dc_get c p s = Some d \<and> document_live f now d)"
proof
  assume "\<exists>l\<in>set held. now < le_expires_at l"
  then obtain l where l: "l \<in> set held" "now < le_expires_at l" by blast
  then have "t < le_expires_at l" using now by simp
  with ok l(1) obtain d where "dc_get c p s = Some d" "on_file f l d" by (fastforce simp: leases_ok_def)
  with l(2) show "\<exists>d. dc_get c p s = Some d \<and> document_live f now d"
    by (auto simp: on_file_def document_live_def)
next
  assume "\<exists>d. dc_get c p s = Some d \<and> document_live f now d"
  then obtain d where d: "dc_get c p s = Some d" "document_live f now d" by blast
  with ok obtain l where "l \<in> set held" "on_file f l d" by (fastforce simp: leases_ok_def)
  with d(2) show "\<exists>l\<in>set held. now < le_expires_at l"
    by (auto simp: on_file_def document_live_def)
qed

lemma leases_ok_acquire:
  assumes iso: "\<And>t. iso_parse f (iso_print f t) = Some t" and p: "lease_path workflow_id = Inr p"
    and ok: "leases_ok c f workflow_id p (s, t, held)" and now: "t \<le> now"
    and run: "acquire c f workflow_id owner token now s = (s', r)"
    and new: "token \<notin> le_token ` set held"
  shows "leases_ok c f workflow_id p (s', now, case r of Inl e \<Rightarrow> held | Inr l \<Rightarrow> l # held)"
  using p run
proof (cases rule: acquire_cases)
  case (refused d h)
  with ok now show ?thesis by (fastforce simp: leases_ok_def)
next
  case (granted d)
  have "\<not> (\<exists>l\<in>set held. now < le_expires_at l)"
    unfolding leases_ok_live [OF ok now] using granted(4) by (auto split: option.splits)
  moreover have "on_file f (lease_for workflow_id owner token now) d"
    using granted(3) lease_document_on_file [OF iso] by blast
  ultimately show ?thesis
    using ok new granted(1,2) by (auto simp: leases_ok_def lease_for_def)
qed

lemma leases_ok_release:
  assumes p: "lease_path workflow_id = Inr p" and ok: "leases_ok c f workflow_id p (s, t, held)"
    and l: "l \<in> set held" and run: "release c l s = (s', r)"
  shows "leases_ok c f workflow_id p (s', t, removeAll l held)"
proof -
  have w: "le_workflow_id l = workflow_id" using ok l by (auto simp: leases_ok_def)
  have inj: "a = b" if "a \<in> set held" "b \<in> set held" "le_token a = le_token b" for a b
    using ok that by (auto simp: leases_ok_def distinct_map inj_on_def)
  have dist: "distinct (map le_token (removeAll l held))"
    using ok by (auto simp: leases_ok_def distinct_map inj_on_def distinct_removeAll)
  show ?thesis
  proof (cases "\<exists>d. dc_get c p s = Some d \<and> dict_get d ''token'' = Some (JStr (le_token l))")
    case True
    then obtain d where d: "dc_get c p s = Some d" "dict_get d ''token'' = Some (JStr (le_token l))" by blast
    then have s': "s' = dc_delete c p s" using run p w by (simp add: release_def)
    have "\<not> t < le_expires_at a" if "a \<in> set held" "a \<noteq> l" for a
      using ok that d inj [OF that(1) l] by (auto simp: leases_ok_def on_file_def)
    with ok dist show ?thesis by (auto simp: leases_ok_def s' get_delete)
  next
    case False
    then have s': "s' = s" using run p w by (auto simp: release_def split: option.splits if_splits)
    have "\<not> on_file f l d" if "dc_get c p s = Some d" for d
      using False that by (auto simp: on_file_def)
    with ok dist show ?thesis by (fastforce simp: leases_ok_def s')
  qed
qed

lemma lease_history_ok:
  assumes "\<And>t. iso_parse f (iso_print f t) = Some t" and "lease_path workflow_id = Inr p"
    and "lease_history c f workflow_id p x"
  shows "leases_ok c f workflow_id p x"
  using assms(3)
proof induction
  case (unclaimed s now)
  then show ?case by (simp add: leases_ok_def)
next
  case (granted s t held now token owner s' l)
  from leases_ok_acquire [OF assms(1,2) granted.IH granted.hyps(2,4,3)] show ?case by simp
next
  case (refused s t held now owner token s' e)
  have "leases_ok c f workflow_id p (s, now, held)"
    using refused.IH refused.hyps(2) by (fastforce simp: leases_ok_def)
  moreover have "s' = s"
    using assms(2) refused.hyps(3) by (cases rule: acquire_cases) auto
  ultimately show ?case by simp
next
  case (given_up s t held l s' r)
  from leases_ok_release [OF assms(2) given_up.IH given_up.hyps(2,3)] show ?case .
qed

end

interpretation lease_memory: lease_store memory_client ..

text \<open>C10. Uninterrupted, a lease is exclusive and never stuck. Whatever sequence of acquisitions, refusals and
  releases has happened - by any owners, with a clock that does not go back and tokens that are not
  repeated while they are held - at most one lease that was granted and not given up is live; and an
  acquisition at any later time is refused exactly while such a lease is live.\<close>

theorem live_lease_exclusive:
  fixes c :: "((str, json) dict, 's) document_client"
  assumes "lease_store c" and "\<And>t. iso_parse f (iso_print f t) = Some t"
    and "lease_path workflow_id = Inr p" and "lease_history c f workflow_id p (s, t, held)" and "t \<le> now"
  shows "(\<exists>\<^sub>\<le>\<^sub>1 l. l \<in> set held \<and> \<not> lease_expired t l) \<and>
    (isl (snd (acquire c f workflow_id owner token now s)) \<longleftrightarrow>
       (\<exists>l\<in>set held. \<not> lease_expired now l))"
proof
  note ok = lease_store.lease_history_ok [OF assms(1-4)]
  show "\<exists>\<^sub>\<le>\<^sub>1 l. l \<in> set held \<and> \<not> lease_expired t l"
  proof (rule Uniq_I)
    fix l k assume "l \<in> set held \<and> \<not> lease_expired t l" "k \<in> set held \<and> \<not> lease_expired t k"
    then have l: "l \<in> set held" "t < le_expires_at l" and k: "k \<in> set held" "t < le_expires_at k"
      by (simp_all add: lease_expired_def not_le)
    from ok l obtain d where "dc_get c p s = Some d" "on_file f l d" unfolding leases_ok_def by blast
    moreover from ok k obtain e where "dc_get c p s = Some e" "on_file f k e" unfolding leases_ok_def by blast
    ultimately have "le_token l = le_token k" by (simp add: on_file_def)
    with ok l(1) k(1) show "k = l" by (auto simp: leases_ok_def distinct_map inj_on_def)
  qed
  obtain s' r where run: "acquire c f workflow_id owner token now s = (s', r)" by fastforce
  have "isl r \<longleftrightarrow> (\<exists>d. dc_get c p s = Some d \<and> document_live f now d)"
    by (cases rule: lease_store.acquire_cases [OF assms(1,3) run]) (auto split: option.splits)
  then show "isl (snd (acquire c f workflow_id owner token now s)) \<longleftrightarrow>
      (\<exists>l\<in>set held. \<not> lease_expired now l)"
    using lease_store.leases_ok_live [OF assms(1) ok assms(5)] by (simp add: run lease_expired_def not_le)
qed

text \<open>A clock format that prints and reads back, and what the runs below evaluate to in it.\<close>

definition sample_iso :: iso_format where
  "sample_iso =
     \<lparr>iso_print = (\<lambda>t. (if t < 0 then CHR ''-'' else CHR ''+'') # show_nat (nat \<bar>t\<bar>)),
      iso_parse = (\<lambda>x. case x of [] \<Rightarrow> None
        | a # y \<Rightarrow> Some (if a = CHR ''-'' then - int (read_nat y) else int (read_nat y)))\<rparr>"

lemma sample_iso_reads: "iso_parse sample_iso (iso_print sample_iso t) = Some t"
  by (simp add: sample_iso_def)

lemma sample_lease_path: "lease_path ''wf-1'' = Inr ''resume_leases/wf-1''"
  by code_simp

abbreviation sample_documents :: "datetime \<Rightarrow> (str, (str, json) dict) dict" where
  "sample_documents now \<equiv> fst (acquire memory_client sample_iso ''wf-1'' ''one'' ''t1'' now [])"

lemma sample_granted:
  "acquire memory_client sample_iso ''wf-1'' ''one'' ''t1'' now [] =
     (sample_documents now, Inr (lease_for ''wf-1'' ''one'' ''t1'' now))"
  by (simp add: acquire_def sample_lease_path memory_client_def Let_def)

theorem live_lease_exclusive_witness:
  "isl (snd (acquire memory_client sample_iso ''wf-1'' ''two'' ''t2'' 11 (sample_documents 10))) \<and>
   \<not> isl (snd (acquire memory_client sample_iso ''wf-1'' ''two'' ''t2'' 120000010 (sample_documents 10)))"
proof -
  have "lease_history memory_client sample_iso ''wf-1'' ''resume_leases/wf-1''
      ([] :: (str, (str, json) dict) dict, 9, [])"
    by (rule lease_history.unclaimed) (simp add: memory_client_def)
  from lease_history.granted [OF this _ _ sample_granted [of 10]]
  have h: "lease_history memory_client sample_iso ''wf-1'' ''resume_leases/wf-1''
      (sample_documents 10, 10, [lease_for ''wf-1'' ''one'' ''t1'' 10])" by simp
  have e: "\<not> lease_expired 11 (lease_for ''wf-1'' ''one'' ''t1'' 10)"
    "lease_expired 120000010 (lease_for ''wf-1'' ''one'' ''t1'' 10)"
    by (simp_all add: lease_expired_def lease_for_def lease_ttl_def DEFAULT_LEASE_SECONDS_def)
  note t = live_lease_exclusive [OF lease_memory.lease_store_axioms sample_iso_reads sample_lease_path h,
    of _ "''two''" "''t2''"]
  from t [of 11] t [of 120000010] e show ?thesis by simp
qed

section \<open>Interrupted takeovers\<close>

text \<open>C21. Two takeovers can both succeed. Of two contenders that find an expired lease on file, each holds a
  lease if both read before either overwrites: the overwrite is unconditional. Both leases are live, only
  the second is on file, and the first of the two can then neither be given up nor, until the other
  expires, be acquired again.\<close>

theorem takeover_race:
  fixes c :: "((str, json) dict, 's) document_client"
  assumes "lease_store c" and "\<And>t. iso_parse f (iso_print f t) = Some t"
    and "lease_path workflow_id = Inr p" and "dc_get c p s = Some d" "\<not> document_live f now d"
    and "i \<noteq> j" and "token \<noteq> token'"
  shows "case contend c f workflow_id p
      [TryCreate i owner token now, TryCreate j owner' token' now, ReadHolder i, ReadHolder j,
       Overwrite i, Overwrite j] (s, k) of
    (s', k') \<Rightarrow>
      k' i = Holding (lease_for workflow_id owner token now) \<and>
      k' j = Holding (lease_for workflow_id owner' token' now) \<and>
      \<not> lease_expired now (lease_for workflow_id owner token now) \<and>
      \<not> lease_expired now (lease_for workflow_id owner' token' now) \<and>
      snd (release c (lease_for workflow_id owner token now) s') = Inr False \<and>
      snd (acquire c f workflow_id owner token'' now s') = Inl (LeaseDenied owner')"
proof -
  let ?l1 = "lease_for workflow_id owner token now" and ?l2 = "lease_for workflow_id owner' token' now"
  have ds: "document_store c" using assms(1) by (simp add: lease_store_def)
  note taken = document_store.create_taken [OF ds] and put = document_store.get_set [OF ds]
  have live: "now < now + lease_ttl" by (simp add: lease_ttl_def DEFAULT_LEASE_SECONDS_def)
  define d2 where "d2 = lease_document f now ?l2 @ [(''superseded_owner'', json_or_null ''owner'' d),
    (''superseded_expired_at'', json_or_null ''expires_at'' d)]"
  have t: "takeover_document f now l (Some d) = Some (lease_document f now l @
      [(''superseded_owner'', json_or_null ''owner'' d),
       (''superseded_expired_at'', json_or_null ''expires_at'' d)])" for l
    using assms(5) by (simp add: takeover_document_def)
  define d1 where "d1 = lease_document f now ?l1 @ [(''superseded_owner'', json_or_null ''owner'' d),
    (''superseded_expired_at'', json_or_null ''expires_at'' d)]"
  let ?s = "dc_set c p d2 (dc_set c p d1 s)"
  have run: "contend c f workflow_id p
      [TryCreate i owner token now, TryCreate j owner' token' now, ReadHolder i, ReadHolder j,
       Overwrite i, Overwrite j] (s, k) =
    (?s, (k(i := Holding ?l1))(j := Holding ?l2))"
    using assms(6) taken [OF assms(4)] assms(4)
    by (simp add: contend_def lease_access_step_def Let_def t d1_def d2_def fun_upd_twist)
  have g: "dc_get c p ?s = Some d2" by (simp add: put)
  have tok: "dict_get d2 ''token'' = Some (JStr token')" "dict_get d2 ''owner'' = Some (JStr owner')"
    "document_live f now d2"
    using assms(2) live
    by (simp_all add: d2_def lease_document_def lease_for_def document_live_def document_expiry_def)
  have "snd (release c ?l1 ?s) = Inr False"
    using assms(3,7) g tok(1) by (simp add: release_def lease_for_def)
  moreover have "snd (acquire c f workflow_id owner token'' now ?s) = Inl (LeaseDenied owner')"
    using assms(3) taken [OF g] g tok(2,3)
    by (simp add: acquire_def Let_def takeover_document_def holder_text_def json_or_null_def)
  ultimately show ?thesis using assms(6) live by (simp add: run lease_expired_def lease_for_def)
qed

theorem takeover_race_witness:
  "case contend memory_client sample_iso ''wf-1'' ''resume_leases/wf-1''
      [TryCreate 1 ''two'' ''t2'' 120000010, TryCreate 2 ''three'' ''t3'' 120000010, ReadHolder 1, ReadHolder 2,
       Overwrite 1, Overwrite 2] (sample_documents 10, \<lambda>_. Waiting) of
    (s', k') \<Rightarrow> k' 1 \<noteq> Waiting \<and> k' 2 \<noteq> Waiting \<and>
      snd (release memory_client (lease_for ''wf-1'' ''two'' ''t2'' 120000010) s') = Inr False"
proof -
  let ?l = "lease_for ''wf-1'' ''one'' ''t1'' 10"
  have g: "dc_get memory_client ''resume_leases/wf-1'' (sample_documents 10) = Some (lease_document sample_iso 10 ?l)"
    by (simp add: acquire_def sample_lease_path memory_client_def Let_def)
  have "on_file sample_iso ?l (lease_document sample_iso 10 ?l)"
    by (rule lease_memory.lease_document_on_file(1) [OF sample_iso_reads])
  then have e: "\<not> document_live sample_iso 120000010 (lease_document sample_iso 10 ?l)"
    by (simp add: on_file_def document_live_def lease_for_def lease_ttl_def DEFAULT_LEASE_SECONDS_def)
  have "(1 :: nat) \<noteq> 2" "''t2'' \<noteq> ''t3''" by simp_all
  from takeover_race [OF lease_memory.lease_store_axioms sample_iso_reads sample_lease_path g e this,
      where owner = "''two''" and owner' = "''three''" and token'' = "''t4''"
      and k = "\<lambda>_. Waiting"]
  show ?thesis unfolding split_beta
    by - (elim conjE, simp only: contender.distinct simp_thms not_False_eq_True)
qed

end
