(* ===== verification/Cloud_Store.thy ===== *)
theory Cloud_Store
  imports Documents
begin

text \<open>
  The Firestore adapters (\<open>driftzero_cloud/firestore.py\<close>, \<open>serialization.py\<close>, \<open>composition.py\<close>): workflow
  records with their revision, the action ledger, proofs and idempotency keys, over the document client of
  \<open>Documents\<close>. A document is the value its encoder makes of a record, tagged by its kind; a decoder
  refuses another kind. The versions are the build's own, and dumping and validating a Pydantic record is
  the library's round trip.
\<close>

section \<open>Documents of the adapters\<close>

datatype cloud_document =
    WorkflowDocument workflow_record
  | ActionDocument action_execution
  | ProofDocument change_proof str str
  | KeyDocument str str
  | InputDocument int json
  | SnapshotDocument resume_snapshot

definition WORKFLOWS :: str where "WORKFLOWS = ''workflows''"
definition ACTIONS :: str where "ACTIONS = ''actions''"
definition PROOFS :: str where "PROOFS = ''proofs''"
definition IDEMPOTENCY_KEYS :: str where "IDEMPOTENCY_KEYS = ''idempotency_keys''"

definition decode_workflow_record :: "cloud_document \<Rightarrow> workflow_record cloud" where
  "decode_workflow_record d = (case d of WorkflowDocument r \<Rightarrow> Inr r | _ \<Rightarrow> Inl CloudAdapterError)"

definition decode_action :: "cloud_document \<Rightarrow> action_execution cloud" where
  "decode_action d = (case d of ActionDocument a \<Rightarrow> Inr a | _ \<Rightarrow> Inl CloudAdapterError)"

text \<open>A proof is stored with its canonical bytes and its hash and compared with both when it is read.\<close>

definition encode_proof :: "(datetime \<Rightarrow> str) \<Rightarrow> change_proof \<Rightarrow> cloud_document" where
  "encode_proof isoformat p = ProofDocument p (canonical_json (dump_proof isoformat p)) (cp_content_hash p)"

definition decode_proof :: "(datetime \<Rightarrow> str) \<Rightarrow> cloud_document \<Rightarrow> change_proof cloud" where
  "decode_proof isoformat d =
     (case d of
        ProofDocument p bytes recorded \<Rightarrow>
          if canonical_json (dump_proof isoformat p) \<noteq> bytes then Inl CloudAdapterError
          else if recorded \<noteq> cp_content_hash p then Inl CloudAdapterError
          else Inr p
      | _ \<Rightarrow> Inl CloudAdapterError)"

lemma decode_encoded_proof [simp]: "decode_proof f (encode_proof f p) = Inr p"
  by (simp add: decode_proof_def encode_proof_def)

section \<open>Workflows\<close>

type_synonym 's cloud_client = "(cloud_document, 's) document_client"

definition workflow_path :: "str \<Rightarrow> str cloud" where
  "workflow_path workflow_id =
     cloud_bind (safe_identifier workflow_id) (\<lambda>v. Inr (WORKFLOWS @ CHR ''/'' # v))"

text \<open>\<open>snapshot.to_dict().get("revision", 0)\<close>\<close>

definition stored_revision :: "cloud_document option \<Rightarrow> nat" where
  "stored_revision d = (case d of Some (WorkflowDocument r) \<Rightarrow> wr_revision r | _ \<Rightarrow> 0)"

definition set_workflow ::
  "'s cloud_client \<Rightarrow> str \<Rightarrow> workflow \<Rightarrow> str list \<Rightarrow> nat \<Rightarrow> 's \<Rightarrow> 's" where
  "set_workflow c p w history revision s =
     dc_set c p (WorkflowDocument
       \<lparr>wr_workflow = w, wr_state_history = history, wr_revision = revision\<rparr>) s"

text \<open>The revision of a write that expects none: read first, in a call of its own.\<close>

definition next_revision :: "'s cloud_client \<Rightarrow> str \<Rightarrow> 's \<Rightarrow> nat" where
  "next_revision c p s = stored_revision (dc_get c p s) + 1"

text \<open>\<open>_save_workflow_checked\<close>: the comparison and the write are one transaction.\<close>

definition save_checked ::
  "'s cloud_client \<Rightarrow> str \<Rightarrow> workflow \<Rightarrow> str list \<Rightarrow> nat \<Rightarrow> 's \<Rightarrow> 's \<times> nat cloud" where
  "save_checked c p w history expected s =
     (let current = stored_revision (dc_get c p s)
      in if current \<noteq> expected then (s, Inl (ConflictingRecord p))
         else (set_workflow c p w history (current + 1) s, Inr (current + 1)))"

text \<open>
  \<open>save\<close>, when nothing comes between its accesses. Without an expected revision it overwrites whatever is
  stored; its two accesses are steps of their own in \<open>sink_access_step\<close> below.
\<close>

definition save_workflow ::
  "'s cloud_client \<Rightarrow> workflow \<Rightarrow> str list \<Rightarrow> nat option \<Rightarrow> 's \<Rightarrow> 's \<times> nat cloud" where
  "save_workflow c w history expected s =
     (case workflow_path (wf_workflow_id w) of
        Inl e \<Rightarrow> (s, Inl e)
      | Inr p \<Rightarrow>
          (case expected of
             None \<Rightarrow>
               (let revision = next_revision c p s
                in (set_workflow c p w history revision s, Inr revision))
           | Some r \<Rightarrow> save_checked c p w history r s))"

lemmas save_workflow_simps = save_workflow_def save_checked_def next_revision_def set_workflow_def

definition load_record :: "'s cloud_client \<Rightarrow> str \<Rightarrow> 's \<Rightarrow> workflow_record option cloud" where
  "load_record c workflow_id s =
     cloud_bind (workflow_path workflow_id) (\<lambda>p.
       case dc_get c p s of
         None \<Rightarrow> Inr None
       | Some d \<Rightarrow> cloud_bind (decode_workflow_record d) (\<lambda>r. Inr (Some r)))"

section \<open>The action ledger\<close>

definition actions_path :: "str \<Rightarrow> str cloud" where
  "actions_path workflow_id = cloud_bind (workflow_path workflow_id) (\<lambda>p. Inr (p @ CHR ''/'' # ACTIONS))"

definition action_path :: "str \<Rightarrow> str \<Rightarrow> str cloud" where
  "action_path workflow_id action_id =
     cloud_bind (actions_path workflow_id) (\<lambda>p.
     cloud_bind (safe_identifier action_id) (\<lambda>a. Inr (p @ CHR ''/'' # a)))"

definition save_action :: "'s cloud_client \<Rightarrow> str \<Rightarrow> action_execution \<Rightarrow> 's \<Rightarrow> 's \<times> unit cloud" where
  "save_action c workflow_id a s =
     (if ax_workflow_id a \<noteq> workflow_id then (s, Inl CloudAdapterError)
      else case action_path workflow_id (ax_action_id a) of
             Inl e \<Rightarrow> (s, Inl e)
           | Inr p \<Rightarrow> (dc_set c p (ActionDocument a) s, Inr ()))"

definition get_action :: "'s cloud_client \<Rightarrow> str \<Rightarrow> str \<Rightarrow> 's \<Rightarrow> action_execution option cloud" where
  "get_action c workflow_id action_id s =
     cloud_bind (action_path workflow_id action_id) (\<lambda>p.
       case dc_get c p s of
         None \<Rightarrow> Inr None
       | Some d \<Rightarrow> cloud_bind (decode_action d) (\<lambda>a. Inr (Some a)))"

primrec cloud_list :: "('a \<Rightarrow> 'b cloud) \<Rightarrow> 'a list \<Rightarrow> 'b list cloud" where
  "cloud_list f [] = Inr []"
| "cloud_list f (x # xs) = cloud_bind (f x) (\<lambda>y. cloud_bind (cloud_list f xs) (\<lambda>ys. Inr (y # ys)))"

definition stored_actions :: "'s cloud_client \<Rightarrow> str \<Rightarrow> 's \<Rightarrow> action_execution list cloud" where
  "stored_actions c workflow_id s =
     cloud_bind (actions_path workflow_id) (\<lambda>p. cloud_list decode_action (dc_stream c p s))"

section \<open>Proofs\<close>

definition proofs_path :: "str \<Rightarrow> str cloud" where
  "proofs_path workflow_id = cloud_bind (workflow_path workflow_id) (\<lambda>p. Inr (p @ CHR ''/'' # PROOFS))"

definition proof_path :: "str \<Rightarrow> str \<Rightarrow> str cloud" where
  "proof_path workflow_id proof_id =
     cloud_bind (proofs_path workflow_id) (\<lambda>p.
     cloud_bind (safe_identifier proof_id) (\<lambda>i. Inr (p @ CHR ''/'' # i)))"

text \<open>Recorded once; whether this call created it.\<close>

definition store_proof ::
  "(datetime \<Rightarrow> str) \<Rightarrow> 's cloud_client \<Rightarrow> change_proof \<Rightarrow> 's \<Rightarrow> 's \<times> bool cloud" where
  "store_proof isoformat c proof s =
     (case proof_path (cp_workflow_id proof) (cp_proof_id proof) of
        Inl e \<Rightarrow> (s, Inl e)
      | Inr p \<Rightarrow>
          (case dc_create c p (encode_proof isoformat proof) s of
             Some s' \<Rightarrow> (s', Inr True)
           | None \<Rightarrow>
               (case dc_get c p s of
                  Some (ProofDocument _ bytes _) \<Rightarrow>
                    if bytes \<noteq> canonical_json (dump_proof isoformat proof)
                    then (s, Inl (ConflictingRecord p)) else (s, Inr False)
                | _ \<Rightarrow> (s, Inl (ConflictingRecord p)))))"

definition resolve_proof ::
  "(datetime \<Rightarrow> str) \<Rightarrow> 's cloud_client \<Rightarrow> str \<Rightarrow> str \<Rightarrow> 's \<Rightarrow> change_proof option cloud" where
  "resolve_proof isoformat c workflow_id proof_id s =
     cloud_bind (proof_path workflow_id proof_id) (\<lambda>p.
       case dc_get c p s of
         None \<Rightarrow> Inr None
       | Some d \<Rightarrow> cloud_bind (decode_proof isoformat d) (\<lambda>x. Inr (Some x)))"

definition stored_proof_of ::
  "(datetime \<Rightarrow> str) \<Rightarrow> 's cloud_client \<Rightarrow> str \<Rightarrow> 's \<Rightarrow> change_proof option cloud" where
  "stored_proof_of isoformat c workflow_id s =
     cloud_bind (proofs_path workflow_id) (\<lambda>p.
       case dc_stream c p s of
         [] \<Rightarrow> Inr None
       | d # _ \<Rightarrow> cloud_bind (decode_proof isoformat d) (\<lambda>x. Inr (Some x)))"

section \<open>Idempotency keys\<close>

definition key_path :: "str \<Rightarrow> str cloud" where
  "key_path key = cloud_bind (safe_identifier key) (\<lambda>k. Inr (IDEMPOTENCY_KEYS @ CHR ''/'' # k))"

definition stored_owner :: "cloud_document option \<Rightarrow> str option" where
  "stored_owner d = (case d of Some (KeyDocument _ owner) \<Rightarrow> Some owner | _ \<Rightarrow> None)"

text \<open>Whether the call took the key; the owner's own repetition is no error.\<close>

definition claim_key :: "'s cloud_client \<Rightarrow> str \<Rightarrow> str \<Rightarrow> 's \<Rightarrow> 's \<times> bool cloud" where
  "claim_key c key owner s =
     (case key_path key of
        Inl e \<Rightarrow> (s, Inl e)
      | Inr p \<Rightarrow>
          (case dc_create c p (KeyDocument key owner) s of
             Some s' \<Rightarrow> (s', Inr True)
           | None \<Rightarrow>
               if stored_owner (dc_get c p s) = Some owner then (s, Inr False)
               else (s, Inl (ConflictingRecord p))))"

definition owner_of :: "'s cloud_client \<Rightarrow> str \<Rightarrow> 's \<Rightarrow> str option cloud" where
  "owner_of c key s = cloud_bind (key_path key) (\<lambda>p. Inr (stored_owner (dc_get c p s)))"

section \<open>The sink\<close>

text \<open>\<open>FirestoreSink\<close>: the revisions this process wrote, by workflow.\<close>

type_synonym sink_revisions = "(str, nat) dict"

definition RESUME_SNAPSHOTS :: str where "RESUME_SNAPSHOTS = ''resume_snapshots''"

definition snapshot_path :: "str \<Rightarrow> str cloud" where
  "snapshot_path workflow_id =
     cloud_bind (safe_identifier workflow_id) (\<lambda>v. Inr (RESUME_SNAPSHOTS @ CHR ''/'' # v))"

definition record_workflow ::
  "'s cloud_client \<Rightarrow> workflow \<Rightarrow> workflow_state list \<Rightarrow> sink_revisions \<times> 's \<Rightarrow>
     (sink_revisions \<times> 's) \<times> unit cloud" where
  "record_workflow c w history ks =
     (let (k, s) = ks
      in case save_workflow c w (map workflow_state_value history) (dict_get k (wf_workflow_id w)) s of
           (s', Inl e) \<Rightarrow> ((k, s'), Inl e)
         | (s', Inr revision) \<Rightarrow> ((dict_put (wf_workflow_id w) revision k, s'), Inr ()))"

text \<open>
  Several processes write workflows through a sink of their own, each one call at a time. A write under a
  remembered revision is one transaction; a first write reads the document in one step and sets it in
  another, and anything may come between the two.
\<close>

record sink_process =
  fs_revisions :: sink_revisions
  fs_begun :: "(str \<times> workflow \<times> str list \<times> nat) option"

datatype sink_access =
    BeginSave nat workflow "workflow_state list"
  | FinishSave nat

definition sink_access_step ::
  "'s cloud_client \<Rightarrow> 's \<times> (nat \<Rightarrow> sink_process) \<Rightarrow> sink_access \<Rightarrow> 's \<times> (nat \<Rightarrow> sink_process)" where
  "sink_access_step c sk a =
     (let (s, procs) = sk
      in case a of
           BeginSave i w history \<Rightarrow>
             (case fs_begun (procs i) of
                Some _ \<Rightarrow> sk
              | None \<Rightarrow>
                  (case workflow_path (wf_workflow_id w) of
                     Inl _ \<Rightarrow> sk
                   | Inr p \<Rightarrow>
                       (case dict_get (fs_revisions (procs i)) (wf_workflow_id w) of
                          None \<Rightarrow>
                            (s, procs(i := (procs i)\<lparr>fs_begun :=
                               Some (p, w, map workflow_state_value history, next_revision c p s)\<rparr>))
                        | Some r \<Rightarrow>
                            (case save_checked c p w (map workflow_state_value history) r s of
                               (s', Inl _) \<Rightarrow> (s', procs)
                             | (s', Inr revision) \<Rightarrow>
                                 (s', procs(i := (procs i)\<lparr>fs_revisions :=
                                    dict_put (wf_workflow_id w) revision (fs_revisions (procs i))\<rparr>))))))
         | FinishSave i \<Rightarrow>
             (case fs_begun (procs i) of
                None \<Rightarrow> sk
              | Some (p, w, history, revision) \<Rightarrow>
                  (set_workflow c p w history revision s,
                   procs(i := \<lparr>fs_revisions = dict_put (wf_workflow_id w) revision (fs_revisions (procs i)),
                               fs_begun = None\<rparr>))))"

text \<open>\<open>record_workflow\<close> is its accesses with nothing between them.\<close>

lemma record_workflow_uninterrupted:
  assumes "record_workflow c w history (fs_revisions (procs i), s) = ((k, s'), r)"
    and "fs_begun (procs i) = None"
  shows "foldl (sink_access_step c) (s, procs) [BeginSave i w history, FinishSave i] =
    (s', procs(i := \<lparr>fs_revisions = k, fs_begun = None\<rparr>))"
proof -
  have same: "procs i = \<lparr>fs_revisions = fs_revisions (procs i), fs_begun = None\<rparr>"
    using assms(2) by simp
  show ?thesis
    using assms same
    by (cases "workflow_path (wf_workflow_id w)"; cases "dict_get (fs_revisions (procs i)) (wf_workflow_id w)")
      (auto simp: sink_access_step_def record_workflow_def save_workflow_def Let_def fun_upd_idem
        split: prod.splits sum.splits)
qed

definition record_session ::
  "'s cloud_client \<Rightarrow> str \<Rightarrow> session \<Rightarrow> sink_revisions \<times> 's \<Rightarrow> (sink_revisions \<times> 's) \<times> unit cloud" where
  "record_session c workflow_id session ks =
     (case snapshot_path workflow_id of
        Inl e \<Rightarrow> (ks, Inl e)
      | Inr p \<Rightarrow> ((fst ks, dc_set c p (SnapshotDocument (encode_snapshot session)) (snd ks)), Inr ()))"

definition record_action ::
  "'s cloud_client \<Rightarrow> action_execution \<Rightarrow> sink_revisions \<times> 's \<Rightarrow> (sink_revisions \<times> 's) \<times> unit cloud" where
  "record_action c a ks =
     (case save_action c (ax_workflow_id a) a (snd ks) of (s, r) \<Rightarrow> ((fst ks, s), r))"

text \<open>\<open>_persist\<close> of the service through this sink; the first write that raises ends it.\<close>

primrec record_actions ::
  "'s cloud_client \<Rightarrow> action_execution list \<Rightarrow> sink_revisions \<times> 's \<Rightarrow> (sink_revisions \<times> 's) \<times> unit cloud" where
  "record_actions c [] ks = (ks, Inr ())"
| "record_actions c (a # as) ks =
     (case record_action c a ks of
        (ks', Inl e) \<Rightarrow> (ks', Inl e)
      | (ks', Inr _) \<Rightarrow> record_actions c as ks')"

definition flush_session ::
  "'s cloud_client \<Rightarrow> session \<Rightarrow> sink_revisions \<times> 's \<Rightarrow> (sink_revisions \<times> 's) \<times> unit cloud" where
  "flush_session c session ks =
     (case record_workflow c (sn_workflow session) (sn_state_history session) ks of
        (ks1, Inl e) \<Rightarrow> (ks1, Inl e)
      | (ks1, Inr _) \<Rightarrow>
          (case record_actions c (all_records (sn_ledger session)) ks1 of
             (ks2, Inl e) \<Rightarrow> (ks2, Inl e)
           | (ks2, Inr _) \<Rightarrow> record_session c (workflow_id_of session) session ks2))"

text \<open>What \<open>_rehydrate\<close> reads back.\<close>

definition load_records :: "'s cloud_client \<Rightarrow> str \<Rightarrow> 's \<Rightarrow> durable_records option cloud" where
  "load_records c workflow_id s =
     cloud_bind (load_record c workflow_id s) (\<lambda>r.
       case r of
         None \<Rightarrow> Inr None
       | Some rec \<Rightarrow>
           cloud_bind (stored_actions c workflow_id s) (\<lambda>actions.
           cloud_bind (snapshot_path workflow_id) (\<lambda>p.
             case dc_get c p s of
               None \<Rightarrow> Inr (Some \<lparr>dr_record = rec, dr_actions = actions, dr_snapshot = None\<rparr>)
             | Some (SnapshotDocument d) \<Rightarrow>
                 Inr (Some \<lparr>dr_record = rec, dr_actions = actions, dr_snapshot = Some d\<rparr>)
             | Some _ \<Rightarrow> Inl CloudAdapterError)))"

end
