(* ===== verification/Workflows.thy ===== *)
theory Workflows
  imports Cloud_Store
begin

text \<open>
  The fixture loader and the process-local registry (\<open>driftzero_console/workflows.py\<close>). A payload is a
  parsed JSON object; the fixture directory is the list of its documents in the order of their file
  names, \<open>None\<close> for one that cannot be read or parsed. The text \<open>str\<close> gives a value that is no string
  is a parameter. The records built here hold strings: a document or payload that has another value in
  such a place is answered with the validation error Pydantic gives it later on. Values of different
  JSON types are unequal here, where Python equates \<open>True\<close> and \<open>1\<close>.
\<close>

section \<open>Payloads\<close>

type_synonym fixture_dir = "json option list"

datatype fixture_error = FixtureRejected str | FixtureRaised exn

type_synonym 'a fixture = "fixture_error + 'a"

definition fixture_bind :: "'a fixture \<Rightarrow> ('a \<Rightarrow> 'b fixture) \<Rightarrow> 'b fixture" where
  "fixture_bind r f = (case r of Inl e \<Rightarrow> Inl e | Inr x \<Rightarrow> f x)"

lemma fixture_bind_Inr_iff [simp]: "fixture_bind r f = Inr y \<longleftrightarrow> (\<exists>x. r = Inr x \<and> f x = Inr y)"
  by (cases r) (simp_all add: fixture_bind_def)

definition raising :: "'a res \<Rightarrow> 'a fixture" where
  "raising r = (case r of Inl e \<Rightarrow> Inl (FixtureRaised e) | Inr x \<Rightarrow> Inr x)"

lemma raising_Inr_iff [simp]: "raising r = Inr x \<longleftrightarrow> r = Inr x"
  by (cases r) (simp_all add: raising_def)

definition FORBIDDEN_FIXTURE_KEYS :: "str list" where
  "FORBIDDEN_FIXTURE_KEYS =
     [''affected_artifact_id'', ''qualified_target'', ''authorization'', ''authorized'', ''workflow_state'',
      ''state'', ''verification_result'', ''verdict'', ''observed_value'', ''proof_id'', ''proof_hash'',
      ''content_hash'', ''change_deployed'', ''impact'', ''candidate_affected_artifacts'']"

definition ALLOWED_FIXTURE_KEYS :: "str list" where
  "ALLOWED_FIXTURE_KEYS =
     [''change_id'', ''source_procedure_id'', ''source_version'', ''previous_version'', ''operation_id'',
      ''requirement_id'', ''previous_value'', ''current_value'', ''authorized_scope'', ''approved_status'',
      ''source_evidence_ref'', ''received_at'']"

definition REQUIRED_FIXTURE_KEYS :: "str list" where
  "REQUIRED_FIXTURE_KEYS = [''change_id'', ''source_procedure_id'', ''source_version'', ''previous_version'']"

text \<open>\<open>str(value)\<close>\<close>

definition py_str :: "(json \<Rightarrow> str) \<Rightarrow> json \<Rightarrow> str" where
  "py_str render v = (case v of JStr s \<Rightarrow> s | _ \<Rightarrow> render v)"

definition metadata_key :: "str \<Rightarrow> bool" where
  "metadata_key k \<longleftrightarrow> (case k of [] \<Rightarrow> False | a # _ \<Rightarrow> a = CHR ''_'')"

definition meaningful :: "payload \<Rightarrow> payload" where
  "meaningful p = filter (\<lambda>(k, _). \<not> metadata_key k) p"

definition validate_fixture :: "(json \<Rightarrow> str) \<Rightarrow> payload \<Rightarrow> payload fixture" where
  "validate_fixture render p =
     (let m = meaningful p
      in if list_ex (\<lambda>k. k \<in> set FORBIDDEN_FIXTURE_KEYS) (dict_keys m)
           then Inl (FixtureRejected ''a source change may not carry a conclusion'')
         else if list_ex (\<lambda>k. k \<notin> set ALLOWED_FIXTURE_KEYS) (dict_keys m)
           then Inl (FixtureRejected ''unrecognised fixture fields'')
         else case List.find (\<lambda>k. blank (py_str render (json_default k (JStr '''') m))) REQUIRED_FIXTURE_KEYS of
                Some k \<Rightarrow> Inl (FixtureRejected (k @ '' is required''))
              | None \<Rightarrow> Inr m)"

section \<open>Source versions\<close>

text \<open>\<open>dict(requirements)\<close>, whose values are texts.\<close>

definition text_item :: "str \<times> json \<Rightarrow> (str \<times> str) res" where
  "text_item kv = res_bind (json_text_of (snd kv)) (\<lambda>v. Inr (fst kv, v))"

definition text_dict :: "json \<Rightarrow> (str, str) dict res" where
  "text_dict j = res_bind (json_dict j) (res_list text_item)"

text \<open>\<open>(body or {}).get("requirements")\<close> when it is a dictionary.\<close>

definition body_requirements :: "json \<Rightarrow> json option res" where
  "body_requirements body =
     (if \<not> json_truthy (Some body) then Inr None
      else res_bind (json_dict body) (\<lambda>b.
        Inr (case dict_get b ''requirements'' of Some (JObj r) \<Rightarrow> Some (JObj r) | _ \<Rightarrow> None)))"

text \<open>The first operation of a document that has requirements.\<close>

fun described_operation :: "(str, json) dict \<Rightarrow> (str \<times> json) option res" where
  "described_operation [] = Inr None"
| "described_operation ((operation_id, body) # rest) =
     res_bind (body_requirements body) (\<lambda>r.
       case r of Some requirements \<Rightarrow> Inr (Some (operation_id, requirements))
               | None \<Rightarrow> described_operation rest)"

definition version_of :: "str \<Rightarrow> str \<Rightarrow> payload \<Rightarrow> str \<times> json \<Rightarrow> source_version res" where
  "version_of source_procedure_id version raw operation =
     res_bind (json_text_of (json_default ''title'' (JStr source_procedure_id) raw)) (\<lambda>title.
     res_bind (text_dict (snd operation)) (\<lambda>requirements. Inr
       \<lparr>sv_source_procedure_id = source_procedure_id, sv_version = version,
        sv_operation_id = fst operation, sv_title = title, sv_requirements = requirements,
        sv_notes = [], sv_effective_from = None\<rparr>))"

text \<open>What one document adds to the versions found so far; a later document replaces an earlier one.\<close>

definition scan_document ::
  "str \<Rightarrow> str list \<Rightarrow> (str, source_version) dict \<Rightarrow> json option \<Rightarrow> (str, source_version) dict res" where
  "scan_document source_procedure_id versions found document =
     (case document of
        Some (JObj raw) \<Rightarrow>
          if dict_get raw ''source_procedure_id'' \<noteq> Some (JStr source_procedure_id) then Inr found
          else
            (case (dict_get raw ''operations'', dict_get raw ''source_version'') of
               (Some (JObj operations), Some (JStr version)) \<Rightarrow>
                 if version \<notin> set versions then Inr found
                 else res_bind (described_operation operations) (\<lambda>operation.
                   case operation of
                     None \<Rightarrow> Inr found
                   | Some o' \<Rightarrow> res_bind (version_of source_procedure_id version raw o') (\<lambda>v.
                       Inr (dict_put version v found)))
             | _ \<Rightarrow> Inr found)
      | _ \<Rightarrow> Inr found)"

fun scan_documents ::
  "str \<Rightarrow> str list \<Rightarrow> (str, source_version) dict \<Rightarrow> fixture_dir \<Rightarrow> (str, source_version) dict res" where
  "scan_documents source_procedure_id versions found [] = Inr found"
| "scan_documents source_procedure_id versions found (d # ds) =
     res_bind (scan_document source_procedure_id versions found d) (\<lambda>found'.
       scan_documents source_procedure_id versions found' ds)"

definition load_source_versions ::
  "fixture_dir \<Rightarrow> str \<Rightarrow> str \<Rightarrow> str \<Rightarrow> (source_version \<times> source_version) fixture" where
  "load_source_versions directory source_procedure_id previous_version version =
     fixture_bind (raising (scan_documents source_procedure_id [previous_version, version] [] directory))
       (\<lambda>found.
         case (dict_get found previous_version, dict_get found version) of
           (Some p, Some c) \<Rightarrow> Inr (p, c)
         | _ \<Rightarrow> Inl (FixtureRejected (''no source procedure document found for '' @ source_procedure_id)))"

section \<open>The catalog\<close>

definition has_keys :: "str list \<Rightarrow> payload \<Rightarrow> bool" where
  "has_keys ks d \<longleftrightarrow> list_all (\<lambda>k. dict_get d k \<noteq> None) ks"

definition json_flag :: "json \<Rightarrow> bool res" where
  "json_flag j = (case j of JBool b \<Rightarrow> Inr b | _ \<Rightarrow> Inl ValidationError)"

definition artifact_of :: "str \<Rightarrow> payload \<Rightarrow> downstream_artifact res" where
  "artifact_of artifact_id entry =
     res_bind (json_text_of (json_default ''artifact_type'' (JStr ''work_instruction'') entry)) (\<lambda>artifact_type.
     res_bind (res_bind (json_item ''operation_id'' entry) json_text_of) (\<lambda>operation_id.
     res_bind (res_bind (json_item ''requirement_id'' entry) json_text_of) (\<lambda>requirement_id.
     res_bind (res_bind (json_item ''current_value'' entry) json_text_of) (\<lambda>current_value.
     res_bind (json_text_of (json_default ''content_ref'' (JStr (''local://artifacts/'' @ artifact_id)) entry))
       (\<lambda>content_ref.
     res_bind (json_flag (json_default ''authorized_for_remediation'' (JBool False) entry)) (\<lambda>authorized.
     res_bind (res_bind (json_item ''requirements'' entry) text_dict) (\<lambda>requirements.
       validated valid_artifact
         \<lparr>da_artifact_id = artifact_id, da_artifact_type = artifact_type, da_operation_id = operation_id,
          da_requirement_id = requirement_id, da_current_value = current_value,
          da_content_ref = content_ref, da_authorized_for_remediation = authorized,
          da_requirements = requirements, da_data_classification = classification\<rparr>)))))))"

text \<open>The entries a document offers: its list of artifacts, or itself.\<close>

definition catalog_candidates :: "json option \<Rightarrow> json list" where
  "catalog_candidates document =
     (case document of
        None \<Rightarrow> []
      | Some (JObj raw) \<Rightarrow> (case dict_get raw ''artifacts'' of Some (JArr xs) \<Rightarrow> xs | _ \<Rightarrow> [JObj raw])
      | Some raw \<Rightarrow> [raw])"

definition add_entry :: "downstream_artifact list \<Rightarrow> json \<Rightarrow> downstream_artifact list res" where
  "add_entry artifacts j =
     (case j of
        JObj entry \<Rightarrow>
          if \<not> has_keys [''artifact_id'', ''requirements'', ''operation_id''] entry then Inr artifacts
          else res_bind (res_bind (json_item ''artifact_id'' entry) json_text_of) (\<lambda>artifact_id.
            if artifact_id \<in> da_artifact_id ` set artifacts then Inr artifacts
            else res_bind (artifact_of artifact_id entry) (\<lambda>a. Inr (artifacts @ [a])))
      | _ \<Rightarrow> Inr artifacts)"

fun add_entries :: "downstream_artifact list \<Rightarrow> json list \<Rightarrow> downstream_artifact list res" where
  "add_entries artifacts [] = Inr artifacts"
| "add_entries artifacts (j # js) = res_bind (add_entry artifacts j) (\<lambda>as. add_entries as js)"

definition load_catalog :: "fixture_dir \<Rightarrow> str \<Rightarrow> artifact_catalog fixture" where
  "load_catalog directory operation_id =
     fixture_bind (raising (add_entries [] (concat (map catalog_candidates directory)))) (\<lambda>artifacts.
       if artifacts = [] then Inl (FixtureRejected ''no downstream artifacts found beside the fixture'')
       else Inr \<lparr>ct_catalog_id = ''fixture:'' @ operation_id, ct_artifacts = artifacts\<rparr>)"

section \<open>The dataset\<close>

definition payload_text :: "str \<Rightarrow> payload \<Rightarrow> str fixture" where
  "payload_text k p = raising (res_bind (json_item k p) json_text_of)"

definition dataset_from_fixture :: "(json \<Rightarrow> str) \<Rightarrow> fixture_dir \<Rightarrow> payload \<Rightarrow> pilot_dataset fixture" where
  "dataset_from_fixture render directory p =
     fixture_bind (validate_fixture render p) (\<lambda>fixture.
     fixture_bind (payload_text ''source_procedure_id'' fixture) (\<lambda>source_procedure_id.
     fixture_bind (payload_text ''previous_version'' fixture) (\<lambda>previous_version.
     fixture_bind (payload_text ''source_version'' fixture) (\<lambda>version.
     fixture_bind (load_source_versions directory source_procedure_id previous_version version)
       (\<lambda>(previous, current).
     fixture_bind (load_catalog directory (sv_operation_id current)) (\<lambda>catalog.
       case json_default ''authorized_scope'' (JArr []) fixture of
         JArr (x # xs) \<Rightarrow>
           fixture_bind (payload_text ''change_id'' fixture) (\<lambda>change_id. Inr
             \<lparr>pd_change_id = change_id, pd_source_name = sv_title current, pd_previous = previous,
              pd_current = current, pd_catalog = catalog,
              pd_authorized_scope = map (py_str render) (x # xs),
              pd_approved_status = py_str render (json_default ''approved_status'' (JStr ''APPROVED'') fixture)\<rparr>)
       | _ \<Rightarrow> Inl (FixtureRejected ''authorized_scope must be a non-empty list'')))))))"

section \<open>The registry\<close>

text \<open>\<open>_services\<close>: a live service is the session it holds.\<close>

type_synonym registry = "(str, session) dict"

definition register_service :: "session \<Rightarrow> registry \<Rightarrow> registry \<times> str" where
  "register_service s r = (dict_put (workflow_id_of s) s r, workflow_id_of s)"

text \<open>\<open>get\<close>: \<open>None\<close> is \<open>UnknownWorkflow\<close>.\<close>

definition registry_get :: "str \<Rightarrow> registry \<Rightarrow> session option" where
  "registry_get workflow_id r = dict_get r workflow_id"

definition registered_ids :: "registry \<Rightarrow> str list" where
  "registered_ids r = dict_keys r"

end
