(* ===== verification/Runtime.thy ===== *)
theory Runtime
  imports Workflows Leases Resume_Properties
begin

text \<open>
  The runtime both transports share (\<open>driftzero_api/runtime.py\<close>): accepting a change, reading a
  workflow, resuming it in another process. One \<open>process\<close> is an \<open>ApiRuntime\<close>; several share the durable
  store. The writes a live session makes while it is driven are in the log of the session.
\<close>

section \<open>Processes\<close>

record ('s, 't) api_env =
  ae_pf :: platform
  ae_render :: "json \<Rightarrow> str"
  ae_directory :: fixture_dir
  ae_client :: "'s cloud_client"
  ae_leases :: "((str, json) dict, 't) document_client"
  ae_iso :: iso_format

record process =
  rt_durable :: bool
  rt_namespace :: str
  rt_instance :: str
  rt_sequence :: nat
  rt_services :: registry
  rt_leases_held :: "(str, lease) dict"
  rt_known_changes :: "(str, str) dict"
  rt_revisions :: sink_revisions

definition new_process :: "bool \<Rightarrow> str \<Rightarrow> str \<Rightarrow> process" where
  "new_process durable namespace instance_id =
     \<lparr>rt_durable = durable, rt_namespace = namespace, rt_instance = instance_id, rt_sequence = 0,
      rt_services = [], rt_leases_held = [], rt_known_changes = [], rt_revisions = []\<rparr>"

datatype api_error =
    WorkflowNotFound str | NotResumable str str | ResumeHeldElsewhere str str
  | ApiFixture fixture_error | ApiCloud cloud_error

type_synonym 'a api = "api_error + 'a"

definition api_bind :: "'a api \<Rightarrow> ('a \<Rightarrow> 'b api) \<Rightarrow> 'b api" where
  "api_bind r f = (case r of Inl e \<Rightarrow> Inl e | Inr x \<Rightarrow> f x)"

lemma api_bind_Inr_iff [simp]: "api_bind r f = Inr y \<longleftrightarrow> (\<exists>x. r = Inr x \<and> f x = Inr y)"
  by (cases r) (simp_all add: api_bind_def)

definition of_cloud :: "'a cloud \<Rightarrow> 'a api" where
  "of_cloud r = (case r of Inl e \<Rightarrow> Inl (ApiCloud e) | Inr x \<Rightarrow> Inr x)"

lemma of_cloud_Inr_iff [simp]: "of_cloud r = Inr x \<longleftrightarrow> r = Inr x"
  by (cases r) (simp_all add: of_cloud_def)

definition of_fixture :: "'a fixture \<Rightarrow> 'a api" where
  "of_fixture r = (case r of Inl e \<Rightarrow> Inl (ApiFixture e) | Inr x \<Rightarrow> Inr x)"

lemma of_fixture_Inr_iff [simp]: "of_fixture r = Inr x \<longleftrightarrow> r = Inr x"
  by (cases r) (simp_all add: of_fixture_def)

section \<open>Reading\<close>

definition durable_record :: "('s, 't) api_env \<Rightarrow> process \<Rightarrow> str \<Rightarrow> 's \<Rightarrow> workflow_record option api" where
  "durable_record e p workflow_id s =
     (if \<not> rt_durable p then Inr None else of_cloud (load_record (ae_client e) workflow_id s))"

text \<open>\<open>_resume_snapshot\<close>; a document of another kind has none of the fields that are read from it.\<close>

definition stored_snapshot :: "('s, 't) api_env \<Rightarrow> process \<Rightarrow> str \<Rightarrow> 's \<Rightarrow> resume_snapshot option api" where
  "stored_snapshot e p workflow_id s =
     (if \<not> rt_durable p then Inr None
      else of_cloud (cloud_bind (snapshot_path workflow_id) (\<lambda>q. Inr
        (case dc_get (ae_client e) q s of Some (SnapshotDocument d) \<Rightarrow> Some d | _ \<Rightarrow> None))))"

record workflow_status =
  ws_workflow :: workflow
  ws_state_history :: "str list"
  ws_live :: bool
  ws_durable :: bool
  ws_delta :: "delta_instruction option"
  ws_delivery_established :: bool

definition established :: "delivery_boundary_result option \<Rightarrow> bool" where
  "established d = (case d of None \<Rightarrow> False | Some b \<Rightarrow> db_delivery_established b)"

definition status :: "('s, 't) api_env \<Rightarrow> process \<Rightarrow> str \<Rightarrow> 's \<Rightarrow> workflow_status api" where
  "status e p workflow_id s =
     (case dict_get (rt_services p) workflow_id of
        Some session \<Rightarrow> Inr
          \<lparr>ws_workflow = sn_workflow session,
           ws_state_history = map workflow_state_value (sn_state_history session), ws_live = True,
           ws_durable = rt_durable p, ws_delta = sn_delta session,
           ws_delivery_established = established (sn_delivery session)\<rparr>
      | None \<Rightarrow>
          api_bind (durable_record e p workflow_id s) (\<lambda>record.
            case record of
              None \<Rightarrow> Inl (WorkflowNotFound workflow_id)
            | Some r \<Rightarrow> api_bind (stored_snapshot e p workflow_id s) (\<lambda>snapshot. Inr
                \<lparr>ws_workflow = wr_workflow r, ws_state_history = wr_state_history r, ws_live = False,
                 ws_durable = True, ws_delta = Option.bind snapshot rs_delta,
                 ws_delivery_established = established (Option.bind snapshot rs_delivery)\<rparr>)))"

text \<open>\<open>proof_document\<close>: one shape, wherever the proof is read from.\<close>

record proof_document =
  pd_proof_ref :: str
  pd_content_hash :: str
  pd_canonical_json :: str
  pd_document :: json

definition live_proof_document :: "(datetime \<Rightarrow> str) \<Rightarrow> session \<Rightarrow> proof_document option" where
  "live_proof_document isoformat s =
     map_option (\<lambda>x. \<lparr>pd_proof_ref = sp_proof_ref x, pd_content_hash = sp_content_hash x,
                      pd_canonical_json = sp_canonical_bytes x,
                      pd_document = dump_proof isoformat (sp_proof x)\<rparr>)
       (find_workflow (workflow_id_of s) (sn_proof_store s))"

definition proof_document_of :: "(datetime \<Rightarrow> str) \<Rightarrow> change_proof \<Rightarrow> proof_document" where
  "proof_document_of isoformat p =
     \<lparr>pd_proof_ref = proof_ref (cp_proof_id p), pd_content_hash = cp_content_hash p,
      pd_canonical_json = canonical_json (dump_proof isoformat p), pd_document = dump_proof isoformat p\<rparr>"

definition read_proof_document :: "('s, 't) api_env \<Rightarrow> process \<Rightarrow> str \<Rightarrow> 's \<Rightarrow> proof_document option api" where
  "read_proof_document e p workflow_id s =
     (let iso = pf_isoformat (ae_pf e);
          service = dict_get (rt_services p) workflow_id
      in case Option.bind service (live_proof_document iso) of
           Some d \<Rightarrow> Inr (Some d)
         | None \<Rightarrow>
             api_bind (if rt_durable p then of_cloud (stored_proof_of iso (ae_client e) workflow_id s) else Inr None)
               (\<lambda>x. case x of
                  Some proof \<Rightarrow> Inr (Some (proof_document_of iso proof))
                | None \<Rightarrow>
                    if service \<noteq> None then Inr None
                    else api_bind (durable_record e p workflow_id s) (\<lambda>r.
                      if r = None then Inl (WorkflowNotFound workflow_id) else Inr None)))"

section \<open>Accepting a change\<close>

definition CHANGE_KEY_PREFIX :: str where
  "CHANGE_KEY_PREFIX = ''change''"

definition change_key :: "str \<Rightarrow> str" where
  "change_key change_id = CHANGE_KEY_PREFIX @ CHR ''-'' # change_id"

definition durable_owner :: "('s, 't) api_env \<Rightarrow> process \<Rightarrow> str \<Rightarrow> 's \<Rightarrow> str option api" where
  "durable_owner e p change_id s =
     (if \<not> rt_durable p then Inr None else of_cloud (owner_of (ae_client e) (change_key change_id) s))"

text \<open>\<open>_ChangeIdProbe\<close>: of an approved change, \<open>classify_change_event\<close> reads the id alone.\<close>

definition change_id_probe :: "str \<Rightarrow> approved_change" where
  "change_id_probe change_id =
     \<lparr>ac_change_id = change_id, ac_source_procedure_id = [], ac_source_version = [],
      ac_previous_version = [], ac_operation_id = [], ac_requirement_id = [], ac_previous_value = [],
      ac_current_value = [], ac_authorized_scope = [], ac_approved_status = [],
      ac_source_evidence_ref = [], ac_received_at = 0, ac_data_classification = classification\<rparr>"

definition classify_change :: "('s, 't) api_env \<Rightarrow> process \<Rightarrow> str \<Rightarrow> 's \<Rightarrow> change_event_decision api" where
  "classify_change e p change_id s =
     api_bind (durable_owner e p change_id s) (\<lambda>owner. Inr
       (classify_change_event (change_id_probe change_id)
         (case owner of None \<Rightarrow> rt_known_changes p
                      | Some w \<Rightarrow> dict_put change_id w (rt_known_changes p))))"

record acceptance =
  an_workflow_id :: str
  an_state :: workflow_state
  an_duplicate_of :: "str option"
  an_outcome :: change_event_outcome

definition WORKFLOW_INPUTS :: str where "WORKFLOW_INPUTS = ''workflow_inputs''"
definition INPUT_SCHEMA_VERSION :: int where "INPUT_SCHEMA_VERSION = 1"

definition input_path :: "str \<Rightarrow> str cloud" where
  "input_path workflow_id =
     cloud_bind (safe_identifier workflow_id) (\<lambda>v. Inr (WORKFLOW_INPUTS @ CHR ''/'' # v))"

text \<open>The three writes of a new workflow, each skipped without durable storage.\<close>

definition write_workflow ::
  "('s, 't) api_env \<Rightarrow> workflow \<Rightarrow> process \<times> 's \<Rightarrow> (process \<times> 's) \<times> unit api" where
  "write_workflow e w ps =
     (let (p, s) = ps
      in if \<not> rt_durable p then (ps, Inr ())
         else case record_workflow (ae_client e) w [] (rt_revisions p, s) of
                ((k, s'), r) \<Rightarrow> ((p\<lparr>rt_revisions := k\<rparr>, s'), of_cloud r))"

definition record_input ::
  "('s, 't) api_env \<Rightarrow> str \<Rightarrow> payload \<Rightarrow> process \<times> 's \<Rightarrow> (process \<times> 's) \<times> unit api" where
  "record_input e workflow_id payload ps =
     (let (p, s) = ps
      in if \<not> rt_durable p then (ps, Inr ())
         else case input_path workflow_id of
                Inl x \<Rightarrow> (ps, Inl (ApiCloud x))
              | Inr q \<Rightarrow>
                  ((p, dc_set (ae_client e) q (InputDocument INPUT_SCHEMA_VERSION (JObj payload)) s), Inr ()))"

definition claim_change ::
  "('s, 't) api_env \<Rightarrow> str \<Rightarrow> str \<Rightarrow> process \<times> 's \<Rightarrow> (process \<times> 's) \<times> unit api" where
  "claim_change e change_id workflow_id ps =
     (let (p, s) = ps;
          p' = p\<lparr>rt_known_changes := dict_put change_id workflow_id (rt_known_changes p)\<rparr>
      in if \<not> rt_durable p then ((p', s), Inr ())
         else case claim_key (ae_client e) (change_key change_id) workflow_id s of
                (s', r) \<Rightarrow> ((p', s'), api_bind (of_cloud r) (\<lambda>_. Inr ())))"

text \<open>One step after another until one raises.\<close>

definition and_then ::
  "('x \<Rightarrow> 'x \<times> unit api) \<Rightarrow> ('x \<Rightarrow> 'x \<times> unit api) \<Rightarrow> 'x \<Rightarrow> 'x \<times> unit api" where
  "and_then f g x = (case f x of (y, Inl e) \<Rightarrow> (y, Inl e) | (y, Inr _) \<Rightarrow> g y)"

definition open_workflow ::
  "('s, 't) api_env \<Rightarrow> payload \<Rightarrow> pilot_dataset \<Rightarrow> str \<Rightarrow> datetime \<Rightarrow> datetime \<Rightarrow> process \<times> 's \<Rightarrow>
     (process \<times> 's) \<times> acceptance api" where
  "open_workflow e payload dataset secret created updated ps =
     (let (p, s) = ps;
          p1 = p\<lparr>rt_sequence := rt_sequence p + 1\<rparr>
      in case new_session (ae_pf e) (rt_namespace p @ ''-'' @ pad_nat 3 (rt_sequence p1)) 1 dataset None
            secret created updated [] of
           Inl x \<Rightarrow> ((p1, s), Inl (ApiCloud (CloudRaised x)))
         | Inr session \<Rightarrow>
             (let (services, workflow_id) = register_service session (rt_services p);
                  p2 = p1\<lparr>rt_services := services\<rparr>
              in case and_then (write_workflow e (sn_workflow session))
                     (and_then (record_input e workflow_id payload)
                               (claim_change e (pd_change_id dataset) workflow_id)) (p2, s) of
                   (ps', Inl x) \<Rightarrow> (ps', Inl x)
                 | (ps', Inr _) \<Rightarrow>
                     (ps', Inr \<lparr>an_workflow_id = workflow_id, an_state = wf_state (sn_workflow session),
                                an_duplicate_of = None, an_outcome = NEW_LOGICAL_CHANGE\<rparr>)))"

definition delivered_change_id :: "('s, 't) api_env \<Rightarrow> payload \<Rightarrow> str" where
  "delivered_change_id e payload =
     py_strip (py_str (ae_render e) (json_default ''change_id'' (JStr '''') payload))"

definition ingest_payload ::
  "('s, 't) api_env \<Rightarrow> payload \<Rightarrow> str \<Rightarrow> datetime \<Rightarrow> datetime \<Rightarrow> process \<times> 's \<Rightarrow>
     (process \<times> 's) \<times> acceptance api" where
  "ingest_payload e payload secret created updated ps =
     (case dataset_from_fixture (ae_render e) (ae_directory e) payload of
        Inl x \<Rightarrow> (ps, Inl (ApiFixture x))
      | Inr dataset \<Rightarrow> open_workflow e payload dataset secret created updated ps)"

text \<open>
  \<open>accept_change\<close> without interruption: the reads of classification and the writes of a new workflow are one
  step of the process here.
\<close>

definition accept_change ::
  "('s, 't) api_env \<Rightarrow> payload \<Rightarrow> str \<Rightarrow> datetime \<Rightarrow> datetime \<Rightarrow> process \<times> 's \<Rightarrow>
     (process \<times> 's) \<times> acceptance api" where
  "accept_change e payload secret created updated ps =
     (let (p, s) = ps; change_id = delivered_change_id e payload
      in if change_id = [] then ingest_payload e payload secret created updated ps
         else case classify_change e p change_id s of
                Inl x \<Rightarrow> (ps, Inl x)
              | Inr decision \<Rightarrow>
                  (case ced_existing_workflow_id decision of
                     Some existing \<Rightarrow>
                       (ps, api_bind (status e p existing s) (\<lambda>st. Inr
                          \<lparr>an_workflow_id = existing, an_state = wf_state (ws_workflow st),
                           an_duplicate_of = Some existing, an_outcome = CHANGE_TRANSPORT_DUPLICATE\<rparr>))
                   | None \<Rightarrow> ingest_payload e payload secret created updated ps))"

section \<open>Resuming\<close>

datatype eligibility = Eligible state_category | Ineligible str workflow_state

definition eligibility_of :: "workflow_state \<Rightarrow> eligibility" where
  "eligibility_of state =
     (case STATE_CATEGORY state of
        TERMINAL_SUCCESS \<Rightarrow> Ineligible ''TERMINAL_SUCCESS'' state
      | TERMINAL_NON_SUCCESS \<Rightarrow> Ineligible ''TERMINAL_NON_SUCCESS'' state
      | BLOCKING_GATE \<Rightarrow> Ineligible ''BLOCKING_GATE_REQUIRES_HUMAN_REVIEW'' state
      | category \<Rightarrow> Eligible category)"

definition resume_eligibility :: "('s, 't) api_env \<Rightarrow> process \<Rightarrow> str \<Rightarrow> 's \<Rightarrow> eligibility api" where
  "resume_eligibility e p workflow_id s =
     api_bind (durable_record e p workflow_id s) (\<lambda>r.
       case r of
         None \<Rightarrow> Inl (WorkflowNotFound workflow_id)
       | Some record \<Rightarrow> Inr (eligibility_of (wf_state (wr_workflow record))))"

text \<open>\<open>_load_input\<close>. Another kind of document has no version this build reads.\<close>

definition load_input :: "('s, 't) api_env \<Rightarrow> process \<Rightarrow> str \<Rightarrow> 's \<Rightarrow> json option api" where
  "load_input e p workflow_id s =
     (if \<not> rt_durable p then Inr None
      else api_bind (of_cloud (input_path workflow_id)) (\<lambda>q.
        case dc_get (ae_client e) q s of
          None \<Rightarrow> Inr None
        | Some (InputDocument version payload) \<Rightarrow>
            if version \<noteq> INPUT_SCHEMA_VERSION
            then Inl (NotResumable workflow_id ''stored input schema_version is not readable'')
            else Inr (if payload = JNull then None else Some payload)
        | Some _ \<Rightarrow> Inl (NotResumable workflow_id ''stored input schema_version is not readable'')))"

definition overlay_snapshot :: "cloud_document option \<Rightarrow> session \<Rightarrow> session cloud" where
  "overlay_snapshot d s =
     (case d of
        None \<Rightarrow> Inr s
      | Some (SnapshotDocument x) \<Rightarrow> apply_snapshot x s
      | Some _ \<Rightarrow> Inl CloudAdapterError)"

text \<open>\<open>_rehydrate\<close>, reading the store in the code's order.\<close>

definition rebuild ::
  "('s, 't) api_env \<Rightarrow> str \<Rightarrow> pilot_dataset \<Rightarrow> workflow_record \<Rightarrow> str \<Rightarrow> datetime \<Rightarrow> datetime \<Rightarrow> 's \<Rightarrow>
     session cloud" where
  "rebuild e workflow_id dataset record secret created updated s =
     cloud_bind (lift_res (new_session (ae_pf e) workflow_id 1 dataset None secret created updated [])) (\<lambda>fresh.
     cloud_bind (lift_res (res_list workflow_state_of (wr_state_history record))) (\<lambda>history.
     cloud_bind (stored_actions (ae_client e) workflow_id s) (\<lambda>actions.
     cloud_bind (snapshot_path workflow_id) (\<lambda>q.
       overlay_snapshot (dc_get (ae_client e) q s)
         (fresh\<lparr>sn_workflow := wr_workflow record, sn_state_history := history,
                 sn_ledger := reinstate actions (sn_ledger fresh)\<rparr>)))))"

definition rehydrate_service ::
  "('s, 't) api_env \<Rightarrow> process \<Rightarrow> str \<Rightarrow> json \<Rightarrow> str \<Rightarrow> datetime \<Rightarrow> datetime \<Rightarrow> 's \<Rightarrow> session api" where
  "rehydrate_service e p workflow_id payload secret created updated s =
     api_bind (durable_record e p workflow_id s) (\<lambda>record.
     api_bind (of_fixture (case payload of
         JObj fixture \<Rightarrow> dataset_from_fixture (ae_render e) (ae_directory e) fixture
       | _ \<Rightarrow> Inl (FixtureRejected ''the fixture must be a JSON object''))) (\<lambda>dataset.
       case record of
         None \<Rightarrow> Inl (ApiCloud (CloudRaised AttributeError))
       | Some r \<Rightarrow> of_cloud (rebuild e workflow_id dataset r secret created updated s)))"

definition resume ::
  "('s, 't) api_env \<Rightarrow> str \<Rightarrow> str option \<Rightarrow> str \<Rightarrow> datetime \<Rightarrow> str \<Rightarrow> datetime \<Rightarrow> datetime \<Rightarrow> 's \<Rightarrow>
     process \<times> 't \<Rightarrow>
     (process \<times> 't) \<times> session api" where
  "resume e workflow_id owner token now secret created updated s pt =
     (let (p, t) = pt
      in case dict_get (rt_services p) workflow_id of
           Some session \<Rightarrow> (pt, Inr session)
         | None \<Rightarrow>
             if \<not> rt_durable p then (pt, Inl (WorkflowNotFound workflow_id))
             else case resume_eligibility e p workflow_id s of
                    Inl x \<Rightarrow> (pt, Inl x)
                  | Inr (Ineligible reason state) \<Rightarrow> (pt, Inl (NotResumable workflow_id reason))
                  | Inr (Eligible category) \<Rightarrow>
                      (case load_input e p workflow_id s of
                         Inl x \<Rightarrow> (pt, Inl x)
                       | Inr None \<Rightarrow> (pt, Inl (NotResumable workflow_id ''no stored source change''))
                       | Inr (Some payload) \<Rightarrow>
                           (case acquire (ae_leases e) (ae_iso e) workflow_id
                                  (if truthy owner then the owner else rt_instance p) token now t of
                              (t', Inl (LeaseDenied holder)) \<Rightarrow>
                                ((p, t'), Inl (ResumeHeldElsewhere workflow_id holder))
                            | (t', Inl (LeaseCloud x)) \<Rightarrow> ((p, t'), Inl (ApiCloud x))
                            | (t', Inr l) \<Rightarrow>
                                (case rehydrate_service e p workflow_id payload secret created updated s of
                                   Inl x \<Rightarrow> ((p, fst (release (ae_leases e) l t')), Inl x)
                                 | Inr session \<Rightarrow>
                                     ((p\<lparr>rt_services := dict_put workflow_id session (rt_services p),
                                         rt_leases_held := dict_put workflow_id l (rt_leases_held p)\<rparr>, t'),
                                      Inr session)))))"

text \<open>\<open>release\<close> of the runtime: the lease this process holds, if any.\<close>

definition release_workflow ::
  "('s, 't) api_env \<Rightarrow> str \<Rightarrow> process \<times> 't \<Rightarrow> (process \<times> 't) \<times> bool api" where
  "release_workflow e workflow_id pt =
     (let (p, t) = pt;
          p' = p\<lparr>rt_leases_held := filter (\<lambda>(k, _). k \<noteq> workflow_id) (rt_leases_held p)\<rparr>
      in case dict_get (rt_leases_held p) workflow_id of
           None \<Rightarrow> ((p', t), Inr False)
         | Some l \<Rightarrow> (case release (ae_leases e) l t of (t', r) \<Rightarrow> ((p', t'), of_cloud r)))"

end
