(* ===== verification/Pubsub.thy ===== *)
theory Pubsub
  imports Runtime
begin

text \<open>
  The Pub/Sub push handler (\<open>driftzero_api/pubsub.py\<close>): a message carries a payload, the payload goes to
  \<open>accept_change\<close>, and the answer tells Pub/Sub whether to deliver it again. Base64, UTF-8 and the JSON
  parser are Python's, one parameter that yields the reason of a refusal or the parsed value.
\<close>

section \<open>The envelope\<close>

datatype envelope_error = EnvelopeRejected str

record envelope =
  ev_payload :: payload
  ev_message_id :: json
  ev_subscription :: json

type_synonym data_decoder = "str \<Rightarrow> str + json"

definition is_object :: "json \<Rightarrow> payload option" where
  "is_object j = (case j of JObj d \<Rightarrow> Some d | _ \<Rightarrow> None)"

definition decode_payload ::
  "(json \<Rightarrow> str) \<Rightarrow> data_decoder \<Rightarrow> json \<Rightarrow> envelope_error + payload" where
  "decode_payload render decoder data =
     (if data = JNull \<or> data = JStr '''' then Inl (EnvelopeRejected ''MISSING_DATA'')
      else case data of
        JStr text \<Rightarrow>
          (case decoder text of
             Inl reason \<Rightarrow> Inl (EnvelopeRejected reason)
           | Inr j \<Rightarrow>
               (case is_object j of
                  None \<Rightarrow> Inl (EnvelopeRejected ''MALFORMED_PAYLOAD'')
                | Some payload \<Rightarrow>
                    if list_ex (\<lambda>k. k \<in> set FORBIDDEN_FIXTURE_KEYS) (dict_keys payload)
                      then Inl (EnvelopeRejected ''AUTHORITATIVE_FIELD_REFUSED'')
                    else if blank (py_str render (json_default ''change_id'' (JStr '''') payload))
                      then Inl (EnvelopeRejected ''MISSING_CHANGE_ID'')
                    else Inr payload))
      | _ \<Rightarrow> Inl (EnvelopeRejected ''MALFORMED_DATA''))"

text \<open>\<open>message.get("data")\<close> of an absent key is \<open>None\<close>.\<close>

definition decode_envelope ::
  "(json \<Rightarrow> str) \<Rightarrow> data_decoder \<Rightarrow> json \<Rightarrow> envelope_error + envelope" where
  "decode_envelope render decoder body =
     (case is_object body of
        None \<Rightarrow> Inl (EnvelopeRejected ''MALFORMED_ENVELOPE'')
      | Some b \<Rightarrow>
          (case is_object (json_or_null ''message'' b) of
             None \<Rightarrow> Inl (EnvelopeRejected ''MISSING_MESSAGE'')
           | Some message \<Rightarrow>
               (case decode_payload render decoder (json_or_null ''data'' message) of
                  Inl e \<Rightarrow> Inl e
                | Inr payload \<Rightarrow> Inr
                    \<lparr>ev_payload = payload, ev_message_id = json_or_null ''messageId'' message,
                     ev_subscription = json_or_null ''subscription'' b\<rparr>)))"

section \<open>The answer\<close>

datatype push_response =
    Acknowledged acceptance json   \<comment> \<open>200\<close>
  | PermanentlyRejected str        \<comment> \<open>400\<close>
  | TransientFailure               \<comment> \<open>503\<close>

definition status_code :: "push_response \<Rightarrow> nat" where
  "status_code r = (case r of Acknowledged _ _ \<Rightarrow> 200 | PermanentlyRejected _ \<Rightarrow> 400 | TransientFailure \<Rightarrow> 503)"

text \<open>\<open>ingest\<close>, and the exceptions of \<open>push\<close> that are caught by name; every other one is taken as transient.\<close>

definition push_answer :: "json \<Rightarrow> acceptance api \<Rightarrow> push_response" where
  "push_answer message_id r =
     (case r of
        Inr a \<Rightarrow> Acknowledged a message_id
      | Inl (ApiFixture (FixtureRejected _)) \<Rightarrow> PermanentlyRejected ''FIXTURE_REJECTED''
      | Inl (WorkflowNotFound _) \<Rightarrow> PermanentlyRejected ''WORKFLOW_NOT_FOUND''
      | Inl _ \<Rightarrow> TransientFailure)"

definition push ::
  "('s, 't) api_env \<Rightarrow> data_decoder \<Rightarrow> json option \<Rightarrow> str \<Rightarrow> datetime \<Rightarrow> datetime \<Rightarrow> process \<times> 's \<Rightarrow>
     (process \<times> 's) \<times> push_response" where
  "push e decoder body secret created updated ps =
     (case body of
        None \<Rightarrow> (ps, PermanentlyRejected ''MALFORMED_JSON'')
      | Some b \<Rightarrow>
          (case decode_envelope (ae_render e) decoder b of
             Inl (EnvelopeRejected reason) \<Rightarrow> (ps, PermanentlyRejected reason)
           | Inr envelope \<Rightarrow>
               (case accept_change e (ev_payload envelope) secret created updated ps of
                  (ps', r) \<Rightarrow> (ps', push_answer (ev_message_id envelope) r))))"

end
