(* ===== verification/Ingestion.thy ===== *)
theory Ingestion
  imports Workflows
begin

text \<open>
  What an accepted payload decides and what it does not: the two source versions come from the documents
  beside the fixture, the values a payload states are never read.
\<close>

section \<open>Where a version comes from\<close>

text \<open>A document of the directory describes the version: its procedure, its version, and one of its
  operations with the requirements.\<close>

definition documented :: "fixture_dir \<Rightarrow> source_version \<Rightarrow> bool" where
  "documented directory v \<longleftrightarrow>
     (\<exists>raw operations body requirements. Some (JObj raw) \<in> set directory \<and>
        dict_get raw ''source_procedure_id'' = Some (JStr (sv_source_procedure_id v)) \<and>
        dict_get raw ''source_version'' = Some (JStr (sv_version v)) \<and>
        dict_get raw ''operations'' = Some (JObj operations) \<and>
        (sv_operation_id v, body) \<in> set operations \<and>
        body_requirements body = Inr (Some requirements) \<and>
        text_dict requirements = Inr (sv_requirements v))"

lemma documented_mono: "documented ds v \<Longrightarrow> set ds \<subseteq> set ds' \<Longrightarrow> documented ds' v"
  unfolding documented_def by blast

lemma described_operation_in:
  "described_operation ops = Inr (Some (operation_id, r)) \<Longrightarrow>
     \<exists>body. (operation_id, body) \<in> set ops \<and> body_requirements body = Inr (Some r)"
  by (induction ops rule: described_operation.induct)
    (fastforce simp: res_bind_Inr_iff split: option.splits)+

definition versions_ok :: "fixture_dir \<Rightarrow> str \<Rightarrow> (str, source_version) dict \<Rightarrow> bool" where
  "versions_ok directory procedure_id found \<longleftrightarrow>
     (\<forall>k v. dict_get found k = Some v \<longrightarrow>
        sv_version v = k \<and> sv_source_procedure_id v = procedure_id \<and> documented directory v)"

lemma scan_document_ok:
  assumes "scan_document procedure_id versions found d = Inr found'" and "versions_ok ds procedure_id found"
    and "d \<in> set ds"
  shows "versions_ok ds procedure_id found'"
proof (cases "found' = found")
  case False
  with assms(1) obtain raw operations version where d: "d = Some (JObj raw)"
    "dict_get raw ''source_procedure_id'' = Some (JStr procedure_id)"
    "dict_get raw ''operations'' = Some (JObj operations)" "dict_get raw ''source_version'' = Some (JStr version)"
    by (auto simp: scan_document_def split: option.splits json.splits if_splits)
  with assms(1) False obtain o' v where v: "described_operation operations = Inr (Some o')"
    "version_of procedure_id version raw o' = Inr v" "found' = dict_put version v found"
    by (auto simp: scan_document_def res_bind_Inr_iff split: option.splits if_splits)
  then have f: "sv_version v = version" "sv_source_procedure_id v = procedure_id"
    "sv_operation_id v = fst o'" "text_dict (snd o') = Inr (sv_requirements v)"
    by (auto simp: version_of_def res_bind_Inr_iff)
  obtain body where "(fst o', body) \<in> set operations" "body_requirements body = Inr (Some (snd o'))"
    using described_operation_in [of operations "fst o'" "snd o'"] v(1) by auto
  with d f assms(3) have "documented ds v" unfolding documented_def by fastforce
  with assms(2) f v(3) show ?thesis by (auto simp: versions_ok_def)
qed (use assms(2) in simp)

lemma scan_documents_ok:
  "scan_documents procedure_id versions found ds' = Inr found' \<Longrightarrow> versions_ok ds procedure_id found \<Longrightarrow>
     set ds' \<subseteq> set ds \<Longrightarrow> versions_ok ds procedure_id found'"
proof (induction procedure_id versions found ds' rule: scan_documents.induct)
  case (2 procedure_id versions found d ds')
  then obtain f where f: "scan_document procedure_id versions found d = Inr f"
    "scan_documents procedure_id versions f ds' = Inr found'"
    by (auto simp: res_bind_Inr_iff)
  show ?case
    by (rule "2.IH" [OF f(2)]) (use scan_document_ok [OF f(1) "2.prems"(2)] "2.prems"(3) in auto)
qed simp

lemma loaded_versions:
  assumes "load_source_versions directory procedure_id previous_version version = Inr (p, c)"
  shows "sv_version p = previous_version \<and> sv_version c = version \<and>
    sv_source_procedure_id p = procedure_id \<and> sv_source_procedure_id c = procedure_id \<and>
    documented directory p \<and> documented directory c"
proof -
  from assms obtain found where f: "scan_documents procedure_id [previous_version, version] [] directory = Inr found"
    "dict_get found previous_version = Some p" "dict_get found version = Some c"
    by (auto simp: load_source_versions_def split: option.splits)
  have "versions_ok directory procedure_id found"
    by (rule scan_documents_ok [OF f(1)]) (simp_all add: versions_ok_def)
  with f(2,3) show ?thesis by (auto simp: versions_ok_def)
qed

section \<open>What a payload decides\<close>

definition DECISIVE_KEYS :: "str list" where
  "DECISIVE_KEYS = REQUIRED_FIXTURE_KEYS @ [''authorized_scope'', ''approved_status'']"

lemma meaningful_get: "dict_get (meaningful p) k = (if metadata_key k then None else dict_get p k)"
  by (induction p) (auto simp: meaningful_def)

lemma validated_fixture: "validate_fixture render p = Inr m \<Longrightarrow> m = meaningful p"
  by (auto simp: validate_fixture_def Let_def split: if_splits option.splits)

lemma dataset_texts:
  assumes "dataset_from_fixture render directory p = Inr d"
  shows "validate_fixture render p = Inr (meaningful p)"
    and "dict_get p ''change_id'' = Some (JStr (pd_change_id d))"
    and "dict_get p ''source_procedure_id'' = Some (JStr (sv_source_procedure_id (pd_current d)))"
    and "dict_get p ''previous_version'' = Some (JStr (sv_version (pd_previous d)))"
    and "dict_get p ''source_version'' = Some (JStr (sv_version (pd_current d)))"
    and "documented directory (pd_previous d)" and "documented directory (pd_current d)"
proof -
  from assms obtain m procedure_id previous_version version prev cur catalog where
    m: "validate_fixture render p = Inr m" and
    t: "payload_text ''source_procedure_id'' m = Inr procedure_id"
      "payload_text ''previous_version'' m = Inr previous_version" "payload_text ''source_version'' m = Inr version"
    and l: "load_source_versions directory procedure_id previous_version version = Inr (prev, cur)"
    and scoped: "(case json_default ''authorized_scope'' (JArr []) m of
         JArr (x # xs) \<Rightarrow>
           fixture_bind (payload_text ''change_id'' m) (\<lambda>change_id. Inr
             \<lparr>pd_change_id = change_id, pd_source_name = sv_title cur, pd_previous = prev,
              pd_current = cur, pd_catalog = catalog,
              pd_authorized_scope = map (py_str render) (x # xs),
              pd_approved_status = py_str render (json_default ''approved_status'' (JStr ''APPROVED'') m)\<rparr>)
       | _ \<Rightarrow> Inl (FixtureRejected ''authorized_scope must be a non-empty list'')) = Inr d"
    by (auto simp: dataset_from_fixture_def)
  then obtain x xs where "json_default ''authorized_scope'' (JArr []) m = JArr (x # xs)"
    by (cases "json_default ''authorized_scope'' (JArr []) m"; cases "case json_default ''authorized_scope'' (JArr []) m of JArr ys \<Rightarrow> ys | _ \<Rightarrow> []") auto
  with scoped have d: "pd_previous d = prev" "pd_current d = cur"
    and c: "payload_text ''change_id'' m = Inr (pd_change_id d)" by auto
  have stated: "dict_get p k = Some (JStr x)" if "payload_text k m = Inr x" for k x
    using that validated_fixture [OF m] meaningful_get [of p k]
    by (auto simp: payload_text_def json_item_def json_text_of_def res_bind_Inr_iff split: option.splits json.splits
        if_splits)
  from loaded_versions [OF l] stated [OF t(1)] stated [OF t(2)] stated [OF t(3)] stated [OF c] validated_fixture [OF m] m
  show "validate_fixture render p = Inr (meaningful p)"
    "dict_get p ''change_id'' = Some (JStr (pd_change_id d))"
    "dict_get p ''source_procedure_id'' = Some (JStr (sv_source_procedure_id (pd_current d)))"
    "dict_get p ''previous_version'' = Some (JStr (sv_version (pd_previous d)))"
    "dict_get p ''source_version'' = Some (JStr (sv_version (pd_current d)))"
    "documented directory (pd_previous d)" "documented directory (pd_current d)"
    by (simp_all add: d)
qed

lemma dataset_change_id_nonblank:
  assumes "dataset_from_fixture render directory p = Inr d"
  shows "\<not> blank (pd_change_id d)"
proof -
  note k = dataset_texts(1,2) [OF assms]
  have "\<not> metadata_key ''change_id''" by (simp add: metadata_key_def)
  then have "json_default ''change_id'' (JStr []) (meaningful p) = JStr (pd_change_id d)"
    using k(2) by (simp add: json_default_def meaningful_get)
  with k(1) show ?thesis
    by (auto simp: validate_fixture_def Let_def REQUIRED_FIXTURE_KEYS_def py_str_def split: if_splits option.splits)
qed

text \<open>C16. A payload names what changed, the documents say how. The two versions of a dataset built from a payload
  are the ones the payload names, as described in documents of the directory, and nothing else the payload
  states is read: another acceptable payload with the same change id, procedure, versions, scope and
  approval gives the same dataset, whatever operation, requirement or values it claims. A payload that
  states a conclusion is refused.\<close>

theorem documents_decide:
  assumes "dataset_from_fixture render directory p = Inr d"
  shows "documented directory (pd_previous d) \<and> documented directory (pd_current d) \<and>
    dict_get p ''source_procedure_id'' = Some (JStr (sv_source_procedure_id (pd_current d))) \<and>
    dict_get p ''previous_version'' = Some (JStr (sv_version (pd_previous d))) \<and>
    dict_get p ''source_version'' = Some (JStr (sv_version (pd_current d))) \<and>
    dict_get p ''change_id'' = Some (JStr (pd_change_id d)) \<and>
    (\<forall>p' m. validate_fixture render p' = Inr m \<and> (\<forall>k\<in>set DECISIVE_KEYS. dict_get p' k = dict_get p k) \<longrightarrow>
       dataset_from_fixture render directory p' = Inr d) \<and>
    (\<forall>k\<in>set FORBIDDEN_FIXTURE_KEYS. dict_get p k = None)"
proof -
  let ?m = "meaningful p"
  note m = dataset_texts(1) [OF assms]
  have forb: "dict_get p k = None" if "k \<in> set FORBIDDEN_FIXTURE_KEYS" for k
  proof (rule ccontr)
    assume "dict_get p k \<noteq> None"
    moreover have "\<not> metadata_key k" using that by (auto simp: FORBIDDEN_FIXTURE_KEYS_def metadata_key_def)
    ultimately have "dict_get (meaningful p) k \<noteq> None" by (simp add: meaningful_get)
    then have "k \<in> set (dict_keys (meaningful p))" by (auto simp: dict_get_None)
    with that m show False by (auto simp: validate_fixture_def Let_def list_ex_iff split: if_splits)
  qed
  have same: "dataset_from_fixture render directory p' = Inr d"
    if m': "validate_fixture render p' = Inr m'" and k: "\<forall>k\<in>set DECISIVE_KEYS. dict_get p' k = dict_get p k"
    for p' m'
  proof -
    have "dict_get m' k = dict_get ?m k" if "k \<in> set DECISIVE_KEYS" for k
      using that k validated_fixture [OF m'] by (simp add: meaningful_get)
    then have "json_item k m' = json_item k ?m" "json_default k v m' = json_default k v ?m"
      if "k \<in> set DECISIVE_KEYS" for k v using that by (simp_all add: json_item_def json_default_def)
    then have e: "payload_text k m' = payload_text k ?m" "json_default k v m' = json_default k v ?m"
      if "k \<in> set DECISIVE_KEYS" for k v using that by (simp_all add: payload_text_def)
    have "dataset_from_fixture render directory p' = dataset_from_fixture render directory p"
      unfolding dataset_from_fixture_def m m' fixture_bind_def sum.case
      by (simp only: e DECISIVE_KEYS_def REQUIRED_FIXTURE_KEYS_def append.simps list.set insert_iff simp_thms)
    with assms show ?thesis by simp
  qed
  show ?thesis using dataset_texts [OF assms] same forb by blast
qed

section \<open>Example\<close>

definition version_document :: "str \<Rightarrow> str \<Rightarrow> json" where
  "version_document version label = JObj
     [(''source_procedure_id'', JStr ''SOP''), (''source_version'', JStr version), (''title'', JStr ''Packing''),
      (''operations'', JObj [(''OP'', JObj [(''requirements'', JObj [(''label'', JStr label)])])])]"

definition sample_directory :: fixture_dir where
  "sample_directory =
     [Some (JObj [(''artifacts'', JArr [JObj
         [(''artifact_id'', JStr ''WI-1''), (''operation_id'', JStr ''OP''), (''requirement_id'', JStr ''label''),
          (''current_value'', JStr ''left''), (''authorized_for_remediation'', JBool True),
          (''requirements'', JObj [(''label'', JStr ''left'')])]])]),
      None, Some (version_document ''v1'' ''left''), Some (version_document ''v2'' ''right'')]"

text \<open>A payload for a change id; the values it claims are not those of the documents.\<close>

definition sample_payload :: "str \<Rightarrow> payload \<Rightarrow> payload" where
  "sample_payload change_id claims =
     [(''change_id'', JStr change_id), (''source_procedure_id'', JStr ''SOP''),
      (''previous_version'', JStr ''v1''), (''source_version'', JStr ''v2''),
      (''authorized_scope'', JArr [JStr ''WI-1''])] @ claims"

lemma sample_dataset_built:
  "case dataset_from_fixture (\<lambda>_. ''?'') sample_directory (sample_payload ''CHG-1'' []) of
     Inl e \<Rightarrow> False
   | Inr d \<Rightarrow> sv_requirements (pd_current d) = [(''label'', ''right'')] \<and> pd_change_id d = ''CHG-1''"
  by code_simp

theorem documents_decide_witness:
  "\<exists>d. dataset_from_fixture (\<lambda>_. ''?'') sample_directory (sample_payload ''CHG-1'' []) = Inr d \<and>
     documented sample_directory (pd_current d) \<and> sv_requirements (pd_current d) = [(''label'', ''right'')] \<and>
     dataset_from_fixture (\<lambda>_. ''?'') sample_directory
       (sample_payload ''CHG-1'' [(''current_value'', JStr ''top''), (''_note'', JNull)]) = Inr d"
proof -
  let ?p = "sample_payload ''CHG-1'' []"
  let ?q = "sample_payload ''CHG-1'' [(''current_value'', JStr ''top''), (''_note'', JNull)]"
  obtain d where d: "dataset_from_fixture (\<lambda>_. ''?'') sample_directory ?p = Inr d"
    "sv_requirements (pd_current d) = [(''label'', ''right'')]"
    using sample_dataset_built by (auto split: sum.splits)
  have "\<not> isl (validate_fixture (\<lambda>_. ''?'') ?q)" by code_simp
  then obtain m where m: "validate_fixture (\<lambda>_. ''?'') ?q = Inr m"
    by (cases "validate_fixture (\<lambda>_. ''?'') ?q") auto
  have "\<forall>k\<in>set DECISIVE_KEYS. dict_get ?q k = dict_get ?p k"
    by (simp add: DECISIVE_KEYS_def REQUIRED_FIXTURE_KEYS_def sample_payload_def)
  with documents_decide [OF d(1)] m d show ?thesis by blast
qed

end
