(* ===== verification/Cloud_Properties.thy ===== *)
theory Cloud_Properties
  imports Cloud_Store Resume_Properties
begin

text \<open>
  What the Firestore adapters guarantee: which documents an operation touches, that a workflow's flush is
  read back as it was written, that a stale writer is refused, and that the durable proof store answers as
  the in-memory one.
\<close>

section \<open>Paths\<close>

definition safe :: "str \<Rightarrow> bool" where
  "safe v \<longleftrightarrow> safe_identifier v = Inr v"

lemma safe_identifier_eq: "safe_identifier v = (if safe v then Inr v else Inl (IdentifierRejected v))"
  by (auto simp: safe_def safe_identifier_def)

lemma safe_no_slash: "safe v \<Longrightarrow> CHR ''/'' \<notin> set v"
  using safe_identifier_Inr [of v v] by (simp add: safe_def)

lemma safe_nonempty: "safe v \<Longrightarrow> v \<noteq> []"
  using safe_identifier_Inr [of v v] by (simp add: safe_def)

lemma cloud_bind_simps [simp]: "cloud_bind (Inl e) f = Inl e" "cloud_bind (Inr x) f = f x"
  by (simp_all add: cloud_bind_def)

lemmas collections = WORKFLOWS_def ACTIONS_def PROOFS_def IDEMPOTENCY_KEYS_def RESUME_SNAPSHOTS_def

abbreviation workflow_at :: "str \<Rightarrow> str" where
  "workflow_at w \<equiv> WORKFLOWS @ CHR ''/'' # w"

abbreviation action_at :: "str \<Rightarrow> str \<Rightarrow> str" where
  "action_at w a \<equiv> workflow_at w @ CHR ''/'' # ACTIONS @ CHR ''/'' # a"

abbreviation proof_at :: "str \<Rightarrow> str \<Rightarrow> str" where
  "proof_at w i \<equiv> workflow_at w @ CHR ''/'' # PROOFS @ CHR ''/'' # i"

abbreviation key_at :: "str \<Rightarrow> str" where
  "key_at k \<equiv> IDEMPOTENCY_KEYS @ CHR ''/'' # k"

abbreviation snapshot_at :: "str \<Rightarrow> str" where
  "snapshot_at w \<equiv> RESUME_SNAPSHOTS @ CHR ''/'' # w"

lemma path_eqs:
  "workflow_path w = (if safe w then Inr (workflow_at w) else Inl (IdentifierRejected w))"
  "key_path k = (if safe k then Inr (key_at k) else Inl (IdentifierRejected k))"
  "snapshot_path w = (if safe w then Inr (snapshot_at w) else Inl (IdentifierRejected w))"
  "actions_path w = (if safe w then Inr (workflow_at w @ CHR ''/'' # ACTIONS) else Inl (IdentifierRejected w))"
  "proofs_path w = (if safe w then Inr (workflow_at w @ CHR ''/'' # PROOFS) else Inl (IdentifierRejected w))"
  by (simp_all add: workflow_path_def key_path_def snapshot_path_def actions_path_def proofs_path_def
      safe_identifier_eq)

lemma action_path_eq:
  "action_path w a =
     (if \<not> safe w then Inl (IdentifierRejected w) else if \<not> safe a then Inl (IdentifierRejected a)
      else Inr (action_at w a))"
  by (simp add: action_path_def path_eqs safe_identifier_eq)

lemma proof_path_eq:
  "proof_path w i =
     (if \<not> safe w then Inl (IdentifierRejected w) else if \<not> safe i then Inl (IdentifierRejected i)
      else Inr (proof_at w i))"
  by (simp add: proof_path_def path_eqs safe_identifier_eq)

lemma paths_differ [simp]:
  "key_at k \<noteq> workflow_at w @ x" "workflow_at w @ x \<noteq> key_at k" "key_at k \<noteq> snapshot_at w"
  "snapshot_at w \<noteq> key_at k" "workflow_at w @ x \<noteq> snapshot_at v" "snapshot_at v \<noteq> workflow_at w @ x"
  by (simp_all add: collections)

lemma paths_differ' [simp]:
  "key_at k \<noteq> workflow_at w" "workflow_at w \<noteq> key_at k" "workflow_at w \<noteq> snapshot_at v"
  "snapshot_at v \<noteq> workflow_at w"
  by (simp_all add: collections)

lemma collections_differ [simp]:
  "WORKFLOWS \<noteq> RESUME_SNAPSHOTS" "RESUME_SNAPSHOTS \<noteq> WORKFLOWS" "WORKFLOWS \<noteq> IDEMPOTENCY_KEYS"
  "IDEMPOTENCY_KEYS \<noteq> WORKFLOWS" "IDEMPOTENCY_KEYS \<noteq> RESUME_SNAPSHOTS"
  "RESUME_SNAPSHOTS \<noteq> IDEMPOTENCY_KEYS"
  by (simp_all add: collections)

text \<open>A document of a workflow is not the workflow's own, nor another workflow's.\<close>

lemma flat_split: "CHR ''/'' \<notin> set v \<Longrightarrow> CHR ''/'' \<notin> set w \<Longrightarrow>
    v @ CHR ''/'' # x = w @ CHR ''/'' # y \<longleftrightarrow> v = w \<and> x = y"
  by (auto dest: append_sep_inj)

lemma subdocument_differs:
  "CHR ''/'' \<notin> set v \<Longrightarrow> workflow_at v \<noteq> workflow_at w @ CHR ''/'' # x"
  "CHR ''/'' \<notin> set v \<Longrightarrow> workflow_at w @ CHR ''/'' # x \<noteq> workflow_at v"
  by (metis append_Cons append_eq_append_conv2 append_same_eq in_set_conv_decomp same_append_eq append.assoc)+

section \<open>Effects\<close>

definition workflow_stored :: "'s cloud_client \<Rightarrow> str \<Rightarrow> 's \<Rightarrow> bool" where
  "workflow_stored c w s \<longleftrightarrow> (\<exists>r. dc_get c (workflow_at w) s = Some (WorkflowDocument r))"

text \<open>No idempotency key changes and no stored workflow disappears.\<close>

definition preserves :: "'s cloud_client \<Rightarrow> 's \<Rightarrow> 's \<Rightarrow> bool" where
  "preserves c s s' \<longleftrightarrow>
     (\<forall>k. dc_get c (key_at k) s' = dc_get c (key_at k) s) \<and>
     (\<forall>w. CHR ''/'' \<notin> set w \<and> workflow_stored c w s \<longrightarrow> workflow_stored c w s')"

lemma preserves_refl [simp]: "preserves c s s"
  by (simp add: preserves_def)

lemma preserves_trans: "preserves c s s' \<Longrightarrow> preserves c s' s'' \<Longrightarrow> preserves c s s''"
  by (simp add: preserves_def)

locale cloud_store = document_store c for c :: "'s cloud_client"
begin

lemma save_workflow_effect:
  assumes "save_workflow c w history expected s = (s', r)"
  obtains (failed) e where "r = Inl e" "s' = s"
  | (saved) "safe (wf_workflow_id w)"
      "r = Inr (stored_revision (dc_get c (workflow_at (wf_workflow_id w)) s) + 1)"
      "\<And>q. dc_get c q s' = (if q = workflow_at (wf_workflow_id w)
         then Some (WorkflowDocument \<lparr>wr_workflow = w, wr_state_history = history,
           wr_revision = stored_revision (dc_get c (workflow_at (wf_workflow_id w)) s) + 1\<rparr>)
         else dc_get c q s)"
      "expected = None \<or> expected = Some (stored_revision (dc_get c (workflow_at (wf_workflow_id w)) s))"
proof -
  let ?p = "workflow_at (wf_workflow_id w)"
  let ?n = "stored_revision (dc_get c ?p s) + 1"
  let ?d = "WorkflowDocument \<lparr>wr_workflow = w, wr_state_history = history, wr_revision = ?n\<rparr>"
  show ?thesis
  proof (cases "safe (wf_workflow_id w) \<and> (expected = None \<or> expected = Some (stored_revision (dc_get c ?p s)))")
    case True
    with assms have "s' = dc_set c ?p ?d s" "r = Inr ?n"
      by (auto simp: save_workflow_simps path_eqs Let_def)
    with True show ?thesis by (intro saved) (auto simp: get_set)
  next
    case False
    with assms obtain e where "r = Inl e" "s' = s"
      by (cases expected) (auto simp: save_workflow_simps path_eqs Let_def split: if_splits)
    then show ?thesis by (rule failed)
  qed
qed

lemma save_workflow_preserves:
  assumes "save_workflow c w history expected s = (s', r)" shows "preserves c s s'"
  using assms by (cases rule: save_workflow_effect) (auto simp: preserves_def workflow_stored_def)

lemma save_action_preserves:
  assumes "save_action c w a s = (s', r)" shows "preserves c s s'"
  using assms
  by (auto simp: save_action_def action_path_eq preserves_def workflow_stored_def get_set subdocument_differs
      split: if_splits)

lemma record_workflow_preserves:
  assumes "record_workflow c w history (k, s) = ((k', s'), r)" shows "preserves c s s'"
  using assms save_workflow_preserves [of w _ _ s]
  by (auto simp: record_workflow_def Let_def split: prod.splits sum.splits)

lemma record_actions_preserves:
  "record_actions c as (k, s) = ((k', s'), r) \<Longrightarrow> preserves c s s'"
proof (induction as arbitrary: k s)
  case (Cons a as)
  obtain s1 r1 where a: "save_action c (ax_workflow_id a) a s = (s1, r1)" by fastforce
  note save_action_preserves [OF a]
  with Cons a show ?case
    by (cases r1) (auto simp: record_action_def intro: preserves_trans)
qed simp

lemma store_proof_preserves:
  assumes "store_proof isoformat c p s = (s', r)" shows "preserves c s s'"
proof (cases "s' = s")
  case False
  with assms obtain q where q: "proof_path (cp_workflow_id p) (cp_proof_id p) = Inr q"
    and s': "dc_create c q (encode_proof isoformat p) s = Some s'"
    by (auto simp: store_proof_def split: sum.splits option.splits cloud_document.splits if_splits)
  then have "safe (cp_workflow_id p)" "q = proof_at (cp_workflow_id p) (cp_proof_id p)"
    by (auto simp: proof_path_eq split: if_splits)
  then show ?thesis
    using created(2) [OF s'] by (simp add: preserves_def workflow_stored_def subdocument_differs)
qed simp

lemma record_session_preserves:
  assumes "record_session c w session (k, s) = ((k', s'), r)" shows "preserves c s s'"
  using assms
  by (auto simp: record_session_def path_eqs preserves_def workflow_stored_def get_set split: if_splits)

lemma flush_session_preserves:
  assumes "flush_session c session (k, s) = ((k', s'), r)" shows "preserves c s s'"
proof -
  obtain k1 s1 r1 where 1: "record_workflow c (sn_workflow session) (sn_state_history session) (k, s) =
      ((k1, s1), r1)" by (metis prod.exhaust)
  obtain k2 s2 r2 where 2: "record_actions c (all_records (sn_ledger session)) (k1, s1) = ((k2, s2), r2)"
    by (metis prod.exhaust)
  note p = record_workflow_preserves [OF 1] record_actions_preserves [OF 2]
  from assms 1 2 show ?thesis
    by (cases r1; cases r2)
      (auto simp: flush_session_def intro: p preserves_trans [OF p(1)] preserves_trans [OF preserves_trans [OF p]]
        dest: record_session_preserves)
qed

end

interpretation cloud_memory: cloud_store memory_client ..

section \<open>A flush is read back\<close>

lemma in_collection_iff: "in_collection p q \<longleftrightarrow> (\<exists>a. q = p @ CHR ''/'' # a \<and> CHR ''/'' \<notin> set a)"
proof
  assume "in_collection p q"
  then have "q = p @ CHR ''/'' # drop (length p + 1) q" "CHR ''/'' \<notin> set (drop (length p + 1) q)"
    unfolding in_collection_def by (metis append_Cons append_Nil append_assoc append_take_drop_id, simp)
  then show "\<exists>a. q = p @ CHR ''/'' # a \<and> CHR ''/'' \<notin> set a" by blast
qed (auto simp: in_collection_def)

lemma decode_action_document [simp]: "decode_action (ActionDocument a) = Inr a"
  by (simp add: decode_action_def)

lemma cloud_list_actions:
  "(\<And>d. d \<in> set ds \<Longrightarrow> \<exists>a. d = ActionDocument a) \<Longrightarrow>
     \<exists>as. cloud_list decode_action ds = Inr as \<and> ds = map ActionDocument as"
proof (induction ds)
  case (Cons d ds)
  then obtain a as where "d = ActionDocument a" "cloud_list decode_action ds = Inr as" "ds = map ActionDocument as"
    by (metis list.set_intros)
  then show ?case by (intro exI [of _ "a # as"]) simp
qed simp

context cloud_store
begin

lemma record_action_ok:
  assumes "record_action c a (k, s) = ((k', s'), Inr u)"
  shows "k' = k" "safe (ax_workflow_id a)" "safe (ax_action_id a)"
    "dc_get c q s' = (if q = action_at (ax_workflow_id a) (ax_action_id a) then Some (ActionDocument a)
                      else dc_get c q s)"
  using assms
  by (auto simp: record_action_def save_action_def action_path_eq get_set split: if_splits)

lemma record_actions_ok:
  assumes "record_actions c as (k, s) = ((k', s'), Inr u)" and "distinct (map ax_action_id as)"
    and "\<And>a. a \<in> set as \<Longrightarrow> ax_workflow_id a = w"
  shows "k' = k \<and> (\<forall>a\<in>set as. safe (ax_action_id a) \<and>
      dc_get c (action_at w (ax_action_id a)) s' = Some (ActionDocument a)) \<and>
    (\<forall>q. q \<notin> action_at w ` ax_action_id ` set as \<longrightarrow> dc_get c q s' = dc_get c q s)"
  using assms
proof (induction as arbitrary: k s)
  case (Cons a as)
  from Cons.prems(1) obtain k1 s1 where a: "record_action c a (k, s) = ((k1, s1), Inr ())"
    and as: "record_actions c as (k1, s1) = ((k', s'), Inr u)"
    by (auto split: prod.splits sum.splits)
  note a_ok = record_action_ok [OF a]
  have w: "ax_workflow_id a = w" using Cons.prems(3) by simp
  from Cons.IH [OF as] Cons.prems(2,3) have ih: "k' = k1"
    "\<forall>a\<in>set as. safe (ax_action_id a) \<and> dc_get c (action_at w (ax_action_id a)) s' = Some (ActionDocument a)"
    "\<And>q. q \<notin> action_at w ` ax_action_id ` set as \<Longrightarrow> dc_get c q s' = dc_get c q s1"
    by simp_all
  have "action_at w (ax_action_id a) \<notin> action_at w ` ax_action_id ` set as"
    using Cons.prems(2) by auto
  from ih(3) [OF this] have "dc_get c (action_at w (ax_action_id a)) s' = Some (ActionDocument a)"
    by (simp add: a_ok(4) w)
  with ih a_ok show ?case by (simp add: w)
qed simp

lemma flush_session_ok:
  assumes "flush_session c session (k, s) = ((k', s'), Inr u)"
  obtains revision s1 s2 where "safe (workflow_id_of session)"
    "revision = stored_revision (dc_get c (workflow_at (workflow_id_of session)) s) + 1"
    "k' = dict_put (workflow_id_of session) revision k"
    "\<And>q. dc_get c q s1 = (if q = workflow_at (workflow_id_of session)
       then Some (WorkflowDocument (dr_record (durable_image session revision))) else dc_get c q s)"
    "record_actions c (all_records (sn_ledger session)) (k', s1) = ((k', s2), Inr ())"
    "s' = dc_set c (snapshot_at (workflow_id_of session)) (SnapshotDocument (encode_snapshot session)) s2"
proof -
  let ?w = "sn_workflow session" and ?h = "map workflow_state_value (sn_state_history session)"
  obtain k1 s1 where 1: "record_workflow c ?w (sn_state_history session) (k, s) = ((k1, s1), Inr ())"
    using assms by (auto simp: flush_session_def split: prod.splits sum.splits)
  then obtain revision where saved: "save_workflow c ?w ?h (dict_get k (wf_workflow_id ?w)) s = (s1, Inr revision)"
    and k1: "k1 = dict_put (wf_workflow_id ?w) revision k"
    by (auto simp: record_workflow_def split: prod.splits sum.splits)
  obtain k2 s2 where 2: "record_actions c (all_records (sn_ledger session)) (k1, s1) = ((k2, s2), Inr ())"
    and 3: "record_session c (workflow_id_of session) session (k2, s2) = ((k', s'), Inr u)"
    using assms 1 by (auto simp: flush_session_def split: prod.splits sum.splits)
  have k2: "record_actions c as (a, b) = ((a', b'), Inr v) \<Longrightarrow> a' = a" for as a b a' b' v
    by (induction as arbitrary: a b) (auto dest: record_action_ok(1) split: prod.splits sum.splits)
  from saved show ?thesis
  proof (cases rule: save_workflow_effect)
    case saved: saved
    show ?thesis
    proof (rule that [of revision s1 s2])
      show "safe (workflow_id_of session)" using saved(1) by (simp add: workflow_id_of_def)
      show "revision = stored_revision (dc_get c (workflow_at (workflow_id_of session)) s) + 1"
        using saved(2) by (simp add: workflow_id_of_def)
      show "k' = dict_put (workflow_id_of session) revision k"
        using 3 k2 [OF 2] k1 saved(1) by (simp add: record_session_def path_eqs workflow_id_of_def)
      then have "k1 = k'" using k1 by (simp add: workflow_id_of_def)
      with 2 k2 [OF 2] show "record_actions c (all_records (sn_ledger session)) (k', s1) = ((k', s2), Inr ())"
        by simp
      show "s' = dc_set c (snapshot_at (workflow_id_of session)) (SnapshotDocument (encode_snapshot session)) s2"
        using 3 saved(1) by (simp add: record_session_def path_eqs workflow_id_of_def)
      show "dc_get c q s1 = (if q = workflow_at (workflow_id_of session)
          then Some (WorkflowDocument (dr_record (durable_image session revision))) else dc_get c q s)" for q
        using saved(2,3) by (simp add: durable_image_def workflow_id_of_def)
    qed
  qed simp
qed

end

context cloud_store
begin

text \<open>The ledger's collection after a flush holds the ledger's records.\<close>

lemma flushed_actions:
  assumes "record_actions c as (k, s) = ((k', s'), Inr u)" and "distinct (map ax_action_id as)"
    and "\<And>a. a \<in> set as \<Longrightarrow> ax_workflow_id a = w" and w: "safe w"
    and prior: "\<And>q. in_collection (workflow_at w @ CHR ''/'' # ACTIONS) q \<Longrightarrow>
      q \<notin> action_at w ` ax_action_id ` set as \<Longrightarrow> dc_get c q s = None"
    and later: "\<And>q. in_collection (workflow_at w @ CHR ''/'' # ACTIONS) q \<Longrightarrow> dc_get c q s'' = dc_get c q s'"
  shows "\<exists>bs. stored_actions c w s'' = Inr bs \<and> set bs = set as"
proof -
  let ?p = "workflow_at w @ CHR ''/'' # ACTIONS"
  note ok = record_actions_ok [OF assms(1-3)]
  have in_c: "in_collection ?p (action_at w (ax_action_id a))" if "a \<in> set as" for a
    using ok that safe_no_slash by (auto simp: in_collection_iff)
  have all: "set (dc_stream c ?p s'') = ActionDocument ` set as"
  proof
    show "set (dc_stream c ?p s'') \<subseteq> ActionDocument ` set as"
    proof
      fix d assume "d \<in> set (dc_stream c ?p s'')"
      then obtain q where q: "in_collection ?p q" "dc_get c q s' = Some d"
        using later by (auto simp: stream_set)
      have "q \<in> action_at w ` ax_action_id ` set as"
      proof (rule ccontr)
        assume n: "q \<notin> action_at w ` ax_action_id ` set as"
        with ok prior [OF q(1) n] q(2) show False by simp
      qed
      with ok q(2) show "d \<in> ActionDocument ` set as" by auto
    qed
    show "ActionDocument ` set as \<subseteq> set (dc_stream c ?p s'')"
    proof
      fix d assume "d \<in> ActionDocument ` set as"
      then obtain a where a: "a \<in> set as" "d = ActionDocument a" by blast
      then have "dc_get c (action_at w (ax_action_id a)) s'' = Some d"
        using ok later [OF in_c [OF a(1)]] by simp
      with in_c [OF a(1)] show "d \<in> set (dc_stream c ?p s'')" by (auto simp: stream_set)
    qed
  qed
  obtain bs where bs: "cloud_list decode_action (dc_stream c ?p s'') = Inr bs"
    "dc_stream c ?p s'' = map ActionDocument bs"
    using cloud_list_actions [of "dc_stream c ?p s''", unfolded all] by blast
  have "ActionDocument ` set bs = ActionDocument ` set as" using all bs(2) by simp
  then have "set bs = set as" by (simp add: inj_image_eq_iff inj_def)
  with w bs(1) show ?thesis by (simp add: stored_actions_def path_eqs)
qed

end

text \<open>C12. What is flushed is read back. When the flush of a session succeeds - its ledger's records name its
  workflow and differ in their ids, and the workflow's collection holds no other actions - another process
  reads the workflow with its chronology under the next revision, the very snapshot, and exactly the
  ledger's records; the flushing process remembers that revision.\<close>

theorem flush_then_load:
  fixes c :: "'s cloud_client"
  assumes "cloud_store c" and "flush_session c session (k, s) = ((k', s'), Inr ())"
    and "distinct (map ax_action_id (all_records (sn_ledger session)))"
    and "\<And>a. a \<in> set (all_records (sn_ledger session)) \<Longrightarrow> ax_workflow_id a = workflow_id_of session"
    and "\<And>q. in_collection (workflow_at (workflow_id_of session) @ CHR ''/'' # ACTIONS) q \<Longrightarrow>
      q \<notin> action_at (workflow_id_of session) ` ax_action_id ` set (all_records (sn_ledger session)) \<Longrightarrow>
      dc_get c q s = None"
  shows "\<exists>actions revision.
    load_records c (workflow_id_of session) s' =
      Inr (Some ((durable_image session revision)\<lparr>dr_actions := actions\<rparr>)) \<and>
    set actions = set (all_records (sn_ledger session)) \<and>
    dict_get k' (workflow_id_of session) = Some revision \<and>
    revision = stored_revision (dc_get c (workflow_at (workflow_id_of session)) s) + 1"
proof -
  let ?w = "workflow_id_of session" and ?as = "all_records (sn_ledger session)"
  obtain revision s1 s2 where w: "safe ?w"
    and rev: "revision = stored_revision (dc_get c (workflow_at ?w) s) + 1"
    and k': "k' = dict_put ?w revision k"
    and s1: "\<And>q. dc_get c q s1 = (if q = workflow_at ?w
      then Some (WorkflowDocument (dr_record (durable_image session revision))) else dc_get c q s)"
    and acts: "record_actions c ?as (k', s1) = ((k', s2), Inr ())"
    and s': "s' = dc_set c (snapshot_at ?w) (SnapshotDocument (encode_snapshot session)) s2"
    by (rule cloud_store.flush_session_ok [OF assms(1,2)]) (rule that)
  have ds: "document_store c" using assms(1) by (simp add: cloud_store_def)
  have get: "dc_get c q s' = (if q = snapshot_at ?w then Some (SnapshotDocument (encode_snapshot session))
      else dc_get c q s2)" for q
    using document_store.get_set [OF ds] by (simp add: s')
  have inner: "q \<noteq> workflow_at ?w \<and> q \<noteq> snapshot_at ?w" if "in_collection (workflow_at ?w @ CHR ''/'' # ACTIONS) q" for q
    using that subdocument_differs(2) [OF safe_no_slash [OF w]] by (auto simp: in_collection_iff)
  have "\<exists>bs. stored_actions c ?w s' = Inr bs \<and> set bs = set ?as"
    by (rule cloud_store.flushed_actions [OF assms(1) acts assms(3,4) w])
      (use inner assms(5) in \<open>simp_all add: s1 get\<close>)
  then obtain bs where bs: "stored_actions c ?w s' = Inr bs" "set bs = set ?as" by blast
  have "workflow_at ?w \<notin> action_at ?w ` ax_action_id ` set ?as"
    using subdocument_differs(1) [OF safe_no_slash [OF w]] by auto
  with cloud_store.record_actions_ok [OF assms(1) acts assms(3,4)] s1 get
  have "dc_get c (workflow_at ?w) s' = Some (WorkflowDocument (dr_record (durable_image session revision)))"
    by simp
  with bs w get have "load_records c ?w s' =
      Inr (Some ((durable_image session revision)\<lparr>dr_actions := bs\<rparr>))"
    by (simp add: load_records_def load_record_def path_eqs decode_workflow_record_def durable_image_def)
  with bs(2) rev k' show ?thesis by (intro exI [of _ bs] exI [of _ revision]) simp
qed

section \<open>Concurrent writers\<close>

text \<open>
  The writes of one workflow in a run of accesses, newest first: the writer, and whether it was overtaken,
  that is, whether it was a first write and another came between its reading and its setting. Of a first
  write begun, the log keeps how many there were.
\<close>

type_synonym write_log = "(nat \<Rightarrow> nat) \<times> (nat \<times> bool) list"

definition log_access ::
  "'s cloud_client \<Rightarrow> str \<Rightarrow> 's \<times> (nat \<Rightarrow> sink_process) \<Rightarrow> sink_access \<Rightarrow> write_log \<Rightarrow> write_log" where
  "log_access c workflow_id sk a l =
     (let (s, procs) = sk; (begun, writes) = l
      in case a of
           BeginSave i w history \<Rightarrow>
             (if wf_workflow_id w \<noteq> workflow_id \<or> fs_begun (procs i) \<noteq> None then l
              else case dict_get (fs_revisions (procs i)) workflow_id of
                     None \<Rightarrow> (begun(i := length writes), writes)
                   | Some r \<Rightarrow>
                       if stored_revision (dc_get c (workflow_at workflow_id) s) = r
                       then (begun, (i, False) # writes) else l)
         | FinishSave i \<Rightarrow>
             (case fs_begun (procs i) of
                Some (p, w, history, revision) \<Rightarrow>
                  if wf_workflow_id w = workflow_id then (begun, (i, begun i \<noteq> length writes) # writes) else l
              | None \<Rightarrow> l))"

fun written_run ::
  "'s cloud_client \<Rightarrow> str \<Rightarrow> sink_access list \<Rightarrow> ('s \<times> (nat \<Rightarrow> sink_process)) \<times> write_log \<Rightarrow>
     ('s \<times> (nat \<Rightarrow> sink_process)) \<times> write_log" where
  "written_run c workflow_id [] x = x"
| "written_run c workflow_id (a # as) (sk, l) =
     written_run c workflow_id as (sink_access_step c sk a, log_access c workflow_id sk a l)"

definition writes_since :: "nat \<Rightarrow> (nat \<times> bool) list \<Rightarrow> (nat \<times> bool) list" where
  "writes_since i writes = takeWhile (\<lambda>x. fst x \<noteq> i) writes"

text \<open>Processes none of which has written a workflow yet.\<close>

definition fresh_writers :: "str \<Rightarrow> (nat \<Rightarrow> sink_process) \<Rightarrow> bool" where
  "fresh_writers workflow_id procs \<longleftrightarrow>
     (\<forall>i. dict_get (fs_revisions (procs i)) workflow_id = None \<and> fs_begun (procs i) = None)"

text \<open>
  As long as no overtaken write came since its last one, the revision a process remembers and the number of
  writes since make up the stored revision.
\<close>

definition writer_ok ::
  "nat \<Rightarrow> str \<Rightarrow> (nat \<Rightarrow> nat) \<Rightarrow> (nat \<times> bool) list \<Rightarrow> nat \<Rightarrow> sink_process \<Rightarrow> bool" where
  "writer_ok stored workflow_id begun writes j q \<longleftrightarrow>
     (dict_get (fs_revisions q) workflow_id = None \<longleftrightarrow> j \<notin> fst ` set writes) \<and>
     (\<forall>r. dict_get (fs_revisions q) workflow_id = Some r \<longrightarrow> \<not> list_ex snd (writes_since j writes) \<longrightarrow>
        stored = r + length (writes_since j writes)) \<and>
     (\<forall>p w h r. fs_begun q = Some (p, w, h, r) \<longrightarrow>
        p = workflow_at (wf_workflow_id w) \<and> dict_get (fs_revisions q) (wf_workflow_id w) = None \<and>
        (wf_workflow_id w = workflow_id \<longrightarrow>
           begun j \<le> length writes \<and> (begun j = length writes \<longrightarrow> r = stored + 1)))"

definition writers_ok ::
  "'s cloud_client \<Rightarrow> str \<Rightarrow> ('s \<times> (nat \<Rightarrow> sink_process)) \<times> write_log \<Rightarrow> bool" where
  "writers_ok c workflow_id x \<longleftrightarrow>
     (case x of ((s, procs), begun, writes) \<Rightarrow>
        \<forall>j. writer_ok (stored_revision (dc_get c (workflow_at workflow_id) s)) workflow_id begun writes j (procs j))"

lemma writes_since_simps [simp]:
  "writes_since i [] = []"
  "writes_since i ((j, b) # writes) = (if j = i then [] else (j, b) # writes_since i writes)"
  by (simp_all add: writes_since_def)

lemma writer_ok_other:
  assumes "writer_ok n workflow_id begun writes j q" and "j \<noteq> i" and "overtaken \<or> n' = n + 1"
  shows "writer_ok n' workflow_id begun ((i, overtaken) # writes) j q"
  unfolding writer_ok_def
proof (intro conjI allI impI)
  fix r assume r: "dict_get (fs_revisions q) workflow_id = Some r"
    and l: "\<not> list_ex snd (writes_since j ((i, overtaken) # writes))"
  from assms(1) r l have "n = r + length (writes_since j writes)"
    unfolding writer_ok_def using assms(2) by simp
  with assms(2,3) l show "n' = r + length (writes_since j ((i, overtaken) # writes))" by simp
qed (use assms(1,2) in \<open>auto simp: writer_ok_def\<close>)

lemma writer_ok_begunD:
  assumes "writer_ok n workflow_id begun writes j q" and "fs_begun q = Some (p, w, h, r)"
  shows "p = workflow_at (wf_workflow_id w)" "dict_get (fs_revisions q) (wf_workflow_id w) = None"
    "wf_workflow_id w = workflow_id \<Longrightarrow> begun j = length writes \<Longrightarrow> r = n + 1"
  using assms by (simp_all add: writer_ok_def)

text \<open>The writer's own invariant after its write, and after an access to another workflow.\<close>

lemma writer_ok_own:
  assumes "dict_get (fs_revisions q) workflow_id = Some n" and "fs_begun q = None"
  shows "writer_ok n workflow_id begun ((i, overtaken) # writes) i q"
  using assms by (simp add: writer_ok_def)

lemma writers_ok_write:
  assumes "writers_ok c workflow_id ((s, procs), begun, writes)"
    and "stored_revision (dc_get c (workflow_at workflow_id) s') = n"
    and "dict_get (fs_revisions q) workflow_id = Some n" and "fs_begun q = None"
    and "overtaken \<or> n = stored_revision (dc_get c (workflow_at workflow_id) s) + 1"
  shows "writers_ok c workflow_id ((s', procs(i := q)), begun, (i, overtaken) # writes)"
  using assms(1) writer_ok_own [OF assms(3,4)] writer_ok_other [OF _ _ assms(5), of workflow_id begun writes]
  by (simp add: writers_ok_def assms(2))

lemma writers_ok_elsewhere:
  assumes "writers_ok c workflow_id ((s, procs), begun, writes)"
    and "dc_get c (workflow_at workflow_id) s' = dc_get c (workflow_at workflow_id) s"
    and "dict_get (fs_revisions q) workflow_id = dict_get (fs_revisions (procs i)) workflow_id"
    and "fs_begun q = None"
  shows "writers_ok c workflow_id ((s', procs(i := q)), begun, writes)"
proof -
  from assms(1) have "writer_ok (stored_revision (dc_get c (workflow_at workflow_id) s)) workflow_id begun writes i q"
    using assms(3,4) by (simp add: writers_ok_def writer_ok_def)
  with assms(1,2) show ?thesis by (simp add: writers_ok_def)
qed

lemma writers_ok_begin:
  assumes "writers_ok c workflow_id ((s, procs), begun, writes)"
    and "dict_get (fs_revisions (procs i)) (wf_workflow_id w) = None"
  shows "writers_ok c workflow_id ((s, procs(i := (procs i)\<lparr>fs_begun :=
      Some (workflow_at (wf_workflow_id w), w, h, next_revision c (workflow_at (wf_workflow_id w)) s)\<rparr>)),
    if wf_workflow_id w = workflow_id then begun(i := length writes) else begun, writes)"
  using assms by (auto simp: writers_ok_def writer_ok_def next_revision_def)

context cloud_store
begin

lemma record_workflow_cases:
  assumes "record_workflow c w history (k, s) = ((k', s'), r)" and "safe (wf_workflow_id w)"
  obtains (conflict) n where "r = Inl (ConflictingRecord (workflow_at (wf_workflow_id w)))" "k' = k" "s' = s" "dict_get k (wf_workflow_id w) = Some n"
      "n \<noteq> stored_revision (dc_get c (workflow_at (wf_workflow_id w)) s)"
  | (written) n where "r = Inr ()" "n = stored_revision (dc_get c (workflow_at (wf_workflow_id w)) s) + 1"
      "k' = dict_put (wf_workflow_id w) n k"
      "dc_get c (workflow_at (wf_workflow_id w)) s' = Some (WorkflowDocument
         \<lparr>wr_workflow = w, wr_state_history = map workflow_state_value history, wr_revision = n\<rparr>)"
      "dict_get k (wf_workflow_id w) = None \<or>
       dict_get k (wf_workflow_id w) = Some (stored_revision (dc_get c (workflow_at (wf_workflow_id w)) s))"
proof -
  let ?w = "wf_workflow_id w"
  obtain s1 r1 where save: "save_workflow c w (map workflow_state_value history) (dict_get k ?w) s = (s1, r1)"
    by fastforce
  show ?thesis
  proof (cases "dict_get k ?w = None \<or> dict_get k ?w = Some (stored_revision (dc_get c (workflow_at ?w) s))")
    case True
    with save assms(2) have "r1 = Inr (stored_revision (dc_get c (workflow_at ?w) s) + 1)"
      "s1 = dc_set c (workflow_at ?w) (WorkflowDocument
         \<lparr>wr_workflow = w, wr_state_history = map workflow_state_value history,
          wr_revision = stored_revision (dc_get c (workflow_at ?w) s) + 1\<rparr>) s"
      by (auto simp: save_workflow_simps path_eqs Let_def)
    with True assms(1) save show ?thesis
      by (intro written) (auto simp: record_workflow_def get_set)
  next
    case False
    then obtain n where "dict_get k ?w = Some n" "n \<noteq> stored_revision (dc_get c (workflow_at ?w) s)" by auto
    with save assms show ?thesis
      by (intro conflict) (auto simp: record_workflow_def save_workflow_simps path_eqs Let_def)
  qed
qed

lemma stored_after_set [simp]:
  "stored_revision (dc_get c p (set_workflow c p w h n s)) = n"
  "wf_workflow_id w \<noteq> workflow_id \<Longrightarrow>
     dc_get c (workflow_at workflow_id) (set_workflow c (workflow_at (wf_workflow_id w)) w h n s) =
     dc_get c (workflow_at workflow_id) s"
  by (simp_all add: set_workflow_def get_set stored_revision_def)

lemma writers_ok_finish:
  assumes ok: "writers_ok c workflow_id ((s, procs), begun, writes)"
  shows "writers_ok c workflow_id (sink_access_step c (s, procs) (FinishSave i),
    log_access c workflow_id (s, procs) (FinishSave i) (begun, writes))"
proof (cases "fs_begun (procs i)")
  case None
  with ok show ?thesis by (simp add: sink_access_step_def log_access_def)
next
  case (Some b)
  then obtain p w h r where b: "fs_begun (procs i) = Some (p, w, h, r)" by (cases b) auto
  from ok have "writer_ok (stored_revision (dc_get c (workflow_at workflow_id) s)) workflow_id begun writes i (procs i)"
    by (simp add: writers_ok_def)
  note p = writer_ok_begunD [OF this b]
  let ?q = "\<lparr>fs_revisions = dict_put (wf_workflow_id w) r (fs_revisions (procs i)), fs_begun = None\<rparr>"
  let ?s = "set_workflow c p w h r s"
  have step: "sink_access_step c (s, procs) (FinishSave i) = (?s, procs(i := ?q))"
    using b by (simp add: sink_access_step_def)
  show ?thesis
  proof (cases "wf_workflow_id w = workflow_id")
    case True
    have l: "log_access c workflow_id (s, procs) (FinishSave i) (begun, writes) =
        (begun, (i, begun i \<noteq> length writes) # writes)"
      using True b by (simp add: log_access_def)
    show ?thesis
      unfolding step l by (rule writers_ok_write [OF ok, where n = r]) (use True p in auto)
  next
    case False
    have l: "log_access c workflow_id (s, procs) (FinishSave i) (begun, writes) = (begun, writes)"
      using False b by (simp add: log_access_def)
    show ?thesis
      unfolding step l by (rule writers_ok_elsewhere [OF ok]) (use False p in auto)
  qed
qed

lemma writers_ok_begin_save:
  assumes ok: "writers_ok c workflow_id ((s, procs), begun, writes)" and "safe workflow_id"
  shows "writers_ok c workflow_id (sink_access_step c (s, procs) (BeginSave i w h),
    log_access c workflow_id (s, procs) (BeginSave i w h) (begun, writes))"
proof (cases "fs_begun (procs i) = None \<and> safe (wf_workflow_id w)")
  case False
  then have "sink_access_step c (s, procs) (BeginSave i w h) = (s, procs)"
    "log_access c workflow_id (s, procs) (BeginSave i w h) (begun, writes) = (begun, writes)"
    using assms(2) by (auto simp: sink_access_step_def log_access_def path_eqs split: option.splits)
  with ok show ?thesis by simp
next
  case True
  let ?h = "map workflow_state_value h" and ?p = "workflow_at (wf_workflow_id w)"
  show ?thesis
  proof (cases "dict_get (fs_revisions (procs i)) (wf_workflow_id w)")
    case None
    then have "sink_access_step c (s, procs) (BeginSave i w h) =
        (s, procs(i := (procs i)\<lparr>fs_begun := Some (?p, w, ?h, next_revision c ?p s)\<rparr>))"
      "log_access c workflow_id (s, procs) (BeginSave i w h) (begun, writes) =
        (if wf_workflow_id w = workflow_id then begun(i := length writes) else begun, writes)"
      using True by (auto simp: sink_access_step_def log_access_def path_eqs)
    with writers_ok_begin [OF ok None] show ?thesis by simp
  next
    case (Some r)
    let ?n = "stored_revision (dc_get c ?p s)"
    let ?s = "set_workflow c ?p w ?h (?n + 1) s"
    let ?q = "(procs i)\<lparr>fs_revisions := dict_put (wf_workflow_id w) (?n + 1) (fs_revisions (procs i))\<rparr>"
    have step: "sink_access_step c (s, procs) (BeginSave i w h) =
        (if ?n = r then (?s, procs(i := ?q)) else (s, procs))"
      using True Some by (simp add: sink_access_step_def path_eqs save_checked_def Let_def)
    have l: "log_access c workflow_id (s, procs) (BeginSave i w h) (begun, writes) =
        (begun, if wf_workflow_id w = workflow_id \<and> ?n = r then (i, False) # writes else writes)"
      using True Some by (auto simp: log_access_def)
    have "writers_ok c workflow_id ((?s, procs(i := ?q)), begun, (i, False) # writes)"
      if "wf_workflow_id w = workflow_id"
      by (rule writers_ok_write [OF ok, where n = "?n + 1"]) (use that True in auto)
    moreover have "writers_ok c workflow_id ((?s, procs(i := ?q)), begun, writes)"
      if "wf_workflow_id w \<noteq> workflow_id"
      by (rule writers_ok_elsewhere [OF ok]) (use that True in auto)
    ultimately show ?thesis unfolding step l using ok by auto
  qed
qed

lemma writers_ok_step:
  assumes "writers_ok c workflow_id (sk, l)" and "safe workflow_id"
  shows "writers_ok c workflow_id (sink_access_step c sk a, log_access c workflow_id sk a l)"
proof -
  obtain s procs begun writes where x: "sk = (s, procs)" "l = (begun, writes)"
    by (metis prod.exhaust)
  show ?thesis
    using writers_ok_finish [OF assms(1) [unfolded x]] writers_ok_begin_save [OF assms(1) [unfolded x] assms(2)]
    by (cases a) (simp_all only: x)
qed

lemma written_run_ok:
  "writers_ok c workflow_id x \<Longrightarrow> safe workflow_id \<Longrightarrow> writers_ok c workflow_id (written_run c workflow_id as x)"
proof (induction as arbitrary: x)
  case (Cons a as)
  obtain sk l where "x = (sk, l)" by (cases x)
  with Cons writers_ok_step [of workflow_id sk l a] show ?case by simp
qed simp

end

lemma fresh_writers_ok: "fresh_writers workflow_id procs \<Longrightarrow> writers_ok c workflow_id ((s, procs), begun, [])"
  by (simp add: fresh_writers_def writers_ok_def writer_ok_def)

text \<open>C11. A workflow's writers are serialised, but for their first write. After any interleaving of the
  accesses of any number of processes, a process that has written the workflow is refused, and changes
  nothing, only if somebody wrote since its last write; and if somebody did it is refused, unless one of
  those writes was a first write overtaken by another between its reading and its setting. A process that
  never wrote it, such as one that has just resumed it, overwrites whatever the others stored.\<close>

theorem writers_serialised:
  fixes c :: "'s cloud_client"
  assumes "cloud_store c" and "safe workflow_id" and "fresh_writers workflow_id procs0"
    and "written_run c workflow_id accesses ((s0, procs0), (\<lambda>_. 0), []) = ((s, procs), begun, writes)"
    and "wf_workflow_id w = workflow_id"
  shows "case record_workflow c w history (fs_revisions (procs i), s) of
    ((k', s'), Inl e) \<Rightarrow> i \<in> fst ` set writes \<and> writes_since i writes \<noteq> [] \<and>
      e = ConflictingRecord (workflow_at workflow_id) \<and> k' = fs_revisions (procs i) \<and> s' = s
  | ((k', s'), Inr _) \<Rightarrow>
      (i \<in> fst ` set writes \<longrightarrow> writes_since i writes = [] \<or> list_ex snd (writes_since i writes)) \<and>
      load_record c workflow_id s' = Inr (Some \<lparr>wr_workflow = w,
        wr_state_history = map workflow_state_value history,
        wr_revision = stored_revision (dc_get c (workflow_at workflow_id) s) + 1\<rparr>)"
proof -
  obtain k' s' r where run: "record_workflow c w history (fs_revisions (procs i), s) = ((k', s'), r)"
    by (metis prod.exhaust)
  have "writers_ok c workflow_id ((s, procs), begun, writes)"
    using cloud_store.written_run_ok [OF assms(1) fresh_writers_ok [OF assms(3)] assms(2)] assms(4) by metis
  then have "writer_ok (stored_revision (dc_get c (workflow_at workflow_id) s)) workflow_id begun writes i (procs i)"
    by (simp add: writers_ok_def)
  then have now: "dict_get (fs_revisions (procs i)) workflow_id = None \<longleftrightarrow> i \<notin> fst ` set writes"
    "\<And>n. dict_get (fs_revisions (procs i)) workflow_id = Some n \<Longrightarrow> \<not> list_ex snd (writes_since i writes) \<Longrightarrow>
       stored_revision (dc_get c (workflow_at workflow_id) s) = n + length (writes_since i writes)"
    unfolding writer_ok_def by blast+
  have "safe (wf_workflow_id w)" using assms(2,5) by simp
  show ?thesis
  proof (cases rule: cloud_store.record_workflow_cases [OF assms(1) run \<open>safe (wf_workflow_id w)\<close>])
    case (1 n)
    then have "dict_get (fs_revisions (procs i)) workflow_id = Some n" using assms(5) by simp
    with now have "i \<in> fst ` set writes" "writes_since i writes \<noteq> []"
      using 1(5) assms(5) by force+
    with 1 assms(5) show ?thesis by (simp add: run)
  next
    case (2 n)
    have loaded: "load_record c workflow_id s' = Inr (Some \<lparr>wr_workflow = w,
        wr_state_history = map workflow_state_value history,
        wr_revision = stored_revision (dc_get c (workflow_at workflow_id) s) + 1\<rparr>)"
      using 2(2,4) assms(2,5) by (simp add: load_record_def path_eqs decode_workflow_record_def)
    have "writes_since i writes = []" if "i \<in> fst ` set writes" "\<not> list_ex snd (writes_since i writes)"
    proof -
      from that(1) now(1) obtain m where "dict_get (fs_revisions (procs i)) workflow_id = Some m" by blast
      with now(2) [OF this that(2)] 2(5) assms(5) show ?thesis by simp
    qed
    with loaded 2(1) show ?thesis unfolding run by auto
  qed
qed

section \<open>The proof store\<close>

text \<open>The two stores hold the same proofs of a workflow, under the same bytes.\<close>

definition same_proofs ::
  "(datetime \<Rightarrow> str) \<Rightarrow> 's cloud_client \<Rightarrow> str \<Rightarrow> proof_store \<Rightarrow> 's \<Rightarrow> bool" where
  "same_proofs isoformat c w store s \<longleftrightarrow>
     (\<forall>i. dc_get c (proof_at w i) s =
        map_option (\<lambda>x. encode_proof isoformat (sp_proof x)) (proof_resolve (proof_ref i) store)) \<and>
     (\<forall>i x. proof_resolve (proof_ref i) store = Some x \<longrightarrow>
        sp_canonical_bytes x = canonical_json (dump_proof isoformat (sp_proof x)))"

text \<open>C26. The durable proof store implements the in-memory one. Kept in step for a workflow, the two record a
  proof alike - a new one is stored by both, a repetition of the stored bytes is accepted by both without a
  change, a different proof under a stored id is refused by both - and are in step afterwards; and a proof
  is resolved in one exactly if it is in the other.\<close>

theorem proof_stores_agree:
  fixes c :: "'s cloud_client"
  assumes "cloud_store c" and "same_proofs isoformat c w store s" and "cp_workflow_id p = w"
    and "safe w" and "safe (cp_proof_id p)"
  shows "case (record_proof isoformat p store, store_proof isoformat c p s) of
    ((store', r), (s', r')) \<Rightarrow>
      same_proofs isoformat c w store' s' \<and> (isl r \<longleftrightarrow> isl r') \<and>
      (r' = Inr True \<longleftrightarrow> proof_resolve (proof_ref (cp_proof_id p)) store = None) \<and>
      resolve_proof isoformat c w (cp_proof_id p) s' =
        Inr (map_option sp_proof (proof_resolve (proof_ref (cp_proof_id p)) store'))"
proof -
  have ds: "document_store c" using assms(1) by (simp add: cloud_store_def)
  let ?q = "proof_at w (cp_proof_id p)" and ?ref = "proof_ref (cp_proof_id p)"
  have path: "proof_path w (cp_proof_id p) = Inr ?q" using assms(4,5) by (simp add: proof_path_eq)
  have inj: "proof_ref i = proof_ref j \<longleftrightarrow> i = j" for i j by (simp add: proof_ref_def)
  note step = assms(2) [unfolded same_proofs_def]
  show ?thesis
  proof (cases "proof_resolve ?ref store")
    case None
    with step have "dc_get c ?q s = None" by simp
    with document_store.create_free [OF ds, of ?q s] obtain s' where
      s': "dc_create c ?q (encode_proof isoformat p) s = Some s'"
        "\<And>q. dc_get c q s' = (if q = ?q then Some (encode_proof isoformat p) else dc_get c q s)"
      by blast
    have "proof_at w i = ?q \<longleftrightarrow> i = cp_proof_id p" for i by simp
    let ?e = "store_entry isoformat p"
    let ?store' = "\<lparr>pt_proofs = dict_put ?ref ?e (pt_proofs store),
      pt_by_workflow = dict_put (cp_workflow_id p) ?ref (pt_by_workflow store),
      pt_order = pt_order store @ [?ref]\<rparr>"
    have mem: "record_proof isoformat p store = (?store', Inr ?e)"
      using None by (simp add: record_proof_def proof_resolve_def Let_def)
    have dur: "store_proof isoformat c p s = (s', Inr True)"
      using path s'(1) assms(3) by (simp add: store_proof_def)
    have get: "proof_resolve (proof_ref i) ?store' = (if i = cp_proof_id p then Some ?e
        else proof_resolve (proof_ref i) store)" for i
      by (simp add: proof_resolve_def inj)
    have e: "sp_proof ?e = p" "sp_canonical_bytes ?e = canonical_json (dump_proof isoformat p)"
      by (simp_all add: store_entry_def)
    have "same_proofs isoformat c w ?store' s'"
      using step by (simp add: same_proofs_def get s'(2) e)
    then show ?thesis
      using None path by (simp add: mem dur get resolve_proof_def s'(2) e)
  next
    case (Some x)
    with step have x: "dc_get c ?q s = Some (encode_proof isoformat (sp_proof x))"
      "sp_canonical_bytes x = canonical_json (dump_proof isoformat (sp_proof x))" by simp_all
    with document_store.create_taken [OF ds] have "dc_create c ?q (encode_proof isoformat p) s = None" by blast
    then have dur: "store_proof isoformat c p s =
        (if canonical_json (dump_proof isoformat (sp_proof x)) \<noteq> canonical_json (dump_proof isoformat p)
         then (s, Inl (ConflictingRecord ?q)) else (s, Inr False))"
      using path x(1) assms(3) by (simp add: store_proof_def encode_proof_def)
    have mem: "record_proof isoformat p store =
        (if canonical_json (dump_proof isoformat (sp_proof x)) \<noteq> canonical_json (dump_proof isoformat p)
         then (store, Inl (ProofStorageError ?ref)) else (store, Inr x))"
      using Some x(2) by (simp add: record_proof_def proof_resolve_def Let_def)
    have "resolve_proof isoformat c w (cp_proof_id p) s = Inr (Some (sp_proof x))"
      using path x(1) by (simp add: resolve_proof_def)
    with assms(2) Some show ?thesis by (simp add: mem dur)
  qed
qed

section \<open>Examples\<close>

text \<open>A session with one planned action, flushed into an empty store.\<close>

definition sample_flushed :: session where
  "sample_flushed = pilot_session
     \<lparr>sn_ledger := [(''act-1'', (sample_action AS_PLANNED)\<lparr>ax_workflow_id := ''wf-001''\<rparr>)]\<rparr>"

lemma sample_safe: "safe ''wf-001''" "safe ''act-1''" "safe ''p-1''"
  by (simp_all only: safe_def, code_simp+)

lemma sample_flushed_id: "workflow_id_of sample_flushed = ''wf-001''"
proof -
  have "''wf'' @ ''-'' @ pad_nat 3 1 = ''wf-001''" by code_simp
  with new_session_fields(3) [OF pilot_new_session] show ?thesis
    by (simp add: sample_flushed_def workflow_id_of_def)
qed

abbreviation sample_flush :: "(sink_revisions \<times> (str, cloud_document) dict) \<times> unit cloud" where
  "sample_flush \<equiv> flush_session memory_client sample_flushed ([], [])"

lemma sample_flush_succeeds: "sample_flush = ((fst (fst sample_flush), snd (fst sample_flush)), Inr ())"
proof -
  have w: "wf_workflow_id (sn_workflow sample_flushed) = ''wf-001''"
    using sample_flushed_id by (simp add: workflow_id_of_def)
  have l: "all_records (sn_ledger sample_flushed) = [(sample_action AS_PLANNED)\<lparr>ax_workflow_id := ''wf-001''\<rparr>]"
    by (simp add: sample_flushed_def all_records_def)
  have "snd sample_flush = Inr ()"
    by (simp add: flush_session_def record_workflow_def save_workflow_simps w l path_eqs sample_safe Let_def
        record_action_def save_action_def action_path_eq sample_action_def record_session_def sample_flushed_id)
  then show ?thesis by (metis prod.collapse)
qed

theorem flush_then_load_witness:
  "\<exists>actions. load_records memory_client ''wf-001'' (snd (fst sample_flush)) =
       Inr (Some ((durable_image sample_flushed 1)\<lparr>dr_actions := actions\<rparr>)) \<and>
     ax_action_id ` set actions = {''act-1''}"
proof -
  have r: "all_records (sn_ledger sample_flushed) = [(sample_action AS_PLANNED)\<lparr>ax_workflow_id := ''wf-001''\<rparr>]"
    by (simp add: sample_flushed_def all_records_def)
  have "dc_get memory_client q ([] :: (str, cloud_document) dict) = None" for q
    by (simp add: memory_client_def)
  then show ?thesis
    using flush_then_load [OF cloud_memory.cloud_store_axioms sample_flush_succeeds]
    by (auto simp: r sample_flushed_id sample_action_def stored_revision_def)
qed

text \<open>
  Two processes. When the second's first write follows the first's, the first is refused afterwards; when it
  is begun before the first's and set after it, the first writes over it.
\<close>

abbreviation no_writer :: "nat \<Rightarrow> sink_process" where
  "no_writer \<equiv> \<lambda>_. \<lparr>fs_revisions = [], fs_begun = None\<rparr>"

theorem writers_serialised_witness:
  "\<exists>s procs begun s' procs' begun'.
     written_run memory_client ''wf-001'' [BeginSave 0 (sn_workflow sample_flushed) [], FinishSave 0,
       BeginSave 1 (sn_workflow sample_flushed) [], FinishSave 1] (([], no_writer), (\<lambda>_. 0), []) =
       ((s, procs), begun, [(1, False), (0, False)]) \<and>
     isl (snd (record_workflow memory_client (sn_workflow sample_flushed) [] (fs_revisions (procs 0), s))) \<and>
     written_run memory_client ''wf-001'' [BeginSave 0 (sn_workflow sample_flushed) [],
       BeginSave 1 (sn_workflow sample_flushed) [], FinishSave 0, FinishSave 1] (([], no_writer), (\<lambda>_. 0), []) =
       ((s', procs'), begun', [(1, True), (0, False)]) \<and>
     \<not> isl (snd (record_workflow memory_client (sn_workflow sample_flushed) [] (fs_revisions (procs' 0), s')))"
proof -
  let ?w = "sn_workflow sample_flushed"
  have w: "wf_workflow_id ?w = ''wf-001''" using sample_flushed_id by (simp add: workflow_id_of_def)
  have fresh: "fresh_writers ''wf-001'' no_writer" by (simp add: fresh_writers_def)
  note run = sink_access_step_def log_access_def w path_eqs sample_safe save_checked_def next_revision_def
    set_workflow_def memory_client_def stored_revision_def Let_def
  obtain s procs begun where 1: "written_run memory_client ''wf-001'' [BeginSave 0 ?w [], FinishSave 0,
      BeginSave 1 ?w [], FinishSave 1] (([], no_writer), (\<lambda>_. 0), []) =
      ((s, procs), begun, [(1, False), (0, False)])"
    by (simp add: run)
  have refused: "isl (snd (record_workflow memory_client ?w [] (fs_revisions (procs 0), s)))"
    using writers_serialised [OF cloud_memory.cloud_store_axioms sample_safe(1) fresh 1 w, where history = "[]" and i = 0]
    by (auto split: prod.splits sum.splits)
  obtain s' procs' begun' where 2: "written_run memory_client ''wf-001'' [BeginSave 0 ?w [],
      BeginSave 1 ?w [], FinishSave 0, FinishSave 1] (([], no_writer), (\<lambda>_. 0), []) =
      ((s', procs'), begun', [(1, True), (0, False)])"
    and s': "s' = [(workflow_at ''wf-001'', WorkflowDocument \<lparr>wr_workflow = ?w, wr_state_history = [], wr_revision = 1\<rparr>)]"
    and k': "fs_revisions (procs' 0) = [(''wf-001'', 1)]"
    by (simp add: run)
  have "\<not> isl (snd (record_workflow memory_client ?w [] (fs_revisions (procs' 0), s')))"
    by (simp add: s' k' record_workflow_def save_workflow_def run)
  with 1 refused 2 show ?thesis by blast
qed

lemma dump_proof_hash:
  "canonical_json (dump_proof tf p) = canonical_json (dump_proof tf q) \<Longrightarrow>
   cp_content_hash p = cp_content_hash q"
  unfolding dump_proof_def canonical_proof_material_def json.case
  by (subst (asm) canonical_fields_iff) simp_all

text \<open>A proof recorded in two empty stores, and a different one under its id.\<close>

theorem proof_stores_agree_witness:
  "\<exists>p q. case (record_proof show_int p empty_proof_store, store_proof show_int memory_client p []) of
    ((store, r), (s, r')) \<Rightarrow> r' = Inr True \<and> \<not> isl r \<and>
      resolve_proof show_int memory_client ''wf-001'' ''p-1'' s = Inr (Some p) \<and>
      (case (record_proof show_int q store, store_proof show_int memory_client q s) of
         ((_, u), (_, u')) \<Rightarrow> isl u \<and> isl u')"
proof -
  obtain g where "generate_change_proof show_int id sample_context None = Inr g"
    using sample_context_generates by blast
  define p where "p = g\<lparr>cp_workflow_id := ''wf-001'', cp_proof_id := ''p-1'', cp_content_hash := ''h''\<rparr>"
  define q where "q = p\<lparr>cp_content_hash := ''k''\<rparr>"
  have f: "cp_workflow_id p = ''wf-001''" "cp_proof_id p = ''p-1''" "cp_workflow_id q = ''wf-001''"
    "cp_proof_id q = ''p-1''"
    by (simp_all add: p_def q_def)
  have bytes: "canonical_json (dump_proof show_int p) \<noteq> canonical_json (dump_proof show_int q)"
    using dump_proof_hash [of show_int p q] by (auto simp: p_def q_def)
  have same: "same_proofs show_int memory_client ''wf-001'' empty_proof_store []"
    by (simp add: same_proofs_def proof_resolve_def empty_proof_store_def memory_client_def)
  obtain store r where m: "record_proof show_int p empty_proof_store = (store, r)" by fastforce
  obtain s r' where d: "store_proof show_int memory_client p [] = (s, r')" by fastforce
  have none: "proof_resolve i empty_proof_store = None" for i
    by (simp add: proof_resolve_def empty_proof_store_def)
  have 1: "same_proofs show_int memory_client ''wf-001'' store s" "isl r \<longleftrightarrow> isl r'" "r' = Inr True"
    "resolve_proof show_int memory_client ''wf-001'' ''p-1'' s =
       Inr (map_option sp_proof (proof_resolve (proof_ref ''p-1'') store))"
    using proof_stores_agree [OF cloud_memory.cloud_store_axioms same f(1) sample_safe(1)] sample_safe(3)
    by (simp_all add: f m d none)
  obtain store2 u where m2: "record_proof show_int q store = (store2, u)" by fastforce
  obtain s2 u' where d2: "store_proof show_int memory_client q s = (s2, u')" by fastforce
  have u: "isl u \<longleftrightarrow> isl u'"
    using proof_stores_agree [OF cloud_memory.cloud_store_axioms 1(1) f(3) sample_safe(1)] sample_safe(3)
    by (simp add: f m2 d2)
  have st: "store = \<lparr>pt_proofs = [(proof_ref ''p-1'', store_entry show_int p)],
      pt_by_workflow = [(''wf-001'', proof_ref ''p-1'')], pt_order = [proof_ref ''p-1'']\<rparr>"
    using m by (simp add: record_proof_def empty_proof_store_def f Let_def)
  have "isl u"
    using m2 bytes by (auto simp: record_proof_def st f store_entry_def Let_def split: if_splits)
  moreover have "map_option sp_proof (proof_resolve (proof_ref ''p-1'') store) = Some p"
    by (simp add: st proof_resolve_def store_entry_def)
  ultimately show ?thesis
    using 1(2-4) by - (rule exI [of _ p], rule exI [of _ q], simp add: m d m2 d2 u [symmetric])
qed

end
