(* ===== verification/Runtime_Properties.thy ===== *)
theory Runtime_Properties
  imports Pubsub Ingestion Cloud_Properties
begin

text \<open>
  One change, one workflow: what several processes over one store may do, in any order, never gives a change
  a second workflow; and where the ingestion fails to keep this up.
\<close>

section \<open>The writes of a new workflow\<close>

abbreviation input_at :: "str \<Rightarrow> str" where
  "input_at w \<equiv> WORKFLOW_INPUTS @ CHR ''/'' # w"

lemma input_path_eq: "input_path w = (if safe w then Inr (input_at w) else Inl (IdentifierRejected w))"
  by (simp add: input_path_def safe_identifier_eq)

lemma input_differs [simp]:
  "input_at w \<noteq> key_at k" "key_at k \<noteq> input_at w" "input_at w \<noteq> workflow_at v" "workflow_at v \<noteq> input_at w"
  by (simp_all add: collections WORKFLOW_INPUTS_def)

lemma inputs_differ [simp]: "WORKFLOWS \<noteq> WORKFLOW_INPUTS" "WORKFLOW_INPUTS \<noteq> WORKFLOWS"
  by (simp_all add: collections WORKFLOW_INPUTS_def)

lemma strip_by_unpadded: "list_all (\<lambda>c. \<not> p c) v \<Longrightarrow> strip_by p v = v"
proof -
  assume n: "list_all (\<lambda>c. \<not> p c) v"
  then have "dropWhile p v = v" "dropWhile p (rev v) = rev v"
    by (simp_all add: dropWhile_eq_self_iff list_all_iff) (metis last_in_set rev_rev_ident hd_rev)
  then show ?thesis by (simp add: strip_by_def)
qed

text \<open>A padded change id has no key.\<close>

lemma unpadded:
  assumes "safe (change_key change_id)" shows "py_strip change_id = change_id"
proof -
  have "list_all (\<lambda>c. \<not> py_space c) (change_key change_id)"
    using assms safe_identifier_no_space [of "change_key change_id"] by (simp add: safe_def)
  then show ?thesis by (simp add: change_key_def py_strip_def strip_by_unpadded)
qed

context cloud_store
begin

lemma claim_key_cases:
  assumes "claim_key c k w s = (s', r)"
  obtains (unsafe) "\<not> safe k" "s' = s" "r = Inl (IdentifierRejected k)"
  | (taken) d where "safe k" "dc_get c (key_at k) s = Some d" "s' = s" "isl r \<or> stored_owner (Some d) = Some w"
  | (claimed) "safe k" "dc_get c (key_at k) s = None" "r = Inr True"
      "\<And>q. dc_get c q s' = (if q = key_at k then Some (KeyDocument k w) else dc_get c q s)"
proof (cases "safe k")
  case True
  show ?thesis
  proof (cases "dc_get c (key_at k) s")
    case None
    with True assms show ?thesis
      using create_free [OF None, of "KeyDocument k w"]
      by (intro claimed) (auto simp: claim_key_def path_eqs)
  next
    case (Some d)
    with True assms show ?thesis
      using create_taken [OF Some, of "KeyDocument k w"]
      by (intro taken [of d]) (auto simp: claim_key_def path_eqs split: if_splits)
  qed
qed (use assms unsafe in \<open>auto simp: claim_key_def path_eqs\<close>)

lemma write_input_preserves:
  assumes "\<forall>q. dc_get c q s' = (if q = input_at w then Some d else dc_get c q s)"
  shows "preserves c s s'"
  using assms by (simp add: preserves_def workflow_stored_def)

end

section \<open>Opening a workflow\<close>

text \<open>The processes share one store.\<close>

locale api_store = cloud_store "ae_client e" for e :: "('s, 't) api_env"
begin

lemma write_workflow_effect:
  assumes "write_workflow e w (p, s) = ((p', s'), r)" and "rt_durable p"
  shows "rt_durable p'" "rt_known_changes p' = rt_known_changes p" "preserves (ae_client e) s s'"
    "\<exists>k. p' = p\<lparr>rt_revisions := k\<rparr>"
    "r = Inr x \<Longrightarrow> safe (wf_workflow_id w)"
    "r = Inr x \<Longrightarrow> workflow_stored (ae_client e) (wf_workflow_id w) s'"
proof -
  obtain k s1 r1 where run: "record_workflow (ae_client e) w [] (rt_revisions p, s) = ((k, s1), r1)"
    by (metis prod.exhaust)
  have eq: "p' = p\<lparr>rt_revisions := k\<rparr>" "s' = s1" "r = of_cloud r1"
    using assms run by (simp_all add: write_workflow_def)
  have sf: "safe (wf_workflow_id w)" if "r1 = Inr u" for u
  proof (rule ccontr)
    assume "\<not> safe (wf_workflow_id w)"
    with run that show False by (simp add: record_workflow_def save_workflow_simps path_eqs)
  qed
  have st: "workflow_stored (ae_client e) (wf_workflow_id w) s1" if "r1 = Inr u" for u
    using run sf [OF that]
  proof (cases rule: record_workflow_cases)
    case (written n)
    then show ?thesis by (simp add: workflow_stored_def)
  qed (use that in simp)
  show "rt_durable p'" "rt_known_changes p' = rt_known_changes p" "preserves (ae_client e) s s'"
    "\<exists>k. p' = p\<lparr>rt_revisions := k\<rparr>"
    using record_workflow_preserves [OF run] assms(2) by (auto simp: eq)
  show "r = Inr x \<Longrightarrow> safe (wf_workflow_id w)"
    "r = Inr x \<Longrightarrow> workflow_stored (ae_client e) (wf_workflow_id w) s'"
    using sf st by (auto simp: eq)
qed

lemma record_input_effect:
  assumes "record_input e w payload (p, s) = ((p', s'), r)" and "rt_durable p"
  shows "p' = p" "preserves (ae_client e) s s'"
  using assms write_input_preserves [of s' w _ s]
  by (auto simp: record_input_def input_path_eq get_set split: if_splits)

text \<open>The state in which the change is claimed, and the claim; before it nothing of another change moves.\<close>

lemma open_workflow_cases:
  assumes "open_workflow e payload d secret created updated (p, s) = ((p', s'), r)" and "rt_durable p"
  obtains (early) x where "r = Inl x" "rt_known_changes p' = rt_known_changes p" "rt_durable p'"
      "preserves (ae_client e) s s'"
  | (claimed) w s1 q where "safe w" "workflow_stored (ae_client e) w s1" "preserves (ae_client e) s s1"
      "claim_key (ae_client e) (change_key (pd_change_id d)) w s1 = (s', q)" "rt_durable p'"
      "rt_known_changes p' = dict_put (pd_change_id d) w (rt_known_changes p)"
      "case q of Inl x \<Rightarrow> r = Inl (ApiCloud x)
       | Inr _ \<Rightarrow> (\<exists>st. r = Inr \<lparr>an_workflow_id = w, an_state = st, an_duplicate_of = None,
                               an_outcome = NEW_LOGICAL_CHANGE\<rparr>)"
proof -
  let ?p1 = "p\<lparr>rt_sequence := rt_sequence p + 1\<rparr>"
  show ?thesis
  proof (cases "new_session (ae_pf e) (rt_namespace p @ ''-'' @ pad_nat 3 (rt_sequence p + 1)) 1 d None secret
      created updated []")
    case (Inl x)
    with assms show ?thesis by (intro early) (auto simp: open_workflow_def Let_def)
  next
    case (Inr session)
    let ?w = "workflow_id_of session"
    let ?p2 = "?p1\<lparr>rt_services := dict_put ?w session (rt_services p)\<rparr>"
    define rec where "rec = \<lparr>an_workflow_id = ?w, an_state = wf_state (sn_workflow session),
      an_duplicate_of = None, an_outcome = NEW_LOGICAL_CHANGE\<rparr>"
    obtain p3 s3 r3 where w: "write_workflow e (sn_workflow session) (?p2, s) = ((p3, s3), r3)"
      by (metis prod.exhaust)
    obtain p4 s4 r4 where i: "record_input e ?w payload (p3, s3) = ((p4, s4), r4)" by (metis prod.exhaust)
    obtain s5 q where c: "claim_key (ae_client e) (change_key (pd_change_id d)) ?w s4 = (s5, q)" by fastforce
    have d2: "rt_durable ?p2" using assms(2) by simp
    note w_eff = write_workflow_effect [OF w d2]
    note i_eff = record_input_effect [OF i w_eff(1)]
    note pr = preserves_trans [OF w_eff(3) i_eff(2)]
    have out: "claim_change e (pd_change_id d) ?w (p3, s4) =
        ((p3\<lparr>rt_known_changes := dict_put (pd_change_id d) ?w (rt_known_changes p3)\<rparr>, s5),
         case q of Inl x \<Rightarrow> Inl (ApiCloud x) | Inr _ \<Rightarrow> Inr ())"
      using w_eff(1) c by (simp add: claim_change_def Let_def of_cloud_def api_bind_def split: sum.splits)
    have "open_workflow e payload d secret created updated (p, s) =
        (case and_then (write_workflow e (sn_workflow session))
            (and_then (record_input e ?w payload) (claim_change e (pd_change_id d) ?w)) (?p2, s) of
           (ps', Inl x) \<Rightarrow> (ps', Inl x) | (ps', Inr _) \<Rightarrow> (ps', Inr rec))"
      unfolding rec_def by (simp add: open_workflow_def Let_def Inr [simplified] register_service_def)
    also have "\<dots> = (case r3 of Inl x \<Rightarrow> ((p3, s3), Inl x) | Inr _ \<Rightarrow> (case r4 of Inl x \<Rightarrow> ((p3, s4), Inl x)
        | Inr _ \<Rightarrow> ((p3\<lparr>rt_known_changes := dict_put (pd_change_id d) ?w (rt_known_changes p3)\<rparr>, s5),
            case q of Inl x \<Rightarrow> Inl (ApiCloud x) | Inr _ \<Rightarrow> Inr rec)))"
      unfolding and_then_def w prod.case
      by (cases r3; cases r4; cases q) (simp_all only: i i_eff(1) out prod.case sum.case)
    finally have run: "((p', s'), r) = \<dots>" using assms(1) by simp
    show ?thesis
    proof (cases "(\<exists>u. r3 = Inr u) \<and> (\<exists>v. r4 = Inr v)")
      case True
      then obtain u v where r34: "r3 = Inr u" "r4 = Inr v" by blast
      have sf: "safe ?w" "workflow_stored (ae_client e) ?w s4"
        using w_eff(5,6) [OF r34(1)] i_eff(2) safe_no_slash [of ?w] by (auto simp: preserves_def workflow_id_of_def)
      from run r34 have ran: "p' = p3\<lparr>rt_known_changes := dict_put (pd_change_id d) ?w (rt_known_changes p3)\<rparr>"
        "s' = s5" "r = (case q of Inl x \<Rightarrow> Inl (ApiCloud x) | Inr _ \<Rightarrow> Inr rec)" by simp_all
      have c': "claim_key (ae_client e) (change_key (pd_change_id d)) ?w s4 = (s', q)" using c ran(2) by simp
      have "rt_durable p'" using ran(1) w_eff(1) by simp
      moreover have "rt_known_changes p' = dict_put (pd_change_id d) ?w (rt_known_changes p)"
        by (simp add: ran(1) w_eff(2))
      moreover have "case q of Inl x \<Rightarrow> r = Inl (ApiCloud x)
          | Inr _ \<Rightarrow> (\<exists>st. r = Inr \<lparr>an_workflow_id = ?w, an_state = st, an_duplicate_of = None,
                               an_outcome = NEW_LOGICAL_CHANGE\<rparr>)"
        using ran(3) by (cases q) (auto simp: rec_def)
      ultimately show ?thesis by (rule claimed [OF sf pr c'])
    next
      case False
      then obtain x where "r = Inl x" "p' = p3" "s' = s3 \<or> s' = s4"
        using run by (cases r3; cases r4) auto
      with w_eff(1-3) pr show ?thesis by (intro early) auto
    qed
  qed
qed

end

section \<open>Runs of several processes\<close>

text \<open>
  Processes over one durable store, in any order: a change is delivered to one of them, a process resumes a
  workflow, a live session is flushed, a proof is stored, a process is replaced by a new one. The log names
  the change ids that were answered, newest first. No change was claimed at the beginning.
\<close>

inductive service_run ::
  "('s, 't) api_env \<Rightarrow> (nat \<Rightarrow> process) \<times> 's \<times> (str \<times> acceptance) list \<Rightarrow> bool" for e where
  booted: "(\<And>k. dc_get (ae_client e) (key_at k) s = None) \<Longrightarrow>
    (\<And>i. rt_durable (ps i) \<and> rt_known_changes (ps i) = []) \<Longrightarrow> service_run e (ps, s, [])"
| accepted: "service_run e (ps, s, done_so_far) \<Longrightarrow>
    accept_change e payload secret created updated (ps i, s) = ((p, s'), Inr a) \<Longrightarrow>
    service_run e (ps(i := p), s', (delivered_change_id e payload, a) # done_so_far)"
| failed: "service_run e (ps, s, done_so_far) \<Longrightarrow>
    accept_change e payload secret created updated (ps i, s) = ((p, s'), Inl x) \<Longrightarrow>
    service_run e (ps(i := p), s', done_so_far)"
| resumed: "service_run e (ps, s, done_so_far) \<Longrightarrow>
    resume e workflow_id owner token now secret created updated s (ps i, t) = ((p, t'), r) \<Longrightarrow>
    service_run e (ps(i := p), s, done_so_far)"
| flushed: "service_run e (ps, s, done_so_far) \<Longrightarrow>
    flush_session (ae_client e) session (rt_revisions (ps i), s) = ((k, s'), r') \<Longrightarrow>
    service_run e (ps(i := ps i\<lparr>rt_revisions := k,
      rt_services := dict_put (workflow_id_of session) session (rt_services (ps i))\<rparr>), s', done_so_far)"
| proof_stored: "service_run e (ps, s, done_so_far) \<Longrightarrow>
    store_proof (pf_isoformat (ae_pf e)) (ae_client e) change_proof s = (s', b) \<Longrightarrow>
    service_run e (ps, s', done_so_far)"
| replaced: "service_run e (ps, s, done_so_far) \<Longrightarrow>
    service_run e (ps(i := new_process True namespace instance_id), s, done_so_far)"

definition change_owner :: "('s, 't) api_env \<Rightarrow> str \<Rightarrow> 's \<Rightarrow> str option" where
  "change_owner e change_id s = stored_owner (dc_get (ae_client e) (key_at (change_key change_id)) s)"

definition keys_ok :: "('s, 't) api_env \<Rightarrow> 's \<Rightarrow> bool" where
  "keys_ok e s \<longleftrightarrow> (\<forall>k d. dc_get (ae_client e) (key_at k) s = Some d \<longrightarrow>
     (\<exists>w. d = KeyDocument k w \<and> safe w \<and> workflow_stored (ae_client e) w s))"

definition process_ok :: "('s, 't) api_env \<Rightarrow> 's \<Rightarrow> process \<Rightarrow> bool" where
  "process_ok e s p \<longleftrightarrow> rt_durable p \<and>
     (\<forall>k. dict_get (rt_known_changes p) k \<noteq> None \<and> safe (change_key k) \<longrightarrow> change_owner e k s \<noteq> None)"

definition answered_ok :: "('s, 't) api_env \<Rightarrow> 's \<Rightarrow> (str \<times> acceptance) list \<Rightarrow> bool" where
  "answered_ok e s done_so_far \<longleftrightarrow>
     (\<forall>(change_id, a) \<in> set done_so_far. change_id \<noteq> [] \<and> safe (change_key change_id) \<and>
        change_owner e change_id s = Some (an_workflow_id a)) \<and>
     distinct (map fst (filter (\<lambda>(_, a). an_duplicate_of a = None) done_so_far))"

lemmas run_invariants = keys_ok_def process_ok_def answered_ok_def change_owner_def

context api_store
begin

lemma preserved_owner: "preserves (ae_client e) s s' \<Longrightarrow> change_owner e k s' = change_owner e k s"
  by (simp add: preserves_def change_owner_def)

lemma preserved_keys: "preserves (ae_client e) s s' \<Longrightarrow> keys_ok e s \<Longrightarrow> keys_ok e s'"
  unfolding preserves_def keys_ok_def by (metis safe_no_slash)

lemma preserved_process:
  "preserves (ae_client e) s s' \<Longrightarrow> process_ok e s p \<Longrightarrow> rt_durable p' \<Longrightarrow>
     rt_known_changes p' = rt_known_changes p \<Longrightarrow> process_ok e s' p'"
  by (simp add: process_ok_def preserved_owner)

lemma preserved_process_same: "preserves (ae_client e) s s' \<Longrightarrow> process_ok e s p \<Longrightarrow> process_ok e s' p"
  by (simp add: process_ok_def preserved_owner)

lemma preserved_answers: "preserves (ae_client e) s s' \<Longrightarrow> answered_ok e s l \<Longrightarrow> answered_ok e s' l"
  by (simp add: answered_ok_def preserved_owner)

lemma owned_change:
  assumes "keys_ok e s" and "change_owner e k s = Some w"
  shows "safe w" "workflow_stored (ae_client e) w s"
  using assms by (fastforce simp: keys_ok_def change_owner_def stored_owner_def split: option.splits)+

text \<open>A claim on a free key, and what it leaves alone.\<close>

lemma claimed_effects:
  assumes "dc_get (ae_client e) (key_at k) s = None" and "safe w" and "workflow_stored (ae_client e) w s"
    and s': "\<And>q. dc_get (ae_client e) q s' = (if q = key_at k then Some (KeyDocument k w) else dc_get (ae_client e) q s)"
  shows "keys_ok e s \<Longrightarrow> keys_ok e s'"
    and "process_ok e s p \<Longrightarrow> process_ok e s' p" and "change_owner e j s = Some v \<Longrightarrow> change_owner e j s' = Some v"
    and "k = change_key j \<Longrightarrow> change_owner e j s' = Some w"
proof -
  have st: "workflow_stored (ae_client e) v s \<Longrightarrow> workflow_stored (ae_client e) v s'" for v
    by (simp add: workflow_stored_def s')
  show "keys_ok e s'" if ok: "keys_ok e s"
    unfolding keys_ok_def
  proof (intro allI impI)
    fix j d assume d: "dc_get (ae_client e) (key_at j) s' = Some d"
    show "\<exists>v. d = KeyDocument j v \<and> safe v \<and> workflow_stored (ae_client e) v s'"
    proof (cases "j = k")
      case True
      with d s' have "d = KeyDocument j w" by simp
      with assms(2) st [OF assms(3)] show ?thesis by blast
    next
      case False
      with d s' have "dc_get (ae_client e) (key_at j) s = Some d" by simp
      with ok obtain v where "d = KeyDocument j v" "safe v" "workflow_stored (ae_client e) v s"
        unfolding keys_ok_def by blast
      with st show ?thesis by blast
    qed
  qed
  show keep: "change_owner e j s = Some v \<Longrightarrow> change_owner e j s' = Some v" for j v
    using assms(1) by (auto simp: change_owner_def s' stored_owner_def)
  show "process_ok e s p \<Longrightarrow> process_ok e s' p"
    unfolding process_ok_def using keep by blast
  show "k = change_key j \<Longrightarrow> change_owner e j s' = Some w"
    by (simp add: change_owner_def s' stored_owner_def)
qed

end

context api_store
begin

lemma classified:
  assumes "process_ok e s p"
  obtains (no_key) x where "\<not> safe (change_key k)" "classify_change e p k s = Inl x"
  | (decided) dec where "safe (change_key k)" "classify_change e p k s = Inr dec"
      "ced_existing_workflow_id dec = change_owner e k s"
proof (cases "safe (change_key k)")
  case True
  have o: "durable_owner e p k s = Inr (change_owner e k s)"
    using assms True by (simp add: durable_owner_def process_ok_def owner_of_def path_eqs change_owner_def)
  have "dict_get (rt_known_changes p) k = None" if "change_owner e k s = None"
    using assms True that by (auto simp: process_ok_def)
  then show ?thesis using True
    by (intro decided)
      (auto simp: classify_change_def o api_bind_def classify_change_event_def change_id_probe_def split: option.splits)
next
  case False
  with assms show ?thesis
    by (intro no_key)
      (auto simp: classify_change_def durable_owner_def process_ok_def owner_of_def path_eqs of_cloud_def api_bind_def)
qed

lemma delivered_text:
  assumes "dataset_from_fixture (ae_render e) (ae_directory e) payload = Inr d"
  shows "delivered_change_id e payload = py_strip (pd_change_id d)" "delivered_change_id e payload \<noteq> []"
proof -
  show "delivered_change_id e payload = py_strip (pd_change_id d)"
    using dataset_texts(2) [OF assms] by (simp add: delivered_change_id_def json_default_def py_str_def)
  with dataset_change_id_nonblank [OF assms] show "delivered_change_id e payload \<noteq> []"
    by (simp add: blank_def)
qed

lemma accept_change_cases:
  assumes run: "accept_change e payload secret created updated (p, s) = ((p', s'), r)"
    and ok: "process_ok e s p" "keys_ok e s"
  defines "k \<equiv> delivered_change_id e payload"
  obtains (refused) x where "r = Inl x" "preserves (ae_client e) s s'" "process_ok e s' p'"
  | (duplicate) a where "r = Inr a" "p' = p" "s' = s" "an_duplicate_of a = Some (an_workflow_id a)"
      "change_owner e k s = Some (an_workflow_id a)" "k \<noteq> []" "safe (change_key k)"
  | (new) a where "r = Inr a" "an_duplicate_of a = None" "change_owner e k s = None" "k \<noteq> []"
      "safe (change_key k)" "change_owner e k s' = Some (an_workflow_id a)" "keys_ok e s'" "process_ok e s' p'"
      "\<And>q. process_ok e s q \<Longrightarrow> process_ok e s' q"
      "\<And>j v. change_owner e j s = Some v \<Longrightarrow> change_owner e j s' = Some v"
proof -
  have durable: "rt_durable p" using ok(1) by (simp add: process_ok_def)
  have fresh: thesis
    if ing: "ingest_payload e payload secret created updated (p, s) = ((p', s'), r)"
      and free: "k \<noteq> [] \<Longrightarrow> safe (change_key k) \<and> change_owner e k s = None"
  proof (cases "dataset_from_fixture (ae_render e) (ae_directory e) payload")
    case (Inl x)
    with ing ok show thesis by (intro refused) (auto simp: ingest_payload_def)
  next
    case (Inr d)
    note k = delivered_text [OF Inr, folded k_def]
    from free [OF k(2)] have sk: "safe (change_key k)" and none: "change_owner e k s = None" by simp_all
    have op: "open_workflow e payload d secret created updated (p, s) = ((p', s'), r)"
      using ing Inr by (simp add: ingest_payload_def)
    from op durable show thesis
    proof (cases rule: open_workflow_cases)
      case (early x)
      show thesis
        by (rule refused [OF early(1,4) preserved_process [OF early(4) ok(1) early(3,2)]])
    next
      case (claimed w s1 q)
      note s1 = preserved_keys [OF claimed(3) ok(2)]
      from claimed(4) show thesis
      proof (cases rule: claim_key_cases)
        case unsafe
        have "process_ok e s' p'"
          using ok(1) claimed(3,5,6) unsafe(1,2) by (auto simp: process_ok_def preserved_owner)
        moreover have "r = Inl (ApiCloud (IdentifierRejected (change_key (pd_change_id d))))"
          using claimed(7) unsafe(3) by simp
        ultimately show thesis using claimed(3) unsafe(2) by (intro refused) simp_all
      next
        case (taken doc)
        then have "pd_change_id d = k" using unpadded k(1) by simp
        then have "dc_get (ae_client e) (key_at (change_key k)) s = Some doc"
          using taken claimed(3) by (simp add: preserves_def)
        with ok(2) none show thesis by (fastforce simp: keys_ok_def change_owner_def stored_owner_def)
      next
        case claimed': claimed
        have id: "pd_change_id d = k" using unpadded [OF claimed'(1)] k(1) by simp
        note eff = claimed_effects [OF claimed'(2) claimed(1,2) claimed'(4)]
        obtain st where r: "r = Inr \<lparr>an_workflow_id = w, an_state = st, an_duplicate_of = None,
            an_outcome = NEW_LOGICAL_CHANGE\<rparr>" using claimed(7) claimed'(3) by auto
        have owner: "change_owner e k s' = Some w" using eff(4) id by simp
        have pok: "process_ok e s' q'" if "process_ok e s q'" for q'
          by (rule eff(2)) (rule preserved_process_same [OF claimed(3) that])
        have "process_ok e s' p'"
          using pok [OF ok(1)] claimed(5,6) owner id by (auto simp: process_ok_def)
        moreover have "change_owner e j s' = Some v" if "change_owner e j s = Some v" for j v
          using eff(3) that by (simp add: preserved_owner [OF claimed(3)])
        ultimately show thesis
          using r none k(2) sk owner eff(1) [OF s1] pok
          by (intro new [of "\<lparr>an_workflow_id = w, an_state = st, an_duplicate_of = None,
            an_outcome = NEW_LOGICAL_CHANGE\<rparr>"]) simp_all
      qed
    qed
  qed
  show thesis
  proof (cases "k = []")
    case True
    with run fresh show thesis by (simp add: accept_change_def k_def Let_def)
  next
    case False
    from ok(1) show thesis
    proof (cases rule: classified [where k = k])
      case (no_key x)
      with run False ok show thesis by (intro refused) (auto simp: accept_change_def k_def Let_def)
    next
      case (decided dec)
      show thesis
      proof (cases "change_owner e k s")
        case None
        with run False decided fresh show thesis by (simp add: accept_change_def k_def Let_def)
      next
        case (Some w)
        with run False decided have eq: "p' = p" "s' = s" "r = api_bind (status e p w s) (\<lambda>st. Inr
            \<lparr>an_workflow_id = w, an_state = wf_state (ws_workflow st), an_duplicate_of = Some w,
             an_outcome = CHANGE_TRANSPORT_DUPLICATE\<rparr>)"
          by (auto simp: accept_change_def k_def Let_def)
        show thesis
        proof (cases r)
          case (Inl x)
          show thesis by (rule refused [OF Inl]) (use eq(1,2) ok in simp_all)
        next
          case (Inr a)
          with eq(3) have "an_workflow_id a = w" "an_duplicate_of a = Some w"
            by (cases "status e p w s"; simp add: api_bind_def)+
          with Inr eq(1,2) Some False decided show thesis by (intro duplicate [of a]) auto
        qed
      qed
    qed
  qed
qed

lemma service_run_ok:
  assumes "service_run e x"
  shows "case x of (ps, s, answers) \<Rightarrow> keys_ok e s \<and> (\<forall>i. process_ok e s (ps i)) \<and> answered_ok e s answers"
  using assms
proof induction
  case (booted s ps)
  then show ?case by (simp add: run_invariants)
next
  case (accepted ps s done_so_far payload secret created updated i p s' a)
  then have ok: "keys_ok e s" "\<And>i. process_ok e s (ps i)" "answered_ok e s done_so_far" by simp_all
  from accepted.hyps(2) ok(2) ok(1) show ?case
  proof (cases rule: accept_change_cases)
    case (duplicate b)
    with ok show ?thesis by (auto simp: answered_ok_def)
  next
    case (new b)
    have "delivered_change_id e payload \<notin> fst ` set done_so_far"
      using ok(3) new(3) by (fastforce simp: answered_ok_def)
    with new ok show ?thesis by (fastforce simp: answered_ok_def)
  qed simp
next
  case (failed ps s done_so_far payload secret created updated i p s' x)
  then have ok: "keys_ok e s" "\<And>i. process_ok e s (ps i)" "answered_ok e s done_so_far" by simp_all
  from failed.hyps(2) ok(2) ok(1) show ?case
  proof (cases rule: accept_change_cases)
    case (refused x)
    have "process_ok e s' (ps j)" for j
      by (rule preserved_process_same [OF refused(2) ok(2)])
    with refused ok show ?thesis using preserved_keys preserved_answers by auto
  qed simp_all
next
  case (resumed ps s done_so_far workflow_id owner token now secret created updated i t p t' r)
  have "rt_durable p = rt_durable (ps i) \<and> rt_known_changes p = rt_known_changes (ps i)"
    using resumed.hyps(2)
    by (auto simp: resume_def Let_def split: option.splits if_splits sum.splits eligibility.splits prod.splits
        lease_error.splits)
  with resumed.IH show ?case by (auto simp: process_ok_def)
next
  case (flushed ps s done_so_far session i k s' r')
  note pr = flush_session_preserves [OF flushed.hyps(2)]
  have "process_ok e s' (ps i\<lparr>rt_revisions := k,
      rt_services := dict_put (workflow_id_of session) session (rt_services (ps i))\<rparr>)"
    by (rule preserved_process [OF pr]) (use flushed.IH in \<open>auto simp: process_ok_def\<close>)
  with flushed.IH show ?case
    using preserved_keys [OF pr] preserved_answers [OF pr] preserved_process_same [OF pr] by auto
next
  case (proof_stored ps s done_so_far change_proof s' b)
  note pr = store_proof_preserves [OF proof_stored.hyps(2)]
  from proof_stored.IH show ?case
    using preserved_keys [OF pr] preserved_answers [OF pr] preserved_process_same [OF pr] by auto
next
  case (replaced ps s done_so_far namespace instance_id i)
  then show ?case by (auto simp: process_ok_def new_process_def)
qed

end

section \<open>One workflow for a change\<close>

text \<open>C3. A change has one workflow. After any run of any number of processes over one store, at most one
  answer for a change id reported a new change, every answer for it named the same workflow - the one that
  owns the change's key - and that workflow is in the store.\<close>

theorem one_workflow_per_change:
  assumes "cloud_store (ae_client e)" and "service_run e (ps, s, answers)"
  shows "distinct (map fst (filter (\<lambda>(_, a). an_duplicate_of a = None) answers)) \<and>
    (\<forall>(change_id, a) \<in> set answers.
       owner_of (ae_client e) (change_key change_id) s = Inr (Some (an_workflow_id a)) \<and>
       (\<exists>r. load_record (ae_client e) (an_workflow_id a) s = Inr (Some r)))"
proof -
  have store: "api_store e" using assms(1) by (simp add: api_store_def)
  from api_store.service_run_ok [OF store assms(2)] have ok: "keys_ok e s" "answered_ok e s answers" by simp_all
  have "owner_of (ae_client e) (change_key change_id) s = Inr (Some (an_workflow_id a)) \<and>
      (\<exists>r. load_record (ae_client e) (an_workflow_id a) s = Inr (Some r))"
    if "(change_id, a) \<in> set answers" for change_id a
  proof -
    from ok(2) that have c: "safe (change_key change_id)" "change_owner e change_id s = Some (an_workflow_id a)"
      by (auto simp: answered_ok_def)
    from api_store.owned_change [OF store ok(1) c(2)] c show ?thesis
      by (auto simp: owner_of_def path_eqs change_owner_def workflow_stored_def load_record_def
          decode_workflow_record_def)
  qed
  with ok(2) show ?thesis by (auto simp: answered_ok_def)
qed

context api_store
begin

lemma stored_status:
  assumes "rt_durable p" and "safe w" and "workflow_stored (ae_client e) w s"
  shows "\<exists>st. status e p w s = Inr st"
proof (cases "dict_get (rt_services p) w")
  case None
  from assms obtain r where "durable_record e p w s = Inr (Some r)"
    by (auto simp: durable_record_def load_record_def path_eqs workflow_stored_def decode_workflow_record_def)
  moreover have "\<exists>x. stored_snapshot e p w s = Inr x"
    using assms(1,2) by (simp add: stored_snapshot_def path_eqs of_cloud_def)
  ultimately show ?thesis using None by (auto simp: status_def)
qed (simp add: status_def)

lemma owned_is_answered:
  assumes ok: "process_ok e s p" "keys_ok e s" and k: "delivered_change_id e payload \<noteq> []"
    "safe (change_key (delivered_change_id e payload))"
    "change_owner e (delivered_change_id e payload) s = Some w"
  shows "\<exists>state. accept_change e payload secret created updated (p, s) =
    ((p, s), Inr \<lparr>an_workflow_id = w, an_state = state, an_duplicate_of = Some w,
                  an_outcome = CHANGE_TRANSPORT_DUPLICATE\<rparr>)"
proof -
  let ?k = "delivered_change_id e payload"
  from ok(1) k(2) obtain dec where dec: "classify_change e p ?k s = Inr dec" "ced_existing_workflow_id dec = Some w"
    by (cases rule: classified [where k = ?k]) (auto simp: k)
  from ok(1) owned_change [OF ok(2) k(3)] obtain st where st: "status e p w s = Inr st"
    using stored_status [of p w s] by (auto simp: process_ok_def)
  show ?thesis using k(1) dec by (simp add: accept_change_def Let_def st api_bind_def)
qed

end

text \<open>C5. A redelivery is answered, and does nothing. Once a change id has been answered, every process of the
  run, restarted ones included, answers any payload that carries the id with the same workflow, as a
  duplicate, and neither the process nor the store changes.\<close>

theorem redelivery_answered:
  assumes "cloud_store (ae_client e)" and "service_run e (ps, s, answers)"
    and "(delivered_change_id e payload, a) \<in> set answers"
  shows "\<exists>state. accept_change e payload secret created updated (ps i, s) =
    ((ps i, s), Inr \<lparr>an_workflow_id = an_workflow_id a, an_state = state,
                     an_duplicate_of = Some (an_workflow_id a), an_outcome = CHANGE_TRANSPORT_DUPLICATE\<rparr>)"
proof -
  have store: "api_store e" using assms(1) by (simp add: api_store_def)
  from api_store.service_run_ok [OF store assms(2)]
  have "keys_ok e s" "process_ok e s (ps i)" "answered_ok e s answers" by simp_all
  with assms(3) show ?thesis
    by (intro api_store.owned_is_answered [OF store]) (auto simp: answered_ok_def)
qed

text \<open>C7. An acknowledgement is never given for a write that did not happen. Whatever the processes have done
  before, a push that is answered 200 leaves the change of its payload with a durable owner, the workflow it
  names, and that workflow in the store; a push refused as permanently invalid leaves keys and stored
  workflows as they are.\<close>

theorem acknowledged_is_stored:
  assumes "cloud_store (ae_client e)" and "service_run e (ps, s, answers)"
    and "push e decoder body secret created updated (ps i, s) = ((p, s'), response)"
  shows "case response of
      Acknowledged a _ \<Rightarrow> \<exists>payload r. owner_of (ae_client e) (change_key (delivered_change_id e payload)) s' =
          Inr (Some (an_workflow_id a)) \<and>
        (\<exists>b text message. body = Some (JObj b) \<and> dict_get b ''message'' = Some (JObj message) \<and>
           dict_get message ''data'' = Some (JStr text) \<and> decoder text = Inr (JObj payload)) \<and>
        load_record (ae_client e) (an_workflow_id a) s' = Inr (Some r)
    | PermanentlyRejected _ \<Rightarrow> preserves (ae_client e) s s'
    | TransientFailure \<Rightarrow> True"
proof -
  have store: "api_store e" using assms(1) by (simp add: api_store_def)
  from api_store.service_run_ok [OF store assms(2)]
  have ok: "keys_ok e s" "process_ok e s (ps i)" by simp_all
  show ?thesis
  proof (cases "\<exists>b envelope. body = Some b \<and> decode_envelope (ae_render e) decoder b = Inr envelope")
    case False
    with assms(3) show ?thesis
      by (auto simp: push_def split: option.splits sum.splits envelope_error.splits)
  next
    case True
    then obtain j envelope where j: "body = Some j" "decode_envelope (ae_render e) decoder j = Inr envelope" by blast
    then obtain r where acc: "accept_change e (ev_payload envelope) secret created updated (ps i, s) = ((p, s'), r)"
      and response: "response = push_answer (ev_message_id envelope) r"
      using assms(3) by (auto simp: push_def split: prod.splits)
    have carried: "\<exists>b text message. body = Some (JObj b) \<and> dict_get b ''message'' = Some (JObj message) \<and>
        dict_get message ''data'' = Some (JStr text) \<and> decoder text = Inr (JObj (ev_payload envelope))"
      using j by (auto simp: decode_envelope_def decode_payload_def is_object_def json_or_null_def
          split: option.splits json.splits sum.splits if_splits)
    have stored: "owner_of (ae_client e) (change_key k) x = Inr (Some w) \<and>
        (\<exists>r. load_record (ae_client e) w x = Inr (Some r))"
      if "safe (change_key k)" "change_owner e k x = Some w" "keys_ok e x" for k w x
      using api_store.owned_change [OF store that(3,2)] that(1,2)
      by (auto simp: owner_of_def path_eqs change_owner_def workflow_stored_def load_record_def
          decode_workflow_record_def)
    from acc ok(2,1) show ?thesis
    proof (cases rule: api_store.accept_change_cases [OF store, consumes 3])
      case (1 x)
      then show ?thesis by (auto simp: response push_answer_def split: api_error.splits fixture_error.splits)
    next
      case (2 a)
      with ok(1) stored [of "delivered_change_id e (ev_payload envelope)" s "an_workflow_id a"] carried show ?thesis
        by (auto simp: response push_answer_def)
    next
      case (3 a)
      with stored [of "delivered_change_id e (ev_payload envelope)" s' "an_workflow_id a"] carried show ?thesis
        by (auto simp: response push_answer_def)
    qed
  qed
qed

section \<open>Padded change ids\<close>

fun redeliver ::
  "('s, 't) api_env \<Rightarrow> payload \<Rightarrow> str \<Rightarrow> datetime \<Rightarrow> datetime \<Rightarrow> nat \<Rightarrow> process \<times> 's \<Rightarrow>
     (process \<times> 's) \<times> acceptance api list" where
  "redeliver e payload secret created updated 0 ps = (ps, [])"
| "redeliver e payload secret created updated (Suc n) ps =
     (case accept_change e payload secret created updated ps of
        (ps', r) \<Rightarrow> (case redeliver e payload secret created updated n ps' of (ps'', rs) \<Rightarrow> (ps'', r # rs)))"

text \<open>The id of the workflow a process opens as its \<open>j\<close>-th.\<close>

definition opened_id :: "str \<Rightarrow> nat \<Rightarrow> str" where
  "opened_id namespace j = namespace @ ''-'' @ pad_nat 3 j @ ''-001''"

lemma opened_id_inj [simp]: "opened_id namespace i = opened_id namespace j \<longleftrightarrow> i = j"
  by (simp add: opened_id_def pad_nat_inj)

text \<open>What a process has not touched yet: the workflows it will open, and the key of the stripped id.\<close>

definition before_redelivery :: "('s, 't) api_env \<Rightarrow> str \<Rightarrow> str \<Rightarrow> process \<Rightarrow> 's \<Rightarrow> bool" where
  "before_redelivery e namespace change_id p s \<longleftrightarrow>
     rt_durable p \<and> rt_namespace p = namespace \<and>
     (\<forall>j > rt_sequence p. dict_get (rt_revisions p) (opened_id namespace j) = None) \<and>
     dict_get (rt_known_changes p) change_id = None \<and> change_owner e change_id s = None"

context api_store
begin

lemma open_padded:
  assumes ready: "before_redelivery e namespace k p s" and padded: "pd_change_id d \<noteq> k"
    "\<not> safe (change_key (pd_change_id d))"
    and ns: "safe (opened_id namespace (rt_sequence p + 1))"
    and session: "new_session (ae_pf e) (namespace @ ''-'' @ pad_nat 3 (rt_sequence p + 1)) 1 d None secret created
      updated [] = Inr session"
  shows "\<exists>p' s'. open_workflow e payload d secret created updated (p, s) =
      ((p', s'), Inl (ApiCloud (IdentifierRejected (change_key (pd_change_id d))))) \<and>
    before_redelivery e namespace k p' s' \<and> rt_sequence p' = rt_sequence p + 1 \<and>
    preserves (ae_client e) s s' \<and> workflow_stored (ae_client e) (opened_id namespace (rt_sequence p + 1)) s'"
proof -
  let ?id = "opened_id namespace (rt_sequence p + 1)"
  have "pad_nat 3 1 = ''001''" by code_simp
  then have id: "workflow_id_of session = ?id"
    using new_session_fields(3) [OF session] by (simp add: opened_id_def)
  then have wid: "wf_workflow_id (sn_workflow session) = ?id" by (simp add: workflow_id_of_def)
  define p2 where "p2 = p\<lparr>rt_sequence := rt_sequence p + 1,
    rt_services := dict_put ?id session (rt_services p)\<rparr>"
  have p2: "rt_durable p2" "dict_get (rt_revisions p2) ?id = None" "rt_known_changes p2 = rt_known_changes p"
    "rt_revisions p2 = rt_revisions p" "rt_namespace p2 = namespace" "rt_sequence p2 = rt_sequence p + 1"
    using ready by (simp_all add: p2_def before_redelivery_def)
  let ?n = "stored_revision (dc_get (ae_client e) (workflow_at ?id) s) + 1"
  define s1 where "s1 = dc_set (ae_client e) (workflow_at ?id) (WorkflowDocument
    \<lparr>wr_workflow = sn_workflow session, wr_state_history = [], wr_revision = ?n\<rparr>) s"
  define s2 where "s2 = dc_set (ae_client e) (input_at ?id) (InputDocument INPUT_SCHEMA_VERSION (JObj payload)) s1"
  define p3 where "p3 = p2\<lparr>rt_revisions := dict_put ?id ?n (rt_revisions p2)\<rparr>"
  define p4 where "p4 = p3\<lparr>rt_known_changes := dict_put (pd_change_id d) ?id (rt_known_changes p3)\<rparr>"
  have w: "write_workflow e (sn_workflow session) (p2, s) = ((p3, s1), Inr ())"
    using p2(1,2) ns by (simp add: write_workflow_def record_workflow_def save_workflow_simps wid path_eqs of_cloud_def
        s1_def p3_def Let_def)
  have i: "record_input e ?id payload (p3, s1) = ((p3, s2), Inr ())"
    using p2(1) ns by (simp add: record_input_def input_path_eq p3_def s2_def)
  have c: "claim_change e (pd_change_id d) ?id (p3, s2) =
      ((p4, s2), Inl (ApiCloud (IdentifierRejected (change_key (pd_change_id d)))))"
    using p2(1) padded(2) by (simp add: claim_change_def claim_key_def path_eqs p3_def p4_def Let_def of_cloud_def
        api_bind_def)
  have ns': "rt_namespace p = namespace" using ready by (simp add: before_redelivery_def)
  have "open_workflow e payload d secret created updated (p, s) =
      (case and_then (write_workflow e (sn_workflow session))
          (and_then (record_input e ?id payload) (claim_change e (pd_change_id d) ?id)) (p2, s) of
         (ps', Inl x) \<Rightarrow> (ps', Inl x)
       | (ps', Inr _) \<Rightarrow> (ps', Inr \<lparr>an_workflow_id = opened_id namespace (Suc (rt_sequence p)),
           an_state = wf_state (sn_workflow session), an_duplicate_of = None, an_outcome = NEW_LOGICAL_CHANGE\<rparr>))"
    unfolding p2_def by (simp add: open_workflow_def Let_def register_service_def id ns' session [simplified])
  also have "\<dots> = ((p4, s2), Inl (ApiCloud (IdentifierRejected (change_key (pd_change_id d)))))"
    by (simp only: and_then_def w i c prod.case sum.case)
  finally have run: "open_workflow e payload d secret created updated (p, s) =
      ((p4, s2), Inl (ApiCloud (IdentifierRejected (change_key (pd_change_id d)))))" .
  have get: "dc_get (ae_client e) q s2 = (if q = input_at ?id then Some (InputDocument INPUT_SCHEMA_VERSION (JObj payload))
      else if q = workflow_at ?id then Some (WorkflowDocument
        \<lparr>wr_workflow = sn_workflow session, wr_state_history = [], wr_revision = ?n\<rparr>)
      else dc_get (ae_client e) q s)" for q
    by (simp add: s2_def s1_def get_set)
  have pr: "preserves (ae_client e) s s2" by (simp add: preserves_def workflow_stored_def get)
  have "before_redelivery e namespace k p4 s2"
    using ready padded(1) p2
    by (auto simp: before_redelivery_def p4_def p3_def preserved_owner [OF pr])
  moreover have "rt_sequence p4 = rt_sequence p + 1" by (simp add: p4_def p3_def p2(6))
  moreover have "workflow_stored (ae_client e) ?id s2" by (simp add: workflow_stored_def get)
  ultimately show ?thesis using run pr by blast
qed

lemma accept_padded:
  assumes "before_redelivery e namespace k p s" and "delivered_change_id e payload = k" "k \<noteq> []" "safe (change_key k)"
    and "dataset_from_fixture (ae_render e) (ae_directory e) payload = Inr d"
  shows "accept_change e payload secret created updated (p, s) = open_workflow e payload d secret created updated (p, s)"
proof -
  have "durable_owner e p k s = Inr None"
    using assms(1,4) by (simp add: durable_owner_def before_redelivery_def owner_of_def path_eqs change_owner_def)
  then have "classify_change e p k s = Inr \<lparr>ced_outcome = NEW_LOGICAL_CHANGE, ced_change_id = k,
      ced_existing_workflow_id = None\<rparr>"
    using assms(1) by (simp add: classify_change_def api_bind_def classify_change_event_def change_id_probe_def
        before_redelivery_def)
  with assms show ?thesis by (simp add: accept_change_def Let_def ingest_payload_def)
qed

lemma redelivered:
  assumes "before_redelivery e namespace k p s" and "delivered_change_id e payload = k" "k \<noteq> []" "safe (change_key k)"
    and "dataset_from_fixture (ae_render e) (ae_directory e) payload = Inr d"
    and "pd_change_id d \<noteq> k" "\<not> safe (change_key (pd_change_id d))"
    and "\<And>j. rt_sequence p < j \<Longrightarrow> j \<le> rt_sequence p + n \<Longrightarrow> safe (opened_id namespace j)"
    and "\<And>ns. ns \<noteq> [] \<Longrightarrow> \<exists>session. new_session (ae_pf e) ns 1 d None secret created updated [] = Inr session"
  shows "case redeliver e payload secret created updated n (p, s) of
    ((p', s'), rs) \<Rightarrow> rs = replicate n (Inl (ApiCloud (IdentifierRejected (change_key (pd_change_id d))))) \<and>
      preserves (ae_client e) s s' \<and>
      (\<forall>j. rt_sequence p < j \<and> j \<le> rt_sequence p + n \<longrightarrow> workflow_stored (ae_client e) (opened_id namespace j) s')"
  using assms(1,8)
proof (induction n arbitrary: p s)
  case (Suc n)
  have "namespace @ ''-'' @ pad_nat 3 (rt_sequence p + 1) \<noteq> []" by simp
  from assms(9) [OF this] obtain session where
    "new_session (ae_pf e) (namespace @ ''-'' @ pad_nat 3 (rt_sequence p + 1)) 1 d None secret created updated [] =
      Inr session" by blast
  from open_padded [OF Suc.prems(1) assms(6,7) Suc.prems(2) this, of payload] obtain p' s' where
    one: "open_workflow e payload d secret created updated (p, s) =
      ((p', s'), Inl (ApiCloud (IdentifierRejected (change_key (pd_change_id d)))))"
    "before_redelivery e namespace k p' s'" "rt_sequence p' = rt_sequence p + 1" "preserves (ae_client e) s s'"
    "workflow_stored (ae_client e) (opened_id namespace (rt_sequence p + 1)) s'" by auto
  obtain p'' s'' rs where rest: "redeliver e payload secret created updated n (p', s') = ((p'', s''), rs)"
    by (metis prod.exhaust)
  have IH: "rs = replicate n (Inl (ApiCloud (IdentifierRejected (change_key (pd_change_id d)))))"
    "preserves (ae_client e) s' s''"
    "\<And>j. rt_sequence p' < j \<Longrightarrow> j \<le> rt_sequence p' + n \<Longrightarrow> workflow_stored (ae_client e) (opened_id namespace j) s''"
    using Suc.IH [OF one(2)] Suc.prems(2) one(3) by (simp_all add: rest)
  have first: "workflow_stored (ae_client e) (opened_id namespace (rt_sequence p + 1)) s''"
    using IH(2) one(5) safe_no_slash [OF Suc.prems(2) [of "rt_sequence p + 1"]] by (simp add: preserves_def)
  have "workflow_stored (ae_client e) (opened_id namespace j) s''"
    if "rt_sequence p < j" "j \<le> rt_sequence p + Suc n" for j
    using first IH(3) [of j] one(3) that by (cases "j = rt_sequence p + 1") auto
  with IH(1,2) one(1,4) rest show ?case
    using accept_padded [OF Suc.prems(1) assms(2-5)] preserves_trans by fastforce
qed auto

end

text \<open>C14. A change id with surrounding white space is never settled. A payload whose change id is padded is
  classified under the stripped id, but claimed under the id as it is, which is no identifier: in a process
  that has just started, every delivery of it is answered as a transient failure, so Pub/Sub delivers it
  again, and every delivery leaves one more workflow in the store.\<close>

theorem padded_id_never_settles:
  assumes "cloud_store (ae_client e)"
    and "dataset_from_fixture (ae_render e) (ae_directory e) payload = Inr d"
    and "py_strip (pd_change_id d) \<noteq> pd_change_id d" and "safe (change_key (py_strip (pd_change_id d)))"
    and "owner_of (ae_client e) (change_key (py_strip (pd_change_id d))) s = Inr None"
    and "new_session (ae_pf e) namespace 1 d None secret created updated [] = Inr session"
    and "\<And>j. 0 < j \<Longrightarrow> j \<le> n \<Longrightarrow> safe (opened_id namespace j)"
  shows "case redeliver e payload secret created updated n (new_process True namespace instance_id, s) of
    ((p', s'), answers) \<Rightarrow>
      map (push_answer message_id) answers = replicate n TransientFailure \<and>
      (\<forall>j. 0 < j \<and> j \<le> n \<longrightarrow> (\<exists>r. load_record (ae_client e) (opened_id namespace j) s' = Inr (Some r)))"
proof -
  have store: "api_store e" using assms(1) by (simp add: api_store_def)
  let ?k = "py_strip (pd_change_id d)"
  note k = api_store.delivered_text [OF store assms(2)]
  have ready: "before_redelivery e namespace ?k (new_process True namespace instance_id) s"
    using assms(4,5) by (simp add: before_redelivery_def new_process_def owner_of_def path_eqs change_owner_def)
  have unsafe: "\<not> safe (change_key (pd_change_id d))" using unpadded [of "pd_change_id d"] assms(3) by blast
  have sessions: "\<exists>session. new_session (ae_pf e) ns 1 d None secret created updated [] = Inr session"
    if "ns \<noteq> []" for ns
    using new_session_again [OF assms(6) that] by blast
  have seq: "rt_sequence (new_process True namespace instance_id) = 0" by (simp add: new_process_def)
  obtain p' s' answers where run: "redeliver e payload secret created updated n
      (new_process True namespace instance_id, s) = ((p', s'), answers)" by (metis prod.exhaust)
  have sf: "safe (opened_id namespace j)" if "rt_sequence (new_process True namespace instance_id) < j"
    "j \<le> rt_sequence (new_process True namespace instance_id) + n" for j
    using assms(7) that by (simp add: seq)
  have "?k \<noteq> []" using k by simp
  from api_store.redelivered [where n = n, OF store ready k(1) this assms(4,2) assms(3) [symmetric] unsafe sf sessions]
  have "answers = replicate n (Inl (ApiCloud (IdentifierRejected (change_key (pd_change_id d))))) \<and>
      (\<forall>j. 0 < j \<and> j \<le> n \<longrightarrow> workflow_stored (ae_client e) (opened_id namespace j) s')"
    by (simp add: seq run)
  then show ?thesis
    using assms(7) by (auto simp: run push_answer_def workflow_stored_def load_record_def path_eqs
        decode_workflow_record_def)
qed

section \<open>Resuming in another process\<close>

lemma apply_snapshot_workflow: "apply_snapshot d s = Inr s' \<Longrightarrow> sn_workflow s' = sn_workflow s"
  by (auto simp: apply_snapshot_def split: if_splits)

lemma overlay_snapshot_workflow: "overlay_snapshot d s = Inr s' \<Longrightarrow> sn_workflow s' = sn_workflow s"
  by (cases d; cases "the d") (auto simp: overlay_snapshot_def dest: apply_snapshot_workflow)

lemma rebuilt_workflow:
  "rebuild e w d r secret created updated s = Inr session \<Longrightarrow> sn_workflow session = wr_workflow r"
  by (auto simp: rebuild_def dest!: overlay_snapshot_workflow)

text \<open>The rebuilding is the rehydration of what the store holds.\<close>

lemma rebuild_rehydrates:
  assumes "load_records (ae_client e) w s = Inr (Some d)"
  shows "rebuild e w dataset (dr_record d) secret created updated s =
    rehydrate (ae_pf e) w dataset secret created updated d"
proof -
  from assms obtain actions where a: "stored_actions (ae_client e) w s = Inr actions" "dr_actions d = actions"
    and q: "safe w"
    and snap: "dr_snapshot d = (case dc_get (ae_client e) (snapshot_at w) s of
        Some (SnapshotDocument x) \<Rightarrow> Some x | _ \<Rightarrow> None)"
      "\<And>f. overlay_snapshot (dc_get (ae_client e) (snapshot_at w) s) f =
         (case dr_snapshot d of None \<Rightarrow> Inr f | Some x \<Rightarrow> apply_snapshot x f)"
    by (cases "dc_get (ae_client e) (snapshot_at w) s"; cases "the (dc_get (ae_client e) (snapshot_at w) s)")
      (auto simp: load_records_def path_eqs overlay_snapshot_def split: option.splits if_splits)
  then show ?thesis
    by (simp add: rebuild_def rehydrate_def path_eqs Let_def)
qed

lemma rehydrated_workflow:
  assumes "rehydrate_service e p w payload secret created updated s = Inr session" and "rt_durable p"
  shows "\<exists>r. load_record (ae_client e) w s = Inr (Some r) \<and> sn_workflow session = wr_workflow r"
  using assms
  by (auto simp: rehydrate_service_def durable_record_def split: option.splits dest: rebuilt_workflow)

lemma eligible_category:
  "eligibility_of st = Eligible c \<Longrightarrow>
     STATE_CATEGORY st \<notin> {TERMINAL_SUCCESS, TERMINAL_NON_SUCCESS, BLOCKING_GATE}"
  by (auto simp: eligibility_of_def split: state_category.splits)

text \<open>A resume that is not answered from memory: refused with the lease store as it was, failed with the lease
  given back, or granted.\<close>

lemma resume_cases:
  assumes run: "resume e w owner token now secret created updated s (p, t) = ((p', t'), r)"
    and absent: "dict_get (rt_services p) w = None" and durable: "rt_durable p"
  defines "o' \<equiv> if truthy owner then the owner else rt_instance p"
  obtains (refused) x where "r = Inl x" "p' = p" "t' = t"
  | (denied) x y where "r = Inl x" "p' = p" "acquire (ae_leases e) (ae_iso e) w o' token now t = (t', Inl y)"
  | (failed) l t1 x where "r = Inl x" "p' = p"
      "acquire (ae_leases e) (ae_iso e) w o' token now t = (t1, Inr l)" "t' = fst (release (ae_leases e) l t1)"
  | (granted) l c payload session where "r = Inr session"
      "acquire (ae_leases e) (ae_iso e) w o' token now t = (t', Inr l)"
      "resume_eligibility e p w s = Inr (Eligible c)"
      "rehydrate_service e p w payload secret created updated s = Inr session"
      "p' = p\<lparr>rt_services := dict_put w session (rt_services p),
              rt_leases_held := dict_put w l (rt_leases_held p)\<rparr>"
proof (cases "\<exists>c payload. resume_eligibility e p w s = Inr (Eligible c) \<and> load_input e p w s = Inr (Some payload)")
  case False
  with run absent durable have "\<exists>x. r = Inl x \<and> p' = p \<and> t' = t"
    by (cases "resume_eligibility e p w s"; cases "projr (resume_eligibility e p w s)"; cases "load_input e p w s")
      (auto simp: resume_def Let_def split: option.splits)
  then show thesis using refused by blast
next
  case True
  then obtain c payload where ready: "resume_eligibility e p w s = Inr (Eligible c)"
    "load_input e p w s = Inr (Some payload)" by blast
  obtain t1 a where acq: "acquire (ae_leases e) (ae_iso e) w o' token now t = (t1, a)" by fastforce
  show thesis
  proof (cases a)
    case (Inl y)
    with run absent durable ready acq have "\<exists>x. r = Inl x \<and> p' = p \<and> t' = t1"
      by (cases y) (auto simp: resume_def Let_def o'_def)
    with acq Inl show thesis using denied by blast
  next
    case (Inr l)
    show thesis
    proof (cases "rehydrate_service e p w payload secret created updated s")
      case (Inl x)
      with run absent durable ready acq Inr have "r = Inl x" "p' = p" "t' = fst (release (ae_leases e) l t1)"
        by (auto simp: resume_def Let_def o'_def)
      with acq Inr show thesis using failed by blast
    next
      case session: (Inr session)
      with run absent durable ready acq Inr
      have "r = Inr session" "t' = t1" "p' = p\<lparr>rt_services := dict_put w session (rt_services p),
          rt_leases_held := dict_put w l (rt_leases_held p)\<rparr>"
        by (auto simp: resume_def Let_def o'_def)
      with acq Inr ready(1) session show thesis using granted by blast
    qed
  qed
qed

text \<open>C9. Resuming is exclusive and only of workflows that may go on. A process that does not hold a workflow
  is given a session for it only if the stored workflow is neither finished nor waiting for a person, and no
  live lease is on file; the session carries the stored workflow, and the process holds the lease it acquired.
  Otherwise the process is as before, a live lease of another stays on file, and of a lease that was
  acquired for a rebuilding that failed nothing is left.\<close>

theorem resume_exclusive:
  assumes "lease_store (ae_leases e)" and "\<And>t. iso_parse (ae_iso e) (iso_print (ae_iso e) t) = Some t"
    and "lease_path w = Inr q" and "dict_get (rt_services p) w = None" and "rt_durable p"
    and "resume e w owner token now secret created updated s (p, t) = ((p', t'), r)"
  shows "case r of
      Inr session \<Rightarrow>
        (\<exists>record. load_record (ae_client e) w s = Inr (Some record) \<and> sn_workflow session = wr_workflow record \<and>
           STATE_CATEGORY (wf_state (wr_workflow record)) \<notin> {TERMINAL_SUCCESS, TERMINAL_NON_SUCCESS, BLOCKING_GATE}) \<and>
        dict_get (rt_services p') w = Some session \<and>
        (case dc_get (ae_leases e) q t of None \<Rightarrow> True | Some d \<Rightarrow> \<not> document_live (ae_iso e) now d) \<and>
        (\<exists>l d. dict_get (rt_leases_held p') w = Some l \<and> dc_get (ae_leases e) q t' = Some d \<and>
           dict_get d ''token'' = Some (JStr (le_token l)) \<and> document_expiry (ae_iso e) d = Some (le_expires_at l))
    | Inl _ \<Rightarrow> p' = p \<and> (t' = t \<or> dc_get (ae_leases e) q t' = None) \<and>
        (\<forall>d. dc_get (ae_leases e) q t = Some d \<and> document_live (ae_iso e) now d \<longrightarrow>
           dc_get (ae_leases e) q t' = Some d)"
proof -
  note ls = assms(1)
  have ds: "document_store (ae_leases e)" using ls by (simp add: lease_store_def)
  let ?o = "if truthy owner then the owner else rt_instance p"
  have taken: "(case dc_get (ae_leases e) q t of None \<Rightarrow> True | Some d \<Rightarrow> \<not> document_live (ae_iso e) now d) \<and>
      l = lease_for w ?o token now \<and>
      (\<exists>d. dc_get (ae_leases e) q t1 = Some d \<and> on_file (ae_iso e) l d)"
    if acq: "acquire (ae_leases e) (ae_iso e) w ?o token now t = (t1, Inr l)" for t1 l
    using assms(3) acq
  proof (cases rule: lease_store.acquire_cases [OF ls, consumes 2])
    case (2 d)
    moreover have "on_file (ae_iso e) (lease_for w ?o token now) d"
      using 2(3) lease_store.lease_document_on_file [OF ls assms(2)] by blast
    ultimately show ?thesis by auto
  qed simp
  from assms(6,4,5) show ?thesis
  proof (cases rule: resume_cases)
    case (refused x)
    then show ?thesis by simp
  next
    case (denied x y)
    have "t' = t" using assms(3) denied(3)
      by (cases rule: lease_store.acquire_cases [OF ls, consumes 2]) auto
    with denied show ?thesis by simp
  next
    case (failed l t1 x)
    from taken [OF failed(3)] obtain d where l: "le_workflow_id l = w"
      "dc_get (ae_leases e) q t1 = Some d" "dict_get d ''token'' = Some (JStr (le_token l))"
      and free: "case dc_get (ae_leases e) q t of None \<Rightarrow> True | Some d \<Rightarrow> \<not> document_live (ae_iso e) now d"
      by (auto simp: on_file_def lease_for_def)
    then have "t' = dc_delete (ae_leases e) q t1" using failed(4) assms(3) by (simp add: release_def)
    then have "dc_get (ae_leases e) q t' = None" using document_store.get_delete [OF ds] by simp
    with failed(1,2) free show ?thesis by auto
  next
    case (granted l c payload session)
    from rehydrated_workflow [OF granted(4) assms(5)] obtain rec where
      rec: "load_record (ae_client e) w s = Inr (Some rec)" "sn_workflow session = wr_workflow rec" by blast
    have "eligibility_of (wf_state (wr_workflow rec)) = Eligible c"
      using granted(3) rec(1) assms(5) by (simp add: resume_eligibility_def durable_record_def)
    from eligible_category [OF this] taken [OF granted(2)] rec granted(1,5) show ?thesis
      by (auto simp: on_file_def)
  qed
qed

section \<open>Examples\<close>

definition sample_env :: "((str, cloud_document) dict, (str, (str, json) dict) dict) api_env" where
  "sample_env =
     \<lparr>ae_pf = sample_platform, ae_render = (\<lambda>_. ''?''), ae_directory = sample_directory,
      ae_client = memory_client, ae_leases = memory_client, ae_iso = sample_iso\<rparr>"

interpretation api_memory: api_store sample_env
  by (simp add: api_store_def sample_env_def cloud_memory.cloud_store_axioms)

abbreviation accept_sample :: "process \<Rightarrow> (str, cloud_document) dict \<Rightarrow>
    (process \<times> (str, cloud_document) dict) \<times> acceptance api" where
  "accept_sample p s \<equiv> accept_change sample_env (sample_payload ''CHG-1'' []) ''secret'' 1 1 (p, s)"

lemma sample_accepted:
  "case snd (accept_sample (new_process True ''wf-a'' ''one'') []) of
     Inl x \<Rightarrow> False
   | Inr a \<Rightarrow> an_workflow_id a = ''wf-a-001-001'' \<and> an_duplicate_of a = None"
  by code_simp

text \<open>Two processes, a change delivered to the first.\<close>

definition sample_processes :: "nat \<Rightarrow> process" where
  "sample_processes i = new_process True (if i = 0 then ''wf-a'' else ''wf-b'') ''one''"

lemma sample_booted: "service_run sample_env (sample_processes, [], [])"
  by (rule service_run.booted) (simp_all add: sample_env_def memory_client_def sample_processes_def new_process_def)

lemma sample_delivered_id: "delivered_change_id sample_env (sample_payload ''CHG-1'' claims) = ''CHG-1''"
proof -
  have "py_strip ''CHG-1'' = ''CHG-1''" by code_simp
  then show ?thesis by (simp add: delivered_change_id_def sample_payload_def json_default_def py_str_def)
qed

lemma sample_run:
  "\<exists>ps s a. service_run sample_env (ps, s, [(''CHG-1'', a)]) \<and> an_workflow_id a = ''wf-a-001-001'' \<and>
     an_duplicate_of a = None"
proof -
  obtain p s r where run: "accept_sample (sample_processes 0) [] = ((p, s), r)" by (metis prod.exhaust)
  with sample_accepted obtain a where "r = Inr a" "an_workflow_id a = ''wf-a-001-001''" "an_duplicate_of a = None"
    by (auto simp: sample_processes_def split: sum.splits)
  with service_run.accepted [OF sample_booted, of "sample_payload ''CHG-1'' []" "''secret''" 1 1 0 p s a] run
  show ?thesis by (auto simp: sample_delivered_id)
qed

theorem one_workflow_per_change_witness:
  "\<exists>ps s a. service_run sample_env (ps, s, [(''CHG-1'', a)]) \<and>
     owner_of memory_client (change_key ''CHG-1'') s = Inr (Some ''wf-a-001-001'')"
proof -
  obtain ps s a where run: "service_run sample_env (ps, s, [(''CHG-1'', a)])" "an_workflow_id a = ''wf-a-001-001''"
    using sample_run by blast
  from one_workflow_per_change [OF api_memory.cloud_store_axioms run(1)] run
  have "owner_of (ae_client sample_env) (change_key ''CHG-1'') s = Inr (Some ''wf-a-001-001'')" by simp
  with run(1) show ?thesis by (auto simp: sample_env_def)
qed

theorem redelivery_answered_witness:
  "\<exists>ps s state. accept_change sample_env (sample_payload ''CHG-1'' [(''current_value'', JStr ''top'')]) ''x'' 5 5 (ps (1 :: nat), s) =
     ((ps 1, s), Inr \<lparr>an_workflow_id = ''wf-a-001-001'', an_state = state,
                     an_duplicate_of = Some ''wf-a-001-001'', an_outcome = CHANGE_TRANSPORT_DUPLICATE\<rparr>)"
proof -
  obtain ps s a where run: "service_run sample_env (ps, s, [(''CHG-1'', a)])" "an_workflow_id a = ''wf-a-001-001''"
    using sample_run by blast
  from redelivery_answered [OF api_memory.cloud_store_axioms run(1),
      of "sample_payload ''CHG-1'' [(''current_value'', JStr ''top'')]" a "''x''" 5 5 1] run(2)
  show ?thesis by (fastforce simp: sample_delivered_id)
qed

text \<open>A message whose data decodes to the payload.\<close>

definition sample_body :: json where
  "sample_body = JObj [(''message'', JObj [(''data'', JStr ''encoded'')])]"

abbreviation push_sample :: "(process \<times> (str, cloud_document) dict) \<times> push_response" where
  "push_sample \<equiv> push sample_env (\<lambda>_. Inr (JObj (sample_payload ''CHG-1'' []))) (Some sample_body) ''secret'' 1 1
     (sample_processes 0, [])"

lemma sample_pushed: "status_code (snd push_sample) = 200"
  by code_simp

theorem acknowledged_is_stored_witness:
  "\<exists>a. snd push_sample = Acknowledged a JNull \<and>
     (\<exists>r. load_record memory_client (an_workflow_id a) (snd (fst push_sample)) = Inr (Some r))"
proof -
  obtain p s response where run: "push_sample = ((p, s), response)" by (metis prod.exhaust)
  with sample_pushed obtain a m where a: "response = Acknowledged a m"
    by (auto simp: status_code_def split: push_response.splits)
  have "m = JNull"
    using run a by (auto simp: push_def push_answer_def decode_envelope_def sample_body_def is_object_def
        json_or_null_def split: prod.splits sum.splits api_error.splits fixture_error.splits envelope_error.splits)
  with acknowledged_is_stored [OF api_memory.cloud_store_axioms sample_booted run] a run show ?thesis
    by (auto simp: sample_env_def)
qed

text \<open>The change id has a blank in front.\<close>

theorem padded_id_never_settles_witness:
  "\<exists>answers s p. redeliver sample_env (sample_payload '' CHG-1'' []) ''secret'' 1 1 2 (new_process True ''wf-a'' ''one'', [])
       = ((p, s), answers) \<and>
     map (push_answer JNull) answers = [TransientFailure, TransientFailure] \<and>
     (\<exists>r. load_record memory_client ''wf-a-001-001'' s = Inr (Some r)) \<and>
     (\<exists>r. load_record memory_client ''wf-a-002-001'' s = Inr (Some r))"
proof -
  have "case dataset_from_fixture (ae_render sample_env) (ae_directory sample_env) (sample_payload '' CHG-1'' []) of
      Inl e \<Rightarrow> False
    | Inr d \<Rightarrow> pd_change_id d = '' CHG-1'' \<and>
        \<not> isl (new_session (ae_pf sample_env) ''wf-a'' 1 d None ''secret'' 1 1 [])"
    by code_simp
  then obtain d where
    d: "dataset_from_fixture (ae_render sample_env) (ae_directory sample_env) (sample_payload '' CHG-1'' []) = Inr d"
    "pd_change_id d = '' CHG-1''" "\<not> isl (new_session (ae_pf sample_env) ''wf-a'' 1 d None ''secret'' 1 1 [])"
    by (auto split: sum.splits)
  obtain session where session: "new_session (ae_pf sample_env) ''wf-a'' 1 d None ''secret'' 1 1 [] = Inr session"
    using d(3) by (cases "new_session (ae_pf sample_env) ''wf-a'' 1 d None ''secret'' 1 1 []") simp_all
  have k: "py_strip '' CHG-1'' = ''CHG-1''" "safe (change_key ''CHG-1'')" by (code_simp, simp only: safe_def, code_simp)
  have ids: "opened_id ''wf-a'' 1 = ''wf-a-001-001''" "opened_id ''wf-a'' 2 = ''wf-a-002-001''"
    "safe ''wf-a-001-001''" "safe ''wf-a-002-001''"
    by (code_simp, code_simp, simp only: safe_def, code_simp, simp only: safe_def, code_simp)
  have safe_ids: "safe (opened_id ''wf-a'' j)" if "0 < j" "j \<le> 2" for j :: nat
  proof -
    from that have "j = 1 \<or> j = 2" by linarith
    with ids show ?thesis by auto
  qed
  obtain p s answers where run: "redeliver sample_env (sample_payload '' CHG-1'' []) ''secret'' 1 1 2
      (new_process True ''wf-a'' ''one'', []) = ((p, s), answers)" by (metis prod.exhaust)
  have "owner_of (ae_client sample_env) (change_key (py_strip (pd_change_id d))) [] = Inr None"
    using k d(2) by (simp add: owner_of_def path_eqs stored_owner_def sample_env_def memory_client_def)
  from padded_id_never_settles [where n = 2 and message_id = JNull and instance_id = "''one''",
      OF api_memory.cloud_store_axioms d(1) _ _ this session safe_ids]
  have r: "map (push_answer JNull) answers = replicate 2 TransientFailure"
    "\<And>j. 0 < j \<Longrightarrow> j \<le> 2 \<Longrightarrow> \<exists>r. load_record memory_client (opened_id ''wf-a'' j) s = Inr (Some r)"
    using k by (simp_all add: d(2) run) (auto simp: sample_env_def)
  from r(2) [of 1] r(2) [of 2] ids r(1) run show ?thesis by (simp add: numeral_2_eq_2)
qed

text \<open>The second process resumes what the first has opened.\<close>

abbreviation sample_resume :: "(process \<times> (str, (str, json) dict) dict) \<times> session api" where
  "sample_resume \<equiv> resume sample_env ''wf-a-001-001'' None ''t1'' 5 ''other'' 2 2
     (snd (fst (accept_sample (sample_processes 0) []))) (sample_processes 1, [])"

lemma sample_resumed: "\<not> isl (snd sample_resume)"
  by code_simp

theorem resume_exclusive_witness:
  "\<exists>session l. snd sample_resume = Inr session \<and>
     dict_get (rt_services (fst (fst sample_resume))) ''wf-a-001-001'' = Some session \<and>
     dict_get (rt_leases_held (fst (fst sample_resume))) ''wf-a-001-001'' = Some l"
proof -
  obtain p t r where run: "sample_resume = ((p, t), r)" by (metis prod.exhaust)
  with sample_resumed obtain session where "r = Inr session" by (cases r) simp_all
  moreover have "lease_path ''wf-a-001-001'' = Inr ''resume_leases/wf-a-001-001''" by code_simp
  moreover have "lease_store (ae_leases sample_env)"
    by (simp add: sample_env_def lease_memory.lease_store_axioms)
  moreover have "iso_parse (ae_iso sample_env) (iso_print (ae_iso sample_env) x) = Some x" for x
    by (simp add: sample_env_def sample_iso_reads)
  moreover have "dict_get (rt_services (sample_processes 1)) ''wf-a-001-001'' = None" "rt_durable (sample_processes 1)"
    by (simp_all add: sample_processes_def new_process_def)
  ultimately show ?thesis using resume_exclusive [OF _ _ _ _ _ run] run by fastforce
qed

end
