(* ===== verification/Spec2Isabelle.thy ===== *)
theory Spec2Isabelle
  imports State_Machine Change_Proof Tool_Properties Config Retry Sources Proof_Store
    Delivery_Crossing Remediation_Properties Field_Evidence Change_Intel Adjudication Session_Evidence
    Resume_Properties Leases Runtime_Properties
begin

text \<open>
  DriftZero turns an approved change of a source procedure into a corrected downstream document, a
  delivered instruction and a checked photograph, and issues a Change Proof when every step is on record.
  Agents propose; deterministic gates decide. This library models the Python code of
  \<open>src/driftzero\<close> (the engine), \<open>src/driftzero_console\<close> (one session), \<open>src/driftzero_cloud\<close> (the durable
  stores) and \<open>src/driftzero_api\<close> (the runtime of several processes), as functions on explicit state.

  How the parts interact. A payload (Workflows, Pubsub) names two versions of a procedure; Sources reads
  the single value that changed, and a session is opened (Session). The analysis asks a model for
  candidates (Change_Intel, Retry); Crossing 1 filters them and Impact decides on one artifact. The
  autonomy gate (Autonomy) and the broker (Capabilities) let the remediation agent (Remediation) call the
  mutation tool (Mutation_Tool) on the repository (Repository), whose ledger (Actions) admits one write an
  action; Crossing 2 checks the evidence. The instruction is delivered and acknowledged (Delivery,
  Delivery_Crossing: Crossing 3). A photograph is stored and observed (Field_Evidence,
  Field_Observation: Crossing 4) and compared with the approved value (Verification, Adjudication). Seven
  conditions over these records admit the proof (Change_Proof, Proof_Store). All moves go through one
  transition table (State_Machine). A session flushes its records (Cloud_Store, Documents); another
  process accepts duplicates, takes a lease (Leases) and rebuilds it (Resume_Snapshot, Runtime).

  Theories and code. Shared: Prelude (strings, dictionaries, dates, raised exceptions), Models
  (\<open>models/*.py\<close>), Samples, Write_Once (the interface of the append-only stores).
  Engine, \<open>truth_engine/\<close>: State_Machine (\<open>state_machine.py\<close>, \<open>supersession.py\<close>), Canonical and Evidence
  (\<open>evidence.py\<close>), Idempotency, Verification, Impact, Actions, Autonomy (\<open>divergence.py\<close>,
  \<open>autonomy_gate.py\<close>), Validation, Change_Proof (\<open>proof_generator.py\<close>).
  Effects: Capabilities (\<open>capabilities.py\<close>), Repository and Mutation_Tool (\<open>tools/artifact_mutation.py\<close>),
  Config (\<open>config.py\<close>), Retry (\<open>retry.py\<close>), Sources (\<open>sources/registry.py\<close>), Proof_Store
  (\<open>proof/store.py\<close>), Delivery (\<open>delivery/local_channel.py\<close>, \<open>agents/enablement.py\<close>), Field_Evidence
  (\<open>media/container.py\<close>, \<open>field/evidence.py\<close>).
  Agents and crossings: Change_Intel, Remediation, Field_Observation, Adjudication
  (\<open>agents/*.py\<close>), each with its crossing of \<open>orchestration.py\<close>; Delivery_Crossing.
  Session, \<open>driftzero_console/service.py\<close>: Session (the state and its recording), Session_Handlers
  (analysis, remediation, security probe), Session_Field (delivery, evidence, proof, the requests).
  A method of the service is the definition of the same name; a session with the effects of a call goes
  in and comes out, with \<open>Inl\<close> for what the method raises. State that the code changed before an
  exception stays changed in the model.
  Durable: Documents and Cloud_Store (\<open>serialization.py\<close>, \<open>firestore.py\<close>, \<open>composition.py\<close>), Leases
  (\<open>leases.py\<close>), Resume_Snapshot (\<open>resume_snapshot.py\<close>), Workflows (\<open>driftzero_console/workflows.py\<close>),
  Runtime (\<open>driftzero_api/runtime.py\<close>), Pubsub (\<open>driftzero_api/pubsub.py\<close>).

  State. A process is a record of its registry, caches and held leases (Runtime); the document store
  it shares with others is the second component of the state. A session is a record of the fields of
  \<open>_Session\<close> and of its service (Session). The stores, ledger, broker, repository and channel are
  records with the dictionaries of the code, in insertion order where the code reads it. Dates are integers (microseconds),
  a Python string is a list of characters.

  Parameters. SHA-256 (\<open>pf_H\<close>), HMAC (\<open>pf_mac\<close>), ISO rendering and parsing, \<open>repr\<close>, the texts of exceptions, the
  difference of two clock floats, \<open>float\<close> of a string, the readings of clocks and random tokens, model
  and field providers (functions on an unknown world), Pydantic's parsing of a model's answer, the
  decoding of a message, and the Firestore client. Theorems hold for all of them unless they name a
  hypothesis: distinct digests where tampering is to be seen, the laws of \<open>document_store\<close> where
  documents are stored, distinct tokens or namespaces where processes are told apart.

  What the lemmas show. State_Machine: the one path to a proof, its length, and states with no way back.
  Change_Proof, Proof_Store: the proof is issued exactly on the seven conditions, certifies the records,
  is reproducible and tamper evident. Capabilities, Tool_Properties, Remediation_Properties: a write
  needs a live grant of the right holder, target and tool, happens once, and reaches the source.
  Verification, Adjudication, Field_Observation: the verdict is the comparison with the approved value, and
  the latest one decides. Session_Way reads the way a session went off its own records; Session_Invariant
  and Session_Progress prove one step relation (\<open>follows\<close>) of every use case, which only prolongs that way;
  Session_Effects, Session_Inputs and Session_Liveness say what requests leave alone and that a delivered session can be judged; Session_Properties and Session_Evidence draw the properties
  of all reachable sessions from them. Leases, Cloud_Properties, Ingestion, Resume_Properties and
  Runtime_Properties do so for several processes over one store: one workflow a change, one live lease,
  refused stale writers, and a rebuilt session that proves what the first one would have.
  The interfaces are locales (\<open>write_once\<close>, \<open>artifact_repository\<close>, \<open>delivery_channel\<close>, \<open>document_store\<close>
  with \<open>cloud_store\<close>, \<open>lease_store\<close> and \<open>api_store\<close>), each interpreted on the stores of the code, those
  over documents on a map from paths to documents.

  Where the code falls short of its documentation, a theorem says how: a change id with white space is
  redelivered for ever, a resumed session delivers and pays again, two contenders can both take over an
  expired lease, the first write of a process overwrites whatever is stored and, when another comes between
  its reading and its setting, lets a stale writer through later, a failed attempt on an image is final.

  Bounds. No loop needs fuel: the retry loop recurses on its attempts (at most three under an accepted
  configuration), every other recursion is structural or on the rest of a text.

  Not modelled, and why. HTTP routes, response schemas and pages, the public demonstration surface, the command line and
  observability print or forward what the modelled operations return. Model SDKs, the ADK runtime,
  Cloud Storage and tracing are third-party calls. The readiness report and the evidence listing are
  projections for display, as are summaries and sentences for a reader, and the enforcement disclosure. Reading
  files is replaced by the parsed documents. The scripts run the program and hold no logic of their own.
  A session's writes to its sink are logged in order and never raise, while the sink of the code can: a
  conflict would end the use case between two writes, a proof recorded and the state not yet advanced
  included. Cloud_Store flushes one session as a whole, up to the first write that is refused. The
  operations of the documents are uninterrupted, but for the two places where the code reads and writes in
  separate calls: taking a lease over (Leases) and the first write of a workflow (Cloud_Store). Accepting a
  change is one step of its process, so the overlap of two acceptances - whose loser fails at the claim,
  with its workflow already stored - is outside the runs of Runtime_Properties.
\<close>

end
